(* ===== verification/Prelude.thy ===== *)
theory Prelude
  imports Main "HOL-Library.Word"
begin

text \<open>
  Shared vocabulary of the development: machine integers and byte strings, Rust's
  \<open>Result\<close> with panics kept apart from errors, the state-and-error monad in which the
  operations that take \<open>&mut\<close> stores and random generators are written, slices of byte
  strings with their panics, and the generic lemmas the components use.
\<close>

unbundle bit_operations_syntax

section \<open>Machine types\<close>

type_synonym u8 = "8 word"
type_synonym u32 = "32 word"
type_synonym i32 = "32 word"
type_synonym u64 = "64 word"
type_synonym bytes = "u8 list"

named_theorems result_simps \<open>inversion rules for the result and state monads\<close>
named_theorems keeps_intros \<open>rules for parts of the state an operation leaves alone\<close>
named_theorems len_simps \<open>lengths of derived byte strings\<close>

section \<open>Results\<close>

text \<open>
  \<open>Ok\<close> and \<open>Err\<close> are Rust's; \<open>Panic\<close> is an unwinding panic (a failed \<open>assert!\<close>, a slice
  out of range), which no \<open>match\<close> on an \<open>Err\<close> can catch.
\<close>

datatype ('e, 'a) result = Ok 'a | Err 'e | Panic

fun rbind :: "('e, 'a) result \<Rightarrow> ('a \<Rightarrow> ('e, 'b) result) \<Rightarrow> ('e, 'b) result" where
  "rbind (Ok x) f = f x"
| "rbind (Err e) f = Err e"
| "rbind Panic f = Panic"

fun is_ok :: "('e, 'a) result \<Rightarrow> bool" where
  "is_ok (Ok x) = True"
| "is_ok (Err e) = False"
| "is_ok Panic = False"

definition ok_or :: "'a option \<Rightarrow> 'e \<Rightarrow> ('e, 'a) result" where
  "ok_or x e = (case x of None \<Rightarrow> Err e | Some v \<Rightarrow> Ok v)"

lemma rbind_cong [fundef_cong]:
  "m = m' \<Longrightarrow> (\<And>x. m' = Ok x \<Longrightarrow> f x = g x) \<Longrightarrow> rbind m f = rbind m' g"
  by (cases m') auto

lemma rbind_eq_Ok [result_simps]: "rbind m f = Ok y \<longleftrightarrow> (\<exists>x. m = Ok x \<and> f x = Ok y)"
  by (cases m) auto

lemma rbind_eq_Err [result_simps]:
  "rbind m f = Err e \<longleftrightarrow> m = Err e \<or> (\<exists>x. m = Ok x \<and> f x = Err e)"
  by (cases m) auto

lemma rbind_eq_Panic [result_simps]:
  "rbind m f = Panic \<longleftrightarrow> m = Panic \<or> (\<exists>x. m = Ok x \<and> f x = Panic)"
  by (cases m) auto

lemma rbind_assoc: "rbind (rbind m f) g = rbind m (\<lambda>x. rbind (f x) g)"
  by (cases m) auto

lemma rbind_Ok_right [simp]: "rbind m Ok = m"
  by (cases m) auto

lemma ok_or_simps [simp]: "ok_or None e = Err e" "ok_or (Some v) e = Ok v"
  by (simp_all add: ok_or_def)

lemma ok_or_eq_Ok [result_simps]: "ok_or x e = Ok v \<longleftrightarrow> x = Some v"
  by (cases x) auto

lemma ok_or_not_Panic [simp]: "ok_or x e \<noteq> Panic"
  by (cases x) auto

lemma is_ok_iff: "is_ok m \<longleftrightarrow> (\<exists>x. m = Ok x)"
  by (cases m) auto

section \<open>State and errors\<close>

text \<open>
  An operation on \<open>&mut\<close> state returns its outcome together with the state it leaves
  behind, on every outcome: a state change made before an error stays made.
\<close>

type_synonym ('s, 'e, 'a) st = "'s \<Rightarrow> ('e, 'a) result \<times> 's"

definition sret :: "'a \<Rightarrow> ('s, 'e, 'a) st" where
  "sret x = (\<lambda>s. (Ok x, s))"

definition sthrow :: "'e \<Rightarrow> ('s, 'e, 'a) st" where
  "sthrow e = (\<lambda>s. (Err e, s))"

definition slift :: "('e, 'a) result \<Rightarrow> ('s, 'e, 'a) st" where
  "slift r = (\<lambda>s. (r, s))"

definition sbind :: "('s, 'e, 'a) st \<Rightarrow> ('a \<Rightarrow> ('s, 'e, 'b) st) \<Rightarrow> ('s, 'e, 'b) st" where
  "sbind m f = (\<lambda>s. case m s of
     (Ok x, s') \<Rightarrow> f x s'
   | (Err e, s') \<Rightarrow> (Err e, s')
   | (Panic, s') \<Rightarrow> (Panic, s'))"

text \<open>Running an operation on one half of a pair of states, the other half untouched.\<close>

definition on_fst :: "('s, 'e, 'a) st \<Rightarrow> ('s \<times> 'r, 'e, 'a) st" where
  "on_fst m = (\<lambda>(s, r). case m s of (x, s') \<Rightarrow> (x, (s', r)))"

definition on_snd :: "('r, 'e, 'a) st \<Rightarrow> ('s \<times> 'r, 'e, 'a) st" where
  "on_snd m = (\<lambda>(s, r). case m r of (x, r') \<Rightarrow> (x, (s, r')))"

text \<open>An infallible draw from a generator.\<close>

definition sgen :: "('s \<Rightarrow> 'a \<times> 's) \<Rightarrow> ('s, 'e, 'a) st" where
  "sgen f = (\<lambda>s. case f s of (x, s') \<Rightarrow> (Ok x, s'))"

lemma sgen_apply [simp]: "sgen f s = (Ok (fst (f s)), snd (f s))"
  by (simp add: sgen_def split_beta)

lemma sret_apply [simp]: "sret x s = (Ok x, s)"
  by (simp add: sret_def)

lemma sthrow_apply [simp]: "sthrow e s = (Err e, s)"
  by (simp add: sthrow_def)

lemma slift_apply [simp]: "slift r s = (r, s)"
  by (simp add: slift_def)

lemma sbind_simps [simp]:
  "m s = (Ok x, s') \<Longrightarrow> sbind m f s = f x s'"
  "m s = (Err e, s') \<Longrightarrow> sbind m f s = (Err e, s')"
  "m s = (Panic, s') \<Longrightarrow> sbind m f s = (Panic, s')"
  by (simp_all add: sbind_def)

lemma sbind_slift [simp]:
  "sbind (slift (Ok x)) f s = f x s"
  "sbind (slift (Err e)) f s = (Err e, s)"
  "sbind (slift Panic) f s = (Panic, s)"
  by simp_all

lemma sbind_sret [simp]: "sbind (sret x) f s = f x s"
  by simp

lemma sbind_sthrow [simp]: "sbind (sthrow e) f s = (Err e, s)"
  by simp

lemma sbind_eq_Ok [result_simps]:
  "sbind m f s = (Ok y, s'') \<longleftrightarrow> (\<exists>x s'. m s = (Ok x, s') \<and> f x s' = (Ok y, s''))"
  by (auto simp: sbind_def split: prod.splits result.splits)

lemma sbind_eq_Err [result_simps]:
  "sbind m f s = (Err e, s'') \<longleftrightarrow>
     m s = (Err e, s'') \<or> (\<exists>x s'. m s = (Ok x, s') \<and> f x s' = (Err e, s''))"
  by (auto simp: sbind_def split: prod.splits result.splits)

lemma sbind_eq_Panic [result_simps]:
  "sbind m f s = (Panic, s'') \<longleftrightarrow>
     m s = (Panic, s'') \<or> (\<exists>x s'. m s = (Ok x, s') \<and> f x s' = (Panic, s''))"
  by (auto simp: sbind_def split: prod.splits result.splits)

lemma on_fst_apply [simp]: "m s = (x, s') \<Longrightarrow> on_fst m (s, r) = (x, (s', r))"
  by (simp add: on_fst_def)

lemma on_snd_apply [simp]: "m r = (x, r') \<Longrightarrow> on_snd m (s, r) = (x, (s, r'))"
  by (simp add: on_snd_def)

text \<open>\<open>keeps f m\<close>: the operation \<open>m\<close> leaves the part \<open>f\<close> of the state as it was, on every outcome.\<close>

definition keeps :: "('s \<Rightarrow> 'v) \<Rightarrow> ('s, 'e, 'a) st \<Rightarrow> bool" where
  "keeps f m \<longleftrightarrow> (\<forall>s. f (snd (m s)) = f s)"

lemma keepsD: "keeps f m \<Longrightarrow> m s = (x, s') \<Longrightarrow> f s' = f s"
  by (metis keeps_def snd_conv)

lemma keepsI: "(\<And>s x s'. m s = (x, s') \<Longrightarrow> f s' = f s) \<Longrightarrow> keeps f m"
  by (metis keeps_def prod.collapse)

lemma keeps_basic [keeps_intros]: "keeps f (sret x)" "keeps f (sthrow e)" "keeps f (slift r)"
  by (simp_all add: keeps_def)

lemma keeps_sbind [keeps_intros]:
  "keeps f m \<Longrightarrow> (\<And>x. keeps f (g x)) \<Longrightarrow> keeps f (sbind m g)"
  unfolding keeps_def sbind_def by (auto split: prod.splits result.splits) (metis snd_conv)+

lemma keeps_on_fst [keeps_intros]: "keeps f m \<Longrightarrow> keeps (\<lambda>s. f (fst s)) (on_fst m)"
  by (auto simp: keeps_def on_fst_def split: prod.splits) (metis snd_conv)

lemma keeps_on_snd [keeps_intros]: "keeps (\<lambda>s. f (fst s)) (on_snd m)"
  by (auto simp: keeps_def on_snd_def split: prod.splits)

lemma keeps_If [keeps_intros]: "keeps f m \<Longrightarrow> keeps f n \<Longrightarrow> keeps f (if b then m else n)"
  by simp

lemma keeps_case_option [keeps_intros]:
  "keeps f m \<Longrightarrow> (\<And>x. keeps f (n x)) \<Longrightarrow> keeps f (case y of None \<Rightarrow> m | Some x \<Rightarrow> n x)"
  by (simp split: option.splits)

lemma keeps_case_prod [keeps_intros]: "(\<And>x y. keeps f (m x y)) \<Longrightarrow> keeps f (case z of (x, y) \<Rightarrow> m x y)"
  by (simp split: prod.splits)

lemma keeps_id: "keeps (\<lambda>s. s) m \<Longrightarrow> keeps f m"
  by (simp add: keeps_def)

text \<open>
  \<open>never_fails m\<close>: the operation always returns \<open>Ok\<close>. \<open>fails_clean f m\<close>: when it does not return \<open>Ok\<close>, it
  leaves the part \<open>f\<close> of the state as it was.
\<close>

definition never_fails :: "('s, 'e, 'a) st \<Rightarrow> bool" where
  "never_fails m \<longleftrightarrow> (\<forall>s. is_ok (fst (m s)))"

definition fails_clean :: "('s \<Rightarrow> 'v) \<Rightarrow> ('s, 'e, 'a) st \<Rightarrow> bool" where
  "fails_clean f m \<longleftrightarrow> (\<forall>s. \<not> is_ok (fst (m s)) \<longrightarrow> f (snd (m s)) = f s)"

lemma never_fails_intros [keeps_intros]:
  "never_fails (sret x)" "never_fails m \<Longrightarrow> never_fails (on_fst m)"
  "never_fails m \<Longrightarrow> (\<And>x. never_fails (g x)) \<Longrightarrow> never_fails (sbind m g)"
  by (auto simp: never_fails_def on_fst_def sbind_def split: prod.splits result.splits)
     (metis fst_conv, metis fst_conv is_ok.simps(2), metis fst_conv is_ok.simps(3))

lemma fails_clean_never: "never_fails m \<Longrightarrow> fails_clean f m"
  by (simp add: never_fails_def fails_clean_def)

lemma fails_clean_keeps: "keeps f m \<Longrightarrow> fails_clean f m"
  by (simp add: keeps_def fails_clean_def)

lemma fails_clean_sbind:
  assumes "keeps f m" "\<And>x. fails_clean f (g x)"
  shows "fails_clean f (sbind m g)"
  unfolding fails_clean_def
proof (intro allI impI)
  fix s assume fail: "\<not> is_ok (fst (sbind m g s))"
  obtain x s' where m: "m s = (x, s')" by fastforce
  then have "f s' = f s" using assms(1) by (rule keepsD [rotated])
  with fail m assms(2) show "f (snd (sbind m g s)) = f s"
    by (cases x) (auto simp: fails_clean_def)
qed

lemma fails_clean_If: "fails_clean f m \<Longrightarrow> fails_clean f n \<Longrightarrow> fails_clean f (if b then m else n)"
  by simp

lemma fails_clean_case_prod:
  "(\<And>x y. fails_clean f (m x y)) \<Longrightarrow> fails_clean f (case z of (x, y) \<Rightarrow> m x y)"
  by (simp split: prod.splits)

lemma fails_cleanD: "fails_clean f m \<Longrightarrow> m s = (x, s') \<Longrightarrow> \<not> is_ok x \<Longrightarrow> f s' = f s"
  by (metis fails_clean_def fst_conv snd_conv)

text \<open>
  \<open>yields I m Q\<close>: the operation \<open>m\<close> keeps the invariant \<open>I\<close> of the state on every outcome, and what
  it returns satisfies \<open>Q\<close>.
\<close>

definition yields :: "('s \<Rightarrow> bool) \<Rightarrow> ('s, 'e, 'a) st \<Rightarrow> ('a \<Rightarrow> bool) \<Rightarrow> bool" where
  "yields I m Q \<longleftrightarrow> (\<forall>s x s'. I s \<longrightarrow> m s = (x, s') \<longrightarrow> I s' \<and> (\<forall>y. x = Ok y \<longrightarrow> Q y))"

lemma yieldsD: "yields I m Q \<Longrightarrow> m s = (x, s') \<Longrightarrow> I s \<Longrightarrow> I s'"
  by (auto simp: yields_def)

lemma yields_sret: "Q x \<Longrightarrow> yields I (sret x) Q"
  by (simp add: yields_def)

lemma yields_sthrow: "yields I (sthrow e) Q"
  by (simp add: yields_def)

lemma yields_slift: "(\<And>x. r = Ok x \<Longrightarrow> Q x) \<Longrightarrow> yields I (slift r) Q"
  by (simp add: yields_def)

lemma yields_sbind:
  assumes "yields I m Q" "\<And>x. Q x \<Longrightarrow> yields I (g x) R"
  shows "yields I (sbind m g) R"
  unfolding yields_def
proof (intro allI impI)
  fix s x s' assume s: "I s" and run: "sbind m g s = (x, s')"
  obtain y s1 where m: "m s = (y, s1)" by fastforce
  then have y: "I s1" "\<And>z. y = Ok z \<Longrightarrow> Q z" using assms(1) s by (auto simp: yields_def)
  show "I s' \<and> (\<forall>y. x = Ok y \<longrightarrow> R y)"
  proof (cases y)
    case (Ok z)
    with m run have "g z s1 = (x, s')" by simp
    with assms(2) [OF y(2) [OF Ok]] y(1) show ?thesis by (auto simp: yields_def)
  qed (use m run y in auto)
qed

lemma yields_on_fst: "yields I m Q \<Longrightarrow> yields (\<lambda>s. I (fst s)) (on_fst m) Q"
  by (auto simp: yields_def on_fst_def split: prod.splits)

lemma yields_If: "(b \<Longrightarrow> yields I m Q) \<Longrightarrow> (\<not> b \<Longrightarrow> yields I n Q) \<Longrightarrow> yields I (if b then m else n) Q"
  by simp

lemma yields_case_prod: "(\<And>x y. z = (x, y) \<Longrightarrow> yields I (m x y) Q) \<Longrightarrow> yields I (case z of (x, y) \<Rightarrow> m x y) Q"
  by (simp split: prod.splits)

lemma yields_case_option:
  "(y = None \<Longrightarrow> yields I m Q) \<Longrightarrow> (\<And>x. y = Some x \<Longrightarrow> yields I (n x) Q) \<Longrightarrow>
     yields I (case y of None \<Rightarrow> m | Some x \<Rightarrow> n x) Q"
  by (simp split: option.splits)

lemma yields_bind_slift: "(\<And>x. r = Ok x \<Longrightarrow> yields I (g x) R) \<Longrightarrow> yields I (sbind (slift r) g) R"
  by (rule yields_sbind [OF yields_slift]) auto

lemma yields_bind_on_snd:
  "(\<And>x r r'. m r = (Ok x, r') \<Longrightarrow> yields (\<lambda>s. I (fst s)) (g x) R) \<Longrightarrow> yields (\<lambda>s. I (fst s)) (sbind (on_snd m) g) R"
proof (rule yields_sbind)
  show "yields (\<lambda>s. I (fst s)) (on_snd m) (\<lambda>x. \<exists>r r'. m r = (Ok x, r'))"
    by (auto simp: yields_def on_snd_def split: prod.splits)
qed auto

lemma yields_bind_on_fst:
  "yields I m Q \<Longrightarrow> (\<And>x. Q x \<Longrightarrow> yields (\<lambda>s. I (fst s)) (g x) R) \<Longrightarrow> yields (\<lambda>s. I (fst s)) (sbind (on_fst m) g) R"
  by (rule yields_sbind [OF yields_on_fst])

lemma yields_bind_option:
  "(y = None \<Longrightarrow> yields I m (\<lambda>_. True)) \<Longrightarrow> (\<And>x. y = Some x \<Longrightarrow> yields I (n x) (\<lambda>_. True)) \<Longrightarrow> (\<And>x. yields I (g x) R) \<Longrightarrow>
     yields I (sbind (case y of None \<Rightarrow> m | Some x \<Rightarrow> n x) g) R"
  by (rule yields_sbind [OF yields_case_option]) auto

section \<open>Repetition\<close>

text \<open>\<open>passes n body x\<close> runs \<open>body\<close> \<open>n\<close> times, starting with \<open>x\<close>, unless a run fails.\<close>

primrec passes :: "nat \<Rightarrow> ('a \<Rightarrow> ('e, 'a) result) \<Rightarrow> 'a \<Rightarrow> ('e, 'a) result" where
  "passes 0 body x = Ok x"
| "passes (Suc n) body x = rbind (body x) (passes n body)"

section \<open>Queues\<close>

text \<open>A loop that moves the elements of a list to the back of a queue.\<close>

primrec push_back_all :: "('a \<Rightarrow> 'b) \<Rightarrow> 'a list \<Rightarrow> 'b list \<Rightarrow> 'b list" where
  "push_back_all f [] queue = queue"
| "push_back_all f (x # xs) queue = push_back_all f xs (queue @ [f x])"

lemma push_back_all_eq [simp]: "push_back_all f xs queue = queue @ map f xs"
  by (induction xs arbitrary: queue) simp_all

section \<open>Slices\<close>

text \<open>\<open>slice xs off n\<close> is \<open>&xs[off..off + n]\<close> (and \<open>array_ref![xs, off, n]\<close>).\<close>

definition slice :: "'a list \<Rightarrow> nat \<Rightarrow> nat \<Rightarrow> ('e, 'a list) result" where
  "slice xs off n = (if off + n \<le> length xs then Ok (take n (drop off xs)) else Panic)"

lemma slice_eq_Ok [result_simps]:
  "slice xs off n = Ok ys \<longleftrightarrow> off + n \<le> length xs \<and> ys = take n (drop off xs)"
  by (auto simp: slice_def)

lemma slice_in_range [simp]: "off + n \<le> length xs \<Longrightarrow> slice xs off n = Ok (take n (drop off xs))"
  by (simp add: slice_def)

lemma slice_not_Err [simp]: "slice xs off n \<noteq> Err e"
  by (simp add: slice_def)

text \<open>
  The other operations of Rust that panic: \<open>xs[i]\<close>, \<open>&xs[i..j]\<close>, \<open>&xs[i..]\<close>, \<open>x.unwrap()\<close> and a difference
  of lengths. The difference panics when overflow is checked; when it is not, it wraps around to
  a number beyond every length, and the slice that it bounds panics in its place.
\<close>

definition index_at :: "'a list \<Rightarrow> nat \<Rightarrow> ('e, 'a) result" where
  "index_at xs i = (if i < length xs then Ok (xs ! i) else Panic)"

definition slice_range :: "'a list \<Rightarrow> nat \<Rightarrow> nat \<Rightarrow> ('e, 'a list) result" where
  "slice_range xs i j = (if i \<le> j \<and> j \<le> length xs then Ok (take (j - i) (drop i xs)) else Panic)"

definition slice_from :: "'a list \<Rightarrow> nat \<Rightarrow> ('e, 'a list) result" where
  "slice_from xs i = (if i \<le> length xs then Ok (drop i xs) else Panic)"

definition usize_sub :: "nat \<Rightarrow> nat \<Rightarrow> ('e, nat) result" where
  "usize_sub a b = (if b \<le> a then Ok (a - b) else Panic)"

definition unwrap :: "'a option \<Rightarrow> ('e, 'a) result" where
  "unwrap x = (case x of None \<Rightarrow> Panic | Some v \<Rightarrow> Ok v)"

lemmas panicking_defs = index_at_def slice_range_def slice_from_def usize_sub_def unwrap_def

lemma panicking_eq_Ok [result_simps]:
  "index_at xs i = Ok x \<longleftrightarrow> i < length xs \<and> x = xs ! i"
  "slice_range xs i j = Ok ys \<longleftrightarrow> i \<le> j \<and> j \<le> length xs \<and> ys = take (j - i) (drop i xs)"
  "slice_from xs i = Ok ys \<longleftrightarrow> i \<le> length xs \<and> ys = drop i xs"
  "usize_sub a b = Ok n \<longleftrightarrow> b \<le> a \<and> n = a - b"
  "unwrap opt = Ok v \<longleftrightarrow> opt = Some v"
  by (auto simp: panicking_defs split: option.split)

lemma panicking_eq_Panic [result_simps]:
  "index_at xs i = Panic \<longleftrightarrow> length xs \<le> i"
  "slice_range xs i j = Panic \<longleftrightarrow> \<not> (i \<le> j \<and> j \<le> length xs)"
  "slice_from xs i = Panic \<longleftrightarrow> length xs < i"
  "usize_sub a b = Panic \<longleftrightarrow> a < b"
  "unwrap opt = Panic \<longleftrightarrow> opt = None"
  by (auto simp: panicking_defs split: option.split)

lemma panicking_not_Err [simp]:
  "index_at xs i \<noteq> Err e" "slice_range xs i j \<noteq> Err e" "slice_from xs i \<noteq> Err e"
  "usize_sub a b \<noteq> Err e" "unwrap opt \<noteq> Err e"
  by (auto simp: panicking_defs split: option.split)

lemma panicking_simps [simp]:
  "index_at (x # xs) 0 = Ok x" "slice_from (x # xs) (Suc 0) = Ok xs" "unwrap (Some v) = Ok v"
  "i \<le> j \<Longrightarrow> j \<le> length xs \<Longrightarrow> slice_range xs i j = Ok (take (j - i) (drop i xs))"
  "b \<le> a \<Longrightarrow> usize_sub a b = Ok (a - b)"
  by (simp_all add: panicking_defs)

text \<open>
  \<open>ct_eq\<close> of the \<open>subtle\<close> crate on slices: slices of different length are unequal,
  slices of the same length are compared byte by byte without an early exit.
\<close>

definition ct_eq :: "bytes \<Rightarrow> bytes \<Rightarrow> bool" where
  "ct_eq a b \<longleftrightarrow> length a = length b \<and> list_all2 (=) a b"

lemma ct_eq_iff [simp]: "ct_eq a b \<longleftrightarrow> a = b"
  by (auto simp: ct_eq_def list.rel_eq)

section \<open>Words\<close>

lemma unat_u32_less: "unat (n :: u32) < 4294967296"
proof -
  have "unat n < 2 ^ LENGTH(32)" by (rule unsigned_less)
  then show ?thesis by simp
qed

lemma unat_u32_max: "unat n = 4294967295 \<longleftrightarrow> n = (- 1 :: u32)"
proof -
  have "unat (- 1 :: u32) = 4294967295" by (simp add: unsigned_minus_1_eq_mask mask_eq_exp_minus_1)
  then show ?thesis by (metis word_unat_eq_iff)
qed

lemma unat_plus_one:
  fixes x y :: "'a::len word"
  assumes "x < y"
  shows "unat (x + 1) = Suc (unat x)"
proof -
  have "unat x < unat y" using assms by (simp add: word_less_nat_alt)
  then have "Suc (unat x) < 2 ^ LENGTH('a)"
    using unsigned_less [of y] by (metis Suc_lessI less_trans_Suc order_less_trans)
  then show ?thesis by (simp add: unat_word_ariths mod_less)
qed

lemma word_less_plus_one_le:
  fixes x y :: "'a::len word"
  assumes "x < y"
  shows "x + 1 \<le> y"
  using assms unat_plus_one [OF assms] by (simp add: word_le_nat_alt word_less_nat_alt)

lemma unat_minus_of_le:
  fixes x y :: "'a::len word"
  assumes "y \<le> x"
  shows "unat (x - y) = unat x - unat y"
  using assms by (simp add: unat_sub)

section \<open>Lists\<close>

text \<open>\<open>position p xs\<close> is \<open>xs.iter().position(p)\<close>; \<open>remove_at i xs\<close> is \<open>xs.remove(i)\<close> in range.\<close>

fun position :: "('a \<Rightarrow> bool) \<Rightarrow> 'a list \<Rightarrow> nat option" where
  "position p [] = None"
| "position p (x # xs) = (if p x then Some 0 else map_option Suc (position p xs))"

definition remove_at :: "nat \<Rightarrow> 'a list \<Rightarrow> 'a list" where
  "remove_at i xs = take i xs @ drop (Suc i) xs"

lemma position_None [simp]: "position p xs = None \<longleftrightarrow> (\<forall>x\<in>set xs. \<not> p x)"
  by (induction xs) auto

lemma position_Some:
  "position p xs = Some i \<Longrightarrow> i < length xs \<and> p (xs ! i) \<and> (\<forall>j<i. \<not> p (xs ! j))"
proof (induction xs arbitrary: i)
  case Nil
  then show ?case by simp
next
  case (Cons x xs)
  show ?case
  proof (cases "p x")
    case True
    with Cons.prems show ?thesis by simp
  next
    case False
    with Cons.prems obtain k where "position p xs = Some k" "i = Suc k" by auto
    with False Cons.IH [of k] show ?thesis
      by (auto simp: nth_Cons less_Suc_eq_0_disj split: nat.splits)
  qed
qed

lemma position_Some_in_set: "position p xs = Some i \<Longrightarrow> \<exists>x\<in>set xs. p x"
  using position_Some [of p xs i] nth_mem by blast

lemma length_remove_at: "i < length xs \<Longrightarrow> length (remove_at i xs) = length xs - 1"
  by (simp add: remove_at_def)

lemma remove_at_simps [simp]:
  "remove_at 0 (x # xs) = xs" "remove_at (Suc i) (x # xs) = x # remove_at i xs"
  by (simp_all add: remove_at_def)

lemma set_remove_at_subset: "set (remove_at i xs) \<subseteq> set xs"
  by (auto simp: remove_at_def dest: in_set_takeD in_set_dropD)

lemma remove_at_0 [simp]: "remove_at 0 xs = tl xs"
  by (cases xs) (simp_all add: remove_at_def)

lemma position_map: "position p (map f xs) = position (\<lambda>x. p (f x)) xs"
  by (induction xs) simp_all

lemma position_cong: "(\<And>x. x \<in> set xs \<Longrightarrow> p x = q x) \<Longrightarrow> position p xs = position q xs"
  by (induction xs) simp_all

lemma remove_at_map: "remove_at i (map f xs) = map f (remove_at i xs)"
  by (simp add: remove_at_def take_map drop_map)

lemma position_eq_remove1:
  assumes "c \<in> set xs"
  obtains i where "position (\<lambda>x. x = c) xs = Some i" "remove_at i xs = remove1 c xs" "i < length xs" "xs ! i = c"
proof -
  have "\<exists>i. position (\<lambda>x. x = c) xs = Some i \<and> remove_at i xs = remove1 c xs \<and> i < length xs \<and> xs ! i = c"
    using assms
  proof (induction xs)
    case (Cons x xs)
    then show ?case by (cases "x = c") auto
  qed simp
  then show thesis using that by blast
qed

lemma map_upt_shift: "map (\<lambda>j. f (j + m)) [0..<k - m] = map f [m..<k]"
  by (rule nth_equalityI) (simp_all add: add.commute)

end
