(* ===== verification/Errors.thy ===== *)
theory Errors
  imports Prelude
begin

text \<open>
  Model of \<open>rust/protocol/src/error.rs\<close>, \<open>address.rs\<close>, \<open>consts.rs\<close> and the \<open>KeyType\<close> of
  \<open>curve.rs\<close>: the error values every fallible operation returns, the addresses sessions
  are indexed by, and the limits of the protocol. Payloads that the \<open>prost\<close> crate makes
  (\<open>DecodeError\<close>, \<open>EncodeError\<close>) are kept as the text they print.
\<close>

section \<open>Limits\<close>

definition MAX_FORWARD_JUMPS :: nat where "MAX_FORWARD_JUMPS = 2000"
definition MAX_MESSAGE_KEYS :: nat where "MAX_MESSAGE_KEYS = 2000"
definition MAX_RECEIVER_CHAINS :: nat where "MAX_RECEIVER_CHAINS = 5"
definition ARCHIVED_STATES_MAX_LENGTH :: nat where "ARCHIVED_STATES_MAX_LENGTH = 40"
definition MAX_SENDER_KEY_STATES :: nat where "MAX_SENDER_KEY_STATES = 5"

lemmas consts_defs = MAX_FORWARD_JUMPS_def MAX_MESSAGE_KEYS_def MAX_RECEIVER_CHAINS_def
  ARCHIVED_STATES_MAX_LENGTH_def MAX_SENDER_KEY_STATES_def

section \<open>Addresses\<close>

record ProtocolAddress =
  pa_name :: string
  pa_device_id :: u32

text \<open>Decimal printing, as \<open>{}\<close> does for unsigned integers.\<close>

fun digit_char :: "nat \<Rightarrow> char" where
  "digit_char n = char_of (48 + n)"

fun decimal :: "nat \<Rightarrow> string" where
  "decimal n = (if n < 10 then [digit_char n] else decimal (n div 10) @ [digit_char (n mod 10)])"

declare decimal.simps [simp del]

definition ProtocolAddress_fmt :: "ProtocolAddress \<Rightarrow> string" where
  "ProtocolAddress_fmt a = pa_name a @ '' '' @ decimal (unat (pa_device_id a))"

section \<open>Errors\<close>

datatype KeyType = Djb

datatype SignalProtocolError =
    InvalidArgument string
  | InvalidState string string
  | ProtobufDecodingError string
  | ProtobufEncodingError string
  | InvalidProtobufEncoding
  | CiphertextMessageTooShort nat
  | LegacyCiphertextVersion u8
  | UnrecognizedCiphertextVersion u8
  | UnrecognizedMessageVersion u32
  | FingerprintIdentifierMismatch
  | FingerprintVersionMismatch
  | NoKeyTypeIdentifier
  | BadKeyType u8
  | BadKeyLength KeyType nat
  | MismatchedKeyTypes KeyType KeyType
  | MismatchedSignatureLengthForKey KeyType nat
  | SignatureValidationFailed
  | SignaturePubkeyMissing
  | UntrustedIdentity ProtocolAddress
  | InvalidPreKeyId
  | InvalidSignedPreKeyId
  | InvalidSenderKeyId
  | InvalidPreKeyBundle
  | InvalidRootKeyLength nat
  | InvalidChainKeyLength nat
  | InvalidMacKeyLength nat
  | InvalidCipherCryptographicParameters nat nat
  | InvalidCiphertext
  | NoSenderKeyState
  | SenderKeySigningKeyMissing
  | SessionNotFound
  | InvalidSessionStructure
  | DuplicatedMessage u32 u32
  | InvalidMessage string
  | InternalError string
  | FfiBindingError string
  | ApplicationCallbackThrewException string "string option" string
  | ApplicationCallbackReturnedIntegerError string i32

type_synonym 'a sresult = "(SignalProtocolError, 'a) result"
type_synonym ('s, 'a) sst = "('s, SignalProtocolError, 'a) st"

section \<open>Printing addresses\<close>

lemma digit_char_not_space: "n < 10 \<Longrightarrow> digit_char n \<noteq> CHR '' ''"
proof
  assume "n < 10" "digit_char n = CHR '' ''"
  then have "of_char (digit_char n) = (32 :: nat)" by (simp del: digit_char.simps)
  with \<open>n < 10\<close> show False by simp
qed

lemma decimal_no_space: "CHR '' '' \<notin> set (decimal n)"
proof (induction n rule: decimal.induct)
  case (1 n)
  show ?case
  proof (cases "n < 10")
    case True
    then show ?thesis using digit_char_not_space [of n] by (subst decimal.simps) (auto simp del: digit_char.simps)
  next
    case False
    with 1 digit_char_not_space [of "n mod 10"] show ?thesis
      by (subst decimal.simps) (auto simp del: digit_char.simps)
  qed
qed

fun undigit :: "char \<Rightarrow> nat" where
  "undigit c = of_char c - 48"

definition undecimal :: "string \<Rightarrow> nat" where
  "undecimal s = foldl (\<lambda>acc c. acc * 10 + undigit c) 0 s"

lemma undigit_digit: "n < 10 \<Longrightarrow> undigit (digit_char n) = n"
  by simp

lemma undecimal_decimal [simp]: "undecimal (decimal n) = n"
proof (induction n rule: decimal.induct)
  case (1 n)
  show ?case
  proof (cases "n < 10")
    case True
    then show ?thesis by (subst decimal.simps) (simp add: undecimal_def)
  next
    case False
    with 1 have "foldl (\<lambda>acc c. acc * 10 + undigit c) 0 (decimal (n div 10)) = n div 10"
      by (simp add: undecimal_def)
    with False show ?thesis
      by (subst decimal.simps) (simp add: undecimal_def div_mult_mod_eq del: undigit.simps digit_char.simps
          add: undigit_digit)
  qed
qed

lemma append_sep_inject:
  assumes "c \<notin> set ys" "c \<notin> set zs"
  shows "xs @ c # ys = us @ c # zs \<longleftrightarrow> xs = us \<and> ys = zs"
proof (induction xs arbitrary: us)
  case Nil
  show ?case
  proof (cases us)
    case (Cons u us')
    have "ys \<noteq> us' @ c # zs" using assms(1) by (metis in_set_conv_decomp)
    with Cons show ?thesis by simp
  qed simp
next
  case (Cons x xs)
  have "zs \<noteq> xs @ c # ys" using assms(2) by (metis in_set_conv_decomp)
  with Cons.IH show ?case by (cases us) auto
qed

lemma ProtocolAddress_fmt_inj:
  "ProtocolAddress_fmt a = ProtocolAddress_fmt b \<longleftrightarrow> a = b"
proof
  assume "ProtocolAddress_fmt a = ProtocolAddress_fmt b"
  then have n: "pa_name a = pa_name b"
    and d: "decimal (unat (pa_device_id a)) = decimal (unat (pa_device_id b))"
    by (simp_all add: ProtocolAddress_fmt_def append_sep_inject decimal_no_space)
  from d have "unat (pa_device_id a) = unat (pa_device_id b)"
    by (metis undecimal_decimal)
  then have "pa_device_id a = pa_device_id b" by (simp add: word_unat_eq_iff)
  with n show "a = b" by (simp add: ProtocolAddress.equality)
qed simp

end
