(* ===== verification/Crypto.thy ===== *)
theory Crypto
  imports Errors
begin

text \<open>
  The cryptographic crates the program calls (\<open>hmac\<close>, \<open>sha2\<close>, \<open>aes\<close> with
  \<open>block-modes\<close>, \<open>x25519-dalek\<close>, \<open>curve25519-dalek\<close>, \<open>rand\<close>) are a parameter of the
  model, the record \<open>crypto\<close>; the predicates below name what the program relies on of
  them. The theory then models \<open>rust/protocol/src/crypto.rs\<close>.

  Type variables: \<open>'sc\<close> Ed25519 scalars, \<open>'pt\<close> Edwards points, \<open>'r\<close> random generators.
\<close>

section \<open>The crates as a parameter\<close>

record ('sc, 'pt, 'r) crypto =
  Hmac_Sha256 :: "bytes \<Rightarrow> bytes \<Rightarrow> bytes"
  Sha512 :: "bytes \<Rightarrow> bytes"
  Cbc_new_var :: "bytes \<Rightarrow> bytes \<Rightarrow> bool"
  Cbc_encrypt_vec :: "bytes \<Rightarrow> bytes \<Rightarrow> bytes \<Rightarrow> bytes"
  Cbc_decrypt_vec :: "bytes \<Rightarrow> bytes \<Rightarrow> bytes \<Rightarrow> bytes option"
  StaticSecret_from :: "bytes \<Rightarrow> bytes"
  StaticSecret_new :: "'r \<Rightarrow> bytes \<times> 'r"
  X25519_public :: "bytes \<Rightarrow> bytes"
  diffie_hellman :: "bytes \<Rightarrow> bytes \<Rightarrow> bytes"
  Scalar_from_bits :: "bytes \<Rightarrow> 'sc"
  Scalar_from_hash :: "bytes \<Rightarrow> 'sc"
  Scalar_mul_add :: "'sc \<Rightarrow> 'sc \<Rightarrow> 'sc \<Rightarrow> 'sc"
  Scalar_as_bytes :: "'sc \<Rightarrow> bytes"
  mul_basepoint :: "'sc \<Rightarrow> 'pt"
  compress :: "'pt \<Rightarrow> bytes"
  to_edwards :: "bytes \<Rightarrow> u8 \<Rightarrow> 'pt option"
  point_neg :: "'pt \<Rightarrow> 'pt"
  vartime_double_scalar_mul_basepoint :: "'sc \<Rightarrow> 'pt \<Rightarrow> 'sc \<Rightarrow> 'pt"
  rng_fill_bytes :: "'r \<Rightarrow> nat \<Rightarrow> bytes \<times> 'r"
  rng_gen_u32 :: "'r \<Rightarrow> u32 \<times> 'r"
  rng_gen_array :: "'r \<Rightarrow> nat \<Rightarrow> bytes \<times> 'r"

text \<open>
  \<^item> \<open>hash_ok\<close>: HMAC-SHA256 yields 32 bytes, SHA-512 yields 64;
  \<^item> \<open>cbc_ok\<close>: a 32-byte key and a 16-byte IV are accepted, PKCS#7 padding makes the
    ciphertext a non-empty multiple of 16 bytes, and decryption inverts encryption;
  \<^item> \<open>dh_ok\<close>: scalars are clamped once and for all, keys and shared secrets have 32
    bytes, and the two sides of a Diffie-Hellman agreement compute the same secret;
  \<^item> \<open>rng_ok\<close>: the generator returns as many bytes as it is asked for.
\<close>

definition hash_ok :: "('sc, 'pt, 'r) crypto \<Rightarrow> bool" where
  "hash_ok C \<longleftrightarrow> (\<forall>k m. length (Hmac_Sha256 C k m) = 32) \<and> (\<forall>m. length (Sha512 C m) = 64)"

definition cbc_ok :: "('sc, 'pt, 'r) crypto \<Rightarrow> bool" where
  "cbc_ok C \<longleftrightarrow>
     (\<forall>k iv. length k = 32 \<and> length iv = 16 \<longrightarrow> Cbc_new_var C k iv) \<and>
     (\<forall>k iv p. Cbc_new_var C k iv \<longrightarrow>
        Cbc_encrypt_vec C k iv p \<noteq> [] \<and> length (Cbc_encrypt_vec C k iv p) mod 16 = 0 \<and>
        Cbc_decrypt_vec C k iv (Cbc_encrypt_vec C k iv p) = Some p)"

definition dh_ok :: "('sc, 'pt, 'r) crypto \<Rightarrow> bool" where
  "dh_ok C \<longleftrightarrow>
     (\<forall>a. StaticSecret_from C (StaticSecret_from C a) = StaticSecret_from C a) \<and>
     (\<forall>a. length a = 32 \<longrightarrow> length (StaticSecret_from C a) = 32) \<and>
     (\<forall>a. length (X25519_public C a) = 32) \<and>
     (\<forall>a b. length (diffie_hellman C a b) = 32) \<and>
     (\<forall>a b. diffie_hellman C (StaticSecret_from C a) (X25519_public C (StaticSecret_from C b)) =
            diffie_hellman C (StaticSecret_from C b) (X25519_public C (StaticSecret_from C a))) \<and>
     (\<forall>r. length (fst (StaticSecret_new C r)) = 32 \<and>
          StaticSecret_from C (fst (StaticSecret_new C r)) = fst (StaticSecret_new C r))"

definition rng_ok :: "('sc, 'pt, 'r) crypto \<Rightarrow> bool" where
  "rng_ok C \<longleftrightarrow> (\<forall>r n. length (fst (rng_fill_bytes C r n)) = n) \<and>
     (\<forall>r n. length (fst (rng_gen_array C r n)) = n)"

lemma hash_okD [len_simps]:
  "hash_ok C \<Longrightarrow> length (Hmac_Sha256 C k m) = 32"
  "hash_ok C \<Longrightarrow> length (Sha512 C m) = 64"
  by (simp_all add: hash_ok_def)

lemma cbc_okD:
  assumes "cbc_ok C"
  shows "length k = 32 \<Longrightarrow> length iv = 16 \<Longrightarrow> Cbc_new_var C k iv"
    and "Cbc_new_var C k iv \<Longrightarrow> Cbc_encrypt_vec C k iv p \<noteq> []"
    and "Cbc_new_var C k iv \<Longrightarrow> length (Cbc_encrypt_vec C k iv p) mod 16 = 0"
    and "Cbc_new_var C k iv \<Longrightarrow> Cbc_decrypt_vec C k iv (Cbc_encrypt_vec C k iv p) = Some p"
  using assms by (simp_all add: cbc_ok_def)

lemma dh_okD:
  assumes "dh_ok C"
  shows "StaticSecret_from C (StaticSecret_from C a) = StaticSecret_from C a"
    and "length a = 32 \<Longrightarrow> length (StaticSecret_from C a) = 32"
    and "length (X25519_public C a) = 32"
    and "length (diffie_hellman C a b) = 32"
    and "diffie_hellman C (StaticSecret_from C a) (X25519_public C (StaticSecret_from C b)) =
         diffie_hellman C (StaticSecret_from C b) (X25519_public C (StaticSecret_from C a))"
    and "length (fst (StaticSecret_new C r)) = 32"
    and "StaticSecret_from C (fst (StaticSecret_new C r)) = fst (StaticSecret_new C r)"
  using assms by (simp_all add: dh_ok_def)

section \<open>Symmetric primitives\<close>

definition aes_256_cbc_encrypt ::
    "('sc, 'pt, 'r) crypto \<Rightarrow> bytes \<Rightarrow> bytes \<Rightarrow> bytes \<Rightarrow> bytes sresult" where
  "aes_256_cbc_encrypt C ptext key iv =
     (if Cbc_new_var C key iv then Ok (Cbc_encrypt_vec C key iv ptext)
      else Err (InvalidCipherCryptographicParameters (length key) (length iv)))"

definition aes_256_cbc_decrypt ::
    "('sc, 'pt, 'r) crypto \<Rightarrow> bytes \<Rightarrow> bytes \<Rightarrow> bytes \<Rightarrow> bytes sresult" where
  "aes_256_cbc_decrypt C ctext key iv =
     (if ctext = [] \<or> length ctext mod 16 \<noteq> 0 then Err InvalidCiphertext
      else if \<not> Cbc_new_var C key iv
        then Err (InvalidCipherCryptographicParameters (length key) (length iv))
      else case Cbc_decrypt_vec C key iv ctext of
          None \<Rightarrow> Err InvalidCiphertext
        | Some ptext \<Rightarrow> Ok ptext)"

definition hmac_sha256 :: "('sc, 'pt, 'r) crypto \<Rightarrow> bytes \<Rightarrow> bytes \<Rightarrow> bytes sresult" where
  "hmac_sha256 C key input = Ok (Hmac_Sha256 C key input)"

lemma aes_cbc_decrypt_encrypt:
  assumes "cbc_ok C" "aes_256_cbc_encrypt C ptext key iv = Ok ctext"
  shows "aes_256_cbc_decrypt C ctext key iv = Ok ptext"
  using assms cbc_okD [OF assms(1)]
  by (auto simp: aes_256_cbc_encrypt_def aes_256_cbc_decrypt_def split: if_splits)

lemma aes_256_cbc_encrypt_total:
  "cbc_ok C \<Longrightarrow> length key = 32 \<Longrightarrow> length iv = 16 \<Longrightarrow>
     aes_256_cbc_encrypt C ptext key iv = Ok (Cbc_encrypt_vec C key iv ptext)"
  by (simp add: aes_256_cbc_encrypt_def cbc_okD)

lemma aes_256_cbc_not_Panic [simp]:
  "aes_256_cbc_encrypt C p k iv \<noteq> Panic" "aes_256_cbc_decrypt C p k iv \<noteq> Panic"
  by (auto simp: aes_256_cbc_encrypt_def aes_256_cbc_decrypt_def split: option.splits)

end
