(* ===== verification/Reference_Crypto.thy ===== *)
theory Reference_Crypto
  imports Crypto
begin

text \<open>
  A concrete instance of the parameter \<open>crypto\<close>, on which the hypotheses of the
  development hold and the model computes: it is what the witnesses evaluate. It has the
  interface of the crates and none of their security: a clamped key is its own public
  key, agreement adds bytewise, CBC is PKCS#7 padding alone, the signature group is the
  ring of bytes with base point 1, and the generator is a counter.
\<close>

definition pad_to :: "nat \<Rightarrow> bytes \<Rightarrow> bytes" where
  "pad_to n xs = take n (xs @ replicate n 0)"

definition pkcs7_pad :: "bytes \<Rightarrow> bytes" where
  "pkcs7_pad p = (let n = 16 - length p mod 16 in p @ replicate n (word_of_nat n))"

definition pkcs7_unpad :: "bytes \<Rightarrow> bytes option" where
  "pkcs7_unpad c =
     (if c = [] then None
      else let n = unat (last c)
           in if n = 0 \<or> 16 < n \<or> length c < n then None else Some (take (length c - n) c))"

definition digest :: "bytes \<Rightarrow> u8" where
  "digest xs = foldl (\<lambda>acc b. 3 * acc + b + 1) 0 xs"

fun add_bytes :: "bytes \<Rightarrow> bytes \<Rightarrow> bytes" where
  "add_bytes (a # as) (b # bs) = (a + b) # add_bytes as bs"
| "add_bytes _ _ = []"

definition head_byte :: "bytes \<Rightarrow> u8" where
  "head_byte xs = (case xs of [] \<Rightarrow> 0 | x # _ \<Rightarrow> x)"

definition ref_crypto :: "(u8, u8, nat) crypto" where
  "ref_crypto = \<lparr>
     Hmac_Sha256 = (\<lambda>k m. let d = digest k + 5 * digest m in map (\<lambda>i. d + word_of_nat i) [0..<32]),
     Sha512 = (\<lambda>m. let d = digest m in map (\<lambda>i. d + word_of_nat i) [0..<64]),
     Cbc_new_var = (\<lambda>k iv. length k = 32 \<and> length iv = 16),
     Cbc_encrypt_vec = (\<lambda>k iv p. pkcs7_pad p),
     Cbc_decrypt_vec = (\<lambda>k iv c. pkcs7_unpad c),
     StaticSecret_from = pad_to 32,
     StaticSecret_new = (\<lambda>r. (pad_to 32 [word_of_nat r, 9], Suc r)),
     X25519_public = pad_to 32,
     diffie_hellman = (\<lambda>a b. pad_to 32 (add_bytes a b)),
     Scalar_from_bits = head_byte,
     Scalar_from_hash = head_byte,
     Scalar_mul_add = (\<lambda>h a r. h * a + r),
     Scalar_as_bytes = (\<lambda>s. s # replicate 31 0),
     mul_basepoint = (\<lambda>s. s),
     compress = (\<lambda>p. p # replicate 31 0),
     to_edwards = (\<lambda>m sign. Some (head_byte m)),
     point_neg = (\<lambda>p. - p),
     vartime_double_scalar_mul_basepoint = (\<lambda>a p b. a * p + b),
     rng_fill_bytes = (\<lambda>r n. (replicate n (word_of_nat r), Suc r)),
     rng_gen_u32 = (\<lambda>r. (word_of_nat (17 * r + 4), Suc r)),
     rng_gen_array = (\<lambda>r n. (replicate n (word_of_nat (r + 100)), Suc r))\<rparr>"

lemma length_pad_to [simp]: "length (pad_to n xs) = n"
  by (simp add: pad_to_def)

lemma pad_to_id [simp]: "length xs = n \<Longrightarrow> pad_to n xs = xs"
  by (simp add: pad_to_def)

lemma add_bytes_commute: "add_bytes as bs = add_bytes bs as"
  by (induction as bs rule: add_bytes.induct) (auto elim: add_bytes.elims simp: add.commute)

lemma pkcs7_unpad_pad: "pkcs7_unpad (pkcs7_pad p) = Some p"
proof -
  define n where "n = 16 - length p mod 16"
  have n: "0 < n" "n \<le> 16" by (simp_all add: n_def)
  then have "unat (word_of_nat n :: u8) = n" by (simp add: unat_of_nat)
  then show ?thesis using n
    by (simp add: pkcs7_pad_def pkcs7_unpad_def Let_def flip: n_def)
qed

lemma length_pkcs7_pad: "length (pkcs7_pad p) mod 16 = 0" "pkcs7_pad p \<noteq> []"
proof -
  have "(length p + (16 - length p mod 16)) mod 16 = 0" by presburger
  then show "length (pkcs7_pad p) mod 16 = 0" by (simp add: pkcs7_pad_def Let_def)
  have "length p mod 16 < 16" by simp
  then show "pkcs7_pad p \<noteq> []" by (auto simp: pkcs7_pad_def Let_def simp del: mod_less_divisor)
qed

lemma ref_hash_ok [simp]: "hash_ok ref_crypto"
  by (simp add: hash_ok_def ref_crypto_def Let_def)

lemma ref_cbc_ok [simp]: "cbc_ok ref_crypto"
  by (simp add: cbc_ok_def ref_crypto_def pkcs7_unpad_pad length_pkcs7_pad)

lemma ref_dh_ok [simp]: "dh_ok ref_crypto"
  by (simp add: dh_ok_def ref_crypto_def add_bytes_commute)

lemma ref_rng_ok [simp]: "rng_ok ref_crypto"
  by (simp add: rng_ok_def ref_crypto_def)

end
