(* ===== verification/Kdf.thy ===== *)
theory Kdf
  imports Reference_Crypto
begin

text \<open>
  Model of \<open>rust/protocol/src/kdf.rs\<close>: HKDF over HMAC-SHA256 with the counter starting at
  0 (message version 2) or 1 (version 3). The lemmas give the length of the output,
  its equality with the definition of RFC 5869 for version 3, and that shorter outputs
  are prefixes of longer ones.
\<close>

section \<open>Definitions\<close>

record HKDF =
  iteration_start_offset :: u8

definition HASH_OUTPUT_SIZE :: nat where "HASH_OUTPUT_SIZE = 32"

definition HKDF_new :: "u32 \<Rightarrow> HKDF sresult" where
  "HKDF_new message_version =
     (if message_version = 2 then Ok \<lparr>iteration_start_offset = 0\<rparr>
      else if message_version = 3 then Ok \<lparr>iteration_start_offset = 1\<rparr>
      else Err (UnrecognizedMessageVersion message_version))"

definition HKDF_extract :: "('sc, 'pt, 'r) crypto \<Rightarrow> bytes \<Rightarrow> bytes \<Rightarrow> bytes sresult" where
  "HKDF_extract C salt input_key_material = hmac_sha256 C salt input_key_material"

text \<open>The loop \<open>for i in 0..iterations\<close> of \<open>expand\<close>; \<open>i as u8\<close> and the addition wrap.\<close>

fun expand_loop :: "('sc, 'pt, 'r) crypto \<Rightarrow> HKDF \<Rightarrow> bytes \<Rightarrow> bytes \<Rightarrow> nat list \<Rightarrow> bytes \<Rightarrow> bytes" where
  "expand_loop C self prk info [] result = result"
| "expand_loop C self prk info (i # is) result =
     (let prev = (if length result \<ge> HASH_OUTPUT_SIZE
                  then drop (length result - HASH_OUTPUT_SIZE) result else []);
          d = Hmac_Sha256 C prk (prev @ info @ [word_of_nat i + iteration_start_offset self])
      in expand_loop C self prk info is (result @ d))"

text \<open>
  The lengths are \<open>usize\<close>, 64 bits wide, and their sum wraps around; \<open>Vec::with_capacity\<close> panics when the capacity is
  over \<open>isize::MAX\<close>.
\<close>

definition HKDF_expand ::
    "('sc, 'pt, 'r) crypto \<Rightarrow> HKDF \<Rightarrow> bytes \<Rightarrow> bytes \<Rightarrow> nat \<Rightarrow> bytes sresult" where
  "HKDF_expand C self prk info output_length =
     (let iterations = ((output_length + HASH_OUTPUT_SIZE - 1) mod 2 ^ 64) div HASH_OUTPUT_SIZE
      in if iterations * HASH_OUTPUT_SIZE \<ge> 2 ^ 63 then Panic
         else let result = expand_loop C self prk info [0..<iterations] []
              in Ok (take output_length result))"

definition HKDF_derive_salted_secrets ::
    "('sc, 'pt, 'r) crypto \<Rightarrow> HKDF \<Rightarrow> bytes \<Rightarrow> bytes \<Rightarrow> bytes \<Rightarrow> nat \<Rightarrow> bytes sresult" where
  "HKDF_derive_salted_secrets C self input_key_material salt info output_length =
     rbind (HKDF_extract C salt input_key_material) (\<lambda>prk.
     HKDF_expand C self prk info output_length)"

definition HKDF_derive_secrets ::
    "('sc, 'pt, 'r) crypto \<Rightarrow> HKDF \<Rightarrow> bytes \<Rightarrow> bytes \<Rightarrow> nat \<Rightarrow> bytes sresult" where
  "HKDF_derive_secrets C self input_key_material info output_length =
     HKDF_derive_salted_secrets C self input_key_material (replicate HASH_OUTPUT_SIZE 0) info output_length"

section \<open>The blocks of the output\<close>

text \<open>\<open>okm_block C off prk info i\<close> is the \<open>i\<close>-th block, with \<open>off\<close> the first counter value.\<close>

fun okm_block :: "('sc, 'pt, 'r) crypto \<Rightarrow> u8 \<Rightarrow> bytes \<Rightarrow> bytes \<Rightarrow> nat \<Rightarrow> bytes" where
  "okm_block C off prk info 0 = Hmac_Sha256 C prk (info @ [off])"
| "okm_block C off prk info (Suc i) =
     Hmac_Sha256 C prk (okm_block C off prk info i @ info @ [word_of_nat (Suc i) + off])"

definition okm :: "('sc, 'pt, 'r) crypto \<Rightarrow> u8 \<Rightarrow> bytes \<Rightarrow> bytes \<Rightarrow> nat \<Rightarrow> bytes" where
  "okm C off prk info n = concat (map (okm_block C off prk info) [0..<n])"

lemma length_okm_block [len_simps]: "hash_ok C \<Longrightarrow> length (okm_block C off prk info i) = 32"
  by (cases i) (simp_all add: len_simps)

lemma length_okm [len_simps]: "hash_ok C \<Longrightarrow> length (okm C off prk info n) = 32 * n"
  by (induction n) (simp_all add: okm_def len_simps)

lemma okm_Suc: "okm C off prk info (Suc n) = okm C off prk info n @ okm_block C off prk info n"
  by (simp add: okm_def)

lemma expand_loop_step:
  assumes "hash_ok C"
  shows "expand_loop C self prk info (i # is) (okm C (iteration_start_offset self) prk info i) =
    expand_loop C self prk info is (okm C (iteration_start_offset self) prk info (Suc i))"
proof (cases i)
  case 0
  then show ?thesis by (simp add: okm_def HASH_OUTPUT_SIZE_def Let_def)
next
  case (Suc j)
  then show ?thesis
    using assms by (simp add: okm_Suc HASH_OUTPUT_SIZE_def Let_def len_simps)
qed

lemma expand_loop_eq_okm:
  assumes "hash_ok C"
  shows "expand_loop C self prk info [i..<i + n] (okm C (iteration_start_offset self) prk info i) =
    okm C (iteration_start_offset self) prk info (i + n)"
proof (induction n arbitrary: i)
  case 0
  then show ?case by simp
next
  case (Suc n)
  have "[i..<i + Suc n] = i # [Suc i..<Suc i + n]" by (simp add: upt_conv_Cons)
  then show ?case
    using Suc.IH [of "Suc i"] by (simp only: expand_loop_step [OF assms]) simp
qed

lemma HKDF_expand_eq:
  assumes "hash_ok C" "n < 2 ^ 62"
  shows "HKDF_expand C self prk info n =
    Ok (take n (okm C (iteration_start_offset self) prk info ((n + 31) div 32)))"
proof -
  have "(n + 31) mod 2 ^ 64 = n + 31" "\<not> 2 ^ 63 \<le> (n + 31) div 32 * 32" using assms(2) by simp_all
  then show ?thesis
    using expand_loop_eq_okm [OF assms(1), of self prk info 0 "(n + 31) div 32"]
    by (simp add: HKDF_expand_def HASH_OUTPUT_SIZE_def okm_def Let_def add.commute)
qed

lemma HKDF_derive_salted_secrets_eq:
  assumes "hash_ok C" "n < 2 ^ 62"
  shows "HKDF_derive_salted_secrets C self ikm salt info n =
    Ok (take n (okm C (iteration_start_offset self) (Hmac_Sha256 C salt ikm) info ((n + 31) div 32)))"
  by (simp add: HKDF_derive_salted_secrets_def HKDF_extract_def hmac_sha256_def HKDF_expand_eq [OF assms])

lemma HKDF_derive_salted_secrets_Ok:
  assumes "hash_ok C" "n < 2 ^ 62"
  obtains okm where "HKDF_derive_salted_secrets C self ikm salt info n = Ok okm" "length okm = n"
proof -
  have "n \<le> 32 * ((n + 31) div 32)" by presburger
  then show thesis
    using that HKDF_derive_salted_secrets_eq [OF assms] by (simp add: len_simps assms)
qed

lemma HKDF_derive_secrets_Ok:
  assumes "hash_ok C" "n < 2 ^ 62"
  obtains okm where "HKDF_derive_secrets C self ikm info n = Ok okm" "length okm = n"
  unfolding HKDF_derive_secrets_def using assms by (rule HKDF_derive_salted_secrets_Ok)

text \<open>The lengths that the protocol asks for.\<close>

lemma hkdf_sizes: "(48 :: nat) < 2 ^ 62" "(64 :: nat) < 2 ^ 62" "(80 :: nat) < 2 ^ 62"
  by simp_all

lemma HKDF_derive_secrets_length:
  "hash_ok C \<Longrightarrow> n < 2 ^ 62 \<Longrightarrow> HKDF_derive_secrets C self ikm info n = Ok out \<Longrightarrow> length out = n"
  by (metis HKDF_derive_secrets_Ok result.inject(1))

lemma take_okm: "hash_ok C \<Longrightarrow> m \<le> n \<Longrightarrow> take (32 * m) (okm C off prk info n) = okm C off prk info m"
proof (induction n)
  case (Suc n)
  then show ?case by (cases "m = Suc n") (simp_all add: okm_Suc len_simps)
qed (simp add: okm_def)

lemma HKDF_new_cases:
  "HKDF_new v = Ok k \<longleftrightarrow>
     v = 2 \<and> k = \<lparr>iteration_start_offset = 0\<rparr> \<or> v = 3 \<and> k = \<lparr>iteration_start_offset = 1\<rparr>"
  by (auto simp: HKDF_new_def)

lemma HKDF_new_not_Panic [simp]: "HKDF_new v \<noteq> Panic"
  by (simp add: HKDF_new_def)

section \<open>RFC 5869\<close>

text \<open>The RFC: \<open>T(0)\<close> is empty, \<open>T(i) = HMAC(PRK, T(i-1) | info | i)\<close>, output the first octets of \<open>T(1) | T(2) | ...\<close>.\<close>

fun rfc5869_T :: "('sc, 'pt, 'r) crypto \<Rightarrow> bytes \<Rightarrow> bytes \<Rightarrow> nat \<Rightarrow> bytes" where
  "rfc5869_T C prk info 0 = []"
| "rfc5869_T C prk info (Suc i) =
     Hmac_Sha256 C prk (rfc5869_T C prk info i @ info @ [word_of_nat (Suc i)])"

definition rfc5869_hkdf :: "('sc, 'pt, 'r) crypto \<Rightarrow> bytes \<Rightarrow> bytes \<Rightarrow> bytes \<Rightarrow> nat \<Rightarrow> bytes" where
  "rfc5869_hkdf C salt ikm info L =
     (let prk = Hmac_Sha256 C salt ikm; N = (L + 31) div 32
      in take L (concat (map (rfc5869_T C prk info) [1..<Suc N])))"

lemma okm_block_rfc5869: "okm_block C 1 prk info i = rfc5869_T C prk info (Suc i)"
  by (induction i) (simp_all add: add.commute)

lemma okm_rfc5869: "okm C 1 prk info n = concat (map (rfc5869_T C prk info) [1..<Suc n])"
proof -
  have "okm_block C 1 prk info = rfc5869_T C prk info \<circ> Suc"
    by (simp add: fun_eq_iff okm_block_rfc5869 del: rfc5869_T.simps)
  then show ?thesis by (simp add: okm_def map_Suc_upt [symmetric] del: upt_Suc)
qed

section \<open>Properties\<close>

text \<open>
  C35. For message version 3, key derivation is HKDF as RFC 5869 defines it, for every
  input key material, salt and info and every output length that the RFC allows (at most 255 blocks), and the output
  has that length.
\<close>

theorem HKDF_v3_is_rfc5869:
  assumes "hash_ok C" "HKDF_new 3 = Ok kdf" "n \<le> 255 * 32"
  shows "HKDF_derive_salted_secrets C kdf ikm salt info n = Ok (rfc5869_hkdf C salt ikm info n)
     \<and> length (rfc5869_hkdf C salt ikm info n) = n"
proof -
  have n: "n < 2 ^ 62" using assms(3) by simp
  have off: "iteration_start_offset kdf = 1" using assms(2) by (auto simp: HKDF_new_def)
  have eq: "HKDF_derive_salted_secrets C kdf ikm salt info n = Ok (rfc5869_hkdf C salt ikm info n)"
    unfolding HKDF_derive_salted_secrets_eq [OF assms(1) n] off okm_rfc5869 rfc5869_hkdf_def Let_def ..
  moreover obtain out where "HKDF_derive_salted_secrets C kdf ikm salt info n = Ok out" "length out = n"
    using HKDF_derive_salted_secrets_Ok [OF assms(1) n] .
  ultimately show ?thesis by simp
qed

theorem HKDF_v3_is_rfc5869_witness:
  "HKDF_derive_salted_secrets ref_crypto \<lparr>iteration_start_offset = 1\<rparr> [1] [2] [3] 40 =
     Ok (rfc5869_hkdf ref_crypto [2] [1] [3] 40)"
  using HKDF_v3_is_rfc5869 [OF ref_hash_ok, of "\<lparr>iteration_start_offset = 1\<rparr>" 40 "[1]" "[2]" "[3]"]
  by (simp add: HKDF_new_def)

text \<open>
  Asking for fewer bytes gives a prefix of what asking for more bytes gives, for both
  counter offsets.
\<close>

lemma HKDF_prefix:
  assumes "hash_ok C" "m \<le> n" "n < 2 ^ 62"
    and "HKDF_derive_salted_secrets C kdf ikm salt info n = Ok long"
  shows "HKDF_derive_salted_secrets C kdf ikm salt info m = Ok (take m long)"
proof -
  let ?B = "okm C (iteration_start_offset kdf) (Hmac_Sha256 C salt ikm) info"
  let ?m = "(m + 31) div 32" and ?n = "(n + 31) div 32"
  have m: "?m \<le> ?n" "m \<le> 32 * ?m" using assms(2) by (simp_all add: div_le_mono)
  have "take m (take n (?B ?n)) = take m (take (32 * ?m) (?B ?n))"
    using assms(2) m(2) by (simp add: min_def)
  also have "\<dots> = take m (?B ?m)" using take_okm [OF assms(1) m(1)] by simp
  finally show ?thesis
    using assms(2-4) by (auto simp: HKDF_derive_salted_secrets_eq [OF assms(1)] simp del: take_take)
qed

lemma HKDF_prefix_witness:
  "\<exists>long. HKDF_derive_salted_secrets ref_crypto \<lparr>iteration_start_offset = 0\<rparr> [1] [2] [3] 40 = Ok long \<and>
     HKDF_derive_salted_secrets ref_crypto \<lparr>iteration_start_offset = 0\<rparr> [1] [2] [3] 3 = Ok (take 3 long)"
proof -
  obtain long where
    "HKDF_derive_salted_secrets ref_crypto \<lparr>iteration_start_offset = 0\<rparr> [1] [2] [3] 40 = Ok long"
    by (rule HKDF_derive_salted_secrets_Ok [OF ref_hash_ok, where n = 40]) auto
  with HKDF_prefix [OF ref_hash_ok _ _ this, of 3] show ?thesis by simp
qed

end
