(* ===== verification/Utils.thy ===== *)
theory Utils
  imports Prelude
begin

text \<open>
  Model of \<open>rust/protocol/src/utils.rs\<close>: the branch-free byte comparisons and the
  constant-time comparison of byte strings built from them. The lemmas show that each
  mask is the one its comment promises and that \<open>constant_time_cmp\<close> is the
  lexicographic comparison of equally long strings.
\<close>

section \<open>Definitions\<close>

datatype Ordering = Less | Equal | Greater

definition expand_top_bit :: "u8 \<Rightarrow> u8" where
  "expand_top_bit a = 0 - drop_bit 7 a"

definition ct_is_zero :: "u8 \<Rightarrow> u8" where
  "ct_is_zero a = expand_top_bit (NOT a AND (a - 1))"

definition ct_is_eq :: "u8 \<Rightarrow> u8 \<Rightarrow> u8" where
  "ct_is_eq a b = ct_is_zero (a XOR b)"

definition ct_is_lt :: "u8 \<Rightarrow> u8 \<Rightarrow> u8" where
  "ct_is_lt a b = expand_top_bit (a XOR ((a XOR b) OR ((a - b) XOR a)))"

definition ct_select :: "u8 \<Rightarrow> u8 \<Rightarrow> u8 \<Rightarrow> u8" where
  "ct_select m a b = b XOR (m AND (a XOR b))"

text \<open>
  The loop runs over the bytes from the last to the first: iteration \<open>i\<close> reads index
  \<open>x.len() - 1 - i\<close>.
\<close>

fun cmp_loop :: "bytes \<Rightarrow> bytes \<Rightarrow> nat \<Rightarrow> nat \<Rightarrow> u8 \<Rightarrow> u8" where
  "cmp_loop x y i 0 result = result"
| "cmp_loop x y i (Suc n) result =
     (let a = x ! (length x - 1 - i);
          b = y ! (length x - 1 - i);
          is_eq = ct_is_eq a b;
          is_lt = ct_is_lt a b
      in cmp_loop x y (Suc i) n (ct_select is_eq result (ct_select is_lt 1 255)))"

definition constant_time_cmp :: "bytes \<Rightarrow> bytes \<Rightarrow> Ordering" where
  "constant_time_cmp x y =
     (if length x < length y then Less
      else if length x > length y then Greater
      else let result = cmp_loop x y 0 (length x) 0
           in if result = 0 then Equal else if result = 1 then Less else Greater)"

text \<open>The reference order: Rust's lexicographic \<open>Ord\<close> on slices.\<close>

fun slice_cmp :: "bytes \<Rightarrow> bytes \<Rightarrow> Ordering" where
  "slice_cmp [] [] = Equal"
| "slice_cmp [] (b # bs) = Less"
| "slice_cmp (a # as) [] = Greater"
| "slice_cmp (a # as) (b # bs) =
     (if a < b then Less else if b < a then Greater else slice_cmp as bs)"

section \<open>The masks\<close>

lemma bit_7_iff: "bit (a :: u8) 7 \<longleftrightarrow> 128 \<le> unat a"
proof -
  have "unat a < 256" using unsigned_less [of a] by simp
  then have "odd (unat a div 128) \<longleftrightarrow> 128 \<le> unat a"
    by (cases "128 \<le> unat a") (simp_all add: div_if)
  moreover have "bit a 7 \<longleftrightarrow> bit (unat a) 7" by (simp add: bit_unsigned_iff)
  ultimately show ?thesis using bit_iff_odd [of "unat a" 7] by simp
qed

lemma expand_top_bit_eq: "expand_top_bit a = (if bit a 7 then 255 else 0)"
proof -
  have "unat a < 256" using unsigned_less [of a] by simp
  then have "unat (drop_bit 7 a) = (if 128 \<le> unat a then 1 else 0)"
    by (simp add: unat_drop_bit_eq drop_bit_eq_div unat_div div_if) linarith
  then have "drop_bit 7 a = (if bit a 7 then 1 else 0)"
    by (simp add: bit_7_iff word_unat_eq_iff)
  then show ?thesis by (simp add: expand_top_bit_def)
qed

lemma xor_eq_zero_iff: "(a :: u8) XOR b = 0 \<longleftrightarrow> a = b"
  by (auto simp: bit_eq_iff bit_simps)

lemma and_255 [simp]: "(255 :: u8) AND a = a"
proof -
  have "bit (255 :: u8) n" if "n < 8" for n
    using that by (auto simp: less_Suc_eq numeral_eq_Suc bit_simps bit_numeral_rec)
  then show ?thesis by (intro bit_word_eqI) (simp add: bit_and_iff)
qed

lemma ct_is_zero_eq: "ct_is_zero a = (if a = 0 then 255 else 0)"
proof -
  have "bit (NOT a AND (a - 1)) 7 \<longleftrightarrow> \<not> 128 \<le> unat a \<and> 128 \<le> unat (a - 1)"
    by (auto simp: bit_simps simp flip: bit_7_iff)
  also have "\<dots> \<longleftrightarrow> a = 0"
    by unat_arith (simp, linarith)
  finally show ?thesis by (simp add: ct_is_zero_def expand_top_bit_eq)
qed

lemma ct_is_eq_eq: "ct_is_eq a b = (if a = b then 255 else 0)"
  by (simp add: ct_is_eq_def ct_is_zero_eq xor_eq_zero_iff)

lemma ct_is_lt_eq: "ct_is_lt a b = (if a < b then 255 else 0)"
proof -
  have "bit (a XOR ((a XOR b) OR ((a - b) XOR a))) 7 \<longleftrightarrow>
      ((128 \<le> unat a) \<noteq> (((128 \<le> unat a) \<noteq> (128 \<le> unat b)) \<or> ((128 \<le> unat (a - b)) \<noteq> (128 \<le> unat a))))"
    by (auto simp: bit_simps simp flip: bit_7_iff)
  also have "\<dots> \<longleftrightarrow> a < b"
    by unat_arith (simp, linarith)
  finally show ?thesis by (simp add: ct_is_lt_def expand_top_bit_eq)
qed

lemma ct_select_masks [simp]: "ct_select 255 a b = a" "ct_select 0 a b = b"
  by (simp_all add: ct_select_def) (simp add: ac_simps)

section \<open>The comparison\<close>

fun cmp_code :: "Ordering \<Rightarrow> u8" where
  "cmp_code Equal = 0"
| "cmp_code Less = 1"
| "cmp_code Greater = 255"

lemma cmp_code_eq [simp]:
  "cmp_code r = 0 \<longleftrightarrow> r = Equal" "cmp_code r = 1 \<longleftrightarrow> r = Less"
  by (cases r; simp)+

text \<open>One iteration extends the compared suffix by the byte in front of it.\<close>

lemma ct_step:
  "ct_select (ct_is_eq a b) (cmp_code (slice_cmp as bs)) (ct_select (ct_is_lt a b) 1 255) =
     cmp_code (slice_cmp (a # as) (b # bs))"
  by (auto simp: ct_is_eq_eq ct_is_lt_eq)

lemma cmp_loop_suffix:
  assumes "length x = length y" "i + n \<le> length x"
  shows "cmp_loop x y i n
       (cmp_code (slice_cmp (drop (length x - i) x) (drop (length x - i) y))) =
     cmp_code (slice_cmp (drop (length x - i - n) x) (drop (length x - i - n) y))"
  using assms(2)
proof (induction n arbitrary: i)
  case 0
  then show ?case by simp
next
  case (Suc n)
  define k where "k = length x - 1 - i"
  have k: "k < length x" "k < length y" and Sk: "length x - i = Suc k" "length x - Suc i = k"
    using Suc.prems assms(1) by (auto simp: k_def)
  have d: "drop k x = x ! k # drop (Suc k) x" "drop k y = y ! k # drop (Suc k) y"
    using k by (simp_all add: Cons_nth_drop_Suc)
  have "cmp_loop x y i (Suc n) (cmp_code (slice_cmp (drop (Suc k) x) (drop (Suc k) y))) =
      cmp_loop x y (Suc i) n (cmp_code (slice_cmp (drop k x) (drop k y)))"
    unfolding cmp_loop.simps Let_def k_def [symmetric] ct_step d ..
  also have "\<dots> = cmp_code (slice_cmp (drop (k - n) x) (drop (k - n) y))"
    using Suc.IH [of "Suc i"] Suc.prems by (simp only: Sk)
  finally show ?case by (simp add: Sk)
qed

lemma constant_time_cmp_shortlex:
  "constant_time_cmp x y =
     (if length x < length y then Less else if length x > length y then Greater else slice_cmp x y)"
proof (cases "length x = length y")
  case True
  have "cmp_loop x y 0 (length x) 0 = cmp_code (slice_cmp x y)"
    using cmp_loop_suffix [OF True, of 0 "length x"] True by simp
  then show ?thesis using True
    by (cases "slice_cmp x y") (simp_all add: constant_time_cmp_def)
qed (simp add: constant_time_cmp_def)

lemma slice_cmp_Equal: "slice_cmp x y = Equal \<longleftrightarrow> x = y"
  by (induction x y rule: slice_cmp.induct) auto

lemma slice_cmp_flip: "slice_cmp x y = Greater \<longleftrightarrow> slice_cmp y x = Less"
  by (induction x y rule: slice_cmp.induct) auto

lemma slice_cmp_Less_trans:
  "slice_cmp x y = Less \<Longrightarrow> slice_cmp y z = Less \<Longrightarrow> slice_cmp x z = Less"
proof (induction x y arbitrary: z rule: slice_cmp.induct)
  case (2 b bs)
  then show ?case by (cases z) auto
next
  case (4 a as b bs)
  then show ?case
    by (cases z) (auto split: if_splits)
qed auto

lemma constant_time_cmp_Equal: "constant_time_cmp x y = Equal \<longleftrightarrow> x = y"
  by (auto simp: constant_time_cmp_shortlex slice_cmp_Equal)

lemma constant_time_cmp_flip: "constant_time_cmp x y = Greater \<longleftrightarrow> constant_time_cmp y x = Less"
  by (auto simp: constant_time_cmp_shortlex slice_cmp_flip)

lemma constant_time_cmp_Less_trans:
  "constant_time_cmp x y = Less \<Longrightarrow> constant_time_cmp y z = Less \<Longrightarrow> constant_time_cmp x z = Less"
  by (auto simp: constant_time_cmp_shortlex intro: slice_cmp_Less_trans split: if_splits)

section \<open>Properties\<close>

text \<open>
  On byte strings of equal length, \<open>constant_time_cmp\<close> returns exactly what Rust's
  lexicographic \<open>Ord\<close> on slices returns, although it reads the bytes from the last to the
  first and never exits early.
\<close>

lemma constant_time_cmp_lexicographic:
  assumes "length x = length y"
  shows "constant_time_cmp x y = slice_cmp x y"
  using assms by (simp add: constant_time_cmp_shortlex)

lemma constant_time_cmp_lexicographic_witness:
  "constant_time_cmp [1, 200, 3] [1, 7, 255] = Greater"
  using constant_time_cmp_lexicographic [of "[1, 200, 3]" "[1, 7, 255]"] by simp

end
