(* ===== verification/Curve.thy ===== *)
theory Curve
  imports Reference_Crypto Utils
begin

text \<open>
  Model of \<open>rust/protocol/src/curve/curve25519.rs\<close> (X25519 agreement and XEdDSA
  signatures), \<open>curve.rs\<close> (typed keys and their encodings) and \<open>identity_key.rs\<close>.
  Fixed-size arrays are byte lists; the predicates \<open>PublicKey_wf\<close> and \<open>PrivateKey_wf\<close> state the
  size that the Rust types carry. The order of public keys is made an instance of
  \<open>linorder\<close>, and the encodings are instances of the locale \<open>byte_codec\<close>.
\<close>

section \<open>Curve25519\<close>

record Curve25519_KeyPair =
  c25519_public_key :: bytes
  c25519_private_key :: bytes

definition Curve25519_new :: "('sc, 'pt, 'r) crypto \<Rightarrow> 'r \<Rightarrow> Curve25519_KeyPair \<times> 'r" where
  "Curve25519_new C csprng =
     (case StaticSecret_new C csprng of (secret, csprng') \<Rightarrow>
        (\<lparr>c25519_public_key = X25519_public C secret, c25519_private_key = secret\<rparr>, csprng'))"

definition Curve25519_calculate_agreement ::
    "('sc, 'pt, 'r) crypto \<Rightarrow> Curve25519_KeyPair \<Rightarrow> bytes \<Rightarrow> bytes" where
  "Curve25519_calculate_agreement C self their_public_key =
     diffie_hellman C (StaticSecret_from C (c25519_private_key self)) their_public_key"

definition hash_prefix :: bytes where
  "hash_prefix = 0xFE # replicate 31 0xFF"

definition Curve25519_calculate_signature ::
    "('sc, 'pt, 'r) crypto \<Rightarrow> Curve25519_KeyPair \<Rightarrow> bytes \<Rightarrow> 'r \<Rightarrow> bytes \<times> 'r" where
  "Curve25519_calculate_signature C self message csprng =
     (case rng_fill_bytes C csprng 64 of (random_bytes, csprng') \<Rightarrow>
        let a = Scalar_from_bits C (c25519_private_key self);
            ed_public_key = compress C (mul_basepoint C a);
            sign_bit = (ed_public_key ! 31) AND 0x80;
            r = Scalar_from_hash C
                  (Sha512 C (hash_prefix @ c25519_private_key self @ message @ random_bytes));
            cap_r = compress C (mul_basepoint C r);
            h = Scalar_from_hash C (Sha512 C (cap_r @ ed_public_key @ message));
            s = Scalar_mul_add C h a r;
            result = take 32 cap_r @ take 32 (Scalar_as_bytes C s);
            result = result[63 := (result ! 63) AND 0x7F];
            result = result[63 := (result ! 63) OR sign_bit]
        in (result, csprng'))"

definition Curve25519_verify_signature ::
    "('sc, 'pt, 'r) crypto \<Rightarrow> bytes \<Rightarrow> bytes \<Rightarrow> bytes \<Rightarrow> bool" where
  "Curve25519_verify_signature C their_public_key message signature =
     (case to_edwards C their_public_key (drop_bit 7 ((signature ! 63) AND 0x80)) of
        None \<Rightarrow> False
      | Some ed_pub_key_point \<Rightarrow>
          let cap_a = compress C ed_pub_key_point;
              cap_r = take 32 signature;
              s = take 32 (drop 32 signature);
              s = s[31 := (s ! 31) AND 0x7F]
          in if (s ! 31) AND 0xE0 \<noteq> 0 then False
             else let minus_cap_a = point_neg C ed_pub_key_point;
                      h = Scalar_from_hash C (Sha512 C (cap_r @ cap_a @ message));
                      cap_r_check_point = vartime_double_scalar_mul_basepoint C h minus_cap_a
                                            (Scalar_from_bits C s)
                  in ct_eq (compress C cap_r_check_point) cap_r)"

definition derive_public_key :: "('sc, 'pt, 'r) crypto \<Rightarrow> bytes \<Rightarrow> bytes" where
  "derive_public_key C private_key = X25519_public C (StaticSecret_from C private_key)"

definition Curve25519_from :: "('sc, 'pt, 'r) crypto \<Rightarrow> bytes \<Rightarrow> Curve25519_KeyPair" where
  "Curve25519_from C private_key =
     (let private_key = StaticSecret_from C private_key
      in \<lparr>c25519_public_key = X25519_public C private_key, c25519_private_key = private_key\<rparr>)"

section \<open>Typed keys\<close>

fun KeyType_value :: "KeyType \<Rightarrow> u8" where
  "KeyType_value Djb = 0x05"

definition KeyType_try_from :: "u8 \<Rightarrow> KeyType sresult" where
  "KeyType_try_from x = (if x = 0x05 then Ok Djb else Err (BadKeyType x))"

datatype PublicKeyData = DjbPublicKey bytes
datatype PublicKey = PublicKey (pk_key: PublicKeyData)
datatype PrivateKeyData = DjbPrivateKey bytes
datatype PrivateKey = PrivateKey (sk_key: PrivateKeyData)

definition PublicKey_deserialize :: "bytes \<Rightarrow> PublicKey sresult" where
  "PublicKey_deserialize value =
     (if value = [] then Err NoKeyTypeIdentifier
      else rbind (index_at value 0) (\<lambda>value0.
        rbind (KeyType_try_from value0) (\<lambda>key_type.
        case key_type of
          Djb \<Rightarrow> if length value < 32 + 1 then Err (BadKeyLength Djb (length value))
                 else rbind (slice_range value 1 33) (\<lambda>key. Ok (PublicKey (DjbPublicKey key))))))"

fun PublicKey_public_key_bytes :: "PublicKey \<Rightarrow> bytes sresult" where
  "PublicKey_public_key_bytes (PublicKey (DjbPublicKey v)) = Ok v"

fun PublicKey_key_data :: "PublicKey \<Rightarrow> bytes" where
  "PublicKey_key_data (PublicKey (DjbPublicKey k)) = k"

fun PublicKey_key_type :: "PublicKey \<Rightarrow> KeyType" where
  "PublicKey_key_type (PublicKey (DjbPublicKey _)) = Djb"

definition PublicKey_serialize :: "PublicKey \<Rightarrow> bytes" where
  "PublicKey_serialize self =
     KeyType_value (PublicKey_key_type self) # (case pk_key self of DjbPublicKey v \<Rightarrow> v)"

definition PublicKey_verify_signature ::
    "('sc, 'pt, 'r) crypto \<Rightarrow> PublicKey \<Rightarrow> bytes \<Rightarrow> bytes \<Rightarrow> bool sresult" where
  "PublicKey_verify_signature C self message signature =
     (case pk_key self of DjbPublicKey pub_key \<Rightarrow>
        if length signature \<noteq> 64
        then Err (MismatchedSignatureLengthForKey Djb (length signature))
        else Ok (Curve25519_verify_signature C pub_key message signature))"

definition PublicKey_eq :: "PublicKey \<Rightarrow> PublicKey \<Rightarrow> bool" where
  "PublicKey_eq self other \<longleftrightarrow>
     PublicKey_key_type self = PublicKey_key_type other \<and>
     ct_eq (PublicKey_key_data self) (PublicKey_key_data other)"

definition KeyType_cmp :: "KeyType \<Rightarrow> KeyType \<Rightarrow> Ordering" where
  "KeyType_cmp a b = Equal"

definition PublicKey_cmp :: "PublicKey \<Rightarrow> PublicKey \<Rightarrow> Ordering" where
  "PublicKey_cmp self other =
     (if PublicKey_key_type self \<noteq> PublicKey_key_type other
      then KeyType_cmp (PublicKey_key_type self) (PublicKey_key_type other)
      else constant_time_cmp (PublicKey_key_data self) (PublicKey_key_data other))"

definition PrivateKey_deserialize :: "bytes \<Rightarrow> PrivateKey sresult" where
  "PrivateKey_deserialize value =
     (if length value \<noteq> 32 then Err (BadKeyLength Djb (length value))
      else Ok (PrivateKey (DjbPrivateKey (take 32 value))))"

fun PrivateKey_serialize :: "PrivateKey \<Rightarrow> bytes" where
  "PrivateKey_serialize (PrivateKey (DjbPrivateKey v)) = v"

fun PrivateKey_public_key :: "('sc, 'pt, 'r) crypto \<Rightarrow> PrivateKey \<Rightarrow> PublicKey sresult" where
  "PrivateKey_public_key C (PrivateKey (DjbPrivateKey private_key)) =
     Ok (PublicKey (DjbPublicKey (derive_public_key C private_key)))"

fun PrivateKey_key_type :: "PrivateKey \<Rightarrow> KeyType" where
  "PrivateKey_key_type (PrivateKey (DjbPrivateKey _)) = Djb"

fun PrivateKey_calculate_signature ::
    "('sc, 'pt, 'r) crypto \<Rightarrow> PrivateKey \<Rightarrow> bytes \<Rightarrow> ('r, bytes) sst" where
  "PrivateKey_calculate_signature C (PrivateKey (DjbPrivateKey k)) message =
     sgen (Curve25519_calculate_signature C (Curve25519_from C k) message)"

fun PrivateKey_calculate_agreement ::
    "('sc, 'pt, 'r) crypto \<Rightarrow> PrivateKey \<Rightarrow> PublicKey \<Rightarrow> bytes sresult" where
  "PrivateKey_calculate_agreement C (PrivateKey (DjbPrivateKey priv_key))
      (PublicKey (DjbPublicKey pub_key)) =
     Ok (Curve25519_calculate_agreement C (Curve25519_from C priv_key) pub_key)"

record KeyPair =
  kp_public_key :: PublicKey
  kp_private_key :: PrivateKey

definition KeyPair_generate :: "('sc, 'pt, 'r) crypto \<Rightarrow> 'r \<Rightarrow> KeyPair \<times> 'r" where
  "KeyPair_generate C csprng =
     (case Curve25519_new C csprng of (keypair, csprng') \<Rightarrow>
        (\<lparr>kp_public_key = PublicKey (DjbPublicKey (c25519_public_key keypair)),
          kp_private_key = PrivateKey (DjbPrivateKey (c25519_private_key keypair))\<rparr>, csprng'))"

abbreviation decode_point :: "bytes \<Rightarrow> PublicKey sresult" where
  "decode_point \<equiv> PublicKey_deserialize"

abbreviation decode_private_point :: "bytes \<Rightarrow> PrivateKey sresult" where
  "decode_private_point \<equiv> PrivateKey_deserialize"

definition KeyPair_from_public_and_private :: "bytes \<Rightarrow> bytes \<Rightarrow> KeyPair sresult" where
  "KeyPair_from_public_and_private public_key private_key =
     rbind (decode_point public_key) (\<lambda>public_key.
     rbind (decode_private_point private_key) (\<lambda>private_key.
     Ok \<lparr>kp_public_key = public_key, kp_private_key = private_key\<rparr>))"

definition KeyPair_calculate_signature ::
    "('sc, 'pt, 'r) crypto \<Rightarrow> KeyPair \<Rightarrow> bytes \<Rightarrow> ('r, bytes) sst" where
  "KeyPair_calculate_signature C self message =
     PrivateKey_calculate_signature C (kp_private_key self) message"

definition KeyPair_calculate_agreement ::
    "('sc, 'pt, 'r) crypto \<Rightarrow> KeyPair \<Rightarrow> PublicKey \<Rightarrow> bytes sresult" where
  "KeyPair_calculate_agreement C self their_key =
     PrivateKey_calculate_agreement C (kp_private_key self) their_key"

definition verify_signature ::
    "('sc, 'pt, 'r) crypto \<Rightarrow> PublicKey \<Rightarrow> bytes \<Rightarrow> bytes \<Rightarrow> bool sresult" where
  "verify_signature C public_key message signature =
     PublicKey_verify_signature C public_key message signature"

definition calculate_signature ::
    "('sc, 'pt, 'r) crypto \<Rightarrow> PrivateKey \<Rightarrow> bytes \<Rightarrow> ('r, bytes) sst" where
  "calculate_signature C private_key message = PrivateKey_calculate_signature C private_key message"

definition calculate_agreement ::
    "('sc, 'pt, 'r) crypto \<Rightarrow> PublicKey \<Rightarrow> PrivateKey \<Rightarrow> bytes sresult" where
  "calculate_agreement C public_key private_key =
     PrivateKey_calculate_agreement C private_key public_key"

section \<open>Identity keys\<close>

datatype IdentityKey = IdentityKey (ik_public_key: PublicKey)

definition IdentityKey_serialize :: "IdentityKey \<Rightarrow> bytes" where
  "IdentityKey_serialize self = PublicKey_serialize (ik_public_key self)"

definition IdentityKey_decode :: "bytes \<Rightarrow> IdentityKey sresult" where
  "IdentityKey_decode value = rbind (PublicKey_deserialize value) (\<lambda>pk. Ok (IdentityKey pk))"

record IdentityKeyPair =
  ikp_identity_key :: IdentityKey
  ikp_private_key :: PrivateKey

definition IdentityKeyPair_generate :: "('sc, 'pt, 'r) crypto \<Rightarrow> 'r \<Rightarrow> IdentityKeyPair \<times> 'r" where
  "IdentityKeyPair_generate C csprng =
     (case KeyPair_generate C csprng of (keypair, csprng') \<Rightarrow>
        (\<lparr>ikp_identity_key = IdentityKey (kp_public_key keypair),
          ikp_private_key = kp_private_key keypair\<rparr>, csprng'))"

definition IdentityKeyPair_from :: "KeyPair \<Rightarrow> IdentityKeyPair" where
  "IdentityKeyPair_from value =
     \<lparr>ikp_identity_key = IdentityKey (kp_public_key value), ikp_private_key = kp_private_key value\<rparr>"

section \<open>Sizes\<close>

definition PublicKey_wf :: "PublicKey \<Rightarrow> bool" where
  "PublicKey_wf k \<longleftrightarrow> length (PublicKey_key_data k) = 32"

definition PrivateKey_wf :: "PrivateKey \<Rightarrow> bool" where
  "PrivateKey_wf k \<longleftrightarrow> length (PrivateKey_serialize k) = 32"

definition IdentityKey_wf :: "IdentityKey \<Rightarrow> bool" where
  "IdentityKey_wf k \<longleftrightarrow> PublicKey_wf (ik_public_key k)"

text \<open>A key pair whose public half belongs to its private half.\<close>

definition KeyPair_wf :: "('sc, 'pt, 'r) crypto \<Rightarrow> KeyPair \<Rightarrow> bool" where
  "KeyPair_wf C kp \<longleftrightarrow> PrivateKey_wf (kp_private_key kp) \<and>
     PrivateKey_public_key C (kp_private_key kp) = Ok (kp_public_key kp)"

definition IdentityKeyPair_wf :: "('sc, 'pt, 'r) crypto \<Rightarrow> IdentityKeyPair \<Rightarrow> bool" where
  "IdentityKeyPair_wf C kp \<longleftrightarrow> PrivateKey_wf (ikp_private_key kp) \<and>
     PrivateKey_public_key C (ikp_private_key kp) = Ok (ik_public_key (ikp_identity_key kp))"

lemma PublicKey_key_type_Djb [simp]: "PublicKey_key_type k = Djb"
  by (cases k rule: PublicKey_key_type.cases) simp

lemma PublicKey_serialize_eq: "PublicKey_serialize k = 5 # PublicKey_key_data k"
  by (cases k rule: PublicKey_key_data.cases) (simp add: PublicKey_serialize_def)

lemma length_PublicKey_serialize [len_simps]:
  "PublicKey_wf k \<Longrightarrow> length (PublicKey_serialize k) = 33"
  by (simp add: PublicKey_serialize_eq PublicKey_wf_def)

lemma PublicKey_deserialize_Ok_iff:
  "PublicKey_deserialize bs = Ok k \<longleftrightarrow>
     (\<exists>body rest. bs = 5 # body @ rest \<and> length body = 32 \<and> k = PublicKey (DjbPublicKey body))"
    (is "?l \<longleftrightarrow> ?r")
proof
  assume ?l
  then obtain xs where xs: "bs = 5 # xs" "32 \<le> length xs" "k = PublicKey (DjbPublicKey (take 32 xs))"
    by (cases bs) (auto simp: PublicKey_deserialize_def KeyType_try_from_def result_simps
        split: if_splits KeyType.splits)
  then show ?r
    by (intro exI [of _ "take 32 xs"] exI [of _ "drop 32 xs"]) simp
next
  assume ?r
  then show ?l
    by (auto simp: PublicKey_deserialize_def KeyType_try_from_def)
qed

lemma PublicKey_key_data_inject: "PublicKey_key_data a = PublicKey_key_data b \<longleftrightarrow> a = b"
  by (cases a rule: PublicKey_key_data.cases; cases b rule: PublicKey_key_data.cases) simp

lemma PrivateKey_serialize_inject: "PrivateKey_serialize a = PrivateKey_serialize b \<longleftrightarrow> a = b"
  by (cases a rule: PrivateKey_serialize.cases; cases b rule: PrivateKey_serialize.cases) simp

section \<open>Encodings of keys\<close>

text \<open>What a client of an encoding of fixed-size values relies on.\<close>

locale byte_codec =
  fixes ser :: "'a \<Rightarrow> bytes"
    and deser :: "bytes \<Rightarrow> 'a sresult"
    and wf :: "'a \<Rightarrow> bool"
  assumes deser_ser: "wf x \<Longrightarrow> deser (ser x) = Ok x"
    and deser_wf: "deser bs = Ok x \<Longrightarrow> wf x"
    and deser_total: "deser bs \<noteq> Panic"
begin

lemma ser_inject: "wf x \<Longrightarrow> wf y \<Longrightarrow> ser x = ser y \<longleftrightarrow> x = y"
  by (metis deser_ser result.inject(1))

lemma canonical: "deser bs = Ok x \<Longrightarrow> deser (ser x) = Ok x"
  by (simp add: deser_ser deser_wf)

lemma ser_canonical_eq: "deser bs = Ok x \<Longrightarrow> wf y \<Longrightarrow> ser x = ser y \<longleftrightarrow> x = y"
  by (simp add: deser_wf ser_inject)

end

lemma PublicKey_deserialize_serialize_trailing:
  "PublicKey_wf k \<Longrightarrow> PublicKey_deserialize (PublicKey_serialize k @ rest) = Ok k"
  by (cases k rule: PublicKey_key_data.cases)
     (simp add: PublicKey_serialize_eq PublicKey_wf_def PublicKey_deserialize_def KeyType_try_from_def)

interpretation pubkey: byte_codec PublicKey_serialize PublicKey_deserialize PublicKey_wf
proof unfold_locales
  show "PublicKey_deserialize (PublicKey_serialize k) = Ok k" if "PublicKey_wf k" for k
    using PublicKey_deserialize_serialize_trailing [OF that, of "[]"] by simp
  show "PublicKey_wf k" if "PublicKey_deserialize bs = Ok k" for bs k
    using that by (auto simp: PublicKey_deserialize_Ok_iff PublicKey_wf_def)
  show "PublicKey_deserialize bs \<noteq> Panic" for bs
    by (auto simp: PublicKey_deserialize_def KeyType_try_from_def result_simps split: KeyType.splits)
qed

interpretation privkey: byte_codec PrivateKey_serialize PrivateKey_deserialize PrivateKey_wf
proof unfold_locales
  show "PrivateKey_deserialize (PrivateKey_serialize k) = Ok k" if "PrivateKey_wf k" for k
    using that by (cases k rule: PrivateKey_serialize.cases)
      (simp add: PrivateKey_wf_def PrivateKey_deserialize_def)
  show "PrivateKey_wf k" if "PrivateKey_deserialize bs = Ok k" for bs k
    using that by (auto simp: PrivateKey_deserialize_def PrivateKey_wf_def split: if_splits)
  show "PrivateKey_deserialize bs \<noteq> Panic" for bs
    by (simp add: PrivateKey_deserialize_def)
qed

interpretation idkey: byte_codec IdentityKey_serialize IdentityKey_decode IdentityKey_wf
proof unfold_locales
  show "IdentityKey_decode (IdentityKey_serialize k) = Ok k" if "IdentityKey_wf k" for k
    using that by (cases k) (simp add: IdentityKey_wf_def IdentityKey_decode_def
        IdentityKey_serialize_def pubkey.deser_ser)
  show "IdentityKey_wf k" if "IdentityKey_decode bs = Ok k" for bs k
    using that by (auto simp: IdentityKey_decode_def IdentityKey_wf_def result_simps pubkey.deser_wf)
  show "IdentityKey_decode bs \<noteq> Panic" for bs
    by (simp add: IdentityKey_decode_def result_simps pubkey.deser_total)
qed

section \<open>The order of public keys\<close>

lemma PublicKey_cmp_eq:
  "PublicKey_cmp a b = constant_time_cmp (PublicKey_key_data a) (PublicKey_key_data b)"
  by (simp add: PublicKey_cmp_def)

lemma PublicKey_eq_iff [simp]: "PublicKey_eq a b \<longleftrightarrow> a = b"
  by (simp add: PublicKey_eq_def PublicKey_key_data_inject)

instantiation PublicKey :: linorder
begin

definition less_PublicKey :: "PublicKey \<Rightarrow> PublicKey \<Rightarrow> bool" where
  "less_PublicKey a b \<longleftrightarrow> PublicKey_cmp a b = Less"

definition less_eq_PublicKey :: "PublicKey \<Rightarrow> PublicKey \<Rightarrow> bool" where
  "less_eq_PublicKey a b \<longleftrightarrow> PublicKey_cmp a b \<noteq> Greater"

instance
proof
  fix a b c :: PublicKey
  note defs = less_PublicKey_def less_eq_PublicKey_def PublicKey_cmp_eq
  have total: "constant_time_cmp x y \<noteq> Greater \<longleftrightarrow> x = y \<or> constant_time_cmp x y = Less" for x y
    using constant_time_cmp_Equal [of x y] by (cases "constant_time_cmp x y") auto
  show "a < b \<longleftrightarrow> a \<le> b \<and> \<not> b \<le> a"
    unfolding defs constant_time_cmp_flip [of "PublicKey_key_data b"] total
    by (metis Ordering.distinct(1) constant_time_cmp_Equal constant_time_cmp_flip Ordering.distinct(5))
  show "a \<le> a"
    by (simp add: defs total)
  show "a \<le> c" if "a \<le> b" "b \<le> c"
    using that unfolding defs total by (metis constant_time_cmp_Less_trans)
  show "a = b" if "a \<le> b" "b \<le> a"
    using that unfolding defs total
    by (metis Ordering.distinct(3) PublicKey_key_data_inject constant_time_cmp_flip)
  show "a \<le> b \<or> b \<le> a"
    unfolding defs by (metis Ordering.distinct(3) constant_time_cmp_flip)
qed

end

section \<open>Agreement\<close>

lemma derive_public_key_len [len_simps]: "dh_ok C \<Longrightarrow> length (derive_public_key C k) = 32"
  by (simp add: derive_public_key_def dh_okD)

lemma KeyPair_wf_public: "dh_ok C \<Longrightarrow> KeyPair_wf C kp \<Longrightarrow> PublicKey_wf (kp_public_key kp)"
  by (cases "kp_private_key kp" rule: PrivateKey_serialize.cases)
     (auto simp: KeyPair_wf_def PublicKey_wf_def len_simps dest: sym)

lemma IdentityKeyPair_wf_public:
  "dh_ok C \<Longrightarrow> IdentityKeyPair_wf C kp \<Longrightarrow> IdentityKey_wf (ikp_identity_key kp)"
  by (cases "ikp_private_key kp" rule: PrivateKey_serialize.cases)
     (auto simp: IdentityKeyPair_wf_def IdentityKey_wf_def PublicKey_wf_def len_simps dest: sym)

lemma KeyPair_generate_wf:
  assumes "dh_ok C"
  shows "KeyPair_wf C (fst (KeyPair_generate C r))"
  using dh_okD [OF assms]
  by (simp add: KeyPair_generate_def Curve25519_new_def KeyPair_wf_def PrivateKey_wf_def
      derive_public_key_def split_beta)

lemma calculate_agreement_Ok:
  "\<exists>secret. calculate_agreement C pub priv = Ok secret \<and> (dh_ok C \<longrightarrow> length secret = 32)"
  by (cases pub rule: PublicKey_key_data.cases; cases priv rule: PrivateKey_serialize.cases)
     (simp add: calculate_agreement_def Curve25519_calculate_agreement_def dh_okD)

lemma calculate_agreement_commute:
  assumes "dh_ok C"
    and "PrivateKey_public_key C a = Ok pub_a" "PrivateKey_public_key C b = Ok pub_b"
  shows "calculate_agreement C pub_b a = calculate_agreement C pub_a b"
  using assms dh_okD [OF assms(1)]
  by (cases a rule: PrivateKey_serialize.cases; cases b rule: PrivateKey_serialize.cases)
     (auto simp: calculate_agreement_def Curve25519_calculate_agreement_def Curve25519_from_def
       derive_public_key_def Let_def)

section \<open>Signatures\<close>

text \<open>
  What XEdDSA relies on of \<open>curve25519-dalek\<close>: encodings have 32 bytes, a reduced scalar
  is below \<open>2 ^ 253\<close> and is read back from its bytes, \<open>h * (-A) + (h * a + r) * B = r * B\<close>
  for \<open>A = a * B\<close>, and the birational map takes the Montgomery public key, with the sign
  bit of the Edwards public key, back to that Edwards point.
\<close>

definition xeddsa_ok :: "('sc, 'pt, 'r) crypto \<Rightarrow> bool" where
  "xeddsa_ok C \<longleftrightarrow>
     (\<forall>p. length (compress C p) = 32) \<and> (\<forall>s. length (Scalar_as_bytes C s) = 32) \<and>
     (\<forall>h a r. (Scalar_as_bytes C (Scalar_mul_add C h a r) ! 31) AND 0xE0 = 0 \<and>
        Scalar_from_bits C (Scalar_as_bytes C (Scalar_mul_add C h a r)) = Scalar_mul_add C h a r) \<and>
     (\<forall>h a r. vartime_double_scalar_mul_basepoint C h (point_neg C (mul_basepoint C a))
        (Scalar_mul_add C h a r) = mul_basepoint C r) \<and>
     (\<forall>k. let a = Scalar_from_bits C (StaticSecret_from C k)
        in to_edwards C (X25519_public C (StaticSecret_from C k))
             (drop_bit 7 ((compress C (mul_basepoint C a) ! 31) AND 0x80)) = Some (mul_basepoint C a))"

lemma xeddsa_okD:
  assumes "xeddsa_ok C"
  shows "length (compress C p) = 32" "length (Scalar_as_bytes C s) = 32"
    and "(Scalar_as_bytes C (Scalar_mul_add C h a r) ! 31) AND 0xE0 = 0"
    and "Scalar_from_bits C (Scalar_as_bytes C (Scalar_mul_add C h a r)) = Scalar_mul_add C h a r"
    and "vartime_double_scalar_mul_basepoint C h (point_neg C (mul_basepoint C a))
           (Scalar_mul_add C h a r) = mul_basepoint C r"
    and "to_edwards C (X25519_public C (StaticSecret_from C k))
           (drop_bit 7 ((compress C (mul_basepoint C (Scalar_from_bits C (StaticSecret_from C k))) ! 31)
              AND 0x80)) = Some (mul_basepoint C (Scalar_from_bits C (StaticSecret_from C k)))"
  using assms by (simp_all add: xeddsa_ok_def Let_def)

text \<open>The sign bit and the scalar byte share the last byte without disturbing each other.\<close>

lemma byte_bits_eqI: "(\<And>n. n < 8 \<Longrightarrow> bit a n = bit b n) \<Longrightarrow> (a :: u8) = b"
  by (rule bit_word_eqI) simp

lemma less_8_cases: "n < (8 :: nat) \<Longrightarrow> n = 0 \<or> n = 1 \<or> n = 2 \<or> n = 3 \<or> n = 4 \<or> n = 5 \<or> n = 6 \<or> n = 7"
  by auto

lemma sign_byte:
  fixes b x :: u8
  shows "((b AND 0x7F) OR (x AND 0x80)) AND 0x80 = x AND 0x80"
    and "((b AND 0x7F) OR (x AND 0x80)) AND 0x7F = b AND 0x7F"
    and "b AND 0xE0 = 0 \<Longrightarrow> b AND 0x7F = b"
proof -
  show "((b AND 0x7F) OR (x AND 0x80)) AND 0x80 = x AND 0x80"
    by (rule byte_bits_eqI, drule less_8_cases, elim disjE)
       (simp_all add: bit_and_iff bit_or_iff)
  show "((b AND 0x7F) OR (x AND 0x80)) AND 0x7F = b AND 0x7F"
    by (rule byte_bits_eqI, drule less_8_cases, elim disjE)
       (simp_all add: bit_and_iff bit_or_iff)
  assume "b AND 0xE0 = 0"
  then have "\<not> bit (b AND 0xE0) 7" by simp
  then have top: "\<not> bit b 7" by (simp add: bit_and_iff)
  show "b AND 0x7F = b"
    by (rule byte_bits_eqI, drule less_8_cases, elim disjE) (simp_all add: bit_and_iff top)
qed

lemma Curve25519_sign_verify:
  assumes ok: "xeddsa_ok C" and k: "k = StaticSecret_from C k0"
    and kp: "c25519_private_key kp = k"
    and sign: "Curve25519_calculate_signature C kp message rng = (signature, rng')"
  shows "Curve25519_verify_signature C (X25519_public C k) message signature"
    and "length signature = 64"
proof -
  note D = xeddsa_okD [OF ok]
  obtain z where z: "fst (rng_fill_bytes C rng 64) = z" by simp
  define a where "a = Scalar_from_bits C k"
  define A where "A = compress C (mul_basepoint C a)"
  define r where "r = Scalar_from_hash C (Sha512 C (hash_prefix @ k @ message @ z))"
  define R where "R = compress C (mul_basepoint C r)"
  define h where "h = Scalar_from_hash C (Sha512 C (R @ A @ message))"
  define s where "s = Scalar_as_bytes C (Scalar_mul_add C h a r)"
  have len: "length R = 32" "length s = 32" by (simp_all add: R_def s_def D)
  define c where "c = ((s ! 31) AND 0x7F) OR ((A ! 31) AND 0x80)"
  have sig: "signature = R @ s[31 := c]"
    using sign len by (auto simp: Curve25519_calculate_signature_def Let_def split_beta kp z a_def A_def
        r_def R_def h_def s_def c_def nth_append list_update_append)
  show "length signature = 64" using len by (simp add: sig)
  have c: "signature ! 63 = c" using len by (simp add: sig nth_append)
  have c_bits: "c AND 0x80 = (A ! 31) AND 0x80" "c AND 0x7F = s ! 31"
    unfolding c_def sign_byte(1,2) using sign_byte(3) [OF D(3)] by (simp_all add: s_def)
  have s31: "s[31 := s ! 31] = s" by simp
  have pt: "to_edwards C (X25519_public C k) (drop_bit 7 ((A ! 31) AND 0x80)) = Some (mul_basepoint C a)"
    unfolding A_def a_def k by (rule D(6))
  have parts: "take 32 signature = R" "(take 32 (drop 32 signature)) [31 := (take 32 (drop 32 signature) ! 31) AND 0x7F] = s"
    using len s31 by (simp_all add: sig c_bits)
  have pt': "to_edwards C (X25519_public C k) (drop_bit 7 ((signature ! 63) AND 0x80)) =
      Some (mul_basepoint C a)"
    unfolding c c_bits by (rule pt)
  have "(s ! 31) AND 0xE0 = 0" "Scalar_from_bits C s = Scalar_mul_add C h a r"
    by (simp_all add: s_def D)
  then show "Curve25519_verify_signature C (X25519_public C k) message signature"
    unfolding Curve25519_verify_signature_def Let_def pt' option.case parts
    by (simp add: A_def [symmetric] h_def [symmetric] D(5)) (simp add: R_def)
qed

lemma calculate_signature_verifies:
  assumes "xeddsa_ok C" "PrivateKey_public_key C priv = Ok pub"
  obtains signature rng' where "calculate_signature C priv message rng = (Ok signature, rng')"
    "length signature = 64" "verify_signature C pub message signature = Ok True"
proof -
  obtain k where priv: "priv = PrivateKey (DjbPrivateKey k)"
    by (cases priv rule: PrivateKey_serialize.cases) auto
  have k: "c25519_private_key (Curve25519_from C k) = StaticSecret_from C k"
    by (simp add: Curve25519_from_def Let_def)
  obtain sig rng' where sig: "Curve25519_calculate_signature C (Curve25519_from C k) message rng = (sig, rng')"
    by fastforce
  note sv = Curve25519_sign_verify [OF assms(1) refl k sig]
  show thesis
  proof (rule that)
    show "calculate_signature C priv message rng = (Ok sig, rng')"
      by (simp add: priv calculate_signature_def sig)
    show "verify_signature C pub message sig = Ok True"
      using assms(2) sv by (auto simp: priv verify_signature_def PublicKey_verify_signature_def
          derive_public_key_def)
  qed (rule sv(2))
qed

lemma ref_xeddsa_ok [simp]: "xeddsa_ok ref_crypto"
  by (simp add: xeddsa_ok_def ref_crypto_def head_byte_def nth_Cons' algebra_simps split: list.splits)

section \<open>Properties\<close>

text \<open>
  The constant-time comparison of public keys is a total order on them: it is
  reflexive, antisymmetric, transitive and total, and \<open>Equal\<close> means the same key.
\<close>

lemma PublicKey_cmp_total_order:
  "(PublicKey_cmp a b = Equal \<longleftrightarrow> a = b) \<and>
   (PublicKey_cmp a b = Greater \<longleftrightarrow> PublicKey_cmp b a = Less) \<and>
   (PublicKey_cmp a b = Less \<and> PublicKey_cmp b c = Less \<longrightarrow> PublicKey_cmp a c = Less)"
  using constant_time_cmp_Equal constant_time_cmp_flip constant_time_cmp_Less_trans
  by (simp add: PublicKey_cmp_eq PublicKey_key_data_inject) blast

lemma PublicKey_cmp_total_order_witness:
  "PublicKey_cmp (PublicKey (DjbPublicKey [1])) (PublicKey (DjbPublicKey [3])) = Less"
  using PublicKey_cmp_total_order [of "PublicKey (DjbPublicKey [1])" "PublicKey (DjbPublicKey [2])"
      "PublicKey (DjbPublicKey [3])"]
  by (simp add: PublicKey_cmp_eq constant_time_cmp_shortlex)

text \<open>
  C34. Decoding a public key accepts exactly the strings that start with the type byte
  \<open>0x05\<close> and 32 key bytes, whatever follows them, and returns those 32 bytes; encoding
  the result gives back that prefix.
\<close>

theorem PublicKey_deserialize_exact:
  "PublicKey_deserialize bs = Ok k \<longleftrightarrow>
     (\<exists>rest. bs = PublicKey_serialize k @ rest) \<and> length (PublicKey_key_data k) = 32"
  by (cases k rule: PublicKey_key_data.cases)
     (auto simp: PublicKey_deserialize_Ok_iff PublicKey_serialize_eq)

text \<open>
  Both sides of a key agreement compute the same secret from the other side's public
  key, whatever bytes the private keys were made from.
\<close>

lemma agreement_symmetric:
  assumes "dh_ok C"
    and "PrivateKey_public_key C a = Ok pub_a" "PrivateKey_public_key C b = Ok pub_b"
  shows "calculate_agreement C pub_b a = calculate_agreement C pub_a b"
  using assms by (rule calculate_agreement_commute)

lemma agreement_symmetric_witness:
  "calculate_agreement ref_crypto (PublicKey (DjbPublicKey (pad_to 32 [7])))
       (PrivateKey (DjbPrivateKey [1])) =
   calculate_agreement ref_crypto (PublicKey (DjbPublicKey (pad_to 32 [1])))
       (PrivateKey (DjbPrivateKey [7]))"
  by (rule agreement_symmetric [OF ref_dh_ok]) (simp_all add: derive_public_key_def ref_crypto_def)

text \<open>
  A signature made with a private key is 64 bytes long and verifies under the
  public key of that private key, for every message and every state of the generator.
\<close>

lemma signature_verifies:
  assumes "xeddsa_ok C"
    and "PrivateKey_public_key C priv = Ok pub"
    and "calculate_signature C priv message rng = (Ok signature, rng')"
  shows "length signature = 64 \<and> verify_signature C pub message signature = Ok True"
proof -
  obtain sig rng'' where "calculate_signature C priv message rng = (Ok sig, rng'')"
    "length sig = 64" "verify_signature C pub message sig = Ok True"
    using calculate_signature_verifies [OF assms(1,2)] .
  with assms(3) show ?thesis by simp
qed

lemma signature_verifies_witness:
  "\<exists>signature rng'.
     calculate_signature ref_crypto (PrivateKey (DjbPrivateKey [3, 4])) [1, 2] 0 = (Ok signature, rng') \<and>
     verify_signature ref_crypto (PublicKey (DjbPublicKey (pad_to 32 [3, 4]))) [1, 2] signature = Ok True"
proof -
  let ?priv = "PrivateKey (DjbPrivateKey [3, 4])"
  have pub: "PrivateKey_public_key ref_crypto ?priv = Ok (PublicKey (DjbPublicKey (pad_to 32 [3, 4])))"
    by (simp add: derive_public_key_def ref_crypto_def)
  obtain sig rng' where sig: "calculate_signature ref_crypto ?priv [1, 2] 0 = (Ok sig, rng')"
    by (simp add: calculate_signature_def)
  from signature_verifies [OF ref_xeddsa_ok pub sig] sig show ?thesis by blast
qed

end
