(* ===== verification/Ratchet_Keys.thy ===== *)
theory Ratchet_Keys
  imports Kdf Curve
begin

text \<open>
  Model of \<open>rust/protocol/src/ratchet/keys.rs\<close>: message keys, chain keys and root keys of
  the double ratchet. Indices are \<open>u32\<close>; \<open>self.index + 1\<close> wraps as in a release build.
\<close>

section \<open>Message keys\<close>

record MessageKeys =
  mk_cipher_key :: bytes
  mk_mac_key :: bytes
  mk_iv :: bytes
  mk_counter :: u32

definition ascii :: "string \<Rightarrow> bytes" where
  "ascii s = map of_char s"

definition MessageKeys_derive_keys ::
    "('sc, 'pt, 'r) crypto \<Rightarrow> bytes \<Rightarrow> HKDF \<Rightarrow> u32 \<Rightarrow> MessageKeys sresult" where
  "MessageKeys_derive_keys C input_key_material kdf counter =
     rbind (HKDF_derive_secrets C kdf input_key_material (ascii ''WhisperMessageKeys'') 80) (\<lambda>okm.
     rbind (slice okm 0 32) (\<lambda>cipher_key.
     rbind (slice okm 32 32) (\<lambda>mac_key.
     rbind (slice okm 64 16) (\<lambda>iv.
     Ok \<lparr>mk_cipher_key = cipher_key, mk_mac_key = mac_key, mk_iv = iv, mk_counter = counter\<rparr>))))"

definition MessageKeys_new :: "bytes \<Rightarrow> bytes \<Rightarrow> bytes \<Rightarrow> u32 \<Rightarrow> MessageKeys sresult" where
  "MessageKeys_new cipher_key mac_key iv counter =
     (if length mac_key \<noteq> 32 then Err (InvalidMacKeyLength (length mac_key))
      else if length cipher_key \<noteq> 32 \<or> length iv \<noteq> 16
        then Err (InvalidCipherCryptographicParameters (length cipher_key) (length iv))
      else Ok \<lparr>mk_cipher_key = cipher_key, mk_mac_key = mac_key, mk_iv = iv, mk_counter = counter\<rparr>)"

section \<open>Chain keys\<close>

record ChainKey =
  ck_kdf :: HKDF
  ck_key :: bytes
  ck_index :: u32

definition MESSAGE_KEY_SEED :: bytes where "MESSAGE_KEY_SEED = [0x01]"
definition CHAIN_KEY_SEED :: bytes where "CHAIN_KEY_SEED = [0x02]"

definition ChainKey_new :: "HKDF \<Rightarrow> bytes \<Rightarrow> u32 \<Rightarrow> ChainKey sresult" where
  "ChainKey_new kdf key index =
     (if length key \<noteq> 32 then Err (InvalidChainKeyLength (length key))
      else Ok \<lparr>ck_kdf = kdf, ck_key = key, ck_index = index\<rparr>)"

definition calculate_base_material ::
    "('sc, 'pt, 'r) crypto \<Rightarrow> ChainKey \<Rightarrow> bytes \<Rightarrow> bytes sresult" where
  "calculate_base_material C self seed = hmac_sha256 C (ck_key self) seed"

definition ChainKey_next_chain_key ::
    "('sc, 'pt, 'r) crypto \<Rightarrow> ChainKey \<Rightarrow> ChainKey sresult" where
  "ChainKey_next_chain_key C self =
     rbind (calculate_base_material C self CHAIN_KEY_SEED) (\<lambda>key.
     Ok \<lparr>ck_kdf = ck_kdf self, ck_key = key, ck_index = ck_index self + 1\<rparr>)"

definition ChainKey_message_keys ::
    "('sc, 'pt, 'r) crypto \<Rightarrow> ChainKey \<Rightarrow> MessageKeys sresult" where
  "ChainKey_message_keys C self =
     rbind (calculate_base_material C self MESSAGE_KEY_SEED) (\<lambda>material.
     MessageKeys_derive_keys C material (ck_kdf self) (ck_index self))"

section \<open>Root keys\<close>

record RootKey =
  rk_kdf :: HKDF
  rk_key :: bytes

definition RootKey_new :: "HKDF \<Rightarrow> bytes \<Rightarrow> RootKey sresult" where
  "RootKey_new kdf key =
     (if length key \<noteq> 32 then Err (InvalidRootKeyLength (length key))
      else Ok \<lparr>rk_kdf = kdf, rk_key = key\<rparr>)"

definition RootKey_create_chain ::
    "('sc, 'pt, 'r) crypto \<Rightarrow> RootKey \<Rightarrow> PublicKey \<Rightarrow> PrivateKey \<Rightarrow> (RootKey \<times> ChainKey) sresult" where
  "RootKey_create_chain C self their_ratchet_key our_ratchet_key =
     rbind (calculate_agreement C their_ratchet_key our_ratchet_key) (\<lambda>shared_secret.
     rbind (HKDF_derive_salted_secrets C (rk_kdf self) shared_secret (rk_key self)
              (ascii ''WhisperRatchet'') 64) (\<lambda>derived_secret_bytes.
     rbind (slice derived_secret_bytes 0 32) (\<lambda>root.
     rbind (slice derived_secret_bytes 32 32) (\<lambda>chain.
     Ok (\<lparr>rk_kdf = rk_kdf self, rk_key = root\<rparr>,
         \<lparr>ck_kdf = rk_kdf self, ck_key = chain, ck_index = 0\<rparr>)))))"

section \<open>Sizes and totality\<close>

definition MessageKeys_wf :: "MessageKeys \<Rightarrow> bool" where
  "MessageKeys_wf mk \<longleftrightarrow> length (mk_cipher_key mk) = 32 \<and> length (mk_mac_key mk) = 32 \<and> length (mk_iv mk) = 16"

definition ChainKey_wf :: "ChainKey \<Rightarrow> bool" where
  "ChainKey_wf ck \<longleftrightarrow> length (ck_key ck) = 32"

lemma MessageKeys_new_Ok [simp]:
  "MessageKeys_wf mk \<Longrightarrow>
     MessageKeys_new (mk_cipher_key mk) (mk_mac_key mk) (mk_iv mk) (mk_counter mk) = Ok mk"
  by (simp add: MessageKeys_new_def MessageKeys_wf_def)

lemma MessageKeys_new_not_Panic [simp]: "MessageKeys_new c m i n \<noteq> Panic"
  by (simp add: MessageKeys_new_def)

lemma MessageKeys_derive_keys_Ok:
  assumes "hash_ok C"
  shows "\<exists>mk. MessageKeys_derive_keys C ikm kdf n = Ok mk \<and> MessageKeys_wf mk \<and> mk_counter mk = n"
proof -
  obtain okm where "HKDF_derive_secrets C kdf ikm (ascii ''WhisperMessageKeys'') 80 = Ok okm"
    and "length okm = 80"
    using HKDF_derive_secrets_Ok [OF assms hkdf_sizes(3)] .
  then show ?thesis by (simp add: MessageKeys_derive_keys_def MessageKeys_wf_def)
qed

lemma ChainKey_message_keys_Ok:
  assumes "hash_ok C"
  shows "\<exists>mk. ChainKey_message_keys C ck = Ok mk \<and> MessageKeys_wf mk \<and> mk_counter mk = ck_index ck"
  using MessageKeys_derive_keys_Ok [OF assms]
  by (simp add: ChainKey_message_keys_def calculate_base_material_def hmac_sha256_def)

lemma ChainKey_next_Ok [simp]:
  "ChainKey_next_chain_key C ck =
     Ok \<lparr>ck_kdf = ck_kdf ck, ck_key = Hmac_Sha256 C (ck_key ck) CHAIN_KEY_SEED, ck_index = ck_index ck + 1\<rparr>"
  by (simp add: ChainKey_next_chain_key_def calculate_base_material_def hmac_sha256_def)

lemma RootKey_create_chain_Ok:
  assumes "hash_ok C"
  shows "\<exists>rk ck. RootKey_create_chain C self pub priv = Ok (rk, ck) \<and> length (rk_key rk) = 32 \<and>
     ChainKey_wf ck \<and> ck_index ck = 0 \<and> rk_kdf rk = rk_kdf self \<and> ck_kdf ck = rk_kdf self"
proof -
  obtain secret where s: "calculate_agreement C pub priv = Ok secret"
    using calculate_agreement_Ok by blast
  obtain out where
    "HKDF_derive_salted_secrets C (rk_kdf self) secret (rk_key self) (ascii ''WhisperRatchet'') 64 = Ok out"
    and "length out = 64"
    using HKDF_derive_salted_secrets_Ok [OF assms hkdf_sizes(2)] .
  with s show ?thesis by (simp add: RootKey_create_chain_def ChainKey_wf_def)
qed

section \<open>The symmetric ratchet\<close>

text \<open>\<open>ratchet C n ck\<close> is the chain key \<open>n\<close> steps ahead.\<close>

definition ratchet :: "('sc, 'pt, 'r) crypto \<Rightarrow> nat \<Rightarrow> ChainKey \<Rightarrow> ChainKey" where
  "ratchet C n ck = ((\<lambda>c. \<lparr>ck_kdf = ck_kdf c, ck_key = Hmac_Sha256 C (ck_key c) CHAIN_KEY_SEED,
      ck_index = ck_index c + 1\<rparr>) ^^ n) ck"

lemma ratchet_0 [simp]: "ratchet C 0 ck = ck"
  by (simp add: ratchet_def)

lemma ratchet_Suc': "Ok (ratchet C (Suc n) ck) = ChainKey_next_chain_key C (ratchet C n ck)"
  by (simp add: ratchet_def)

lemma next_chain_key_ratchet: "ChainKey_next_chain_key C ck = Ok (ratchet C 1 ck)"
  by (simp add: ratchet_def)

lemma ratchet_add: "ratchet C m (ratchet C n ck) = ratchet C (m + n) ck"
  by (simp add: ratchet_def funpow_add)

lemma ratchet_Suc: "ratchet C (Suc n) ck = ratchet C n (ratchet C 1 ck)"
  by (simp add: ratchet_add)

lemma ck_index_ratchet [simp]: "ck_index (ratchet C n ck) = ck_index ck + word_of_nat n"
  by (induction n) (simp_all add: ratchet_def algebra_simps)

lemma ck_kdf_ratchet [simp]: "ck_kdf (ratchet C n ck) = ck_kdf ck"
  by (induction n) (simp_all add: ratchet_def)

lemma ChainKey_wf_ratchet: "hash_ok C \<Longrightarrow> ChainKey_wf ck \<Longrightarrow> ChainKey_wf (ratchet C n ck)"
  by (induction n) (simp_all add: ratchet_def ChainKey_wf_def len_simps)

end
