(* ===== verification/Proto.thy ===== *)
theory Proto
  imports Ratchet_Keys
begin

text \<open>
  The messages of \<open>rust/protocol/src/proto/storage.proto\<close>, \<open>wire.proto\<close> and
  \<open>fingerprint.proto\<close> as records (an \<open>optional\<close> field of proto2 and a message-typed field
  of proto3 is an \<open>option\<close>, a repeated field a list). Their encoding is made by the build
  with the \<open>prost\<close> crate; it is the parameter \<open>prost\<close>, and \<open>prost_ok\<close> states what the
  program relies on of it: decoding inverts encoding.
\<close>

section \<open>The codec parameter\<close>

record 'm prost =
  pb_encode :: "'m \<Rightarrow> bytes"
  pb_decode :: "bytes \<Rightarrow> string + 'm"

definition prost_ok :: "'m prost \<Rightarrow> bool" where
  "prost_ok P \<longleftrightarrow> (\<forall>m. pb_decode P (pb_encode P m) = Inr m)"

definition prost_decode :: "'m prost \<Rightarrow> bytes \<Rightarrow> 'm sresult" where
  "prost_decode P bs = (case pb_decode P bs of Inl e \<Rightarrow> Err (ProtobufDecodingError e) | Inr m \<Rightarrow> Ok m)"

lemma prost_decode_encode [simp]: "prost_ok P \<Longrightarrow> prost_decode P (pb_encode P m) = Ok m"
  by (simp add: prost_ok_def prost_decode_def)

lemma prost_decode_not_Panic [simp]: "prost_decode P bs \<noteq> Panic"
  by (simp add: prost_decode_def split: sum.splits)

section \<open>Storage\<close>

record Chain_ChainKey =
  cck_index :: u32
  cck_key :: bytes

record Chain_MessageKey =
  cmk_index :: u32
  cmk_cipher_key :: bytes
  cmk_mac_key :: bytes
  cmk_iv :: bytes

record Chain =
  ch_sender_ratchet_key :: bytes
  ch_sender_ratchet_key_private :: bytes
  ch_chain_key :: "Chain_ChainKey option"
  ch_message_keys :: "Chain_MessageKey list"

record PendingPreKey =
  pp_pre_key_id :: u32
  pp_signed_pre_key_id :: i32
  pp_base_key :: bytes

record SessionStructure =
  ss_session_version :: u32
  ss_local_identity_public :: bytes
  ss_remote_identity_public :: bytes
  ss_root_key :: bytes
  ss_previous_counter :: u32
  ss_sender_chain :: "Chain option"
  ss_receiver_chains :: "Chain list"
  ss_pending_pre_key :: "PendingPreKey option"
  ss_remote_registration_id :: u32
  ss_local_registration_id :: u32
  ss_needs_refresh :: bool
  ss_alice_base_key :: bytes

record RecordStructure =
  rs_current_session :: "SessionStructure option"
  rs_previous_sessions :: "SessionStructure list"

record PreKeyRecordStructure =
  pkr_id :: u32
  pkr_public_key :: bytes
  pkr_private_key :: bytes

record SignedPreKeyRecordStructure =
  spkr_id :: u32
  spkr_public_key :: bytes
  spkr_private_key :: bytes
  spkr_signature :: bytes
  spkr_timestamp :: u64

record IdentityKeyPairStructure =
  ikps_public_key :: bytes
  ikps_private_key :: bytes

record SenderChainKeyStructure =
  scks_iteration :: u32
  scks_seed :: bytes

record SenderMessageKeyStructure =
  smks_iteration :: u32
  smks_seed :: bytes

record SenderSigningKeyStructure =
  ssks_public :: bytes
  ssks_private :: bytes

record SenderKeyStateStructure =
  sks_sender_key_id :: u32
  sks_sender_chain_key :: "SenderChainKeyStructure option"
  sks_sender_signing_key :: "SenderSigningKeyStructure option"
  sks_sender_message_keys :: "SenderMessageKeyStructure list"

record SenderKeyRecordStructure =
  skr_sender_key_states :: "SenderKeyStateStructure list"

section \<open>Wire messages\<close>

record wire_SignalMessage =
  w_ratchet_key :: "bytes option"
  w_counter :: "u32 option"
  w_previous_counter :: "u32 option"
  w_ciphertext :: "bytes option"

record wire_PreKeySignalMessage =
  w_registration_id :: "u32 option"
  w_pre_key_id :: "u32 option"
  w_signed_pre_key_id :: "u32 option"
  w_base_key :: "bytes option"
  w_identity_key :: "bytes option"
  w_message :: "bytes option"

record wire_SenderKeyMessage =
  w_skm_id :: "u32 option"
  w_skm_iteration :: "u32 option"
  w_skm_ciphertext :: "bytes option"

record wire_SenderKeyDistributionMessage =
  w_skdm_id :: "u32 option"
  w_skdm_iteration :: "u32 option"
  w_skdm_chain_key :: "bytes option"
  w_skdm_signing_key :: "bytes option"

section \<open>Fingerprints\<close>

record LogicalFingerprint =
  lf_content :: bytes

record CombinedFingerprints =
  cf_version :: u32
  cf_local_fingerprint :: "LogicalFingerprint option"
  cf_remote_fingerprint :: "LogicalFingerprint option"

section \<open>Records that are thin layers over their encoding\<close>

text \<open>\<open>rust/protocol/src/identity_key.rs\<close>, \<open>state/prekey.rs\<close> and \<open>state/signed_prekey.rs\<close>.\<close>

definition IdentityKeyPair_serialize :: "IdentityKeyPairStructure prost \<Rightarrow> IdentityKeyPair \<Rightarrow> bytes" where
  "IdentityKeyPair_serialize P self =
     pb_encode P \<lparr>ikps_public_key = IdentityKey_serialize (ikp_identity_key self),
                  ikps_private_key = PrivateKey_serialize (ikp_private_key self)\<rparr>"

definition IdentityKeyPair_try_from ::
    "IdentityKeyPairStructure prost \<Rightarrow> bytes \<Rightarrow> IdentityKeyPair sresult" where
  "IdentityKeyPair_try_from P value =
     rbind (prost_decode P value) (\<lambda>structure.
     rbind (IdentityKey_decode (ikps_public_key structure)) (\<lambda>identity_key.
     rbind (PrivateKey_deserialize (ikps_private_key structure)) (\<lambda>private_key.
     Ok \<lparr>ikp_identity_key = identity_key, ikp_private_key = private_key\<rparr>)))"

type_synonym PreKeyRecord = PreKeyRecordStructure
type_synonym SignedPreKeyRecord = SignedPreKeyRecordStructure

definition PreKeyRecord_new :: "u32 \<Rightarrow> KeyPair \<Rightarrow> PreKeyRecord" where
  "PreKeyRecord_new key_id key =
     \<lparr>pkr_id = key_id, pkr_public_key = PublicKey_serialize (kp_public_key key),
      pkr_private_key = PrivateKey_serialize (kp_private_key key)\<rparr>"

definition PreKeyRecord_deserialize :: "PreKeyRecordStructure prost \<Rightarrow> bytes \<Rightarrow> PreKeyRecord sresult" where
  "PreKeyRecord_deserialize P data = prost_decode P data"

definition PreKeyRecord_key_pair :: "PreKeyRecord \<Rightarrow> KeyPair sresult" where
  "PreKeyRecord_key_pair self =
     KeyPair_from_public_and_private (pkr_public_key self) (pkr_private_key self)"

definition PreKeyRecord_public_key :: "PreKeyRecord \<Rightarrow> PublicKey sresult" where
  "PreKeyRecord_public_key self = PublicKey_deserialize (pkr_public_key self)"

definition PreKeyRecord_private_key :: "PreKeyRecord \<Rightarrow> PrivateKey sresult" where
  "PreKeyRecord_private_key self = PrivateKey_deserialize (pkr_private_key self)"

definition PreKeyRecord_serialize :: "PreKeyRecordStructure prost \<Rightarrow> PreKeyRecord \<Rightarrow> bytes sresult" where
  "PreKeyRecord_serialize P self = Ok (pb_encode P self)"

definition SignedPreKeyRecord_new :: "u32 \<Rightarrow> u64 \<Rightarrow> KeyPair \<Rightarrow> bytes \<Rightarrow> SignedPreKeyRecord" where
  "SignedPreKeyRecord_new key_id timestamp key signature =
     \<lparr>spkr_id = key_id, spkr_public_key = PublicKey_serialize (kp_public_key key),
      spkr_private_key = PrivateKey_serialize (kp_private_key key),
      spkr_signature = signature, spkr_timestamp = timestamp\<rparr>"

definition SignedPreKeyRecord_deserialize ::
    "SignedPreKeyRecordStructure prost \<Rightarrow> bytes \<Rightarrow> SignedPreKeyRecord sresult" where
  "SignedPreKeyRecord_deserialize P data = prost_decode P data"

definition SignedPreKeyRecord_public_key :: "SignedPreKeyRecord \<Rightarrow> PublicKey sresult" where
  "SignedPreKeyRecord_public_key self = PublicKey_deserialize (spkr_public_key self)"

definition SignedPreKeyRecord_private_key :: "SignedPreKeyRecord \<Rightarrow> PrivateKey sresult" where
  "SignedPreKeyRecord_private_key self = PrivateKey_deserialize (spkr_private_key self)"

definition SignedPreKeyRecord_key_pair :: "SignedPreKeyRecord \<Rightarrow> KeyPair sresult" where
  "SignedPreKeyRecord_key_pair self =
     KeyPair_from_public_and_private (spkr_public_key self) (spkr_private_key self)"

definition SignedPreKeyRecord_serialize ::
    "SignedPreKeyRecordStructure prost \<Rightarrow> SignedPreKeyRecord \<Rightarrow> bytes sresult" where
  "SignedPreKeyRecord_serialize P self = Ok (pb_encode P self)"

lemma KeyPair_from_serialized:
  "PublicKey_wf (kp_public_key key) \<Longrightarrow> PrivateKey_wf (kp_private_key key) \<Longrightarrow>
   KeyPair_from_public_and_private (PublicKey_serialize (kp_public_key key))
     (PrivateKey_serialize (kp_private_key key)) = Ok key"
  by (simp add: KeyPair_from_public_and_private_def pubkey.deser_ser privkey.deser_ser)

lemma PreKeyRecord_new_key_pair [simp]:
  "PublicKey_wf (kp_public_key key) \<Longrightarrow> PrivateKey_wf (kp_private_key key) \<Longrightarrow>
   PreKeyRecord_key_pair (PreKeyRecord_new i key) = Ok key"
  by (simp add: PreKeyRecord_key_pair_def PreKeyRecord_new_def KeyPair_from_serialized)

lemma SignedPreKeyRecord_new_key_pair [simp]:
  "PublicKey_wf (kp_public_key key) \<Longrightarrow> PrivateKey_wf (kp_private_key key) \<Longrightarrow>
   SignedPreKeyRecord_key_pair (SignedPreKeyRecord_new i ts key sig) = Ok key"
  by (simp add: SignedPreKeyRecord_key_pair_def SignedPreKeyRecord_new_def KeyPair_from_serialized)

section \<open>Pre-key bundles\<close>

text \<open>\<open>rust/protocol/src/state/bundle.rs\<close>.\<close>

record PreKeyBundle =
  pkb_registration_id :: u32
  pkb_device_id :: u32
  pkb_pre_key_id :: "u32 option"
  pkb_pre_key_public :: "PublicKey option"
  pkb_signed_pre_key_id :: u32
  pkb_signed_pre_key_public :: PublicKey
  pkb_signed_pre_key_signature :: bytes
  pkb_identity_key :: IdentityKey

definition PreKeyBundle_new ::
    "u32 \<Rightarrow> u32 \<Rightarrow> u32 option \<Rightarrow> PublicKey option \<Rightarrow> u32 \<Rightarrow> PublicKey \<Rightarrow> bytes \<Rightarrow> IdentityKey
       \<Rightarrow> PreKeyBundle sresult" where
  "PreKeyBundle_new registration_id device_id pre_key_id pre_key_public signed_pre_key_id
       signed_pre_key_public signed_pre_key_signature identity_key =
     (if (pre_key_public \<noteq> None) \<noteq> (pre_key_id \<noteq> None) then Err InvalidPreKeyBundle
      else Ok \<lparr>pkb_registration_id = registration_id, pkb_device_id = device_id,
               pkb_pre_key_id = pre_key_id, pkb_pre_key_public = pre_key_public,
               pkb_signed_pre_key_id = signed_pre_key_id,
               pkb_signed_pre_key_public = signed_pre_key_public,
               pkb_signed_pre_key_signature = signed_pre_key_signature,
               pkb_identity_key = identity_key\<rparr>)"

end
