(* ===== verification/Reference_Codec.thy ===== *)
theory Reference_Codec
  imports Proto
begin

text \<open>
  Concrete instances of the parameter \<open>prost\<close>, on which \<open>prost_ok\<close> holds, for the
  witnesses. The format is not that of protocol buffers, which the build generates: a
  message is the concatenation of its fields, each self-delimiting.
\<close>

section \<open>Self-delimiting codecs\<close>

type_synonym 'a codec = "('a \<Rightarrow> bytes) \<times> (bytes \<Rightarrow> ('a \<times> bytes) option)"

definition codec_ok :: "'a codec \<Rightarrow> bool" where
  "codec_ok c \<longleftrightarrow> (\<forall>x rest. snd c (fst c x @ rest) = Some (x, rest))"

definition c_unit :: "unit codec" where
  "c_unit = (\<lambda>_. [], \<lambda>bs. Some ((), bs))"

definition c_byte :: "u8 codec" where
  "c_byte = (\<lambda>b. [b], \<lambda>bs. case bs of [] \<Rightarrow> None | b # rest \<Rightarrow> Some (b, rest))"

definition c_word :: "'a::len word codec" where
  "c_word = (\<lambda>w. map (\<lambda>i. of_bool (bit w i)) [0..<LENGTH('a)],
             \<lambda>bs. if length bs < LENGTH('a) then None
                  else Some (horner_sum of_bool 2 (map (\<lambda>b. b \<noteq> 0) (take LENGTH('a) bs)),
                             drop LENGTH('a) bs))"

definition c_pair :: "'a codec \<Rightarrow> 'b codec \<Rightarrow> ('a \<times> 'b) codec" where
  "c_pair c d = (\<lambda>(x, y). fst c x @ fst d y,
     \<lambda>bs. case snd c bs of None \<Rightarrow> None | Some (x, bs') \<Rightarrow>
            (case snd d bs' of None \<Rightarrow> None | Some (y, rest) \<Rightarrow> Some ((x, y), rest)))"

fun dec_list :: "(bytes \<Rightarrow> ('a \<times> bytes) option) \<Rightarrow> nat \<Rightarrow> bytes \<Rightarrow> ('a list \<times> bytes) option" where
  "dec_list d (Suc n) (b # bs) =
     (if b = 0 then Some ([], bs)
      else case d bs of None \<Rightarrow> None | Some (x, bs') \<Rightarrow>
             (case dec_list d n bs' of None \<Rightarrow> None | Some (xs, rest) \<Rightarrow> Some (x # xs, rest)))"
| "dec_list d _ _ = None"

definition c_list :: "'a codec \<Rightarrow> 'a list codec" where
  "c_list c = (\<lambda>xs. concat (map (\<lambda>x. 1 # fst c x) xs) @ [0], \<lambda>bs. dec_list (snd c) (length bs) bs)"

definition c_iso :: "('b \<Rightarrow> 'a) \<Rightarrow> ('a \<Rightarrow> 'b) \<Rightarrow> 'a codec \<Rightarrow> 'b codec" where
  "c_iso f g c = (\<lambda>y. fst c (f y), \<lambda>bs. map_option (\<lambda>(x, rest). (g x, rest)) (snd c bs))"

definition c_option :: "'a codec \<Rightarrow> 'a option codec" where
  "c_option c = c_iso (\<lambda>x. case x of None \<Rightarrow> [] | Some v \<Rightarrow> [v])
                      (\<lambda>xs. case xs of [] \<Rightarrow> None | v # _ \<Rightarrow> Some v) (c_list c)"

abbreviation c_bytes :: "bytes codec" where
  "c_bytes \<equiv> c_list c_byte"

lemma fst_c_pair: "fst (c_pair c d) (x, y) = fst c x @ fst d y"
  by (simp add: c_pair_def)

lemma fst_c_iso: "fst (c_iso f g c) y = fst c (f y)"
  by (simp add: c_iso_def)

lemma codec_ok_byte [simp]: "codec_ok c_byte"
  by (simp add: codec_ok_def c_byte_def)

lemma codec_ok_word [simp]: "codec_ok c_word"
  by (simp add: codec_ok_def c_word_def comp_def horner_sum_bit_eq_take_bit take_bit_word_eq_self)

lemma codec_ok_pair [simp]: "codec_ok c \<Longrightarrow> codec_ok d \<Longrightarrow> codec_ok (c_pair c d)"
  by (simp add: codec_ok_def c_pair_def)

lemma dec_list_enough:
  assumes "codec_ok c" "length xs < n"
  shows "dec_list (snd c) n (concat (map (\<lambda>x. 1 # fst c x) xs) @ 0 # rest) = Some (xs, rest)"
  using assms(2)
proof (induction xs arbitrary: n)
  case Nil
  then show ?case by (cases n) simp_all
next
  case (Cons x xs)
  then obtain k where "n = Suc k" "length xs < k" by (cases n) auto
  with Cons.IH [of k] assms(1) show ?case by (simp add: codec_ok_def)
qed

lemma codec_ok_list [simp]:
  assumes "codec_ok c"
  shows "codec_ok (c_list c)"
proof -
  have "length xs \<le> length (concat (map (\<lambda>x. 1 # fst c x) xs))" for xs :: "'a list"
    by (induction xs) simp_all
  then show ?thesis
    using dec_list_enough [OF assms] by (simp add: codec_ok_def c_list_def less_Suc_eq_le trans_le_add1)
qed

lemma codec_ok_iso [simp]: "(\<And>y. g (f y) = y) \<Longrightarrow> codec_ok c \<Longrightarrow> codec_ok (c_iso f g c)"
  by (simp add: codec_ok_def c_iso_def)

lemma codec_ok_option [simp]: "codec_ok c \<Longrightarrow> codec_ok (c_option c)"
  unfolding c_option_def by (rule codec_ok_iso) (simp_all split: option.splits)

section \<open>Instances of the parameter\<close>

definition ref_prost :: "'m codec \<Rightarrow> 'm prost" where
  "ref_prost c = \<lparr>pb_encode = fst c,
     pb_decode = (\<lambda>bs. case snd c bs of Some (m, []) \<Rightarrow> Inr m | _ \<Rightarrow> Inl ''malformed'')\<rparr>"

lemma ref_prost_ok [simp]:
  assumes "codec_ok c"
  shows "prost_ok (ref_prost c)"
proof -
  have "snd c (fst c m) = Some (m, [])" for m
    using assms [unfolded codec_ok_def, rule_format, of m "[]"] by simp
  then show ?thesis by (simp add: prost_ok_def ref_prost_def)
qed

definition c_Chain :: "Chain codec" where
  "c_Chain = c_iso
     (\<lambda>c. (ch_sender_ratchet_key c, ch_sender_ratchet_key_private c,
           map_option (\<lambda>k. (cck_index k, cck_key k)) (ch_chain_key c),
           map (\<lambda>m. (cmk_index m, cmk_cipher_key m, cmk_mac_key m, cmk_iv m)) (ch_message_keys c)))
     (\<lambda>(a, b, k, ms). \<lparr>ch_sender_ratchet_key = a, ch_sender_ratchet_key_private = b,
           ch_chain_key = map_option (\<lambda>(i, x). \<lparr>cck_index = i, cck_key = x\<rparr>) k,
           ch_message_keys = map (\<lambda>(i, x, y, z). \<lparr>cmk_index = i, cmk_cipher_key = x, cmk_mac_key = y,
                                                  cmk_iv = z\<rparr>) ms\<rparr>)
     (c_pair c_bytes (c_pair c_bytes (c_pair (c_option (c_pair c_word c_bytes))
       (c_list (c_pair c_word (c_pair c_bytes (c_pair c_bytes c_bytes)))))))"

definition c_SessionStructure :: "SessionStructure codec" where
  "c_SessionStructure = c_iso
     (\<lambda>s. (ss_session_version s, ss_local_identity_public s, ss_remote_identity_public s, ss_root_key s,
           ss_previous_counter s, ss_sender_chain s, ss_receiver_chains s,
           map_option (\<lambda>p. (pp_pre_key_id p, pp_signed_pre_key_id p, pp_base_key p)) (ss_pending_pre_key s),
           ss_remote_registration_id s, ss_local_registration_id s,
           (of_bool (ss_needs_refresh s) :: u8), ss_alice_base_key s))
     (\<lambda>(v, l, r, k, n, sc, rc, p, rr, lr, f, b).
         \<lparr>ss_session_version = v, ss_local_identity_public = l, ss_remote_identity_public = r,
          ss_root_key = k, ss_previous_counter = n, ss_sender_chain = sc, ss_receiver_chains = rc,
          ss_pending_pre_key = map_option (\<lambda>(i, j, x). \<lparr>pp_pre_key_id = i, pp_signed_pre_key_id = j,
                                                        pp_base_key = x\<rparr>) p,
          ss_remote_registration_id = rr, ss_local_registration_id = lr,
          ss_needs_refresh = (f \<noteq> 0), ss_alice_base_key = b\<rparr>)
     (c_pair c_word (c_pair c_bytes (c_pair c_bytes (c_pair c_bytes (c_pair c_word
       (c_pair (c_option c_Chain) (c_pair (c_list c_Chain)
       (c_pair (c_option (c_pair c_word (c_pair c_word c_bytes)))
       (c_pair c_word (c_pair c_word (c_pair c_byte c_bytes)))))))))))"

definition c_RecordStructure :: "RecordStructure codec" where
  "c_RecordStructure = c_iso (\<lambda>r. (rs_current_session r, rs_previous_sessions r))
     (\<lambda>(c, p). \<lparr>rs_current_session = c, rs_previous_sessions = p\<rparr>)
     (c_pair (c_option c_SessionStructure) (c_list c_SessionStructure))"

definition c_wire_SignalMessage :: "wire_SignalMessage codec" where
  "c_wire_SignalMessage = c_iso (\<lambda>m. (w_ratchet_key m, w_counter m, w_previous_counter m, w_ciphertext m))
     (\<lambda>(k, n, p, c). \<lparr>w_ratchet_key = k, w_counter = n, w_previous_counter = p, w_ciphertext = c\<rparr>)
     (c_pair (c_option c_bytes) (c_pair (c_option c_word) (c_pair (c_option c_word) (c_option c_bytes))))"

definition c_wire_PreKeySignalMessage :: "wire_PreKeySignalMessage codec" where
  "c_wire_PreKeySignalMessage = c_iso
     (\<lambda>m. (w_registration_id m, w_pre_key_id m, w_signed_pre_key_id m, w_base_key m, w_identity_key m, w_message m))
     (\<lambda>(r, p, s, b, i, m). \<lparr>w_registration_id = r, w_pre_key_id = p, w_signed_pre_key_id = s,
         w_base_key = b, w_identity_key = i, w_message = m\<rparr>)
     (c_pair (c_option c_word) (c_pair (c_option c_word) (c_pair (c_option c_word)
       (c_pair (c_option c_bytes) (c_pair (c_option c_bytes) (c_option c_bytes))))))"

definition c_wire_SenderKeyMessage :: "wire_SenderKeyMessage codec" where
  "c_wire_SenderKeyMessage = c_iso (\<lambda>m. (w_skm_id m, w_skm_iteration m, w_skm_ciphertext m))
     (\<lambda>(i, n, c). \<lparr>w_skm_id = i, w_skm_iteration = n, w_skm_ciphertext = c\<rparr>)
     (c_pair (c_option c_word) (c_pair (c_option c_word) (c_option c_bytes)))"

definition c_wire_SenderKeyDistributionMessage :: "wire_SenderKeyDistributionMessage codec" where
  "c_wire_SenderKeyDistributionMessage = c_iso
     (\<lambda>m. (w_skdm_id m, w_skdm_iteration m, w_skdm_chain_key m, w_skdm_signing_key m))
     (\<lambda>(i, n, c, s). \<lparr>w_skdm_id = i, w_skdm_iteration = n, w_skdm_chain_key = c, w_skdm_signing_key = s\<rparr>)
     (c_pair (c_option c_word) (c_pair (c_option c_word) (c_pair (c_option c_bytes) (c_option c_bytes))))"

definition c_CombinedFingerprints :: "CombinedFingerprints codec" where
  "c_CombinedFingerprints = c_iso
     (\<lambda>m. (cf_version m, map_option lf_content (cf_local_fingerprint m),
           map_option lf_content (cf_remote_fingerprint m)))
     (\<lambda>(v, l, r). \<lparr>cf_version = v, cf_local_fingerprint = map_option (\<lambda>c. \<lparr>lf_content = c\<rparr>) l,
         cf_remote_fingerprint = map_option (\<lambda>c. \<lparr>lf_content = c\<rparr>) r\<rparr>)
     (c_pair c_word (c_pair (c_option c_bytes) (c_option c_bytes)))"

definition c_SenderKeyRecordStructure :: "SenderKeyRecordStructure codec" where
  "c_SenderKeyRecordStructure = c_iso
     (\<lambda>r. map (\<lambda>s. (sks_sender_key_id s,
              map_option (\<lambda>c. (scks_iteration c, scks_seed c)) (sks_sender_chain_key s),
              map_option (\<lambda>k. (ssks_public k, ssks_private k)) (sks_sender_signing_key s),
              map (\<lambda>m. (smks_iteration m, smks_seed m)) (sks_sender_message_keys s)))
            (skr_sender_key_states r))
     (\<lambda>ss. \<lparr>skr_sender_key_states = map (\<lambda>(i, c, k, ms).
              \<lparr>sks_sender_key_id = i,
               sks_sender_chain_key = map_option (\<lambda>(n, x). \<lparr>scks_iteration = n, scks_seed = x\<rparr>) c,
               sks_sender_signing_key = map_option (\<lambda>(x, y). \<lparr>ssks_public = x, ssks_private = y\<rparr>) k,
               sks_sender_message_keys = map (\<lambda>(n, x). \<lparr>smks_iteration = n, smks_seed = x\<rparr>) ms\<rparr>) ss\<rparr>)
     (c_list (c_pair c_word (c_pair (c_option (c_pair c_word c_bytes))
       (c_pair (c_option (c_pair c_bytes c_bytes)) (c_list (c_pair c_word c_bytes))))))"

definition c_IdentityKeyPairStructure :: "IdentityKeyPairStructure codec" where
  "c_IdentityKeyPairStructure = c_iso (\<lambda>m. (ikps_public_key m, ikps_private_key m))
     (\<lambda>(a, b). \<lparr>ikps_public_key = a, ikps_private_key = b\<rparr>) (c_pair c_bytes c_bytes)"

lemma map_option_idI: "(\<And>v. f v = v) \<Longrightarrow> map_option f x = x"
  by (cases x) simp_all

lemma codec_ok_Chain [simp]: "codec_ok c_Chain"
  unfolding c_Chain_def
  by (rule codec_ok_iso) (simp_all add: option.map_comp comp_def map_option_idI map_idI)

lemma codec_ok_SessionStructure [simp]: "codec_ok c_SessionStructure"
  unfolding c_SessionStructure_def
  by (rule codec_ok_iso) (simp_all add: option.map_comp comp_def map_option_idI map_idI)

lemma codec_ok_messages [simp]:
  "codec_ok c_RecordStructure" "codec_ok c_wire_SignalMessage" "codec_ok c_wire_PreKeySignalMessage"
  "codec_ok c_wire_SenderKeyMessage" "codec_ok c_wire_SenderKeyDistributionMessage"
  "codec_ok c_IdentityKeyPairStructure"
  by (simp_all add: c_RecordStructure_def c_wire_SignalMessage_def c_wire_PreKeySignalMessage_def
      c_wire_SenderKeyMessage_def c_wire_SenderKeyDistributionMessage_def c_IdentityKeyPairStructure_def)

lemma codec_ok_CombinedFingerprints [simp]: "codec_ok c_CombinedFingerprints"
  unfolding c_CombinedFingerprints_def
  by (rule codec_ok_iso) (simp_all add: option.map_comp comp_def map_option_idI map_idI)

lemma codec_ok_SenderKeyRecordStructure [simp]: "codec_ok c_SenderKeyRecordStructure"
  unfolding c_SenderKeyRecordStructure_def
  by (rule codec_ok_iso) (simp_all add: option.map_comp comp_def map_option_idI map_idI)

end
