(* ===== verification/Skipped_Keys.thy ===== *)
theory Skipped_Keys
  imports Errors
begin

text \<open>
  Two interfaces that the one-to-one ratchet (\<open>state/session.rs\<close>, \<open>session_cipher.rs\<close>) and
  the group ratchet (\<open>sender_keys.rs\<close>, \<open>group_cipher.rs\<close>) share: a store of skipped message
  keys with at most \<open>MAX_MESSAGE_KEYS\<close> entries, and the loop that moves a chain forward
  to the counter of a message while it stores the keys it passes. Each is a locale; the
  components interpret it on their own definitions.
\<close>

section \<open>Bounded stores of skipped keys\<close>

text \<open>
  The abstract store lists the keys newest first. Inserting puts the key in front and
  drops the oldest keys beyond the limit.
\<close>

locale bounded_skips =
  fixes ins :: "'k \<Rightarrow> 'k list \<Rightarrow> 'k list"
    and newest_first :: "'k list \<Rightarrow> 'k list"
  assumes newest_first_ins:
      "length ks \<le> MAX_MESSAGE_KEYS \<Longrightarrow>
         newest_first (ins k ks) = take MAX_MESSAGE_KEYS (k # newest_first ks)"
    and length_newest_first: "length (newest_first ks) = length ks"
    and set_newest_first: "set (newest_first ks) = set ks"
begin

lemma length_ins: "length ks \<le> MAX_MESSAGE_KEYS \<Longrightarrow> length (ins k ks) \<le> MAX_MESSAGE_KEYS"
  by (subst length_newest_first [symmetric]) (simp add: newest_first_ins)

lemma length_fold_ins:
  "length ks \<le> MAX_MESSAGE_KEYS \<Longrightarrow> length (fold ins new ks) \<le> MAX_MESSAGE_KEYS"
  by (induction new arbitrary: ks) (simp_all add: length_ins)

lemma newest_first_fold_ins:
  "length ks \<le> MAX_MESSAGE_KEYS \<Longrightarrow>
     newest_first (fold ins new ks) = take MAX_MESSAGE_KEYS (rev new @ newest_first ks)"
proof (induction new arbitrary: ks)
  case Nil
  then show ?case by (simp add: length_newest_first)
next
  case (Cons k new)
  have "newest_first (fold ins new (ins k ks)) =
      take MAX_MESSAGE_KEYS (rev new @ take MAX_MESSAGE_KEYS (k # newest_first ks))"
    using Cons by (simp add: length_ins newest_first_ins)
  then show ?case by (simp add: take_append min_def)
qed

text \<open>Keys that fit are all kept, and every key just inserted is found.\<close>

lemma set_fold_ins_fits:
  assumes "length new + length ks \<le> MAX_MESSAGE_KEYS"
  shows "set (fold ins new ks) = set new \<union> set ks"
proof -
  have "set (newest_first (fold ins new ks)) = set (take MAX_MESSAGE_KEYS (rev new @ newest_first ks))"
    using assms by (subst newest_first_fold_ins) simp_all
  also have "\<dots> = set new \<union> set ks"
    using assms by (simp add: length_newest_first set_newest_first)
  finally show ?thesis by (simp add: set_newest_first)
qed

lemma set_fold_ins_recent:
  assumes "length ks \<le> MAX_MESSAGE_KEYS" "length new \<le> MAX_MESSAGE_KEYS"
  shows "set new \<subseteq> set (fold ins new ks)"
proof -
  have "set (take MAX_MESSAGE_KEYS (rev new @ newest_first ks)) = set (newest_first (fold ins new ks))"
    using assms(1) by (simp add: newest_first_fold_ins)
  then show ?thesis using assms(2) by (auto simp: set_newest_first)
qed

lemma set_ins_subset: "length ks \<le> MAX_MESSAGE_KEYS \<Longrightarrow> set (ins k ks) \<subseteq> insert k (set ks)"
  by (metis newest_first_ins set_newest_first set_take_subset list.simps(15))

end

section \<open>Moving a chain forward\<close>

locale skip_loop =
  fixes idx :: "'c \<Rightarrow> u32"
    and nxt :: "'c \<Rightarrow> 'c"
    and add :: "'c \<Rightarrow> 'st \<Rightarrow> 'st"
    and inv :: "'st \<Rightarrow> bool"
    and loop :: "'st \<Rightarrow> 'c \<Rightarrow> u32 \<Rightarrow> ('c \<times> 'st) sresult"
  assumes idx_nxt: "idx (nxt c) = idx c + 1"
    and inv_add: "inv st \<Longrightarrow> inv (add c st)"
    and loop_step: "inv st \<Longrightarrow> idx c < n \<Longrightarrow> loop st c n = loop (add c st) (nxt c) n"
    and loop_stop: "\<not> idx c < n \<Longrightarrow> loop st c n = Ok (c, st)"
begin

definition passed :: "'c \<Rightarrow> u32 \<Rightarrow> 'c list" where
  "passed c n = map (\<lambda>i. (nxt ^^ i) c) [0..<unat n - unat (idx c)]"

lemma passed_step:
  assumes "idx c < n"
  shows "passed c n = c # passed (nxt c) n"
proof -
  have u: "unat (idx (nxt c)) = Suc (unat (idx c))"
    using unat_plus_one [OF assms] by (simp add: idx_nxt)
  have "unat n - unat (idx c) = Suc (unat n - unat (idx (nxt c)))"
    using assms by (simp add: u word_less_nat_alt)
  then show ?thesis
    by (simp add: passed_def upt_conv_Cons map_Suc_upt [symmetric] funpow_swap1 comp_def del: upt_Suc)
qed

lemma inv_fold_add: "inv st \<Longrightarrow> inv (fold add cs st)"
  by (induction cs arbitrary: st) (simp_all add: inv_add)

text \<open>
  The loop always ends, with the chain at the wanted counter and every chain key it
  passed handed to the store, oldest first.
\<close>

lemma loop_result:
  assumes "inv st" "idx c \<le> n"
  shows "loop st c n = Ok ((nxt ^^ (unat n - unat (idx c))) c, fold add (passed c n) st)"
  using assms
proof (induction "unat n - unat (idx c)" arbitrary: st c)
  case 0
  then have "\<not> idx c < n" by (auto simp: word_less_nat_alt)
  with 0 show ?case by (simp add: loop_stop passed_def)
next
  case (Suc k)
  then have lt: "idx c < n" by (simp add: word_less_nat_alt)
  have u: "unat (idx (nxt c)) = Suc (unat (idx c))"
    using unat_plus_one [OF lt] by (simp add: idx_nxt)
  have k: "k = unat n - unat (idx (nxt c))" "unat n - unat (idx c) = Suc k"
    using Suc.hyps(2) by (simp_all add: u)
  have "idx (nxt c) \<le> n" using word_less_plus_one_le [OF lt] by (simp add: idx_nxt)
  with Suc.hyps(1) [OF k(1) inv_add [OF Suc.prems(1)]] loop_step [OF Suc.prems(1) lt] k
  show ?case by (simp add: passed_step [OF lt] funpow_swap1)
qed

end

end
