(* ===== verification/Session_State.thy ===== *)
theory Session_State
  imports Reference_Codec Skipped_Keys
begin

text \<open>
  Model of \<open>rust/protocol/src/state/session.rs\<close>. The wrapper struct \<open>SessionState\<close> has the
  one field \<open>session\<close> and is identified with it. A method that takes \<open>&mut self\<close> returns the
  new state; none of them changes the state before it fails, so an \<open>Err\<close> leaves it as
  it was.
\<close>

section \<open>Session states\<close>

type_synonym SessionState = SessionStructure

record UnacknowledgedPreKeyMessageItems =
  upk_pre_key_id :: "u32 option"
  upk_signed_pre_key_id :: u32
  upk_base_key :: PublicKey

definition SessionState_deserialize :: "SessionStructure prost \<Rightarrow> bytes \<Rightarrow> SessionState sresult" where
  "SessionState_deserialize P bs = prost_decode P bs"

definition alice_base_key :: "SessionState \<Rightarrow> bytes sresult" where
  "alice_base_key self = Ok (ss_alice_base_key self)"

definition set_alice_base_key :: "SessionState \<Rightarrow> bytes \<Rightarrow> SessionState sresult" where
  "set_alice_base_key self key = Ok (self\<lparr>ss_alice_base_key := key\<rparr>)"

definition session_version :: "SessionState \<Rightarrow> u32 sresult" where
  "session_version self = Ok (if ss_session_version self = 0 then 2 else ss_session_version self)"

definition remote_identity_key :: "SessionState \<Rightarrow> IdentityKey option sresult" where
  "remote_identity_key self =
     (if length (ss_remote_identity_public self) = 0 then Ok None
      else rbind (IdentityKey_decode (ss_remote_identity_public self)) (\<lambda>k. Ok (Some k)))"

definition local_identity_key :: "SessionState \<Rightarrow> IdentityKey sresult" where
  "local_identity_key self = IdentityKey_decode (ss_local_identity_public self)"

definition previous_counter :: "SessionState \<Rightarrow> u32 sresult" where
  "previous_counter self = Ok (ss_previous_counter self)"

definition set_previous_counter :: "SessionState \<Rightarrow> u32 \<Rightarrow> SessionState sresult" where
  "set_previous_counter self ctr = Ok (self\<lparr>ss_previous_counter := ctr\<rparr>)"

definition root_key :: "SessionState \<Rightarrow> RootKey sresult" where
  "root_key self =
     (if length (ss_root_key self) \<noteq> 32 then Err InvalidProtobufEncoding
      else rbind (session_version self) (\<lambda>v.
           rbind (HKDF_new v) (\<lambda>hkdf.
           RootKey_new hkdf (ss_root_key self))))"

definition set_root_key :: "SessionState \<Rightarrow> RootKey \<Rightarrow> SessionState sresult" where
  "set_root_key self rk = Ok (self\<lparr>ss_root_key := rk_key rk\<rparr>)"

definition sender_ratchet_key :: "SessionState \<Rightarrow> PublicKey sresult" where
  "sender_ratchet_key self =
     (case ss_sender_chain self of
        None \<Rightarrow> Err InvalidProtobufEncoding
      | Some c \<Rightarrow> decode_point (ch_sender_ratchet_key c))"

definition sender_ratchet_private_key :: "SessionState \<Rightarrow> PrivateKey sresult" where
  "sender_ratchet_private_key self =
     (case ss_sender_chain self of
        None \<Rightarrow> Err InvalidProtobufEncoding
      | Some c \<Rightarrow> decode_private_point (ch_sender_ratchet_key_private c))"

definition has_sender_chain :: "SessionState \<Rightarrow> bool sresult" where
  "has_sender_chain self = Ok (ss_sender_chain self \<noteq> None)"

text \<open>The loop of \<open>get_receiver_chain\<close>; a chain whose key does not decode ends it with the error.\<close>

fun find_receiver_chain :: "bytes \<Rightarrow> nat \<Rightarrow> Chain list \<Rightarrow> (Chain \<times> nat) option sresult" where
  "find_receiver_chain sender_bytes idx [] = Ok None"
| "find_receiver_chain sender_bytes idx (chain # rest) =
     rbind (decode_point (ch_sender_ratchet_key chain)) (\<lambda>point.
       if PublicKey_serialize point = sender_bytes then Ok (Some (chain, idx))
       else find_receiver_chain sender_bytes (Suc idx) rest)"

definition get_receiver_chain :: "SessionState \<Rightarrow> PublicKey \<Rightarrow> (Chain \<times> nat) option sresult" where
  "get_receiver_chain self sender =
     find_receiver_chain (PublicKey_serialize sender) 0 (ss_receiver_chains self)"

definition has_receiver_chain :: "SessionState \<Rightarrow> PublicKey \<Rightarrow> bool sresult" where
  "has_receiver_chain self sender =
     rbind (get_receiver_chain self sender) (\<lambda>r. Ok (r \<noteq> None))"

definition get_receiver_chain_key :: "SessionState \<Rightarrow> PublicKey \<Rightarrow> ChainKey option sresult" where
  "get_receiver_chain_key self sender =
     rbind (get_receiver_chain self sender) (\<lambda>r.
       case r of
         None \<Rightarrow> Ok None
       | Some (chain, _) \<Rightarrow>
           (case ch_chain_key chain of
              None \<Rightarrow> Err InvalidProtobufEncoding
            | Some c \<Rightarrow>
                if length (cck_key c) \<noteq> 32 then Err InvalidProtobufEncoding
                else rbind (session_version self) (\<lambda>v.
                     rbind (HKDF_new v) (\<lambda>hkdf.
                     rbind (ChainKey_new hkdf (cck_key c) (cck_index c)) (\<lambda>ck. Ok (Some ck))))))"

definition chain_key_structure :: "ChainKey \<Rightarrow> Chain_ChainKey" where
  "chain_key_structure ck = \<lparr>cck_index = ck_index ck, cck_key = ck_key ck\<rparr>"

definition add_receiver_chain :: "SessionState \<Rightarrow> PublicKey \<Rightarrow> ChainKey \<Rightarrow> SessionState sresult" where
  "add_receiver_chain self sender chain_key =
     (let chain = \<lparr>ch_sender_ratchet_key = PublicKey_serialize sender,
                   ch_sender_ratchet_key_private = [],
                   ch_chain_key = Some (chain_key_structure chain_key),
                   ch_message_keys = []\<rparr>;
          receiver_chains = ss_receiver_chains self @ [chain];
          receiver_chains = (if length receiver_chains > MAX_RECEIVER_CHAINS
                             then remove_at 0 receiver_chains else receiver_chains)
      in Ok (self\<lparr>ss_receiver_chains := receiver_chains\<rparr>))"

definition set_sender_chain :: "SessionState \<Rightarrow> KeyPair \<Rightarrow> ChainKey \<Rightarrow> SessionState sresult" where
  "set_sender_chain self sender next_chain_key =
     Ok (self\<lparr>ss_sender_chain := Some
       \<lparr>ch_sender_ratchet_key = PublicKey_serialize (kp_public_key sender),
        ch_sender_ratchet_key_private = PrivateKey_serialize (kp_private_key sender),
        ch_chain_key = Some (chain_key_structure next_chain_key),
        ch_message_keys = []\<rparr>\<rparr>)"

definition get_sender_chain_key :: "SessionState \<Rightarrow> ChainKey sresult" where
  "get_sender_chain_key self =
     rbind (ok_or (ss_sender_chain self) (InvalidState ''get_sender_chain_key'' ''No chain'')) (\<lambda>sender_chain.
     rbind (ok_or (ch_chain_key sender_chain) (InvalidState ''get_sender_chain_key'' ''No chain key'')) (\<lambda>chain_key.
     rbind (session_version self) (\<lambda>v.
     rbind (HKDF_new v) (\<lambda>hkdf.
     ChainKey_new hkdf (cck_key chain_key) (cck_index chain_key)))))"

definition set_sender_chain_key :: "SessionState \<Rightarrow> ChainKey \<Rightarrow> SessionState sresult" where
  "set_sender_chain_key self next_chain_key =
     (let new_chain = (case ss_sender_chain self of
            None \<Rightarrow> \<lparr>ch_sender_ratchet_key = [], ch_sender_ratchet_key_private = [],
                     ch_chain_key = Some (chain_key_structure next_chain_key), ch_message_keys = []\<rparr>
          | Some c \<Rightarrow> c\<lparr>ch_chain_key := Some (chain_key_structure next_chain_key)\<rparr>)
      in Ok (self\<lparr>ss_sender_chain := Some new_chain\<rparr>))"

definition get_message_keys ::
    "SessionState \<Rightarrow> PublicKey \<Rightarrow> u32 \<Rightarrow> (MessageKeys option \<times> SessionState) sresult" where
  "get_message_keys self sender counter =
     rbind (get_receiver_chain self sender) (\<lambda>r.
       case r of
         None \<Rightarrow> Ok (None, self)
       | Some (chain, i) \<Rightarrow>
           (case position (\<lambda>m. cmk_index m = counter) (ch_message_keys chain) of
              None \<Rightarrow> Ok (None, self)
            | Some p \<Rightarrow>
                let message_key = ch_message_keys chain ! p;
                    chain' = chain\<lparr>ch_message_keys := remove_at p (ch_message_keys chain)\<rparr>
                in rbind (MessageKeys_new (cmk_cipher_key message_key) (cmk_mac_key message_key)
                            (cmk_iv message_key) counter) (\<lambda>keys.
                   Ok (Some keys, self\<lparr>ss_receiver_chains := (ss_receiver_chains self)[i := chain']\<rparr>))))"

definition message_key_structure :: "MessageKeys \<Rightarrow> Chain_MessageKey" where
  "message_key_structure mk =
     \<lparr>cmk_index = mk_counter mk, cmk_cipher_key = mk_cipher_key mk,
      cmk_mac_key = mk_mac_key mk, cmk_iv = mk_iv mk\<rparr>"

text \<open>\<open>insert(0, key)\<close>, then \<open>pop()\<close> when the limit is passed.\<close>

definition insert_skipped :: "'k \<Rightarrow> 'k list \<Rightarrow> 'k list" where
  "insert_skipped k ks =
     (let ks' = k # ks in if length ks' > MAX_MESSAGE_KEYS then butlast ks' else ks')"

definition set_message_keys :: "SessionState \<Rightarrow> PublicKey \<Rightarrow> MessageKeys \<Rightarrow> SessionState sresult" where
  "set_message_keys self sender message_keys =
     rbind (get_receiver_chain self sender) (\<lambda>r.
       case r of
         Some (chain, i) \<Rightarrow>
           let updated_chain = chain\<lparr>ch_message_keys :=
                 insert_skipped (message_key_structure message_keys) (ch_message_keys chain)\<rparr>
           in Ok (self\<lparr>ss_receiver_chains := (ss_receiver_chains self)[i := updated_chain]\<rparr>)
       | None \<Rightarrow> Err (InvalidState ''set_message_keys'' ''No receiver''))"

definition set_receiver_chain_key :: "SessionState \<Rightarrow> PublicKey \<Rightarrow> ChainKey \<Rightarrow> SessionState sresult" where
  "set_receiver_chain_key self sender chain_key =
     rbind (get_receiver_chain self sender) (\<lambda>r.
       case r of
         Some (chain, i) \<Rightarrow>
           let updated_chain = chain\<lparr>ch_chain_key := Some (chain_key_structure chain_key)\<rparr>
           in Ok (self\<lparr>ss_receiver_chains := (ss_receiver_chains self)[i := updated_chain]\<rparr>)
       | None \<Rightarrow> Err (InvalidState ''set_receiver_chain_key'' ''No receiver''))"

text \<open>The cast \<open>signed_pre_key_id as i32\<close> and back keeps the 32 bits.\<close>

definition set_unacknowledged_pre_key_message ::
    "SessionState \<Rightarrow> u32 option \<Rightarrow> u32 \<Rightarrow> PublicKey \<Rightarrow> SessionState sresult" where
  "set_unacknowledged_pre_key_message self pre_key_id signed_pre_key_id base_key =
     Ok (self\<lparr>ss_pending_pre_key := Some
       \<lparr>pp_pre_key_id = (case pre_key_id of None \<Rightarrow> 0 | Some v \<Rightarrow> v),
        pp_signed_pre_key_id = signed_pre_key_id,
        pp_base_key = PublicKey_serialize base_key\<rparr>\<rparr>)"

definition unacknowledged_pre_key_message_items ::
    "SessionState \<Rightarrow> UnacknowledgedPreKeyMessageItems option sresult" where
  "unacknowledged_pre_key_message_items self =
     (case ss_pending_pre_key self of
        Some pending \<Rightarrow>
          rbind (decode_point (pp_base_key pending)) (\<lambda>base_key.
          Ok (Some \<lparr>upk_pre_key_id = (if pp_pre_key_id pending = 0 then None else Some (pp_pre_key_id pending)),
                    upk_signed_pre_key_id = pp_signed_pre_key_id pending,
                    upk_base_key = base_key\<rparr>))
      | None \<Rightarrow> Ok None)"

definition clear_unacknowledged_pre_key_message :: "SessionState \<Rightarrow> SessionState sresult" where
  "clear_unacknowledged_pre_key_message self = Ok (self\<lparr>ss_pending_pre_key := None\<rparr>)"

definition set_remote_registration_id :: "SessionState \<Rightarrow> u32 \<Rightarrow> SessionState sresult" where
  "set_remote_registration_id self registration_id = Ok (self\<lparr>ss_remote_registration_id := registration_id\<rparr>)"

definition remote_registration_id :: "SessionState \<Rightarrow> u32 sresult" where
  "remote_registration_id self = Ok (ss_remote_registration_id self)"

definition set_local_registration_id :: "SessionState \<Rightarrow> u32 \<Rightarrow> SessionState sresult" where
  "set_local_registration_id self registration_id = Ok (self\<lparr>ss_local_registration_id := registration_id\<rparr>)"

definition local_registration_id :: "SessionState \<Rightarrow> u32 sresult" where
  "local_registration_id self = Ok (ss_local_registration_id self)"

definition SessionState_serialize :: "SessionStructure prost \<Rightarrow> SessionState \<Rightarrow> bytes sresult" where
  "SessionState_serialize P self = Ok (pb_encode P self)"

section \<open>Session records\<close>

record SessionRecord =
  current_session :: "SessionState option"
  previous_sessions :: "SessionState list"

definition SessionRecord_new_fresh :: SessionRecord where
  "SessionRecord_new_fresh = \<lparr>current_session = None, previous_sessions = []\<rparr>"

definition SessionRecord_new :: "SessionState \<Rightarrow> SessionRecord" where
  "SessionRecord_new state = \<lparr>current_session = Some state, previous_sessions = []\<rparr>"

definition SessionRecord_deserialize :: "RecordStructure prost \<Rightarrow> bytes \<Rightarrow> SessionRecord sresult" where
  "SessionRecord_deserialize P bs =
     rbind (prost_decode P bs) (\<lambda>record.
     let previous = push_back_all (\<lambda>s. s) (rs_previous_sessions record) []
     in Ok \<lparr>current_session = rs_current_session record, previous_sessions = previous\<rparr>)"

definition state_matches :: "u32 \<Rightarrow> bytes \<Rightarrow> SessionState \<Rightarrow> bool sresult" where
  "state_matches version base_key s =
     rbind (session_version s) (\<lambda>v.
       if v = version then rbind (alice_base_key s) (\<lambda>k. Ok (base_key = k)) else Ok False)"

fun any_state_matches :: "u32 \<Rightarrow> bytes \<Rightarrow> SessionState list \<Rightarrow> bool sresult" where
  "any_state_matches version base_key [] = Ok False"
| "any_state_matches version base_key (s # ss) =
     rbind (state_matches version base_key s) (\<lambda>b.
       if b then Ok True else any_state_matches version base_key ss)"

definition has_session_state :: "SessionRecord \<Rightarrow> u32 \<Rightarrow> bytes \<Rightarrow> bool sresult" where
  "has_session_state self version base_key =
     rbind (case current_session self of
              Some s \<Rightarrow> state_matches version base_key s | None \<Rightarrow> Ok False) (\<lambda>b.
       if b then Ok True else any_state_matches version base_key (previous_sessions self))"

definition session_state :: "SessionRecord \<Rightarrow> SessionState sresult" where
  "session_state self = ok_or (current_session self) (InvalidState ''session_state'' ''No session'')"

definition set_session_state :: "SessionRecord \<Rightarrow> SessionState \<Rightarrow> SessionRecord sresult" where
  "set_session_state self session = Ok (self\<lparr>current_session := Some session\<rparr>)"

definition is_fresh :: "SessionRecord \<Rightarrow> bool sresult" where
  "is_fresh self = Ok (current_session self = None \<and> previous_sessions self = [])"

definition archive_current_state :: "SessionRecord \<Rightarrow> SessionRecord sresult" where
  "archive_current_state self =
     (case current_session self of
        None \<Rightarrow> Ok self
      | Some s \<Rightarrow>
          let previous = s # previous_sessions self;
              previous = (if length previous > ARCHIVED_STATES_MAX_LENGTH then butlast previous else previous)
          in Ok \<lparr>current_session = None, previous_sessions = previous\<rparr>)"

definition promote_state :: "SessionRecord \<Rightarrow> SessionState \<Rightarrow> SessionRecord sresult" where
  "promote_state self new_state =
     rbind (archive_current_state self) (\<lambda>self. Ok (self\<lparr>current_session := Some new_state\<rparr>))"

definition promote_old_session :: "SessionRecord \<Rightarrow> nat \<Rightarrow> SessionState \<Rightarrow> SessionRecord sresult" where
  "promote_old_session self old_session updated_session =
     (if old_session < length (previous_sessions self)
      then promote_state (self\<lparr>previous_sessions := remove_at old_session (previous_sessions self)\<rparr>) updated_session
      else Err (InvalidState ''promote_old_session'' ''out of range''))"

definition SessionRecord_serialize :: "RecordStructure prost \<Rightarrow> SessionRecord \<Rightarrow> bytes sresult" where
  "SessionRecord_serialize P self =
     Ok (pb_encode P \<lparr>rs_current_session = current_session self,
                      rs_previous_sessions = previous_sessions self\<rparr>)"

section \<open>Looking up receiver chains\<close>

text \<open>What a getter reads is not touched by updates of the other fields.\<close>

lemma session_frame [simp]:
  "session_version (s\<lparr>ss_root_key := x0\<rparr>) = session_version s"
  "session_version (s\<lparr>ss_previous_counter := x1\<rparr>) = session_version s"
  "session_version (s\<lparr>ss_sender_chain := x2\<rparr>) = session_version s"
  "session_version (s\<lparr>ss_receiver_chains := x3\<rparr>) = session_version s"
  "session_version (s\<lparr>ss_pending_pre_key := x4\<rparr>) = session_version s"
  "session_version (s\<lparr>ss_remote_registration_id := x5\<rparr>) = session_version s"
  "session_version (s\<lparr>ss_local_registration_id := x6\<rparr>) = session_version s"
  "session_version (s\<lparr>ss_alice_base_key := x7\<rparr>) = session_version s"
  "remote_identity_key (s\<lparr>ss_root_key := x0\<rparr>) = remote_identity_key s"
  "remote_identity_key (s\<lparr>ss_previous_counter := x1\<rparr>) = remote_identity_key s"
  "remote_identity_key (s\<lparr>ss_sender_chain := x2\<rparr>) = remote_identity_key s"
  "remote_identity_key (s\<lparr>ss_receiver_chains := x3\<rparr>) = remote_identity_key s"
  "remote_identity_key (s\<lparr>ss_pending_pre_key := x4\<rparr>) = remote_identity_key s"
  "remote_identity_key (s\<lparr>ss_remote_registration_id := x5\<rparr>) = remote_identity_key s"
  "remote_identity_key (s\<lparr>ss_local_registration_id := x6\<rparr>) = remote_identity_key s"
  "remote_identity_key (s\<lparr>ss_alice_base_key := x7\<rparr>) = remote_identity_key s"
  "local_identity_key (s\<lparr>ss_root_key := x0\<rparr>) = local_identity_key s"
  "local_identity_key (s\<lparr>ss_previous_counter := x1\<rparr>) = local_identity_key s"
  "local_identity_key (s\<lparr>ss_sender_chain := x2\<rparr>) = local_identity_key s"
  "local_identity_key (s\<lparr>ss_receiver_chains := x3\<rparr>) = local_identity_key s"
  "local_identity_key (s\<lparr>ss_pending_pre_key := x4\<rparr>) = local_identity_key s"
  "local_identity_key (s\<lparr>ss_remote_registration_id := x5\<rparr>) = local_identity_key s"
  "local_identity_key (s\<lparr>ss_local_registration_id := x6\<rparr>) = local_identity_key s"
  "local_identity_key (s\<lparr>ss_alice_base_key := x7\<rparr>) = local_identity_key s"
  "get_receiver_chain (s\<lparr>ss_root_key := x0\<rparr>) = get_receiver_chain s"
  "get_receiver_chain (s\<lparr>ss_previous_counter := x1\<rparr>) = get_receiver_chain s"
  "get_receiver_chain (s\<lparr>ss_sender_chain := x2\<rparr>) = get_receiver_chain s"
  "get_receiver_chain (s\<lparr>ss_pending_pre_key := x4\<rparr>) = get_receiver_chain s"
  "get_receiver_chain (s\<lparr>ss_remote_registration_id := x5\<rparr>) = get_receiver_chain s"
  "get_receiver_chain (s\<lparr>ss_local_registration_id := x6\<rparr>) = get_receiver_chain s"
  "get_receiver_chain (s\<lparr>ss_alice_base_key := x7\<rparr>) = get_receiver_chain s"
  "sender_ratchet_key (s\<lparr>ss_root_key := x0\<rparr>) = sender_ratchet_key s"
  "sender_ratchet_key (s\<lparr>ss_previous_counter := x1\<rparr>) = sender_ratchet_key s"
  "sender_ratchet_key (s\<lparr>ss_receiver_chains := x3\<rparr>) = sender_ratchet_key s"
  "sender_ratchet_key (s\<lparr>ss_pending_pre_key := x4\<rparr>) = sender_ratchet_key s"
  "sender_ratchet_key (s\<lparr>ss_remote_registration_id := x5\<rparr>) = sender_ratchet_key s"
  "sender_ratchet_key (s\<lparr>ss_local_registration_id := x6\<rparr>) = sender_ratchet_key s"
  "sender_ratchet_key (s\<lparr>ss_alice_base_key := x7\<rparr>) = sender_ratchet_key s"
  "sender_ratchet_private_key (s\<lparr>ss_root_key := x0\<rparr>) = sender_ratchet_private_key s"
  "sender_ratchet_private_key (s\<lparr>ss_previous_counter := x1\<rparr>) = sender_ratchet_private_key s"
  "sender_ratchet_private_key (s\<lparr>ss_receiver_chains := x3\<rparr>) = sender_ratchet_private_key s"
  "sender_ratchet_private_key (s\<lparr>ss_pending_pre_key := x4\<rparr>) = sender_ratchet_private_key s"
  "sender_ratchet_private_key (s\<lparr>ss_remote_registration_id := x5\<rparr>) = sender_ratchet_private_key s"
  "sender_ratchet_private_key (s\<lparr>ss_local_registration_id := x6\<rparr>) = sender_ratchet_private_key s"
  "sender_ratchet_private_key (s\<lparr>ss_alice_base_key := x7\<rparr>) = sender_ratchet_private_key s"
  "get_sender_chain_key (s\<lparr>ss_root_key := x0\<rparr>) = get_sender_chain_key s"
  "get_sender_chain_key (s\<lparr>ss_previous_counter := x1\<rparr>) = get_sender_chain_key s"
  "get_sender_chain_key (s\<lparr>ss_receiver_chains := x3\<rparr>) = get_sender_chain_key s"
  "get_sender_chain_key (s\<lparr>ss_pending_pre_key := x4\<rparr>) = get_sender_chain_key s"
  "get_sender_chain_key (s\<lparr>ss_remote_registration_id := x5\<rparr>) = get_sender_chain_key s"
  "get_sender_chain_key (s\<lparr>ss_local_registration_id := x6\<rparr>) = get_sender_chain_key s"
  "get_sender_chain_key (s\<lparr>ss_alice_base_key := x7\<rparr>) = get_sender_chain_key s"
  "root_key (s\<lparr>ss_previous_counter := x1\<rparr>) = root_key s"
  "root_key (s\<lparr>ss_sender_chain := x2\<rparr>) = root_key s"
  "root_key (s\<lparr>ss_receiver_chains := x3\<rparr>) = root_key s"
  "root_key (s\<lparr>ss_pending_pre_key := x4\<rparr>) = root_key s"
  "root_key (s\<lparr>ss_remote_registration_id := x5\<rparr>) = root_key s"
  "root_key (s\<lparr>ss_local_registration_id := x6\<rparr>) = root_key s"
  "root_key (s\<lparr>ss_alice_base_key := x7\<rparr>) = root_key s"
  "unacknowledged_pre_key_message_items (s\<lparr>ss_root_key := x0\<rparr>) = unacknowledged_pre_key_message_items s"
  "unacknowledged_pre_key_message_items (s\<lparr>ss_previous_counter := x1\<rparr>) = unacknowledged_pre_key_message_items s"
  "unacknowledged_pre_key_message_items (s\<lparr>ss_sender_chain := x2\<rparr>) = unacknowledged_pre_key_message_items s"
  "unacknowledged_pre_key_message_items (s\<lparr>ss_receiver_chains := x3\<rparr>) = unacknowledged_pre_key_message_items s"
  "unacknowledged_pre_key_message_items (s\<lparr>ss_remote_registration_id := x5\<rparr>) = unacknowledged_pre_key_message_items s"
  "unacknowledged_pre_key_message_items (s\<lparr>ss_local_registration_id := x6\<rparr>) = unacknowledged_pre_key_message_items s"
  "unacknowledged_pre_key_message_items (s\<lparr>ss_alice_base_key := x7\<rparr>) = unacknowledged_pre_key_message_items s"
  by (simp_all add: session_version_def remote_identity_key_def local_identity_key_def get_receiver_chain_def
      sender_ratchet_key_def sender_ratchet_private_key_def get_sender_chain_key_def root_key_def
      unacknowledged_pre_key_message_items_def fun_eq_iff)

abbreviation update_chain :: "SessionState \<Rightarrow> nat \<Rightarrow> Chain \<Rightarrow> SessionState" where
  "update_chain s i c \<equiv> s\<lparr>ss_receiver_chains := (ss_receiver_chains s)[i := c]\<rparr>"

lemma find_receiver_chain_bounds:
  "find_receiver_chain sb idx cs = Ok (Some (c, i)) \<Longrightarrow>
     idx \<le> i \<and> i - idx < length cs \<and> cs ! (i - idx) = c \<and>
     (\<exists>point. decode_point (ch_sender_ratchet_key c) = Ok point \<and> PublicKey_serialize point = sb)"
proof (induction sb idx cs rule: find_receiver_chain.induct)
  case (2 sb idx chain rest)
  then obtain point where point: "decode_point (ch_sender_ratchet_key chain) = Ok point"
    by (auto simp: result_simps)
  show ?case
  proof (cases "PublicKey_serialize point = sb")
    case True
    with 2 point show ?thesis by simp
  next
    case False
    with 2 point have "find_receiver_chain sb (Suc idx) rest = Ok (Some (c, i))" by simp
    with 2 point False have "Suc idx \<le> i \<and> i - Suc idx < length rest \<and> rest ! (i - Suc idx) = c"
      and "\<exists>point. decode_point (ch_sender_ratchet_key c) = Ok point \<and> PublicKey_serialize point = sb"
      by blast+
    then show ?thesis by (auto simp: nth_Cons' Suc_diff_Suc)
  qed
qed simp

lemma find_receiver_chain_update:
  assumes "find_receiver_chain sb idx cs = Ok (Some (c, i))"
    and "ch_sender_ratchet_key c' = ch_sender_ratchet_key c"
  shows "find_receiver_chain sb idx (cs[i - idx := c']) = Ok (Some (c', i))"
  using assms
proof (induction sb idx cs rule: find_receiver_chain.induct)
  case (2 sb idx chain rest)
  then obtain point where point: "decode_point (ch_sender_ratchet_key chain) = Ok point"
    by (auto simp: result_simps)
  show ?case
  proof (cases "PublicKey_serialize point = sb")
    case True
    with 2 point show ?thesis by simp
  next
    case False
    with 2 point have *: "find_receiver_chain sb (Suc idx) rest = Ok (Some (c, i))" by simp
    with 2 point False have "find_receiver_chain sb (Suc idx) (rest[i - Suc idx := c']) = Ok (Some (c', i))"
      by blast
    moreover have "i - idx = Suc (i - Suc idx)" using find_receiver_chain_bounds [OF *] by linarith
    ultimately show ?thesis using point False by simp
  qed
qed simp

lemma find_receiver_chain_update_other:
  assumes "i < length cs" "ch_sender_ratchet_key c' = ch_sender_ratchet_key (cs ! i)"
    and "\<And>point. decode_point (ch_sender_ratchet_key c') = Ok point \<Longrightarrow> PublicKey_serialize point \<noteq> sb"
  shows "find_receiver_chain sb idx (cs[i := c']) = find_receiver_chain sb idx cs"
  using assms
proof (induction cs arbitrary: idx i)
  case (Cons chain rest)
  show ?case
  proof (cases i)
    case 0
    with Cons.prems show ?thesis by (auto intro!: rbind_cong)
  next
    case (Suc j)
    with Cons.IH [of j "Suc idx"] Cons.prems show ?thesis by (auto intro!: rbind_cong)
  qed
qed simp

lemma get_receiver_chain_index:
  "get_receiver_chain s eph = Ok (Some (c, i)) \<Longrightarrow> i < length (ss_receiver_chains s) \<and> ss_receiver_chains s ! i = c"
  using find_receiver_chain_bounds [of _ 0] by (fastforce simp: get_receiver_chain_def)

lemma get_receiver_chain_update [simp]:
  assumes "get_receiver_chain s eph = Ok (Some (c, i))"
    and "ch_sender_ratchet_key c' = ch_sender_ratchet_key c"
  shows "get_receiver_chain (update_chain s i c') eph = Ok (Some (c', i))"
  using find_receiver_chain_update [of _ 0] assms by (fastforce simp: get_receiver_chain_def)

lemma get_receiver_chain_cong:
  "ss_receiver_chains s = ss_receiver_chains t \<Longrightarrow> get_receiver_chain s eph = get_receiver_chain t eph"
  by (simp add: get_receiver_chain_def)

lemma get_receiver_chain_not_Panic [simp]: "get_receiver_chain s eph \<noteq> Panic"
proof -
  have "find_receiver_chain sb i cs \<noteq> Panic" for sb i cs
    by (induction sb i cs rule: find_receiver_chain.induct)
       (auto simp: result_simps pubkey.deser_total)
  then show ?thesis by (simp add: get_receiver_chain_def)
qed

text \<open>A chain that was just added is found, if the key was not there before.\<close>

lemma find_receiver_chain_append_new:
  assumes "find_receiver_chain sb idx cs = Ok None"
    and "decode_point (ch_sender_ratchet_key c) = Ok point" "PublicKey_serialize point = sb"
  shows "find_receiver_chain sb idx (cs @ [c]) = Ok (Some (c, idx + length cs))"
  using assms
proof (induction sb idx cs rule: find_receiver_chain.induct)
  case (2 sb idx chain rest)
  then obtain p where "decode_point (ch_sender_ratchet_key chain) = Ok p" "PublicKey_serialize p \<noteq> sb"
    "find_receiver_chain sb (Suc idx) rest = Ok None"
    by (auto simp: result_simps split: if_splits)
  with 2 show ?case by auto
qed simp

lemma find_receiver_chain_None_tl:
  "find_receiver_chain sb idx (c # cs) = Ok None \<Longrightarrow> find_receiver_chain sb (Suc idx) cs = Ok None"
  by (auto simp: result_simps split: if_splits)

lemma find_receiver_chain_None_shift:
  "find_receiver_chain sb idx cs = Ok None \<longleftrightarrow> find_receiver_chain sb idx' cs = Ok None"
  by (induction cs arbitrary: idx idx') (auto simp: result_simps split: if_splits; blast)+

lemma add_receiver_chain_lookup:
  assumes "PublicKey_wf eph" "get_receiver_chain s eph = Ok None"
    and "add_receiver_chain s eph ck = Ok s'"
  shows "\<exists>c i. get_receiver_chain s' eph = Ok (Some (c, i)) \<and>
     ch_chain_key c = Some (chain_key_structure ck) \<and> ch_message_keys c = []"
proof -
  let ?c = "\<lparr>ch_sender_ratchet_key = PublicKey_serialize eph, ch_sender_ratchet_key_private = [],
     ch_chain_key = Some (chain_key_structure ck), ch_message_keys = []\<rparr>"
  let ?cs = "ss_receiver_chains s" and ?sb = "PublicKey_serialize eph"
  have dec: "decode_point (ch_sender_ratchet_key ?c) = Ok eph"
    using assms(1) by (simp add: pubkey.deser_ser)
  have none: "find_receiver_chain ?sb 0 ?cs = Ok None"
    using assms(2) by (simp add: get_receiver_chain_def)
  show ?thesis
  proof (cases "length ?cs < MAX_RECEIVER_CHAINS")
    case True
    then have "ss_receiver_chains s' = ?cs @ [?c]"
      using assms(3) by (auto simp: add_receiver_chain_def Let_def)
    with find_receiver_chain_append_new [OF none dec refl] show ?thesis
      by (auto simp: get_receiver_chain_def)
  next
    case False
    then obtain c0 rest where cs: "?cs = c0 # rest" by (cases ?cs) (auto simp: consts_defs)
    then have "ss_receiver_chains s' = rest @ [?c]"
      using assms(3) False by (auto simp: add_receiver_chain_def Let_def)
    moreover have "find_receiver_chain ?sb 0 rest = Ok None"
      using none find_receiver_chain_None_tl find_receiver_chain_None_shift cs by metis
    ultimately show ?thesis
      using find_receiver_chain_append_new [OF _ dec refl] by (auto simp: get_receiver_chain_def)
  qed
qed

section \<open>Skipped message keys\<close>

interpretation session_skips: bounded_skips insert_skipped "\<lambda>ks. ks"
proof unfold_locales
  fix k :: 'a and ks :: "'a list"
  assume "length ks \<le> MAX_MESSAGE_KEYS"
  then show "insert_skipped k ks = take MAX_MESSAGE_KEYS (k # ks)"
    by (cases "length ks = MAX_MESSAGE_KEYS") (auto simp: insert_skipped_def Let_def butlast_conv_take
        simp del: butlast.simps)
qed simp_all

lemma insert_skipped_Cons: "\<exists>ks'. insert_skipped k ks = k # ks'"
  by (cases ks rule: rev_cases) (auto simp: insert_skipped_def Let_def consts_defs)

lemma set_message_keys_eq:
  "get_receiver_chain s eph = Ok (Some (c, i)) \<Longrightarrow>
   set_message_keys s eph mk = Ok (update_chain s i
     (c\<lparr>ch_message_keys := insert_skipped (message_key_structure mk) (ch_message_keys c)\<rparr>))"
  by (simp add: set_message_keys_def Let_def)

lemma set_receiver_chain_key_eq:
  "get_receiver_chain s eph = Ok (Some (c, i)) \<Longrightarrow>
   set_receiver_chain_key s eph ck = Ok (update_chain s i
     (c\<lparr>ch_chain_key := Some (chain_key_structure ck)\<rparr>))"
  by (simp add: set_receiver_chain_key_def Let_def)

lemma get_message_keys_cases:
  assumes "get_message_keys s eph n = Ok (mk, s')"
  shows "mk = None \<and> s' = s \<or>
    (\<exists>c i p keys. get_receiver_chain s eph = Ok (Some (c, i)) \<and>
       position (\<lambda>m. cmk_index m = n) (ch_message_keys c) = Some p \<and> mk = Some keys \<and>
       s' = update_chain s i (c\<lparr>ch_message_keys := remove_at p (ch_message_keys c)\<rparr>))"
proof -
  obtain r where r: "get_receiver_chain s eph = Ok r"
    using assms by (auto simp: get_message_keys_def result_simps)
  show ?thesis
  proof (cases r)
    case None
    with r assms show ?thesis by (simp add: get_message_keys_def)
  next
    case (Some ci)
    then obtain c i where "r = Some (c, i)" by (cases ci) simp
    with r assms show ?thesis
      by (auto simp: get_message_keys_def Let_def result_simps split: option.splits)
  qed
qed

lemma get_message_keys_None_iff:
  assumes "get_receiver_chain s eph = Ok (Some (c, i))"
  shows "get_message_keys s eph n = Ok (None, s') \<longleftrightarrow>
    s' = s \<and> (\<forall>m\<in>set (ch_message_keys c). cmk_index m \<noteq> n)"
  using assms by (auto simp: get_message_keys_def Let_def result_simps split: option.splits
      dest: position_Some_in_set)

lemma get_message_keys_Some:
  assumes "get_receiver_chain s eph = Ok (Some (c, i))"
    and "position (\<lambda>m. cmk_index m = mk_counter mk) (ch_message_keys c) = Some p"
    and "ch_message_keys c ! p = message_key_structure mk" "MessageKeys_wf mk"
  shows "get_message_keys s eph (mk_counter mk) =
    Ok (Some mk, update_chain s i (c\<lparr>ch_message_keys := remove_at p (ch_message_keys c)\<rparr>))"
  using assms by (simp add: get_message_keys_def Let_def message_key_structure_def)

section \<open>Limits\<close>

definition chain_bounded :: "Chain \<Rightarrow> bool" where
  "chain_bounded c \<longleftrightarrow> length (ch_message_keys c) \<le> MAX_MESSAGE_KEYS"

definition session_bounded :: "SessionState \<Rightarrow> bool" where
  "session_bounded s \<longleftrightarrow> length (ss_receiver_chains s) \<le> MAX_RECEIVER_CHAINS \<and>
     (\<forall>c\<in>set (ss_receiver_chains s). chain_bounded c)"

lemma session_bounded_update_chain:
  "session_bounded s \<Longrightarrow> chain_bounded c \<Longrightarrow> session_bounded (update_chain s i c)"
  by (auto simp: session_bounded_def dest!: set_update_subset_insert [THEN subsetD])

lemma session_bounded_chain:
  "session_bounded s \<Longrightarrow> get_receiver_chain s eph = Ok (Some (c, i)) \<Longrightarrow> chain_bounded c"
  using get_receiver_chain_index [of s eph c i] by (auto simp: session_bounded_def)

lemma session_bounded_add_receiver_chain:
  assumes "session_bounded s" "add_receiver_chain s eph ck = Ok s'"
  shows "session_bounded s'"
proof -
  let ?cs = "ss_receiver_chains s"
  define c where "c = \<lparr>ch_sender_ratchet_key = PublicKey_serialize eph,
     ch_sender_ratchet_key_private = [], ch_chain_key = Some (chain_key_structure ck),
     ch_message_keys = []\<rparr>"
  have c: "chain_bounded c" by (simp add: c_def chain_bounded_def)
  have cs: "ss_receiver_chains s' = (if length ?cs < MAX_RECEIVER_CHAINS then ?cs @ [c] else tl (?cs @ [c]))"
    using assms(2) by (auto simp: add_receiver_chain_def Let_def c_def)
  have "set (tl (?cs @ [c])) \<subseteq> insert c (set ?cs)"
    by (auto dest: list.set_sel(2) [rotated])
  with cs c assms(1) show ?thesis by (auto simp: session_bounded_def)
qed

lemma session_bounded_set_message_keys:
  assumes "session_bounded s" "set_message_keys s eph mk = Ok s'"
  shows "session_bounded s'"
proof -
  obtain c i where r: "get_receiver_chain s eph = Ok (Some (c, i))"
    using assms(2) by (auto simp: set_message_keys_def result_simps split: option.splits)
  then have "chain_bounded c" by (rule session_bounded_chain [OF assms(1)])
  then show ?thesis
    using assms set_message_keys_eq [OF r, of mk] session_skips.length_ins
    by (auto simp: chain_bounded_def intro!: session_bounded_update_chain)
qed

lemma session_bounded_set_receiver_chain_key:
  assumes "session_bounded s" "set_receiver_chain_key s eph ck = Ok s'"
  shows "session_bounded s'"
proof -
  obtain c i where r: "get_receiver_chain s eph = Ok (Some (c, i))"
    using assms(2) by (auto simp: set_receiver_chain_key_def result_simps split: option.splits)
  then have "chain_bounded c" by (rule session_bounded_chain [OF assms(1)])
  then show ?thesis
    using assms set_receiver_chain_key_eq [OF r, of ck]
    by (auto simp: chain_bounded_def intro!: session_bounded_update_chain)
qed

lemma session_bounded_get_message_keys:
  assumes "session_bounded s" "get_message_keys s eph n = Ok (mk, s')"
  shows "session_bounded s'"
proof (cases "s' = s")
  case False
  then obtain c i p where r: "get_receiver_chain s eph = Ok (Some (c, i))"
    and p: "position (\<lambda>m. cmk_index m = n) (ch_message_keys c) = Some p"
    and s': "s' = update_chain s i (c\<lparr>ch_message_keys := remove_at p (ch_message_keys c)\<rparr>)"
    using get_message_keys_cases [OF assms(2)] by blast
  have "chain_bounded c" by (rule session_bounded_chain [OF assms(1) r])
  then have "chain_bounded (c\<lparr>ch_message_keys := remove_at p (ch_message_keys c)\<rparr>)"
    using position_Some [OF p] by (simp add: chain_bounded_def length_remove_at)
  then show ?thesis unfolding s' by (rule session_bounded_update_chain [OF assms(1)])
qed (use assms in simp)

section \<open>The session state machine\<close>

text \<open>
  Every way a client can change a session state through its methods. A session starts
  from the empty chains that \<open>initialize_alice_session\<close> and \<open>initialize_bob_session\<close> make.
\<close>

inductive session_step :: "SessionState \<Rightarrow> SessionState \<Rightarrow> bool" where
  step_set_alice_base_key: "set_alice_base_key s k = Ok s' \<Longrightarrow> session_step s s'"
| step_set_previous_counter: "set_previous_counter s n = Ok s' \<Longrightarrow> session_step s s'"
| step_set_root_key: "set_root_key s rk = Ok s' \<Longrightarrow> session_step s s'"
| step_add_receiver_chain: "add_receiver_chain s eph ck = Ok s' \<Longrightarrow> session_step s s'"
| step_set_sender_chain: "set_sender_chain s kp ck = Ok s' \<Longrightarrow> session_step s s'"
| step_set_sender_chain_key: "set_sender_chain_key s ck = Ok s' \<Longrightarrow> session_step s s'"
| step_get_message_keys: "get_message_keys s eph n = Ok (mk, s') \<Longrightarrow> session_step s s'"
| step_set_message_keys: "set_message_keys s eph keys = Ok s' \<Longrightarrow> session_step s s'"
| step_set_receiver_chain_key: "set_receiver_chain_key s eph ck = Ok s' \<Longrightarrow> session_step s s'"
| step_set_unacknowledged: "set_unacknowledged_pre_key_message s i j b = Ok s' \<Longrightarrow> session_step s s'"
| step_clear_unacknowledged: "clear_unacknowledged_pre_key_message s = Ok s' \<Longrightarrow> session_step s s'"
| step_set_remote_registration_id: "set_remote_registration_id s n = Ok s' \<Longrightarrow> session_step s s'"
| step_set_local_registration_id: "set_local_registration_id s n = Ok s' \<Longrightarrow> session_step s s'"

inductive session_reachable :: "SessionState \<Rightarrow> bool" where
  reach_init: "ss_receiver_chains s = [] \<Longrightarrow> session_reachable s"
| reach_step: "session_reachable s \<Longrightarrow> session_step s s' \<Longrightarrow> session_reachable s'"

lemmas session_setters = set_alice_base_key_def set_previous_counter_def set_root_key_def
  set_sender_chain_def set_sender_chain_key_def set_unacknowledged_pre_key_message_def
  clear_unacknowledged_pre_key_message_def set_remote_registration_id_def set_local_registration_id_def

lemma session_bounded_cong:
  "ss_receiver_chains s' = ss_receiver_chains s \<Longrightarrow> session_bounded s \<Longrightarrow> session_bounded s'"
  by (simp add: session_bounded_def)

lemma session_step_bounded: "session_step s s' \<Longrightarrow> session_bounded s \<Longrightarrow> session_bounded s'"
proof (induction rule: session_step.induct)
  case step_add_receiver_chain
  then show ?case by (blast intro: session_bounded_add_receiver_chain)
next
  case step_get_message_keys
  then show ?case by (blast intro: session_bounded_get_message_keys)
next
  case step_set_message_keys
  then show ?case by (blast intro: session_bounded_set_message_keys)
next
  case step_set_receiver_chain_key
  then show ?case by (blast intro: session_bounded_set_receiver_chain_key)
qed (auto simp: session_setters Let_def intro: session_bounded_cong [rotated])

lemma session_reachable_bounded: "session_reachable s \<Longrightarrow> session_bounded s"
proof (induction rule: session_reachable.induct)
  case (reach_init s)
  then show ?case by (simp add: session_bounded_def)
next
  case (reach_step s s')
  then show ?case by (blast intro: session_step_bounded)
qed

section \<open>Session records\<close>

text \<open>The states of a record, the current one first.\<close>

definition record_states :: "SessionRecord \<Rightarrow> SessionState list" where
  "record_states r = (case current_session r of None \<Rightarrow> [] | Some s \<Rightarrow> [s]) @ previous_sessions r"

definition record_bounded :: "SessionRecord \<Rightarrow> bool" where
  "record_bounded r \<longleftrightarrow> length (previous_sessions r) \<le> ARCHIVED_STATES_MAX_LENGTH"

lemma archive_current_state_eq:
  assumes "record_bounded r"
  shows "archive_current_state r =
    Ok \<lparr>current_session = None, previous_sessions = take ARCHIVED_STATES_MAX_LENGTH (record_states r)\<rparr>"
proof (cases "current_session r")
  case None
  with assms show ?thesis
    by (cases r) (simp add: archive_current_state_def record_states_def record_bounded_def)
next
  case (Some s)
  with assms show ?thesis
    by (cases "length (previous_sessions r) = ARCHIVED_STATES_MAX_LENGTH")
       (auto simp: archive_current_state_def record_states_def record_bounded_def Let_def
         butlast_conv_take simp del: butlast.simps)
qed

lemma promote_state_eq:
  assumes "record_bounded r"
  shows "promote_state r s =
    Ok \<lparr>current_session = Some s, previous_sessions = take ARCHIVED_STATES_MAX_LENGTH (record_states r)\<rparr>"
  by (simp add: promote_state_def archive_current_state_eq [OF assms])

lemma record_bounded_take [simp]:
  "record_bounded \<lparr>current_session = c, previous_sessions = take ARCHIVED_STATES_MAX_LENGTH ss\<rparr>"
  by (simp add: record_bounded_def)

lemma state_matches_eq: "state_matches v b s = Ok (session_version s = Ok v \<and> ss_alice_base_key s = b)"
  by (auto simp: state_matches_def session_version_def alice_base_key_def)

lemma any_state_matches_eq:
  "any_state_matches v b ss = Ok (\<exists>s\<in>set ss. session_version s = Ok v \<and> ss_alice_base_key s = b)"
  by (induction ss) (auto simp: state_matches_eq)

lemma has_session_state_eq:
  "has_session_state r v b =
     Ok (\<exists>s\<in>set (record_states r). session_version s = Ok v \<and> ss_alice_base_key s = b)"
  by (auto simp: has_session_state_def state_matches_eq any_state_matches_eq record_states_def
      split: option.splits)

section \<open>Properties\<close>

text \<open>A session state with one receiver chain, for the witnesses.\<close>

definition ref_key :: "u8 \<Rightarrow> PublicKey" where
  "ref_key b = PublicKey (DjbPublicKey (replicate 32 b))"

definition ref_chain :: Chain where
  "ref_chain = \<lparr>ch_sender_ratchet_key = PublicKey_serialize (ref_key 7), ch_sender_ratchet_key_private = [],
     ch_chain_key = Some \<lparr>cck_index = 0, cck_key = replicate 32 1\<rparr>, ch_message_keys = []\<rparr>"

definition ref_session :: "Chain list \<Rightarrow> SessionState" where
  "ref_session cs = \<lparr>ss_session_version = 3, ss_local_identity_public = [],
     ss_remote_identity_public = [], ss_root_key = [], ss_previous_counter = 0,
     ss_sender_chain = None, ss_receiver_chains = cs, ss_pending_pre_key = None,
     ss_remote_registration_id = 0, ss_local_registration_id = 0, ss_needs_refresh = False,
     ss_alice_base_key = []\<rparr>"

lemma ref_key_wf [simp]: "PublicKey_wf (ref_key b)"
  by (simp add: ref_key_def PublicKey_wf_def)

lemma ref_session_chain: "get_receiver_chain (ref_session [ref_chain]) (ref_key 7) = Ok (Some (ref_chain, 0))"
  by (simp add: get_receiver_chain_def ref_session_def ref_chain_def pubkey.deser_ser)

text \<open>
  In every session state that can be reached through the methods, whatever messages
  arrive and in whatever order, there are at most 5 receiver chains and at most 2000
  skipped message keys on each of them.
\<close>

lemma session_state_limits:
  assumes "session_reachable s"
  shows "length (ss_receiver_chains s) \<le> 5 \<and>
    (\<forall>c\<in>set (ss_receiver_chains s). length (ch_message_keys c) \<le> 2000)"
  using session_reachable_bounded [OF assms]
  by (simp add: session_bounded_def chain_bounded_def consts_defs)

lemma session_state_limits_witness:
  "\<exists>s. add_receiver_chain (ref_session []) (ref_key 7)
          \<lparr>ck_kdf = \<lparr>iteration_start_offset = 1\<rparr>, ck_key = replicate 32 1, ck_index = 0\<rparr> = Ok s \<and>
     length (ss_receiver_chains s) \<le> 5"
proof -
  let ?ck = "\<lparr>ck_kdf = \<lparr>iteration_start_offset = 1\<rparr>, ck_key = replicate 32 1, ck_index = 0\<rparr>"
  obtain s where s: "add_receiver_chain (ref_session []) (ref_key 7) ?ck = Ok s"
    by (simp add: add_receiver_chain_def Let_def)
  have "session_reachable (ref_session [])" by (rule reach_init) (simp add: ref_session_def)
  then have "session_reachable s" using step_add_receiver_chain [OF s] by (rule reach_step)
  from session_state_limits [OF this] s show ?thesis by blast
qed

text \<open>
  A skipped message key is handed out once: after storing keys for a counter, asking
  for that counter returns exactly those keys, and asking again returns nothing, provided
  no other key for that counter was there.
\<close>

lemma skipped_key_used_once:
  assumes "get_receiver_chain s eph = Ok (Some (c, i))" "MessageKeys_wf mk"
    and "\<forall>m\<in>set (ch_message_keys c). cmk_index m \<noteq> mk_counter mk"
    and "set_message_keys s eph mk = Ok s1"
  shows "\<exists>s2. get_message_keys s1 eph (mk_counter mk) = Ok (Some mk, s2) \<and>
    get_message_keys s2 eph (mk_counter mk) = Ok (None, s2)"
proof -
  obtain ks where ks: "insert_skipped (message_key_structure mk) (ch_message_keys c) =
      message_key_structure mk # ks"
    using insert_skipped_Cons [of "message_key_structure mk" "ch_message_keys c"] by blast
  have sub: "set ks \<subseteq> set (ch_message_keys c)"
    using ks by (auto simp: insert_skipped_def Let_def split: if_splits dest: in_set_butlastD)
  let ?c1 = "c\<lparr>ch_message_keys := message_key_structure mk # ks\<rparr>"
  let ?c2 = "?c1\<lparr>ch_message_keys := ks\<rparr>"
  have s1: "s1 = update_chain s i ?c1"
    using assms(4) set_message_keys_eq [OF assms(1), of mk] ks by simp
  have r1: "get_receiver_chain s1 eph = Ok (Some (?c1, i))"
    unfolding s1 by (rule get_receiver_chain_update [OF assms(1)]) simp
  have g1: "get_message_keys s1 eph (mk_counter mk) = Ok (Some mk, update_chain s1 i ?c2)"
    using get_message_keys_Some [OF r1 _ _ assms(2), of 0] by (simp add: message_key_structure_def)
  have r2: "get_receiver_chain (update_chain s1 i ?c2) eph = Ok (Some (?c2, i))"
    by (rule get_receiver_chain_update [OF r1]) simp
  have "get_message_keys (update_chain s1 i ?c2) eph (mk_counter mk) = Ok (None, update_chain s1 i ?c2)"
    using get_message_keys_None_iff [OF r2] sub assms(3) by auto
  with g1 show ?thesis by blast
qed

lemma skipped_key_used_once_witness:
  "\<exists>mk s1 s2. set_message_keys (ref_session [ref_chain]) (ref_key 7) mk = Ok s1 \<and> mk_counter mk = 4 \<and>
     get_message_keys s1 (ref_key 7) 4 = Ok (Some mk, s2) \<and>
     get_message_keys s2 (ref_key 7) 4 = Ok (None, s2)"
proof -
  let ?mk = "\<lparr>mk_cipher_key = replicate 32 1, mk_mac_key = replicate 32 2, mk_iv = replicate 16 3,
     mk_counter = 4\<rparr>"
  obtain s1 where s1: "set_message_keys (ref_session [ref_chain]) (ref_key 7) ?mk = Ok s1"
    using set_message_keys_eq [OF ref_session_chain] by blast
  have wf: "MessageKeys_wf ?mk" by (simp add: MessageKeys_wf_def)
  have "\<forall>m\<in>set (ch_message_keys ref_chain). cmk_index m \<noteq> mk_counter ?mk"
    by (simp add: ref_chain_def)
  from skipped_key_used_once [OF ref_session_chain wf this s1]
  obtain s2 where "get_message_keys s1 (ref_key 7) 4 = Ok (Some ?mk, s2)"
    "get_message_keys s2 (ref_key 7) 4 = Ok (None, s2)" by auto
  with s1 show ?thesis
    by (intro exI [of _ ?mk] exI [of _ s1] exI [of _ s2]) simp
qed

text \<open>
  Promoting a state makes it the current one and puts every earlier state behind it
  in order, keeping the 40 most recent: the record refines a bounded history.
\<close>

lemma promote_state_history:
  assumes "length (previous_sessions r) \<le> 40"
  shows "\<exists>r'. promote_state r s = Ok r' \<and> current_session r' = Some s \<and>
    record_states r' = s # take 40 (record_states r) \<and> length (previous_sessions r') \<le> 40"
  using assms promote_state_eq [of r s]
  by (simp add: record_bounded_def record_states_def consts_defs)

lemma promote_state_history_witness:
  "\<exists>r'. promote_state (SessionRecord_new (ref_session [])) (ref_session [ref_chain]) = Ok r' \<and>
     record_states r' = [ref_session [ref_chain], ref_session []]"
  using promote_state_history [of "SessionRecord_new (ref_session [])" "ref_session [ref_chain]"]
  by (auto simp: SessionRecord_new_def record_states_def)

text \<open>
  Looking a session up by version and base key finds exactly the current and the
  archived states with that version and base key, a stored version of 0 counting as 2.
\<close>

lemma has_session_state_exact:
  "has_session_state r v b =
     Ok (\<exists>s\<in>set (record_states r).
       (if ss_session_version s = 0 then 2 else ss_session_version s) = v \<and> ss_alice_base_key s = b)"
  by (simp add: has_session_state_eq session_version_def)

text \<open>
  A session record survives being stored: decoding its encoding gives the same
  record, current state and archive included.
\<close>

lemma SessionRecord_roundtrip:
  assumes "prost_ok P" "SessionRecord_serialize P r = Ok bs"
  shows "SessionRecord_deserialize P bs = Ok r"
  using assms by (auto simp: SessionRecord_serialize_def SessionRecord_deserialize_def)

text \<open>
  C36. A pending one-time pre-key survives being recorded unless its identifier is 0: the
  identifier 0 is read back as no pre-key at all.
\<close>

theorem pending_pre_key_id_zero_lost:
  assumes "PublicKey_wf base_key"
    and "set_unacknowledged_pre_key_message s pre_key_id signed_id base_key = Ok s'"
  shows "unacknowledged_pre_key_message_items s' =
    Ok (Some \<lparr>upk_pre_key_id = (if pre_key_id = Some 0 then None else pre_key_id),
              upk_signed_pre_key_id = signed_id, upk_base_key = base_key\<rparr>)"
  using assms by (auto simp: set_unacknowledged_pre_key_message_def unacknowledged_pre_key_message_items_def
      pubkey.deser_ser split: option.splits)

theorem pending_pre_key_id_zero_lost_witness:
  "\<exists>s'. set_unacknowledged_pre_key_message (ref_session []) (Some 0) 5 (ref_key 7) = Ok s' \<and>
     unacknowledged_pre_key_message_items s' =
       Ok (Some \<lparr>upk_pre_key_id = None, upk_signed_pre_key_id = 5, upk_base_key = ref_key 7\<rparr>)"
proof -
  obtain s' where s': "set_unacknowledged_pre_key_message (ref_session []) (Some 0) 5 (ref_key 7) = Ok s'"
    by (simp add: set_unacknowledged_pre_key_message_def)
  with pending_pre_key_id_zero_lost [OF ref_key_wf s'] show ?thesis by simp
qed

end
