(* ===== verification/Sender_Keys.thy ===== *)
theory Sender_Keys
  imports Reference_Codec Skipped_Keys
begin

text \<open>
  Model of \<open>rust/protocol/src/sender_keys.rs\<close>: the chains of the group ratchet and the record
  a member keeps of a sender's recent chains. \<open>SenderKeyState\<close> has the one field \<open>state\<close> and is
  identified with it; a \<open>VecDeque\<close> is a list with its front first. A reference into a
  record is the index it points to, and writing through it updates that index.
\<close>

section \<open>Names\<close>

record SenderKeyName =
  skn_group_id :: string
  skn_sender :: ProtocolAddress

section \<open>Message and chain keys\<close>

record SenderMessageKey =
  smk_iteration :: u32
  smk_iv :: bytes
  smk_cipher_key :: bytes
  smk_seed :: bytes

definition SenderMessageKey_new :: "('sc, 'pt, 'r) crypto \<Rightarrow> u32 \<Rightarrow> bytes \<Rightarrow> SenderMessageKey sresult" where
  "SenderMessageKey_new C iteration seed =
     rbind (HKDF_new 3) (\<lambda>hkdf.
     rbind (HKDF_derive_secrets C hkdf seed (ascii ''WhisperGroup'') 48) (\<lambda>derived.
     rbind (slice derived 0 16) (\<lambda>iv.
     rbind (slice derived 16 32) (\<lambda>cipher_key.
     Ok \<lparr>smk_iteration = iteration, smk_iv = iv, smk_cipher_key = cipher_key, smk_seed = seed\<rparr>))))"

definition SenderMessageKey_from_protobuf ::
    "('sc, 'pt, 'r) crypto \<Rightarrow> SenderMessageKeyStructure \<Rightarrow> SenderMessageKey sresult" where
  "SenderMessageKey_from_protobuf C smk = SenderMessageKey_new C (smks_iteration smk) (smks_seed smk)"

definition SenderMessageKey_as_protobuf :: "SenderMessageKey \<Rightarrow> SenderMessageKeyStructure sresult" where
  "SenderMessageKey_as_protobuf self = Ok \<lparr>smks_iteration = smk_iteration self, smks_seed = smk_seed self\<rparr>"

record SenderChainKey =
  sck_iteration :: u32
  sck_chain_key :: bytes

definition SenderChainKey_MESSAGE_KEY_SEED :: u8 where "SenderChainKey_MESSAGE_KEY_SEED = 0x01"
definition SenderChainKey_CHAIN_KEY_SEED :: u8 where "SenderChainKey_CHAIN_KEY_SEED = 0x02"

definition SenderChainKey_new :: "u32 \<Rightarrow> bytes \<Rightarrow> SenderChainKey sresult" where
  "SenderChainKey_new iteration chain_key = Ok \<lparr>sck_iteration = iteration, sck_chain_key = chain_key\<rparr>"

definition get_derivative :: "('sc, 'pt, 'r) crypto \<Rightarrow> SenderChainKey \<Rightarrow> u8 \<Rightarrow> bytes sresult" where
  "get_derivative C self label = hmac_sha256 C (sck_chain_key self) [label]"

definition SenderChainKey_next :: "('sc, 'pt, 'r) crypto \<Rightarrow> SenderChainKey \<Rightarrow> SenderChainKey sresult" where
  "SenderChainKey_next C self =
     rbind (get_derivative C self SenderChainKey_CHAIN_KEY_SEED) (\<lambda>key.
     SenderChainKey_new (sck_iteration self + 1) key)"

definition sender_message_key :: "('sc, 'pt, 'r) crypto \<Rightarrow> SenderChainKey \<Rightarrow> SenderMessageKey sresult" where
  "sender_message_key C self =
     rbind (get_derivative C self SenderChainKey_MESSAGE_KEY_SEED) (\<lambda>seed.
     SenderMessageKey_new C (sck_iteration self) seed)"

definition SenderChainKey_as_protobuf :: "SenderChainKey \<Rightarrow> SenderChainKeyStructure sresult" where
  "SenderChainKey_as_protobuf self =
     Ok \<lparr>scks_iteration = sck_iteration self, scks_seed = sck_chain_key self\<rparr>"

section \<open>Sender key states\<close>

type_synonym SenderKeyState = SenderKeyStateStructure

definition SenderKeyState_new ::
    "u32 \<Rightarrow> u32 \<Rightarrow> bytes \<Rightarrow> PublicKey \<Rightarrow> PrivateKey option \<Rightarrow> SenderKeyState sresult" where
  "SenderKeyState_new key_id iteration chain_key signature_key signature_private_key =
     rbind (SenderChainKey_new iteration chain_key) (\<lambda>ck.
     rbind (SenderChainKey_as_protobuf ck) (\<lambda>ck.
     Ok \<lparr>sks_sender_key_id = key_id,
         sks_sender_chain_key = Some ck,
         sks_sender_signing_key = Some
           \<lparr>ssks_public = PublicKey_serialize signature_key,
            ssks_private = (case signature_private_key of None \<Rightarrow> [] | Some k \<Rightarrow> PrivateKey_serialize k)\<rparr>,
         sks_sender_message_keys = []\<rparr>))"

definition SenderKeyState_deserialize :: "SenderKeyStateStructure prost \<Rightarrow> bytes \<Rightarrow> SenderKeyState sresult" where
  "SenderKeyState_deserialize P buf = prost_decode P buf"

definition SenderKeyState_serialize :: "SenderKeyStateStructure prost \<Rightarrow> SenderKeyState \<Rightarrow> bytes sresult" where
  "SenderKeyState_serialize P self = Ok (pb_encode P self)"

definition sender_chain_key :: "SenderKeyState \<Rightarrow> SenderChainKey sresult" where
  "sender_chain_key self =
     rbind (ok_or (sks_sender_chain_key self) InvalidProtobufEncoding) (\<lambda>sender_chain.
     SenderChainKey_new (scks_iteration sender_chain) (scks_seed sender_chain))"

definition SenderKeyState_set_sender_chain_key ::
    "SenderKeyState \<Rightarrow> SenderChainKey \<Rightarrow> SenderKeyState sresult" where
  "SenderKeyState_set_sender_chain_key self chain_key =
     rbind (SenderChainKey_as_protobuf chain_key) (\<lambda>ck. Ok (self\<lparr>sks_sender_chain_key := Some ck\<rparr>))"

definition signing_key_public :: "SenderKeyState \<Rightarrow> PublicKey sresult" where
  "signing_key_public self =
     (case sks_sender_signing_key self of
        Some signing_key \<Rightarrow> PublicKey_deserialize (ssks_public signing_key)
      | None \<Rightarrow> Err SignaturePubkeyMissing)"

definition signing_key_private :: "SenderKeyState \<Rightarrow> PrivateKey option sresult" where
  "signing_key_private self =
     (case sks_sender_signing_key self of
        Some signing_key \<Rightarrow> rbind (PrivateKey_deserialize (ssks_private signing_key)) (\<lambda>k. Ok (Some k))
      | None \<Rightarrow> Ok None)"

fun any_iteration :: "u32 \<Rightarrow> SenderMessageKeyStructure list \<Rightarrow> bool" where
  "any_iteration iteration [] = False"
| "any_iteration iteration (k # ks) = (if smks_iteration k = iteration then True else any_iteration iteration ks)"

definition has_sender_message_key :: "SenderKeyState \<Rightarrow> u32 \<Rightarrow> bool sresult" where
  "has_sender_message_key self iteration = Ok (any_iteration iteration (sks_sender_message_keys self))"

text \<open>\<open>while xs.len() > n { xs.remove(0); }\<close> and \<open>while xs.len() > n { xs.pop_back(); }\<close>.\<close>

fun trim_front :: "nat \<Rightarrow> 'a list \<Rightarrow> 'a list" where
  "trim_front n [] = []"
| "trim_front n (x # xs) = (if length (x # xs) > n then trim_front n xs else x # xs)"

function trim_back :: "nat \<Rightarrow> 'a list \<Rightarrow> 'a list" where
  "trim_back n xs = (if length xs > n then trim_back n (butlast xs) else xs)"
  by pat_completeness auto

termination trim_back
  by (relation "measure (\<lambda>(n, xs). length xs)") auto

declare trim_back.simps [simp del]

definition push_sender_message_key :: "'k \<Rightarrow> 'k list \<Rightarrow> 'k list" where
  "push_sender_message_key k ks = trim_front MAX_MESSAGE_KEYS (ks @ [k])"

definition add_sender_message_key :: "SenderKeyState \<Rightarrow> SenderMessageKey \<Rightarrow> SenderKeyState sresult" where
  "add_sender_message_key self smk =
     rbind (SenderMessageKey_as_protobuf smk) (\<lambda>k.
     Ok (self\<lparr>sks_sender_message_keys := push_sender_message_key k (sks_sender_message_keys self)\<rparr>))"

definition remove_sender_message_key ::
    "('sc, 'pt, 'r) crypto \<Rightarrow> SenderKeyState \<Rightarrow> u32 \<Rightarrow> (SenderMessageKey option \<times> SenderKeyState) sresult" where
  "remove_sender_message_key C self iteration =
     (case position (\<lambda>x. smks_iteration x = iteration) (sks_sender_message_keys self) of
        Some index \<Rightarrow>
          let smk = sks_sender_message_keys self ! index;
              self = self\<lparr>sks_sender_message_keys := remove_at index (sks_sender_message_keys self)\<rparr>
          in rbind (SenderMessageKey_from_protobuf C smk) (\<lambda>k. Ok (Some k, self))
      | None \<Rightarrow> Ok (None, self))"

section \<open>Sender key records\<close>

record SenderKeyRecord =
  skrec_states :: "SenderKeyState list"

definition SenderKeyRecord_new_empty :: SenderKeyRecord where
  "SenderKeyRecord_new_empty = \<lparr>skrec_states = []\<rparr>"

definition SenderKeyRecord_deserialize :: "SenderKeyRecordStructure prost \<Rightarrow> bytes \<Rightarrow> SenderKeyRecord sresult" where
  "SenderKeyRecord_deserialize P buf =
     rbind (prost_decode P buf) (\<lambda>skr.
     let states = push_back_all (\<lambda>state. state) (skr_sender_key_states skr) []
     in Ok \<lparr>skrec_states = states\<rparr>)"

definition SenderKeyRecord_is_empty :: "SenderKeyRecord \<Rightarrow> bool sresult" where
  "SenderKeyRecord_is_empty self = Ok (skrec_states self = [])"

definition sender_key_state :: "SenderKeyRecord \<Rightarrow> (SenderKeyState \<times> nat) sresult" where
  "sender_key_state self =
     (if skrec_states self \<noteq> [] then Ok (skrec_states self ! 0, 0) else Err NoSenderKeyState)"

definition sender_key_state_for_keyid :: "SenderKeyRecord \<Rightarrow> u32 \<Rightarrow> (SenderKeyState \<times> nat) sresult" where
  "sender_key_state_for_keyid self key_id =
     (case position (\<lambda>s. sks_sender_key_id s = key_id) (skrec_states self) of
        Some i \<Rightarrow> Ok (skrec_states self ! i, i)
      | None \<Rightarrow> Err NoSenderKeyState)"

abbreviation write_state :: "SenderKeyRecord \<Rightarrow> nat \<Rightarrow> SenderKeyState \<Rightarrow> SenderKeyRecord" where
  "write_state self i s \<equiv> self\<lparr>skrec_states := (skrec_states self)[i := s]\<rparr>"

definition add_sender_key_state ::
    "SenderKeyRecord \<Rightarrow> u32 \<Rightarrow> u32 \<Rightarrow> bytes \<Rightarrow> PublicKey \<Rightarrow> PrivateKey option \<Rightarrow> SenderKeyRecord sresult" where
  "add_sender_key_state self key_id iteration chain_key signature_key signature_private_key =
     rbind (SenderKeyState_new key_id iteration chain_key signature_key signature_private_key) (\<lambda>s.
     Ok (self\<lparr>skrec_states := trim_back MAX_SENDER_KEY_STATES (s # skrec_states self)\<rparr>))"

definition set_sender_key_state ::
    "SenderKeyRecord \<Rightarrow> u32 \<Rightarrow> u32 \<Rightarrow> bytes \<Rightarrow> PublicKey \<Rightarrow> PrivateKey option \<Rightarrow> SenderKeyRecord sresult" where
  "set_sender_key_state self key_id iteration chain_key signature_key signature_private_key =
     add_sender_key_state (self\<lparr>skrec_states := []\<rparr>) key_id iteration chain_key signature_key signature_private_key"

definition SenderKeyRecord_as_protobuf :: "SenderKeyRecord \<Rightarrow> SenderKeyRecordStructure sresult" where
  "SenderKeyRecord_as_protobuf self =
     (let states = push_back_all (\<lambda>state. state) (skrec_states self) []
      in Ok \<lparr>skr_sender_key_states = states\<rparr>)"

definition SenderKeyRecord_serialize :: "SenderKeyRecordStructure prost \<Rightarrow> SenderKeyRecord \<Rightarrow> bytes sresult" where
  "SenderKeyRecord_serialize P self =
     rbind (SenderKeyRecord_as_protobuf self) (\<lambda>skr. Ok (pb_encode P skr))"

section \<open>Trimming\<close>

lemma trim_front_eq: "trim_front n xs = drop (length xs - n) xs"
  by (induction xs) (simp_all add: Suc_diff_le drop_Cons')

lemma trim_back_eq: "trim_back n xs = take n xs"
  by (induction n xs rule: trim_back.induct)
     (subst trim_back.simps, auto simp: butlast_conv_take min_def)

lemma rev_trim_front: "rev (trim_front n xs) = take n (rev xs)"
  by (cases "n \<le> length xs") (simp_all add: trim_front_eq rev_drop)

interpretation group_skips: bounded_skips push_sender_message_key rev
proof unfold_locales
  fix k :: 'a and ks :: "'a list"
  show "rev (push_sender_message_key k ks) = take MAX_MESSAGE_KEYS (k # rev ks)"
    by (simp add: push_sender_message_key_def rev_trim_front)
qed simp_all

lemma add_sender_key_state_eq:
  "\<exists>s. SenderKeyState_new i n ck pub priv = Ok s \<and>
     add_sender_key_state r i n ck pub priv = Ok \<lparr>skrec_states = take 5 (s # skrec_states r)\<rparr>"
  by (simp add: add_sender_key_state_def SenderKeyState_new_def SenderChainKey_new_def
      SenderChainKey_as_protobuf_def trim_back_eq consts_defs SenderKeyRecord.equality)

lemma any_iteration_iff: "any_iteration n ks \<longleftrightarrow> (\<exists>k\<in>set ks. smks_iteration k = n)"
  by (induction ks) auto

section \<open>Sizes and totality\<close>

lemma SenderMessageKey_new_Ok:
  assumes "hash_ok C"
  shows "\<exists>k. SenderMessageKey_new C n seed = Ok k \<and> smk_iteration k = n \<and> smk_seed k = seed \<and>
    length (smk_iv k) = 16 \<and> length (smk_cipher_key k) = 32"
proof -
  obtain okm where "HKDF_derive_secrets C \<lparr>iteration_start_offset = 1\<rparr> seed (ascii ''WhisperGroup'') 48 = Ok okm"
    "length okm = 48"
    using HKDF_derive_secrets_Ok [OF assms hkdf_sizes(1)] .
  then show ?thesis by (simp add: SenderMessageKey_new_def HKDF_new_def)
qed

definition chain_seed :: "('sc, 'pt, 'r) crypto \<Rightarrow> SenderChainKey \<Rightarrow> bytes" where
  "chain_seed C ck = Hmac_Sha256 C (sck_chain_key ck) [SenderChainKey_MESSAGE_KEY_SEED]"

lemma sender_message_key_eq: "sender_message_key C ck = SenderMessageKey_new C (sck_iteration ck) (chain_seed C ck)"
  by (simp add: sender_message_key_def get_derivative_def hmac_sha256_def chain_seed_def)

definition next_sender_chain :: "('sc, 'pt, 'r) crypto \<Rightarrow> SenderChainKey \<Rightarrow> SenderChainKey" where
  "next_sender_chain C ck = \<lparr>sck_iteration = sck_iteration ck + 1,
     sck_chain_key = Hmac_Sha256 C (sck_chain_key ck) [SenderChainKey_CHAIN_KEY_SEED]\<rparr>"

lemma SenderChainKey_next_eq [simp]: "SenderChainKey_next C ck = Ok (next_sender_chain C ck)"
  by (simp add: SenderChainKey_next_def get_derivative_def hmac_sha256_def next_sender_chain_def SenderChainKey_new_def)

lemma sck_iteration_next [simp]: "sck_iteration (next_sender_chain C ck) = sck_iteration ck + 1"
  by (simp add: next_sender_chain_def)

end
