(* ===== verification/Stores.thy ===== *)
theory Stores
  imports Session_State Sender_Keys
begin

text \<open>
  Model of \<open>rust/protocol/src/storage/traits.rs\<close> and \<open>storage/inmem.rs\<close>. A trait object
  \<open>&mut dyn SessionStore\<close> is a record of operations on the application's storage, of type
  \<open>'s\<close>; an operation returns its outcome and the storage it leaves. The argument \<open>ctx\<close> is an
  opaque pointer that the library only passes on: it is fixed inside the record.
  The in-memory store is one instance. The locales state the contracts that the
  ciphers rely on, and are interpreted on the in-memory store.
\<close>

section \<open>The traits\<close>

datatype Direction = Sending | Receiving

record 's IdentityKeyStore =
  get_identity_key_pair :: "('s, IdentityKeyPair) sst"
  get_local_registration_id :: "('s, u32) sst"
  save_identity :: "ProtocolAddress \<Rightarrow> IdentityKey \<Rightarrow> ('s, bool) sst"
  is_trusted_identity :: "ProtocolAddress \<Rightarrow> IdentityKey \<Rightarrow> Direction \<Rightarrow> ('s, bool) sst"
  get_identity :: "ProtocolAddress \<Rightarrow> ('s, IdentityKey option) sst"

record 's PreKeyStore =
  get_pre_key :: "u32 \<Rightarrow> ('s, PreKeyRecord) sst"
  save_pre_key :: "u32 \<Rightarrow> PreKeyRecord \<Rightarrow> ('s, unit) sst"
  remove_pre_key :: "u32 \<Rightarrow> ('s, unit) sst"

record 's SignedPreKeyStore =
  get_signed_pre_key :: "u32 \<Rightarrow> ('s, SignedPreKeyRecord) sst"
  save_signed_pre_key :: "u32 \<Rightarrow> SignedPreKeyRecord \<Rightarrow> ('s, unit) sst"

record 's SessionStore =
  load_session :: "ProtocolAddress \<Rightarrow> ('s, SessionRecord option) sst"
  store_session :: "ProtocolAddress \<Rightarrow> SessionRecord \<Rightarrow> ('s, unit) sst"

record 's SenderKeyStore =
  store_sender_key :: "SenderKeyName \<Rightarrow> SenderKeyRecord \<Rightarrow> ('s, unit) sst"
  load_sender_key :: "SenderKeyName \<Rightarrow> ('s, SenderKeyRecord option) sst"

section \<open>The in-memory stores\<close>

record InMemIdentityKeyStore =
  im_key_pair :: IdentityKeyPair
  im_id :: u32
  im_known_keys :: "ProtocolAddress \<rightharpoonup> IdentityKey"

definition InMemIdentityKeyStore_new :: "IdentityKeyPair \<Rightarrow> u32 \<Rightarrow> InMemIdentityKeyStore" where
  "InMemIdentityKeyStore_new key_pair reg_id =
     \<lparr>im_key_pair = key_pair, im_id = reg_id, im_known_keys = Map.empty\<rparr>"

definition InMem_get_identity_key_pair :: "(InMemIdentityKeyStore, IdentityKeyPair) sst" where
  "InMem_get_identity_key_pair self = (Ok (im_key_pair self), self)"

definition InMem_get_local_registration_id :: "(InMemIdentityKeyStore, u32) sst" where
  "InMem_get_local_registration_id self = (Ok (im_id self), self)"

definition InMem_save_identity :: "ProtocolAddress \<Rightarrow> IdentityKey \<Rightarrow> (InMemIdentityKeyStore, bool) sst" where
  "InMem_save_identity address identity self =
     (case im_known_keys self address of
        None \<Rightarrow> (Ok False, self\<lparr>im_known_keys := (im_known_keys self)(address \<mapsto> identity)\<rparr>)
      | Some k \<Rightarrow>
          if k = identity then (Ok False, self)
          else (Ok True, self\<lparr>im_known_keys := (im_known_keys self)(address \<mapsto> identity)\<rparr>))"

definition InMem_is_trusted_identity ::
    "ProtocolAddress \<Rightarrow> IdentityKey \<Rightarrow> Direction \<Rightarrow> (InMemIdentityKeyStore, bool) sst" where
  "InMem_is_trusted_identity address identity direction self =
     (case im_known_keys self address of
        None \<Rightarrow> (Ok True, self)
      | Some k \<Rightarrow> (Ok (k = identity), self))"

definition InMem_get_identity :: "ProtocolAddress \<Rightarrow> (InMemIdentityKeyStore, IdentityKey option) sst" where
  "InMem_get_identity address self = (Ok (im_known_keys self address), self)"

record InMemPreKeyStore =
  im_pre_keys :: "u32 \<rightharpoonup> PreKeyRecord"

definition InMem_get_pre_key :: "u32 \<Rightarrow> (InMemPreKeyStore, PreKeyRecord) sst" where
  "InMem_get_pre_key key_id self = (ok_or (im_pre_keys self key_id) InvalidPreKeyId, self)"

definition InMem_save_pre_key :: "u32 \<Rightarrow> PreKeyRecord \<Rightarrow> (InMemPreKeyStore, unit) sst" where
  "InMem_save_pre_key key_id record self = (Ok (), self\<lparr>im_pre_keys := (im_pre_keys self)(key_id \<mapsto> record)\<rparr>)"

definition InMem_remove_pre_key :: "u32 \<Rightarrow> (InMemPreKeyStore, unit) sst" where
  "InMem_remove_pre_key key_id self = (Ok (), self\<lparr>im_pre_keys := (im_pre_keys self)(key_id := None)\<rparr>)"

record InMemSignedPreKeyStore =
  im_signed_pre_keys :: "u32 \<rightharpoonup> SignedPreKeyRecord"

definition InMem_get_signed_pre_key :: "u32 \<Rightarrow> (InMemSignedPreKeyStore, SignedPreKeyRecord) sst" where
  "InMem_get_signed_pre_key key_id self = (ok_or (im_signed_pre_keys self key_id) InvalidSignedPreKeyId, self)"

definition InMem_save_signed_pre_key :: "u32 \<Rightarrow> SignedPreKeyRecord \<Rightarrow> (InMemSignedPreKeyStore, unit) sst" where
  "InMem_save_signed_pre_key key_id record self =
     (Ok (), self\<lparr>im_signed_pre_keys := (im_signed_pre_keys self)(key_id \<mapsto> record)\<rparr>)"

record InMemSessionStore =
  im_sessions :: "ProtocolAddress \<rightharpoonup> SessionRecord"

definition InMem_load_session :: "ProtocolAddress \<Rightarrow> (InMemSessionStore, SessionRecord option) sst" where
  "InMem_load_session address self = (Ok (im_sessions self address), self)"

definition InMem_store_session :: "ProtocolAddress \<Rightarrow> SessionRecord \<Rightarrow> (InMemSessionStore, unit) sst" where
  "InMem_store_session address record self =
     (Ok (), self\<lparr>im_sessions := (im_sessions self)(address \<mapsto> record)\<rparr>)"

record InMemSenderKeyStore =
  im_keys :: "SenderKeyName \<rightharpoonup> SenderKeyRecord"

definition InMem_store_sender_key :: "SenderKeyName \<Rightarrow> SenderKeyRecord \<Rightarrow> (InMemSenderKeyStore, unit) sst" where
  "InMem_store_sender_key name record self = (Ok (), self\<lparr>im_keys := (im_keys self)(name \<mapsto> record)\<rparr>)"

definition InMem_load_sender_key :: "SenderKeyName \<Rightarrow> (InMemSenderKeyStore, SenderKeyRecord option) sst" where
  "InMem_load_sender_key name self = (Ok (im_keys self name), self)"

record InMemSignalProtocolStore =
  session_store :: InMemSessionStore
  pre_key_store :: InMemPreKeyStore
  signed_pre_key_store :: InMemSignedPreKeyStore
  identity_store :: InMemIdentityKeyStore
  sender_key_store :: InMemSenderKeyStore

definition InMemSignalProtocolStore_new :: "IdentityKeyPair \<Rightarrow> u32 \<Rightarrow> InMemSignalProtocolStore sresult" where
  "InMemSignalProtocolStore_new key_pair reg_id =
     Ok \<lparr>session_store = \<lparr>im_sessions = Map.empty\<rparr>,
         pre_key_store = \<lparr>im_pre_keys = Map.empty\<rparr>,
         signed_pre_key_store = \<lparr>im_signed_pre_keys = Map.empty\<rparr>,
         identity_store = InMemIdentityKeyStore_new key_pair reg_id,
         sender_key_store = \<lparr>im_keys = Map.empty\<rparr>\<rparr>"

text \<open>The delegations \<open>self.identity_store.f(..)\<close> and the like.\<close>

definition on_identity_store ::
    "(InMemIdentityKeyStore, 'a) sst \<Rightarrow> (InMemSignalProtocolStore, 'a) sst" where
  "on_identity_store f self = (case f (identity_store self) of (x, t) \<Rightarrow> (x, self\<lparr>identity_store := t\<rparr>))"

definition on_pre_key_store ::
    "(InMemPreKeyStore, 'a) sst \<Rightarrow> (InMemSignalProtocolStore, 'a) sst" where
  "on_pre_key_store f self = (case f (pre_key_store self) of (x, t) \<Rightarrow> (x, self\<lparr>pre_key_store := t\<rparr>))"

definition on_signed_pre_key_store ::
    "(InMemSignedPreKeyStore, 'a) sst \<Rightarrow> (InMemSignalProtocolStore, 'a) sst" where
  "on_signed_pre_key_store f self =
     (case f (signed_pre_key_store self) of (x, t) \<Rightarrow> (x, self\<lparr>signed_pre_key_store := t\<rparr>))"

definition on_session_store ::
    "(InMemSessionStore, 'a) sst \<Rightarrow> (InMemSignalProtocolStore, 'a) sst" where
  "on_session_store f self = (case f (session_store self) of (x, t) \<Rightarrow> (x, self\<lparr>session_store := t\<rparr>))"

definition on_sender_key_store ::
    "(InMemSenderKeyStore, 'a) sst \<Rightarrow> (InMemSignalProtocolStore, 'a) sst" where
  "on_sender_key_store f self = (case f (sender_key_store self) of (x, t) \<Rightarrow> (x, self\<lparr>sender_key_store := t\<rparr>))"

definition InMem_IdentityKeyStore :: "InMemSignalProtocolStore IdentityKeyStore" where
  "InMem_IdentityKeyStore =
     \<lparr>get_identity_key_pair = on_identity_store InMem_get_identity_key_pair,
      get_local_registration_id = on_identity_store InMem_get_local_registration_id,
      save_identity = (\<lambda>a k. on_identity_store (InMem_save_identity a k)),
      is_trusted_identity = (\<lambda>a k d. on_identity_store (InMem_is_trusted_identity a k d)),
      get_identity = (\<lambda>a. on_identity_store (InMem_get_identity a))\<rparr>"

definition InMem_PreKeyStore :: "InMemSignalProtocolStore PreKeyStore" where
  "InMem_PreKeyStore =
     \<lparr>get_pre_key = (\<lambda>i. on_pre_key_store (InMem_get_pre_key i)),
      save_pre_key = (\<lambda>i r. on_pre_key_store (InMem_save_pre_key i r)),
      remove_pre_key = (\<lambda>i. on_pre_key_store (InMem_remove_pre_key i))\<rparr>"

definition InMem_SignedPreKeyStore :: "InMemSignalProtocolStore SignedPreKeyStore" where
  "InMem_SignedPreKeyStore =
     \<lparr>get_signed_pre_key = (\<lambda>i. on_signed_pre_key_store (InMem_get_signed_pre_key i)),
      save_signed_pre_key = (\<lambda>i r. on_signed_pre_key_store (InMem_save_signed_pre_key i r))\<rparr>"

definition InMem_SessionStore :: "InMemSignalProtocolStore SessionStore" where
  "InMem_SessionStore =
     \<lparr>load_session = (\<lambda>a. on_session_store (InMem_load_session a)),
      store_session = (\<lambda>a r. on_session_store (InMem_store_session a r))\<rparr>"

definition InMem_SenderKeyStore :: "InMemSignalProtocolStore SenderKeyStore" where
  "InMem_SenderKeyStore =
     \<lparr>store_sender_key = (\<lambda>n r. on_sender_key_store (InMem_store_sender_key n r)),
      load_sender_key = (\<lambda>n. on_sender_key_store (InMem_load_sender_key n))\<rparr>"


section \<open>Contracts\<close>

text \<open>
  \<open>view\<close> is the abstract content of a storage. Loading reads it and changes nothing;
  storing updates one key and cannot fail.
\<close>

locale kv_store =
  fixes load :: "'k \<Rightarrow> ('s, 'v option) sst"
    and store :: "'k \<Rightarrow> 'v \<Rightarrow> ('s, unit) sst"
    and view :: "'s \<Rightarrow> 'k \<rightharpoonup> 'v"
  assumes load_view: "load k s = (Ok (view s k), s)"
    and store_view: "\<exists>s'. store k v s = (Ok (), s') \<and> view s' = (view s)(k \<mapsto> v)"
begin

lemma store_Ok: obtains s' where "store k v s = (Ok (), s')" "view s' = (view s)(k \<mapsto> v)"
  using store_view by blast

lemma view_store: "store k v s = (x, s') \<Longrightarrow> view s' = (view s)(k \<mapsto> v)"
  by (metis store_Ok Pair_inject)

lemma load_after_store:
  "store k v s = (x, s') \<Longrightarrow> load k' s' = (Ok (if k' = k then Some v else view s k'), s')"
  by (simp add: load_view view_store)

end

text \<open>Stores whose lookup of an absent identifier is an error.\<close>

locale id_store =
  fixes get :: "'k \<Rightarrow> ('s, 'v) sst"
    and save :: "'k \<Rightarrow> 'v \<Rightarrow> ('s, unit) sst"
    and missing :: SignalProtocolError
    and view :: "'s \<Rightarrow> 'k \<rightharpoonup> 'v"
  assumes get_view: "get k s = (ok_or (view s k) missing, s)"
    and save_view: "\<exists>s'. save k v s = (Ok (), s') \<and> view s' = (view s)(k \<mapsto> v)"
begin

lemma get_after_save: "save k v s = (x, s') \<Longrightarrow> get k s' = (Ok v, s')"
  using save_view [of k v s] by (auto simp: get_view)

end

locale removable_id_store = id_store +
  fixes remove :: "'a \<Rightarrow> ('b, unit) sst"
  assumes remove_view: "\<exists>s'. remove k s = (Ok (), s') \<and> view s' = (view s)(k := None)"
begin

lemma get_after_remove: "remove k s = (x, s') \<Longrightarrow> get k s' = (Err missing, s')"
  using remove_view [of k s] by (auto simp: get_view)

lemma remove_Ok: obtains s' where "remove k s = (Ok (), s')" "view s' = (view s)(k := None)"
  using remove_view by blast

end

text \<open>Identities are trusted on first use.\<close>

locale identity_laws =
  fixes IS :: "'s IdentityKeyStore"
    and own_pair :: "'s \<Rightarrow> IdentityKeyPair"
    and own_registration :: "'s \<Rightarrow> u32"
    and known :: "'s \<Rightarrow> ProtocolAddress \<rightharpoonup> IdentityKey"
  assumes own_pair: "get_identity_key_pair IS s = (Ok (own_pair s), s)"
    and own_registration: "get_local_registration_id IS s = (Ok (own_registration s), s)"
    and trusted_known: "is_trusted_identity IS a k d s = (Ok (known s a = None \<or> known s a = Some k), s)"
    and save_known: "\<exists>s'. save_identity IS a k s = (Ok (known s a \<noteq> None \<and> known s a \<noteq> Some k), s') \<and>
       known s' = (known s)(a \<mapsto> k) \<and> own_pair s' = own_pair s \<and> own_registration s' = own_registration s"
begin

lemma trusted_after_save:
  "save_identity IS a k s = (x, s') \<Longrightarrow> is_trusted_identity IS a k' d s' = (Ok (k' = k), s')"
  using save_known [of a k s] by (auto simp: trusted_known)

end

text \<open>
  A whole protocol store: the four stores, none of whose operations disturbs the content
  of another. The ciphers are proved against this contract.
\<close>

locale protocol_store_laws =
  sessions: kv_store "load_session SS" "store_session SS" sessions +
  identity_laws IS own_pair own_registration known +
  pre_keys: removable_id_store "get_pre_key PS" "save_pre_key PS" InvalidPreKeyId pre_keys "remove_pre_key PS" +
  signed_pre_keys: id_store "get_signed_pre_key SPS" "save_signed_pre_key SPS" InvalidSignedPreKeyId signed_pre_keys
  for SS :: "'s SessionStore" and IS :: "'s IdentityKeyStore" and PS :: "'s PreKeyStore"
    and SPS :: "'s SignedPreKeyStore" and sessions own_pair own_registration known pre_keys signed_pre_keys +
  assumes session_frame: "store_session SS a r s = (x, s') \<Longrightarrow>
      known s' = known s \<and> own_pair s' = own_pair s \<and> own_registration s' = own_registration s \<and>
      pre_keys s' = pre_keys s \<and> signed_pre_keys s' = signed_pre_keys s"
    and identity_frame: "save_identity IS a k s = (y, s') \<Longrightarrow>
      sessions s' = sessions s \<and> pre_keys s' = pre_keys s \<and> signed_pre_keys s' = signed_pre_keys s"
    and pre_key_frame: "remove_pre_key PS i s = (x, s') \<Longrightarrow>
      sessions s' = sessions s \<and> known s' = known s \<and> own_pair s' = own_pair s \<and>
      own_registration s' = own_registration s \<and> signed_pre_keys s' = signed_pre_keys s"
begin

lemma save_identity_Ok:
  obtains b s' where "save_identity IS a k s = (Ok b, s')" "known s' = (known s)(a \<mapsto> k)"
    "own_pair s' = own_pair s" "own_registration s' = own_registration s"
    "sessions s' = sessions s" "pre_keys s' = pre_keys s" "signed_pre_keys s' = signed_pre_keys s"
  using save_known [of a k s] identity_frame [of a k s] by blast

lemma store_session_Ok:
  obtains s' where "store_session SS a r s = (Ok (), s')" "sessions s' = (sessions s)(a \<mapsto> r)"
    "known s' = known s" "own_pair s' = own_pair s" "own_registration s' = own_registration s"
    "pre_keys s' = pre_keys s" "signed_pre_keys s' = signed_pre_keys s"
  using sessions.store_view [of a r s] session_frame [of a r s] by blast

end

section \<open>The in-memory store keeps the contracts\<close>

lemmas inmem_defs = InMem_IdentityKeyStore_def InMem_PreKeyStore_def InMem_SignedPreKeyStore_def
  InMem_SessionStore_def InMem_SenderKeyStore_def on_identity_store_def on_pre_key_store_def
  on_signed_pre_key_store_def on_session_store_def on_sender_key_store_def
  InMem_get_identity_key_pair_def InMem_get_local_registration_id_def InMem_save_identity_def
  InMem_is_trusted_identity_def InMem_get_identity_def InMem_get_pre_key_def InMem_save_pre_key_def
  InMem_remove_pre_key_def InMem_get_signed_pre_key_def InMem_save_signed_pre_key_def
  InMem_load_session_def InMem_store_session_def InMem_store_sender_key_def InMem_load_sender_key_def

abbreviation inmem_sessions :: "InMemSignalProtocolStore \<Rightarrow> ProtocolAddress \<rightharpoonup> SessionRecord" where
  "inmem_sessions s \<equiv> im_sessions (session_store s)"

abbreviation inmem_known :: "InMemSignalProtocolStore \<Rightarrow> ProtocolAddress \<rightharpoonup> IdentityKey" where
  "inmem_known s \<equiv> im_known_keys (identity_store s)"

abbreviation inmem_pre_keys :: "InMemSignalProtocolStore \<Rightarrow> u32 \<rightharpoonup> PreKeyRecord" where
  "inmem_pre_keys s \<equiv> im_pre_keys (pre_key_store s)"

abbreviation inmem_signed_pre_keys :: "InMemSignalProtocolStore \<Rightarrow> u32 \<rightharpoonup> SignedPreKeyRecord" where
  "inmem_signed_pre_keys s \<equiv> im_signed_pre_keys (signed_pre_key_store s)"

abbreviation inmem_sender_keys :: "InMemSignalProtocolStore \<Rightarrow> SenderKeyName \<rightharpoonup> SenderKeyRecord" where
  "inmem_sender_keys s \<equiv> im_keys (sender_key_store s)"

interpretation inmem: protocol_store_laws InMem_SessionStore InMem_IdentityKeyStore InMem_PreKeyStore
  InMem_SignedPreKeyStore inmem_sessions "\<lambda>s. im_key_pair (identity_store s)" "\<lambda>s. im_id (identity_store s)"
  inmem_known inmem_pre_keys inmem_signed_pre_keys
  by unfold_locales (auto simp: inmem_defs split: option.splits if_splits)

interpretation inmem_sender: kv_store "load_sender_key InMem_SenderKeyStore" "store_sender_key InMem_SenderKeyStore"
  inmem_sender_keys
  by unfold_locales (auto simp: inmem_defs)

end
