(* ===== verification/Ratchet.thy ===== *)
theory Ratchet
  imports Session_State
begin

text \<open>
  Model of \<open>rust/protocol/src/ratchet.rs\<close> and \<open>ratchet/params.rs\<close>: the X3DH computation that
  starts a session on either side. The lemmas show that both sides derive the same
  chains.
\<close>

section \<open>Parameters\<close>

record AliceSignalProtocolParameters =
  ap_our_identity_key_pair :: IdentityKeyPair
  ap_our_base_key_pair :: KeyPair
  ap_their_identity_key :: IdentityKey
  ap_their_signed_pre_key :: PublicKey
  ap_their_one_time_pre_key :: "PublicKey option"
  ap_their_ratchet_key :: PublicKey

record BobSignalProtocolParameters =
  bp_our_identity_key_pair :: IdentityKeyPair
  bp_our_signed_pre_key_pair :: KeyPair
  bp_our_one_time_pre_key_pair :: "KeyPair option"
  bp_our_ratchet_key_pair :: KeyPair
  bp_their_identity_key :: IdentityKey
  bp_their_base_key :: PublicKey

section \<open>Starting a session\<close>

definition CIPHERTEXT_MESSAGE_CURRENT_VERSION :: u8 where
  "CIPHERTEXT_MESSAGE_CURRENT_VERSION = 3"

definition derive_keys :: "('sc, 'pt, 'r) crypto \<Rightarrow> bytes \<Rightarrow> (RootKey \<times> ChainKey) sresult" where
  "derive_keys C secret_input =
     rbind (HKDF_new 3) (\<lambda>kdf.
     rbind (HKDF_derive_secrets C kdf secret_input (ascii ''WhisperText'') 64) (\<lambda>secrets.
     rbind (slice secrets 0 32) (\<lambda>root.
     rbind (RootKey_new kdf root) (\<lambda>root_key.
     rbind (slice secrets 32 32) (\<lambda>chain.
     rbind (ChainKey_new kdf chain 0) (\<lambda>chain_key.
     Ok (root_key, chain_key)))))))"

definition discontinuity_bytes :: bytes where
  "discontinuity_bytes = replicate 32 0xFF"

text \<open>The agreement with a one-time pre-key, nothing when there is none.\<close>

definition optional_agreement ::
    "('sc, 'pt, 'r) crypto \<Rightarrow> (PublicKey \<times> PrivateKey) option \<Rightarrow> bytes sresult" where
  "optional_agreement C keys =
     (case keys of None \<Rightarrow> Ok [] | Some (pub, priv) \<Rightarrow> calculate_agreement C pub priv)"

definition new_session_structure :: "IdentityKey \<Rightarrow> IdentityKey \<Rightarrow> bytes \<Rightarrow> SessionStructure" where
  "new_session_structure local_identity remote_identity root =
     \<lparr>ss_session_version = ucast CIPHERTEXT_MESSAGE_CURRENT_VERSION,
      ss_local_identity_public = PublicKey_serialize (ik_public_key local_identity),
      ss_remote_identity_public = IdentityKey_serialize remote_identity,
      ss_root_key = root,
      ss_previous_counter = 0,
      ss_sender_chain = None,
      ss_receiver_chains = [],
      ss_pending_pre_key = None,
      ss_remote_registration_id = 0,
      ss_local_registration_id = 0,
      ss_needs_refresh = False,
      ss_alice_base_key = []\<rparr>"

definition initialize_alice_session ::
    "('sc, 'pt, 'r) crypto \<Rightarrow> AliceSignalProtocolParameters \<Rightarrow> ('r, SessionState) sst" where
  "initialize_alice_session C parameters =
     sbind (sgen (KeyPair_generate C)) (\<lambda>sending_ratchet_key.
     let local_identity = ikp_identity_key (ap_our_identity_key_pair parameters);
         our_base_private_key = kp_private_key (ap_our_base_key_pair parameters)
     in slift (
       rbind (calculate_agreement C (ap_their_signed_pre_key parameters)
                (ikp_private_key (ap_our_identity_key_pair parameters))) (\<lambda>dh1.
       rbind (calculate_agreement C (ik_public_key (ap_their_identity_key parameters))
                our_base_private_key) (\<lambda>dh2.
       rbind (calculate_agreement C (ap_their_signed_pre_key parameters) our_base_private_key) (\<lambda>dh3.
       rbind (optional_agreement C
                (map_option (\<lambda>k. (k, our_base_private_key)) (ap_their_one_time_pre_key parameters))) (\<lambda>dh4.
       rbind (derive_keys C (discontinuity_bytes @ dh1 @ dh2 @ dh3 @ dh4)) (\<lambda>(root_key, chain_key).
       rbind (RootKey_create_chain C root_key (ap_their_ratchet_key parameters)
                (kp_private_key sending_ratchet_key)) (\<lambda>(sending_chain_root_key, sending_chain_chain_key).
       let session = new_session_structure local_identity (ap_their_identity_key parameters)
                       (rk_key sending_chain_root_key)
       in rbind (add_receiver_chain session (ap_their_ratchet_key parameters) chain_key) (\<lambda>session.
          set_sender_chain session sending_ratchet_key sending_chain_chain_key)))))))))"

definition initialize_bob_session ::
    "('sc, 'pt, 'r) crypto \<Rightarrow> BobSignalProtocolParameters \<Rightarrow> SessionState sresult" where
  "initialize_bob_session C parameters =
     (let local_identity = ikp_identity_key (bp_our_identity_key_pair parameters);
          our_signed_private_key = kp_private_key (bp_our_signed_pre_key_pair parameters)
      in
       rbind (calculate_agreement C (ik_public_key (bp_their_identity_key parameters))
                our_signed_private_key) (\<lambda>dh1.
       rbind (calculate_agreement C (bp_their_base_key parameters)
                (ikp_private_key (bp_our_identity_key_pair parameters))) (\<lambda>dh2.
       rbind (calculate_agreement C (bp_their_base_key parameters) our_signed_private_key) (\<lambda>dh3.
       rbind (optional_agreement C
                (map_option (\<lambda>k. (bp_their_base_key parameters, kp_private_key k))
                   (bp_our_one_time_pre_key_pair parameters))) (\<lambda>dh4.
       rbind (derive_keys C (discontinuity_bytes @ dh1 @ dh2 @ dh3 @ dh4)) (\<lambda>(root_key, chain_key).
       let session = new_session_structure local_identity (bp_their_identity_key parameters) (rk_key root_key)
       in set_sender_chain session (bp_our_ratchet_key_pair parameters) chain_key))))))"

text \<open>\<open>Box<[u8]>\<close> compares lexicographically.\<close>

definition are_we_alice :: "PublicKey \<Rightarrow> PublicKey \<Rightarrow> bool" where
  "are_we_alice our_key their_key \<longleftrightarrow>
     slice_cmp (PublicKey_serialize our_key) (PublicKey_serialize their_key) = Less"


section \<open>Both sides derive the same keys\<close>

abbreviation kdf_v3 :: HKDF where
  "kdf_v3 \<equiv> \<lparr>iteration_start_offset = 1\<rparr>"

lemma HKDF_new_3 [simp]: "HKDF_new 3 = Ok kdf_v3"
  by (simp add: HKDF_new_def)

lemma derive_keys_Ok:
  assumes "hash_ok C"
  obtains rk ck where "derive_keys C secrets = Ok (rk, ck)" "length (rk_key rk) = 32" "rk_kdf rk = kdf_v3"
    "ChainKey_wf ck" "ck_index ck = 0" "ck_kdf ck = kdf_v3"
proof -
  obtain okm where "HKDF_derive_secrets C kdf_v3 secrets (ascii ''WhisperText'') 64 = Ok okm"
    and "length okm = 64"
    using HKDF_derive_secrets_Ok [OF assms hkdf_sizes(2)] .
  then have "derive_keys C secrets = Ok (\<lparr>rk_kdf = kdf_v3, rk_key = take 32 okm\<rparr>,
      \<lparr>ck_kdf = kdf_v3, ck_key = drop 32 okm, ck_index = 0\<rparr>)"
    by (simp add: derive_keys_def RootKey_new_def ChainKey_new_def)
  then show thesis by (rule that) (simp_all add: ChainKey_wf_def \<open>length okm = 64\<close>)
qed

text \<open>The two parameter sets describe the same exchange, with every public key belonging to its private key.\<close>

definition x3dh_match ::
    "('sc, 'pt, 'r) crypto \<Rightarrow> AliceSignalProtocolParameters \<Rightarrow> BobSignalProtocolParameters \<Rightarrow> bool" where
  "x3dh_match C ap bp \<longleftrightarrow>
     IdentityKeyPair_wf C (ap_our_identity_key_pair ap) \<and> KeyPair_wf C (ap_our_base_key_pair ap) \<and>
     IdentityKeyPair_wf C (bp_our_identity_key_pair bp) \<and> KeyPair_wf C (bp_our_signed_pre_key_pair bp) \<and>
     KeyPair_wf C (bp_our_ratchet_key_pair bp) \<and>
     (case bp_our_one_time_pre_key_pair bp of None \<Rightarrow> True | Some k \<Rightarrow> KeyPair_wf C k) \<and>
     ap_their_identity_key ap = ikp_identity_key (bp_our_identity_key_pair bp) \<and>
     ap_their_signed_pre_key ap = kp_public_key (bp_our_signed_pre_key_pair bp) \<and>
     ap_their_one_time_pre_key ap = map_option kp_public_key (bp_our_one_time_pre_key_pair bp) \<and>
     ap_their_ratchet_key ap = kp_public_key (bp_our_ratchet_key_pair bp) \<and>
     bp_their_identity_key bp = ikp_identity_key (ap_our_identity_key_pair ap) \<and>
     bp_their_base_key bp = kp_public_key (ap_our_base_key_pair ap)"

lemma optional_agreement_Ok: "\<exists>s. optional_agreement C keys = Ok s"
  using calculate_agreement_Ok by (fastforce simp: optional_agreement_def split: option.splits)

lemma x3dh_agreements:
  assumes "dh_ok C" "x3dh_match C ap bp"
  shows "calculate_agreement C (ap_their_signed_pre_key ap) (ikp_private_key (ap_our_identity_key_pair ap)) =
      calculate_agreement C (ik_public_key (bp_their_identity_key bp))
        (kp_private_key (bp_our_signed_pre_key_pair bp))"
    and "calculate_agreement C (ik_public_key (ap_their_identity_key ap))
        (kp_private_key (ap_our_base_key_pair ap)) =
      calculate_agreement C (bp_their_base_key bp) (ikp_private_key (bp_our_identity_key_pair bp))"
    and "calculate_agreement C (ap_their_signed_pre_key ap) (kp_private_key (ap_our_base_key_pair ap)) =
      calculate_agreement C (bp_their_base_key bp) (kp_private_key (bp_our_signed_pre_key_pair bp))"
    and "optional_agreement C (map_option (\<lambda>k. (k, kp_private_key (ap_our_base_key_pair ap)))
        (ap_their_one_time_pre_key ap)) =
      optional_agreement C (map_option (\<lambda>k. (bp_their_base_key bp, kp_private_key k))
        (bp_our_one_time_pre_key_pair bp))"
  using assms(2) calculate_agreement_commute [OF assms(1)]
  by (auto simp: x3dh_match_def IdentityKeyPair_wf_def KeyPair_wf_def optional_agreement_def
      split: option.splits)

text \<open>
  What the two sessions hold: a shared root key \<open>rk0\<close> and chain key \<open>ck0\<close>, and on Alice's
  side the first step \<open>(rk, ck)\<close> of the Diffie-Hellman ratchet with her fresh key pair.
\<close>

lemma initialize_sessions:
  assumes "hash_ok C" "dh_ok C" "x3dh_match C ap bp"
    and gen: "KeyPair_generate C rng = (kp, rng')"
  obtains rk0 ck0 rk ck where
    "RootKey_create_chain C rk0 (ap_their_ratchet_key ap) (kp_private_key kp) = Ok (rk, ck)"
    "length (rk_key rk0) = 32" "rk_kdf rk0 = kdf_v3" "ChainKey_wf ck0" "ck_index ck0 = 0" "ck_kdf ck0 = kdf_v3"
    "initialize_alice_session C ap rng =
       (rbind (add_receiver_chain (new_session_structure (ikp_identity_key (ap_our_identity_key_pair ap))
           (ap_their_identity_key ap) (rk_key rk)) (ap_their_ratchet_key ap) ck0)
         (\<lambda>s. set_sender_chain s kp ck), rng')"
    "initialize_bob_session C bp =
       set_sender_chain (new_session_structure (ikp_identity_key (bp_our_identity_key_pair bp))
         (bp_their_identity_key bp) (rk_key rk0)) (bp_our_ratchet_key_pair bp) ck0"
proof -
  obtain dh1 where 1: "calculate_agreement C (ap_their_signed_pre_key ap)
      (ikp_private_key (ap_our_identity_key_pair ap)) = Ok dh1" using calculate_agreement_Ok by blast
  obtain dh2 where 2: "calculate_agreement C (ik_public_key (ap_their_identity_key ap))
      (kp_private_key (ap_our_base_key_pair ap)) = Ok dh2" using calculate_agreement_Ok by blast
  obtain dh3 where 3: "calculate_agreement C (ap_their_signed_pre_key ap)
      (kp_private_key (ap_our_base_key_pair ap)) = Ok dh3" using calculate_agreement_Ok by blast
  obtain dh4 where 4: "optional_agreement C (map_option (\<lambda>k. (k, kp_private_key (ap_our_base_key_pair ap)))
      (ap_their_one_time_pre_key ap)) = Ok dh4" using optional_agreement_Ok by blast
  obtain rk0 ck0 where d: "derive_keys C (discontinuity_bytes @ dh1 @ dh2 @ dh3 @ dh4) = Ok (rk0, ck0)"
    and rk0: "length (rk_key rk0) = 32" "rk_kdf rk0 = kdf_v3"
    and ck0: "ChainKey_wf ck0" "ck_index ck0 = 0" "ck_kdf ck0 = kdf_v3"
    using derive_keys_Ok [OF assms(1)] .
  obtain rk ck where c: "RootKey_create_chain C rk0 (ap_their_ratchet_key ap) (kp_private_key kp) = Ok (rk, ck)"
    using RootKey_create_chain_Ok [OF assms(1)] by blast
  note bob = 1 [unfolded x3dh_agreements(1) [OF assms(2,3)]] 2 [unfolded x3dh_agreements(2) [OF assms(2,3)]]
    3 [unfolded x3dh_agreements(3) [OF assms(2,3)]] 4 [unfolded x3dh_agreements(4) [OF assms(2,3)]]
  show thesis
  proof (rule that [OF c rk0 ck0])
    show "initialize_alice_session C ap rng =
       (rbind (add_receiver_chain (new_session_structure (ikp_identity_key (ap_our_identity_key_pair ap))
           (ap_their_identity_key ap) (rk_key rk)) (ap_their_ratchet_key ap) ck0)
         (\<lambda>s. set_sender_chain s kp ck), rng')"
      by (simp add: initialize_alice_session_def gen 1 2 3 4 d c Let_def)
    show "initialize_bob_session C bp =
       set_sender_chain (new_session_structure (ikp_identity_key (bp_our_identity_key_pair bp))
         (bp_their_identity_key bp) (rk_key rk0)) (bp_our_ratchet_key_pair bp) ck0"
      by (simp add: initialize_bob_session_def bob d Let_def)
  qed
qed


section \<open>Reading a fresh session\<close>

lemma ChainKey_new_structure [simp]:
  "ChainKey_wf ck \<Longrightarrow> ck_kdf ck = kdf \<Longrightarrow>
     ChainKey_new kdf (cck_key (chain_key_structure ck)) (cck_index (chain_key_structure ck)) = Ok ck"
  by (simp add: ChainKey_new_def chain_key_structure_def ChainKey_wf_def)

lemma set_sender_chain_receiver [simp]:
  "set_sender_chain s kp ck = Ok s' \<Longrightarrow> ss_receiver_chains s' = ss_receiver_chains s"
  by (auto simp: set_sender_chain_def)

lemma get_sender_chain_key_set:
  assumes "set_sender_chain s kp ck = Ok s'" "session_version s = Ok 3" "ChainKey_wf ck" "ck_kdf ck = kdf_v3"
  shows "get_sender_chain_key s' = Ok ck"
  using assms by (auto simp: set_sender_chain_def get_sender_chain_key_def session_version_def split: if_splits)

lemma sender_ratchet_key_set:
  assumes "set_sender_chain s kp ck = Ok s'" "PublicKey_wf (kp_public_key kp)" "PrivateKey_wf (kp_private_key kp)"
  shows "sender_ratchet_key s' = Ok (kp_public_key kp)" "sender_ratchet_private_key s' = Ok (kp_private_key kp)"
  using assms by (auto simp: set_sender_chain_def sender_ratchet_key_def sender_ratchet_private_key_def
      pubkey.deser_ser privkey.deser_ser)

lemma get_receiver_chain_key_eq:
  assumes "get_receiver_chain s eph = Ok (Some (c, i))" "ch_chain_key c = Some (chain_key_structure ck)"
    and "ChainKey_wf ck" "session_version s = Ok 3" "ck_kdf ck = kdf_v3"
  shows "get_receiver_chain_key s eph = Ok (Some ck)"
proof -
  have "length (cck_key (chain_key_structure ck)) = 32"
    using assms(3) by (simp add: chain_key_structure_def ChainKey_wf_def)
  with assms show ?thesis by (simp add: get_receiver_chain_key_def)
qed

lemma new_session_structure_simps [simp]:
  "session_version (new_session_structure l r k) = Ok 3"
  "ss_root_key (new_session_structure l r k) = k"
  "ss_receiver_chains (new_session_structure l r k) = []"
  "ss_local_identity_public (new_session_structure l r k) = IdentityKey_serialize l"
  "ss_remote_identity_public (new_session_structure l r k) = IdentityKey_serialize r"
  by (simp_all add: new_session_structure_def session_version_def CIPHERTEXT_MESSAGE_CURRENT_VERSION_def
      IdentityKey_serialize_def)

lemma get_receiver_chain_None [simp]: "ss_receiver_chains s = [] \<Longrightarrow> get_receiver_chain s eph = Ok None"
  by (simp add: get_receiver_chain_def)

lemma root_key_eq:
  assumes "length (ss_root_key s) = 32" "session_version s = Ok 3"
  shows "root_key s = Ok \<lparr>rk_kdf = kdf_v3, rk_key = ss_root_key s\<rparr>"
  using assms by (simp add: root_key_def RootKey_new_def)


lemma alice_session_keys:
  assumes "add_receiver_chain (new_session_structure l r (rk_key rk)) eph ck0 = Ok s1"
    and "set_sender_chain s1 kp ck = Ok s" "PublicKey_wf eph"
    and "length (rk_key rk) = 32" "rk_kdf rk = kdf_v3"
    and "ChainKey_wf ck0" "ck_kdf ck0 = kdf_v3" "ChainKey_wf ck" "ck_kdf ck = kdf_v3"
  shows "get_receiver_chain_key s eph = Ok (Some ck0)" "get_sender_chain_key s = Ok ck" "root_key s = Ok rk"
proof -
  obtain cs where s1: "s1 = (new_session_structure l r (rk_key rk))\<lparr>ss_receiver_chains := cs\<rparr>"
    using assms(1) by (auto simp: add_receiver_chain_def Let_def)
  obtain c where s: "s = s1\<lparr>ss_sender_chain := c\<rparr>"
    using assms(2) by (auto simp: set_sender_chain_def)
  obtain c i where "get_receiver_chain s1 eph = Ok (Some (c, i))" "ch_chain_key c = Some (chain_key_structure ck0)"
    using add_receiver_chain_lookup [OF assms(3) _ assms(1)] by auto
  moreover have "get_receiver_chain s eph = get_receiver_chain s1 eph"
    by (rule get_receiver_chain_cong) (simp add: s)
  ultimately show "get_receiver_chain_key s eph = Ok (Some ck0)"
    using assms by (intro get_receiver_chain_key_eq) (simp_all add: s s1)
  show "get_sender_chain_key s = Ok ck"
    using assms by (intro get_sender_chain_key_set [OF assms(2)]) (simp_all add: s1)
  show "root_key s = Ok rk"
    using assms by (subst root_key_eq) (simp_all add: s s1 session_version_def new_session_structure_def
        CIPHERTEXT_MESSAGE_CURRENT_VERSION_def)
qed

lemma add_receiver_chain_shape: "\<exists>cs. add_receiver_chain s eph ck = Ok (s\<lparr>ss_receiver_chains := cs\<rparr>)"
  by (simp add: add_receiver_chain_def Let_def) blast

lemma set_sender_chain_shape: "\<exists>c. set_sender_chain s kp ck = Ok (s\<lparr>ss_sender_chain := Some c\<rparr>)"
  by (simp add: set_sender_chain_def) blast

lemma fresh_session_ids:
  assumes "IdentityKey_wf l" "IdentityKey_wf r"
  shows "local_identity_key (new_session_structure l r k) = Ok l"
    "remote_identity_key (new_session_structure l r k) = Ok (Some r)"
proof -
  have "IdentityKey_serialize r \<noteq> []"
    by (simp add: IdentityKey_serialize_def PublicKey_serialize_eq)
  then show "local_identity_key (new_session_structure l r k) = Ok l"
    "remote_identity_key (new_session_structure l r k) = Ok (Some r)"
    using assms by (simp_all add: local_identity_key_def remote_identity_key_def idkey.deser_ser)
qed

text \<open>Everything that the two sessions of an X3DH exchange have in common.\<close>

lemma x3dh_sessions:
  assumes "hash_ok C" "dh_ok C" "x3dh_match C ap bp"
  obtains sa sb kp rng' rk0 rk ck0 ck where
    "initialize_alice_session C ap rng = (Ok sa, rng')" "initialize_bob_session C bp = Ok sb" "KeyPair_wf C kp"
    "RootKey_create_chain C rk0 (kp_public_key (bp_our_ratchet_key_pair bp)) (kp_private_key kp) = Ok (rk, ck)"
    "root_key sa = Ok rk" "get_sender_chain_key sa = Ok ck"
    "get_receiver_chain_key sa (kp_public_key (bp_our_ratchet_key_pair bp)) = Ok (Some ck0)"
    "sender_ratchet_key sa = Ok (kp_public_key kp)" "sender_ratchet_private_key sa = Ok (kp_private_key kp)"
    "session_version sa = Ok 3" "local_identity_key sa = Ok (bp_their_identity_key bp)"
    "remote_identity_key sa = Ok (Some (ap_their_identity_key ap))"
    "root_key sb = Ok rk0" "get_sender_chain_key sb = Ok ck0" "ss_receiver_chains sb = []"
    "sender_ratchet_private_key sb = Ok (kp_private_key (bp_our_ratchet_key_pair bp))"
    "session_version sb = Ok 3" "local_identity_key sb = Ok (ap_their_identity_key ap)"
    "remote_identity_key sb = Ok (Some (bp_their_identity_key bp))"
proof -
  obtain kp rng' where gen: "KeyPair_generate C rng = (kp, rng')" by fastforce
  have kp: "KeyPair_wf C kp" using KeyPair_generate_wf [OF assms(2), of rng] by (simp add: gen)
  let ?b = "bp_our_ratchet_key_pair bp"
  have b: "KeyPair_wf C ?b" "ap_their_ratchet_key ap = kp_public_key ?b"
    and ids: "ikp_identity_key (ap_our_identity_key_pair ap) = bp_their_identity_key bp"
      "ikp_identity_key (bp_our_identity_key_pair bp) = ap_their_identity_key ap"
    and idwf: "IdentityKey_wf (bp_their_identity_key bp)" "IdentityKey_wf (ap_their_identity_key ap)"
    using assms(3) IdentityKeyPair_wf_public [OF assms(2)] by (simp_all add: x3dh_match_def)
  obtain rk0 ck0 rk ck where c: "RootKey_create_chain C rk0 (ap_their_ratchet_key ap) (kp_private_key kp) = Ok (rk, ck)"
    and rk0: "length (rk_key rk0) = 32" "rk_kdf rk0 = kdf_v3"
    and ck0: "ChainKey_wf ck0" "ck_index ck0 = 0" "ck_kdf ck0 = kdf_v3"
    and alice: "initialize_alice_session C ap rng =
       (rbind (add_receiver_chain (new_session_structure (bp_their_identity_key bp)
           (ap_their_identity_key ap) (rk_key rk)) (ap_their_ratchet_key ap) ck0)
         (\<lambda>s. set_sender_chain s kp ck), rng')"
    and bob: "initialize_bob_session C bp =
       set_sender_chain (new_session_structure (ap_their_identity_key ap)
         (bp_their_identity_key bp) (rk_key rk0)) ?b ck0"
    using initialize_sessions [OF assms gen] unfolding ids .
  have rk: "length (rk_key rk) = 32" "rk_kdf rk = kdf_v3" "ChainKey_wf ck" "ck_kdf ck = kdf_v3"
    using RootKey_create_chain_Ok [OF assms(1), of rk0 "ap_their_ratchet_key ap" "kp_private_key kp"] c rk0
    by auto
  let ?na = "new_session_structure (bp_their_identity_key bp) (ap_their_identity_key ap) (rk_key rk)"
  let ?nb = "new_session_structure (ap_their_identity_key ap) (bp_their_identity_key bp) (rk_key rk0)"
  obtain s1 cs where s1: "add_receiver_chain ?na (ap_their_ratchet_key ap) ck0 = Ok s1" "s1 = ?na\<lparr>ss_receiver_chains := cs\<rparr>"
    using add_receiver_chain_shape by blast
  obtain sa sc where sa: "set_sender_chain s1 kp ck = Ok sa" "sa = s1\<lparr>ss_sender_chain := Some sc\<rparr>"
    using set_sender_chain_shape by blast
  obtain sb sc' where sb: "initialize_bob_session C bp = Ok sb" "sb = ?nb\<lparr>ss_sender_chain := Some sc'\<rparr>"
    unfolding bob using set_sender_chain_shape by blast
  have wf: "PublicKey_wf (ap_their_ratchet_key ap)" "PublicKey_wf (kp_public_key kp)" "PrivateKey_wf (kp_private_key kp)"
    "PublicKey_wf (kp_public_key ?b)" "PrivateKey_wf (kp_private_key ?b)"
    using KeyPair_wf_public [OF assms(2)] kp b by (simp_all add: KeyPair_wf_def)
  note set_b = sb(1) [unfolded bob]
  have keys_b: "root_key sb = Ok rk0" "get_sender_chain_key sb = Ok ck0"
    using rk0 get_sender_chain_key_set [OF set_b _ ck0(1,3)] by (simp_all add: sb(2) root_key_eq)
  note keys_a = alice_session_keys [OF s1(1) sa(1) wf(1) rk(1,2) ck0(1,3) rk(3,4)]
  note pair_a = sender_ratchet_key_set [OF sa(1) wf(2,3)] and pair_b = sender_ratchet_key_set [OF set_b wf(4,5)]
  show thesis
  proof (rule that [OF _ sb(1) kp _ keys_a(3,2) _ pair_a _ _ _ keys_b _ pair_b(2)])
    show "initialize_alice_session C ap rng = (Ok sa, rng')" using alice s1(1) sa(1) by simp
    show "RootKey_create_chain C rk0 (kp_public_key ?b) (kp_private_key kp) = Ok (rk, ck)"
      using c b(2) by simp
    show "get_receiver_chain_key sa (kp_public_key ?b) = Ok (Some ck0)" using keys_a(1) b(2) by simp
  qed (simp_all add: sa(2) s1(2) sb(2) fresh_session_ids idwf)
qed

lemma RootKey_create_chain_commute:
  assumes "dh_ok C" "KeyPair_wf C a" "KeyPair_wf C b"
  shows "RootKey_create_chain C rk (kp_public_key a) (kp_private_key b) =
    RootKey_create_chain C rk (kp_public_key b) (kp_private_key a)"
  using calculate_agreement_commute [OF assms(1), of "kp_private_key b" "kp_public_key b" "kp_private_key a"
      "kp_public_key a"] assms(2,3)
  by (simp add: RootKey_create_chain_def KeyPair_wf_def)

text \<open>Exactly one side of two distinct keys is Alice.\<close>

lemma are_we_alice_exclusive:
  assumes "a \<noteq> b"
  shows "are_we_alice a b \<longleftrightarrow> \<not> are_we_alice b a"
proof -
  have "slice_cmp (PublicKey_serialize a) (PublicKey_serialize b) \<noteq> Equal"
    using assms by (simp add: slice_cmp_Equal PublicKey_serialize_eq PublicKey_key_data_inject)
  then show ?thesis
    unfolding are_we_alice_def by (metis Ordering.exhaust Ordering.distinct(3) slice_cmp_flip)
qed

section \<open>Properties\<close>

text \<open>
  C14. X3DH agreement: when both sides start a session from matching keys, with or without
  a one-time pre-key, Alice's receiving chain is Bob's sending chain, and the first
  Diffie-Hellman ratchet step that Bob computes from Alice's ratchet key gives exactly
  Alice's root key and sending chain. Neither side fails.
\<close>

theorem x3dh_agreement:
  assumes "hash_ok C" "dh_ok C" "x3dh_match C ap bp"
  shows "\<exists>sa rng' sb ck0 ck rk eph.
     initialize_alice_session C ap rng = (Ok sa, rng') \<and> initialize_bob_session C bp = Ok sb \<and>
     get_receiver_chain_key sa (kp_public_key (bp_our_ratchet_key_pair bp)) = Ok (Some ck0) \<and>
     get_sender_chain_key sb = Ok ck0 \<and>
     sender_ratchet_key sa = Ok eph \<and> root_key sa = Ok rk \<and> get_sender_chain_key sa = Ok ck \<and>
     rbind (root_key sb) (\<lambda>r. RootKey_create_chain C r eph
        (kp_private_key (bp_our_ratchet_key_pair bp))) = Ok (rk, ck)"
proof -
  have b: "KeyPair_wf C (bp_our_ratchet_key_pair bp)" using assms(3) by (simp add: x3dh_match_def)
  show ?thesis
    by (rule x3dh_sessions [OF assms, of rng], intro exI conjI, assumption+)
       (simp add: RootKey_create_chain_commute [OF assms(2) _ b])
qed

definition ref_pair :: "u8 \<Rightarrow> KeyPair" where
  "ref_pair b = \<lparr>kp_public_key = ref_key b, kp_private_key = PrivateKey (DjbPrivateKey (replicate 32 b))\<rparr>"

definition ref_alice :: AliceSignalProtocolParameters where
  "ref_alice = \<lparr>ap_our_identity_key_pair = IdentityKeyPair_from (ref_pair 1),
     ap_our_base_key_pair = ref_pair 2,
     ap_their_identity_key = IdentityKey (ref_key 3), ap_their_signed_pre_key = ref_key 4,
     ap_their_one_time_pre_key = Some (ref_key 5), ap_their_ratchet_key = ref_key 4\<rparr>"

definition ref_bob :: BobSignalProtocolParameters where
  "ref_bob = \<lparr>bp_our_identity_key_pair = IdentityKeyPair_from (ref_pair 3),
     bp_our_signed_pre_key_pair = ref_pair 4, bp_our_one_time_pre_key_pair = Some (ref_pair 5),
     bp_our_ratchet_key_pair = ref_pair 4,
     bp_their_identity_key = IdentityKey (ref_key 1), bp_their_base_key = ref_key 2\<rparr>"

lemma ref_pair_wf [simp]: "KeyPair_wf ref_crypto (ref_pair b)"
  "IdentityKeyPair_wf ref_crypto (IdentityKeyPair_from (ref_pair b))"
  by (simp_all add: KeyPair_wf_def IdentityKeyPair_wf_def IdentityKeyPair_from_def ref_pair_def ref_key_def
      PrivateKey_wf_def derive_public_key_def ref_crypto_def)

lemma ref_pair_simps [simp]:
  "kp_public_key (ref_pair b) = ref_key b"
  "ikp_identity_key (IdentityKeyPair_from (ref_pair b)) = IdentityKey (ref_key b)"
  by (simp_all add: ref_pair_def IdentityKeyPair_from_def)

lemma ref_x3dh_match [simp]: "x3dh_match ref_crypto ref_alice ref_bob"
  by (simp add: x3dh_match_def ref_alice_def ref_bob_def)

theorem x3dh_agreement_witness:
  "\<exists>sa rng' sb ck0. initialize_alice_session ref_crypto ref_alice 0 = (Ok sa, rng') \<and>
     initialize_bob_session ref_crypto ref_bob = Ok sb \<and>
     get_receiver_chain_key sa (ref_key 4) = Ok (Some ck0) \<and> get_sender_chain_key sb = Ok ck0"
  using x3dh_agreement [OF ref_hash_ok ref_dh_ok ref_x3dh_match, of 0]
  by (simp add: ref_bob_def) blast

end
