(* ===== verification/Messages.thy ===== *)
theory Messages
  imports Ratchet
begin

text \<open>
  Model of \<open>rust/protocol/src/protocol.rs\<close>: the four messages, how they are built and
  authenticated, and how they are read back from bytes. A message keeps the bytes it was
  made from or parsed from in its field \<open>serialized\<close>, over which the MAC or the signature is
  checked. The lemmas are the round trips of the four messages, the exactness of MAC
  verification, and that no input makes a parser panic.
\<close>

section \<open>Message types\<close>

record SignalMessage =
  sm_message_version :: u8
  sm_sender_ratchet_key :: PublicKey
  sm_counter :: u32
  sm_previous_counter :: u32
  sm_ciphertext :: bytes
  sm_serialized :: bytes

record PreKeySignalMessage =
  pm_message_version :: u8
  pm_registration_id :: u32
  pm_pre_key_id :: "u32 option"
  pm_signed_pre_key_id :: u32
  pm_base_key :: PublicKey
  pm_identity_key :: IdentityKey
  pm_message :: SignalMessage
  pm_serialized :: bytes

record SenderKeyMessage =
  skm_message_version :: u8
  skm_key_id :: u32
  skm_iteration :: u32
  skm_ciphertext :: bytes
  skm_serialized :: bytes

record SenderKeyDistributionMessage =
  skdm_message_version :: u8
  skdm_id :: u32
  skdm_iteration :: u32
  skdm_chain_key :: bytes
  skdm_signing_key :: PublicKey
  skdm_serialized :: bytes

datatype CiphertextMessage =
    CM_SignalMessage SignalMessage
  | CM_PreKeySignalMessage PreKeySignalMessage
  | CM_SenderKeyMessage SenderKeyMessage
  | CM_SenderKeyDistributionMessage SenderKeyDistributionMessage

datatype CiphertextMessageType = Whisper | PreKey | SenderKey | SenderKeyDistribution

fun CiphertextMessageType_value :: "CiphertextMessageType \<Rightarrow> u8" where
  "CiphertextMessageType_value Whisper = 2"
| "CiphertextMessageType_value PreKey = 3"
| "CiphertextMessageType_value SenderKey = 4"
| "CiphertextMessageType_value SenderKeyDistribution = 5"

fun message_type :: "CiphertextMessage \<Rightarrow> CiphertextMessageType" where
  "message_type (CM_SignalMessage _) = Whisper"
| "message_type (CM_PreKeySignalMessage _) = PreKey"
| "message_type (CM_SenderKeyMessage _) = SenderKey"
| "message_type (CM_SenderKeyDistributionMessage _) = SenderKeyDistribution"

fun CiphertextMessage_serialize :: "CiphertextMessage \<Rightarrow> bytes" where
  "CiphertextMessage_serialize (CM_SignalMessage x) = sm_serialized x"
| "CiphertextMessage_serialize (CM_PreKeySignalMessage x) = pm_serialized x"
| "CiphertextMessage_serialize (CM_SenderKeyMessage x) = skm_serialized x"
| "CiphertextMessage_serialize (CM_SenderKeyDistributionMessage x) = skdm_serialized x"

section \<open>The version byte\<close>

definition version_byte :: "u8 \<Rightarrow> u8" where
  "version_byte message_version =
     (push_bit 4 (message_version AND 0xF)) OR CIPHERTEXT_MESSAGE_CURRENT_VERSION"

text \<open>The test that every parser makes on a nibble of the first byte.\<close>

definition check_version :: "u8 \<Rightarrow> unit sresult" where
  "check_version v =
     (if v < CIPHERTEXT_MESSAGE_CURRENT_VERSION then Err (LegacyCiphertextVersion v)
      else if v > CIPHERTEXT_MESSAGE_CURRENT_VERSION then Err (UnrecognizedCiphertextVersion v)
      else Ok ())"

section \<open>Signal messages\<close>

definition MAC_LENGTH :: nat where "MAC_LENGTH = 8"

definition SignalMessage_compute_mac ::
    "('sc, 'pt, 'r) crypto \<Rightarrow> IdentityKey \<Rightarrow> IdentityKey \<Rightarrow> bytes \<Rightarrow> bytes \<Rightarrow> bytes sresult" where
  "SignalMessage_compute_mac C sender_identity_key receiver_identity_key mac_key message =
     (if length mac_key \<noteq> 32 then Err (InvalidMacKeyLength (length mac_key))
      else slice (Hmac_Sha256 C mac_key
             (PublicKey_serialize (ik_public_key sender_identity_key) @
              PublicKey_serialize (ik_public_key receiver_identity_key) @ message)) 0 MAC_LENGTH)"

definition SignalMessage_new ::
    "('sc, 'pt, 'r) crypto \<Rightarrow> wire_SignalMessage prost \<Rightarrow> u8 \<Rightarrow> bytes \<Rightarrow> PublicKey \<Rightarrow> u32 \<Rightarrow> u32 \<Rightarrow> bytes
       \<Rightarrow> IdentityKey \<Rightarrow> IdentityKey \<Rightarrow> SignalMessage sresult" where
  "SignalMessage_new C P message_version mac_key sender_ratchet counter prev_counter ciphertext
       sender_identity_key receiver_identity_key =
     (let message = \<lparr>w_ratchet_key = Some (PublicKey_serialize sender_ratchet),
                     w_counter = Some counter, w_previous_counter = Some prev_counter,
                     w_ciphertext = Some ciphertext\<rparr>;
          serialized = version_byte message_version # pb_encode P message
      in rbind (SignalMessage_compute_mac C sender_identity_key receiver_identity_key mac_key serialized) (\<lambda>mac.
         Ok \<lparr>sm_message_version = message_version, sm_sender_ratchet_key = sender_ratchet,
             sm_counter = counter, sm_previous_counter = prev_counter,
             sm_ciphertext = ciphertext, sm_serialized = serialized @ mac\<rparr>))"

definition SignalMessage_verify_mac ::
    "('sc, 'pt, 'r) crypto \<Rightarrow> SignalMessage \<Rightarrow> IdentityKey \<Rightarrow> IdentityKey \<Rightarrow> bytes \<Rightarrow> bool sresult" where
  "SignalMessage_verify_mac C self sender_identity_key receiver_identity_key mac_key =
     (if length (sm_serialized self) < MAC_LENGTH then Panic
      else let n = length (sm_serialized self) - MAC_LENGTH
           in rbind (SignalMessage_compute_mac C sender_identity_key receiver_identity_key mac_key
                       (take n (sm_serialized self))) (\<lambda>our_mac.
              Ok (ct_eq our_mac (drop n (sm_serialized self)))))"

definition SignalMessage_try_from :: "wire_SignalMessage prost \<Rightarrow> bytes \<Rightarrow> SignalMessage sresult" where
  "SignalMessage_try_from P value =
     (if length value < MAC_LENGTH + 1 then Err (CiphertextMessageTooShort (length value))
      else
        rbind (index_at value 0) (\<lambda>value0.
        let message_version = drop_bit 4 value0;
            ciphertext_version = value0 AND 0x0F
        in rbind (check_version ciphertext_version) (\<lambda>_.
           rbind (usize_sub (length value) MAC_LENGTH) (\<lambda>body_end.
           rbind (slice_range value 1 body_end) (\<lambda>body.
           rbind (prost_decode P body) (\<lambda>proto_structure.
           rbind (ok_or (w_ratchet_key proto_structure) InvalidProtobufEncoding) (\<lambda>sender_ratchet_key.
           rbind (decode_point sender_ratchet_key) (\<lambda>sender_ratchet_key.
           rbind (ok_or (w_counter proto_structure) InvalidProtobufEncoding) (\<lambda>counter.
           let previous_counter = (case w_previous_counter proto_structure of None \<Rightarrow> 0 | Some n \<Rightarrow> n)
           in rbind (ok_or (w_ciphertext proto_structure) InvalidProtobufEncoding) (\<lambda>ciphertext.
              Ok \<lparr>sm_message_version = message_version, sm_sender_ratchet_key = sender_ratchet_key,
                  sm_counter = counter, sm_previous_counter = previous_counter,
                  sm_ciphertext = ciphertext, sm_serialized = value\<rparr>))))))))))"

section \<open>Pre-key messages\<close>

definition PreKeySignalMessage_new ::
    "wire_PreKeySignalMessage prost \<Rightarrow> u8 \<Rightarrow> u32 \<Rightarrow> u32 option \<Rightarrow> u32 \<Rightarrow> PublicKey \<Rightarrow> IdentityKey
       \<Rightarrow> SignalMessage \<Rightarrow> PreKeySignalMessage sresult" where
  "PreKeySignalMessage_new P message_version registration_id pre_key_id signed_pre_key_id base_key
       identity_key message =
     (let proto_message = \<lparr>w_registration_id = Some registration_id, w_pre_key_id = pre_key_id,
                           w_signed_pre_key_id = Some signed_pre_key_id,
                           w_base_key = Some (PublicKey_serialize base_key),
                           w_identity_key = Some (IdentityKey_serialize identity_key),
                           w_message = Some (sm_serialized message)\<rparr>
      in Ok \<lparr>pm_message_version = message_version, pm_registration_id = registration_id,
             pm_pre_key_id = pre_key_id, pm_signed_pre_key_id = signed_pre_key_id,
             pm_base_key = base_key, pm_identity_key = identity_key, pm_message = message,
             pm_serialized = version_byte message_version # pb_encode P proto_message\<rparr>)"

definition PreKeySignalMessage_try_from ::
    "wire_SignalMessage prost \<Rightarrow> wire_PreKeySignalMessage prost \<Rightarrow> bytes \<Rightarrow> PreKeySignalMessage sresult" where
  "PreKeySignalMessage_try_from PS P value =
     (if value = [] then Err (CiphertextMessageTooShort (length value))
      else
        rbind (index_at value 0) (\<lambda>value0.
        let message_version = drop_bit 4 value0;
            ciphertext_version = value0 AND 0x0F
        in rbind (check_version ciphertext_version) (\<lambda>_.
           rbind (slice_from value 1) (\<lambda>body.
           rbind (prost_decode P body) (\<lambda>proto_structure.
           if w_signed_pre_key_id proto_structure = None \<or> w_base_key proto_structure = None \<or>
              w_identity_key proto_structure = None \<or> w_message proto_structure = None
           then Err InvalidProtobufEncoding
           else
             rbind (unwrap (w_base_key proto_structure)) (\<lambda>base_key.
             rbind (decode_point base_key) (\<lambda>base_key.
             rbind (unwrap (w_signed_pre_key_id proto_structure)) (\<lambda>signed_pre_key_id.
             rbind (unwrap (w_identity_key proto_structure)) (\<lambda>identity_key.
             rbind (IdentityKey_decode identity_key) (\<lambda>identity_key.
             rbind (unwrap (w_message proto_structure)) (\<lambda>message.
             rbind (SignalMessage_try_from PS message) (\<lambda>message.
             Ok \<lparr>pm_message_version = message_version,
                 pm_registration_id = (case w_registration_id proto_structure of None \<Rightarrow> 0 | Some n \<Rightarrow> n),
                 pm_pre_key_id = w_pre_key_id proto_structure, pm_signed_pre_key_id = signed_pre_key_id,
                 pm_base_key = base_key, pm_identity_key = identity_key, pm_message = message,
                 pm_serialized = value\<rparr>))))))))))))"

section \<open>Sender key messages\<close>

definition SIGNATURE_LEN :: nat where "SIGNATURE_LEN = 64"

text \<open>\<open>copy_from_slice\<close> panics on a length mismatch.\<close>

definition copy_from_slice :: "nat \<Rightarrow> bytes \<Rightarrow> bytes sresult" where
  "copy_from_slice n src = (if length src = n then Ok src else Panic)"

definition SenderKeyMessage_new ::
    "('sc, 'pt, 'r) crypto \<Rightarrow> wire_SenderKeyMessage prost \<Rightarrow> u32 \<Rightarrow> u32 \<Rightarrow> bytes \<Rightarrow> PrivateKey
       \<Rightarrow> ('r, SenderKeyMessage) sst" where
  "SenderKeyMessage_new C P key_id iteration ciphertext signature_key =
     (let proto_message = \<lparr>w_skm_id = Some key_id, w_skm_iteration = Some iteration,
                           w_skm_ciphertext = Some ciphertext\<rparr>;
          serialized = version_byte CIPHERTEXT_MESSAGE_CURRENT_VERSION # pb_encode P proto_message
      in sbind (calculate_signature C signature_key serialized) (\<lambda>signature.
         slift (rbind (copy_from_slice SIGNATURE_LEN signature) (\<lambda>signature.
           Ok \<lparr>skm_message_version = CIPHERTEXT_MESSAGE_CURRENT_VERSION, skm_key_id = key_id,
               skm_iteration = iteration, skm_ciphertext = ciphertext,
               skm_serialized = serialized @ signature\<rparr>))))"

definition SenderKeyMessage_verify_signature ::
    "('sc, 'pt, 'r) crypto \<Rightarrow> SenderKeyMessage \<Rightarrow> PublicKey \<Rightarrow> bool sresult" where
  "SenderKeyMessage_verify_signature C self signature_key =
     (if length (skm_serialized self) < SIGNATURE_LEN then Panic
      else let n = length (skm_serialized self) - SIGNATURE_LEN
           in verify_signature C signature_key (take n (skm_serialized self)) (drop n (skm_serialized self)))"

definition SenderKeyMessage_try_from :: "wire_SenderKeyMessage prost \<Rightarrow> bytes \<Rightarrow> SenderKeyMessage sresult" where
  "SenderKeyMessage_try_from P value =
     (if length value < 1 + SIGNATURE_LEN then Err (CiphertextMessageTooShort (length value))
      else
        rbind (index_at value 0) (\<lambda>value0.
        let message_version = drop_bit 4 value0;
            ciphertext_version = value0 AND 0x0F
        in rbind (check_version ciphertext_version) (\<lambda>_.
           rbind (usize_sub (length value) SIGNATURE_LEN) (\<lambda>body_end.
           rbind (slice_range value 1 body_end) (\<lambda>body.
           rbind (prost_decode P body) (\<lambda>proto_structure.
           rbind (ok_or (w_skm_id proto_structure) InvalidProtobufEncoding) (\<lambda>key_id.
           rbind (ok_or (w_skm_iteration proto_structure) InvalidProtobufEncoding) (\<lambda>iteration.
           rbind (ok_or (w_skm_ciphertext proto_structure) InvalidProtobufEncoding) (\<lambda>ciphertext.
           Ok \<lparr>skm_message_version = message_version, skm_key_id = key_id, skm_iteration = iteration,
               skm_ciphertext = ciphertext, skm_serialized = value\<rparr>)))))))))"

section \<open>Sender key distribution messages\<close>

definition SenderKeyDistributionMessage_new ::
    "wire_SenderKeyDistributionMessage prost \<Rightarrow> u32 \<Rightarrow> u32 \<Rightarrow> bytes \<Rightarrow> PublicKey
       \<Rightarrow> SenderKeyDistributionMessage sresult" where
  "SenderKeyDistributionMessage_new P id' iteration chain_key signing_key =
     (let proto_message = \<lparr>w_skdm_id = Some id', w_skdm_iteration = Some iteration,
                           w_skdm_chain_key = Some chain_key,
                           w_skdm_signing_key = Some (PublicKey_serialize signing_key)\<rparr>;
          message_version = CIPHERTEXT_MESSAGE_CURRENT_VERSION
      in Ok \<lparr>skdm_message_version = message_version, skdm_id = id', skdm_iteration = iteration,
             skdm_chain_key = chain_key, skdm_signing_key = signing_key,
             skdm_serialized = version_byte message_version # pb_encode P proto_message\<rparr>)"

definition SenderKeyDistributionMessage_try_from ::
    "wire_SenderKeyDistributionMessage prost \<Rightarrow> bytes \<Rightarrow> SenderKeyDistributionMessage sresult" where
  "SenderKeyDistributionMessage_try_from P value =
     (if length value < 1 + 32 + 32 then Err (CiphertextMessageTooShort (length value))
      else
        rbind (index_at value 0) (\<lambda>value0.
        let message_version = drop_bit 4 value0
        in rbind (check_version message_version) (\<lambda>_.
           rbind (slice_from value 1) (\<lambda>body.
           rbind (prost_decode P body) (\<lambda>proto_structure.
           rbind (ok_or (w_skdm_id proto_structure) InvalidProtobufEncoding) (\<lambda>id'.
           rbind (ok_or (w_skdm_iteration proto_structure) InvalidProtobufEncoding) (\<lambda>iteration.
           rbind (ok_or (w_skdm_chain_key proto_structure) InvalidProtobufEncoding) (\<lambda>chain_key.
           rbind (ok_or (w_skdm_signing_key proto_structure) InvalidProtobufEncoding) (\<lambda>signing_key.
           if length chain_key \<noteq> 32 \<or> length signing_key \<noteq> 33 then Err InvalidProtobufEncoding
           else rbind (PublicKey_deserialize signing_key) (\<lambda>signing_key.
                Ok \<lparr>skdm_message_version = message_version, skdm_id = id', skdm_iteration = iteration,
                    skdm_chain_key = chain_key, skdm_signing_key = signing_key,
                    skdm_serialized = value\<rparr>))))))))))"


section \<open>Building blocks of the round trips\<close>

lemma version_byte_nibbles:
  assumes "v < 16"
  shows "drop_bit 4 (version_byte v) = v" "version_byte v AND 0x0F = 3"
proof -
  have "unat v < 16" using assms by (simp add: word_less_nat_alt)
  then have "unat (take_bit 4 v) = unat v" by (simp add: unsigned_take_bit_eq take_bit_nat_eq_self)
  then have "take_bit 4 v = v" by (simp add: word_unat_eq_iff)
  then have top: "\<not> bit v n" if "4 \<le> n" for n using that by (metis bit_take_bit_iff leD)
  show "drop_bit 4 (version_byte v) = v"
    by (rule byte_bits_eqI, drule less_8_cases, elim disjE)
       (simp_all add: version_byte_def CIPHERTEXT_MESSAGE_CURRENT_VERSION_def bit_and_iff bit_or_iff
         bit_push_bit_iff bit_drop_bit_eq top)
  show "version_byte v AND 0x0F = 3"
    by (rule byte_bits_eqI, drule less_8_cases, elim disjE)
       (simp_all add: version_byte_def CIPHERTEXT_MESSAGE_CURRENT_VERSION_def bit_and_iff bit_or_iff bit_push_bit_iff)
qed


lemma check_version_3 [simp]: "check_version 3 = Ok ()"
  by (simp add: check_version_def CIPHERTEXT_MESSAGE_CURRENT_VERSION_def)

lemma check_version_not_Panic [simp]: "check_version v \<noteq> Panic"
  by (simp add: check_version_def)

lemma version_byte_current [simp]:
  "drop_bit 4 (version_byte CIPHERTEXT_MESSAGE_CURRENT_VERSION) = 3"
  "version_byte CIPHERTEXT_MESSAGE_CURRENT_VERSION AND 0x0F = 3"
  using version_byte_nibbles [of 3] by (simp_all add: CIPHERTEXT_MESSAGE_CURRENT_VERSION_def)

lemma compute_mac_Ok_iff:
  assumes "hash_ok C"
  shows "SignalMessage_compute_mac C s r key m = Ok mac \<longleftrightarrow> length key = 32 \<and>
    mac = take 8 (Hmac_Sha256 C key (IdentityKey_serialize s @ IdentityKey_serialize r @ m))"
  using assms by (auto simp: SignalMessage_compute_mac_def slice_def len_simps MAC_LENGTH_def
      IdentityKey_serialize_def)

lemma compute_mac_length: "SignalMessage_compute_mac C s r key m = Ok mac \<Longrightarrow> length mac = 8"
  by (auto simp: SignalMessage_compute_mac_def result_simps MAC_LENGTH_def split: if_splits)

lemma compute_mac_total:
  assumes "hash_ok C" "length key = 32"
  shows "SignalMessage_compute_mac C s r key m =
    Ok (take 8 (Hmac_Sha256 C key (IdentityKey_serialize s @ IdentityKey_serialize r @ m)))"
  using compute_mac_Ok_iff [OF assms(1)] assms(2) by blast

lemma SignalMessage_new_Ok:
  assumes "SignalMessage_new C P v key eph n prev c s r = Ok m"
  shows "sm_message_version m = v" "sm_sender_ratchet_key m = eph" "sm_counter m = n"
    "sm_previous_counter m = prev" "sm_ciphertext m = c" "9 \<le> length (sm_serialized m)"
  using assms by (auto simp: SignalMessage_new_def Let_def result_simps dest: compute_mac_length)

lemma SignalMessage_new_total:
  assumes "hash_ok C" "length key = 32"
  shows "\<exists>m. SignalMessage_new C P v key eph n prev c s r = Ok m"
  by (simp add: SignalMessage_new_def Let_def compute_mac_total [OF assms])

lemma SignalMessage_verify_own_mac:
  assumes "SignalMessage_new C P v key eph n prev c s r = Ok m"
  shows "SignalMessage_verify_mac C m s r key = Ok True"
proof -
  obtain body mac where mac: "SignalMessage_compute_mac C s r key body = Ok mac"
    and "sm_serialized m = body @ mac"
    using assms by (auto simp: SignalMessage_new_def Let_def result_simps)
  with compute_mac_length [OF mac] show ?thesis
    by (simp add: SignalMessage_verify_mac_def MAC_LENGTH_def)
qed

lemma SignalMessage_parse_new:
  assumes "prost_ok P" "v < 16" "PublicKey_wf eph"
    and "SignalMessage_new C P v key eph n prev c s r = Ok m"
  shows "SignalMessage_try_from P (sm_serialized m) = Ok m"
proof -
  define body where "body = pb_encode P \<lparr>w_ratchet_key = Some (PublicKey_serialize eph),
      w_counter = Some n, w_previous_counter = Some prev, w_ciphertext = Some c\<rparr>"
  obtain mac where mac: "length mac = 8"
    and m: "m = \<lparr>sm_message_version = v, sm_sender_ratchet_key = eph, sm_counter = n,
       sm_previous_counter = prev, sm_ciphertext = c, sm_serialized = (version_byte v # body) @ mac\<rparr>"
    using assms(4) by (auto simp: SignalMessage_new_def Let_def result_simps body_def
        dest: compute_mac_length)
  let ?bs = "(version_byte v # body) @ mac"
  have "usize_sub (length ?bs) MAC_LENGTH = (Ok (length ?bs - 8) :: nat sresult)"
    "slice_range ?bs 1 (length ?bs - 8) = (Ok body :: bytes sresult)"
    using mac by (simp_all add: MAC_LENGTH_def)
  moreover have "\<not> length ((version_byte v # body) @ mac) < MAC_LENGTH + 1"
    using mac by (simp add: MAC_LENGTH_def)
  moreover have "prost_decode P body = Ok \<lparr>w_ratchet_key = Some (PublicKey_serialize eph),
      w_counter = Some n, w_previous_counter = Some prev, w_ciphertext = Some c\<rparr>"
    using assms(1) by (simp add: body_def)
  ultimately show ?thesis
    using assms(2,3) version_byte_nibbles [OF assms(2)]
    by (simp add: SignalMessage_try_from_def Let_def m pubkey.deser_ser)
qed

lemma SenderKeyMessage_new_verifies:
  assumes "prost_ok P" "xeddsa_ok C" "PrivateKey_public_key C priv = Ok pub"
  obtains m rng' where "SenderKeyMessage_new C P key_id iteration body priv rng = (Ok m, rng')"
    "SenderKeyMessage_try_from P (skm_serialized m) = Ok m"
    "SenderKeyMessage_verify_signature C m pub = Ok True"
    "skm_key_id m = key_id" "skm_iteration m = iteration" "skm_ciphertext m = body"
proof -
  define pm where "pm = \<lparr>w_skm_id = Some key_id, w_skm_iteration = Some iteration, w_skm_ciphertext = Some body\<rparr>"
  define ser where "ser = version_byte CIPHERTEXT_MESSAGE_CURRENT_VERSION # pb_encode P pm"
  obtain sig rng' where sig: "calculate_signature C priv ser rng = (Ok sig, rng')"
    and len: "length sig = 64" and ver: "verify_signature C pub ser sig = Ok True"
    using calculate_signature_verifies [OF assms(2,3)] .
  define m where "m = \<lparr>skm_message_version = CIPHERTEXT_MESSAGE_CURRENT_VERSION, skm_key_id = key_id,
      skm_iteration = iteration, skm_ciphertext = body, skm_serialized = ser @ sig\<rparr>"
  have body: "usize_sub (length (ser @ sig)) SIGNATURE_LEN = (Ok (length (ser @ sig) - 64) :: nat sresult)"
      "slice_range (ser @ sig) 1 (length (ser @ sig) - 64) = (Ok (pb_encode P pm) :: bytes sresult)"
    and long: "\<not> length (ser @ sig) < 1 + SIGNATURE_LEN"
    using len by (simp_all add: ser_def SIGNATURE_LEN_def)
  have b0: "index_at (ser @ sig) 0 = (Ok (version_byte CIPHERTEXT_MESSAGE_CURRENT_VERSION) :: u8 sresult)"
    by (simp add: ser_def)
  show thesis
  proof (rule that)
    show "SenderKeyMessage_new C P key_id iteration body priv rng = (Ok m, rng')"
      using sig len by (simp add: SenderKeyMessage_new_def Let_def pm_def ser_def copy_from_slice_def
          SIGNATURE_LEN_def m_def)
    show "SenderKeyMessage_try_from P (skm_serialized m) = Ok m"
      unfolding SenderKeyMessage_try_from_def Let_def
      using long body b0 assms(1)
      by (simp add: m_def pm_def CIPHERTEXT_MESSAGE_CURRENT_VERSION_def [symmetric])
         (simp add: CIPHERTEXT_MESSAGE_CURRENT_VERSION_def)
    show "SenderKeyMessage_verify_signature C m pub = Ok True"
      using len ver by (simp add: SenderKeyMessage_verify_signature_def Let_def m_def SIGNATURE_LEN_def)
  qed (simp_all add: m_def)
qed

text \<open>
  A protocol buffer carries its byte fields verbatim, so that the encoding of a
  distribution message is at least as long as the keys in it.
\<close>

definition skdm_encoding_ok :: "wire_SenderKeyDistributionMessage prost \<Rightarrow> bool" where
  "skdm_encoding_ok P \<longleftrightarrow> (\<forall>m chain_key signing_key.
     w_skdm_chain_key m = Some chain_key \<longrightarrow> w_skdm_signing_key m = Some signing_key \<longrightarrow>
     length chain_key + length signing_key \<le> length (pb_encode P m))"

lemma SenderKeyDistributionMessage_parse_new:
  assumes "prost_ok P" "skdm_encoding_ok P" "length chain_key = 32" "PublicKey_wf signing_key"
    and "SenderKeyDistributionMessage_new P id' iteration chain_key signing_key = Ok m"
  shows "SenderKeyDistributionMessage_try_from P (skdm_serialized m) = Ok m"
proof -
  define pm where "pm = \<lparr>w_skdm_id = Some id', w_skdm_iteration = Some iteration,
      w_skdm_chain_key = Some chain_key, w_skdm_signing_key = Some (PublicKey_serialize signing_key)\<rparr>"
  have m: "m = \<lparr>skdm_message_version = CIPHERTEXT_MESSAGE_CURRENT_VERSION, skdm_id = id',
      skdm_iteration = iteration, skdm_chain_key = chain_key, skdm_signing_key = signing_key,
      skdm_serialized = version_byte CIPHERTEXT_MESSAGE_CURRENT_VERSION # pb_encode P pm\<rparr>"
    using assms(5) by (simp add: SenderKeyDistributionMessage_new_def Let_def pm_def)
  have "32 + 33 \<le> length (pb_encode P pm)"
    using assms(2) [unfolded skdm_encoding_ok_def, rule_format, of pm chain_key "PublicKey_serialize signing_key"]
    by (simp add: pm_def assms(3) length_PublicKey_serialize [OF assms(4)])
  then show ?thesis
    using assms(1,3,4)
    by (simp add: SenderKeyDistributionMessage_try_from_def Let_def m pm_def len_simps pubkey.deser_ser)
       (simp add: CIPHERTEXT_MESSAGE_CURRENT_VERSION_def)
qed

lemma length_c_bytes: "length (fst (c_option c_bytes) (Some bs)) \<ge> length bs"
  by (induction bs) (simp_all add: c_option_def c_iso_def c_list_def c_byte_def)

lemma ref_skdm_encoding_ok: "skdm_encoding_ok (ref_prost c_wire_SenderKeyDistributionMessage)"
  unfolding skdm_encoding_ok_def
proof (intro allI impI)
  fix m :: wire_SenderKeyDistributionMessage and ck sk :: bytes
  assume "w_skdm_chain_key m = Some ck" "w_skdm_signing_key m = Some sk"
  then have "length (pb_encode (ref_prost c_wire_SenderKeyDistributionMessage) m) =
      length (fst (c_option c_word) (w_skdm_id m)) + length (fst (c_option c_word) (w_skdm_iteration m)) +
      length (fst (c_option c_bytes) (Some ck)) + length (fst (c_option c_bytes) (Some sk))"
    by (simp add: ref_prost_def c_wire_SenderKeyDistributionMessage_def fst_c_pair fst_c_iso)
  with length_c_bytes [of ck] length_c_bytes [of sk]
  show "length ck + length sk \<le> length (pb_encode (ref_prost c_wire_SenderKeyDistributionMessage) m)"
    by linarith
qed

lemma PreKeySignalMessage_parse_new:
  assumes "prost_ok PS" "prost_ok P" "version < 16" "PublicKey_wf base_key" "IdentityKey_wf identity"
    and "SignalMessage_try_from PS (sm_serialized inner) = Ok inner"
    and "PreKeySignalMessage_new P version reg_id pre_key_id signed_id base_key identity inner = Ok m"
  shows "PreKeySignalMessage_try_from PS P (pm_serialized m) = Ok m"
proof -
  define body where "body = pb_encode P \<lparr>w_registration_id = Some reg_id, w_pre_key_id = pre_key_id,
      w_signed_pre_key_id = Some signed_id, w_base_key = Some (PublicKey_serialize base_key),
      w_identity_key = Some (IdentityKey_serialize identity), w_message = Some (sm_serialized inner)\<rparr>"
  have m: "m = \<lparr>pm_message_version = version, pm_registration_id = reg_id, pm_pre_key_id = pre_key_id,
      pm_signed_pre_key_id = signed_id, pm_base_key = base_key, pm_identity_key = identity,
      pm_message = inner, pm_serialized = version_byte version # body\<rparr>"
    using assms(7) by (simp add: PreKeySignalMessage_new_def body_def)
  show ?thesis
    using assms version_byte_nibbles [OF assms(3)]
    by (simp add: PreKeySignalMessage_try_from_def Let_def m body_def pubkey.deser_ser idkey.deser_ser)
qed

section \<open>Parsers do not panic\<close>

lemma SignalMessage_try_from_not_Panic [simp]: "SignalMessage_try_from P bs \<noteq> Panic"
  by (auto simp: SignalMessage_try_from_def Let_def result_simps slice_def MAC_LENGTH_def
      pubkey.deser_total split: if_splits)

lemma SenderKeyMessage_try_from_not_Panic [simp]: "SenderKeyMessage_try_from P bs \<noteq> Panic"
  by (auto simp: SenderKeyMessage_try_from_def Let_def result_simps slice_def SIGNATURE_LEN_def split: if_splits)

lemma SenderKeyDistributionMessage_try_from_not_Panic [simp]:
  "SenderKeyDistributionMessage_try_from P bs \<noteq> Panic"
  by (auto simp: SenderKeyDistributionMessage_try_from_def Let_def result_simps pubkey.deser_total split: if_splits)

lemma PreKeySignalMessage_try_from_not_Panic [simp]: "PreKeySignalMessage_try_from PS P bs \<noteq> Panic"
  by (auto simp: PreKeySignalMessage_try_from_def Let_def result_simps pubkey.deser_total idkey.deser_total
      split: if_splits)

text \<open>Only the length test of a parser gives the error for a message that is too short.\<close>

lemma other_errors [simp]:
  "check_version v \<noteq> Err (CiphertextMessageTooShort n)" "prost_decode P bs \<noteq> Err (CiphertextMessageTooShort n)"
  "PublicKey_deserialize bs \<noteq> Err (CiphertextMessageTooShort n)"
  by (auto simp: check_version_def prost_decode_def PublicKey_deserialize_def KeyType_try_from_def result_simps
      split: if_splits KeyType.splits sum.splits)

lemma ok_or_eq_Err [result_simps]: "ok_or x e = Err e' \<longleftrightarrow> x = None \<and> e' = e"
  by (cases x) auto

lemma SignalMessage_too_short:
  "SignalMessage_try_from P bs = Err (CiphertextMessageTooShort n) \<longleftrightarrow> length bs < 9 \<and> n = length bs"
  by (auto simp: SignalMessage_try_from_def Let_def result_simps MAC_LENGTH_def)

lemma SenderKeyMessage_too_short:
  "SenderKeyMessage_try_from P bs = Err (CiphertextMessageTooShort n) \<longleftrightarrow> length bs < 65 \<and> n = length bs"
  by (auto simp: SenderKeyMessage_try_from_def Let_def result_simps SIGNATURE_LEN_def)

lemma SenderKeyDistributionMessage_too_short:
  "SenderKeyDistributionMessage_try_from P bs = Err (CiphertextMessageTooShort n) \<longleftrightarrow> length bs < 65 \<and> n = length bs"
  by (auto simp: SenderKeyDistributionMessage_try_from_def Let_def result_simps)

lemma PreKeySignalMessage_empty: "PreKeySignalMessage_try_from PS P [] = Err (CiphertextMessageTooShort 0)"
  by (simp add: PreKeySignalMessage_try_from_def)

lemmas too_short = SignalMessage_too_short SenderKeyMessage_too_short SenderKeyDistributionMessage_too_short
  PreKeySignalMessage_empty

lemma verify_mac_not_Panic [simp]:
  "hash_ok C \<Longrightarrow> SignalMessage_try_from P bs = Ok m \<Longrightarrow> SignalMessage_verify_mac C m s r key \<noteq> Panic"
  by (auto simp: SignalMessage_verify_mac_def SignalMessage_compute_mac_def SignalMessage_try_from_def
      Let_def result_simps slice_def len_simps MAC_LENGTH_def split: if_splits)

section \<open>Properties\<close>

text \<open>
  C28. A message that \<open>SignalMessage::new\<close> builds is read back unchanged from its bytes by
  \<open>try_from\<close>, and its MAC verifies under the keys it was built with.
\<close>

theorem SignalMessage_roundtrip:
  assumes "hash_ok C" "prost_ok P" "version < 16" "PublicKey_wf eph" "length mac_key = 32"
  shows "\<exists>m. SignalMessage_new C P version mac_key eph counter previous body sender receiver = Ok m \<and>
    SignalMessage_try_from P (sm_serialized m) = Ok m \<and>
    SignalMessage_verify_mac C m sender receiver mac_key = Ok True \<and>
    sm_counter m = counter \<and> sm_ciphertext m = body"
  using SignalMessage_new_total [OF assms(1,5), of P version eph counter previous body sender receiver]
    SignalMessage_parse_new [OF assms(2-4)] SignalMessage_verify_own_mac SignalMessage_new_Ok by metis

theorem SignalMessage_roundtrip_witness:
  "\<exists>m. SignalMessage_new ref_crypto (ref_prost c_wire_SignalMessage) 3 (replicate 32 9) (ref_key 7) 5 4 [1, 2]
        (IdentityKey (ref_key 1)) (IdentityKey (ref_key 2)) = Ok m \<and>
     SignalMessage_try_from (ref_prost c_wire_SignalMessage) (sm_serialized m) = Ok m"
  using SignalMessage_roundtrip [of ref_crypto "ref_prost c_wire_SignalMessage" 3 "ref_key 7" "replicate 32 9"
      5 4 "[1, 2]" "IdentityKey (ref_key 1)" "IdentityKey (ref_key 2)"]
  by (simp del: replicate.simps) blast

text \<open>
  C29. On a message that was parsed from bytes, MAC verification answers \<open>true\<close> exactly
  when the last 8 bytes are the first 8 bytes of the HMAC, under the MAC key, of the
  sender's and the receiver's identity keys and all the bytes before: changing any of
  them to bytes with another truncated HMAC is detected.
\<close>

theorem verify_mac_exact:
  assumes "hash_ok C" "SignalMessage_try_from P bs = Ok m" "length mac_key = 32"
  shows "SignalMessage_verify_mac C m sender receiver mac_key =
    Ok (drop (length bs - 8) bs =
        take 8 (Hmac_Sha256 C mac_key
          (IdentityKey_serialize sender @ IdentityKey_serialize receiver @ take (length bs - 8) bs)))"
proof -
  have "sm_serialized m = bs" "9 \<le> length bs"
    using assms(2) by (auto simp: SignalMessage_try_from_def Let_def result_simps MAC_LENGTH_def split: if_splits)
  then show ?thesis
    by (auto simp: SignalMessage_verify_mac_def Let_def MAC_LENGTH_def compute_mac_total [OF assms(1,3)])
qed

theorem verify_mac_exact_witness:
  "\<exists>m. SignalMessage_verify_mac ref_crypto m (IdentityKey (ref_key 1)) (IdentityKey (ref_key 2)) (replicate 32 9) =
     Ok (drop (length (sm_serialized m) - 8) (sm_serialized m) =
        take 8 (Hmac_Sha256 ref_crypto (replicate 32 9)
          (IdentityKey_serialize (IdentityKey (ref_key 1)) @ IdentityKey_serialize (IdentityKey (ref_key 2)) @
           take (length (sm_serialized m) - 8) (sm_serialized m))))"
proof -
  obtain m where "SignalMessage_new ref_crypto (ref_prost c_wire_SignalMessage) 3 (replicate 32 9) (ref_key 7)
      5 4 [1, 2] (IdentityKey (ref_key 1)) (IdentityKey (ref_key 2)) = Ok m"
    using SignalMessage_new_total [OF ref_hash_ok] by (metis length_replicate)
  then have "SignalMessage_try_from (ref_prost c_wire_SignalMessage) (sm_serialized m) = Ok m"
    by (intro SignalMessage_parse_new) simp_all
  from verify_mac_exact [OF ref_hash_ok this length_replicate] show ?thesis by blast
qed


text \<open>
  C30. No sequence of bytes makes any of the four wire parsers panic: every index, slice, difference of
  lengths and \<open>unwrap\<close> in them is covered by a test made before it, and they return a message or an
  error. The error for a message that is too short is given exactly below 9, 65 and 65 bytes, and for an
  empty pre-key message.
\<close>

theorem wire_parsers_never_panic:
  "SignalMessage_try_from PS bs \<noteq> Panic \<and> PreKeySignalMessage_try_from PS PP bs \<noteq> Panic \<and>
   SenderKeyMessage_try_from PK bs \<noteq> Panic \<and> SenderKeyDistributionMessage_try_from PD bs \<noteq> Panic \<and>
   (SignalMessage_try_from PS bs = Err (CiphertextMessageTooShort n) \<longleftrightarrow> length bs < 9 \<and> n = length bs) \<and>
   (SenderKeyMessage_try_from PK bs = Err (CiphertextMessageTooShort n) \<longleftrightarrow> length bs < 65 \<and> n = length bs) \<and>
   (SenderKeyDistributionMessage_try_from PD bs = Err (CiphertextMessageTooShort n) \<longleftrightarrow>
     length bs < 65 \<and> n = length bs) \<and>
   PreKeySignalMessage_try_from PS PP [] = Err (CiphertextMessageTooShort 0)"
  by (simp add: too_short)

text \<open>
  C31. A pre-key message is read back unchanged from its bytes, with the message it
  carries and with an absent pre-key identifier still absent.
\<close>

theorem PreKeySignalMessage_roundtrip:
  assumes "prost_ok PS" "prost_ok P" "version < 16" "PublicKey_wf base_key" "IdentityKey_wf identity"
    and "SignalMessage_try_from PS (sm_serialized inner) = Ok inner"
    and "PreKeySignalMessage_new P version reg_id pre_key_id signed_id base_key identity inner = Ok m"
  shows "PreKeySignalMessage_try_from PS P (pm_serialized m) = Ok m"
  using assms by (rule PreKeySignalMessage_parse_new)

theorem PreKeySignalMessage_roundtrip_witness:
  "\<exists>inner m. PreKeySignalMessage_new (ref_prost c_wire_PreKeySignalMessage) 3 11 None 22 (ref_key 7)
        (IdentityKey (ref_key 1)) inner = Ok m \<and>
     PreKeySignalMessage_try_from (ref_prost c_wire_SignalMessage) (ref_prost c_wire_PreKeySignalMessage)
        (pm_serialized m) = Ok m"
proof -
  obtain inner where "SignalMessage_new ref_crypto (ref_prost c_wire_SignalMessage) 3 (replicate 32 9)
      (ref_key 7) 5 4 [1, 2] (IdentityKey (ref_key 1)) (IdentityKey (ref_key 2)) = Ok inner"
    using SignalMessage_new_total [OF ref_hash_ok] by (metis length_replicate)
  then have i: "SignalMessage_try_from (ref_prost c_wire_SignalMessage) (sm_serialized inner) = Ok inner"
    by (intro SignalMessage_parse_new) simp_all
  obtain m where m: "PreKeySignalMessage_new (ref_prost c_wire_PreKeySignalMessage) 3 11 None 22 (ref_key 7)
      (IdentityKey (ref_key 1)) inner = Ok m"
    by (simp add: PreKeySignalMessage_new_def)
  with PreKeySignalMessage_roundtrip [OF _ _ _ _ _ i m] show ?thesis
    by (auto simp: IdentityKey_wf_def)
qed

text \<open>
  A sender key message is read back unchanged from its bytes, and its signature
  verifies under the public key of the key it was signed with.
\<close>

lemma SenderKeyMessage_roundtrip:
  assumes "prost_ok P" "xeddsa_ok C" "PrivateKey_public_key C priv = Ok pub"
  shows "\<exists>m rng'. SenderKeyMessage_new C P key_id iteration body priv rng = (Ok m, rng') \<and>
    SenderKeyMessage_try_from P (skm_serialized m) = Ok m \<and>
    SenderKeyMessage_verify_signature C m pub = Ok True \<and>
    skm_key_id m = key_id \<and> skm_iteration m = iteration \<and> skm_ciphertext m = body"
  using SenderKeyMessage_new_verifies [OF assms, of key_id iteration body rng] by metis

lemma SenderKeyMessage_roundtrip_witness:
  "\<exists>m rng'. SenderKeyMessage_new ref_crypto (ref_prost c_wire_SenderKeyMessage) 8 2 [1, 2]
        (PrivateKey (DjbPrivateKey (replicate 32 4))) 0 = (Ok m, rng') \<and>
     SenderKeyMessage_verify_signature ref_crypto m (ref_key 4) = Ok True"
proof -
  have "PrivateKey_public_key ref_crypto (PrivateKey (DjbPrivateKey (replicate 32 4))) = Ok (ref_key 4)"
    by (simp add: ref_key_def derive_public_key_def ref_crypto_def)
  from SenderKeyMessage_roundtrip [OF _ ref_xeddsa_ok this, of "ref_prost c_wire_SenderKeyMessage" 8 2 "[1, 2]" 0]
  show ?thesis by auto
qed

text \<open>
  A sender key distribution message with a 32-byte chain key is read back unchanged
  from its bytes, when the encoding is at least as long as the two keys it carries.
\<close>

lemma SenderKeyDistributionMessage_roundtrip:
  assumes "prost_ok P" "skdm_encoding_ok P" "length chain_key = 32" "PublicKey_wf signing_key"
    and "SenderKeyDistributionMessage_new P id' iteration chain_key signing_key = Ok m"
  shows "SenderKeyDistributionMessage_try_from P (skdm_serialized m) = Ok m"
  by (rule SenderKeyDistributionMessage_parse_new [OF assms])

lemma SenderKeyDistributionMessage_roundtrip_witness:
  "\<exists>m. SenderKeyDistributionMessage_new (ref_prost c_wire_SenderKeyDistributionMessage) 8 2
         (replicate 32 6) (ref_key 4) = Ok m \<and>
     SenderKeyDistributionMessage_try_from (ref_prost c_wire_SenderKeyDistributionMessage) (skdm_serialized m) = Ok m"
proof -
  obtain m where m: "SenderKeyDistributionMessage_new (ref_prost c_wire_SenderKeyDistributionMessage) 8 2
      (replicate 32 6) (ref_key 4) = Ok m"
    by (simp add: SenderKeyDistributionMessage_new_def)
  with SenderKeyDistributionMessage_roundtrip [OF _ ref_skdm_encoding_ok length_replicate ref_key_wf m]
  show ?thesis by simp
qed

end
