(* ===== verification/Session_Builder.thy ===== *)
theory Session_Builder
  imports Stores Messages
begin

text \<open>
  Model of \<open>rust/protocol/src/session.rs\<close>: starting a session from a received pre-key
  message (\<open>process_prekey\<close>) and from a downloaded pre-key bundle
  (\<open>process_prekey_bundle\<close>). \<open>process_prekey\<close> works on the storage and on the caller's
  session record, both changed in place: its state is the pair of the two.
\<close>

section \<open>Receiving a pre-key message\<close>

text \<open>\<open>session_record.f(..)?\<close> for a method that changes the record only when it succeeds.\<close>

definition modify_record :: "(SessionRecord \<Rightarrow> SessionRecord sresult) \<Rightarrow> ('s \<times> SessionRecord, unit) sst" where
  "modify_record f = (\<lambda>(s, r). case f r of
     Ok r' \<Rightarrow> (Ok (), (s, r')) | Err e \<Rightarrow> (Err e, (s, r)) | Panic \<Rightarrow> (Panic, (s, r)))"

definition reading_record ::
    "(SessionRecord \<Rightarrow> ('s \<times> SessionRecord, 'a) sst) \<Rightarrow> ('s \<times> SessionRecord, 'a) sst" where
  "reading_record f = (\<lambda>(s, r). f r (s, r))"

definition process_prekey_v3 ::
    "('sc, 'pt, 'r) crypto \<Rightarrow> PreKeySignalMessage \<Rightarrow> 's SignedPreKeyStore \<Rightarrow> 's PreKeyStore
       \<Rightarrow> 's IdentityKeyStore \<Rightarrow> ('s \<times> SessionRecord, u32 option) sst" where
  "process_prekey_v3 C message signed_prekey_store pre_key_st identity_st = reading_record (\<lambda>session_record.
     sbind (slift (has_session_state session_record (ucast (pm_message_version message))
              (PublicKey_serialize (pm_base_key message)))) (\<lambda>found.
     if found then sret None
     else
       sbind (on_fst (get_signed_pre_key signed_prekey_store (pm_signed_pre_key_id message))) (\<lambda>signed_record.
       sbind (slift (SignedPreKeyRecord_key_pair signed_record)) (\<lambda>our_signed_pre_key_pair.
       sbind (case pm_pre_key_id message of
                Some pre_key_id \<Rightarrow>
                  sbind (on_fst (get_pre_key pre_key_st pre_key_id)) (\<lambda>pre_key_record.
                  sbind (slift (PreKeyRecord_key_pair pre_key_record)) (\<lambda>k. sret (Some k)))
              | None \<Rightarrow> sret None) (\<lambda>our_one_time_pre_key_pair.
       sbind (on_fst (get_identity_key_pair identity_st)) (\<lambda>identity_key_pair.
       let parameters = \<lparr>bp_our_identity_key_pair = identity_key_pair,
                         bp_our_signed_pre_key_pair = our_signed_pre_key_pair,
                         bp_our_one_time_pre_key_pair = our_one_time_pre_key_pair,
                         bp_our_ratchet_key_pair = our_signed_pre_key_pair,
                         bp_their_identity_key = pm_identity_key message,
                         bp_their_base_key = pm_base_key message\<rparr>
       in
       sbind (modify_record archive_current_state) (\<lambda>_.
       sbind (slift (initialize_bob_session C parameters)) (\<lambda>new_session.
       sbind (on_fst (get_local_registration_id identity_st)) (\<lambda>local_id.
       sbind (slift (set_local_registration_id new_session local_id)) (\<lambda>new_session.
       sbind (slift (set_remote_registration_id new_session (pm_registration_id message))) (\<lambda>new_session.
       sbind (slift (set_alice_base_key new_session (PublicKey_serialize (pm_base_key message)))) (\<lambda>new_session.
       sbind (modify_record (\<lambda>r. promote_state r new_session)) (\<lambda>_.
       sret (pm_pre_key_id message))))))))))))))"

definition process_prekey ::
    "('sc, 'pt, 'r) crypto \<Rightarrow> PreKeySignalMessage \<Rightarrow> ProtocolAddress \<Rightarrow> 's IdentityKeyStore
       \<Rightarrow> 's PreKeyStore \<Rightarrow> 's SignedPreKeyStore \<Rightarrow> ('s \<times> SessionRecord, u32 option) sst" where
  "process_prekey C message remote_address identity_st pre_key_st signed_prekey_store =
     (let their_identity_key = pm_identity_key message in
      sbind (on_fst (is_trusted_identity identity_st remote_address their_identity_key Receiving)) (\<lambda>trusted.
      if \<not> trusted then sthrow (UntrustedIdentity remote_address)
      else
        sbind (process_prekey_v3 C message signed_prekey_store pre_key_st identity_st) (\<lambda>unsigned_pre_key_id.
        sbind (on_fst (save_identity identity_st remote_address their_identity_key)) (\<lambda>_.
        sret unsigned_pre_key_id))))"

section \<open>Processing a bundle\<close>

definition process_prekey_bundle ::
    "('sc, 'pt, 'r) crypto \<Rightarrow> ProtocolAddress \<Rightarrow> 's SessionStore \<Rightarrow> 's IdentityKeyStore \<Rightarrow> PreKeyBundle
       \<Rightarrow> ('s \<times> 'r, unit) sst" where
  "process_prekey_bundle C remote_address session_st identity_st bundle =
     (let their_identity_key = pkb_identity_key bundle in
      sbind (on_fst (is_trusted_identity identity_st remote_address their_identity_key Sending)) (\<lambda>trusted.
      if \<not> trusted then sthrow (UntrustedIdentity remote_address)
      else
      sbind (slift (verify_signature C (ik_public_key their_identity_key)
               (PublicKey_serialize (pkb_signed_pre_key_public bundle))
               (pkb_signed_pre_key_signature bundle))) (\<lambda>valid.
      if \<not> valid then sthrow SignatureValidationFailed
      else
      sbind (on_fst (load_session session_st remote_address)) (\<lambda>loaded.
      let session_record = (case loaded of None \<Rightarrow> SessionRecord_new_fresh | Some r \<Rightarrow> r) in
      sbind (on_snd (sgen (KeyPair_generate C))) (\<lambda>our_base_key_pair.
      let their_signed_prekey = pkb_signed_pre_key_public bundle;
          their_one_time_prekey = pkb_pre_key_public bundle;
          their_one_time_prekey_id = pkb_pre_key_id bundle in
      sbind (on_fst (get_identity_key_pair identity_st)) (\<lambda>our_identity_key_pair.
      let parameters = \<lparr>ap_our_identity_key_pair = our_identity_key_pair,
                        ap_our_base_key_pair = our_base_key_pair,
                        ap_their_identity_key = their_identity_key,
                        ap_their_signed_pre_key = their_signed_prekey,
                        ap_their_one_time_pre_key = their_one_time_prekey,
                        ap_their_ratchet_key = their_signed_prekey\<rparr> in
      sbind (on_snd (initialize_alice_session C parameters)) (\<lambda>session.
      sbind (slift (set_unacknowledged_pre_key_message session their_one_time_prekey_id
               (pkb_signed_pre_key_id bundle) (kp_public_key our_base_key_pair))) (\<lambda>session.
      sbind (on_fst (get_local_registration_id identity_st)) (\<lambda>local_id.
      sbind (slift (set_local_registration_id session local_id)) (\<lambda>session.
      sbind (slift (set_remote_registration_id session (pkb_registration_id bundle))) (\<lambda>session.
      sbind (slift (set_alice_base_key session (PublicKey_serialize (kp_public_key our_base_key_pair)))) (\<lambda>session.
      sbind (on_fst (save_identity identity_st remote_address their_identity_key)) (\<lambda>_.
      sbind (slift (promote_state session_record session)) (\<lambda>session_record.
      on_fst (store_session session_st remote_address session_record)))))))))))))))"

end
