(* ===== verification/Window.thy ===== *)
theory Window
  imports Skipped_Keys "HOL-Library.Multiset"
begin

text \<open>
  The abstract receiver that both ratchets refine: the next counter it expects and the
  counters it skipped, newest first, of which it remembers the \<open>MAX_MESSAGE_KEYS\<close> most
  recent. A counter is accepted when it was skipped and not used since, or when it is at
  most \<open>MAX_FORWARD_JUMPS\<close> ahead.
\<close>

section \<open>Definition\<close>

record window =
  win_next :: nat
  win_skipped :: "nat list"

definition window_accept :: "window \<Rightarrow> nat \<Rightarrow> window option" where
  "window_accept w c =
     (if c < win_next w then
        (if c \<in> set (win_skipped w)
         then Some \<lparr>win_next = win_next w, win_skipped = remove1 c (win_skipped w)\<rparr> else None)
      else if c - win_next w > MAX_FORWARD_JUMPS then None
      else Some \<lparr>win_next = Suc c,
                 win_skipped = take MAX_MESSAGE_KEYS (rev [win_next w..<c] @ win_skipped w)\<rparr>)"

text \<open>Delivery of a sequence of counters: a rejected one changes nothing.\<close>

fun window_run :: "window \<Rightarrow> nat list \<Rightarrow> nat list \<times> window" where
  "window_run w [] = ([], w)"
| "window_run w (c # cs) =
     (case window_accept w c of
        None \<Rightarrow> window_run w cs
      | Some w' \<Rightarrow> (case window_run w' cs of (acc, w'') \<Rightarrow> (c # acc, w'')))"

definition window_inv :: "window \<Rightarrow> bool" where
  "window_inv w \<longleftrightarrow> distinct (win_skipped w) \<and> (\<forall>c\<in>set (win_skipped w). c < win_next w) \<and>
     length (win_skipped w) \<le> MAX_MESSAGE_KEYS"

text \<open>The counters that a window can still accept.\<close>

definition window_open :: "window \<Rightarrow> nat \<Rightarrow> bool" where
  "window_open w c \<longleftrightarrow> c \<in> set (win_skipped w) \<or> win_next w \<le> c"

section \<open>No counter is accepted twice\<close>

lemma window_accept_inv:
  assumes "window_inv w" "window_accept w c = Some w'"
  shows "window_inv w'"
proof (cases "c < win_next w")
  case True
  then have "w' = \<lparr>win_next = win_next w, win_skipped = remove1 c (win_skipped w)\<rparr>"
    using assms(2) by (auto simp: window_accept_def split: if_splits)
  with assms(1) show ?thesis
    by (auto simp: window_inv_def length_remove1)
next
  case False
  then have w': "w' = \<lparr>win_next = Suc c, win_skipped = take MAX_MESSAGE_KEYS (rev [win_next w..<c] @ win_skipped w)\<rparr>"
    using assms(2) by (auto simp: window_accept_def split: if_splits)
  have "distinct (rev [win_next w..<c] @ win_skipped w)"
    using assms(1) by (auto simp: window_inv_def)
  moreover have "\<forall>x\<in>set (rev [win_next w..<c] @ win_skipped w). x < Suc c"
    using assms(1) False by (auto simp: window_inv_def)
  ultimately show ?thesis
    unfolding window_inv_def w'
    by (metis (no_types, lifting) distinct_take in_set_takeD length_take min.cobounded2 min.commute window.select_convs)
qed

lemma window_accept_open:
  assumes "window_inv w" "window_accept w c = Some w'"
  shows "window_open w c" "\<not> window_open w' c" "window_open w' x \<Longrightarrow> window_open w x"
proof -
  show "window_open w c"
    using assms(2) by (auto simp: window_accept_def window_open_def split: if_splits)
  show "\<not> window_open w' c"
  proof (cases "c < win_next w")
    case True
    with assms show ?thesis
      by (auto simp: window_accept_def window_open_def window_inv_def split: if_splits)
  next
    case False
    with assms show ?thesis
      by (auto simp: window_accept_def window_open_def window_inv_def dest!: in_set_takeD split: if_splits)
  qed
  show "window_open w x" if "window_open w' x"
    using assms that
    by (auto simp: window_accept_def window_open_def split: if_splits
        dest!: in_set_takeD dest: set_remove1_subset [THEN subsetD])
qed

lemma window_run_open:
  assumes "window_inv w" "window_run w cs = (acc, w')"
  shows "distinct acc \<and> (\<forall>c\<in>set acc. window_open w c \<and> \<not> window_open w' c) \<and> window_inv w' \<and>
    (\<forall>x. window_open w' x \<longrightarrow> window_open w x)"
  using assms
proof (induction cs arbitrary: w acc)
  case (Cons c cs)
  show ?case
  proof (cases "window_accept w c")
    case None
    with Cons show ?thesis by simp
  next
    case (Some w1)
    then obtain acc1 where run: "window_run w1 cs = (acc1, w')" "acc = c # acc1"
      using Cons.prems(2) by (auto split: prod.splits)
    note open1 = window_accept_open [OF Cons.prems(1) Some]
    have IH: "distinct acc1 \<and> (\<forall>c\<in>set acc1. window_open w1 c \<and> \<not> window_open w' c) \<and> window_inv w' \<and>
        (\<forall>x. window_open w' x \<longrightarrow> window_open w1 x)"
      using Cons.IH [OF window_accept_inv [OF Cons.prems(1) Some] run(1)] .
    with open1 run(2) show ?thesis by auto
  qed
qed auto

section \<open>Every order of delivery\<close>

text \<open>
  While fewer than \<open>MAX_FORWARD_JUMPS\<close> counters are in flight, a window holds every
  counter it has not seen: the invariant of a run over any order of them.
\<close>

definition window_complete :: "nat \<Rightarrow> nat set \<Rightarrow> window \<Rightarrow> bool" where
  "window_complete N pending w \<longleftrightarrow> window_inv w \<and> win_next w \<le> N \<and>
     (\<forall>c<N. window_open w c \<longleftrightarrow> c \<in> pending)"

lemma window_accept_complete:
  assumes "N \<le> MAX_FORWARD_JUMPS" "window_complete N pending w" "c \<in> pending" "c < N"
  shows "\<exists>w'. window_accept w c = Some w' \<and> window_complete N (pending - {c}) w'"
proof (cases "c < win_next w")
  case True
  have c: "c \<in> set (win_skipped w)"
    using True assms(2) [unfolded window_complete_def window_open_def] assms(3,4)
    by (meson leD)
  let ?w = "\<lparr>win_next = win_next w, win_skipped = remove1 c (win_skipped w)\<rparr>"
  have acc: "window_accept w c = Some ?w" using True c by (simp add: window_accept_def)
  have "window_open ?w x \<longleftrightarrow> window_open w x \<and> x \<noteq> c" for x
    using True assms(2) by (auto simp: window_open_def window_complete_def window_inv_def)
  with acc assms show ?thesis
    using window_accept_inv [of w c ?w] by (auto simp: window_complete_def)
next
  case False
  let ?new = "rev [win_next w..<c] @ win_skipped w"
  have jump: "\<not> c - win_next w > MAX_FORWARD_JUMPS" using assms(1,4) by simp
  have inv: "distinct ?new" "set ?new \<subseteq> {..<c}"
    using assms(2) False by (auto simp: window_complete_def window_inv_def)
  then have "length ?new \<le> c"
    using card_mono [of "{..<c}" "set ?new"] distinct_card [OF inv(1)] by simp
  then have fits: "take MAX_MESSAGE_KEYS ?new = ?new"
    using assms(1,4) by (simp add: consts_defs)
  let ?w = "\<lparr>win_next = Suc c, win_skipped = ?new\<rparr>"
  have acc: "window_accept w c = Some ?w" using False jump fits by (simp add: window_accept_def)
  have "window_open ?w x \<longleftrightarrow> window_open w x \<and> x \<noteq> c" for x
    using False inv(2) by (auto simp: window_open_def)
  with acc assms show ?thesis
    using window_accept_inv [of w c ?w] by (auto simp: window_complete_def)
qed

lemma window_run_complete:
  assumes "N \<le> MAX_FORWARD_JUMPS" "window_complete N (set cs) w" "distinct cs" "set cs \<subseteq> {..<N}"
  shows "fst (window_run w cs) = cs"
  using assms(2-4)
proof (induction cs arbitrary: w)
  case (Cons c cs)
  then obtain w' where w': "window_accept w c = Some w'" "window_complete N (set (c # cs) - {c}) w'"
    using window_accept_complete [OF assms(1) Cons.prems(1), of c] by auto
  have "set (c # cs) - {c} = set cs" using Cons.prems(2) by auto
  with w' Cons have "fst (window_run w' cs) = cs" by simp
  with w' show ?case by (simp add: split_beta)
qed simp

abbreviation window_start :: window where
  "window_start \<equiv> \<lparr>win_next = 0, win_skipped = []\<rparr>"

lemma window_start_inv [simp]: "window_inv window_start"
  by (simp add: window_inv_def)

lemma window_start_complete: "window_complete N {..<N} window_start"
  by (auto simp: window_complete_def window_open_def)

lemma window_any_order:
  assumes "N \<le> MAX_FORWARD_JUMPS" "mset cs = mset [0..<N]"
  shows "fst (window_run window_start cs) = cs"
proof -
  have d: "distinct cs" using mset_eq_imp_distinct_iff [OF assms(2)] by (simp only: distinct_upt)
  have s: "set cs = {..<N}" using mset_eq_setD [OF assms(2)] by (simp only: set_upt atLeast0LessThan)
  have "window_complete N (set cs) window_start" unfolding s by (rule window_start_complete)
  then show ?thesis by (rule window_run_complete [OF assms(1) _ d]) (simp add: s)
qed


section \<open>Refinement\<close>

text \<open>
  \<open>deliver recv\<close> hands a sequence of counters to a receiver and keeps what it accepts. An
  error leaves the receiver as it was, as the ciphers do.
\<close>

fun deliver :: "('st \<Rightarrow> u32 \<Rightarrow> ('k \<times> 'st) sresult) \<Rightarrow> 'st \<Rightarrow> u32 list \<Rightarrow> (u32 \<times> 'k) list \<times> 'st" where
  "deliver recv st [] = ([], st)"
| "deliver recv st (n # ns) =
     (case recv st n of
        Ok (k, st') \<Rightarrow> (case deliver recv st' ns of (out, st'') \<Rightarrow> ((n, k) # out, st''))
      | _ \<Rightarrow> deliver recv st ns)"

text \<open>
  A receiver refines the window when, related by \<open>rep\<close>, it accepts exactly the counters that
  the window accepts and returns the sender's key for them. The last counter is left out:
  after it the index wraps around.
\<close>

locale window_refinement =
  fixes recv :: "'st \<Rightarrow> u32 \<Rightarrow> ('k \<times> 'st) sresult"
    and key :: "nat \<Rightarrow> 'k"
    and rep :: "window \<Rightarrow> 'st \<Rightarrow> bool"
  assumes rep_inv: "rep w st \<Longrightarrow> window_inv w"
    and recv_accept: "rep w st \<Longrightarrow> window_accept w (unat n) = Some w' \<Longrightarrow> n \<noteq> - 1 \<Longrightarrow>
      \<exists>st'. recv st n = Ok (key (unat n), st') \<and> rep w' st'"
    and recv_reject: "rep w st \<Longrightarrow> window_accept w (unat n) = None \<Longrightarrow> \<exists>e. recv st n = Err e"
begin

lemma deliver_refines:
  assumes "rep w st" "- 1 \<notin> set ns" "deliver recv st ns = (out, st')"
  shows "map (\<lambda>(n, k). (unat n, k)) out = map (\<lambda>c. (c, key c)) (fst (window_run w (map unat ns))) \<and>
    rep (snd (window_run w (map unat ns))) st'"
  using assms
proof (induction ns arbitrary: w st out)
  case (Cons n ns)
  show ?case
  proof (cases "window_accept w (unat n)")
    case None
    with recv_reject [OF Cons.prems(1)] obtain e where "recv st n = Err e" by blast
    with Cons None show ?thesis by simp
  next
    case (Some w')
    with recv_accept [OF Cons.prems(1)] Cons.prems(2) obtain st1 where
      st1: "recv st n = Ok (key (unat n), st1)" "rep w' st1" by auto
    obtain out1 where out1: "deliver recv st1 ns = (out1, st')" "out = (n, key (unat n)) # out1"
      using Cons.prems(3) st1(1) by (auto split: prod.splits)
    with Cons.IH [OF st1(2) _ out1(1)] Cons.prems(2) Some show ?thesis by (simp add: split_beta)
  qed
qed simp

lemma no_replay:
  assumes "rep w st" "- 1 \<notin> set ns" "deliver recv st ns = (out, st')"
  shows "distinct (map fst out) \<and> (\<forall>(n, k)\<in>set out. k = key (unat n))"
proof -
  let ?acc = "fst (window_run w (map unat ns))"
  have eq: "map (\<lambda>(n, k). (unat n, k)) out = map (\<lambda>c. (c, key c)) ?acc"
    using deliver_refines [OF assms] by blast
  have "distinct ?acc"
    using window_run_open [OF rep_inv [OF assms(1)], of "map unat ns"] by (metis prod.collapse)
  moreover have "map unat (map fst out) = ?acc"
    using arg_cong [OF eq, of "map fst"] by (simp add: comp_def split_beta)
  ultimately have "distinct (map fst out)" by (metis distinct_map)
  moreover have "k = key (unat n)" if "(n, k) \<in> set out" for n k
  proof -
    have "(unat n, k) \<in> set (map (\<lambda>(n, k). (unat n, k)) out)" using that by force
    then show ?thesis unfolding eq by auto
  qed
  ultimately show ?thesis by auto
qed

lemma any_order:
  assumes "rep window_start st" "N \<le> MAX_FORWARD_JUMPS" "mset ns = mset (map word_of_nat [0..<N])"
  shows "fst (deliver recv st ns) = map (\<lambda>n. (n, key (unat n))) ns"
proof -
  obtain out st' where d: "deliver recv st ns = (out, st')" by fastforce
  have small: "unat (word_of_nat i :: u32) = i" if "i < N" for i
    using that assms(2) by (simp add: consts_defs unat_of_nat)
  have "map unat (map word_of_nat [0..<N] :: u32 list) = [0..<N]"
    unfolding map_map comp_def by (rule map_idI) (simp add: small)
  then have perm: "mset (map unat ns) = mset [0..<N]"
    by (metis assms(3) mset_map)
  have "unat n < N" if "n \<in> set ns" for n
    using that mset_eq_setD [OF perm] by auto
  then have last: "- 1 \<notin> set ns"
    using assms(2) by (fastforce simp: consts_defs unsigned_minus_1_eq_mask mask_eq_exp_minus_1)
  have eq: "map (\<lambda>(n, k). (unat n, k)) out = map (\<lambda>n. (unat n, key (unat n))) ns"
    using deliver_refines [OF assms(1) last d] window_any_order [OF assms(2) perm] by simp
  have "out = map (\<lambda>n. (n, key (unat n))) ns"
  proof (rule map_injective [OF _ injI, where f = "\<lambda>(n, k). (unat n, k)"])
    show "map (\<lambda>(n, k). (unat n, k)) out = map (\<lambda>(n, k). (unat n, k)) (map (\<lambda>n. (n, key (unat n))) ns)"
      using eq by simp
  qed (auto simp: word_unat_eq_iff)
  with d show ?thesis by simp
qed

end

end
