(* ===== verification/Session_Cipher.thy ===== *)
theory Session_Cipher
  imports Session_Builder Window
begin

text \<open>
  Model of \<open>rust/protocol/src/session_cipher.rs\<close>: encryption and decryption of one-to-one
  messages. Functions that change a \<open>SessionState\<close> or \<open>SessionRecord\<close> through \<open>&mut\<close> return
  the new value with their result; their callers here work on a copy that is dropped on
  every error. The random generator is the state of the functions that draw from it.
\<close>

section \<open>Chain and message keys\<close>

definition get_or_create_chain_key ::
    "('sc, 'pt, 'r) crypto \<Rightarrow> SessionState \<Rightarrow> PublicKey \<Rightarrow> ('r, ChainKey \<times> SessionState) sst" where
  "get_or_create_chain_key C state their_ephemeral =
     sbind (slift (get_receiver_chain_key state their_ephemeral)) (\<lambda>found.
     case found of
       Some chain \<Rightarrow> sret (chain, state)
     | None \<Rightarrow>
         sbind (slift (root_key state)) (\<lambda>rk.
         sbind (slift (sender_ratchet_private_key state)) (\<lambda>our_ephemeral.
         sbind (slift (RootKey_create_chain C rk their_ephemeral our_ephemeral)) (\<lambda>receiver_chain.
         sbind (sgen (KeyPair_generate C)) (\<lambda>our_new_ephemeral.
         sbind (slift (RootKey_create_chain C (fst receiver_chain) their_ephemeral
                         (kp_private_key our_new_ephemeral))) (\<lambda>sender_chain.
         sbind (slift (set_root_key state (fst sender_chain))) (\<lambda>state.
         sbind (slift (add_receiver_chain state their_ephemeral (snd receiver_chain))) (\<lambda>state.
         sbind (slift (get_sender_chain_key state)) (\<lambda>current.
         let current_index = ck_index current;
             previous_index = (if current_index > 0 then current_index - 1 else 0) in
         sbind (slift (set_previous_counter state previous_index)) (\<lambda>state.
         sbind (slift (set_sender_chain state our_new_ephemeral (snd sender_chain))) (\<lambda>state.
         sret (snd receiver_chain, state))))))))))))"

text \<open>The loop \<open>while chain_key.index() < counter\<close>: its body, and the loop.\<close>

definition skip_message_key ::
    "('sc, 'pt, 'r) crypto \<Rightarrow> PublicKey \<Rightarrow> ChainKey \<times> SessionState \<Rightarrow> (ChainKey \<times> SessionState) sresult" where
  "skip_message_key C their_ephemeral = (\<lambda>(chain_key, state).
     rbind (ChainKey_message_keys C chain_key) (\<lambda>message_keys.
     rbind (set_message_keys state their_ephemeral message_keys) (\<lambda>state.
     rbind (ChainKey_next_chain_key C chain_key) (\<lambda>chain_key.
     Ok (chain_key, state)))))"

lemma skip_message_key_index: "skip_message_key C e (c, s) = Ok (c', s') \<Longrightarrow> ck_index c' = ck_index c + 1"
  by (auto simp: skip_message_key_def result_simps)

function skip_message_keys ::
    "('sc, 'pt, 'r) crypto \<Rightarrow> PublicKey \<Rightarrow> SessionState \<Rightarrow> ChainKey \<Rightarrow> u32
       \<Rightarrow> (ChainKey \<times> SessionState) sresult" where
  "skip_message_keys C their_ephemeral state chain_key counter =
     (if ck_index chain_key < counter
      then rbind (skip_message_key C their_ephemeral (chain_key, state)) (\<lambda>(chain_key, state).
           skip_message_keys C their_ephemeral state chain_key counter)
      else Ok (chain_key, state))"
  by pat_completeness auto

termination skip_message_keys
proof (relation "measure (\<lambda>(C, e, s, c, n). unat n - unat (ck_index c))")
  fix C :: "('sc, 'pt, 'r) crypto" and e s c n p s' c'
  assume "ck_index c < n" "skip_message_key C e (c, s) = Ok p" "(c', s') = p"
  then have "unat (ck_index c') = Suc (unat (ck_index c))" "unat (ck_index c) < unat n"
    using unat_plus_one [of "ck_index c" n] skip_message_key_index [of C e c s c' s'] by (auto simp: word_less_nat_alt)
  then show "((C, e, s', c', n), (C, e, s, c, n)) \<in> measure (\<lambda>(C, e, s, c, n). unat n - unat (ck_index c))"
    by simp
qed simp

declare skip_message_keys.simps [simp del]

definition get_or_create_message_key ::
    "('sc, 'pt, 'r) crypto \<Rightarrow> SessionState \<Rightarrow> PublicKey \<Rightarrow> ChainKey \<Rightarrow> u32
       \<Rightarrow> (MessageKeys \<times> SessionState) sresult" where
  "get_or_create_message_key C state their_ephemeral chain_key counter =
     (let chain_index = ck_index chain_key in
      if chain_index > counter then
        rbind (get_message_keys state their_ephemeral counter) (\<lambda>(found, state).
          case found of
            Some keys \<Rightarrow> Ok (keys, state)
          | None \<Rightarrow> Err (DuplicatedMessage chain_index counter))
      else if \<not> chain_index \<le> counter then Panic
      else
        let jump = unat (counter - chain_index) in
        if jump > MAX_FORWARD_JUMPS then Err (InvalidMessage ''message from too far into the future'')
        else
          rbind (skip_message_keys C their_ephemeral state chain_key counter) (\<lambda>(chain_key, state).
          rbind (ChainKey_next_chain_key C chain_key) (\<lambda>next_key.
          rbind (set_receiver_chain_key state their_ephemeral next_key) (\<lambda>state.
          rbind (ChainKey_message_keys C chain_key) (\<lambda>keys.
          Ok (keys, state))))))"

section \<open>Decryption with a state and with a record\<close>

definition decrypt_message_with_state ::
    "('sc, 'pt, 'r) crypto \<Rightarrow> SessionState \<Rightarrow> SignalMessage \<Rightarrow> ('r, bytes \<times> SessionState) sst" where
  "decrypt_message_with_state C state ciphertext =
     sbind (slift (has_sender_chain state)) (\<lambda>has.
     if \<not> has then sthrow InvalidSessionStructure
     else
     let ciphertext_version = ucast (sm_message_version ciphertext) :: u32 in
     sbind (slift (session_version state)) (\<lambda>version.
     if ciphertext_version \<noteq> version then sthrow (UnrecognizedMessageVersion ciphertext_version)
     else
     let their_ephemeral = sm_sender_ratchet_key ciphertext;
         counter = sm_counter ciphertext in
     sbind (get_or_create_chain_key C state their_ephemeral) (\<lambda>(chain_key, state).
     slift (
       rbind (get_or_create_message_key C state their_ephemeral chain_key counter) (\<lambda>(message_keys, state).
       rbind (remote_identity_key state) (\<lambda>remote.
       rbind (ok_or remote InvalidSessionStructure) (\<lambda>their_identity_key.
       rbind (local_identity_key state) (\<lambda>our_identity_key.
       rbind (SignalMessage_verify_mac C ciphertext their_identity_key our_identity_key
                (mk_mac_key message_keys)) (\<lambda>mac_valid.
       if \<not> mac_valid then Err InvalidCiphertext
       else
       rbind (aes_256_cbc_decrypt C (sm_ciphertext ciphertext) (mk_cipher_key message_keys)
                (mk_iv message_keys)) (\<lambda>ptext.
       rbind (clear_unacknowledged_pre_key_message state) (\<lambda>state.
       Ok (ptext, state))))))))))))"

text \<open>
  The loop over the archived states: \<open>Ok None\<close> when none of them decrypts; a duplicate ends
  it with that error, any other error moves on to the next state.
\<close>

fun try_previous_states ::
    "('sc, 'pt, 'r) crypto \<Rightarrow> SignalMessage \<Rightarrow> nat \<Rightarrow> SessionState list
       \<Rightarrow> ('r, (bytes \<times> nat \<times> SessionState) option) sst" where
  "try_previous_states C ciphertext idx [] rng = (Ok None, rng)"
| "try_previous_states C ciphertext idx (previous # rest) rng =
     (case decrypt_message_with_state C previous ciphertext rng of
        (Ok (ptext, updated), rng') \<Rightarrow> (Ok (Some (ptext, idx, updated)), rng')
      | (Err (DuplicatedMessage i n), rng') \<Rightarrow> (Err (DuplicatedMessage i n), rng')
      | (Err _, rng') \<Rightarrow> try_previous_states C ciphertext (Suc idx) rest rng'
      | (Panic, rng') \<Rightarrow> (Panic, rng'))"

definition decrypt_message_with_record ::
    "('sc, 'pt, 'r) crypto \<Rightarrow> SessionRecord \<Rightarrow> SignalMessage \<Rightarrow> ('r, bytes \<times> SessionRecord) sst" where
  "decrypt_message_with_record C record ciphertext =
     sbind (slift (session_state record)) (\<lambda>current_state. \<lambda>rng.
     case decrypt_message_with_state C current_state ciphertext rng of
       (Ok (ptext, current_state), rng') \<Rightarrow>
         slift (rbind (set_session_state record current_state) (\<lambda>record. Ok (ptext, record))) rng'
     | (Err (DuplicatedMessage i n), rng') \<Rightarrow> (Err (DuplicatedMessage i n), rng')
     | (Panic, rng') \<Rightarrow> (Panic, rng')
     | (Err _, rng') \<Rightarrow>
         sbind (try_previous_states C ciphertext 0 (previous_sessions record)) (\<lambda>updated_session.
         case updated_session of
           Some (ptext, idx, updated_session) \<Rightarrow>
             slift (rbind (promote_old_session record idx updated_session) (\<lambda>record. Ok (ptext, record)))
         | None \<Rightarrow> sthrow (InvalidMessage ''decryption failed; no matching session state'')) rng')"

section \<open>The cipher\<close>

definition message_encrypt ::
    "('sc, 'pt, 'r) crypto \<Rightarrow> wire_SignalMessage prost \<Rightarrow> wire_PreKeySignalMessage prost \<Rightarrow> bytes
       \<Rightarrow> ProtocolAddress \<Rightarrow> 's SessionStore \<Rightarrow> 's IdentityKeyStore \<Rightarrow> ('s, CiphertextMessage) sst" where
  "message_encrypt C PS PP ptext remote_address session_st identity_st =
     sbind (load_session session_st remote_address) (\<lambda>loaded.
     sbind (slift (ok_or loaded SessionNotFound)) (\<lambda>session_record.
     sbind (slift (session_state session_record)) (\<lambda>state.
     sbind (slift (get_sender_chain_key state)) (\<lambda>chain_key.
     sbind (slift (ChainKey_message_keys C chain_key)) (\<lambda>message_keys.
     sbind (slift (sender_ratchet_key state)) (\<lambda>sender_ephemeral.
     sbind (slift (previous_counter state)) (\<lambda>prev_counter.
     sbind (slift (session_version state)) (\<lambda>version.
     let version = ucast version :: u8 in
     sbind (slift (local_identity_key state)) (\<lambda>our_identity_key.
     sbind (slift (remote_identity_key state)) (\<lambda>remote.
     sbind (slift (ok_or remote InvalidSessionStructure)) (\<lambda>their_identity_key.
     sbind (slift (aes_256_cbc_encrypt C ptext (mk_cipher_key message_keys) (mk_iv message_keys))) (\<lambda>ctext.
     sbind (slift (unacknowledged_pre_key_message_items state)) (\<lambda>unacknowledged.
     sbind (slift (SignalMessage_new C PS version (mk_mac_key message_keys) sender_ephemeral
              (ck_index chain_key) prev_counter ctext our_identity_key their_identity_key)) (\<lambda>signal_message.
     sbind (case unacknowledged of
              Some items \<Rightarrow>
                sbind (slift (local_registration_id state)) (\<lambda>reg_id.
                sbind (slift (PreKeySignalMessage_new PP version reg_id (upk_pre_key_id items)
                  (upk_signed_pre_key_id items) (upk_base_key items) our_identity_key signal_message)) (\<lambda>m.
                sret (CM_PreKeySignalMessage m)))
            | None \<Rightarrow> sret (CM_SignalMessage signal_message)) (\<lambda>message.
     sbind (slift (ChainKey_next_chain_key C chain_key)) (\<lambda>next_key.
     sbind (slift (set_sender_chain_key state next_key)) (\<lambda>state.
     let session_record = session_record\<lparr>current_session := Some state\<rparr> in
     sbind (is_trusted_identity identity_st remote_address their_identity_key Sending) (\<lambda>trusted.
     if \<not> trusted then sthrow (UntrustedIdentity remote_address)
     else
     sbind (save_identity identity_st remote_address their_identity_key) (\<lambda>_.
     sbind (store_session session_st remote_address session_record) (\<lambda>_.
     sret message))))))))))))))))))))"

definition message_decrypt_signal ::
    "('sc, 'pt, 'r) crypto \<Rightarrow> SignalMessage \<Rightarrow> ProtocolAddress \<Rightarrow> 's SessionStore \<Rightarrow> 's IdentityKeyStore
       \<Rightarrow> ('s \<times> 'r, bytes) sst" where
  "message_decrypt_signal C ciphertext remote_address session_st identity_st =
     sbind (on_fst (load_session session_st remote_address)) (\<lambda>loaded.
     sbind (slift (ok_or loaded SessionNotFound)) (\<lambda>session_record.
     sbind (on_snd (decrypt_message_with_record C session_record ciphertext)) (\<lambda>(ptext, session_record).
     sbind (slift (session_state session_record)) (\<lambda>state.
     sbind (slift (remote_identity_key state)) (\<lambda>remote.
     sbind (slift (ok_or remote InvalidSessionStructure)) (\<lambda>their_identity_key.
     sbind (on_fst (is_trusted_identity identity_st remote_address their_identity_key Receiving)) (\<lambda>trusted.
     if \<not> trusted then sthrow (UntrustedIdentity remote_address)
     else
     sbind (on_fst (save_identity identity_st remote_address their_identity_key)) (\<lambda>_.
     sbind (on_fst (store_session session_st remote_address session_record)) (\<lambda>_.
     sret ptext)))))))))"

text \<open>
  \<open>with_record r f\<close> runs \<open>f\<close> on the storage and a local record that starts as \<open>r\<close>, and hands the
  record it leaves to the caller.
\<close>

definition with_record ::
    "SessionRecord \<Rightarrow> ('s \<times> SessionRecord, 'a) sst \<Rightarrow> ('s, 'a \<times> SessionRecord) sst" where
  "with_record r f = (\<lambda>s. case f (s, r) of
     (Ok x, (s', r')) \<Rightarrow> (Ok (x, r'), s') | (Err e, (s', r')) \<Rightarrow> (Err e, s') | (Panic, (s', r')) \<Rightarrow> (Panic, s'))"

definition message_decrypt_prekey ::
    "('sc, 'pt, 'r) crypto \<Rightarrow> PreKeySignalMessage \<Rightarrow> ProtocolAddress \<Rightarrow> 's SessionStore \<Rightarrow> 's IdentityKeyStore
       \<Rightarrow> 's PreKeyStore \<Rightarrow> 's SignedPreKeyStore \<Rightarrow> ('s \<times> 'r, bytes) sst" where
  "message_decrypt_prekey C ciphertext remote_address session_st identity_st pre_key_st signed_pre_key_st =
     sbind (on_fst (load_session session_st remote_address)) (\<lambda>loaded.
     let session_record = (case loaded of None \<Rightarrow> SessionRecord_new_fresh | Some r \<Rightarrow> r) in
     sbind (on_fst (with_record session_record
              (process_prekey C ciphertext remote_address identity_st pre_key_st signed_pre_key_st)))
       (\<lambda>(pre_key_id, session_record).
     sbind (on_snd (decrypt_message_with_record C session_record (pm_message ciphertext))) (\<lambda>(ptext, session_record).
     sbind (on_fst (store_session session_st remote_address session_record)) (\<lambda>_.
     sbind (case pre_key_id of
              Some pre_key_id \<Rightarrow> on_fst (remove_pre_key pre_key_st pre_key_id)
            | None \<Rightarrow> sret ()) (\<lambda>_.
     sret ptext)))))"

definition message_decrypt ::
    "('sc, 'pt, 'r) crypto \<Rightarrow> CiphertextMessage \<Rightarrow> ProtocolAddress \<Rightarrow> 's SessionStore \<Rightarrow> 's IdentityKeyStore
       \<Rightarrow> 's PreKeyStore \<Rightarrow> 's SignedPreKeyStore \<Rightarrow> ('s \<times> 'r, bytes) sst" where
  "message_decrypt C ciphertext remote_address session_st identity_st pre_key_st signed_pre_key_st =
     (case ciphertext of
        CM_SignalMessage m \<Rightarrow> message_decrypt_signal C m remote_address session_st identity_st
      | CM_PreKeySignalMessage m \<Rightarrow>
          message_decrypt_prekey C m remote_address session_st identity_st pre_key_st signed_pre_key_st
      | _ \<Rightarrow> sthrow (InvalidArgument ''SessionCipher::decrypt cannot decrypt this message type''))"

definition cipher_remote_registration_id :: "ProtocolAddress \<Rightarrow> 's SessionStore \<Rightarrow> ('s, u32) sst" where
  "cipher_remote_registration_id remote_address session_st =
     sbind (load_session session_st remote_address) (\<lambda>loaded.
     slift (rbind (ok_or loaded SessionNotFound) (\<lambda>session_record.
            rbind (session_state session_record) (\<lambda>state. remote_registration_id state))))"

definition cipher_session_version :: "ProtocolAddress \<Rightarrow> 's SessionStore \<Rightarrow> ('s, u32) sst" where
  "cipher_session_version remote_address session_st =
     sbind (load_session session_st remote_address) (\<lambda>loaded.
     slift (rbind (ok_or loaded SessionNotFound) (\<lambda>session_record.
            rbind (session_state session_record) (\<lambda>state. session_version state))))"


section \<open>The loop over skipped keys\<close>

text \<open>The message keys of a chain key, total because the hash has a fixed length.\<close>

definition keys_at :: "('sc, 'pt, 'r) crypto \<Rightarrow> ChainKey \<Rightarrow> MessageKeys" where
  "keys_at C ck = (case ChainKey_message_keys C ck of Ok mk \<Rightarrow> mk
     | _ \<Rightarrow> \<lparr>mk_cipher_key = [], mk_mac_key = [], mk_iv = [], mk_counter = 0\<rparr>)"

lemma message_keys_keys_at:
  assumes "hash_ok C"
  shows "ChainKey_message_keys C ck = Ok (keys_at C ck)" "MessageKeys_wf (keys_at C ck)"
    "mk_counter (keys_at C ck) = ck_index ck"
  using ChainKey_message_keys_Ok [OF assms, of ck] by (auto simp: keys_at_def)

definition store_skipped ::
    "('sc, 'pt, 'r) crypto \<Rightarrow> PublicKey \<Rightarrow> ChainKey \<Rightarrow> SessionState \<Rightarrow> SessionState" where
  "store_skipped C eph ck s = (case set_message_keys s eph (keys_at C ck) of Ok s' \<Rightarrow> s' | _ \<Rightarrow> s)"

definition chain_ready :: "('sc, 'pt, 'r) crypto \<Rightarrow> PublicKey \<Rightarrow> SessionState \<Rightarrow> bool" where
  "chain_ready C eph s \<longleftrightarrow> hash_ok C \<and> (\<exists>c i. get_receiver_chain s eph = Ok (Some (c, i)))"

lemma store_skipped_eq:
  assumes "get_receiver_chain s eph = Ok (Some (c, i))"
  shows "store_skipped C eph ck s = update_chain s i
    (c\<lparr>ch_message_keys := insert_skipped (message_key_structure (keys_at C ck)) (ch_message_keys c)\<rparr>)"
  by (simp add: store_skipped_def set_message_keys_eq [OF assms])

interpretation session_loop: skip_loop ck_index "ratchet C 1" "store_skipped C eph" "chain_ready C eph"
  "skip_message_keys C eph" for C :: "('sc, 'pt, 'r) crypto" and eph
proof unfold_locales
  fix s :: SessionState and c :: ChainKey and n :: u32
  show "ck_index (ratchet C 1 c) = ck_index c + 1" by simp
  show "chain_ready C eph (store_skipped C eph c s)" if "chain_ready C eph s"
    using that get_receiver_chain_update by (fastforce simp: chain_ready_def store_skipped_eq)
  show "skip_message_keys C eph s c n = skip_message_keys C eph (store_skipped C eph c s) (ratchet C 1 c) n"
    if ready: "chain_ready C eph s" and less: "ck_index c < n"
  proof -
    obtain ch i where "get_receiver_chain s eph = Ok (Some (ch, i))" "hash_ok C"
      using ready by (auto simp: chain_ready_def)
    then show ?thesis
      using less by (subst skip_message_keys.simps)
        (simp add: skip_message_key_def message_keys_keys_at set_message_keys_eq store_skipped_eq next_chain_key_ratchet
          del: ChainKey_next_Ok)
  qed
  show "skip_message_keys C eph s c n = Ok (c, s)" if "\<not> ck_index c < n"
    using that by (subst skip_message_keys.simps) simp
qed

lemma fold_store_skipped:
  assumes "get_receiver_chain s eph = Ok (Some (c, i))"
  shows "fold (store_skipped C eph) cks s = update_chain s i (c\<lparr>ch_message_keys :=
    fold insert_skipped (map (\<lambda>ck. message_key_structure (keys_at C ck)) cks) (ch_message_keys c)\<rparr>)"
  using assms
proof (induction cks arbitrary: s c)
  case Nil
  then have "(ss_receiver_chains s)[i := c] = ss_receiver_chains s"
    using get_receiver_chain_index by (metis list_update_id)
  then show ?case by simp
next
  case (Cons ck cks)
  let ?c = "c\<lparr>ch_message_keys := insert_skipped (message_key_structure (keys_at C ck)) (ch_message_keys c)\<rparr>"
  have r: "get_receiver_chain (update_chain s i ?c) eph = Ok (Some (?c, i))"
    using Cons.prems by (rule get_receiver_chain_update) simp
  have "ss_receiver_chains (s\<lparr>ss_receiver_chains := x\<rparr>) = x" for x by simp
  with Cons.IH [OF r] store_skipped_eq [OF Cons.prems, of C ck] show ?case by simp
qed

lemma ratchet_funpow: "(ratchet C (Suc 0) ^^ n) ck = ratchet C n ck"
  by (induction n) (simp_all add: ratchet_add)

text \<open>The loop from chain key number \<open>m\<close> of a chain to number \<open>n\<close>.\<close>

lemma skip_message_keys_run:
  assumes "hash_ok C" "ck_index base = 0" "m \<le> unat n"
    and r: "get_receiver_chain s eph = Ok (Some (c, i))"
  shows "skip_message_keys C eph s (ratchet C m base) n = Ok (ratchet C (unat n) base,
    update_chain s i (c\<lparr>ch_message_keys := fold insert_skipped
      (map (\<lambda>j. message_key_structure (keys_at C (ratchet C j base))) [m..<unat n]) (ch_message_keys c)\<rparr>))"
proof -
  have m: "m < 4294967296" using assms(3) unat_u32_less [of n] by (rule le_less_trans)
  then have idx: "unat (ck_index (ratchet C m base)) = m" by (simp add: assms(2) unat_of_nat)
  have le: "ck_index (ratchet C m base) \<le> n" using idx assms(3) by (simp add: word_le_nat_alt)
  have ready: "chain_ready C eph s" using assms by (auto simp: chain_ready_def)
  have "skip_message_keys C eph s (ratchet C m base) n =
      Ok (ratchet C (unat n - m) (ratchet C m base),
          fold (store_skipped C eph) (map (\<lambda>j. ratchet C j (ratchet C m base)) [0..<unat n - m]) s)"
    using session_loop.loop_result [OF ready le] unfolding session_loop.passed_def idx
    by (simp add: ratchet_funpow)
  then show ?thesis
    using assms(3) map_upt_shift [of "\<lambda>j. message_key_structure (keys_at C (ratchet C j base))" m "unat n"]
    by (simp add: ratchet_add fold_store_skipped [OF r] comp_def)
qed


section \<open>A receiver chain refines the window\<close>

text \<open>A chain that starts at counter 0, as \<open>create_chain\<close> and \<open>derive_keys\<close> make them.\<close>

definition chain_base :: "('sc, 'pt, 'r) crypto \<Rightarrow> ChainKey \<Rightarrow> bool" where
  "chain_base C base \<longleftrightarrow> hash_ok C \<and> ChainKey_wf base \<and> ck_index base = 0 \<and> ck_kdf base = kdf_v3"

abbreviation skipped_entry :: "('sc, 'pt, 'r) crypto \<Rightarrow> ChainKey \<Rightarrow> nat \<Rightarrow> Chain_MessageKey" where
  "skipped_entry C base j \<equiv> message_key_structure (keys_at C (ratchet C j base))"

definition chain_sync :: "('sc, 'pt, 'r) crypto \<Rightarrow> ChainKey \<Rightarrow> window \<Rightarrow> Chain \<Rightarrow> bool" where
  "chain_sync C base w c \<longleftrightarrow>
     window_inv w \<and> win_next w < 4294967296 \<and>
     ch_chain_key c = Some (chain_key_structure (ratchet C (win_next w) base)) \<and>
     ch_message_keys c = map (skipped_entry C base) (win_skipped w)"

lemma cmk_index_skipped_entry:
  "chain_base C base \<Longrightarrow> cmk_index (skipped_entry C base j) = word_of_nat j"
  by (simp add: message_key_structure_def chain_base_def message_keys_keys_at)

lemma position_skipped_entry:
  assumes "chain_base C base" "\<forall>j\<in>set js. j < 4294967296"
  shows "position (\<lambda>m. cmk_index m = n) (map (skipped_entry C base) js) = position (\<lambda>j. j = unat n) js"
  unfolding position_map cmk_index_skipped_entry [OF assms(1)]
proof (rule position_cong)
  fix j assume "j \<in> set js"
  then have "unat (word_of_nat j :: u32) = j" using assms(2) by (simp add: unat_of_nat)
  then show "(word_of_nat j = n) = (j = unat n)" by (metis word_unat_eq_iff)
qed

lemma unat_ck_index:
  assumes "chain_base C base" "m < 4294967296"
  shows "unat (ck_index (ratchet C m base)) = m"
  using assms by (simp add: chain_base_def unat_of_nat)

lemma message_key_old:
  assumes base: "chain_base C base" and sync: "chain_sync C base w c" and old: "unat n < win_next w"
    and r: "get_receiver_chain s eph = Ok (Some (c, i))"
  shows "unat n \<in> set (win_skipped w) \<Longrightarrow>
      get_or_create_message_key C s eph (ratchet C (win_next w) base) n =
        Ok (keys_at C (ratchet C (unat n) base), update_chain s i
          (c\<lparr>ch_message_keys := map (skipped_entry C base) (remove1 (unat n) (win_skipped w))\<rparr>))"
    and "unat n \<notin> set (win_skipped w) \<Longrightarrow>
      get_or_create_message_key C s eph (ratchet C (win_next w) base) n =
        Err (DuplicatedMessage (word_of_nat (win_next w)) n)"
proof -
  have next_small: "win_next w < 4294967296" and inv: "window_inv w" using sync by (simp_all add: chain_sync_def)
  have gt: "ck_index (ratchet C (win_next w) base) > n"
    using old unat_ck_index [OF base next_small] by (simp add: word_less_nat_alt)
  have small: "\<forall>j\<in>set (win_skipped w). j < 4294967296"
    using inv next_small by (auto simp: window_inv_def intro: less_trans)
  note pos = position_skipped_entry [OF base small, of n]
  have keys: "ch_message_keys c = map (skipped_entry C base) (win_skipped w)" using sync by (simp add: chain_sync_def)
  have mk: "mk_counter (keys_at C (ratchet C (unat n) base)) = n" "MessageKeys_wf (keys_at C (ratchet C (unat n) base))"
    using base message_keys_keys_at [of C] by (simp_all add: chain_base_def)
  show "get_or_create_message_key C s eph (ratchet C (win_next w) base) n =
        Ok (keys_at C (ratchet C (unat n) base), update_chain s i
          (c\<lparr>ch_message_keys := map (skipped_entry C base) (remove1 (unat n) (win_skipped w))\<rparr>))"
    if mem: "unat n \<in> set (win_skipped w)"
  proof -
    obtain p where p: "position (\<lambda>x. x = unat n) (win_skipped w) = Some p"
      "remove_at p (win_skipped w) = remove1 (unat n) (win_skipped w)" "p < length (win_skipped w)"
      "win_skipped w ! p = unat n"
      using position_eq_remove1 [OF mem] .
    have "get_message_keys s eph n = Ok (Some (keys_at C (ratchet C (unat n) base)), update_chain s i
        (c\<lparr>ch_message_keys := remove_at p (ch_message_keys c)\<rparr>))"
      using get_message_keys_Some [OF r _ _ mk(2), of p] mk(1) pos p by (simp add: keys)
    with gt p show ?thesis
      by (simp add: get_or_create_message_key_def Let_def keys remove_at_map del: ck_index_ratchet)
  qed
  show "get_or_create_message_key C s eph (ratchet C (win_next w) base) n =
        Err (DuplicatedMessage (word_of_nat (win_next w)) n)"
    if "unat n \<notin> set (win_skipped w)"
  proof -
    have "position (\<lambda>m. cmk_index m = n) (ch_message_keys c) = None"
      unfolding keys pos using that by auto
    then have "get_message_keys s eph n = Ok (None, s)"
      by (simp add: get_message_keys_def r del: position_None)
    with gt base show ?thesis by (simp add: get_or_create_message_key_def Let_def chain_base_def)
  qed
qed

lemma message_key_new:
  assumes base: "chain_base C base" and sync: "chain_sync C base w c" and new: "win_next w \<le> unat n"
    and r: "get_receiver_chain s eph = Ok (Some (c, i))"
  shows "unat n - win_next w \<le> MAX_FORWARD_JUMPS \<Longrightarrow>
      get_or_create_message_key C s eph (ratchet C (win_next w) base) n =
        Ok (keys_at C (ratchet C (unat n) base), update_chain s i
          (c\<lparr>ch_message_keys := map (skipped_entry C base)
               (take MAX_MESSAGE_KEYS (rev [win_next w..<unat n] @ win_skipped w)),
             ch_chain_key := Some (chain_key_structure (ratchet C (Suc (unat n)) base))\<rparr>))"
    and "unat n - win_next w > MAX_FORWARD_JUMPS \<Longrightarrow>
      get_or_create_message_key C s eph (ratchet C (win_next w) base) n =
        Err (InvalidMessage ''message from too far into the future'')"
proof -
  let ?m = "win_next w"
  have h: "hash_ok C" and idx0: "ck_index base = 0" using base by (simp_all add: chain_base_def)
  have small: "?m < 4294967296" and inv: "window_inv w"
    and keys: "ch_message_keys c = map (skipped_entry C base) (win_skipped w)"
    using sync by (simp_all add: chain_sync_def)
  note idx = unat_ck_index [OF base small]
  have le: "ck_index (ratchet C ?m base) \<le> n" using idx new by (simp add: word_le_nat_alt)
  then have nlt: "\<not> n < ck_index (ratchet C ?m base)" by simp
  have jump: "unat (n - ck_index (ratchet C ?m base)) = unat n - ?m"
    using unat_minus_of_le [OF le] idx by simp
  show "get_or_create_message_key C s eph (ratchet C ?m base) n =
      Err (InvalidMessage ''message from too far into the future'')" if "unat n - ?m > MAX_FORWARD_JUMPS"
    using that nlt le jump unfolding get_or_create_message_key_def Let_def by (simp del: ck_index_ratchet)
  assume near: "unat n - ?m \<le> MAX_FORWARD_JUMPS"
  let ?ks = "fold insert_skipped (map (skipped_entry C base) [?m..<unat n]) (ch_message_keys c)"
  have len: "length (ch_message_keys c) \<le> MAX_MESSAGE_KEYS"
    using inv by (simp add: keys window_inv_def)
  have ks: "?ks = map (skipped_entry C base) (take MAX_MESSAGE_KEYS (rev [?m..<unat n] @ win_skipped w))"
    using session_skips.newest_first_fold_ins [OF len] by (simp add: keys rev_map take_map)
  let ?c1 = "c\<lparr>ch_message_keys := ?ks\<rparr>"
  have loop: "skip_message_keys C eph s (ratchet C ?m base) n = Ok (ratchet C (unat n) base, update_chain s i ?c1)"
    by (rule skip_message_keys_run [OF h idx0 new r])
  have r1: "get_receiver_chain (update_chain s i ?c1) eph = Ok (Some (?c1, i))"
    by (rule get_receiver_chain_update [OF r]) simp
  have nxt: "ChainKey_next_chain_key C (ratchet C (unat n) base) = Ok (ratchet C (Suc (unat n)) base)"
    by (simp add: next_chain_key_ratchet ratchet_add del: ChainKey_next_Ok)
  show "get_or_create_message_key C s eph (ratchet C ?m base) n =
        Ok (keys_at C (ratchet C (unat n) base), update_chain s i
          (c\<lparr>ch_message_keys := map (skipped_entry C base)
               (take MAX_MESSAGE_KEYS (rev [?m..<unat n] @ win_skipped w)),
             ch_chain_key := Some (chain_key_structure (ratchet C (Suc (unat n)) base))\<rparr>))"
    using near nlt le jump loop nxt set_receiver_chain_key_eq [OF r1] message_keys_keys_at [OF h]
    unfolding get_or_create_message_key_def Let_def ks
    by (simp del: ck_index_ratchet ChainKey_next_Ok)
qed


section \<open>Decrypting what the sender of a chain encrypted\<close>

text \<open>The message that a sender makes at counter \<open>n\<close> of the chain that starts with \<open>base\<close>.\<close>

definition sender_message ::
    "('sc, 'pt, 'r) crypto \<Rightarrow> wire_SignalMessage prost \<Rightarrow> ChainKey \<Rightarrow> PublicKey \<Rightarrow> IdentityKey \<Rightarrow> IdentityKey
       \<Rightarrow> u32 \<Rightarrow> u32 \<Rightarrow> bytes \<Rightarrow> SignalMessage sresult" where
  "sender_message C P base eph sender receiver prev n ptext =
     (let keys = keys_at C (ratchet C (unat n) base) in
      rbind (aes_256_cbc_encrypt C ptext (mk_cipher_key keys) (mk_iv keys)) (\<lambda>ctext.
      SignalMessage_new C P 3 (mk_mac_key keys) eph n prev ctext sender receiver))"

definition session_sync ::
    "('sc, 'pt, 'r) crypto \<Rightarrow> ChainKey \<Rightarrow> PublicKey \<Rightarrow> IdentityKey \<Rightarrow> IdentityKey \<Rightarrow> window \<Rightarrow> SessionState \<Rightarrow> bool" where
  "session_sync C base eph sender receiver w s \<longleftrightarrow>
     chain_base C base \<and> ss_sender_chain s \<noteq> None \<and> session_version s = Ok 3 \<and>
     remote_identity_key s = Ok (Some sender) \<and> local_identity_key s = Ok receiver \<and>
     (\<exists>c i. get_receiver_chain s eph = Ok (Some (c, i)) \<and> chain_sync C base w c)"

lemma sender_message_total:
  assumes "hash_ok C" "cbc_ok C"
  shows "\<exists>m. sender_message C P base eph sender receiver prev n ptext = Ok m"
proof -
  have "MessageKeys_wf (keys_at C (ratchet C (unat n) base))" by (rule message_keys_keys_at [OF assms(1)])
  then show ?thesis
    using SignalMessage_new_total [OF assms(1)]
    by (simp add: sender_message_def Let_def MessageKeys_wf_def aes_256_cbc_encrypt_total [OF assms(2)])
qed

lemma session_sync_chain_key:
  assumes "session_sync C base eph sender receiver w s"
  obtains c i where "get_receiver_chain s eph = Ok (Some (c, i))" "chain_sync C base w c"
    "get_receiver_chain_key s eph = Ok (Some (ratchet C (win_next w) base))"
proof -
  obtain c i where ci: "get_receiver_chain s eph = Ok (Some (c, i))" "chain_sync C base w c"
    using assms by (auto simp: session_sync_def)
  have "get_receiver_chain_key s eph = Ok (Some (ratchet C (win_next w) base))"
    using assms ci
    by (intro get_receiver_chain_key_eq [OF ci(1)])
       (auto simp: session_sync_def chain_sync_def chain_base_def ChainKey_wf_ratchet)
  with ci show thesis by (rule that)
qed

text \<open>
  Decryption once the chain key is at hand, reduced to the choice of the message key. The
  chain is one of the state, or was just made by a step of the Diffie-Hellman ratchet.
\<close>

lemma decrypt_with_chain:
  assumes state: "has_sender_chain s = Ok True" "session_version s = Ok 3"
    and create: "get_or_create_chain_key C s eph rng = (Ok (ck, s1), rng')"
    and msg: "sender_message C P base eph sender receiver prev n ptext = Ok m"
  shows "decrypt_message_with_state C s m rng = (rbind
    (get_or_create_message_key C s1 eph ck n) (\<lambda>(message_keys, state).
       rbind (remote_identity_key state) (\<lambda>remote.
       rbind (ok_or remote InvalidSessionStructure) (\<lambda>their_identity_key.
       rbind (local_identity_key state) (\<lambda>our_identity_key.
       rbind (SignalMessage_verify_mac C m their_identity_key our_identity_key
                (mk_mac_key message_keys)) (\<lambda>mac_valid.
       if \<not> mac_valid then Err InvalidCiphertext
       else
       rbind (aes_256_cbc_decrypt C (sm_ciphertext m) (mk_cipher_key message_keys)
                (mk_iv message_keys)) (\<lambda>ptext.
       rbind (clear_unacknowledged_pre_key_message state) (\<lambda>state.
       Ok (ptext, state)))))))), rng')"
proof -
  obtain ctext where new: "SignalMessage_new C P 3 (mk_mac_key (keys_at C (ratchet C (unat n) base)))
      eph n prev ctext sender receiver = Ok m"
    using msg by (auto simp: sender_message_def Let_def result_simps)
  show ?thesis
    unfolding decrypt_message_with_state_def Let_def
    by (simp add: state SignalMessage_new_Ok [OF new] create)
qed

lemma decrypt_with_keys:
  assumes "cbc_ok C" and state: "has_sender_chain s = Ok True" "session_version s = Ok 3"
    and create: "get_or_create_chain_key C s eph rng = (Ok (ck, s1), rng')"
    and msg: "sender_message C P base eph sender receiver prev n ptext = Ok m"
    and key: "get_or_create_message_key C s1 eph ck n =
      Ok (keys_at C (ratchet C (unat n) base), update_chain s1 i c')"
    and sync: "session_sync C base eph sender receiver w s1"
  shows "decrypt_message_with_state C s m rng =
    (Ok (ptext, (update_chain s1 i c')\<lparr>ss_pending_pre_key := None\<rparr>), rng')"
proof -
  let ?k = "keys_at C (ratchet C (unat n) base)"
  obtain ctext where aes: "aes_256_cbc_encrypt C ptext (mk_cipher_key ?k) (mk_iv ?k) = Ok ctext"
    and new: "SignalMessage_new C P 3 (mk_mac_key ?k) eph n prev ctext sender receiver = Ok m"
    using msg by (auto simp: sender_message_def Let_def result_simps)
  have ids: "remote_identity_key s1 = Ok (Some sender)" "local_identity_key s1 = Ok receiver"
    using sync by (simp_all add: session_sync_def)
  show ?thesis
    unfolding decrypt_with_chain [OF state create msg] key
    by (simp add: ids SignalMessage_verify_own_mac [OF new] SignalMessage_new_Ok [OF new]
        aes_cbc_decrypt_encrypt [OF assms(1) aes] clear_unacknowledged_pre_key_message_def)
qed

lemma session_sync_update:
  assumes "session_sync C base eph sender receiver w s" "get_receiver_chain s eph = Ok (Some (c, i))"
    and "chain_sync C base w' c'" "ch_sender_ratchet_key c' = ch_sender_ratchet_key c"
  shows "session_sync C base eph sender receiver w' ((update_chain s i c')\<lparr>ss_pending_pre_key := None\<rparr>)"
  using assms(1,3) get_receiver_chain_update [OF assms(2,4)] by (auto simp: session_sync_def)

lemma message_key_accept:
  assumes base: "chain_base C base" and cs: "chain_sync C base w c"
    and r: "get_receiver_chain s eph = Ok (Some (c, i))"
    and acc: "window_accept w (unat n) = Some w'" and last: "n \<noteq> - 1"
  shows "\<exists>c'. get_or_create_message_key C s eph (ratchet C (win_next w) base) n =
      Ok (keys_at C (ratchet C (unat n) base), update_chain s i c') \<and>
      chain_sync C base w' c' \<and> ch_sender_ratchet_key c' = ch_sender_ratchet_key c"
proof -
  have inv': "window_inv w'" using window_accept_inv [OF _ acc] cs by (simp add: chain_sync_def)
  show ?thesis
  proof (cases "unat n < win_next w")
    case True
    with acc have "unat n \<in> set (win_skipped w)"
      "w' = \<lparr>win_next = win_next w, win_skipped = remove1 (unat n) (win_skipped w)\<rparr>"
      by (auto simp: window_accept_def split: if_splits)
    with message_key_old(1) [OF base cs True r] cs inv' show ?thesis
      by (intro exI [of _ "c\<lparr>ch_message_keys := map (skipped_entry C base) (remove1 (unat n) (win_skipped w))\<rparr>"])
         (simp add: chain_sync_def)
  next
    case False
    then have jump: "unat n - win_next w \<le> MAX_FORWARD_JUMPS" and w': "w' = \<lparr>win_next = Suc (unat n),
        win_skipped = take MAX_MESSAGE_KEYS (rev [win_next w..<unat n] @ win_skipped w)\<rparr>"
      using acc by (auto simp: window_accept_def split: if_splits)
    have "unat n \<noteq> 4294967295" using last by (simp add: unat_u32_max)
    with unat_u32_less [of n] have "Suc (unat n) < 4294967296" by simp
    with message_key_new(1) [OF base cs _ r jump] False inv' w' show ?thesis
      by (intro exI [of _ "c\<lparr>ch_message_keys := map (skipped_entry C base) (win_skipped w'),
          ch_chain_key := Some (chain_key_structure (ratchet C (Suc (unat n)) base))\<rparr>"])
         (simp add: chain_sync_def)
  qed
qed

lemma decrypt_accept_from:
  assumes cbc: "cbc_ok C" and state: "has_sender_chain s = Ok True" "session_version s = Ok 3"
    and create: "get_or_create_chain_key C s eph rng = (Ok (ratchet C (win_next w) base, s1), rng')"
    and msg: "sender_message C P base eph sender receiver prev n ptext = Ok m"
    and sync: "session_sync C base eph sender receiver w s1"
    and acc: "window_accept w (unat n) = Some w'" and last: "n \<noteq> - 1"
  shows "\<exists>s'. decrypt_message_with_state C s m rng = (Ok (ptext, s'), rng') \<and>
    session_sync C base eph sender receiver w' s'"
proof -
  obtain c i where r: "get_receiver_chain s1 eph = Ok (Some (c, i))" and cs: "chain_sync C base w c"
    using session_sync_chain_key [OF sync] by blast
  have base: "chain_base C base" using sync by (simp add: session_sync_def)
  obtain c' where c': "get_or_create_message_key C s1 eph (ratchet C (win_next w) base) n =
      Ok (keys_at C (ratchet C (unat n) base), update_chain s1 i c')"
    "chain_sync C base w' c'" "ch_sender_ratchet_key c' = ch_sender_ratchet_key c"
    using message_key_accept [OF base cs r acc last] by blast
  show ?thesis
    using decrypt_with_keys [OF cbc state create msg c'(1) sync] session_sync_update [OF sync r c'(2,3)]
    by blast
qed

lemma session_sync_existing:
  assumes "session_sync C base eph sender receiver w s"
  shows "has_sender_chain s = Ok True" "session_version s = Ok 3"
    "get_or_create_chain_key C s eph rng = (Ok (ratchet C (win_next w) base, s), rng)"
proof -
  have "get_receiver_chain_key s eph = Ok (Some (ratchet C (win_next w) base))"
    using session_sync_chain_key [OF assms] by blast
  then show "get_or_create_chain_key C s eph rng = (Ok (ratchet C (win_next w) base, s), rng)"
    by (simp add: get_or_create_chain_key_def)
qed (use assms in \<open>auto simp: session_sync_def has_sender_chain_def\<close>)

lemma decrypt_accept:
  assumes "cbc_ok C" "sender_message C P base eph sender receiver prev n ptext = Ok m"
    and sync: "session_sync C base eph sender receiver w s"
    and "window_accept w (unat n) = Some w'" "n \<noteq> - 1"
  shows "\<exists>s'. decrypt_message_with_state C s m rng = (Ok (ptext, s'), rng) \<and>
    session_sync C base eph sender receiver w' s'"
  using decrypt_accept_from [OF assms(1) session_sync_existing [OF sync] assms(2) sync assms(4,5)] .

lemma decrypt_reject:
  assumes msg: "sender_message C P base eph sender receiver prev n ptext = Ok m"
    and sync: "session_sync C base eph sender receiver w s"
    and rej: "window_accept w (unat n) = None"
  shows "decrypt_message_with_state C s m rng =
    (Err (if unat n < win_next w then DuplicatedMessage (word_of_nat (win_next w)) n
          else InvalidMessage ''message from too far into the future''), rng)"
proof -
  obtain c i where r: "get_receiver_chain s eph = Ok (Some (c, i))" and cs: "chain_sync C base w c"
    using session_sync_chain_key [OF sync] by blast
  have base: "chain_base C base" using sync by (simp add: session_sync_def)
  show ?thesis
    using rej message_key_old(2) [OF base cs _ r] message_key_new(2) [OF base cs _ r]
    unfolding decrypt_with_chain [OF session_sync_existing [OF sync] msg]
    by (auto simp: window_accept_def split: if_splits)
qed


text \<open>The messages \<open>msgs\<close> are what the sender made of \<open>ptexts\<close>, one for every counter.\<close>

definition sender_messages ::
    "('sc, 'pt, 'r) crypto \<Rightarrow> wire_SignalMessage prost \<Rightarrow> ChainKey \<Rightarrow> PublicKey \<Rightarrow> IdentityKey \<Rightarrow> IdentityKey
       \<Rightarrow> (u32 \<Rightarrow> u32) \<Rightarrow> (nat \<Rightarrow> bytes) \<Rightarrow> (u32 \<Rightarrow> SignalMessage) \<Rightarrow> bool" where
  "sender_messages C P base eph sender receiver prevs ptexts msgs \<longleftrightarrow>
     (\<forall>n. sender_message C P base eph sender receiver (prevs n) n (ptexts (unat n)) = Ok (msgs n))"

interpretation session_window: window_refinement
  "\<lambda>s n. fst (decrypt_message_with_state C s (msgs n) rng)" ptexts
  "\<lambda>w s. cbc_ok C \<and> sender_messages C P base eph sender receiver prevs ptexts msgs \<and>
     session_sync C base eph sender receiver w s"
  for C :: "('sc, 'pt, 'r) crypto" and P base eph sender receiver prevs ptexts msgs rng
proof unfold_locales
  fix w s n w'
  assume rep: "cbc_ok C \<and> sender_messages C P base eph sender receiver prevs ptexts msgs \<and>
    session_sync C base eph sender receiver w s"
  then have msg: "sender_message C P base eph sender receiver (prevs n) n (ptexts (unat n)) = Ok (msgs n)"
    by (simp add: sender_messages_def)
  show "window_inv w" using rep by (auto simp: session_sync_def chain_sync_def)
  show "\<exists>s'. fst (decrypt_message_with_state C s (msgs n) rng) = Ok (ptexts (unat n), s') \<and>
      cbc_ok C \<and> sender_messages C P base eph sender receiver prevs ptexts msgs \<and>
      session_sync C base eph sender receiver w' s'"
    if "window_accept w (unat n) = Some w'" "n \<noteq> - 1"
    using decrypt_accept [OF _ msg _ that, of s rng] rep by auto
  show "\<exists>e. fst (decrypt_message_with_state C s (msgs n) rng) = Err e" if "window_accept w (unat n) = None"
    using decrypt_reject [OF msg _ that, of s rng] rep by auto
qed

section \<open>Properties of the ratchet\<close>

text \<open>A receiver with one chain, in step with the sender.\<close>

definition ref_receiver :: SessionState where
  "ref_receiver = (ref_session [ref_chain])\<lparr>ss_sender_chain := Some ref_chain,
     ss_remote_identity_public := IdentityKey_serialize (IdentityKey (ref_key 1)),
     ss_local_identity_public := IdentityKey_serialize (IdentityKey (ref_key 2))\<rparr>"

abbreviation ref_base :: ChainKey where
  "ref_base \<equiv> \<lparr>ck_kdf = kdf_v3, ck_key = replicate 32 1, ck_index = 0\<rparr>"

lemma ref_receiver_sync:
  "session_sync ref_crypto ref_base (ref_key 7) (IdentityKey (ref_key 1)) (IdentityKey (ref_key 2)) window_start
     ref_receiver"
proof -
  have "get_receiver_chain ref_receiver (ref_key 7) = Ok (Some (ref_chain, 0))"
    by (simp add: get_receiver_chain_def ref_receiver_def ref_session_def ref_chain_def pubkey.deser_ser)
  moreover have "chain_sync ref_crypto ref_base window_start ref_chain"
    by (simp add: chain_sync_def ref_chain_def chain_key_structure_def)
  moreover have "IdentityKey_serialize k \<noteq> []" for k
    by (simp add: IdentityKey_serialize_def PublicKey_serialize_eq)
  then have "remote_identity_key ref_receiver = Ok (Some (IdentityKey (ref_key 1)))"
    "local_identity_key ref_receiver = Ok (IdentityKey (ref_key 2))"
    by (simp_all add: remote_identity_key_def local_identity_key_def ref_receiver_def idkey.deser_ser IdentityKey_wf_def)
  ultimately show ?thesis
    by (auto simp: session_sync_def chain_base_def ChainKey_wf_def ref_receiver_def session_version_def ref_session_def)
qed

lemma ref_messages:
  obtains msgs where "sender_messages ref_crypto (ref_prost c_wire_SignalMessage) ref_base (ref_key 7)
    (IdentityKey (ref_key 1)) (IdentityKey (ref_key 2)) (\<lambda>n. 0) ptexts msgs"
proof -
  have "\<forall>n. \<exists>m. sender_message ref_crypto (ref_prost c_wire_SignalMessage) ref_base (ref_key 7)
      (IdentityKey (ref_key 1)) (IdentityKey (ref_key 2)) 0 n (ptexts (unat n)) = Ok m"
    using sender_message_total [OF ref_hash_ok ref_cbc_ok] by blast
  from choice [OF this] that show thesis by (auto simp: sender_messages_def)
qed

text \<open>
  C3. Any order of delivery: the first \<open>N \<le> 2000\<close> messages of a chain, delivered in any
  order, are all decrypted, each to the plaintext that was encrypted.
\<close>

theorem any_order_delivery:
  assumes "cbc_ok C" "sender_messages C P base eph sender receiver prevs ptexts msgs"
    and "session_sync C base eph sender receiver \<lparr>win_next = 0, win_skipped = []\<rparr> s"
    and "N \<le> 2000" "mset ns = mset (map word_of_nat [0..<N])"
  shows "fst (deliver (\<lambda>s n. fst (decrypt_message_with_state C s (msgs n) rng)) s ns) =
    map (\<lambda>n. (n, ptexts (unat n))) ns"
  using assms by (intro session_window.any_order) (auto simp: consts_defs)

theorem any_order_delivery_witness:
  "\<exists>msgs. fst (deliver (\<lambda>s n. fst (decrypt_message_with_state ref_crypto s (msgs n) 0)) ref_receiver [2, 0, 1]) =
     [(2, [2]), (0, [0]), (1, [1])]"
proof -
  obtain msgs where msgs: "sender_messages ref_crypto (ref_prost c_wire_SignalMessage) ref_base (ref_key 7)
      (IdentityKey (ref_key 1)) (IdentityKey (ref_key 2)) (\<lambda>n. 0) (\<lambda>i. [word_of_nat i]) msgs"
    by (rule ref_messages)
  have order: "mset [2, 0, 1] = mset (map word_of_nat [0..<3] :: u32 list)"
    by (simp add: upt_rec)
  from any_order_delivery [OF ref_cbc_ok msgs ref_receiver_sync _ order, of 0] show ?thesis by auto
qed

text \<open>
  C4. No replay: whatever sequence of messages of a chain is delivered, with losses,
  duplicates and reordering, no message is accepted twice, and every accepted message
  gives the plaintext that was encrypted (the last counter \<open>2 ^ 32 - 1\<close> excepted, after which
  the index wraps around).
\<close>

theorem no_message_accepted_twice:
  assumes "cbc_ok C" "sender_messages C P base eph sender receiver prevs ptexts msgs"
    and "session_sync C base eph sender receiver w s" "- 1 \<notin> set ns"
    and "deliver (\<lambda>s n. fst (decrypt_message_with_state C s (msgs n) rng)) s ns = (accepted, s')"
  shows "distinct (map fst accepted) \<and> (\<forall>(n, ptext)\<in>set accepted. ptext = ptexts (unat n))"
  using assms by (intro session_window.no_replay) auto

theorem no_message_accepted_twice_witness:
  "\<exists>msgs accepted s'. deliver (\<lambda>s n. fst (decrypt_message_with_state ref_crypto s (msgs n) 0)) ref_receiver [1, 1, 0, 1] =
     (accepted, s') \<and> distinct (map fst accepted)"
proof -
  obtain msgs where msgs: "sender_messages ref_crypto (ref_prost c_wire_SignalMessage) ref_base (ref_key 7)
      (IdentityKey (ref_key 1)) (IdentityKey (ref_key 2)) (\<lambda>n. 0) (\<lambda>i. [word_of_nat i]) msgs"
    by (rule ref_messages)
  obtain accepted s' where d: "deliver (\<lambda>s n. fst (decrypt_message_with_state ref_crypto s (msgs n) 0)) ref_receiver
      [1, 1, 0, 1] = (accepted, s')" by fastforce
  have "- 1 \<notin> set [1, 1, 0, 1 :: u32]" by simp
  from no_message_accepted_twice [OF ref_cbc_ok msgs ref_receiver_sync this d] d show ?thesis by blast
qed

text \<open>
  C5. A message whose counter is behind the chain and not among the skipped ones is
  rejected as a duplicate, one that is more than 2000 ahead is rejected as too far in the
  future, and all others within the window are accepted: the receiving side refines the
  abstract window.
\<close>

theorem decrypt_refines_window:
  assumes "cbc_ok C" "sender_message C P base eph sender receiver prev n ptext = Ok m"
    and "session_sync C base eph sender receiver w s" "n \<noteq> - 1"
  shows "case window_accept w (unat n) of
      Some w' \<Rightarrow> \<exists>s'. decrypt_message_with_state C s m rng = (Ok (ptext, s'), rng) \<and>
                  session_sync C base eph sender receiver w' s'
    | None \<Rightarrow> decrypt_message_with_state C s m rng =
        (Err (if unat n < win_next w then DuplicatedMessage (word_of_nat (win_next w)) n
              else InvalidMessage ''message from too far into the future''), rng)"
  using decrypt_accept [OF assms(1-3) _ assms(4)] decrypt_reject [OF assms(2,3)]
  by (auto split: option.splits)

theorem decrypt_refines_window_witness:
  "\<exists>m s'. sender_message ref_crypto (ref_prost c_wire_SignalMessage) ref_base (ref_key 7) (IdentityKey (ref_key 1))
       (IdentityKey (ref_key 2)) 0 3 [5, 6] = Ok m \<and>
     decrypt_message_with_state ref_crypto ref_receiver m 0 = (Ok ([5, 6], s'), 0)"
proof -
  obtain m where m: "sender_message ref_crypto (ref_prost c_wire_SignalMessage) ref_base (ref_key 7)
      (IdentityKey (ref_key 1)) (IdentityKey (ref_key 2)) 0 3 [5, 6] = Ok m"
    using sender_message_total [OF ref_hash_ok ref_cbc_ok] by blast
  obtain w' where w': "window_accept window_start (unat (3 :: u32)) = Some w'"
    by (simp add: window_accept_def consts_defs)
  have "(3 :: u32) \<noteq> - 1" by simp
  from decrypt_refines_window [OF ref_cbc_ok m ref_receiver_sync this, of 0] m w' show ?thesis by auto
qed

end
