(* ===== verification/Session_Protocol.thy ===== *)
theory Session_Protocol
  imports Session_Cipher
begin

text \<open>
  The one-to-one protocol as a whole: what \<open>message_encrypt\<close>, \<open>message_decrypt_signal\<close>,
  \<open>message_decrypt_prekey\<close> and \<open>process_prekey_bundle\<close> do to the stores, proved once against the
  contract of a protocol store, and the exchanges between two parties that follow.
\<close>

section \<open>The sending side\<close>

text \<open>A session whose sending chain started at \<open>base\<close> and is about to use counter \<open>k\<close>.\<close>

definition sender_ready ::
    "('sc, 'pt, 'r) crypto \<Rightarrow> ChainKey \<Rightarrow> PublicKey \<Rightarrow> IdentityKey \<Rightarrow> IdentityKey \<Rightarrow> nat \<Rightarrow> SessionState \<Rightarrow> bool" where
  "sender_ready C base eph us them k s \<longleftrightarrow>
     chain_base C base \<and> session_version s = Ok 3 \<and>
     get_sender_chain_key s = Ok (ratchet C k base) \<and> sender_ratchet_key s = Ok eph \<and>
     local_identity_key s = Ok us \<and> remote_identity_key s = Ok (Some them)"

lemma sender_ready_advance:
  assumes "sender_ready C base eph us them k s"
  obtains s' where "set_sender_chain_key s (ratchet C (Suc k) base) = Ok s'"
    "sender_ready C base eph us them (Suc k) s'"
    "ss_receiver_chains s' = ss_receiver_chains s" "ss_pending_pre_key s' = ss_pending_pre_key s"
proof -
  obtain c where c: "ss_sender_chain s = Some c"
    using assms by (auto simp: sender_ready_def get_sender_chain_key_def result_simps)
  let ?s = "s\<lparr>ss_sender_chain := Some (c\<lparr>ch_chain_key := Some (chain_key_structure (ratchet C (Suc k) base))\<rparr>)\<rparr>"
  have wf: "ChainKey_wf (ratchet C (Suc k) base)" and kdf: "ck_kdf (ratchet C (Suc k) base) = kdf_v3"
    using assms ChainKey_wf_ratchet by (auto simp: sender_ready_def chain_base_def)
  have "set_sender_chain_key s (ratchet C (Suc k) base) = Ok ?s"
    by (simp add: set_sender_chain_key_def c)
  moreover have "get_sender_chain_key ?s = Ok (ratchet C (Suc k) base)"
    using assms wf kdf by (simp add: get_sender_chain_key_def sender_ready_def)
  then have "sender_ready C base eph us them (Suc k) ?s"
    using assms by (simp add: sender_ready_def sender_ratchet_key_def c)
  ultimately show thesis by (rule that) simp_all
qed

text \<open>What \<open>message_encrypt\<close> wraps the signal message in while the session is unacknowledged.\<close>

definition wrap_message ::
    "wire_PreKeySignalMessage prost \<Rightarrow> SessionState \<Rightarrow> IdentityKey \<Rightarrow> UnacknowledgedPreKeyMessageItems option
       \<Rightarrow> SignalMessage \<Rightarrow> CiphertextMessage sresult" where
  "wrap_message PP s us items m =
     (case items of
        None \<Rightarrow> Ok (CM_SignalMessage m)
      | Some it \<Rightarrow> rbind (PreKeySignalMessage_new PP 3 (ss_local_registration_id s) (upk_pre_key_id it)
          (upk_signed_pre_key_id it) (upk_base_key it) us m) (\<lambda>pm. Ok (CM_PreKeySignalMessage pm)))"

context protocol_store_laws
begin

lemma encrypt_step:
  assumes "cbc_ok C" and r: "sessions st a = Some r" "current_session r = Some s"
    and ready: "sender_ready C base eph us them k s"
    and items: "unacknowledged_pre_key_message_items s = Ok items"
    and trust: "known st a = None \<or> known st a = Some them" and k: "k < 4294967296"
  obtains m out s' st' where
    "sender_message C PM base eph us them (ss_previous_counter s) (word_of_nat k) ptext = Ok m"
    "wrap_message PP s us items m = Ok out"
    "message_encrypt C PM PP ptext a SS IS st = (Ok out, st')"
    "set_sender_chain_key s (ratchet C (Suc k) base) = Ok s'" "sender_ready C base eph us them (Suc k) s'"
    "ss_receiver_chains s' = ss_receiver_chains s" "ss_pending_pre_key s' = ss_pending_pre_key s"
    "sessions st' = (sessions st)(a \<mapsto> r\<lparr>current_session := Some s'\<rparr>)" "known st' = (known st)(a \<mapsto> them)"
proof -
  let ?k = "keys_at C (ratchet C k base)" and ?n = "word_of_nat k :: u32"
  have base: "chain_base C base" and h: "hash_ok C" using ready by (simp_all add: sender_ready_def chain_base_def)
  have n: "unat ?n = k" using k by (simp add: unat_of_nat)
  have idx: "ck_index (ratchet C k base) = ?n" using base by (simp add: chain_base_def)
  obtain m where msg: "sender_message C PM base eph us them (ss_previous_counter s) ?n ptext = Ok m"
    using sender_message_total [OF h assms(1)] by blast
  then obtain ctext where enc: "aes_256_cbc_encrypt C ptext (mk_cipher_key ?k) (mk_iv ?k) = Ok ctext"
    and new: "SignalMessage_new C PM 3 (mk_mac_key ?k) eph ?n (ss_previous_counter s) ctext us them = Ok m"
    by (auto simp: sender_message_def Let_def result_simps n)
  obtain out where out: "wrap_message PP s us items m = Ok out"
    by (cases items) (simp_all add: wrap_message_def PreKeySignalMessage_new_def)
  obtain s' where s': "set_sender_chain_key s (ratchet C (Suc k) base) = Ok s'"
    "sender_ready C base eph us them (Suc k) s'"
    "ss_receiver_chains s' = ss_receiver_chains s" "ss_pending_pre_key s' = ss_pending_pre_key s"
    using sender_ready_advance [OF ready] .
  have nxt: "ChainKey_next_chain_key C (ratchet C k base) = Ok (ratchet C (Suc k) base)"
    by (simp add: next_chain_key_ratchet ratchet_add del: ChainKey_next_Ok)
  obtain b st1 where st1: "save_identity IS a them st = (Ok b, st1)" "known st1 = (known st)(a \<mapsto> them)"
    "sessions st1 = sessions st" using save_identity_Ok by metis
  obtain st' where st': "store_session SS a (r\<lparr>current_session := Some s'\<rparr>) st1 = (Ok (), st')"
    "sessions st' = (sessions st1)(a \<mapsto> r\<lparr>current_session := Some s'\<rparr>)" "known st' = known st1"
    using store_session_Ok by metis
  have wrap: "(case items of
              Some items \<Rightarrow>
                sbind (slift (local_registration_id s)) (\<lambda>reg_id.
                sbind (slift (PreKeySignalMessage_new PP (ucast (3 :: u32)) reg_id (upk_pre_key_id items)
                  (upk_signed_pre_key_id items) (upk_base_key items) us m)) (\<lambda>m.
                sret (CM_PreKeySignalMessage m)))
            | None \<Rightarrow> sret (CM_SignalMessage m)) x = (Ok out, x)" for x :: 's
    using out by (auto simp: wrap_message_def local_registration_id_def result_simps split: option.splits)
  have "message_encrypt C PM PP ptext a SS IS st = (Ok out, st')"
    using ready trust items unfolding message_encrypt_def sender_ready_def
    by (simp add: sessions.load_view r session_state_def message_keys_keys_at [OF h] previous_counter_def
        enc idx new wrap nxt s' trusted_known st1 st' Let_def del: ChainKey_next_Ok ck_index_ratchet)
  then show thesis using that [OF msg out] s' st' st1 by simp
qed

end


section \<open>The Diffie-Hellman ratchet\<close>

text \<open>
  \<open>ratchet_ahead C a base s t\<close>: the session \<open>s\<close> has made the last step of the Diffie-Hellman
  ratchet, with the key pair \<open>a\<close> and the sending chain that starts at \<open>base\<close>; the session \<open>t\<close> of
  the other side has not seen it yet.
\<close>

definition ratchet_ahead ::
    "('sc, 'pt, 'r) crypto \<Rightarrow> KeyPair \<Rightarrow> ChainKey \<Rightarrow> SessionState \<Rightarrow> SessionState \<Rightarrow> bool" where
  "ratchet_ahead C a base s t \<longleftrightarrow>
     KeyPair_wf C a \<and> session_version s = Ok 3 \<and> session_version t = Ok 3 \<and>
     sender_ratchet_key s = Ok (kp_public_key a) \<and> sender_ratchet_private_key s = Ok (kp_private_key a) \<and>
     (\<exists>k. get_sender_chain_key s = Ok (ratchet C k base)) \<and>
     (\<exists>ck. get_sender_chain_key t = Ok ck) \<and>
     (\<exists>b rk0 rk1. KeyPair_wf C b \<and> sender_ratchet_private_key t = Ok (kp_private_key b) \<and>
        root_key t = Ok rk0 \<and> root_key s = Ok rk1 \<and>
        RootKey_create_chain C rk0 (kp_public_key b) (kp_private_key a) = Ok (rk1, base))"

lemma root_key_kdf:
  "root_key s = Ok rk \<Longrightarrow> session_version s = Ok 3 \<Longrightarrow> rk_kdf rk = kdf_v3 \<and> length (rk_key rk) = 32 \<and> ss_root_key s = rk_key rk"
  by (auto simp: root_key_def RootKey_new_def split: if_splits)

lemma create_chain_base:
  assumes "hash_ok C" "rk_kdf rk = kdf_v3" "RootKey_create_chain C rk pub priv = Ok (rk', base)"
  shows "chain_base C base" "rk_kdf rk' = kdf_v3" "length (rk_key rk') = 32"
  using RootKey_create_chain_Ok [OF assms(1), of rk pub priv] assms by (auto simp: chain_base_def)

text \<open>
  The state that \<open>get_or_create_chain_key\<close> makes when it meets a new ratchet key: a fresh
  receiving chain in step with the sender, and a fresh sending chain.
\<close>

lemma chain_key_created:
  assumes ok: "hash_ok C" "dh_ok C"
    and none: "get_receiver_chain s eph = Ok None" and v: "session_version s = Ok 3"
    and rk: "root_key s = Ok rk" and priv: "sender_ratchet_private_key s = Ok priv"
    and cur: "get_sender_chain_key s = Ok ck" and wf: "PublicKey_wf eph"
    and c1: "RootKey_create_chain C rk eph priv = Ok (rk1, base)"
    and gen: "KeyPair_generate C rng = (b, rng')"
    and c2: "RootKey_create_chain C rk1 eph (kp_private_key b) = Ok (rk2, base2)"
  obtains s' c i where "get_or_create_chain_key C s eph rng = (Ok (base, s'), rng')"
    "get_receiver_chain s' eph = Ok (Some (c, i))" "ch_chain_key c = Some (chain_key_structure base)"
    "ch_message_keys c = []" "session_version s' = Ok 3" "root_key s' = Ok rk2"
    "sender_ratchet_key s' = Ok (kp_public_key b)" "sender_ratchet_private_key s' = Ok (kp_private_key b)"
    "get_sender_chain_key s' = Ok base2" "ss_sender_chain s' \<noteq> None"
    "remote_identity_key s' = remote_identity_key s" "local_identity_key s' = local_identity_key s"
proof -
  have kb: "KeyPair_wf C b" using KeyPair_generate_wf [OF ok(2), of rng] by (simp add: gen)
  have rkok: "rk_kdf rk = kdf_v3" using root_key_kdf [OF rk v] by simp
  note b1 = create_chain_base [OF ok(1) rkok c1]
  note b2 = create_chain_base [OF ok(1) b1(2) c2]
  let ?s1 = "s\<lparr>ss_root_key := rk_key rk2\<rparr>"
  obtain s2 cs where s2: "add_receiver_chain ?s1 eph base = Ok s2" "s2 = ?s1\<lparr>ss_receiver_chains := cs\<rparr>"
    by (simp add: add_receiver_chain_def Let_def)
  define prev where "prev = (if ck_index ck > 0 then ck_index ck - 1 else 0)"
  obtain s4 c4 where s4: "set_sender_chain (s2\<lparr>ss_previous_counter := prev\<rparr>) b base2 = Ok s4"
    "s4 = s2\<lparr>ss_previous_counter := prev, ss_sender_chain := Some c4\<rparr>"
    by (simp add: set_sender_chain_def)
  have "get_receiver_chain_key s eph = Ok None" by (simp add: get_receiver_chain_key_def none)
  then have create: "get_or_create_chain_key C s eph rng = (Ok (base, s4), rng')"
    using cur s2 s4(1) unfolding get_or_create_chain_key_def
    by (simp add: rk priv c1 gen c2 set_root_key_def set_previous_counter_def Let_def prev_def)
  have none1: "get_receiver_chain ?s1 eph = Ok None" by (simp add: none)
  obtain c i where c: "get_receiver_chain s2 eph = Ok (Some (c, i))" "ch_chain_key c = Some (chain_key_structure base)"
    "ch_message_keys c = []"
    using add_receiver_chain_lookup [OF wf none1 s2(1)] by blast
  have v4: "session_version (s2\<lparr>ss_previous_counter := prev\<rparr>) = Ok 3" by (simp add: s2(2) v)
  have snd: "get_sender_chain_key s4 = Ok base2"
    using b2(1) by (intro get_sender_chain_key_set [OF s4(1) v4]) (simp_all add: chain_base_def)
  have pubs: "sender_ratchet_key s4 = Ok (kp_public_key b)" "sender_ratchet_private_key s4 = Ok (kp_private_key b)"
    using sender_ratchet_key_set [OF s4(1)] kb KeyPair_wf_public [OF ok(2) kb] by (simp_all add: KeyPair_wf_def)
  have root: "root_key s4 = Ok rk2"
    using b2 v by (subst root_key_eq) (simp_all add: s4(2) s2(2))
  show thesis
    by (rule that [OF create _ c(2,3) _ root pubs snd]) (simp_all add: s4(2) s2(2) c(1) [unfolded s2(2)] v)
qed

lemma ratchet_ahead_step:
  assumes ok: "hash_ok C" "dh_ok C" and ahead: "ratchet_ahead C a base s t"
    and none: "get_receiver_chain t (kp_public_key a) = Ok None"
    and ids: "remote_identity_key t = Ok (Some them)" "local_identity_key t = Ok us"
  obtains t' b base' rng' where "KeyPair_generate C rng = (b, rng')"
    "get_or_create_chain_key C t (kp_public_key a) rng = (Ok (base, t'), rng')"
    "ratchet_ahead C b base' t' s" "session_sync C base (kp_public_key a) them us window_start t'"
    "sender_ready C base' (kp_public_key b) us them 0 t'"
proof -
  obtain b0 rk0 rk1 ck where b0: "KeyPair_wf C b0" "sender_ratchet_private_key t = Ok (kp_private_key b0)"
    and rk: "root_key t = Ok rk0" "root_key s = Ok rk1"
    and c0: "RootKey_create_chain C rk0 (kp_public_key b0) (kp_private_key a) = Ok (rk1, base)"
    and cur: "get_sender_chain_key t = Ok ck"
    and a: "KeyPair_wf C a" "sender_ratchet_private_key s = Ok (kp_private_key a)"
    and v: "session_version s = Ok 3" "session_version t = Ok 3"
    and sc: "\<exists>ck. get_sender_chain_key s = Ok ck"
    using ahead by (auto simp: ratchet_ahead_def)
  have c1: "RootKey_create_chain C rk0 (kp_public_key a) (kp_private_key b0) = Ok (rk1, base)"
    using RootKey_create_chain_commute [OF ok(2) a(1) b0(1)] c0 by simp
  obtain b rng' where gen: "KeyPair_generate C rng = (b, rng')" by fastforce
  have kb: "KeyPair_wf C b" using KeyPair_generate_wf [OF ok(2), of rng] by (simp add: gen)
  have rk0: "rk_kdf rk0 = kdf_v3" using root_key_kdf [OF rk(1) v(2)] by simp
  note b1 = create_chain_base [OF ok(1) rk0 c1]
  obtain rk2 base2 where c2: "RootKey_create_chain C rk1 (kp_public_key a) (kp_private_key b) = Ok (rk2, base2)"
    using RootKey_create_chain_Ok [OF ok(1)] by blast
  have wf: "PublicKey_wf (kp_public_key a)" by (rule KeyPair_wf_public [OF ok(2) a(1)])
  obtain t' c i where t': "get_or_create_chain_key C t (kp_public_key a) rng = (Ok (base, t'), rng')"
    "get_receiver_chain t' (kp_public_key a) = Ok (Some (c, i))" "ch_chain_key c = Some (chain_key_structure base)"
    "ch_message_keys c = []" "session_version t' = Ok 3" "root_key t' = Ok rk2"
    "sender_ratchet_key t' = Ok (kp_public_key b)" "sender_ratchet_private_key t' = Ok (kp_private_key b)"
    "get_sender_chain_key t' = Ok base2" "ss_sender_chain t' \<noteq> None"
    "remote_identity_key t' = remote_identity_key t" "local_identity_key t' = local_identity_key t"
    using chain_key_created [OF ok none v(2) rk(1) b0(2) cur wf c1 gen c2] .
  have "ratchet_ahead C b base2 t' s"
    using kb t' v a rk(2) c2 sc by (auto simp: ratchet_ahead_def intro!: exI [of _ 0] exI [of _ a])
  moreover have "session_sync C base (kp_public_key a) them us window_start t'"
    using t' b1(1) ids by (auto simp: session_sync_def chain_sync_def)
  moreover have "sender_ready C base2 (kp_public_key b) us them 0 t'"
    using t' ids create_chain_base(1) [OF ok(1) b1(2) c2] by (simp add: sender_ready_def)
  ultimately show thesis using that gen t'(1) by blast
qed

section \<open>The receiving side\<close>

lemma decrypt_record_current:
  assumes "current_session r = Some s" "decrypt_message_with_state C s m rng = (Ok (ptext, s'), rng')"
  shows "decrypt_message_with_record C r m rng = (Ok (ptext, r\<lparr>current_session := Some s'\<rparr>), rng')"
  using assms by (simp add: decrypt_message_with_record_def session_state_def set_session_state_def)

lemma keeps_modify_record: "keeps fst (modify_record f)"
  by (rule keepsI) (auto simp: modify_record_def split: prod.splits result.splits)

lemma keeps_with_record [keeps_intros]:
  "keeps (\<lambda>x. f (fst x)) m \<Longrightarrow> keeps f (with_record r m)"
  by (rule keepsI) (auto simp: with_record_def split: prod.splits result.splits dest: keepsD)

lemma keeps_fst_on_fst: "keeps (\<lambda>s. s) m \<Longrightarrow> keeps fst (on_fst m)"
  by (drule keeps_on_fst) (simp add: keeps_def)

lemma keeps_reading_record [keeps_intros]: "(\<And>r. keeps f (g r)) \<Longrightarrow> keeps f (reading_record g)"
  by (simp add: keeps_def reading_record_def split_beta)

lemmas keeps_fst_intros = keeps_basic keeps_sbind keeps_If keeps_case_option keeps_case_prod
  keeps_fst_on_fst keeps_modify_record keeps_reading_record

lemma keeps_fst_part: "keeps fst m \<Longrightarrow> keeps (\<lambda>s. f (fst s)) m"
  by (simp add: keeps_def)

context protocol_store_laws
begin

lemma keeps_reads:
  "keeps f (load_session SS a)" "keeps f (is_trusted_identity IS a k d)"
  "keeps f (get_identity_key_pair IS)" "keeps f (get_local_registration_id IS)"
  "keeps f (get_pre_key PS i)" "keeps f (get_signed_pre_key SPS i)"
  by (simp_all add: keeps_def sessions.load_view trusted_known own_pair own_registration pre_keys.get_view
      signed_pre_keys.get_view)

lemma keeps_writes:
  "keeps sessions (save_identity IS a k)" "keeps pre_keys (save_identity IS a k)"
  "keeps signed_pre_keys (save_identity IS a k)" "keeps known (store_session SS a r)"
  using identity_frame session_frame by (blast intro: keepsI)+

lemma never_fails_writes:
  "never_fails (save_identity IS a k)" "never_fails (store_session SS a r)" "never_fails (remove_pre_key PS i)"
  using save_known sessions.store_view pre_keys.remove_view
  unfolding never_fails_def by (metis fst_conv is_ok.simps(1))+

lemma keeps_process_prekey_v3: "keeps fst (process_prekey_v3 C message SPS PS IS)"
  unfolding process_prekey_v3_def Let_def by (intro keeps_fst_intros keeps_reads)

lemma keeps_process_prekey:
  "keeps (\<lambda>s. sessions (fst s)) (process_prekey C message a IS PS SPS)"
  "keeps (\<lambda>s. pre_keys (fst s)) (process_prekey C message a IS PS SPS)"
  unfolding process_prekey_def Let_def
  by (intro keeps_intros keeps_fst_part [OF keeps_process_prekey_v3] keeps_reads keeps_writes)+

text \<open>
  A failed decryption leaves the storage as it was; a failed decryption of a pre-key
  message leaves the sessions and the pre-keys.
\<close>

lemma decrypt_signal_fails_clean: "fails_clean (\<lambda>s. fst s) (message_decrypt_signal C m a SS IS)"
  unfolding message_decrypt_signal_def
  by (intro fails_clean_sbind fails_clean_If fails_clean_case_prod keeps_intros keeps_reads
      fails_clean_keeps [OF keeps_basic(2)] fails_clean_never never_fails_intros never_fails_writes)

lemma decrypt_prekey_fails_clean:
  "fails_clean (\<lambda>s. sessions (fst s)) (message_decrypt_prekey C m a SS IS PS SPS)"
  "fails_clean (\<lambda>s. pre_keys (fst s)) (message_decrypt_prekey C m a SS IS PS SPS)"
proof -
  have tail: "never_fails (sbind (on_fst (store_session SS a r)) (\<lambda>_.
     sbind (case i of Some i \<Rightarrow> on_fst (remove_pre_key PS i) | None \<Rightarrow> sret ()) (\<lambda>_. sret x)))"
    for a r i x
    by (intro never_fails_intros never_fails_writes) (auto intro: never_fails_intros never_fails_writes split: option.splits)
  show "fails_clean (\<lambda>s. sessions (fst s)) (message_decrypt_prekey C m a SS IS PS SPS)"
    "fails_clean (\<lambda>s. pre_keys (fst s)) (message_decrypt_prekey C m a SS IS PS SPS)"
    unfolding message_decrypt_prekey_def Let_def
    by (intro fails_clean_sbind fails_clean_case_prod keeps_intros keeps_reads keeps_process_prekey
        fails_clean_never tail)+
qed

end

end
