(* ===== verification/Key_Exchange.thy ===== *)
theory Key_Exchange
  imports Session_Protocol
begin

text \<open>
  Establishing a session and delivering the first message: \<open>process_prekey_bundle\<close> and
  \<open>message_encrypt\<close> on one side, \<open>message_decrypt_prekey\<close> with \<open>process_prekey\<close> on the other.
\<close>

section \<open>The initiator\<close>

text \<open>The session that \<open>process_prekey_bundle\<close> makes of the one that X3DH started.\<close>

definition initiator_session :: "PreKeyBundle \<Rightarrow> KeyPair \<Rightarrow> u32 \<Rightarrow> SessionState \<Rightarrow> SessionState" where
  "initiator_session bundle base_pair reg_id s =
     s\<lparr>ss_pending_pre_key := Some
         \<lparr>pp_pre_key_id = (case pkb_pre_key_id bundle of None \<Rightarrow> 0 | Some v \<Rightarrow> v),
          pp_signed_pre_key_id = pkb_signed_pre_key_id bundle,
          pp_base_key = PublicKey_serialize (kp_public_key base_pair)\<rparr>,
       ss_local_registration_id := reg_id,
       ss_remote_registration_id := pkb_registration_id bundle,
       ss_alice_base_key := PublicKey_serialize (kp_public_key base_pair)\<rparr>"

definition bundle_parameters :: "IdentityKeyPair \<Rightarrow> KeyPair \<Rightarrow> PreKeyBundle \<Rightarrow> AliceSignalProtocolParameters" where
  "bundle_parameters own base_pair bundle =
     \<lparr>ap_our_identity_key_pair = own, ap_our_base_key_pair = base_pair,
      ap_their_identity_key = pkb_identity_key bundle,
      ap_their_signed_pre_key = pkb_signed_pre_key_public bundle,
      ap_their_one_time_pre_key = pkb_pre_key_public bundle,
      ap_their_ratchet_key = pkb_signed_pre_key_public bundle\<rparr>"

lemma promote_state_current: "\<exists>r'. promote_state r s = Ok r' \<and> current_session r' = Some s"
  by (simp add: promote_state_def archive_current_state_def Let_def split: option.splits)

lemma archive_current_state_Ok: "\<exists>r'. archive_current_state r = Ok r'"
  by (simp add: archive_current_state_def Let_def split: option.splits)

context protocol_store_laws
begin

lemma process_bundle_step:
  assumes trust: "known st a = None \<or> known st a = Some (pkb_identity_key bundle)"
    and sig: "verify_signature C (ik_public_key (pkb_identity_key bundle))
      (PublicKey_serialize (pkb_signed_pre_key_public bundle)) (pkb_signed_pre_key_signature bundle) = Ok True"
    and gen: "KeyPair_generate C rng = (base_pair, rng1)"
    and init: "initialize_alice_session C (bundle_parameters (own_pair st) base_pair bundle) rng1 = (Ok s, rng2)"
  obtains st' r where "process_prekey_bundle C a SS IS bundle (st, rng) = (Ok (), (st', rng2))"
    "sessions st' = (sessions st)(a \<mapsto> r)"
    "current_session r = Some (initiator_session bundle base_pair (own_registration st) s)"
    "known st' = (known st)(a \<mapsto> pkb_identity_key bundle)"
proof -
  let ?s = "initiator_session bundle base_pair (own_registration st) s"
  let ?r0 = "case sessions st a of None \<Rightarrow> SessionRecord_new_fresh | Some r \<Rightarrow> r"
  obtain r where r: "promote_state ?r0 ?s = Ok r" "current_session r = Some ?s"
    using promote_state_current by blast
  obtain b st1 where st1: "save_identity IS a (pkb_identity_key bundle) st = (Ok b, st1)"
    "known st1 = (known st)(a \<mapsto> pkb_identity_key bundle)" "sessions st1 = sessions st"
    using save_identity_Ok by metis
  obtain st' where st': "store_session SS a r st1 = (Ok (), st')" "sessions st' = (sessions st1)(a \<mapsto> r)"
    "known st' = known st1"
    using store_session_Ok by metis
  have "process_prekey_bundle C a SS IS bundle (st, rng) = (Ok (), (st', rng2))"
    using trust init r(1) unfolding process_prekey_bundle_def Let_def bundle_parameters_def initiator_session_def
    by (simp add: trusted_known sig sessions.load_view gen own_pair own_registration st1(1) st'(1)
        set_unacknowledged_pre_key_message_def set_local_registration_id_def set_remote_registration_id_def
        set_alice_base_key_def)
  with that st' r(2) st1 show thesis by simp
qed

end


section \<open>The responder\<close>

definition prekey_parameters ::
    "IdentityKeyPair \<Rightarrow> KeyPair \<Rightarrow> KeyPair option \<Rightarrow> PreKeySignalMessage \<Rightarrow> BobSignalProtocolParameters" where
  "prekey_parameters own signed_pair one_time_pair m =
     \<lparr>bp_our_identity_key_pair = own, bp_our_signed_pre_key_pair = signed_pair,
      bp_our_one_time_pre_key_pair = one_time_pair, bp_our_ratchet_key_pair = signed_pair,
      bp_their_identity_key = pm_identity_key m, bp_their_base_key = pm_base_key m\<rparr>"

definition responder_session :: "PreKeySignalMessage \<Rightarrow> u32 \<Rightarrow> SessionState \<Rightarrow> SessionState" where
  "responder_session m reg_id s =
     s\<lparr>ss_local_registration_id := reg_id, ss_remote_registration_id := pm_registration_id m,
       ss_alice_base_key := PublicKey_serialize (pm_base_key m)\<rparr>"

text \<open>The one-time pre-key that a message names, as the store has it.\<close>

definition one_time_pair :: "(u32 \<rightharpoonup> PreKeyRecord) \<Rightarrow> u32 option \<Rightarrow> KeyPair option \<Rightarrow> bool" where
  "one_time_pair keys i k \<longleftrightarrow>
     (case i of None \<Rightarrow> k = None
      | Some i \<Rightarrow> \<exists>rec kp. keys i = Some rec \<and> PreKeyRecord_key_pair rec = Ok kp \<and> k = Some kp)"

lemma modify_record_Ok: "f r = Ok r' \<Longrightarrow> modify_record f (s, r) = (Ok (), (s, r'))"
  by (simp add: modify_record_def)

context protocol_store_laws
begin

lemma process_prekey_v3_step:
  assumes fresh: "has_session_state r (ucast (pm_message_version m)) (PublicKey_serialize (pm_base_key m)) = Ok False"
    and spk: "signed_pre_keys st (pm_signed_pre_key_id m) = Some srec" "SignedPreKeyRecord_key_pair srec = Ok spk"
    and opk: "one_time_pair (pre_keys st) (pm_pre_key_id m) opk"
    and init: "initialize_bob_session C (prekey_parameters (own_pair st) spk opk m) = Ok s"
  obtains r' where "process_prekey_v3 C m SPS PS IS (st, r) = (Ok (pm_pre_key_id m), (st, r'))"
    "current_session r' = Some (responder_session m (own_registration st) s)"
proof -
  let ?s = "responder_session m (own_registration st) s"
  obtain r1 where r1: "archive_current_state r = Ok r1" using archive_current_state_Ok by blast
  obtain r' where r': "promote_state r1 ?s = Ok r'" "current_session r' = Some ?s"
    using promote_state_current by blast
  have get: "(case pm_pre_key_id m of
                Some pre_key_id \<Rightarrow>
                  sbind (on_fst (get_pre_key PS pre_key_id)) (\<lambda>pre_key_record.
                  sbind (slift (PreKeyRecord_key_pair pre_key_record)) (\<lambda>k. sret (Some k)))
              | None \<Rightarrow> sret None) (st, r) = (Ok opk, (st, r))"
    using opk by (auto simp: one_time_pair_def pre_keys.get_view split: option.splits)
  have "process_prekey_v3 C m SPS PS IS (st, r) = (Ok (pm_pre_key_id m), (st, r'))"
    using init r'(1) unfolding process_prekey_v3_def reading_record_def Let_def prekey_parameters_def responder_session_def
    by (simp add: fresh signed_pre_keys.get_view spk get own_pair own_registration modify_record_Ok r1
        set_local_registration_id_def set_remote_registration_id_def set_alice_base_key_def)
  from that [OF this r'(2)] show thesis .
qed

lemma process_prekey_step:
  assumes trust: "known st a = None \<or> known st a = Some (pm_identity_key m)"
    and v3: "process_prekey_v3 C m SPS PS IS (st, r) = (Ok i, (st, r'))"
  obtains st' where "process_prekey C m a IS PS SPS (st, r) = (Ok i, (st', r'))"
    "sessions st' = sessions st" "pre_keys st' = pre_keys st" "known st' = (known st)(a \<mapsto> pm_identity_key m)"
proof -
  obtain b st' where st': "save_identity IS a (pm_identity_key m) st = (Ok b, st')"
    "known st' = (known st)(a \<mapsto> pm_identity_key m)" "sessions st' = sessions st" "pre_keys st' = pre_keys st"
    using save_identity_Ok by metis
  have "process_prekey C m a IS PS SPS (st, r) = (Ok i, (st', r'))"
    using trust unfolding process_prekey_def Let_def by (simp add: trusted_known v3 st'(1))
  from that [OF this st'(3,4,2)] show thesis .
qed

lemma decrypt_prekey_step:
  assumes load: "(case sessions st a of None \<Rightarrow> SessionRecord_new_fresh | Some r \<Rightarrow> r) = r0"
    and pre: "process_prekey C m a IS PS SPS (st, r0) = (Ok i, (st1, r1))"
    and dec: "decrypt_message_with_record C r1 (pm_message m) rng = (Ok (ptext, r2), rng')"
  obtains st' where "message_decrypt_prekey C m a SS IS PS SPS (st, rng) = (Ok ptext, (st', rng'))"
    "sessions st' = (sessions st1)(a \<mapsto> r2)"
    "pre_keys st' = (case i of None \<Rightarrow> pre_keys st1 | Some i \<Rightarrow> (pre_keys st1)(i := None))"
proof -
  obtain st2 where st2: "store_session SS a r2 st1 = (Ok (), st2)" "sessions st2 = (sessions st1)(a \<mapsto> r2)"
    "pre_keys st2 = pre_keys st1"
    using store_session_Ok by metis
  obtain st' where st': "(case i of Some i \<Rightarrow> on_fst (remove_pre_key PS i) | None \<Rightarrow> sret ()) (st2, rng') = (Ok (), (st', rng'))"
    "sessions st' = sessions st2" "pre_keys st' = (case i of None \<Rightarrow> pre_keys st1 | Some i \<Rightarrow> (pre_keys st1)(i := None))"
  proof (cases i)
    case None
    with st2 that [of st2] show thesis by simp
  next
    case (Some j)
    obtain st3 where st3: "remove_pre_key PS j st2 = (Ok (), st3)" "pre_keys st3 = (pre_keys st2)(j := None)"
      using pre_keys.remove_view by blast
    with pre_key_frame [OF st3(1)] Some st2 that [of st3] show thesis by simp
  qed
  have "message_decrypt_prekey C m a SS IS PS SPS (st, rng) = (Ok ptext, (st', rng'))"
    unfolding message_decrypt_prekey_def Let_def
    by (simp add: sessions.load_view load with_record_def pre dec st2(1) st'(1))
  with that st' st2 show thesis by simp
qed

end


section \<open>The exchange\<close>

text \<open>
  A bundle published from the identity \<open>own\<close>, the signed pre-key \<open>spk\<close> and possibly a one-time
  pre-key, and a store that holds the private halves.
\<close>

definition bundle_of ::
    "('sc, 'pt, 'r) crypto \<Rightarrow> IdentityKeyPair \<Rightarrow> KeyPair \<Rightarrow> (u32 \<times> KeyPair) option \<Rightarrow> PreKeyBundle \<Rightarrow> bool" where
  "bundle_of C own spk opk bundle \<longleftrightarrow>
     IdentityKeyPair_wf C own \<and> KeyPair_wf C spk \<and>
     (case opk of None \<Rightarrow> True | Some (i, k) \<Rightarrow> i \<noteq> 0 \<and> KeyPair_wf C k) \<and>
     pkb_identity_key bundle = ikp_identity_key own \<and>
     pkb_signed_pre_key_public bundle = kp_public_key spk \<and>
     pkb_pre_key_id bundle = map_option fst opk \<and>
     pkb_pre_key_public bundle = map_option (\<lambda>(i, k). kp_public_key k) opk \<and>
     verify_signature C (ik_public_key (pkb_identity_key bundle))
       (PublicKey_serialize (pkb_signed_pre_key_public bundle)) (pkb_signed_pre_key_signature bundle) = Ok True"

definition holds_pre_keys ::
    "KeyPair \<Rightarrow> (u32 \<times> KeyPair) option \<Rightarrow> PreKeyBundle \<Rightarrow> (u32 \<rightharpoonup> SignedPreKeyRecord) \<Rightarrow> (u32 \<rightharpoonup> PreKeyRecord) \<Rightarrow> bool" where
  "holds_pre_keys spk opk bundle skeys keys \<longleftrightarrow>
     (\<exists>rec. skeys (pkb_signed_pre_key_id bundle) = Some rec \<and> SignedPreKeyRecord_key_pair rec = Ok spk) \<and>
     one_time_pair keys (map_option fst opk) (map_option snd opk)"

text \<open>The parameters of the responder, from the keys of the initiator that the message carries.\<close>

definition responder_parameters ::
    "IdentityKeyPair \<Rightarrow> KeyPair \<Rightarrow> KeyPair option \<Rightarrow> IdentityKey \<Rightarrow> PublicKey \<Rightarrow> BobSignalProtocolParameters" where
  "responder_parameters own signed_pair opk_pair us base_key =
     \<lparr>bp_our_identity_key_pair = own, bp_our_signed_pre_key_pair = signed_pair,
      bp_our_one_time_pre_key_pair = opk_pair, bp_our_ratchet_key_pair = signed_pair,
      bp_their_identity_key = us, bp_their_base_key = base_key\<rparr>"

lemma prekey_parameters_eq:
  "prekey_parameters own spk opk m = responder_parameters own spk opk (pm_identity_key m) (pm_base_key m)"
  by (simp add: prekey_parameters_def responder_parameters_def)

lemma bundle_x3dh_match:
  assumes "dh_ok C" "bundle_of C own spk opk bundle" "IdentityKeyPair_wf C us" "KeyPair_wf C base_pair"
  shows "x3dh_match C (bundle_parameters us base_pair bundle)
    (responder_parameters own spk (map_option snd opk) (ikp_identity_key us) (kp_public_key base_pair))"
  using assms
  by (auto simp: x3dh_match_def bundle_parameters_def responder_parameters_def bundle_of_def option.map_comp comp_def
      split_beta split: option.splits)

lemma initiator_items:
  assumes "PublicKey_wf (kp_public_key base_pair)" "bundle_of C own spk opk bundle"
  shows "unacknowledged_pre_key_message_items (initiator_session bundle base_pair reg s) =
    Ok (Some \<lparr>upk_pre_key_id = map_option fst opk, upk_signed_pre_key_id = pkb_signed_pre_key_id bundle,
              upk_base_key = kp_public_key base_pair\<rparr>)"
  using assms by (auto simp: unacknowledged_pre_key_message_items_def initiator_session_def bundle_of_def
      pubkey.deser_ser split: option.splits)

lemma session_frame_roles [simp]:
  "get_receiver_chain (responder_session m reg s) = get_receiver_chain s"
  "remote_identity_key (responder_session m reg s) = remote_identity_key s"
  "local_identity_key (responder_session m reg s) = local_identity_key s"
  "session_version (responder_session m reg s) = session_version s"
  "has_sender_chain (responder_session m reg s) = has_sender_chain s"
  by (simp_all add: responder_session_def has_sender_chain_def)

lemma sender_ready_initiator:
  "sender_ready C base eph us them k (initiator_session bundle bp reg s) = sender_ready C base eph us them k s"
  by (simp add: sender_ready_def initiator_session_def)

lemma ratchet_ahead_roles [simp]:
  "ratchet_ahead C a base (initiator_session bundle bp reg s) t = ratchet_ahead C a base s t"
  "ratchet_ahead C a base s (initiator_session bundle bp reg t) = ratchet_ahead C a base s t"
  "ratchet_ahead C a base s (responder_session m reg' t) = ratchet_ahead C a base s t"
  by (simp_all add: ratchet_ahead_def initiator_session_def responder_session_def)

text \<open>The two sessions that X3DH makes are one step of the Diffie-Hellman ratchet apart.\<close>

lemma x3dh_ratchet_ahead:
  assumes "hash_ok C" "dh_ok C" "x3dh_match C ap bp"
  obtains sa sb kp rng' ck where
    "initialize_alice_session C ap rng = (Ok sa, rng')" "initialize_bob_session C bp = Ok sb"
    "ratchet_ahead C kp ck sa sb"
    "sender_ready C ck (kp_public_key kp) (bp_their_identity_key bp) (ap_their_identity_key ap) 0 sa"
    "get_receiver_chain sb (kp_public_key kp) = Ok None" "has_sender_chain sb = Ok True"
    "remote_identity_key sb = Ok (Some (bp_their_identity_key bp))"
    "local_identity_key sb = Ok (ap_their_identity_key ap)"
proof (rule x3dh_sessions [OF assms, of rng], rule that)
  fix sa sb kp rng' rk0 rk ck0 ck
  assume kp: "KeyPair_wf C kp"
    and c: "RootKey_create_chain C rk0 (kp_public_key (bp_our_ratchet_key_pair bp)) (kp_private_key kp) = Ok (rk, ck)"
    and sa: "root_key sa = Ok rk" "get_sender_chain_key sa = Ok ck"
      "sender_ratchet_key sa = Ok (kp_public_key kp)" "sender_ratchet_private_key sa = Ok (kp_private_key kp)"
      "session_version sa = Ok 3" "local_identity_key sa = Ok (bp_their_identity_key bp)"
      "remote_identity_key sa = Ok (Some (ap_their_identity_key ap))"
    and sb: "root_key sb = Ok rk0" "get_sender_chain_key sb = Ok ck0" "ss_receiver_chains sb = []"
      "sender_ratchet_private_key sb = Ok (kp_private_key (bp_our_ratchet_key_pair bp))" "session_version sb = Ok 3"
  have "KeyPair_wf C (bp_our_ratchet_key_pair bp)" using assms(3) by (simp add: x3dh_match_def)
  then show "ratchet_ahead C kp ck sa sb"
    using kp c sa sb by (auto simp: ratchet_ahead_def intro!: exI [of _ 0])
  have "chain_base C ck" using create_chain_base(1) [OF assms(1) _ c] root_key_kdf [OF sb(1,5)] by simp
  then show "sender_ready C ck (kp_public_key kp) (bp_their_identity_key bp) (ap_their_identity_key ap) 0 sa"
    using sa by (simp add: sender_ready_def)
  show "get_receiver_chain sb (kp_public_key kp) = Ok None" using sb by simp
  show "has_sender_chain sb = Ok True"
    using sb(2) by (auto simp: has_sender_chain_def get_sender_chain_key_def result_simps)
qed

end
