(* ===== verification/Conversation.thy ===== *)
theory Conversation
  imports Key_Exchange
begin

text \<open>
  Two parties in conversation, each with a store of its own: the delivery of the first message
  from a published bundle, and the turns that follow, each of which is a step of the
  Diffie-Hellman ratchet.
\<close>

section \<open>A turn\<close>

text \<open>
  \<open>turn C us them eph r r'\<close>: the owner of the record \<open>r\<close>, with identity \<open>us\<close>, is the one who
  made the last step of the Diffie-Hellman ratchet, with the public key \<open>eph\<close>; it is to send,
  and has lost at most 2000 messages of its chain. The owner of \<open>r'\<close>, with identity \<open>them\<close>,
  has not heard of that step.
\<close>

definition turn ::
    "('sc, 'pt, 'r) crypto \<Rightarrow> IdentityKey \<Rightarrow> IdentityKey \<Rightarrow> PublicKey \<Rightarrow> SessionRecord \<Rightarrow> SessionRecord \<Rightarrow> bool" where
  "turn C us them eph r r' \<longleftrightarrow> (\<exists>s t kp base k.
     current_session r = Some s \<and> current_session r' = Some t \<and> eph = kp_public_key kp \<and> k \<le> 2000 \<and>
     sender_ready C base eph us them k s \<and> ratchet_ahead C kp base s t \<and>
     remote_identity_key t = Ok (Some us) \<and> local_identity_key t = Ok them)"

definition knows_ratchet_key :: "SessionRecord \<Rightarrow> PublicKey \<Rightarrow> bool" where
  "knows_ratchet_key r eph \<longleftrightarrow>
     (case current_session r of None \<Rightarrow> False | Some s \<Rightarrow> get_receiver_chain s eph \<noteq> Ok None)"

lemma window_start_accept:
  "k \<le> 2000 \<Longrightarrow> window_accept window_start k =
     Some \<lparr>win_next = Suc k, win_skipped = take MAX_MESSAGE_KEYS (rev [0..<k])\<rparr>"
  by (simp add: window_accept_def consts_defs)

lemma small_counter: "k \<le> 2000 \<Longrightarrow> unat (word_of_nat k :: u32) = k \<and> (word_of_nat k :: u32) \<noteq> - 1"
proof -
  assume k: "k \<le> 2000"
  then have u: "unat (word_of_nat k :: u32) = k" by (simp add: unat_of_nat)
  have "unat (- 1 :: u32) = 4294967295" by (simp add: unat_u32_max)
  with u k show ?thesis by auto
qed

lemma session_sync_ids:
  assumes "session_sync C base eph sender receiver w s"
  shows "remote_identity_key s = Ok (Some sender)" "local_identity_key s = Ok receiver"
  using assms by (simp_all add: session_sync_def)

lemma decrypted_frame:
  "ratchet_ahead C b base ((update_chain t i c)\<lparr>ss_pending_pre_key := None\<rparr>) s = ratchet_ahead C b base t s"
  "ratchet_ahead C b base s ((update_chain t i c)\<lparr>ss_pending_pre_key := None\<rparr>) = ratchet_ahead C b base s t"
  "sender_ready C base eph us them k ((update_chain t i c)\<lparr>ss_pending_pre_key := None\<rparr>) =
     sender_ready C base eph us them k t"
  by (simp_all add: ratchet_ahead_def sender_ready_def)

text \<open>The receiver's step of the ratchet, and what it decrypts on the way.\<close>

lemma ratchet_turn_state:
  assumes ok: "hash_ok C" "dh_ok C" "cbc_ok C"
    and ahead: "ratchet_ahead C a base s t" and k: "k \<le> 2000"
    and none: "get_receiver_chain t (kp_public_key a) = Ok None"
    and ids: "remote_identity_key t = Ok (Some us)" "local_identity_key t = Ok them"
    and msg: "sender_message C PM base (kp_public_key a) us them prev (word_of_nat k) ptext = Ok m"
  obtains t' b base' rng' where "KeyPair_generate C rng = (b, rng')"
    "decrypt_message_with_state C t m rng = (Ok (ptext, t'), rng')" "ratchet_ahead C b base' t' s" "sender_ready C base' (kp_public_key b) them us 0 t'"
    "ss_pending_pre_key t' = None"
    "session_sync C base (kp_public_key a) us them
       \<lparr>win_next = Suc k, win_skipped = take MAX_MESSAGE_KEYS (rev [0..<k])\<rparr> t'"
proof -
  let ?n = "word_of_nat k :: u32"
  let ?w = "\<lparr>win_next = Suc k, win_skipped = take MAX_MESSAGE_KEYS (rev [0..<k])\<rparr>"
  obtain t1 b base' rng' where gen: "KeyPair_generate C rng = (b, rng')"
    and t1: "get_or_create_chain_key C t (kp_public_key a) rng = (Ok (base, t1), rng')"
    "ratchet_ahead C b base' t1 s" "session_sync C base (kp_public_key a) us them window_start t1"
    "sender_ready C base' (kp_public_key b) them us 0 t1"
    using ratchet_ahead_step [OF ok(1,2) ahead none ids] .
  obtain c i where r: "get_receiver_chain t1 (kp_public_key a) = Ok (Some (c, i))"
    and cs: "chain_sync C base window_start c"
    using session_sync_chain_key [OF t1(3)] by blast
  have base: "chain_base C base" using t1(3) by (simp add: session_sync_def)
  have n: "unat ?n = k" "?n \<noteq> - 1" using small_counter [OF k] by simp_all
  obtain c' where c': "get_or_create_message_key C t1 (kp_public_key a) base ?n =
      Ok (keys_at C (ratchet C (unat ?n) base), update_chain t1 i c')"
    "chain_sync C base ?w c'" "ch_sender_ratchet_key c' = ch_sender_ratchet_key c"
    using message_key_accept [OF base cs r, of ?n ?w] n window_start_accept [OF k] by auto
  have state: "has_sender_chain t = Ok True" "session_version t = Ok 3"
    using ahead by (auto simp: ratchet_ahead_def has_sender_chain_def get_sender_chain_key_def result_simps)
  note dec = decrypt_with_keys [OF ok(3) state t1(1) msg c'(1) t1(3)]
  show thesis
    by (rule that [OF gen dec, of base']) (simp_all add: decrypted_frame t1 session_sync_update [OF t1(3) r c'(2,3)])
qed


text \<open>The sender's session keeps its place while it encrypts.\<close>

lemma ratchet_ahead_advance:
  assumes s': "set_sender_chain_key s (ratchet C (Suc k) base) = Ok s'" and ahead: "ratchet_ahead C a base s t"
    and ready: "sender_ready C base eph us them (Suc k) s'"
  shows "ratchet_ahead C a base s' t"
proof -
  obtain c where c: "ss_sender_chain s = Some c"
    using ahead by (auto simp: ratchet_ahead_def get_sender_chain_key_def result_simps)
  then have "s' = s\<lparr>ss_sender_chain := Some (c\<lparr>ch_chain_key := Some (chain_key_structure (ratchet C (Suc k) base))\<rparr>)\<rparr>"
    using s' by (simp add: set_sender_chain_key_def)
  then have "sender_ratchet_key s' = sender_ratchet_key s"
    "sender_ratchet_private_key s' = sender_ratchet_private_key s"
    "root_key s' = root_key s" "session_version s' = session_version s"
    by (simp_all add: sender_ratchet_key_def sender_ratchet_private_key_def c)
  with ahead ready show ?thesis by (auto simp: ratchet_ahead_def sender_ready_def)
qed

lemma ratchet_ahead_advance_peer:
  assumes s': "set_sender_chain_key s ck = Ok s'" and ahead: "ratchet_ahead C a base t s"
    and ready: "sender_ready C base' eph us them k s'"
  shows "ratchet_ahead C a base t s'"
proof -
  obtain c where c: "ss_sender_chain s = Some c"
    using ahead by (auto simp: ratchet_ahead_def get_sender_chain_key_def result_simps)
  then have "s' = s\<lparr>ss_sender_chain := Some (c\<lparr>ch_chain_key := Some (chain_key_structure ck)\<rparr>)\<rparr>"
    using s' by (simp add: set_sender_chain_key_def)
  then have "sender_ratchet_private_key s' = sender_ratchet_private_key s"
    "root_key s' = root_key s" "session_version s' = session_version s"
    by (simp_all add: sender_ratchet_private_key_def c)
  with ahead ready show ?thesis by (auto simp: ratchet_ahead_def sender_ready_def)
qed

definition acknowledged :: "SessionRecord \<Rightarrow> bool" where
  "acknowledged r \<longleftrightarrow> (case current_session r of None \<Rightarrow> False | Some s \<Rightarrow> ss_pending_pre_key s = None)"

lemma sender_message_parse:
  assumes "prost_ok PM" "PublicKey_wf eph" "sender_message C PM base eph us them prev n ptext = Ok m"
  shows "SignalMessage_try_from PM (sm_serialized m) = Ok m"
proof -
  obtain key ctext where "SignalMessage_new C PM 3 key eph n prev ctext us them = Ok m"
    using assms(3) by (auto simp: sender_message_def Let_def result_simps)
  from SignalMessage_parse_new [OF assms(1) _ assms(2) this] show ?thesis by simp
qed

lemma PreKeySignalMessage_new_fields:
  assumes "PreKeySignalMessage_new PP v reg i si base_key us m = Ok pm"
  shows "pm_message_version pm = v" "pm_pre_key_id pm = i" "pm_signed_pre_key_id pm = si"
    "pm_base_key pm = base_key" "pm_identity_key pm = us" "pm_message pm = m"
  using assms by (auto simp: PreKeySignalMessage_new_def Let_def)

context protocol_store_laws
begin

lemma decrypt_signal_step:
  assumes r: "sessions st a = Some r" "current_session r = Some t"
    and dec: "decrypt_message_with_state C t m rng = (Ok (ptext, t'), rng')"
    and id: "remote_identity_key t' = Ok (Some them)"
    and trust: "known st a = None \<or> known st a = Some them"
  obtains st' where "message_decrypt_signal C m a SS IS (st, rng) = (Ok ptext, (st', rng'))"
    "sessions st' = (sessions st)(a \<mapsto> r\<lparr>current_session := Some t'\<rparr>)" "known st' = (known st)(a \<mapsto> them)"
proof -
  obtain b st1 where st1: "save_identity IS a them st = (Ok b, st1)" "known st1 = (known st)(a \<mapsto> them)"
    "sessions st1 = sessions st" using save_identity_Ok by metis
  obtain st' where st': "store_session SS a (r\<lparr>current_session := Some t'\<rparr>) st1 = (Ok (), st')"
    "sessions st' = (sessions st1)(a \<mapsto> r\<lparr>current_session := Some t'\<rparr>)" "known st' = known st1"
    using store_session_Ok by metis
  have "message_decrypt_signal C m a SS IS (st, rng) = (Ok ptext, (st', rng'))"
    using trust unfolding message_decrypt_signal_def
    by (simp add: sessions.load_view r decrypt_record_current [OF r(2) dec] session_state_def id trusted_known
        st1(1) st'(1))
  with that st' st1 show thesis by simp
qed

lemma turn_delivered:
  assumes ok: "hash_ok C" "dh_ok C" "cbc_ok C" "prost_ok PM"
    and turn: "turn C us them eph r r'" and fresh: "\<not> knows_ratchet_key r' eph" and ack: "acknowledged r"
    and st: "sessions alice b = Some r" "sessions bob a = Some r'"
    and trust: "known alice b = None \<or> known alice b = Some them" "known bob a = None \<or> known bob a = Some us"
  shows "\<exists>m alice' bob' r2 r2'.
    message_encrypt C PM PP ptext b SS IS alice = (Ok (CM_SignalMessage m), alice') \<and>
    SignalMessage_try_from PM (sm_serialized m) = Ok m \<and>
    message_decrypt C (CM_SignalMessage m) a SS IS PS SPS (bob, rng) =
      (Ok ptext, (bob', snd (KeyPair_generate C rng))) \<and>
    sessions alice' b = Some r2 \<and> sessions bob' a = Some r2' \<and>
    known alice' b = Some them \<and> known bob' a = Some us \<and>
    turn C them us (kp_public_key (fst (KeyPair_generate C rng))) r2' r2 \<and> acknowledged r2'"
proof -
  obtain s t kp base k where s: "current_session r = Some s" and t: "current_session r' = Some t"
    and eph: "eph = kp_public_key kp" and k: "k \<le> 2000" and ready: "sender_ready C base eph us them k s"
    and ahead: "ratchet_ahead C kp base s t"
    and ids: "remote_identity_key t = Ok (Some us)" "local_identity_key t = Ok them"
    using turn by (auto simp: turn_def)
  have items: "unacknowledged_pre_key_message_items s = Ok None"
    using ack s by (simp add: acknowledged_def unacknowledged_pre_key_message_items_def)
  have bound: "k < 4294967296" using k by simp
  obtain m out s' alice' where
    m: "sender_message C PM base eph us them (ss_previous_counter s) (word_of_nat k) ptext = Ok m"
    and out: "wrap_message PP s us None m = Ok out"
    and enc: "message_encrypt C PM PP ptext b SS IS alice = (Ok out, alice')"
    and s': "set_sender_chain_key s (ratchet C (Suc k) base) = Ok s'" "sender_ready C base eph us them (Suc k) s'"
    and "ss_receiver_chains s' = ss_receiver_chains s" "ss_pending_pre_key s' = ss_pending_pre_key s"
    and alice': "sessions alice' = (sessions alice)(b \<mapsto> r\<lparr>current_session := Some s'\<rparr>)"
      "known alice' = (known alice)(b \<mapsto> them)"
    by (rule encrypt_step [OF ok(3) st(1) s ready items trust(1) bound])
  have none: "get_receiver_chain t (kp_public_key kp) = Ok None"
    using fresh t by (simp add: knows_ratchet_key_def eph)
  obtain t' b' base' rng' where gen: "KeyPair_generate C rng = (b', rng')"
    and t': "decrypt_message_with_state C t m rng = (Ok (ptext, t'), rng')"
    "ratchet_ahead C b' base' t' s" "sender_ready C base' (kp_public_key b') them us 0 t'"
    "ss_pending_pre_key t' = None"
    using ratchet_turn_state [OF ok(1-3) ahead k none ids m [unfolded eph]] .
  have "remote_identity_key t' = Ok (Some us)" using t'(3) by (simp add: sender_ready_def)
  then obtain bob' where bob': "message_decrypt_signal C m a SS IS (bob, rng) = (Ok ptext, (bob', rng'))"
    "sessions bob' = (sessions bob)(a \<mapsto> r'\<lparr>current_session := Some t'\<rparr>)" "known bob' = (known bob)(a \<mapsto> us)"
    using decrypt_signal_step [OF st(2) t t'(1) _ trust(2)] by blast
  have "turn C them us (kp_public_key b') (r'\<lparr>current_session := Some t'\<rparr>) (r\<lparr>current_session := Some s'\<rparr>)"
    using ratchet_ahead_advance_peer [OF s'(1) t'(2) s'(2)] t'(3) s'(2)
    by (auto simp: turn_def sender_ready_def intro!: exI [of _ b'] exI [of _ base'] exI [of _ 0])
  moreover have "acknowledged (r'\<lparr>current_session := Some t'\<rparr>)" by (simp add: acknowledged_def t'(4))
  moreover have "SignalMessage_try_from PM (sm_serialized m) = Ok m"
    using sender_message_parse [OF ok(4) _ m] KeyPair_wf_public [OF ok(2), of kp] ahead
    by (simp add: ratchet_ahead_def eph)
  moreover have "out = CM_SignalMessage m" using out by (simp add: wrap_message_def)
  ultimately show ?thesis
    using enc bob' alice' by (auto simp: message_decrypt_def gen)
qed

text \<open>The responder accepts the first message, made from a session that is one ratchet step ahead.\<close>

lemma first_message_accepted:
  assumes ok: "hash_ok C" "dh_ok C" "cbc_ok C"
    and ahead: "ratchet_ahead C kp base sa sb"
    and sb: "get_receiver_chain sb (kp_public_key kp) = Ok None"
      "remote_identity_key sb = Ok (Some us)" "local_identity_key sb = Ok them"
    and init: "initialize_bob_session C (responder_parameters (own_pair bob) spk (map_option snd opk) us base_key) = Ok sb"
    and held: "holds_pre_keys spk opk bundle (signed_pre_keys bob) (pre_keys bob)"
    and pm: "PreKeySignalMessage_new PP 3 reg (map_option fst opk) (pkb_signed_pre_key_id bundle) base_key us
      (pm_message pm) = Ok pm"
    and fresh: "has_session_state (case sessions bob a of None \<Rightarrow> SessionRecord_new_fresh | Some r \<Rightarrow> r) 3
      (PublicKey_serialize base_key) = Ok False"
    and trust: "known bob a = None \<or> known bob a = Some us"
    and msg: "sender_message C PM base (kp_public_key kp) us them prev 0 ptext = Ok (pm_message pm)"
  obtains bob' rng' r t b base' where
    "message_decrypt_prekey C pm a SS IS PS SPS (bob, rng) = (Ok ptext, (bob', rng'))"
    "sessions bob' a = Some r" "current_session r = Some t" "ss_pending_pre_key t = None"
    "ratchet_ahead C b base' t sa" "sender_ready C base' (kp_public_key b) them us 0 t"
    "pre_keys bob' = (case map_option fst opk of None \<Rightarrow> pre_keys bob | Some i \<Rightarrow> (pre_keys bob)(i := None))"
proof -
  note pmf = PreKeySignalMessage_new_fields(1-5) [OF pm]
  obtain srec where srec: "signed_pre_keys bob (pm_signed_pre_key_id pm) = Some srec"
    "SignedPreKeyRecord_key_pair srec = Ok spk"
    and one: "one_time_pair (pre_keys bob) (pm_pre_key_id pm) (map_option snd opk)"
    using held by (auto simp: holds_pre_keys_def pmf)
  have init': "initialize_bob_session C (prekey_parameters (own_pair bob) spk (map_option snd opk) pm) = Ok sb"
    using init by (simp add: prekey_parameters_eq pmf)
  have known: "known bob a = None \<or> known bob a = Some (pm_identity_key pm)" using trust by (simp add: pmf)
  have fresh': "has_session_state (case sessions bob a of None \<Rightarrow> SessionRecord_new_fresh | Some r \<Rightarrow> r)
      (ucast (pm_message_version pm)) (PublicKey_serialize (pm_base_key pm)) = Ok False"
    using fresh by (simp add: pmf)
  let ?r0 = "case sessions bob a of None \<Rightarrow> SessionRecord_new_fresh | Some r \<Rightarrow> r"
  let ?t = "responder_session pm (own_registration bob) sb"
  obtain r1 where r1: "process_prekey_v3 C pm SPS PS IS (bob, ?r0) = (Ok (pm_pre_key_id pm), (bob, r1))"
    "current_session r1 = Some ?t"
    by (rule process_prekey_v3_step [OF fresh' srec one init'])
  obtain bob1 where bob1: "process_prekey C pm a IS PS SPS (bob, ?r0) = (Ok (pm_pre_key_id pm), (bob1, r1))"
    "sessions bob1 = sessions bob" "pre_keys bob1 = pre_keys bob" "known bob1 = (known bob)(a \<mapsto> pm_identity_key pm)"
    by (rule process_prekey_step [OF known r1(1)])
  have msg0: "sender_message C PM base (kp_public_key kp) us them prev (word_of_nat 0) ptext = Ok (pm_message pm)"
    using msg by simp
  have t0: "ratchet_ahead C kp base sa ?t" "get_receiver_chain ?t (kp_public_key kp) = Ok None"
    "remote_identity_key ?t = Ok (Some us)" "local_identity_key ?t = Ok them"
    using ahead sb by simp_all
  obtain t b base' rng' where "KeyPair_generate C rng = (b, rng')"
    and t: "decrypt_message_with_state C ?t (pm_message pm) rng = (Ok (ptext, t), rng')"
    "ratchet_ahead C b base' t sa" "sender_ready C base' (kp_public_key b) them us 0 t" "ss_pending_pre_key t = None"
    "session_sync C base (kp_public_key kp) us them
       \<lparr>win_next = Suc 0, win_skipped = take MAX_MESSAGE_KEYS (rev [0..<0])\<rparr> t"
    by (rule ratchet_turn_state [OF ok t0(1) le0 t0(2-4) msg0])
  have dec: "decrypt_message_with_record C r1 (pm_message pm) rng = (Ok (ptext, r1\<lparr>current_session := Some t\<rparr>), rng')"
    by (rule decrypt_record_current [OF r1(2) t(1)])
  obtain bob' where bob': "message_decrypt_prekey C pm a SS IS PS SPS (bob, rng) = (Ok ptext, (bob', rng'))"
    "sessions bob' = (sessions bob1)(a \<mapsto> r1\<lparr>current_session := Some t\<rparr>)"
    "pre_keys bob' = (case pm_pre_key_id pm of None \<Rightarrow> pre_keys bob1 | Some i \<Rightarrow> (pre_keys bob1)(i := None))"
    by (rule decrypt_prekey_step [OF refl bob1(1) dec])
  show thesis
    by (rule that [OF bob'(1), of "r1\<lparr>current_session := Some t\<rparr>" t b base']) (simp_all add: bob'(2,3) bob1(3) t(2-4) pmf split: option.split)
qed

text \<open>The initiator's store after \<open>process_prekey_bundle\<close> and \<open>message_encrypt\<close>, and the message it sends.\<close>

lemma first_message_sent:
  assumes ok: "hash_ok C" "cbc_ok C" and bp: "PublicKey_wf (kp_public_key bp)"
    and published: "bundle_of C own spk opk bundle"
    and trust: "known alice b = None \<or> known alice b = Some (pkb_identity_key bundle)"
    and gen: "KeyPair_generate C rng = (bp, rng0)"
    and sa: "initialize_alice_session C (bundle_parameters (own_pair alice) bp bundle) rng0 = (Ok sa, rng1)"
    and ready: "sender_ready C base eph us (pkb_identity_key bundle) 0 sa"
  obtains alice1 pm prev s' alice2 r where
    "process_prekey_bundle C b SS IS bundle (alice, rng) = (Ok (), (alice1, rng1))"
    "message_encrypt C PM PP ptext b SS IS alice1 = (Ok (CM_PreKeySignalMessage pm), alice2)"
    "PreKeySignalMessage_new PP 3 (own_registration alice) (map_option fst opk)
      (pkb_signed_pre_key_id bundle) (kp_public_key bp) us (pm_message pm) = Ok pm"
    "sender_message C PM base eph us (pkb_identity_key bundle) prev 0 ptext = Ok (pm_message pm)"
    "set_sender_chain_key (initiator_session bundle bp (own_registration alice) sa) (ratchet C 1 base) = Ok s'"
    "sender_ready C base eph us (pkb_identity_key bundle) 1 s'"
    "sessions alice2 b = Some r" "current_session r = Some s'"
proof -
  let ?them = "pkb_identity_key bundle" and ?s = "initiator_session bundle bp (own_registration alice) sa"
  let ?items = "\<lparr>upk_pre_key_id = map_option fst opk, upk_signed_pre_key_id = pkb_signed_pre_key_id bundle,
      upk_base_key = kp_public_key bp\<rparr>"
  have sig: "verify_signature C (ik_public_key ?them) (PublicKey_serialize (pkb_signed_pre_key_public bundle))
      (pkb_signed_pre_key_signature bundle) = Ok True" using published unfolding bundle_of_def by blast
  obtain alice1 r1 where alice1: "process_prekey_bundle C b SS IS bundle (alice, rng) = (Ok (), (alice1, rng1))"
    "sessions alice1 = (sessions alice)(b \<mapsto> r1)" "current_session r1 = Some ?s"
    "known alice1 = (known alice)(b \<mapsto> ?them)"
    by (rule process_bundle_step [OF trust sig gen sa])
  have load: "sessions alice1 b = Some r1" and t1: "known alice1 b = None \<or> known alice1 b = Some ?them"
    by (simp_all add: alice1)
  have ready1: "sender_ready C base eph us ?them 0 ?s" using ready by (simp add: sender_ready_initiator)
  have bound: "(0 :: nat) < 4294967296" by simp
  obtain m out s' alice2 where
    m: "sender_message C PM base eph us ?them (ss_previous_counter ?s) (word_of_nat 0) ptext = Ok m"
    and out: "wrap_message PP ?s us (Some ?items) m = Ok out"
    and enc: "message_encrypt C PM PP ptext b SS IS alice1 = (Ok out, alice2)"
    and s': "set_sender_chain_key ?s (ratchet C (Suc 0) base) = Ok s'" "sender_ready C base eph us ?them (Suc 0) s'"
    and "ss_receiver_chains s' = ss_receiver_chains ?s" "ss_pending_pre_key s' = ss_pending_pre_key ?s"
    and alice2: "sessions alice2 = (sessions alice1)(b \<mapsto> r1\<lparr>current_session := Some s'\<rparr>)"
      "known alice2 = (known alice1)(b \<mapsto> ?them)"
    by (rule encrypt_step [OF ok(2) load alice1(3) ready1 initiator_items [OF bp published] t1 bound])
  obtain pm where pm: "PreKeySignalMessage_new PP 3 (own_registration alice) (map_option fst opk)
      (pkb_signed_pre_key_id bundle) (kp_public_key bp) us m = Ok pm" and out': "out = CM_PreKeySignalMessage pm"
    using out by (auto simp: wrap_message_def result_simps initiator_session_def)
  note pm_m = PreKeySignalMessage_new_fields(6) [OF pm]
  show thesis
    by (rule that [OF alice1(1) enc [unfolded out'], of "ss_previous_counter ?s" s' "r1\<lparr>current_session := Some s'\<rparr>"])
       (use pm m s' in \<open>simp_all add: pm_m alice2\<close>)
qed

text \<open>From a bundle to the first message, and the turn that the responder then has.\<close>

lemma first_exchange:
  assumes ok: "hash_ok C" "dh_ok C" "cbc_ok C" "prost_ok PM" "prost_ok PP"
    and us: "IdentityKeyPair_wf C (own_pair alice)"
    and published: "bundle_of C (own_pair bob) spk opk bundle"
    and held: "holds_pre_keys spk opk bundle (signed_pre_keys bob) (pre_keys bob)"
    and trust: "known alice b = None \<or> known alice b = Some (pkb_identity_key bundle)"
      "known bob a = None \<or> known bob a = Some (ikp_identity_key (own_pair alice))"
    and fresh: "has_session_state (case sessions bob a of None \<Rightarrow> SessionRecord_new_fresh | Some r \<Rightarrow> r) 3
      (PublicKey_serialize (kp_public_key (fst (KeyPair_generate C rng)))) = Ok False"
  shows "\<exists>alice1 rng1 pm alice2 bob' rng' r r' eph.
    process_prekey_bundle C b SS IS bundle (alice, rng) = (Ok (), (alice1, rng1)) \<and>
    message_encrypt C PM PP ptext b SS IS alice1 = (Ok (CM_PreKeySignalMessage pm), alice2) \<and>
    PreKeySignalMessage_try_from PM PP (pm_serialized pm) = Ok pm \<and>
    message_decrypt C (CM_PreKeySignalMessage pm) a SS IS PS SPS (bob, rng2) = (Ok ptext, (bob', rng')) \<and>
    sessions alice2 b = Some r \<and> sessions bob' a = Some r' \<and>
    turn C (pkb_identity_key bundle) (ikp_identity_key (own_pair alice)) eph r' r \<and> acknowledged r' \<and>
    pre_keys bob' = (case pkb_pre_key_id bundle of None \<Rightarrow> pre_keys bob | Some i \<Rightarrow> (pre_keys bob)(i := None))"
proof -
  let ?us = "ikp_identity_key (own_pair alice)" and ?them = "pkb_identity_key bundle"
  obtain bp rng0 where gen: "KeyPair_generate C rng = (bp, rng0)" by fastforce
  have bp: "KeyPair_wf C bp" "PublicKey_wf (kp_public_key bp)"
    using KeyPair_generate_wf [OF ok(2), of rng] KeyPair_wf_public [OF ok(2)] by (simp_all add: gen)
  let ?bpar = "responder_parameters (own_pair bob) spk (map_option snd opk) ?us (kp_public_key bp)"
  have roles: "bp_their_identity_key ?bpar = ?us"
    "ap_their_identity_key (bundle_parameters (own_pair alice) bp bundle) = ?them"
    by (simp_all add: responder_parameters_def bundle_parameters_def)
  obtain sa sb kp rng1 base where
    sa: "initialize_alice_session C (bundle_parameters (own_pair alice) bp bundle) rng0 = (Ok sa, rng1)"
    and sb: "initialize_bob_session C ?bpar = Ok sb" and ahead: "ratchet_ahead C kp base sa sb"
    and ready: "sender_ready C base (kp_public_key kp) ?us ?them 0 sa"
    and none: "get_receiver_chain sb (kp_public_key kp) = Ok None" "has_sender_chain sb = Ok True"
    and ids: "remote_identity_key sb = Ok (Some ?us)" "local_identity_key sb = Ok ?them"
    by (rule x3dh_ratchet_ahead [OF ok(1,2) bundle_x3dh_match [OF ok(2) published us bp(1)], unfolded roles])
  obtain alice1 pm prev s' alice2 r where
    sent: "process_prekey_bundle C b SS IS bundle (alice, rng) = (Ok (), (alice1, rng1))"
      "message_encrypt C PM PP ptext b SS IS alice1 = (Ok (CM_PreKeySignalMessage pm), alice2)"
    and pm: "PreKeySignalMessage_new PP 3 (own_registration alice) (map_option fst opk)
      (pkb_signed_pre_key_id bundle) (kp_public_key bp) ?us (pm_message pm) = Ok pm"
    and m: "sender_message C PM base (kp_public_key kp) ?us ?them prev 0 ptext = Ok (pm_message pm)"
    and s': "set_sender_chain_key (initiator_session bundle bp (own_registration alice) sa) (ratchet C 1 base) = Ok s'"
      "sender_ready C base (kp_public_key kp) ?us ?them 1 s'"
    and r: "sessions alice2 b = Some r" "current_session r = Some s'"
    by (rule first_message_sent [OF ok(1,3) bp(2) published trust(1) gen sa ready])
  have inner: "SignalMessage_try_from PM (sm_serialized (pm_message pm)) = Ok (pm_message pm)"
    using sender_message_parse [OF ok(4) _ m] KeyPair_wf_public [OF ok(2), of kp] ahead
    by (simp add: ratchet_ahead_def)
  have parse: "PreKeySignalMessage_try_from PM PP (pm_serialized pm) = Ok pm"
    using PreKeySignalMessage_parse_new [OF ok(4,5) _ bp(2) IdentityKeyPair_wf_public [OF ok(2) us] inner pm] by simp
  obtain bob' rng' r' t b' base' where
    bob': "message_decrypt_prekey C pm a SS IS PS SPS (bob, rng2) = (Ok ptext, (bob', rng'))"
    "sessions bob' a = Some r'" "current_session r' = Some t" "ss_pending_pre_key t = None"
    "ratchet_ahead C b' base' t sa" "sender_ready C base' (kp_public_key b') ?them ?us 0 t"
    "pre_keys bob' = (case map_option fst opk of None \<Rightarrow> pre_keys bob | Some i \<Rightarrow> (pre_keys bob)(i := None))"
    by (rule first_message_accepted [OF ok(1-3) ahead none(1) ids sb held pm fresh [unfolded gen fst_conv] trust(2) m])
  have "turn C ?them ?us (kp_public_key b') r' r"
    using ratchet_ahead_advance_peer [OF s'(1) _ s'(2), of b' base' t] bob' r s'(2)
    by (auto simp: turn_def sender_ready_def intro!: exI [of _ b'] exI [of _ base'] exI [of _ 0])
  moreover have "acknowledged r'" using bob' by (simp add: acknowledged_def)
  moreover have "pkb_pre_key_id bundle = map_option fst opk" using published by (simp add: bundle_of_def)
  ultimately show ?thesis
    using sent parse bob' r by (auto simp: message_decrypt_def)
qed

end


section \<open>Properties of the conversation\<close>

text \<open>
  C1. The first message arrives. Alice processes a bundle that Bob published and encrypts a
  message; what she sends survives the wire; Bob, who holds the private keys of the bundle and
  has no session from that base key, decrypts it to the plaintext. The one-time pre-key of the
  bundle, if it has one (with an identifier other than 0), is gone from Bob's store, the other
  pre-keys are still there, and it is Bob's turn to send. Identities are trusted on first use.
\<close>

theorem first_message_delivered:
  assumes "hash_ok C" "dh_ok C" "cbc_ok C" "prost_ok PM" "prost_ok PP"
    and "IdentityKeyPair_wf C (im_key_pair (identity_store alice))"
    and "bundle_of C (im_key_pair (identity_store bob)) spk opk bundle"
    and "holds_pre_keys spk opk bundle (inmem_signed_pre_keys bob) (inmem_pre_keys bob)"
    and "inmem_known alice b = None \<or> inmem_known alice b = Some (pkb_identity_key bundle)"
    and "inmem_known bob a = None \<or> inmem_known bob a = Some (ikp_identity_key (im_key_pair (identity_store alice)))"
    and "has_session_state (case inmem_sessions bob a of None \<Rightarrow> SessionRecord_new_fresh | Some r \<Rightarrow> r) 3
      (PublicKey_serialize (kp_public_key (fst (KeyPair_generate C rng)))) = Ok False"
  shows "\<exists>alice1 rng1 pm alice2 bob' rng' r r' eph.
    process_prekey_bundle C b InMem_SessionStore InMem_IdentityKeyStore bundle (alice, rng) = (Ok (), (alice1, rng1)) \<and>
    message_encrypt C PM PP ptext b InMem_SessionStore InMem_IdentityKeyStore alice1 =
      (Ok (CM_PreKeySignalMessage pm), alice2) \<and>
    PreKeySignalMessage_try_from PM PP (pm_serialized pm) = Ok pm \<and>
    message_decrypt C (CM_PreKeySignalMessage pm) a InMem_SessionStore InMem_IdentityKeyStore InMem_PreKeyStore
      InMem_SignedPreKeyStore (bob, rng2) = (Ok ptext, (bob', rng')) \<and>
    inmem_sessions alice2 b = Some r \<and> inmem_sessions bob' a = Some r' \<and>
    turn C (pkb_identity_key bundle) (ikp_identity_key (im_key_pair (identity_store alice))) eph r' r \<and>
    acknowledged r' \<and>
    inmem_pre_keys bob' =
      (case pkb_pre_key_id bundle of None \<Rightarrow> inmem_pre_keys bob | Some i \<Rightarrow> (inmem_pre_keys bob)(i := None))"
  using assms by (rule inmem.first_exchange)

definition ref_store :: "u8 \<Rightarrow> (ProtocolAddress \<rightharpoonup> SessionRecord) \<Rightarrow> InMemSignalProtocolStore" where
  "ref_store b recs =
     \<lparr>session_store = \<lparr>im_sessions = recs\<rparr>,
      pre_key_store = \<lparr>im_pre_keys = [5 \<mapsto> PreKeyRecord_new 5 (ref_pair 5)]\<rparr>,
      signed_pre_key_store = \<lparr>im_signed_pre_keys = [4 \<mapsto> SignedPreKeyRecord_new 4 0 (ref_pair 4) []]\<rparr>,
      identity_store = InMemIdentityKeyStore_new (IdentityKeyPair_from (ref_pair b)) 9,
      sender_key_store = \<lparr>im_keys = Map.empty\<rparr>\<rparr>"

definition ref_bundle :: "bytes \<Rightarrow> PreKeyBundle" where
  "ref_bundle sig = \<lparr>pkb_registration_id = 9, pkb_device_id = 1, pkb_pre_key_id = Some 5,
     pkb_pre_key_public = Some (ref_key 5), pkb_signed_pre_key_id = 4, pkb_signed_pre_key_public = ref_key 4,
     pkb_signed_pre_key_signature = sig, pkb_identity_key = IdentityKey (ref_key 3)\<rparr>"

lemma ref_pair_record [simp]:
  "SignedPreKeyRecord_key_pair (SignedPreKeyRecord_new i t (ref_pair b) sig) = Ok (ref_pair b)"
  "PreKeyRecord_key_pair (PreKeyRecord_new i (ref_pair b)) = Ok (ref_pair b)"
  by (simp_all add: SignedPreKeyRecord_key_pair_def SignedPreKeyRecord_new_def PreKeyRecord_key_pair_def
      PreKeyRecord_new_def ref_pair_def KeyPair_from_public_and_private_def pubkey.deser_ser
      PrivateKey_deserialize_def)

lemma ref_signature:
  obtains sig where "verify_signature ref_crypto (ref_key 3) (PublicKey_serialize (ref_key 4)) sig = Ok True"
proof -
  have "PrivateKey_public_key ref_crypto (kp_private_key (ref_pair 3)) = Ok (ref_key 3)"
    using ref_pair_wf(1) [of 3] by (simp add: KeyPair_wf_def)
  from calculate_signature_verifies [OF ref_xeddsa_ok this] that show thesis by metis
qed

lemma has_session_state_fresh [simp]: "has_session_state SessionRecord_new_fresh v k = Ok False"
  by (simp add: has_session_state_def SessionRecord_new_fresh_def)

theorem first_message_delivered_witness:
  "\<exists>sig alice1 rng1 pm alice2 bob' rng'.
    process_prekey_bundle ref_crypto \<lparr>pa_name = ''bob'', pa_device_id = 1\<rparr> InMem_SessionStore InMem_IdentityKeyStore
      (ref_bundle sig) (ref_store 1 Map.empty, 0) = (Ok (), (alice1, rng1)) \<and>
    message_encrypt ref_crypto (ref_prost c_wire_SignalMessage) (ref_prost c_wire_PreKeySignalMessage) [1, 2, 3]
      \<lparr>pa_name = ''bob'', pa_device_id = 1\<rparr> InMem_SessionStore InMem_IdentityKeyStore alice1 =
      (Ok (CM_PreKeySignalMessage pm), alice2) \<and>
    message_decrypt ref_crypto (CM_PreKeySignalMessage pm) \<lparr>pa_name = ''alice'', pa_device_id = 1\<rparr> InMem_SessionStore
      InMem_IdentityKeyStore InMem_PreKeyStore InMem_SignedPreKeyStore (ref_store 3 Map.empty, 70) =
      (Ok [1, 2, 3], (bob', rng')) \<and> inmem_pre_keys bob' 5 = None"
proof -
  obtain sig where sig: "verify_signature ref_crypto (ref_key 3) (PublicKey_serialize (ref_key 4)) sig = Ok True"
    by (rule ref_signature)
  let ?PM = "ref_prost c_wire_SignalMessage" and ?PP = "ref_prost c_wire_PreKeySignalMessage"
  let ?alice = "ref_store 1 Map.empty" and ?bob = "ref_store 3 Map.empty"
  have ok: "prost_ok ?PM" "prost_ok ?PP" by simp_all
  have alice: "IdentityKeyPair_wf ref_crypto (im_key_pair (identity_store ?alice))"
    by (simp add: ref_store_def InMemIdentityKeyStore_new_def)
  have published: "bundle_of ref_crypto (im_key_pair (identity_store ?bob)) (ref_pair 4) (Some (5, ref_pair 5)) (ref_bundle sig)"
    using sig by (simp add: bundle_of_def ref_store_def InMemIdentityKeyStore_new_def ref_bundle_def)
  have held: "holds_pre_keys (ref_pair 4) (Some (5, ref_pair 5)) (ref_bundle sig) (inmem_signed_pre_keys ?bob)
      (inmem_pre_keys ?bob)"
    by (simp add: holds_pre_keys_def one_time_pair_def ref_store_def ref_bundle_def)
  have known: "inmem_known ?alice x = None \<or> inmem_known ?alice x = Some k"
    "inmem_known ?bob x = None \<or> inmem_known ?bob x = Some k" for x k
    by (simp_all add: ref_store_def InMemIdentityKeyStore_new_def)
  have fresh: "has_session_state (case inmem_sessions ?bob x of None \<Rightarrow> SessionRecord_new_fresh | Some r \<Rightarrow> r) 3
      (PublicKey_serialize (kp_public_key (fst (KeyPair_generate ref_crypto 0)))) = Ok False" for x
    by (simp add: ref_store_def)
  show ?thesis
    using first_message_delivered [OF ref_hash_ok ref_dh_ok ref_cbc_ok ok alice published held known fresh,
        where ptext = "[1, 2, 3]" and b = "\<lparr>pa_name = ''bob'', pa_device_id = 1\<rparr>"
          and a = "\<lparr>pa_name = ''alice'', pa_device_id = 1\<rparr>" and ?rng2.0 = 70]
    unfolding ref_bundle_def PreKeyBundle.select_convs option.case by (metis fun_upd_same)
qed

text \<open>
  C2. A turn of the Diffie-Hellman ratchet. When it is Alice's turn, Bob has no chain for her
  ratchet key, and her session is acknowledged, the message she sends survives the wire and
  Bob decrypts it to the plaintext, even if up to 2000 earlier messages of her chain were lost;
  then it is Bob's turn, with the ratchet key pair that his generator gives in this very call
  (the old one is not used again: the generator has moved on by exactly one key pair), and his
  session is acknowledged.
\<close>

theorem ratchet_turn_delivered:
  assumes "hash_ok C" "dh_ok C" "cbc_ok C" "prost_ok PM"
    and "turn C us them eph r r'" "\<not> knows_ratchet_key r' eph" "acknowledged r"
    and "inmem_sessions alice b = Some r" "inmem_sessions bob a = Some r'"
    and "inmem_known alice b = None \<or> inmem_known alice b = Some them"
    and "inmem_known bob a = None \<or> inmem_known bob a = Some us"
  shows "\<exists>m alice' bob' r2 r2'.
    message_encrypt C PM PP ptext b InMem_SessionStore InMem_IdentityKeyStore alice =
      (Ok (CM_SignalMessage m), alice') \<and>
    SignalMessage_try_from PM (sm_serialized m) = Ok m \<and>
    message_decrypt C (CM_SignalMessage m) a InMem_SessionStore InMem_IdentityKeyStore InMem_PreKeyStore
      InMem_SignedPreKeyStore (bob, rng) = (Ok ptext, (bob', snd (KeyPair_generate C rng))) \<and>
    inmem_sessions alice' b = Some r2 \<and> inmem_sessions bob' a = Some r2' \<and>
    inmem_known alice' b = Some them \<and> inmem_known bob' a = Some us \<and>
    turn C them us (kp_public_key (fst (KeyPair_generate C rng))) r2' r2 \<and> acknowledged r2'"
  using assms by (rule inmem.turn_delivered)

lemma ref_turn:
  obtains r r' eph where "turn ref_crypto (IdentityKey (ref_key 1)) (IdentityKey (ref_key 3)) eph r r'"
    "\<not> knows_ratchet_key r' eph" "acknowledged r"
proof -
  have roles: "bp_their_identity_key ref_bob = IdentityKey (ref_key 1)"
    "ap_their_identity_key ref_alice = IdentityKey (ref_key 3)"
    by (simp_all add: ref_bob_def ref_alice_def)
  obtain sa sb kp rng' ck where
    "initialize_alice_session ref_crypto ref_alice 0 = (Ok sa, rng')" "initialize_bob_session ref_crypto ref_bob = Ok sb"
    and ahead: "ratchet_ahead ref_crypto kp ck sa sb"
    and ready: "sender_ready ref_crypto ck (kp_public_key kp) (IdentityKey (ref_key 1)) (IdentityKey (ref_key 3)) 0 sa"
    and none: "get_receiver_chain sb (kp_public_key kp) = Ok None" "has_sender_chain sb = Ok True"
    and ids: "remote_identity_key sb = Ok (Some (IdentityKey (ref_key 1)))"
      "local_identity_key sb = Ok (IdentityKey (ref_key 3))"
    by (rule x3dh_ratchet_ahead [OF ref_hash_ok ref_dh_ok ref_x3dh_match, unfolded roles])
  let ?sa = "sa\<lparr>ss_pending_pre_key := None\<rparr>"
  have "ratchet_ahead ref_crypto kp ck ?sa sb"
    "sender_ready ref_crypto ck (kp_public_key kp) (IdentityKey (ref_key 1)) (IdentityKey (ref_key 3)) 0 ?sa"
    using ahead ready by (simp_all add: ratchet_ahead_def sender_ready_def)
  then have "turn ref_crypto (IdentityKey (ref_key 1)) (IdentityKey (ref_key 3)) (kp_public_key kp)
      (SessionRecord_new ?sa) (SessionRecord_new sb)"
    using ids by (auto simp: turn_def SessionRecord_new_def intro!: exI [of _ kp] exI [of _ ck] exI [of _ 0])
  with none show thesis
    by (intro that) (auto simp: knows_ratchet_key_def acknowledged_def SessionRecord_new_def)
qed

theorem ratchet_turn_delivered_witness:
  "\<exists>m r r' alice' bob' r2 r2'.
    message_encrypt ref_crypto (ref_prost c_wire_SignalMessage) (ref_prost c_wire_PreKeySignalMessage) [7, 8]
      \<lparr>pa_name = ''bob'', pa_device_id = 1\<rparr> InMem_SessionStore InMem_IdentityKeyStore
      (ref_store 1 [\<lparr>pa_name = ''bob'', pa_device_id = 1\<rparr> \<mapsto> r]) = (Ok (CM_SignalMessage m), alice') \<and>
    message_decrypt ref_crypto (CM_SignalMessage m) \<lparr>pa_name = ''alice'', pa_device_id = 1\<rparr> InMem_SessionStore
      InMem_IdentityKeyStore InMem_PreKeyStore InMem_SignedPreKeyStore
      (ref_store 3 [\<lparr>pa_name = ''alice'', pa_device_id = 1\<rparr> \<mapsto> r'], 70) =
      (Ok [7, 8], (bob', snd (KeyPair_generate ref_crypto 70))) \<and>
    turn ref_crypto (IdentityKey (ref_key 3)) (IdentityKey (ref_key 1))
      (kp_public_key (fst (KeyPair_generate ref_crypto 70))) r2' r2"
proof -
  obtain r r' eph where t: "turn ref_crypto (IdentityKey (ref_key 1)) (IdentityKey (ref_key 3)) eph r r'"
    "\<not> knows_ratchet_key r' eph" "acknowledged r"
    by (rule ref_turn)
  let ?a = "\<lparr>pa_name = ''alice'', pa_device_id = 1\<rparr>" and ?b = "\<lparr>pa_name = ''bob'', pa_device_id = 1\<rparr>"
  have st: "inmem_sessions (ref_store 1 [?b \<mapsto> r]) ?b = Some r" "inmem_sessions (ref_store 3 [?a \<mapsto> r']) ?a = Some r'"
    "inmem_known (ref_store 1 [?b \<mapsto> r]) ?b = None \<or> inmem_known (ref_store 1 [?b \<mapsto> r]) ?b = Some (IdentityKey (ref_key 3))"
    "inmem_known (ref_store 3 [?a \<mapsto> r']) ?a = None \<or> inmem_known (ref_store 3 [?a \<mapsto> r']) ?a = Some (IdentityKey (ref_key 1))"
    by (simp_all add: ref_store_def InMemIdentityKeyStore_new_def)
  have ok: "prost_ok (ref_prost c_wire_SignalMessage)" by simp
  show ?thesis
    using ratchet_turn_delivered [OF ref_hash_ok ref_dh_ok ref_cbc_ok ok t st,
        where ptext = "[7, 8]" and rng = 70 and PP = "ref_prost c_wire_PreKeySignalMessage"] by blast
qed

end
