(* ===== verification/Session_Safety.thy ===== *)
theory Session_Safety
  imports Conversation
begin

text \<open>
  What the one-to-one operations do when they do not succeed: failed decryptions leave the
  sessions alone, and a changed identity key or a bad signature stops an operation before it has
  any effect.
\<close>

section \<open>Rejected identities\<close>

text \<open>A signature is refused for its length, or because it does not verify.\<close>

definition bad_signature_error :: "bytes \<Rightarrow> SignalProtocolError" where
  "bad_signature_error sig =
     (if length sig \<noteq> 64 then MismatchedSignatureLengthForKey Djb (length sig) else SignatureValidationFailed)"

lemma verify_signature_refused:
  assumes "verify_signature C k m sig \<noteq> Ok True"
  shows "verify_signature C k m sig =
    (if length sig \<noteq> 64 then Err (MismatchedSignatureLengthForKey Djb (length sig)) else Ok False)"
  using assms by (auto simp: verify_signature_def PublicKey_verify_signature_def split: PublicKeyData.splits if_splits)

context protocol_store_laws
begin

lemma bundle_untrusted:
  assumes "known st a = Some k" "k \<noteq> pkb_identity_key bundle"
  shows "process_prekey_bundle C a SS IS bundle (st, rng) = (Err (UntrustedIdentity a), (st, rng))"
  using assms by (simp add: process_prekey_bundle_def Let_def trusted_known)

lemma bundle_bad_signature:
  assumes "known st a = None \<or> known st a = Some (pkb_identity_key bundle)"
    and "verify_signature C (ik_public_key (pkb_identity_key bundle))
      (PublicKey_serialize (pkb_signed_pre_key_public bundle)) (pkb_signed_pre_key_signature bundle) \<noteq> Ok True"
  shows "process_prekey_bundle C a SS IS bundle (st, rng) =
    (Err (bad_signature_error (pkb_signed_pre_key_signature bundle)), (st, rng))"
  using assms verify_signature_refused [OF assms(2)]
  unfolding process_prekey_bundle_def Let_def by (auto simp: trusted_known bad_signature_error_def split: if_splits)

lemma decrypt_prekey_untrusted:
  assumes "known st a = Some k" "k \<noteq> pm_identity_key m"
  shows "message_decrypt_prekey C m a SS IS PS SPS (st, rng) = (Err (UntrustedIdentity a), (st, rng))"
  using assms by (simp add: message_decrypt_prekey_def process_prekey_def with_record_def Let_def sessions.load_view
      trusted_known)

lemma encrypt_untrusted:
  assumes r: "sessions st a = Some r" "current_session r = Some s" "remote_identity_key s = Ok (Some them)"
    and trust: "known st a = Some k" "k \<noteq> them"
  shows "yields (\<lambda>t. t = st) (message_encrypt C PM PP ptext a SS IS) (\<lambda>_. False)"
proof -
  have load: "yields (\<lambda>t. t = st) (load_session SS a) (\<lambda>x. x = Some r)"
    by (simp add: yields_def sessions.load_view r(1))
  have known: "yields (\<lambda>t. t = st) (is_trusted_identity IS a k' d) (\<lambda>b. b \<longleftrightarrow> k' = k)" for k' d
    using trust(1) by (auto simp: yields_def trusted_known)
  show ?thesis
    unfolding message_encrypt_def Let_def
    by (intro yields_sbind [OF load] yields_sbind [OF known] yields_bind_slift yields_bind_option yields_If yields_sthrow
        yields_sret TrueI) (use r(2,3) trust(2) in \<open>auto simp: session_state_def\<close>)
qed

end

section \<open>Properties of the error paths\<close>

text \<open>
  C8. A decryption that does not succeed, for whatever reason, leaves every session and every
  pre-key as it was; unless it was a pre-key message (which may record the sender's identity), it
  leaves the whole store.
\<close>

theorem failed_decryption_leaves_sessions:
  assumes "message_decrypt C m a InMem_SessionStore InMem_IdentityKeyStore InMem_PreKeyStore InMem_SignedPreKeyStore
      (st, rng) = (x, (st', rng'))" "\<not> is_ok x"
  shows "inmem_sessions st' = inmem_sessions st \<and> inmem_pre_keys st' = inmem_pre_keys st \<and>
    ((\<exists>pm. m = CM_PreKeySignalMessage pm) \<or> st' = st)"
proof (cases m)
  case (CM_SignalMessage sm)
  with assms have "message_decrypt_signal C sm a InMem_SessionStore InMem_IdentityKeyStore (st, rng) = (x, (st', rng'))"
    by (simp add: message_decrypt_def)
  from fails_cleanD [OF inmem.decrypt_signal_fails_clean this assms(2)] show ?thesis by simp
next
  case (CM_PreKeySignalMessage pm)
  with assms have run: "message_decrypt_prekey C pm a InMem_SessionStore InMem_IdentityKeyStore InMem_PreKeyStore
      InMem_SignedPreKeyStore (st, rng) = (x, (st', rng'))"
    by (simp add: message_decrypt_def)
  from fails_cleanD [OF inmem.decrypt_prekey_fails_clean(1) run assms(2)]
    fails_cleanD [OF inmem.decrypt_prekey_fails_clean(2) run assms(2)] CM_PreKeySignalMessage
  show ?thesis by simp
qed (use assms in \<open>simp_all add: message_decrypt_def\<close>)

theorem failed_decryption_leaves_sessions_witness:
  "\<exists>x st' rng'. message_decrypt ref_crypto (CM_SignalMessage \<lparr>sm_message_version = 3, sm_sender_ratchet_key = ref_key 7,
       sm_counter = 0, sm_previous_counter = 0, sm_ciphertext = [], sm_serialized = []\<rparr>)
     \<lparr>pa_name = ''bob'', pa_device_id = 1\<rparr> InMem_SessionStore InMem_IdentityKeyStore InMem_PreKeyStore
     InMem_SignedPreKeyStore (ref_store 1 Map.empty, 0) = (x, (st', rng')) \<and> st' = ref_store 1 Map.empty"
proof -
  let ?run = "message_decrypt ref_crypto (CM_SignalMessage \<lparr>sm_message_version = 3, sm_sender_ratchet_key = ref_key 7,
       sm_counter = 0, sm_previous_counter = 0, sm_ciphertext = [], sm_serialized = []\<rparr>)
     \<lparr>pa_name = ''bob'', pa_device_id = 1\<rparr> InMem_SessionStore InMem_IdentityKeyStore InMem_PreKeyStore
     InMem_SignedPreKeyStore (ref_store 1 Map.empty, 0)"
  obtain x st' rng' where run: "?run = (x, (st', rng'))" by (metis prod.collapse)
  moreover have "inmem_sessions (ref_store 1 Map.empty) b = None" for b by (simp add: ref_store_def)
  then have "fst ?run = Err SessionNotFound"
    by (simp add: message_decrypt_def message_decrypt_signal_def inmem.sessions.load_view)
  with run have "\<not> is_ok x" by simp
  from failed_decryption_leaves_sessions [OF run this] run show ?thesis by auto
qed

text \<open>
  C9. Trust on first use. Once an identity key is on record for an address, every operation that
  meets another key there is refused without any effect: processing a bundle and receiving a
  pre-key message give \<open>UntrustedIdentity\<close> and leave the store and the generator as they were, and
  encrypting in a session with the other key does not succeed and leaves the store.
\<close>

theorem changed_identity_refused:
  assumes "inmem_known st a = Some k"
  shows "(k \<noteq> pkb_identity_key b \<longrightarrow>
      process_prekey_bundle C a InMem_SessionStore InMem_IdentityKeyStore b (st, rng) =
        (Err (UntrustedIdentity a), (st, rng))) \<and>
    (k \<noteq> pm_identity_key m \<longrightarrow>
      message_decrypt C (CM_PreKeySignalMessage m) a InMem_SessionStore InMem_IdentityKeyStore InMem_PreKeyStore
        InMem_SignedPreKeyStore (st, rng) = (Err (UntrustedIdentity a), (st, rng))) \<and>
    (\<forall>r s them. inmem_sessions st a = Some r \<and> current_session r = Some s \<and> remote_identity_key s = Ok (Some them) \<and>
       k \<noteq> them \<longrightarrow>
      (case message_encrypt C PM PP ptext a InMem_SessionStore InMem_IdentityKeyStore st of (x, st') \<Rightarrow>
         \<not> is_ok x \<and> st' = st))"
proof (intro conjI impI allI)
  show "process_prekey_bundle C a InMem_SessionStore InMem_IdentityKeyStore b (st, rng) =
      (Err (UntrustedIdentity a), (st, rng))" if "k \<noteq> pkb_identity_key b"
    by (rule inmem.bundle_untrusted [OF assms that])
  show "message_decrypt C (CM_PreKeySignalMessage m) a InMem_SessionStore InMem_IdentityKeyStore InMem_PreKeyStore
      InMem_SignedPreKeyStore (st, rng) = (Err (UntrustedIdentity a), (st, rng))" if "k \<noteq> pm_identity_key m"
    using inmem.decrypt_prekey_untrusted [OF assms that] by (simp add: message_decrypt_def)
  fix r s them
  assume s: "inmem_sessions st a = Some r \<and> current_session r = Some s \<and> remote_identity_key s = Ok (Some them) \<and> k \<noteq> them"
  then have "yields (\<lambda>t. t = st) (message_encrypt C PM PP ptext a InMem_SessionStore InMem_IdentityKeyStore) (\<lambda>_. False)"
    by (blast intro: inmem.encrypt_untrusted [OF _ _ _ assms])
  then show "case message_encrypt C PM PP ptext a InMem_SessionStore InMem_IdentityKeyStore st of (x, st') \<Rightarrow>
      \<not> is_ok x \<and> st' = st"
    by (auto simp: yields_def is_ok_iff split: prod.splits)
qed

theorem changed_identity_refused_witness:
  "\<exists>st. inmem_known st \<lparr>pa_name = ''bob'', pa_device_id = 1\<rparr> = Some (IdentityKey (ref_key 2)) \<and>
     process_prekey_bundle ref_crypto \<lparr>pa_name = ''bob'', pa_device_id = 1\<rparr> InMem_SessionStore InMem_IdentityKeyStore
       (ref_bundle []) (st, 0) = (Err (UntrustedIdentity \<lparr>pa_name = ''bob'', pa_device_id = 1\<rparr>), (st, 0))"
proof -
  let ?st = "(ref_store 1 Map.empty)\<lparr>identity_store := \<lparr>im_key_pair = IdentityKeyPair_from (ref_pair 1), im_id = 9,
      im_known_keys = [\<lparr>pa_name = ''bob'', pa_device_id = 1\<rparr> \<mapsto> IdentityKey (ref_key 2)]\<rparr>\<rparr>"
  have known: "inmem_known ?st \<lparr>pa_name = ''bob'', pa_device_id = 1\<rparr> = Some (IdentityKey (ref_key 2))" by simp
  have "IdentityKey (ref_key 2) \<noteq> pkb_identity_key (ref_bundle [])"
    by (simp add: ref_bundle_def ref_key_def numeral_3_eq_3)
  with changed_identity_refused [OF known, of "ref_bundle []" ref_crypto 0] known show ?thesis by blast
qed

text \<open>
  C10. A bundle whose signed pre-key does not carry a valid signature of the identity key is refused
  before anything is stored and before any key is generated: with
  \<open>MismatchedSignatureLengthForKey\<close> when the signature does not have 64 bytes (a bundle without
  signature in particular), with \<open>SignatureValidationFailed\<close> when it does.
\<close>

theorem unsigned_bundle_refused:
  assumes "inmem_known st a = None \<or> inmem_known st a = Some (pkb_identity_key b)"
    and "verify_signature C (ik_public_key (pkb_identity_key b))
      (PublicKey_serialize (pkb_signed_pre_key_public b)) (pkb_signed_pre_key_signature b) \<noteq> Ok True"
  shows "process_prekey_bundle C a InMem_SessionStore InMem_IdentityKeyStore b (st, rng) =
    (if length (pkb_signed_pre_key_signature b) = 64
     then (Err SignatureValidationFailed, (st, rng))
     else (Err (MismatchedSignatureLengthForKey Djb (length (pkb_signed_pre_key_signature b))), (st, rng)))"
  using inmem.bundle_bad_signature [OF assms] by (simp add: bad_signature_error_def)

lemma ref_bundle_unsigned:
  assumes "length sig \<noteq> 64 \<or> sig = replicate 64 255"
  shows "verify_signature ref_crypto (ik_public_key (pkb_identity_key (ref_bundle sig)))
      (PublicKey_serialize (pkb_signed_pre_key_public (ref_bundle sig)))
      (pkb_signed_pre_key_signature (ref_bundle sig)) \<noteq> Ok True"
  using assms by (auto simp: ref_bundle_def ref_key_def verify_signature_def PublicKey_verify_signature_def
      Curve25519_verify_signature_def Let_def split: option.splits)

theorem unsigned_bundle_refused_witness:
  "process_prekey_bundle ref_crypto \<lparr>pa_name = ''bob'', pa_device_id = 1\<rparr> InMem_SessionStore InMem_IdentityKeyStore
     (ref_bundle (replicate 64 255)) (ref_store 1 Map.empty, 0) = (Err SignatureValidationFailed, (ref_store 1 Map.empty, 0)) \<and>
   process_prekey_bundle ref_crypto \<lparr>pa_name = ''bob'', pa_device_id = 1\<rparr> InMem_SessionStore InMem_IdentityKeyStore
     (ref_bundle []) (ref_store 1 Map.empty, 0) =
       (Err (MismatchedSignatureLengthForKey Djb 0), (ref_store 1 Map.empty, 0))"
proof -
  let ?b = "\<lparr>pa_name = ''bob'', pa_device_id = 1\<rparr>"
  have known: "inmem_known (ref_store 1 Map.empty) ?b = None \<or> inmem_known (ref_store 1 Map.empty) ?b = Some k" for k
    by (simp add: ref_store_def InMemIdentityKeyStore_new_def)
  have sig: "pkb_signed_pre_key_signature (ref_bundle sig) = sig" for sig by (simp add: ref_bundle_def)
  show ?thesis
    using unsigned_bundle_refused [OF known ref_bundle_unsigned, of "replicate 64 255" 0]
      unsigned_bundle_refused [OF known ref_bundle_unsigned, of "[]" 0]
    by (simp add: sig del: replicate.simps)
qed

end
