(* ===== verification/Group_Cipher.thy ===== *)
theory Group_Cipher
  imports Sender_Keys Stores Messages Window
begin

text \<open>
  Model of \<open>rust/protocol/src/group_cipher.rs\<close>: encryption and decryption of group messages, and
  the distribution of sender keys. The record that a function loads is a local copy; it reaches
  the store only through \<open>store_sender_key\<close>. The state is the storage, with the random generator
  beside it where the function draws from it.
\<close>

section \<open>Encryption\<close>

definition group_encrypt ::
    "('sc, 'pt, 'r) crypto \<Rightarrow> wire_SenderKeyMessage prost \<Rightarrow> 's SenderKeyStore \<Rightarrow> SenderKeyName \<Rightarrow> bytes
       \<Rightarrow> ('s \<times> 'r, bytes) sst" where
  "group_encrypt C P sender_key_st sender_key_id ptext =
     sbind (on_fst (load_sender_key sender_key_st sender_key_id)) (\<lambda>loaded.
     sbind (slift (ok_or loaded InvalidSenderKeyId)) (\<lambda>record.
     sbind (slift (sender_key_state record)) (\<lambda>(state, i).
     sbind (slift (rbind (sender_chain_key state) (sender_message_key C))) (\<lambda>sender_key.
     sbind (slift (aes_256_cbc_encrypt C ptext (smk_cipher_key sender_key) (smk_iv sender_key))) (\<lambda>ciphertext.
     sbind (slift (signing_key_private state)) (\<lambda>signing_key.
     sbind (slift (ok_or signing_key SenderKeySigningKeyMissing)) (\<lambda>signing_key.
     sbind (on_snd (SenderKeyMessage_new C P (sks_sender_key_id state) (smk_iteration sender_key) ciphertext signing_key))
       (\<lambda>skm.
     sbind (slift (rbind (sender_chain_key state) (SenderChainKey_next C))) (\<lambda>next_key.
     sbind (slift (SenderKeyState_set_sender_chain_key state next_key)) (\<lambda>state.
     sbind (on_fst (store_sender_key sender_key_st sender_key_id (write_state record i state))) (\<lambda>_.
     sret (skm_serialized skm))))))))))))"

section \<open>Decryption\<close>

text \<open>The loop \<open>while sender_chain_key.iteration()? < iteration\<close>: its body, and the loop.\<close>

definition skip_sender_key ::
    "('sc, 'pt, 'r) crypto \<Rightarrow> SenderChainKey \<times> SenderKeyState \<Rightarrow> (SenderChainKey \<times> SenderKeyState) sresult" where
  "skip_sender_key C = (\<lambda>(chain_key, state).
     rbind (sender_message_key C chain_key) (\<lambda>smk.
     rbind (add_sender_message_key state smk) (\<lambda>state.
     rbind (SenderChainKey_next C chain_key) (\<lambda>chain_key.
     Ok (chain_key, state)))))"

lemma skip_sender_key_iteration:
  "skip_sender_key C (c, s) = Ok (c', s') \<Longrightarrow> sck_iteration c' = sck_iteration c + 1"
  by (auto simp: skip_sender_key_def result_simps)

function skip_sender_keys ::
    "('sc, 'pt, 'r) crypto \<Rightarrow> SenderKeyState \<Rightarrow> SenderChainKey \<Rightarrow> u32 \<Rightarrow> (SenderChainKey \<times> SenderKeyState) sresult" where
  "skip_sender_keys C state chain_key iteration =
     (if sck_iteration chain_key < iteration
      then rbind (skip_sender_key C (chain_key, state)) (\<lambda>(chain_key, state).
           skip_sender_keys C state chain_key iteration)
      else Ok (chain_key, state))"
  by pat_completeness auto

termination skip_sender_keys
proof (relation "measure (\<lambda>(C, s, c, n). unat n - unat (sck_iteration c))")
  fix C :: "('sc, 'pt, 'r) crypto" and s c n p s' c'
  assume "sck_iteration c < n" "skip_sender_key C (c, s) = Ok p" "(c', s') = p"
  then have "unat (sck_iteration c') = Suc (unat (sck_iteration c))" "unat (sck_iteration c) < unat n"
    using unat_plus_one [of "sck_iteration c" n] skip_sender_key_iteration [of C c s c' s']
    by (auto simp: word_less_nat_alt)
  then show "((C, s', c', n), (C, s, c, n)) \<in> measure (\<lambda>(C, s, c, n). unat n - unat (sck_iteration c))"
    by simp
qed simp

declare skip_sender_keys.simps [simp del]

definition get_sender_key ::
    "('sc, 'pt, 'r) crypto \<Rightarrow> SenderKeyState \<Rightarrow> u32 \<Rightarrow> (SenderMessageKey \<times> SenderKeyState) sresult" where
  "get_sender_key C state iteration =
     rbind (sender_chain_key state) (\<lambda>chain_key.
     if sck_iteration chain_key > iteration then
       rbind (remove_sender_message_key C state iteration) (\<lambda>(found, state).
         case found of
           Some smk \<Rightarrow> Ok (smk, state)
         | None \<Rightarrow> Err (DuplicatedMessage (sck_iteration chain_key) iteration))
     else
       let jump = unat (iteration - sck_iteration chain_key) in
       if jump > MAX_FORWARD_JUMPS then Err (InvalidMessage ''message from too far into the future'')
       else
         rbind (skip_sender_keys C state chain_key iteration) (\<lambda>(chain_key, state).
         rbind (SenderChainKey_next C chain_key) (\<lambda>next_key.
         rbind (SenderKeyState_set_sender_chain_key state next_key) (\<lambda>state.
         rbind (sender_message_key C chain_key) (\<lambda>smk.
         Ok (smk, state))))))"

definition group_decrypt ::
    "('sc, 'pt, 'r) crypto \<Rightarrow> wire_SenderKeyMessage prost \<Rightarrow> bytes \<Rightarrow> 's SenderKeyStore \<Rightarrow> SenderKeyName
       \<Rightarrow> ('s, bytes) sst" where
  "group_decrypt C P skm_bytes sender_key_st sender_key_id =
     sbind (load_sender_key sender_key_st sender_key_id) (\<lambda>loaded.
     sbind (slift (ok_or loaded InvalidSenderKeyId)) (\<lambda>record.
     sbind (slift (SenderKeyMessage_try_from P skm_bytes)) (\<lambda>skm.
     sbind (slift (sender_key_state_for_keyid record (skm_key_id skm))) (\<lambda>(state, i).
     sbind (slift (signing_key_public state)) (\<lambda>signing_key.
     sbind (slift (SenderKeyMessage_verify_signature C skm signing_key)) (\<lambda>valid.
     if \<not> valid then sthrow SignatureValidationFailed
     else
     sbind (slift (get_sender_key C state (skm_iteration skm))) (\<lambda>(sender_key, state).
     sbind (slift (aes_256_cbc_decrypt C (skm_ciphertext skm) (smk_cipher_key sender_key) (smk_iv sender_key))) (\<lambda>ptext.
     sbind (store_sender_key sender_key_st sender_key_id (write_state record i state)) (\<lambda>_.
     sret ptext)))))))))"

section \<open>Distribution of sender keys\<close>

definition process_sender_key_distribution_message ::
    "SenderKeyName \<Rightarrow> SenderKeyDistributionMessage \<Rightarrow> 's SenderKeyStore \<Rightarrow> ('s, unit) sst" where
  "process_sender_key_distribution_message sender_key_name skdm sender_key_st =
     sbind (load_sender_key sender_key_st sender_key_name) (\<lambda>loaded.
     let sender_key_record = (case loaded of None \<Rightarrow> SenderKeyRecord_new_empty | Some r \<Rightarrow> r) in
     sbind (slift (add_sender_key_state sender_key_record (skdm_id skdm) (skdm_iteration skdm)
              (skdm_chain_key skdm) (skdm_signing_key skdm) None)) (\<lambda>sender_key_record.
     store_sender_key sender_key_st sender_key_name sender_key_record))"

definition create_sender_key_distribution_message ::
    "('sc, 'pt, 'r) crypto \<Rightarrow> wire_SenderKeyDistributionMessage prost \<Rightarrow> SenderKeyName \<Rightarrow> 's SenderKeyStore
       \<Rightarrow> ('s \<times> 'r, SenderKeyDistributionMessage) sst" where
  "create_sender_key_distribution_message C P sender_key_name sender_key_st =
     sbind (on_fst (load_sender_key sender_key_st sender_key_name)) (\<lambda>loaded.
     let sender_key_record = (case loaded of None \<Rightarrow> SenderKeyRecord_new_empty | Some r \<Rightarrow> r) in
     sbind (slift (SenderKeyRecord_is_empty sender_key_record)) (\<lambda>empty.
     sbind (if empty then
              sbind (on_snd (sgen (rng_gen_u32 C))) (\<lambda>random_id.
              let sender_key_id = drop_bit 1 random_id; iteration = 0 in
              sbind (on_snd (sgen (\<lambda>r. rng_gen_array C r 32))) (\<lambda>sender_key.
              sbind (on_snd (sgen (KeyPair_generate C))) (\<lambda>signing_key.
              sbind (slift (set_sender_key_state sender_key_record sender_key_id iteration sender_key
                       (kp_public_key signing_key) (Some (kp_private_key signing_key)))) (\<lambda>sender_key_record.
              sbind (on_fst (store_sender_key sender_key_st sender_key_name sender_key_record)) (\<lambda>_.
              sret sender_key_record)))))
            else sret sender_key_record) (\<lambda>sender_key_record.
     slift (
       rbind (sender_key_state sender_key_record) (\<lambda>(state, i).
       rbind (sender_chain_key state) (\<lambda>chain_key.
       rbind (signing_key_public state) (\<lambda>signing_key.
       SenderKeyDistributionMessage_new P (sks_sender_key_id state) (sck_iteration chain_key)
         (sck_chain_key chain_key) signing_key)))))))"

end
