(* ===== verification/Store_Limits.thy ===== *)
theory Store_Limits
  imports Session_Protocol Group_Cipher
begin

text \<open>
  The in-memory store under every operation of the library, in every order: what it keeps of a
  conversation or a group stays within fixed limits. The operations are proved with the rules
  for \<open>yields\<close>, the store as a whole by induction over its reachable states.
\<close>

section \<open>Limits of a record\<close>

definition record_limits :: "SessionRecord \<Rightarrow> bool" where
  "record_limits r \<longleftrightarrow> record_bounded r \<and> (\<forall>s\<in>set (record_states r). session_bounded s)"

definition group_state_limits :: "SenderKeyState \<Rightarrow> bool" where
  "group_state_limits s \<longleftrightarrow> length (sks_sender_message_keys s) \<le> MAX_MESSAGE_KEYS"

definition group_limits :: "SenderKeyRecord \<Rightarrow> bool" where
  "group_limits r \<longleftrightarrow> length (skrec_states r) \<le> MAX_SENDER_KEY_STATES \<and> (\<forall>s\<in>set (skrec_states r). group_state_limits s)"

definition store_limits :: "InMemSignalProtocolStore \<Rightarrow> bool" where
  "store_limits st \<longleftrightarrow> (\<forall>a r. inmem_sessions st a = Some r \<longrightarrow> record_limits r) \<and>
     (\<forall>n r. inmem_sender_keys st n = Some r \<longrightarrow> group_limits r)"

section \<open>Session states and records\<close>

lemma new_session_bounded [simp]: "session_bounded (new_session_structure l r k)"
  by (simp add: session_bounded_def new_session_structure_def)

text \<open>One rule for each method of a session state, to go back from the state it leaves.\<close>

lemma setters_bounded:
  "set_alice_base_key s k = Ok s' \<Longrightarrow> session_bounded s \<Longrightarrow> session_bounded s'"
  "set_previous_counter s n = Ok s' \<Longrightarrow> session_bounded s \<Longrightarrow> session_bounded s'"
  "set_root_key s rk = Ok s' \<Longrightarrow> session_bounded s \<Longrightarrow> session_bounded s'"
  "add_receiver_chain s eph ck = Ok s' \<Longrightarrow> session_bounded s \<Longrightarrow> session_bounded s'"
  "set_sender_chain s kp ck = Ok s' \<Longrightarrow> session_bounded s \<Longrightarrow> session_bounded s'"
  "set_sender_chain_key s ck = Ok s' \<Longrightarrow> session_bounded s \<Longrightarrow> session_bounded s'"
  "get_message_keys s eph n = Ok (mk, s') \<Longrightarrow> session_bounded s \<Longrightarrow> session_bounded s'"
  "set_message_keys s eph keys = Ok s' \<Longrightarrow> session_bounded s \<Longrightarrow> session_bounded s'"
  "set_receiver_chain_key s eph ck = Ok s' \<Longrightarrow> session_bounded s \<Longrightarrow> session_bounded s'"
  "set_unacknowledged_pre_key_message s i j b = Ok s' \<Longrightarrow> session_bounded s \<Longrightarrow> session_bounded s'"
  "clear_unacknowledged_pre_key_message s = Ok s' \<Longrightarrow> session_bounded s \<Longrightarrow> session_bounded s'"
  "set_remote_registration_id s n = Ok s' \<Longrightarrow> session_bounded s \<Longrightarrow> session_bounded s'"
  "set_local_registration_id s n = Ok s' \<Longrightarrow> session_bounded s \<Longrightarrow> session_bounded s'"
  by (blast intro: session_step_bounded session_step.intros)+

lemma initialize_bob_bounded: "initialize_bob_session C p = Ok s \<Longrightarrow> session_bounded s"
  by (auto simp: initialize_bob_session_def Let_def result_simps elim!: setters_bounded)

lemma initialize_alice_bounded: "initialize_alice_session C p rng = (Ok s, rng') \<Longrightarrow> session_bounded s"
  by (auto simp: initialize_alice_session_def Let_def result_simps elim!: setters_bounded)

lemma skip_message_keys_bounded:
  "skip_message_keys C eph s ck n = Ok (ck', s') \<Longrightarrow> session_bounded s \<Longrightarrow> session_bounded s'"
proof (induction C eph s ck n rule: skip_message_keys.induct)
  case (1 C eph s ck n)
  show ?case
  proof (cases "ck_index ck < n")
    case True
    with "1.prems"(1) obtain s1 ck1 where step: "skip_message_key C eph (ck, s) = Ok (ck1, s1)"
      and run: "skip_message_keys C eph s1 ck1 n = Ok (ck', s')"
      by (subst (asm) skip_message_keys.simps) (auto simp: rbind_eq_Ok)
    have "session_bounded s1"
      using step "1.prems"(2) by (auto simp: skip_message_key_def rbind_eq_Ok intro: setters_bounded(8))
    with "1.IH" [OF True step refl run] show ?thesis .
  next
    case False
    with "1.prems" show ?thesis by (subst (asm) skip_message_keys.simps) simp
  qed
qed

lemma get_or_create_message_key_bounded:
  assumes "get_or_create_message_key C s eph ck n = Ok (mk, s')" "session_bounded s"
  shows "session_bounded s'"
proof (cases "n < ck_index ck")
  case True
  with assms(1) have "get_message_keys s eph n = Ok (Some mk, s')"
    by (auto simp: get_or_create_message_key_def Let_def result_simps split: option.splits)
  then show ?thesis using assms(2) by (rule setters_bounded(7))
next
  case False
  with assms(1) obtain ck1 s1 ck2 where "skip_message_keys C eph s ck n = Ok (ck1, s1)"
    "set_receiver_chain_key s1 eph ck2 = Ok s'"
    by (auto simp: get_or_create_message_key_def Let_def rbind_eq_Ok split: if_splits)
  then show ?thesis using assms(2) by (blast intro: setters_bounded(9) skip_message_keys_bounded)
qed

lemma get_or_create_chain_key_bounded:
  assumes "get_or_create_chain_key C s eph rng = (Ok (ck, s'), rng')" "session_bounded s"
  shows "session_bounded s'"
  using assms unfolding get_or_create_chain_key_def Let_def
  by (auto simp: result_simps elim!: setters_bounded split: option.splits)

lemma decrypt_with_state_bounded:
  assumes "decrypt_message_with_state C s m rng = (Ok (ptext, s'), rng')" "session_bounded s"
  shows "session_bounded s'"
  using assms unfolding decrypt_message_with_state_def Let_def
  by (auto simp: result_simps elim!: setters_bounded get_or_create_chain_key_bounded
      get_or_create_message_key_bounded split: if_splits)

definition is_duplicate :: "SignalProtocolError \<Rightarrow> bool" where
  "is_duplicate e \<longleftrightarrow> (\<exists>i n. e = DuplicatedMessage i n)"

lemma try_previous_Err:
  assumes "decrypt_message_with_state C s m rng = (Err e, rng1)"
  shows "try_previous_states C m k (s # ss) rng =
    (if is_duplicate e then (Err e, rng1) else try_previous_states C m (Suc k) ss rng1)"
  using assms by (cases e) (simp_all add: is_duplicate_def)

lemma try_previous_bounded:
  assumes "try_previous_states C m k ss rng = (Ok (Some (ptext, i, s')), rng')" "\<forall>s\<in>set ss. session_bounded s"
  shows "session_bounded s'"
  using assms
proof (induction ss arbitrary: k rng)
  case (Cons s ss)
  obtain x rng1 where x: "decrypt_message_with_state C s m rng = (x, rng1)" by fastforce
  show ?case
  proof (cases x)
    case (Ok y)
    obtain p t where "y = (p, t)" by fastforce
    with Cons.prems x Ok show ?thesis by (auto dest: decrypt_with_state_bounded)
  next
    case (Err e)
    with Cons x show ?thesis by (auto simp: try_previous_Err simp del: try_previous_states.simps split: if_splits)
  qed (use Cons.prems x in simp)
qed simp

lemma record_limits_state: "record_limits r \<Longrightarrow> current_session r = Some s \<Longrightarrow> session_bounded s"
  by (simp add: record_limits_def record_states_def)

lemma record_limits_current:
  "record_limits r \<Longrightarrow> session_bounded s \<Longrightarrow> record_limits (r\<lparr>current_session := Some s\<rparr>)"
  by (auto simp: record_limits_def record_states_def record_bounded_def)

lemma record_limits_fresh [simp]: "record_limits SessionRecord_new_fresh"
  by (simp add: record_limits_def record_states_def record_bounded_def SessionRecord_new_fresh_def)

lemma archive_limits:
  assumes "archive_current_state r = Ok r'" "record_limits r"
  shows "record_limits r'"
proof -
  have r': "r' = \<lparr>current_session = None, previous_sessions = take ARCHIVED_STATES_MAX_LENGTH (record_states r)\<rparr>"
    using assms archive_current_state_eq [of r] by (simp add: record_limits_def)
  have "set (record_states r') \<subseteq> set (record_states r)"
    using set_take_subset [of ARCHIVED_STATES_MAX_LENGTH "record_states r"]
    by (simp add: r' record_states_def [of "\<lparr>current_session = None, previous_sessions = _\<rparr>"])
  with assms(2) show ?thesis by (auto simp: record_limits_def) (simp add: r')
qed

lemma promote_state_limits:
  "promote_state r s = Ok r' \<Longrightarrow> record_limits r \<Longrightarrow> session_bounded s \<Longrightarrow> record_limits r'"
  by (auto simp: promote_state_def result_simps intro: record_limits_current archive_limits)

lemma promote_old_session_limits:
  assumes "promote_old_session r i s = Ok r'" "record_limits r" "session_bounded s"
  shows "record_limits r'"
proof -
  let ?r = "r\<lparr>previous_sessions := remove_at i (previous_sessions r)\<rparr>"
  have i: "i < length (previous_sessions r)" and p: "promote_state ?r s = Ok r'"
    using assms(1) by (auto simp: promote_old_session_def split: if_splits)
  have "record_limits ?r"
    using assms(2) length_remove_at [OF i] set_remove_at_subset [of i "previous_sessions r"]
    by (auto simp: record_limits_def record_states_def record_bounded_def)
  then show ?thesis using p assms(3) by (blast intro: promote_state_limits)
qed

text \<open>A record decrypts with its current state or with an archived one, which it then promotes.\<close>

lemma decrypt_record_cases:
  assumes "decrypt_message_with_record C r m rng = (Ok (ptext, r'), rng')"
  obtains (current) s s' where "current_session r = Some s" "decrypt_message_with_state C s m rng = (Ok (ptext, s'), rng')"
      "r' = r\<lparr>current_session := Some s'\<rparr>"
    | (archived) rng1 i s' where "try_previous_states C m 0 (previous_sessions r) rng1 = (Ok (Some (ptext, i, s')), rng')"
      "promote_old_session r i s' = Ok r'"
proof -
  obtain s where s: "current_session r = Some s"
    using assms by (auto simp: decrypt_message_with_record_def session_state_def result_simps)
  obtain x rng1 where x: "decrypt_message_with_state C s m rng = (x, rng1)" by fastforce
  have tried: thesis if "sbind (try_previous_states C m 0 (previous_sessions r)) (\<lambda>updated_session.
         case updated_session of
           Some (ptext, idx, updated_session) \<Rightarrow>
             slift (rbind (promote_old_session r idx updated_session) (\<lambda>record. Ok (ptext, record)))
         | None \<Rightarrow> sthrow (InvalidMessage ''decryption failed; no matching session state'')) rng1 = (Ok (ptext, r'), rng')"
    using that archived by (auto simp: result_simps split: option.splits)
  show thesis
  proof (cases x)
    case (Ok y)
    obtain p t where "y = (p, t)" by fastforce
    with assms s x Ok current [OF s, of t] show thesis
      by (simp add: decrypt_message_with_record_def session_state_def set_session_state_def)
  next
    case (Err e)
    with assms s x tried show thesis
      by (cases e) (simp_all add: decrypt_message_with_record_def session_state_def)
  qed (use assms s x in \<open>simp add: decrypt_message_with_record_def session_state_def\<close>)
qed

lemma decrypt_with_record_limits:
  assumes "decrypt_message_with_record C r m rng = (Ok (ptext, r'), rng')" "record_limits r"
  shows "record_limits r'"
  using assms(1)
proof (cases rule: decrypt_record_cases)
  case (current s s')
  with record_limits_state [OF assms(2)] show ?thesis
    by (auto intro: record_limits_current [OF assms(2)] dest: decrypt_with_state_bounded)
next
  case (archived rng1 i s')
  have "\<forall>s\<in>set (previous_sessions r). session_bounded s"
    using assms(2) by (simp add: record_limits_def record_states_def)
  with archived assms(2) show ?thesis by (blast intro: promote_old_session_limits try_previous_bounded)
qed

section \<open>Sender key records\<close>

lemma length_push: "length (push_sender_message_key k ks) \<le> MAX_MESSAGE_KEYS"
  by (simp add: push_sender_message_key_def trim_front_eq)

lemma group_limits_empty [simp]: "group_limits SenderKeyRecord_new_empty"
  by (simp add: group_limits_def SenderKeyRecord_new_empty_def)

lemma add_sender_key_state_limits:
  assumes "add_sender_key_state r i n ck pub priv = Ok r'" "group_limits r"
  shows "group_limits r'"
proof -
  obtain s where s: "SenderKeyState_new i n ck pub priv = Ok s" "r' = \<lparr>skrec_states = take 5 (s # skrec_states r)\<rparr>"
    using add_sender_key_state_eq [of i n ck pub priv r] assms(1) by auto
  have "group_state_limits s"
    using s(1) by (auto simp: SenderKeyState_new_def result_simps group_state_limits_def)
  with assms(2) show ?thesis by (auto simp: s(2) group_limits_def consts_defs dest: in_set_takeD)
qed

lemma set_sender_key_state_limits:
  "set_sender_key_state r i n ck pub priv = Ok r' \<Longrightarrow> group_limits r'"
  unfolding set_sender_key_state_def by (erule add_sender_key_state_limits) (simp add: group_limits_def)

lemma write_state_limits:
  "group_limits r \<Longrightarrow> group_state_limits s \<Longrightarrow> group_limits (write_state r i s)"
  by (auto simp: group_limits_def dest!: set_update_subset_insert [THEN subsetD])

lemma sender_key_state_limits:
  "sender_key_state r = Ok (s, i) \<Longrightarrow> group_limits r \<Longrightarrow> group_state_limits s"
  "sender_key_state_for_keyid r key_id = Ok (s, i) \<Longrightarrow> group_limits r \<Longrightarrow> group_state_limits s"
  by (auto simp: sender_key_state_def sender_key_state_for_keyid_def group_limits_def
      split: if_splits option.splits dest: position_Some)

lemma skip_sender_keys_limits:
  "skip_sender_keys C s ck n = Ok (ck', s') \<Longrightarrow> group_state_limits s \<Longrightarrow> group_state_limits s'"
proof (induction C s ck n rule: skip_sender_keys.induct)
  case (1 C s ck n)
  show ?case
  proof (cases "sck_iteration ck < n")
    case True
    with "1.prems"(1) obtain s1 ck1 where step: "skip_sender_key C (ck, s) = Ok (ck1, s1)"
      and run: "skip_sender_keys C s1 ck1 n = Ok (ck', s')"
      by (subst (asm) skip_sender_keys.simps) (auto simp: rbind_eq_Ok)
    have "group_state_limits s1"
      using step length_push
      by (auto simp: skip_sender_key_def add_sender_message_key_def rbind_eq_Ok group_state_limits_def)
    with "1.IH" [OF True step refl run] show ?thesis .
  next
    case False
    with "1.prems" show ?thesis by (subst (asm) skip_sender_keys.simps) simp
  qed
qed

lemma set_sender_chain_key_limits:
  "SenderKeyState_set_sender_chain_key s ck = Ok s' \<Longrightarrow> group_state_limits s \<Longrightarrow> group_state_limits s'"
  by (auto simp: SenderKeyState_set_sender_chain_key_def rbind_eq_Ok group_state_limits_def)

lemma remove_sender_message_key_limits:
  "remove_sender_message_key C s n = Ok (k, s') \<Longrightarrow> group_state_limits s \<Longrightarrow> group_state_limits s'"
  by (auto simp: remove_sender_message_key_def Let_def rbind_eq_Ok group_state_limits_def length_remove_at
      split: option.splits dest!: position_Some)

lemma get_sender_key_limits:
  assumes "get_sender_key C s n = Ok (k, s')" "group_state_limits s"
  shows "group_state_limits s'"
proof -
  obtain ck where ck: "sender_chain_key s = Ok ck" using assms(1) by (auto simp: get_sender_key_def rbind_eq_Ok)
  show ?thesis
  proof (cases "n < sck_iteration ck")
    case True
    with assms(1) ck have "remove_sender_message_key C s n = Ok (Some k, s')"
      by (auto simp: get_sender_key_def rbind_eq_Ok split: option.splits)
    then show ?thesis using assms(2) by (rule remove_sender_message_key_limits)
  next
    case False
    with assms(1) ck obtain ck1 s1 ck2 where "skip_sender_keys C s ck n = Ok (ck1, s1)"
      "SenderKeyState_set_sender_chain_key s1 ck2 = Ok s'"
      by (auto simp: get_sender_key_def Let_def rbind_eq_Ok split: if_splits)
    then show ?thesis using assms(2) by (blast intro: set_sender_chain_key_limits skip_sender_keys_limits)
  qed
qed

section \<open>The operations on the store\<close>

abbreviation session_loaded :: "SessionRecord option \<Rightarrow> bool" where
  "session_loaded x \<equiv> \<forall>r. x = Some r \<longrightarrow> record_limits r"

abbreviation group_loaded :: "SenderKeyRecord option \<Rightarrow> bool" where
  "group_loaded x \<equiv> \<forall>r. x = Some r \<longrightarrow> group_limits r"

lemma store_reads:
  "yields store_limits (load_session InMem_SessionStore a) session_loaded"
  "yields store_limits (load_sender_key InMem_SenderKeyStore n) group_loaded"
  "yields store_limits (is_trusted_identity InMem_IdentityKeyStore a k d) (\<lambda>_. True)"
  "yields store_limits (get_identity_key_pair InMem_IdentityKeyStore) (\<lambda>_. True)"
  "yields store_limits (get_local_registration_id InMem_IdentityKeyStore) (\<lambda>_. True)"
  "yields store_limits (get_pre_key InMem_PreKeyStore i) (\<lambda>_. True)"
  "yields store_limits (get_signed_pre_key InMem_SignedPreKeyStore i) (\<lambda>_. True)"
  by (auto simp: yields_def store_limits_def inmem_defs split: option.splits)

lemma store_writes:
  "yields store_limits (save_identity InMem_IdentityKeyStore a k) (\<lambda>_. True)"
  "yields store_limits (save_pre_key InMem_PreKeyStore i p) (\<lambda>_. True)"
  "yields store_limits (remove_pre_key InMem_PreKeyStore i) (\<lambda>_. True)"
  "yields store_limits (save_signed_pre_key InMem_SignedPreKeyStore i q) (\<lambda>_. True)"
  "record_limits r \<Longrightarrow> yields store_limits (store_session InMem_SessionStore a r) (\<lambda>_. True)"
  "group_limits g \<Longrightarrow> yields store_limits (store_sender_key InMem_SenderKeyStore n g) (\<lambda>_. True)"
  by (auto simp: yields_def store_limits_def inmem_defs split: option.splits if_splits)

text \<open>The rules in the form in which the operations use them.\<close>

lemmas yields_steps = yields_bind_slift yields_bind_option yields_If yields_case_prod yields_sthrow yields_sret
  store_reads [THEN yields_sbind] store_writes(1-4) [THEN yields_sbind] yields_sbind [OF store_writes(5)]
  yields_sbind [OF store_writes(6)] store_writes(1-6)

lemmas yields_pair_steps = yields_bind_slift yields_bind_on_snd yields_bind_option yields_If yields_case_prod yields_sthrow
  yields_sret store_reads [THEN yields_bind_on_fst] store_writes(1-4) [THEN yields_bind_on_fst]
  yields_bind_on_fst [OF store_writes(5)] yields_bind_on_fst [OF store_writes(6)] store_writes(1-6) [THEN yields_on_fst]

lemma session_loaded_record [simp]:
  "session_loaded x \<Longrightarrow> record_limits (case x of None \<Rightarrow> SessionRecord_new_fresh | Some r \<Rightarrow> r)"
  by (simp split: option.splits)

lemma group_loaded_record [simp]:
  "group_loaded x \<Longrightarrow> group_limits (case x of None \<Rightarrow> SenderKeyRecord_new_empty | Some r \<Rightarrow> r)"
  by (simp split: option.splits)

lemma session_loaded_state:
  "session_loaded x \<Longrightarrow> ok_or x e = Ok r \<Longrightarrow> session_state r = Ok s \<Longrightarrow> session_bounded s"
  by (auto simp: session_state_def result_simps intro: record_limits_state)

lemma loaded_limits:
  "session_loaded x \<Longrightarrow> ok_or x e = Ok r \<Longrightarrow> record_limits r" "group_loaded y \<Longrightarrow> ok_or y e = Ok g \<Longrightarrow> group_limits g"
  by (simp_all add: result_simps)

lemma message_encrypt_limits:
  "yields store_limits (message_encrypt C PM PP ptext a InMem_SessionStore InMem_IdentityKeyStore) (\<lambda>_. True)"
  unfolding message_encrypt_def Let_def
  by (intro yields_steps TrueI record_limits_current) (blast intro: loaded_limits session_loaded_state setters_bounded(6))+

lemma message_decrypt_signal_limits:
  "yields (\<lambda>s. store_limits (fst s)) (message_decrypt_signal C m a InMem_SessionStore InMem_IdentityKeyStore) (\<lambda>_. True)"
  unfolding message_decrypt_signal_def
  by (intro yields_pair_steps TrueI) (auto dest!: decrypt_with_record_limits loaded_limits)

lemma process_prekey_bundle_limits:
  "yields (\<lambda>s. store_limits (fst s)) (process_prekey_bundle C a InMem_SessionStore InMem_IdentityKeyStore bundle) (\<lambda>_. True)"
  unfolding process_prekey_bundle_def Let_def
  by (intro yields_pair_steps TrueI)
     (erule promote_state_limits, simp, elim setters_bounded initialize_alice_bounded)

lemma group_encrypt_limits:
  "yields (\<lambda>s. store_limits (fst s)) (group_encrypt C P InMem_SenderKeyStore name ptext) (\<lambda>_. True)"
  unfolding group_encrypt_def
  by (intro yields_pair_steps TrueI write_state_limits)
     (blast intro: loaded_limits set_sender_chain_key_limits sender_key_state_limits(1))+

lemma group_decrypt_limits:
  "yields store_limits (group_decrypt C P bs InMem_SenderKeyStore name) (\<lambda>_. True)"
  unfolding group_decrypt_def
  by (intro yields_steps TrueI write_state_limits)
     (blast intro: loaded_limits get_sender_key_limits sender_key_state_limits(2))+

lemma process_distribution_limits:
  "yields store_limits (process_sender_key_distribution_message name skdm InMem_SenderKeyStore) (\<lambda>_. True)"
  unfolding process_sender_key_distribution_message_def Let_def
  by (intro yields_steps TrueI) (erule add_sender_key_state_limits, simp)

lemma create_distribution_limits:
  "yields (\<lambda>s. store_limits (fst s)) (create_sender_key_distribution_message C PD name InMem_SenderKeyStore) (\<lambda>_. True)"
proof -
  have "yields (\<lambda>s. store_limits (fst s))
     (sbind (if empty then
              sbind (on_snd (sgen (rng_gen_u32 C))) (\<lambda>random_id.
              sbind (on_snd (sgen (\<lambda>r. rng_gen_array C r 32))) (\<lambda>sender_key.
              sbind (on_snd (sgen (KeyPair_generate C))) (\<lambda>signing_key.
              sbind (slift (set_sender_key_state r (drop_bit 1 random_id) 0 sender_key
                       (kp_public_key signing_key) (Some (kp_private_key signing_key)))) (\<lambda>sender_key_record.
              sbind (on_fst (store_sender_key InMem_SenderKeyStore name sender_key_record)) (\<lambda>_.
              sret sender_key_record)))))
            else sret r) (\<lambda>x. slift (f x))) (\<lambda>_. True)" for empty r and f :: "SenderKeyRecord \<Rightarrow> 'x sresult"
    by (rule yields_sbind [where Q = "\<lambda>_. True"])
       (intro yields_pair_steps yields_slift TrueI; erule set_sender_key_state_limits)+
  then show ?thesis
    unfolding create_sender_key_distribution_message_def Let_def by (intro yields_pair_steps)
qed

text \<open>The state of \<open>process_prekey\<close> is the storage and the caller's record; both stay within the limits.\<close>

abbreviation both_limits :: "InMemSignalProtocolStore \<times> SessionRecord \<Rightarrow> bool" where
  "both_limits x \<equiv> store_limits (fst x) \<and> record_limits (snd x)"

lemma yields_both_on_fst: "yields store_limits m Q \<Longrightarrow> yields both_limits (on_fst m) Q"
  by (auto simp: yields_def on_fst_def split: prod.splits)

lemma yields_modify_record:
  assumes "\<And>r r'. f r = Ok r' \<Longrightarrow> record_limits r \<Longrightarrow> record_limits r'"
  shows "yields both_limits (modify_record f) (\<lambda>_. True)"
  unfolding yields_def
proof (intro allI impI)
  fix s x s' assume s: "both_limits s" "modify_record f s = (x, s')"
  then show "both_limits s' \<and> (\<forall>y. x = Ok y \<longrightarrow> True)"
    using assms [of "snd s"] by (cases "f (snd s)") (auto simp: modify_record_def split_beta)
qed

lemma yields_reading_record:
  assumes "\<And>r. yields both_limits (g r) Q"
  shows "yields both_limits (reading_record g) Q"
  unfolding yields_def
proof (intro allI impI)
  fix s x s' assume s: "both_limits s" "reading_record g s = (x, s')"
  have "g (snd s) s = (x, s')" using s(2) by (simp add: reading_record_def split_beta)
  with s(1) assms [of "snd s"] show "both_limits s' \<and> (\<forall>y. x = Ok y \<longrightarrow> Q y)"
    unfolding yields_def by blast
qed

lemma process_prekey_v3_limits:
  "yields both_limits (process_prekey_v3 C m InMem_SignedPreKeyStore InMem_PreKeyStore InMem_IdentityKeyStore) (\<lambda>_. True)"
  unfolding process_prekey_v3_def Let_def
  by (intro yields_reading_record yields_bind_slift yields_bind_option yields_If yields_sret TrueI
      store_reads [THEN yields_both_on_fst, THEN yields_sbind] yields_sbind [OF yields_modify_record];
      (erule archive_limits, assumption)?)
     (erule promote_state_limits, assumption, elim setters_bounded initialize_bob_bounded)

lemma process_prekey_limits:
  "yields both_limits (process_prekey C m a InMem_IdentityKeyStore InMem_PreKeyStore InMem_SignedPreKeyStore) (\<lambda>_. True)"
  unfolding process_prekey_def Let_def
  by (intro yields_If yields_sthrow yields_sret TrueI yields_sbind [OF process_prekey_v3_limits]
      store_reads [THEN yields_both_on_fst, THEN yields_sbind] store_writes(1) [THEN yields_both_on_fst, THEN yields_sbind])

lemma yields_with_record:
  assumes "yields both_limits m (\<lambda>_. True)" "record_limits r"
  shows "yields store_limits (with_record r m) (\<lambda>(x, r'). record_limits r')"
  unfolding yields_def
proof (intro allI impI)
  fix s x s' assume s: "store_limits s" "with_record r m s = (x, s')"
  obtain y s1 r1 where m: "m (s, r) = (y, (s1, r1))" by (metis prod.collapse)
  have "both_limits (s1, r1)" by (rule yieldsD [OF assms(1) m]) (simp add: s(1) assms(2))
  with s(2) m show "store_limits s' \<and> (\<forall>y. x = Ok y \<longrightarrow> (case y of (x, r') \<Rightarrow> record_limits r'))"
    by (cases y) (auto simp: with_record_def)
qed

lemma message_decrypt_prekey_limits:
  "yields (\<lambda>s. store_limits (fst s)) (message_decrypt_prekey C m a InMem_SessionStore InMem_IdentityKeyStore
     InMem_PreKeyStore InMem_SignedPreKeyStore) (\<lambda>_. True)"
  unfolding message_decrypt_prekey_def Let_def
  by (intro yields_bind_on_fst [OF yields_with_record [OF process_prekey_limits]] yields_pair_steps TrueI)
     (auto dest!: decrypt_with_record_limits)

lemma message_decrypt_limits:
  "yields (\<lambda>s. store_limits (fst s)) (message_decrypt C m a InMem_SessionStore InMem_IdentityKeyStore
     InMem_PreKeyStore InMem_SignedPreKeyStore) (\<lambda>_. True)"
  unfolding message_decrypt_def
  by (cases m) (simp_all add: message_decrypt_signal_limits message_decrypt_prekey_limits yields_sthrow)

section \<open>The store in every reachable state\<close>

text \<open>
  The store of a client that calls the operations of the library in any order, whatever their
  arguments and whether they succeed or fail. \<open>C\<close>, \<open>PM\<close>, \<open>PP\<close>, \<open>PK\<close> and \<open>PD\<close> are the cryptography and
  the codecs.
\<close>

inductive store_reachable ::
    "('sc, 'pt, 'r) crypto \<Rightarrow> wire_SignalMessage prost \<Rightarrow> wire_PreKeySignalMessage prost \<Rightarrow> wire_SenderKeyMessage prost
       \<Rightarrow> wire_SenderKeyDistributionMessage prost \<Rightarrow> InMemSignalProtocolStore \<Rightarrow> bool"
  for C PM PP PK PD where
  init: "InMemSignalProtocolStore_new kp reg_id = Ok st \<Longrightarrow> store_reachable C PM PP PK PD st"
| process_bundle: "store_reachable C PM PP PK PD st \<Longrightarrow>
    process_prekey_bundle C a InMem_SessionStore InMem_IdentityKeyStore b (st, rng) = (x1, (st', rng')) \<Longrightarrow>
    store_reachable C PM PP PK PD st'"
| encrypt: "store_reachable C PM PP PK PD st \<Longrightarrow>
    message_encrypt C PM PP ptext a InMem_SessionStore InMem_IdentityKeyStore st = (x2, st') \<Longrightarrow>
    store_reachable C PM PP PK PD st'"
| decrypt: "store_reachable C PM PP PK PD st \<Longrightarrow>
    message_decrypt C m a InMem_SessionStore InMem_IdentityKeyStore InMem_PreKeyStore InMem_SignedPreKeyStore
      (st, rng) = (x3, (st', rng')) \<Longrightarrow> store_reachable C PM PP PK PD st'"
| create_distribution: "store_reachable C PM PP PK PD st \<Longrightarrow>
    create_sender_key_distribution_message C PD name InMem_SenderKeyStore (st, rng) = (x4, (st', rng')) \<Longrightarrow>
    store_reachable C PM PP PK PD st'"
| process_distribution: "store_reachable C PM PP PK PD st \<Longrightarrow>
    process_sender_key_distribution_message name skdm InMem_SenderKeyStore st = (x5, st') \<Longrightarrow>
    store_reachable C PM PP PK PD st'"
| group_encryption: "store_reachable C PM PP PK PD st \<Longrightarrow>
    group_encrypt C PK InMem_SenderKeyStore name ptext (st, rng) = (x6, (st', rng')) \<Longrightarrow>
    store_reachable C PM PP PK PD st'"
| group_decryption: "store_reachable C PM PP PK PD st \<Longrightarrow>
    group_decrypt C PK bs InMem_SenderKeyStore name st = (x7, st') \<Longrightarrow> store_reachable C PM PP PK PD st'"
| save_identity: "store_reachable C PM PP PK PD st \<Longrightarrow>
    save_identity InMem_IdentityKeyStore a k st = (x8, st') \<Longrightarrow> store_reachable C PM PP PK PD st'"
| save_pre_key: "store_reachable C PM PP PK PD st \<Longrightarrow>
    save_pre_key InMem_PreKeyStore i p st = (x9, st') \<Longrightarrow> store_reachable C PM PP PK PD st'"
| remove_pre_key: "store_reachable C PM PP PK PD st \<Longrightarrow>
    remove_pre_key InMem_PreKeyStore i st = (x10, st') \<Longrightarrow> store_reachable C PM PP PK PD st'"
| save_signed_pre_key: "store_reachable C PM PP PK PD st \<Longrightarrow>
    save_signed_pre_key InMem_SignedPreKeyStore i q st = (x11, st') \<Longrightarrow> store_reachable C PM PP PK PD st'"

lemma store_reachable_limits: "store_reachable C PM PP PK PD st \<Longrightarrow> store_limits st"
proof (induction rule: store_reachable.induct)
  case init
  then show ?case by (auto simp: InMemSignalProtocolStore_new_def store_limits_def)
next
  case process_bundle
  show ?case using yieldsD [OF process_prekey_bundle_limits process_bundle.hyps(2)] process_bundle.IH by simp
next
  case decrypt
  show ?case using yieldsD [OF message_decrypt_limits decrypt.hyps(2)] decrypt.IH by simp
next
  case create_distribution
  show ?case using yieldsD [OF create_distribution_limits create_distribution.hyps(2)] create_distribution.IH by simp
next
  case group_encryption
  show ?case using yieldsD [OF group_encrypt_limits group_encryption.hyps(2)] group_encryption.IH by simp
next
  case encrypt
  show ?case by (rule yieldsD [OF message_encrypt_limits encrypt.hyps(2) encrypt.IH])
next
  case process_distribution
  show ?case by (rule yieldsD [OF process_distribution_limits process_distribution.hyps(2) process_distribution.IH])
next
  case group_decryption
  show ?case by (rule yieldsD [OF group_decrypt_limits group_decryption.hyps(2) group_decryption.IH])
next
  case save_identity
  show ?case by (rule yieldsD [OF store_writes(1) save_identity.hyps(2) save_identity.IH])
next
  case save_pre_key
  show ?case by (rule yieldsD [OF store_writes(2) save_pre_key.hyps(2) save_pre_key.IH])
next
  case remove_pre_key
  show ?case by (rule yieldsD [OF store_writes(3) remove_pre_key.hyps(2) remove_pre_key.IH])
next
  case save_signed_pre_key
  show ?case by (rule yieldsD [OF store_writes(4) save_signed_pre_key.hyps(2) save_signed_pre_key.IH])
qed

text \<open>
  C7. Bounded storage. Whatever a client does with the library, and whatever its correspondents
  send it, in any order and with any failures, the store keeps at most 40 archived states beside
  the current one for each address, at most 5 receiver chains in each state and 2000 skipped
  message keys in each chain, at most 5 sender key states for each group and sender, and at most
  2000 skipped keys in each of those.
\<close>

theorem storage_bounded:
  assumes "store_reachable C PM PP PK PD st"
  shows "(\<forall>a r. inmem_sessions st a = Some r \<longrightarrow>
      length (previous_sessions r) \<le> 40 \<and>
      (\<forall>s\<in>set (record_states r). length (ss_receiver_chains s) \<le> 5 \<and>
         (\<forall>c\<in>set (ss_receiver_chains s). length (ch_message_keys c) \<le> 2000))) \<and>
    (\<forall>n r. inmem_sender_keys st n = Some r \<longrightarrow>
      length (skrec_states r) \<le> 5 \<and> (\<forall>s\<in>set (skrec_states r). length (sks_sender_message_keys s) \<le> 2000))"
  using store_reachable_limits [OF assms]
  by (simp add: store_limits_def record_limits_def record_bounded_def session_bounded_def chain_bounded_def
      group_limits_def group_state_limits_def consts_defs)

theorem storage_bounded_witness:
  "\<exists>st r. store_reachable ref_crypto (ref_prost c_wire_SignalMessage) (ref_prost c_wire_PreKeySignalMessage)
       (ref_prost c_wire_SenderKeyMessage) (ref_prost c_wire_SenderKeyDistributionMessage) st \<and>
     inmem_sender_keys st \<lparr>skn_group_id = ''group'', skn_sender = \<lparr>pa_name = ''alice'', pa_device_id = 1\<rparr>\<rparr> = Some r \<and>
     skrec_states r \<noteq> [] \<and> length (skrec_states r) \<le> 5"
proof -
  let ?R = "store_reachable ref_crypto (ref_prost c_wire_SignalMessage) (ref_prost c_wire_PreKeySignalMessage)
       (ref_prost c_wire_SenderKeyMessage) (ref_prost c_wire_SenderKeyDistributionMessage)"
  let ?name = "\<lparr>skn_group_id = ''group'', skn_sender = \<lparr>pa_name = ''alice'', pa_device_id = 1\<rparr>\<rparr>"
  let ?skdm = "\<lparr>skdm_message_version = 3, skdm_id = 8, skdm_iteration = 0, skdm_chain_key = replicate 32 6,
      skdm_signing_key = ref_key 4, skdm_serialized = []\<rparr>"
  obtain st0 where st0: "InMemSignalProtocolStore_new (IdentityKeyPair_from (ref_pair 1)) 9 = Ok st0"
    by (simp add: InMemSignalProtocolStore_new_def)
  then have none: "inmem_sender_keys st0 ?name = None" by (auto simp: InMemSignalProtocolStore_new_def)
  obtain st r where run: "process_sender_key_distribution_message ?name ?skdm InMem_SenderKeyStore st0 = (Ok (), st)"
    and r: "inmem_sender_keys st ?name = Some r" "skrec_states r \<noteq> []"
    using none by (simp add: process_sender_key_distribution_message_def inmem_defs Let_def add_sender_key_state_def
        SenderKeyState_new_def SenderChainKey_new_def SenderChainKey_as_protobuf_def SenderKeyRecord_new_empty_def
        trim_back_eq consts_defs)
  have reach: "?R st" by (rule store_reachable.process_distribution [OF store_reachable.init [OF st0] run])
  from storage_bounded [OF this] r have "length (skrec_states r) \<le> 5" by blast
  with reach r show ?thesis by blast
qed

end
