(* ===== verification/Group_Ratchet.thy ===== *)
theory Group_Ratchet
  imports Group_Cipher Ratchet
begin

text \<open>
  The group ratchet of \<open>group_cipher.rs\<close> refines the window of \<open>Window\<close>, at the level of a sender
  key state and at the level of the store, and group messages reach every member who processed
  the distribution message.
\<close>

section \<open>The chain\<close>

definition chain_at :: "('sc, 'pt, 'r) crypto \<Rightarrow> nat \<Rightarrow> SenderChainKey \<Rightarrow> SenderChainKey" where
  "chain_at C k base = (next_sender_chain C ^^ k) base"

text \<open>The message key of a chain key, total because the hash has a fixed length.\<close>

definition smk_of :: "('sc, 'pt, 'r) crypto \<Rightarrow> SenderChainKey \<Rightarrow> SenderMessageKey" where
  "smk_of C ck = (case sender_message_key C ck of Ok k \<Rightarrow> k
     | _ \<Rightarrow> \<lparr>smk_iteration = 0, smk_iv = [], smk_cipher_key = [], smk_seed = []\<rparr>)"

definition smk_entry :: "('sc, 'pt, 'r) crypto \<Rightarrow> SenderChainKey \<Rightarrow> SenderMessageKeyStructure" where
  "smk_entry C ck = \<lparr>smks_iteration = sck_iteration ck, smks_seed = chain_seed C ck\<rparr>"

abbreviation chain_structure :: "SenderChainKey \<Rightarrow> SenderChainKeyStructure" where
  "chain_structure ck \<equiv> \<lparr>scks_iteration = sck_iteration ck, scks_seed = sck_chain_key ck\<rparr>"

lemma chain_at_simps [simp]:
  "chain_at C 0 base = base"
  "next_sender_chain C (chain_at C k base) = chain_at C (Suc k) base"
  by (simp_all add: chain_at_def)

lemma chain_at_add: "chain_at C j (chain_at C k base) = chain_at C (j + k) base"
  by (simp add: chain_at_def funpow_add)

lemma sck_iteration_chain_at [simp]: "sck_iteration (chain_at C k base) = sck_iteration base + word_of_nat k"
  by (induction k) (simp_all flip: chain_at_simps(2))

lemma smk_of_eq:
  assumes "hash_ok C"
  shows "sender_message_key C ck = Ok (smk_of C ck)" "length (smk_iv (smk_of C ck)) = 16"
    "length (smk_cipher_key (smk_of C ck)) = 32" "smk_iteration (smk_of C ck) = sck_iteration ck"
    "smk_seed (smk_of C ck) = chain_seed C ck"
  using SenderMessageKey_new_Ok [OF assms, of "sck_iteration ck" "chain_seed C ck"]
  by (auto simp: smk_of_def sender_message_key_eq)

lemma smk_from_entry:
  "hash_ok C \<Longrightarrow> SenderMessageKey_from_protobuf C (smk_entry C ck) = Ok (smk_of C ck)"
  using smk_of_eq(1) [of C ck] by (simp add: SenderMessageKey_from_protobuf_def smk_entry_def sender_message_key_eq)

lemma add_sender_message_key_eq:
  "hash_ok C \<Longrightarrow> add_sender_message_key s (smk_of C ck) =
     Ok (s\<lparr>sks_sender_message_keys := push_sender_message_key (smk_entry C ck) (sks_sender_message_keys s)\<rparr>)"
  by (simp add: add_sender_message_key_def SenderMessageKey_as_protobuf_def smk_of_eq smk_entry_def)

abbreviation store_passed :: "('sc, 'pt, 'r) crypto \<Rightarrow> SenderChainKey \<Rightarrow> SenderKeyState \<Rightarrow> SenderKeyState" where
  "store_passed C ck s \<equiv>
     s\<lparr>sks_sender_message_keys := push_sender_message_key (smk_entry C ck) (sks_sender_message_keys s)\<rparr>"

interpretation group_loop: skip_loop sck_iteration "next_sender_chain C" "store_passed C" "\<lambda>_. hash_ok C"
  "skip_sender_keys C" for C :: "('sc, 'pt, 'r) crypto"
proof unfold_locales
  fix s :: SenderKeyState and c :: SenderChainKey and n :: u32
  show "skip_sender_keys C s c n = skip_sender_keys C (store_passed C c s) (next_sender_chain C c) n"
    if "hash_ok C" "sck_iteration c < n"
    using that by (subst skip_sender_keys.simps) (simp add: skip_sender_key_def smk_of_eq add_sender_message_key_eq)
  show "skip_sender_keys C s c n = Ok (c, s)" if "\<not> sck_iteration c < n"
    using that by (subst skip_sender_keys.simps) simp
qed simp_all

lemma fold_store_passed:
  "fold (store_passed C) cks s =
     s\<lparr>sks_sender_message_keys := fold push_sender_message_key (map (smk_entry C) cks) (sks_sender_message_keys s)\<rparr>"
  by (induction cks arbitrary: s) simp_all

text \<open>The loop from chain key number \<open>m\<close> to number \<open>n\<close>.\<close>

lemma skip_sender_keys_run:
  assumes "hash_ok C" "sck_iteration base = 0" "m \<le> unat n"
  shows "skip_sender_keys C s (chain_at C m base) n = Ok (chain_at C (unat n) base,
    s\<lparr>sks_sender_message_keys := fold push_sender_message_key
       (map (\<lambda>j. smk_entry C (chain_at C j base)) [m..<unat n]) (sks_sender_message_keys s)\<rparr>)"
proof -
  have m: "m < 4294967296" using assms(3) unat_u32_less [of n] by (rule le_less_trans)
  then have idx: "unat (sck_iteration (chain_at C m base)) = m" by (simp add: assms(2) unat_of_nat)
  have le: "sck_iteration (chain_at C m base) \<le> n" using idx assms(3) by (simp add: word_le_nat_alt)
  have "skip_sender_keys C s (chain_at C m base) n =
      Ok (chain_at C (unat n - m) (chain_at C m base),
          fold (store_passed C) (map (\<lambda>j. chain_at C j (chain_at C m base)) [0..<unat n - m]) s)"
    using group_loop.loop_result [OF assms(1) le] unfolding group_loop.passed_def idx by (simp add: chain_at_def)
  then show ?thesis
    using assms(3) map_upt_shift [of "\<lambda>j. smk_entry C (chain_at C j base)" m "unat n"]
    by (simp add: chain_at_add fold_store_passed comp_def)
qed

section \<open>A sender key state refines the window\<close>

text \<open>
  The state of a receiver in step with the sender whose chain started at \<open>base\<close>. The keys are
  kept oldest first. A member who joins late has a window that starts at the iteration of the
  distribution message.
\<close>

definition group_sync :: "('sc, 'pt, 'r) crypto \<Rightarrow> SenderChainKey \<Rightarrow> window \<Rightarrow> SenderKeyState \<Rightarrow> bool" where
  "group_sync C base w s \<longleftrightarrow>
     hash_ok C \<and> sck_iteration base = 0 \<and> window_inv w \<and> win_next w < 4294967296 \<and>
     sks_sender_chain_key s = Some (chain_structure (chain_at C (win_next w) base)) \<and>
     sks_sender_message_keys s = map (\<lambda>j. smk_entry C (chain_at C j base)) (rev (win_skipped w))"

lemma group_sync_chain:
  assumes "group_sync C base w s"
  shows "sender_chain_key s = Ok (chain_at C (win_next w) base)"
    "unat (sck_iteration (chain_at C (win_next w) base)) = win_next w"
  using assms by (simp_all add: group_sync_def sender_chain_key_def SenderChainKey_new_def unat_of_nat)

lemma rev_remove1: "distinct xs \<Longrightarrow> remove1 x (rev xs) = rev (remove1 x xs)"
  by (simp add: distinct_remove1_removeAll removeAll_filter_not_eq rev_filter)

lemma position_smk_entry:
  assumes "sck_iteration base = 0" "\<forall>j\<in>set js. j < 4294967296"
  shows "position (\<lambda>m. smks_iteration m = n) (map (\<lambda>j. smk_entry C (chain_at C j base)) js) =
    position (\<lambda>j. j = unat n) js"
  unfolding position_map
proof (rule position_cong)
  fix j assume "j \<in> set js"
  then have "unat (word_of_nat j :: u32) = j" using assms(2) by (simp add: unat_of_nat)
  then show "(smks_iteration (smk_entry C (chain_at C j base)) = n) = (j = unat n)"
    by (auto simp: smk_entry_def assms(1))
qed

lemma get_sender_key_old:
  assumes sync: "group_sync C base w s" and old: "unat n < win_next w"
  shows "unat n \<in> set (win_skipped w) \<Longrightarrow> get_sender_key C s n = Ok (smk_of C (chain_at C (unat n) base),
      s\<lparr>sks_sender_message_keys := map (\<lambda>j. smk_entry C (chain_at C j base)) (rev (remove1 (unat n) (win_skipped w)))\<rparr>)"
    and "unat n \<notin> set (win_skipped w) \<Longrightarrow>
      get_sender_key C s n = Err (DuplicatedMessage (word_of_nat (win_next w)) n)"
proof -
  note ck = group_sync_chain [OF sync]
  have h: "hash_ok C" and base: "sck_iteration base = 0" and inv: "window_inv w"
    and keys: "sks_sender_message_keys s = map (\<lambda>j. smk_entry C (chain_at C j base)) (rev (win_skipped w))"
    and small: "win_next w < 4294967296"
    using sync by (simp_all add: group_sync_def)
  have gt: "n < sck_iteration (chain_at C (win_next w) base)" using old ck(2) by (simp add: word_less_nat_alt)
  have pos: "position (\<lambda>m. smks_iteration m = n) (sks_sender_message_keys s) =
      position (\<lambda>j. j = unat n) (rev (win_skipped w))"
    unfolding keys using inv small by (intro position_smk_entry [OF base]) (auto simp: window_inv_def)
  show "get_sender_key C s n = Ok (smk_of C (chain_at C (unat n) base),
      s\<lparr>sks_sender_message_keys := map (\<lambda>j. smk_entry C (chain_at C j base)) (rev (remove1 (unat n) (win_skipped w)))\<rparr>)"
    if mem: "unat n \<in> set (win_skipped w)"
  proof -
    obtain p where p: "position (\<lambda>x. x = unat n) (rev (win_skipped w)) = Some p"
      "remove_at p (rev (win_skipped w)) = remove1 (unat n) (rev (win_skipped w))"
      "p < length (rev (win_skipped w))" "rev (win_skipped w) ! p = unat n"
      using mem position_eq_remove1 [of "unat n" "rev (win_skipped w)"] by auto
    have "remove_sender_message_key C s n = Ok (Some (smk_of C (chain_at C (unat n) base)),
        s\<lparr>sks_sender_message_keys := map (\<lambda>j. smk_entry C (chain_at C j base)) (remove1 (unat n) (rev (win_skipped w)))\<rparr>)"
      unfolding remove_sender_message_key_def pos p(1) option.case Let_def unfolding keys
      using p(3,4) by (simp add: remove_at_map p(2) smk_from_entry [OF h])
    then show ?thesis
      using gt inv by (simp add: get_sender_key_def ck(1) rev_remove1 window_inv_def del: sck_iteration_chain_at)
  qed
  show "get_sender_key C s n = Err (DuplicatedMessage (word_of_nat (win_next w)) n)"
    if "unat n \<notin> set (win_skipped w)"
  proof -
    have "position (\<lambda>m. smks_iteration m = n) (sks_sender_message_keys s) = None" unfolding pos using that by auto
    then have "remove_sender_message_key C s n = Ok (None, s)"
      by (simp add: remove_sender_message_key_def del: position_None)
    with gt base show ?thesis by (simp add: get_sender_key_def ck(1))
  qed
qed

lemma get_sender_key_new:
  assumes sync: "group_sync C base w s" and new: "win_next w \<le> unat n"
  shows "unat n - win_next w \<le> MAX_FORWARD_JUMPS \<Longrightarrow>
      get_sender_key C s n = Ok (smk_of C (chain_at C (unat n) base),
        s\<lparr>sks_sender_message_keys := map (\<lambda>j. smk_entry C (chain_at C j base))
            (rev (take MAX_MESSAGE_KEYS (rev [win_next w..<unat n] @ win_skipped w))),
          sks_sender_chain_key := Some (chain_structure (chain_at C (Suc (unat n)) base))\<rparr>)"
    and "unat n - win_next w > MAX_FORWARD_JUMPS \<Longrightarrow>
      get_sender_key C s n = Err (InvalidMessage ''message from too far into the future'')"
proof -
  let ?m = "win_next w" and ?e = "\<lambda>j. smk_entry C (chain_at C j base)"
  note ck = group_sync_chain [OF sync]
  have h: "hash_ok C" and base: "sck_iteration base = 0" and inv: "window_inv w"
    and keys: "sks_sender_message_keys s = map ?e (rev (win_skipped w))"
    using sync by (simp_all add: group_sync_def)
  have le: "sck_iteration (chain_at C ?m base) \<le> n" using ck(2) new by (simp add: word_le_nat_alt)
  then have nlt: "\<not> n < sck_iteration (chain_at C ?m base)" by simp
  have jump: "unat (n - sck_iteration (chain_at C ?m base)) = unat n - ?m"
    using unat_minus_of_le [OF le] ck(2) by simp
  show "get_sender_key C s n = Err (InvalidMessage ''message from too far into the future'')"
    if "unat n - ?m > MAX_FORWARD_JUMPS"
    using that nlt jump by (simp add: get_sender_key_def ck(1) Let_def del: sck_iteration_chain_at)
  assume near: "unat n - ?m \<le> MAX_FORWARD_JUMPS"
  let ?ks = "fold push_sender_message_key (map ?e [?m..<unat n]) (sks_sender_message_keys s)"
  have len: "length (sks_sender_message_keys s) \<le> MAX_MESSAGE_KEYS" using inv by (simp add: keys window_inv_def)
  have "rev ?ks = map ?e (take MAX_MESSAGE_KEYS (rev [?m..<unat n] @ win_skipped w))"
    using group_skips.newest_first_fold_ins [OF len] by (simp add: keys rev_map take_map)
  then have ks: "?ks = map ?e (rev (take MAX_MESSAGE_KEYS (rev [?m..<unat n] @ win_skipped w)))"
    by (metis rev_map rev_rev_ident)
  show "get_sender_key C s n = Ok (smk_of C (chain_at C (unat n) base),
        s\<lparr>sks_sender_message_keys := map ?e (rev (take MAX_MESSAGE_KEYS (rev [?m..<unat n] @ win_skipped w))),
          sks_sender_chain_key := Some (chain_structure (chain_at C (Suc (unat n)) base))\<rparr>)"
    using near nlt jump skip_sender_keys_run [OF h base new, of s] smk_of_eq(1) [OF h] unfolding ks
    by (simp add: get_sender_key_def ck(1) Let_def SenderKeyState_set_sender_chain_key_def
        SenderChainKey_as_protobuf_def del: sck_iteration_chain_at sck_iteration_next)
qed

lemma get_sender_key_accept:
  assumes sync: "group_sync C base w s" and acc: "window_accept w (unat n) = Some w'" and last: "n \<noteq> - 1"
  obtains s' where "get_sender_key C s n = Ok (smk_of C (chain_at C (unat n) base), s')" "group_sync C base w' s'"
    "sks_sender_key_id s' = sks_sender_key_id s" "sks_sender_signing_key s' = sks_sender_signing_key s"
proof (cases "unat n < win_next w")
  case True
  with acc have mem: "unat n \<in> set (win_skipped w)"
    and w': "w' = \<lparr>win_next = win_next w, win_skipped = remove1 (unat n) (win_skipped w)\<rparr>"
    by (auto simp: window_accept_def split: if_splits)
  have "window_inv w'" using window_accept_inv [OF _ acc] sync by (simp add: group_sync_def)
  then show thesis
    by (intro that [OF get_sender_key_old(1) [OF sync True mem]]) (use sync w' in \<open>simp_all add: group_sync_def\<close>)
next
  case False
  then have jump: "unat n - win_next w \<le> MAX_FORWARD_JUMPS" and w': "w' = \<lparr>win_next = Suc (unat n),
      win_skipped = take MAX_MESSAGE_KEYS (rev [win_next w..<unat n] @ win_skipped w)\<rparr>"
    using acc by (auto simp: window_accept_def split: if_splits)
  have inv: "window_inv w'" using window_accept_inv [OF _ acc] sync by (simp add: group_sync_def)
  have "unat n \<noteq> 4294967295" using last by (simp add: unat_u32_max)
  with unat_u32_less [of n] have "Suc (unat n) < 4294967296" by simp
  moreover have le: "win_next w \<le> unat n" using False by simp
  ultimately show thesis
    by (intro that [OF get_sender_key_new(1) [OF sync le jump]]) (use sync inv w' in \<open>simp_all add: group_sync_def\<close>)
qed

lemma get_sender_key_reject:
  assumes sync: "group_sync C base w s" and rej: "window_accept w (unat n) = None"
  shows "get_sender_key C s n = Err (if unat n < win_next w then DuplicatedMessage (word_of_nat (win_next w)) n
      else InvalidMessage ''message from too far into the future'')"
  using rej get_sender_key_old(2) [OF sync] get_sender_key_new(2) [OF sync]
  by (auto simp: window_accept_def split: if_splits)

section \<open>Group messages and the store\<close>

text \<open>
  The bytes of a message that the holder of the chain \<open>base\<close> and of the signing key of \<open>pub\<close>
  made of \<open>ptext\<close> at iteration \<open>n\<close>.
\<close>

definition group_message ::
    "('sc, 'pt, 'r) crypto \<Rightarrow> wire_SenderKeyMessage prost \<Rightarrow> SenderChainKey \<Rightarrow> u32 \<Rightarrow> PublicKey \<Rightarrow> u32 \<Rightarrow> bytes
       \<Rightarrow> bytes \<Rightarrow> bool" where
  "group_message C P base key_id pub n ptext bs \<longleftrightarrow>
     (\<exists>skm. SenderKeyMessage_try_from P bs = Ok skm \<and> skm_key_id skm = key_id \<and> skm_iteration skm = n \<and>
        SenderKeyMessage_verify_signature C skm pub = Ok True \<and>
        aes_256_cbc_encrypt C ptext (smk_cipher_key (smk_of C (chain_at C (unat n) base)))
          (smk_iv (smk_of C (chain_at C (unat n) base))) = Ok (skm_ciphertext skm))"

definition group_record_sync ::
    "('sc, 'pt, 'r) crypto \<Rightarrow> SenderChainKey \<Rightarrow> u32 \<Rightarrow> PublicKey \<Rightarrow> window \<Rightarrow> SenderKeyRecord option \<Rightarrow> bool" where
  "group_record_sync C base key_id pub w r \<longleftrightarrow>
     (\<exists>rec s i. r = Some rec \<and> sender_key_state_for_keyid rec key_id = Ok (s, i) \<and>
        signing_key_public s = Ok pub \<and> group_sync C base w s)"

text \<open>A state-passing computation as a receiver: an error leaves the state behind.\<close>

definition as_receiver :: "('s, 'a) sst \<Rightarrow> 's \<Rightarrow> ('a \<times> 's) sresult" where
  "as_receiver f st = (case f st of (Ok x, st') \<Rightarrow> Ok (x, st') | (Err e, _) \<Rightarrow> Err e | (Panic, _) \<Rightarrow> Panic)"

lemma position_update:
  assumes "position p xs = Some i" "p y"
  shows "position p (xs[i := y]) = Some i"
  using assms by (induction xs arbitrary: i) (auto split: if_splits option.splits nat.splits)

lemma state_for_keyid_write:
  assumes "sender_key_state_for_keyid r key_id = Ok (s, i)" "sks_sender_key_id s' = sks_sender_key_id s"
  shows "sender_key_state_for_keyid (write_state r i s') key_id = Ok (s', i)"
proof -
  have pos: "position (\<lambda>s. sks_sender_key_id s = key_id) (skrec_states r) = Some i"
    and s: "s = skrec_states r ! i"
    using assms(1) by (auto simp: sender_key_state_for_keyid_def split: option.splits)
  have "i < length (skrec_states r)" "sks_sender_key_id s' = key_id"
    using position_Some [OF pos] assms(2) s by auto
  with position_update [OF pos, of s'] show ?thesis by (simp add: sender_key_state_for_keyid_def)
qed

locale sender_store_laws =
  kv_store "load_sender_key SKS" "store_sender_key SKS" keys
  for SKS :: "'s SenderKeyStore" and keys :: "'s \<Rightarrow> SenderKeyName \<rightharpoonup> SenderKeyRecord"
begin

lemma decrypt_step:
  assumes msg: "group_message C P base key_id pub n ptext bs" and "cbc_ok C"
    and rec: "keys st name = Some r" "sender_key_state_for_keyid r key_id = Ok (s, i)" "signing_key_public s = Ok pub"
  shows "get_sender_key C s n = Ok (smk_of C (chain_at C (unat n) base), s') \<Longrightarrow>
      group_decrypt C P bs SKS name st = (case store_sender_key SKS name (write_state r i s') st of
        (Ok _, st') \<Rightarrow> (Ok ptext, st') | (Err e, st') \<Rightarrow> (Err e, st') | (Panic, st') \<Rightarrow> (Panic, st'))"
    and "get_sender_key C s n = Err e \<Longrightarrow> group_decrypt C P bs SKS name st = (Err e, st)"
proof -
  obtain skm where skm: "SenderKeyMessage_try_from P bs = Ok skm" "skm_key_id skm = key_id" "skm_iteration skm = n"
    "SenderKeyMessage_verify_signature C skm pub = Ok True"
    and enc: "aes_256_cbc_encrypt C ptext (smk_cipher_key (smk_of C (chain_at C (unat n) base)))
          (smk_iv (smk_of C (chain_at C (unat n) base))) = Ok (skm_ciphertext skm)"
    using msg by (auto simp: group_message_def)
  show "group_decrypt C P bs SKS name st = (Err e, st)" if "get_sender_key C s n = Err e"
    by (simp add: group_decrypt_def load_view rec skm that)
  show "group_decrypt C P bs SKS name st = (case store_sender_key SKS name (write_state r i s') st of
        (Ok _, st') \<Rightarrow> (Ok ptext, st') | (Err e, st') \<Rightarrow> (Err e, st') | (Panic, st') \<Rightarrow> (Panic, st'))"
    if "get_sender_key C s n = Ok (smk_of C (chain_at C (unat n) base), s')"
    by (simp add: group_decrypt_def load_view rec skm that aes_cbc_decrypt_encrypt [OF assms(2) enc]
        sbind_def split: prod.splits result.splits)
qed

lemma group_decrypt_fails_clean: "fails_clean (\<lambda>s. s) (group_decrypt C P bs SKS name)"
proof -
  have load: "keeps (\<lambda>s. s) (load_sender_key SKS name)" by (simp add: keeps_def load_view)
  have store: "never_fails (store_sender_key SKS name r)" for r
    using store_view unfolding never_fails_def by (metis fst_conv is_ok.simps(1))
  show ?thesis
    unfolding group_decrypt_def
    by (intro fails_clean_sbind fails_clean_If fails_clean_case_prod keeps_intros load
        fails_clean_keeps [OF keeps_basic(2)] fails_clean_never never_fails_intros store)
qed

lemma group_decrypt_accept:
  assumes msg: "group_message C P base key_id pub n ptext bs" and "cbc_ok C"
    and sync: "group_record_sync C base key_id pub w (keys st name)"
    and acc: "window_accept w (unat n) = Some w'" and last: "n \<noteq> - 1"
  shows "\<exists>st'. group_decrypt C P bs SKS name st = (Ok ptext, st') \<and>
    group_record_sync C base key_id pub w' (keys st' name) \<and> (\<forall>name'. name' \<noteq> name \<longrightarrow> keys st' name' = keys st name')"
proof -
  obtain r s i where rec: "keys st name = Some r" "sender_key_state_for_keyid r key_id = Ok (s, i)"
    "signing_key_public s = Ok pub" and gs: "group_sync C base w s"
    using sync by (auto simp: group_record_sync_def)
  obtain s' where s': "get_sender_key C s n = Ok (smk_of C (chain_at C (unat n) base), s')" "group_sync C base w' s'"
    "sks_sender_key_id s' = sks_sender_key_id s" "sks_sender_signing_key s' = sks_sender_signing_key s"
    by (rule get_sender_key_accept [OF gs acc last])
  obtain st' where st': "store_sender_key SKS name (write_state r i s') st = (Ok (), st')"
    "keys st' = (keys st)(name \<mapsto> write_state r i s')"
    by (rule store_Ok)
  have "signing_key_public s' = Ok pub" using rec(3) s'(4) by (simp add: signing_key_public_def)
  then have "group_record_sync C base key_id pub w' (keys st' name)"
    using state_for_keyid_write [OF rec(2) s'(3)] s'(2) by (simp add: group_record_sync_def st'(2))
  moreover have "group_decrypt C P bs SKS name st = (Ok ptext, st')"
    using decrypt_step(1) [OF msg assms(2) rec s'(1)] by (simp add: st'(1))
  ultimately show ?thesis by (simp add: st'(2))
qed

lemma group_decrypt_reject:
  assumes msg: "group_message C P base key_id pub n ptext bs" and "cbc_ok C"
    and sync: "group_record_sync C base key_id pub w (keys st name)" and rej: "window_accept w (unat n) = None"
  shows "group_decrypt C P bs SKS name st =
    (Err (if unat n < win_next w then DuplicatedMessage (word_of_nat (win_next w)) n
          else InvalidMessage ''message from too far into the future''), st)"
proof -
  obtain r s i where rec: "keys st name = Some r" "sender_key_state_for_keyid r key_id = Ok (s, i)"
    "signing_key_public s = Ok pub" and gs: "group_sync C base w s"
    using sync by (auto simp: group_record_sync_def)
  show ?thesis by (rule decrypt_step(2) [OF msg assms(2) rec get_sender_key_reject [OF gs rej]])
qed

end

section \<open>The sending side\<close>

text \<open>A record whose first state is about to use iteration \<open>k\<close> of the chain \<open>base\<close>.\<close>

definition group_sender_ready ::
    "('sc, 'pt, 'r) crypto \<Rightarrow> SenderChainKey \<Rightarrow> u32 \<Rightarrow> PublicKey \<Rightarrow> nat \<Rightarrow> SenderKeyRecord option \<Rightarrow> bool" where
  "group_sender_ready C base key_id pub k r \<longleftrightarrow>
     (\<exists>rec s rest priv. r = Some rec \<and> skrec_states rec = s # rest \<and> sks_sender_key_id s = key_id \<and>
        sck_iteration base = 0 \<and> sks_sender_chain_key s = Some (chain_structure (chain_at C k base)) \<and>
        sks_sender_signing_key s = Some \<lparr>ssks_public = PublicKey_serialize pub, ssks_private = PrivateKey_serialize priv\<rparr> \<and>
        PublicKey_wf pub \<and> PrivateKey_wf priv \<and> PrivateKey_public_key C priv = Ok pub)"

text \<open>Encrypting a sequence of messages, one after the other.\<close>

fun group_encrypt_all ::
    "('sc, 'pt, 'r) crypto \<Rightarrow> wire_SenderKeyMessage prost \<Rightarrow> 's SenderKeyStore \<Rightarrow> SenderKeyName \<Rightarrow> bytes list
       \<Rightarrow> ('s \<times> 'r, bytes list) sst" where
  "group_encrypt_all C P SKS name [] = sret []"
| "group_encrypt_all C P SKS name (ptext # ptexts) =
     sbind (group_encrypt C P SKS name ptext) (\<lambda>bs.
     sbind (group_encrypt_all C P SKS name ptexts) (\<lambda>rest. sret (bs # rest)))"

lemma group_message_new:
  assumes ok: "hash_ok C" "cbc_ok C" "prost_ok P" "xeddsa_ok C" and pub: "PrivateKey_public_key C priv = Ok pub"
  obtains ctext skm rng' where
    "aes_256_cbc_encrypt C ptext (smk_cipher_key (smk_of C (chain_at C (unat n) base)))
       (smk_iv (smk_of C (chain_at C (unat n) base))) = Ok ctext"
    "SenderKeyMessage_new C P key_id n ctext priv rng = (Ok skm, rng')"
    "group_message C P base key_id pub n ptext (skm_serialized skm)"
proof -
  let ?k = "smk_of C (chain_at C (unat n) base)"
  obtain ctext where enc: "aes_256_cbc_encrypt C ptext (smk_cipher_key ?k) (smk_iv ?k) = Ok ctext"
    using aes_256_cbc_encrypt_total [OF ok(2)] smk_of_eq [OF ok(1)] by blast
  obtain skm rng' where "SenderKeyMessage_new C P key_id n ctext priv rng = (Ok skm, rng')"
    "SenderKeyMessage_try_from P (skm_serialized skm) = Ok skm" "SenderKeyMessage_verify_signature C skm pub = Ok True"
    "skm_key_id skm = key_id" "skm_iteration skm = n" "skm_ciphertext skm = ctext"
    by (rule SenderKeyMessage_new_verifies [OF ok(3,4) pub])
  with enc show thesis by (intro that) (auto simp: group_message_def)
qed

context sender_store_laws
begin

lemma encrypt_step:
  assumes ok: "hash_ok C" "cbc_ok C" "prost_ok P" "xeddsa_ok C"
    and ready: "group_sender_ready C base key_id pub k (keys st name)" and k: "k < 4294967296"
  obtains bs st' rng' where "group_encrypt C P SKS name ptext (st, rng) = (Ok bs, (st', rng'))"
    "group_message C P base key_id pub (word_of_nat k) ptext bs"
    "group_sender_ready C base key_id pub (Suc k) (keys st' name)"
proof -
  obtain rec s rest priv where r: "keys st name = Some rec" "skrec_states rec = s # rest" "sks_sender_key_id s = key_id"
    and base: "sck_iteration base = 0" and ck: "sks_sender_chain_key s = Some (chain_structure (chain_at C k base))"
    and sig: "sks_sender_signing_key s = Some \<lparr>ssks_public = PublicKey_serialize pub, ssks_private = PrivateKey_serialize priv\<rparr>"
    and wf: "PublicKey_wf pub" "PrivateKey_wf priv" "PrivateKey_public_key C priv = Ok pub"
    using ready by (auto simp: group_sender_ready_def)
  have n: "unat (word_of_nat k :: u32) = k" using k by (simp add: unat_of_nat)
  obtain ctext skm rng' where enc: "aes_256_cbc_encrypt C ptext (smk_cipher_key (smk_of C (chain_at C k base)))
       (smk_iv (smk_of C (chain_at C k base))) = Ok ctext"
    and new: "SenderKeyMessage_new C P key_id (word_of_nat k) ctext priv rng = (Ok skm, rng')"
    and msg: "group_message C P base key_id pub (word_of_nat k) ptext (skm_serialized skm)"
    using group_message_new [OF ok wf(3), where n = "word_of_nat k"] n by metis
  let ?s = "s\<lparr>sks_sender_chain_key := Some (chain_structure (chain_at C (Suc k) base))\<rparr>"
  obtain st' where st': "store_sender_key SKS name (write_state rec 0 ?s) st = (Ok (), st')"
    "keys st' = (keys st)(name \<mapsto> write_state rec 0 ?s)" by (rule store_Ok)
  have w: "write_state rec 0 ?s = rec\<lparr>skrec_states := ?s # rest\<rparr>"
    and it: "sck_iteration (chain_at C k base) = word_of_nat k" by (simp_all add: r(2) base)
  have chain: "sender_chain_key s = Ok (chain_at C k base)"
    by (simp add: sender_chain_key_def ck SenderChainKey_new_def)
  have priv: "signing_key_private s = Ok (Some priv)"
    using wf(2) by (simp add: signing_key_private_def sig privkey.deser_ser)
  have "group_encrypt C P SKS name ptext (st, rng) = (Ok (skm_serialized skm), (st', rng'))"
    unfolding group_encrypt_def
    by (simp add: load_view r sender_key_state_def chain smk_of_eq [OF ok(1)] enc priv new it
        SenderKeyState_set_sender_chain_key_def SenderChainKey_as_protobuf_def st'(1) [unfolded w]
        del: sck_iteration_chain_at sck_iteration_next)
  moreover have "group_sender_ready C base key_id pub (Suc k) (keys st' name)"
    using r base sig wf by (auto simp: group_sender_ready_def st'(2))
  ultimately show thesis using msg that by blast
qed

lemma encrypt_all:
  assumes ok: "hash_ok C" "cbc_ok C" "prost_ok P" "xeddsa_ok C"
  shows "group_sender_ready C base key_id pub k (keys st name) \<Longrightarrow> k + length ptexts \<le> 4294967296 \<Longrightarrow>
    \<exists>msgs x. group_encrypt_all C P SKS name ptexts (st, rng) = (Ok msgs, x) \<and> length msgs = length ptexts \<and>
      (\<forall>j<length ptexts. group_message C P base key_id pub (word_of_nat (k + j)) (ptexts ! j) (msgs ! j))"
proof (induction ptexts arbitrary: k st rng)
  case (Cons ptext ptexts)
  obtain bs st' rng' where enc: "group_encrypt C P SKS name ptext (st, rng) = (Ok bs, (st', rng'))"
    and msg: "group_message C P base key_id pub (word_of_nat k) ptext bs"
    and ready: "group_sender_ready C base key_id pub (Suc k) (keys st' name)"
    by (rule encrypt_step [OF ok Cons.prems(1)]) (use Cons.prems(2) in simp)
  have bound: "Suc k + length ptexts \<le> 4294967296" using Cons.prems(2) by simp
  obtain msgs x where rest: "group_encrypt_all C P SKS name ptexts (st', rng') = (Ok msgs, x)" "length msgs = length ptexts"
    "\<forall>j<length ptexts. group_message C P base key_id pub (word_of_nat (Suc k + j)) (ptexts ! j) (msgs ! j)"
    using Cons.IH [OF ready bound, of rng'] by blast
  have "group_message C P base key_id pub (word_of_nat (k + j)) ((ptext # ptexts) ! j) ((bs # msgs) ! j)"
    if "j < length (ptext # ptexts)" for j
    using that msg rest(3) by (cases j) simp_all
  moreover have "group_encrypt_all C P SKS name (ptext # ptexts) (st, rng) = (Ok (bs # msgs), x)"
    by (simp add: enc rest(1))
  ultimately show ?case using rest(2) by (metis length_Cons)
qed simp

text \<open>
  The distribution message of a sender that is at iteration \<open>k\<close>, and the record of a member
  who processes it.
\<close>

lemma create_existing:
  assumes ready: "group_sender_ready C base key_id pub k (keys st name)"
  obtains skdm where "create_sender_key_distribution_message C P name SKS (st, rng) = (Ok skdm, (st, rng))"
    "SenderKeyDistributionMessage_new P key_id (word_of_nat k) (sck_chain_key (chain_at C k base)) pub = Ok skdm"
proof -
  obtain rec s rest priv where r: "keys st name = Some rec" "skrec_states rec = s # rest" "sks_sender_key_id s = key_id"
    and base: "sck_iteration base = 0" and ck: "sks_sender_chain_key s = Some (chain_structure (chain_at C k base))"
    and sig: "sks_sender_signing_key s = Some \<lparr>ssks_public = PublicKey_serialize pub, ssks_private = PrivateKey_serialize priv\<rparr>"
    and wf: "PublicKey_wf pub"
    using ready by (auto simp: group_sender_ready_def)
  obtain skdm where skdm: "SenderKeyDistributionMessage_new P key_id (word_of_nat k) (sck_chain_key (chain_at C k base)) pub =
      Ok skdm" by (simp add: SenderKeyDistributionMessage_new_def)
  have "create_sender_key_distribution_message C P name SKS (st, rng) = (Ok skdm, (st, rng))"
    using wf base by (simp add: create_sender_key_distribution_message_def load_view r SenderKeyRecord_is_empty_def
        sender_key_state_def sender_chain_key_def ck SenderChainKey_new_def signing_key_public_def sig
        pubkey.deser_ser skdm)
  from that [OF this skdm] show thesis .
qed

lemma create_fresh:
  assumes ok: "dh_ok C" "rng_ok C" and none: "keys st name = None"
  obtains skdm st' rng' base key_id pub where
    "create_sender_key_distribution_message C P name SKS (st, rng) = (Ok skdm, (st', rng'))"
    "SenderKeyDistributionMessage_new P key_id 0 (sck_chain_key base) pub = Ok skdm"
    "group_sender_ready C base key_id pub 0 (keys st' name)" "length (sck_chain_key base) = 32" "PublicKey_wf pub"
    "key_id < 2 ^ 31"
proof -
  obtain id0 rng1 where id0: "rng_gen_u32 C rng = (id0, rng1)" by fastforce
  obtain seed rng2 where seed: "rng_gen_array C rng1 32 = (seed, rng2)" by fastforce
  obtain kp rng3 where kp: "KeyPair_generate C rng2 = (kp, rng3)" by fastforce
  have len: "length seed = 32" using ok(2) seed by (metis fst_conv rng_ok_def)
  have wf: "KeyPair_wf C kp" "PublicKey_wf (kp_public_key kp)"
    using KeyPair_generate_wf [OF ok(1), of rng2] KeyPair_wf_public [OF ok(1)] by (simp_all add: kp)
  define key_id where "key_id = drop_bit 1 id0"
  have id': "drop_bit (Suc 0) id0 = key_id" and empty: "skrec_states SenderKeyRecord_new_empty = []"
    by (simp_all add: key_id_def SenderKeyRecord_new_empty_def)
  define base where "base = \<lparr>sck_iteration = 0, sck_chain_key = seed\<rparr>"
  define s where "s = \<lparr>sks_sender_key_id = key_id, sks_sender_chain_key = Some \<lparr>scks_iteration = 0, scks_seed = seed\<rparr>,
      sks_sender_signing_key = Some \<lparr>ssks_public = PublicKey_serialize (kp_public_key kp),
        ssks_private = PrivateKey_serialize (kp_private_key kp)\<rparr>, sks_sender_message_keys = []\<rparr>"
  have set: "set_sender_key_state SenderKeyRecord_new_empty key_id 0 seed (kp_public_key kp) (Some (kp_private_key kp)) =
      Ok \<lparr>skrec_states = [s]\<rparr>"
    by (simp add: set_sender_key_state_def SenderKeyRecord_new_empty_def add_sender_key_state_def SenderKeyState_new_def
        SenderChainKey_new_def SenderChainKey_as_protobuf_def trim_back_eq consts_defs s_def)
  obtain st' where st': "store_sender_key SKS name \<lparr>skrec_states = [s]\<rparr> st = (Ok (), st')"
    "keys st' = (keys st)(name \<mapsto> \<lparr>skrec_states = [s]\<rparr>)" by (rule store_Ok)
  obtain skdm where skdm: "SenderKeyDistributionMessage_new P key_id 0 seed (kp_public_key kp) = Ok skdm"
    by (simp add: SenderKeyDistributionMessage_new_def)
  have "create_sender_key_distribution_message C P name SKS (st, rng) = (Ok skdm, (st', rng3))"
    unfolding create_sender_key_distribution_message_def
    by (simp add: load_view none SenderKeyRecord_is_empty_def empty id0 seed kp id' set st'(1))
       (simp add: sender_key_state_def sender_chain_key_def signing_key_public_def s_def SenderChainKey_new_def
        pubkey.deser_ser wf(2) skdm)
  moreover have "group_sender_ready C base key_id (kp_public_key kp) 0 (keys st' name)"
    using wf by (auto simp: group_sender_ready_def st'(2) s_def base_def KeyPair_wf_def)
  moreover have "key_id < 2 ^ 31"
    unfolding key_id_def using unat_u32_less [of id0]
    by (simp add: word_less_nat_alt drop_bit_eq_div unat_div)
  ultimately show thesis
    using that [of skdm st' rng3 key_id base "kp_public_key kp"] skdm len wf(2) by (simp add: base_def)
qed

lemma process_step:
  assumes "hash_ok C" "k < 4294967296" "PublicKey_wf pub" "sck_iteration base = 0"
    and new: "SenderKeyDistributionMessage_new P key_id (word_of_nat k) (sck_chain_key (chain_at C k base)) pub = Ok skdm"
  obtains st' where "process_sender_key_distribution_message name skdm SKS st = (Ok (), st')"
    "group_record_sync C base key_id pub \<lparr>win_next = k, win_skipped = []\<rparr> (keys st' name)"
    "keys st' = (keys st)(name := keys st' name)"
proof -
  let ?r0 = "case keys st name of None \<Rightarrow> SenderKeyRecord_new_empty | Some r \<Rightarrow> r"
  have skdm: "skdm_id skdm = key_id" "skdm_iteration skdm = word_of_nat k"
    "skdm_chain_key skdm = sck_chain_key (chain_at C k base)" "skdm_signing_key skdm = pub"
    using new by (auto simp: SenderKeyDistributionMessage_new_def Let_def)
  let ?s = "\<lparr>sks_sender_key_id = key_id, sks_sender_chain_key = Some (chain_structure (chain_at C k base)),
      sks_sender_signing_key = Some \<lparr>ssks_public = PublicKey_serialize pub, ssks_private = []\<rparr>,
      sks_sender_message_keys = []\<rparr>"
  define r where "r = \<lparr>skrec_states = take 5 (?s # skrec_states ?r0)\<rparr>"
  have "SenderKeyState_new key_id (word_of_nat k) (sck_chain_key (chain_at C k base)) pub None = Ok ?s"
    by (simp add: SenderKeyState_new_def SenderChainKey_new_def SenderChainKey_as_protobuf_def assms(4))
  then have add: "add_sender_key_state ?r0 key_id (word_of_nat k) (sck_chain_key (chain_at C k base)) pub None = Ok r"
    unfolding r_def
    using add_sender_key_state_eq [of key_id "word_of_nat k" "sck_chain_key (chain_at C k base)" pub None ?r0] by auto
  obtain st' where st': "store_sender_key SKS name r st = (Ok (), st')" "keys st' = (keys st)(name \<mapsto> r)"
    by (rule store_Ok)
  have "process_sender_key_distribution_message name skdm SKS st = (Ok (), st')"
    unfolding process_sender_key_distribution_message_def by (simp add: load_view skdm add st'(1) Let_def)
  moreover have "group_record_sync C base key_id pub \<lparr>win_next = k, win_skipped = []\<rparr> (keys st' name)"
    using assms(1-4) by (simp add: group_record_sync_def st'(2) r_def sender_key_state_for_keyid_def signing_key_public_def
        pubkey.deser_ser group_sync_def window_inv_def)
  ultimately show thesis using that by (simp add: st'(2))
qed

end

section \<open>The in-memory store\<close>

interpretation inmem_group: sender_store_laws InMem_SenderKeyStore inmem_sender_keys
  by unfold_locales

definition group_messages ::
    "('sc, 'pt, 'r) crypto \<Rightarrow> wire_SenderKeyMessage prost \<Rightarrow> SenderChainKey \<Rightarrow> u32 \<Rightarrow> PublicKey \<Rightarrow> (nat \<Rightarrow> bytes)
       \<Rightarrow> (u32 \<Rightarrow> bytes) \<Rightarrow> bool" where
  "group_messages C P base key_id pub ptexts msgs \<longleftrightarrow>
     (\<forall>n. group_message C P base key_id pub n (ptexts (unat n)) (msgs n))"

abbreviation inmem_group_receive ::
    "('sc, 'pt, 'r) crypto \<Rightarrow> wire_SenderKeyMessage prost \<Rightarrow> SenderKeyName \<Rightarrow> (u32 \<Rightarrow> bytes)
       \<Rightarrow> InMemSignalProtocolStore \<Rightarrow> u32 \<Rightarrow> (bytes \<times> InMemSignalProtocolStore) sresult" where
  "inmem_group_receive C P name msgs st n \<equiv> as_receiver (group_decrypt C P (msgs n) InMem_SenderKeyStore name) st"

interpretation group_window: window_refinement "inmem_group_receive C P name msgs" ptexts
  "\<lambda>w st. cbc_ok C \<and> group_messages C P base key_id pub ptexts msgs \<and>
     group_record_sync C base key_id pub w (inmem_sender_keys st name)"
  for C :: "('sc, 'pt, 'r) crypto" and P name msgs ptexts base key_id pub
proof unfold_locales
  fix w w' st n
  assume rep: "cbc_ok C \<and> group_messages C P base key_id pub ptexts msgs \<and>
    group_record_sync C base key_id pub w (inmem_sender_keys st name)"
  then have msg: "group_message C P base key_id pub n (ptexts (unat n)) (msgs n)"
    by (simp add: group_messages_def)
  show "window_inv w" using rep by (auto simp: group_record_sync_def group_sync_def)
  show "\<exists>st'. inmem_group_receive C P name msgs st n = Ok (ptexts (unat n), st') \<and> cbc_ok C \<and>
      group_messages C P base key_id pub ptexts msgs \<and> group_record_sync C base key_id pub w' (inmem_sender_keys st' name)"
    if "window_accept w (unat n) = Some w'" "n \<noteq> - 1"
    using inmem_group.group_decrypt_accept [OF msg _ _ that, of st name] rep by (auto simp: as_receiver_def)
  show "\<exists>e. inmem_group_receive C P name msgs st n = Err e" if "window_accept w (unat n) = None"
    using inmem_group.group_decrypt_reject [OF msg _ _ that, of st name] rep by (auto simp: as_receiver_def)
qed

lemma deliver_cong:
  assumes "\<And>st n. n \<in> set ns \<Longrightarrow> recv st n = recv' st n"
  shows "deliver recv st ns = deliver recv' st ns"
  using assms by (induction ns arbitrary: st) (auto split: result.splits prod.splits)

text \<open>A finite run of messages as part of an infinite one.\<close>

lemma group_messages_extend:
  assumes ok: "hash_ok C" "cbc_ok C" "prost_ok P" "xeddsa_ok C" and pub: "PrivateKey_public_key C priv = Ok pub"
    and msgs: "\<forall>j<N. group_message C P base key_id pub (word_of_nat j) (ptexts j) (msgs j)"
  obtains all where "group_messages C P base key_id pub ptexts all" "\<forall>n. unat n < N \<longrightarrow> all n = msgs (unat n)"
proof -
  have "\<forall>n. \<exists>bs. group_message C P base key_id pub n (ptexts (unat n)) bs"
    using group_message_new [OF ok pub] by blast
  then obtain f where f: "\<And>n. group_message C P base key_id pub n (ptexts (unat n)) (f n)" by metis
  show thesis
    by (rule that [of "\<lambda>n. if unat n < N then msgs (unat n) else f n"])
       (use f msgs in \<open>auto simp: group_messages_def\<close>)
qed

lemma in_range_of_mset:
  assumes "mset ns = mset (map word_of_nat [0..<N])" "N \<le> 2000" "n \<in> set ns"
  shows "unat (n :: u32) < N"
proof -
  have "set ns = word_of_nat ` {0..<N}" using mset_eq_setD [OF assms(1)] by simp
  then obtain i where "i < N" "n = word_of_nat i" using assms(3) by auto
  with assms(2) show ?thesis by (simp add: unat_of_nat)
qed

section \<open>Properties of the group cipher\<close>

text \<open>An empty store, and a member in step with a sender at iteration 0, for the witnesses.\<close>

definition ref_name :: SenderKeyName where
  "ref_name = \<lparr>skn_group_id = ''group'', skn_sender = \<lparr>pa_name = ''alice'', pa_device_id = 1\<rparr>\<rparr>"

definition ref_group_store :: InMemSignalProtocolStore where
  "ref_group_store =
     \<lparr>session_store = \<lparr>im_sessions = Map.empty\<rparr>, pre_key_store = \<lparr>im_pre_keys = Map.empty\<rparr>,
      signed_pre_key_store = \<lparr>im_signed_pre_keys = Map.empty\<rparr>,
      identity_store = InMemIdentityKeyStore_new (IdentityKeyPair_from (ref_pair 1)) 9,
      sender_key_store = \<lparr>im_keys = Map.empty\<rparr>\<rparr>"

definition ref_group_base :: SenderChainKey where
  "ref_group_base = \<lparr>sck_iteration = 0, sck_chain_key = replicate 32 6\<rparr>"

definition ref_group_state :: SenderKeyState where
  "ref_group_state = \<lparr>sks_sender_key_id = 8, sks_sender_chain_key = Some (chain_structure ref_group_base),
     sks_sender_signing_key = Some \<lparr>ssks_public = PublicKey_serialize (ref_key 4), ssks_private = []\<rparr>,
     sks_sender_message_keys = []\<rparr>"

definition ref_group_member :: InMemSignalProtocolStore where
  "ref_group_member = ref_group_store\<lparr>sender_key_store := \<lparr>im_keys = [ref_name \<mapsto> \<lparr>skrec_states = [ref_group_state]\<rparr>]\<rparr>\<rparr>"

lemma ref_group_sync:
  "group_record_sync ref_crypto ref_group_base 8 (ref_key 4) window_start (inmem_sender_keys ref_group_member ref_name)"
  by (simp add: group_record_sync_def ref_group_member_def sender_key_state_for_keyid_def ref_group_state_def
      signing_key_public_def pubkey.deser_ser group_sync_def ref_group_base_def)

lemma ref_group_message:
  obtains bs where "group_message ref_crypto (ref_prost c_wire_SenderKeyMessage) ref_group_base 8 (ref_key 4) n ptext bs"
proof -
  have "PrivateKey_public_key ref_crypto (kp_private_key (ref_pair 4)) = Ok (ref_key 4)"
    using ref_pair_wf(1) [of 4] by (simp add: KeyPair_wf_def)
  moreover have "prost_ok (ref_prost c_wire_SenderKeyMessage)" by simp
  ultimately show thesis using group_message_new [OF ref_hash_ok ref_cbc_ok _ ref_xeddsa_ok] that by metis
qed

text \<open>
  C6. Group messages arrive in any order. A sender without a sender key creates a distribution
  message, which survives the wire, and encrypts at most 2000 messages. A member, whatever its
  store held before, who processes the distribution message decrypts all of them, in whatever
  order they arrive, each to the plaintext that was encrypted.
\<close>

theorem group_any_order_delivery:
  assumes ok: "hash_ok C" "cbc_ok C" "dh_ok C" "rng_ok C" "xeddsa_ok C" "prost_ok P" "prost_ok PD" "skdm_encoding_ok PD"
    and fresh: "inmem_sender_keys alice name = None"
    and len: "length ptexts \<le> 2000" and order: "mset ns = mset (map word_of_nat [0..<length ptexts])"
  shows "\<exists>skdm alice1 rng1 msgs x bob1.
    create_sender_key_distribution_message C PD name InMem_SenderKeyStore (alice, rng) = (Ok skdm, (alice1, rng1)) \<and>
    SenderKeyDistributionMessage_try_from PD (skdm_serialized skdm) = Ok skdm \<and>
    group_encrypt_all C P InMem_SenderKeyStore name ptexts (alice1, rng1) = (Ok msgs, x) \<and>
    process_sender_key_distribution_message name skdm InMem_SenderKeyStore bob = (Ok (), bob1) \<and>
    fst (deliver (inmem_group_receive C P name (\<lambda>n. msgs ! unat n)) bob1 ns) = map (\<lambda>n. (n, ptexts ! unat n)) ns"
proof -
  obtain skdm alice1 rng1 base key_id pub where
    create: "create_sender_key_distribution_message C PD name InMem_SenderKeyStore (alice, rng) = (Ok skdm, (alice1, rng1))"
    and skdm: "SenderKeyDistributionMessage_new PD key_id 0 (sck_chain_key base) pub = Ok skdm"
    and ready: "group_sender_ready C base key_id pub 0 (inmem_sender_keys alice1 name)"
    and key: "length (sck_chain_key base) = 32" "PublicKey_wf pub" and "key_id < 2 ^ 31"
    by (rule inmem_group.create_fresh [OF ok(3,4) fresh])
  obtain priv where base: "sck_iteration base = 0" and priv: "PrivateKey_public_key C priv = Ok pub"
    using ready by (auto simp: group_sender_ready_def)
  have bound: "0 + length ptexts \<le> 4294967296" using len by simp
  obtain msgs x where enc: "group_encrypt_all C P InMem_SenderKeyStore name ptexts (alice1, rng1) = (Ok msgs, x)"
    and msgs: "\<forall>j<length ptexts. group_message C P base key_id pub (word_of_nat j) (ptexts ! j) (msgs ! j)"
    using inmem_group.encrypt_all [OF ok(1,2,6,5) ready bound, of rng1] by auto
  have skdm0: "SenderKeyDistributionMessage_new PD key_id (word_of_nat 0) (sck_chain_key (chain_at C 0 base)) pub = Ok skdm"
    using skdm by simp
  obtain bob1 where process: "process_sender_key_distribution_message name skdm InMem_SenderKeyStore bob = (Ok (), bob1)"
    and sync: "group_record_sync C base key_id pub window_start (inmem_sender_keys bob1 name)"
    by (rule inmem_group.process_step [OF ok(1) _ key(2) base skdm0]) simp
  obtain all where all: "group_messages C P base key_id pub (\<lambda>j. ptexts ! j) all"
    "\<forall>n. unat n < length ptexts \<longrightarrow> all n = msgs ! unat n"
    by (rule group_messages_extend [OF ok(1,2,6,5) priv msgs])
  have eq: "deliver (inmem_group_receive C P name (\<lambda>n. msgs ! unat n)) bob1 ns = deliver (inmem_group_receive C P name all) bob1 ns"
    by (rule deliver_cong) (simp add: all(2) in_range_of_mset [OF order len])
  have lim: "length ptexts \<le> MAX_FORWARD_JUMPS" using len by (simp add: consts_defs)
  have rep: "cbc_ok C \<and> group_messages C P base key_id pub (\<lambda>j. ptexts ! j) all \<and>
      group_record_sync C base key_id pub window_start (inmem_sender_keys bob1 name)"
    using ok(2) all(1) sync by blast
  show ?thesis
    by (intro exI conjI, rule create, rule SenderKeyDistributionMessage_parse_new [OF ok(7,8) key skdm], rule enc,
        rule process, unfold eq, rule group_window.any_order [OF rep lim order])
qed

theorem group_any_order_delivery_witness:
  "\<exists>skdm alice1 rng1 msgs x bob1.
    create_sender_key_distribution_message ref_crypto (ref_prost c_wire_SenderKeyDistributionMessage) ref_name
      InMem_SenderKeyStore (ref_group_store, 0) = (Ok skdm, (alice1, rng1)) \<and>
    group_encrypt_all ref_crypto (ref_prost c_wire_SenderKeyMessage) InMem_SenderKeyStore ref_name [[1], [2, 2], [3]]
      (alice1, rng1) = (Ok msgs, x) \<and>
    process_sender_key_distribution_message ref_name skdm InMem_SenderKeyStore ref_group_store = (Ok (), bob1) \<and>
    fst (deliver (inmem_group_receive ref_crypto (ref_prost c_wire_SenderKeyMessage) ref_name (\<lambda>n. msgs ! unat n)) bob1
      [2, 0, 1]) = [(2, [3]), (0, [1]), (1, [2, 2])]"
proof -
  have order: "mset [2, 0, 1] = mset (map word_of_nat [0..<length [[1], [2, 2], [3 :: u8]]] :: u32 list)"
    by (simp add: upt_rec)
  have ok: "prost_ok (ref_prost c_wire_SenderKeyMessage)" "prost_ok (ref_prost c_wire_SenderKeyDistributionMessage)"
    by simp_all
  have fresh: "inmem_sender_keys ref_group_store ref_name = None" by (simp add: ref_group_store_def)
  show ?thesis
    using group_any_order_delivery [OF ref_hash_ok ref_cbc_ok ref_dh_ok ref_rng_ok ref_xeddsa_ok ok ref_skdm_encoding_ok
        fresh _ order, where rng = 0 and bob = ref_group_store]
    by (simp del: deliver.simps group_encrypt_all.simps) blast
qed

text \<open>
  C12. The group receiver refines the window: a member in step with the sender accepts a message
  of the chain when the window does, gives the plaintext and moves on as the window does; a
  counter that was used, or whose key was dropped, is rejected as a duplicate, one more than
  2000 ahead as too far in the future, both without any change to the store.
\<close>

theorem group_decrypt_refines_window:
  assumes "cbc_ok C" "group_message C P base key_id pub n ptext bs"
    and "group_record_sync C base key_id pub w (inmem_sender_keys st name)" "n \<noteq> - 1"
  shows "case window_accept w (unat n) of
      Some w' \<Rightarrow> \<exists>st'. group_decrypt C P bs InMem_SenderKeyStore name st = (Ok ptext, st') \<and>
                  group_record_sync C base key_id pub w' (inmem_sender_keys st' name)
    | None \<Rightarrow> group_decrypt C P bs InMem_SenderKeyStore name st =
        (Err (if unat n < win_next w then DuplicatedMessage (word_of_nat (win_next w)) n
              else InvalidMessage ''message from too far into the future''), st)"
  using inmem_group.group_decrypt_accept [OF assms(2,1,3) _ assms(4)] inmem_group.group_decrypt_reject [OF assms(2,1,3)]
  by (cases "window_accept w (unat n)") auto

theorem group_decrypt_refines_window_witness:
  "\<exists>bs st st'. group_message ref_crypto (ref_prost c_wire_SenderKeyMessage) ref_group_base 8 (ref_key 4) 3 [5, 6] bs \<and>
     group_decrypt ref_crypto (ref_prost c_wire_SenderKeyMessage) bs InMem_SenderKeyStore ref_name st = (Ok [5, 6], st')"
proof -
  obtain bs where bs: "group_message ref_crypto (ref_prost c_wire_SenderKeyMessage) ref_group_base 8 (ref_key 4) 3 [5, 6] bs"
    by (rule ref_group_message)
  have "(3 :: u32) \<noteq> - 1" by simp
  from group_decrypt_refines_window [OF ref_cbc_ok bs ref_group_sync this] bs show ?thesis
    by (auto simp: window_accept_def consts_defs)
qed

text \<open>
  C13. No replay in groups: whatever sequence of messages of a chain is delivered, with losses,
  duplicates and reordering, no message is accepted twice and every accepted one gives the
  plaintext that was encrypted (the last iteration \<open>2 ^ 32 - 1\<close> excepted).
\<close>

theorem group_no_replay:
  assumes "cbc_ok C" "group_messages C P base key_id pub ptexts msgs"
    and "group_record_sync C base key_id pub w (inmem_sender_keys st name)" "- 1 \<notin> set ns"
    and "deliver (inmem_group_receive C P name msgs) st ns = (accepted, st')"
  shows "distinct (map fst accepted) \<and> (\<forall>(n, ptext)\<in>set accepted. ptext = ptexts (unat n))"
  using assms by (intro group_window.no_replay) auto

theorem group_no_replay_witness:
  "\<exists>msgs st accepted st'. deliver (inmem_group_receive ref_crypto (ref_prost c_wire_SenderKeyMessage) ref_name msgs) st
       [1, 0, 1, 1] = (accepted, st') \<and> distinct (map fst accepted)"
proof -
  have "\<forall>n. \<exists>bs. group_message ref_crypto (ref_prost c_wire_SenderKeyMessage) ref_group_base 8 (ref_key 4) n [9] bs"
    using ref_group_message by metis
  then obtain msgs where "\<And>n. group_message ref_crypto (ref_prost c_wire_SenderKeyMessage) ref_group_base 8 (ref_key 4) n
      [9] (msgs n)" by metis
  then have msgs: "group_messages ref_crypto (ref_prost c_wire_SenderKeyMessage) ref_group_base 8 (ref_key 4) (\<lambda>_. [9]) msgs"
    by (simp add: group_messages_def)
  obtain accepted st' where d: "deliver (inmem_group_receive ref_crypto (ref_prost c_wire_SenderKeyMessage) ref_name msgs)
      ref_group_member [1, 0, 1, 1] = (accepted, st')" by fastforce
  have "- 1 \<notin> set [1, 0, 1, 1 :: u32]" by simp
  from group_no_replay [OF ref_cbc_ok msgs ref_group_sync this d] d show ?thesis by blast
qed

text \<open>
  C11. Authenticity and clean failure in groups. When \<open>group_decrypt\<close> returns a plaintext, the bytes
  parsed as a message whose signature verifies under the public key of the stored state with the
  message's key identifier. When it does not, for whatever reason, the store is unchanged.
\<close>

theorem group_decrypt_authentic:
  assumes "group_decrypt C P bs InMem_SenderKeyStore name st = (x, st')"
  shows "(\<exists>ptext. x = Ok ptext \<and> (\<exists>r skm s i pub. inmem_sender_keys st name = Some r \<and>
      SenderKeyMessage_try_from P bs = Ok skm \<and> sender_key_state_for_keyid r (skm_key_id skm) = Ok (s, i) \<and>
      signing_key_public s = Ok pub \<and> SenderKeyMessage_verify_signature C skm pub = Ok True)) \<or>
    (\<not> is_ok x \<and> st' = st)"
proof (cases x)
  case (Ok ptext)
  with assms show ?thesis
    unfolding group_decrypt_def by (auto simp: result_simps inmem_sender.load_view split: if_splits)
next
  case (Err e)
  with assms inmem_group.group_decrypt_fails_clean [of C P bs name] show ?thesis by (auto dest: fails_cleanD)
next
  case Panic
  with assms inmem_group.group_decrypt_fails_clean [of C P bs name] show ?thesis by (auto dest: fails_cleanD)
qed

theorem group_decrypt_authentic_witness:
  "\<exists>x st'. group_decrypt ref_crypto (ref_prost c_wire_SenderKeyMessage) [1, 2] InMem_SenderKeyStore ref_name ref_group_member =
     (x, st') \<and> (\<not> is_ok x \<longrightarrow> st' = ref_group_member)"
proof -
  obtain x st' where "group_decrypt ref_crypto (ref_prost c_wire_SenderKeyMessage) [1, 2] InMem_SenderKeyStore ref_name
      ref_group_member = (x, st')" by fastforce
  with group_decrypt_authentic [OF this] show ?thesis by auto
qed

end
