(* ===== verification/Fingerprint.thy ===== *)
theory Fingerprint
  imports Reference_Codec Ratchet
begin

text \<open>
  Model of \<open>rust/protocol/src/fingerprint.rs\<close>: the safety numbers two users compare, as sixty
  digits and as a scannable code.
\<close>

section \<open>Displayable fingerprints\<close>

record DisplayableFingerprint =
  df_local :: string
  df_remote :: string

text \<open>\<open><\<close> on \<open>String\<close> compares the bytes lexicographically.\<close>

definition string_less :: "string \<Rightarrow> string \<Rightarrow> bool" where
  "string_less a b \<longleftrightarrow> slice_cmp (ascii a) (ascii b) = Less"

definition DisplayableFingerprint_fmt :: "DisplayableFingerprint \<Rightarrow> string" where
  "DisplayableFingerprint_fmt self =
     (if string_less (df_local self) (df_remote self)
      then df_local self @ df_remote self
      else df_remote self @ df_local self)"

text \<open>\<open>{:05}\<close>\<close>

definition decimal05 :: "nat \<Rightarrow> string" where
  "decimal05 n = (let s = decimal n in replicate (5 - length s) (CHR ''0'') @ s)"

definition read5_mod_100k :: "bytes \<Rightarrow> u64 sresult" where
  "read5_mod_100k fprint =
     (if length fprint \<noteq> 5 then Panic
      else let x = foldl (\<lambda>acc x. acc * 256 + ucast x) (0 :: u64) fprint
           in Ok (x mod 100000))"

definition get_encoded_string :: "bytes \<Rightarrow> string sresult" where
  "get_encoded_string fprint =
     (if length fprint < 30
      then Err (InvalidArgument ''DisplayableFingerprint created with short encoding'')
      else
        rbind (rbind (slice fprint 0 5) read5_mod_100k) (\<lambda>a.
        rbind (rbind (slice fprint 5 5) read5_mod_100k) (\<lambda>b.
        rbind (rbind (slice fprint 10 5) read5_mod_100k) (\<lambda>c.
        rbind (rbind (slice fprint 15 5) read5_mod_100k) (\<lambda>d.
        rbind (rbind (slice fprint 20 5) read5_mod_100k) (\<lambda>e.
        rbind (rbind (slice fprint 25 5) read5_mod_100k) (\<lambda>f.
        Ok (concat (map (\<lambda>x. decimal05 (unat x)) [a, b, c, d, e, f])))))))))"

definition DisplayableFingerprint_new :: "bytes \<Rightarrow> bytes \<Rightarrow> DisplayableFingerprint sresult" where
  "DisplayableFingerprint_new l r =
     rbind (get_encoded_string l) (\<lambda>df_l.
     rbind (get_encoded_string r) (\<lambda>df_r.
     Ok \<lparr>df_local = df_l, df_remote = df_r\<rparr>))"

section \<open>Scannable fingerprints\<close>

record ScannableFingerprint =
  sf_version :: u32
  sf_local_fingerprint :: bytes
  sf_remote_fingerprint :: bytes

definition ScannableFingerprint_new :: "u32 \<Rightarrow> bytes \<Rightarrow> bytes \<Rightarrow> ScannableFingerprint sresult" where
  "ScannableFingerprint_new version local_fprint remote_fprint =
     rbind (slice local_fprint 0 32) (\<lambda>l.
     rbind (slice remote_fprint 0 32) (\<lambda>r.
     Ok \<lparr>sf_version = version, sf_local_fingerprint = l, sf_remote_fingerprint = r\<rparr>))"

definition ScannableFingerprint_deserialize :: "CombinedFingerprints prost \<Rightarrow> bytes \<Rightarrow> ScannableFingerprint sresult" where
  "ScannableFingerprint_deserialize P protobuf =
     rbind (prost_decode P protobuf) (\<lambda>fingerprint.
     rbind (ok_or (cf_local_fingerprint fingerprint) InvalidProtobufEncoding) (\<lambda>l.
     rbind (ok_or (cf_remote_fingerprint fingerprint) InvalidProtobufEncoding) (\<lambda>r.
     Ok \<lparr>sf_version = cf_version fingerprint, sf_local_fingerprint = lf_content l,
         sf_remote_fingerprint = lf_content r\<rparr>)))"

definition ScannableFingerprint_serialize :: "CombinedFingerprints prost \<Rightarrow> ScannableFingerprint \<Rightarrow> bytes sresult" where
  "ScannableFingerprint_serialize P self =
     (let combined_fingerprints =
        \<lparr>cf_version = sf_version self,
         cf_local_fingerprint = Some \<lparr>lf_content = sf_local_fingerprint self\<rparr>,
         cf_remote_fingerprint = Some \<lparr>lf_content = sf_remote_fingerprint self\<rparr>\<rparr>
      in Ok (pb_encode P combined_fingerprints))"

definition ScannableFingerprint_compare :: "CombinedFingerprints prost \<Rightarrow> ScannableFingerprint \<Rightarrow> bytes \<Rightarrow> bool sresult" where
  "ScannableFingerprint_compare P self combined =
     rbind (prost_decode P combined) (\<lambda>combined.
     if cf_version combined \<noteq> sf_version self then Err FingerprintVersionMismatch
     else
       case (cf_local_fingerprint combined, cf_remote_fingerprint combined) of
         (Some l, Some r) \<Rightarrow>
           (let same1 = ct_eq (lf_content l) (sf_remote_fingerprint self);
                same2 = ct_eq (lf_content r) (sf_local_fingerprint self)
            in Ok (same1 \<and> same2))
       | _ \<Rightarrow> Err FingerprintVersionMismatch)"

section \<open>Fingerprints\<close>

record Fingerprint =
  fp_display :: DisplayableFingerprint
  fp_scannable :: ScannableFingerprint

text \<open>The loop \<open>for _i in 1..iterations\<close>, by the number of rounds that are left.\<close>

fun fingerprint_rounds :: "('sc, 'pt, 'r) crypto \<Rightarrow> bytes \<Rightarrow> nat \<Rightarrow> bytes \<Rightarrow> bytes" where
  "fingerprint_rounds C key_bytes 0 buf = buf"
| "fingerprint_rounds C key_bytes (Suc n) buf = fingerprint_rounds C key_bytes n (Sha512 C (buf @ key_bytes))"

definition get_fingerprint :: "('sc, 'pt, 'r) crypto \<Rightarrow> u32 \<Rightarrow> bytes \<Rightarrow> IdentityKey \<Rightarrow> bytes sresult" where
  "get_fingerprint C iterations local_id local_key =
     (if iterations \<le> 1 \<or> iterations > 1000000
      then Err (InvalidArgument (''Invalid fingerprint iterations '' @ decimal (unat iterations)))
      else
        let fingerprint_version = [0, 0];
            key_bytes = IdentityKey_serialize local_key;
            buf = Sha512 C (fingerprint_version @ key_bytes @ local_id @ key_bytes)
        in Ok (fingerprint_rounds C key_bytes (unat iterations - 1) buf))"

definition Fingerprint_new ::
    "('sc, 'pt, 'r) crypto \<Rightarrow> u32 \<Rightarrow> u32 \<Rightarrow> bytes \<Rightarrow> IdentityKey \<Rightarrow> bytes \<Rightarrow> IdentityKey \<Rightarrow> Fingerprint sresult" where
  "Fingerprint_new C version iterations local_id local_key remote_id remote_key =
     rbind (get_fingerprint C iterations local_id local_key) (\<lambda>local_fingerprint.
     rbind (get_fingerprint C iterations remote_id remote_key) (\<lambda>remote_fingerprint.
     rbind (DisplayableFingerprint_new local_fingerprint remote_fingerprint) (\<lambda>display.
     rbind (ScannableFingerprint_new version local_fingerprint remote_fingerprint) (\<lambda>scannable.
     Ok \<lparr>fp_display = display, fp_scannable = scannable\<rparr>))))"

definition display_string :: "Fingerprint \<Rightarrow> string sresult" where
  "display_string self = Ok (DisplayableFingerprint_fmt (fp_display self))"

section \<open>Sixty digits\<close>

definition is_digit :: "char \<Rightarrow> bool" where
  "is_digit c \<longleftrightarrow> 48 \<le> (of_char c :: nat) \<and> (of_char c :: nat) < 58"

lemma is_digit_char: "n < 10 \<Longrightarrow> is_digit (digit_char n)"
  by (simp add: is_digit_def)

lemma decimal_digits: "\<forall>c\<in>set (decimal n). is_digit c"
proof (induction n rule: decimal.induct)
  case (1 n)
  show ?case
    by (subst decimal.simps) (use "1.IH" in \<open>auto simp: is_digit_char simp del: digit_char.simps\<close>)
qed

lemma length_decimal: "n < 10 ^ Suc k \<Longrightarrow> length (decimal n) \<le> Suc k"
proof (induction k arbitrary: n)
  case 0
  then show ?case by (simp add: decimal.simps)
next
  case (Suc k)
  show ?case
  proof (cases "n < 10")
    case False
    then have "n div 10 < 10 ^ Suc k" using Suc.prems by (simp add: less_mult_imp_div_less mult.commute)
    from Suc.IH [OF this] False show ?thesis by (subst decimal.simps) simp
  qed (simp add: decimal.simps)
qed

lemma decimal05_digits:
  assumes "n < 100000"
  shows "length (decimal05 n) = 5" "\<forall>c\<in>set (decimal05 n). is_digit c"
proof -
  have "length (decimal n) \<le> 5" using length_decimal [of n 4] assms by simp
  then show "length (decimal05 n) = 5" by (simp add: decimal05_def Let_def)
  have "is_digit (CHR ''0'')" by (simp add: is_digit_def)
  then show "\<forall>c\<in>set (decimal05 n). is_digit c"
    using decimal_digits [of n] by (auto simp: decimal05_def Let_def)
qed

text \<open>
  Five bytes fill 40 bits, so that the accumulation in 64 bits does not wrap: the block is the
  big-endian number modulo 100000.
\<close>

fun big_endian :: "bytes \<Rightarrow> nat" where
  "big_endian [] = 0"
| "big_endian (b # bs) = unat b * 256 ^ length bs + big_endian bs"

lemma big_endian_less: "big_endian bs < 256 ^ length bs"
proof (induction bs)
  case (Cons b bs)
  have "unat b < 2 ^ LENGTH(8)" by (rule unsigned_less)
  then have "unat b \<le> 255" by simp
  then have "unat b * 256 ^ length bs \<le> 255 * 256 ^ length bs" by (rule mult_right_mono) simp
  moreover have "big_endian bs < 1 * 256 ^ length bs" using Cons by simp
  ultimately have "unat b * 256 ^ length bs + big_endian bs < 255 * 256 ^ length bs + 1 * 256 ^ length bs"
    by (rule add_le_less_mono)
  then show ?case by (simp flip: distrib_right)
qed simp

lemma foldl_big_endian:
  "unat acc * 256 ^ length bs + big_endian bs < 18446744073709551616 \<Longrightarrow>
     unat (foldl (\<lambda>acc x. acc * 256 + ucast x) (acc :: u64) bs) = unat acc * 256 ^ length bs + big_endian bs"
proof (induction bs arbitrary: acc)
  case (Cons b bs)
  let ?p = "256 ^ length bs :: nat"
  have eq: "unat acc * 256 ^ length (b # bs) + big_endian (b # bs) = (unat acc * 256 + unat b) * ?p + big_endian bs"
    by (simp add: algebra_simps)
  have "unat acc * 256 + unat b \<le> (unat acc * 256 + unat b) * ?p" by simp
  also have "\<dots> \<le> (unat acc * 256 + unat b) * ?p + big_endian bs" by (rule le_add1)
  also have "\<dots> < 18446744073709551616" using Cons.prems unfolding eq .
  finally have small: "unat acc * 256 + unat b < 18446744073709551616" .
  have "unat b < 2 ^ LENGTH(8)" by (rule unsigned_less)
  then have uc: "unat (ucast b :: u64) = unat b" by (simp add: unsigned_ucast_eq take_bit_nat_eq_self)
  have "unat (acc * 256 + ucast b :: u64) = unat acc * 256 + unat b"
    using small uc by (simp add: unat_word_ariths mod_simps)
  with Cons.IH [of "acc * 256 + ucast b"] Cons.prems show ?case unfolding eq by simp
qed simp

lemma read5_eq:
  assumes "length bs = 5"
  obtains x where "read5_mod_100k bs = Ok x" "unat x = big_endian bs mod 100000"
proof -
  have "big_endian bs < 256 ^ 5" using big_endian_less [of bs] by (simp add: assms)
  then have "unat (foldl (\<lambda>acc x. acc * 256 + ucast x) (0 :: u64) bs) = big_endian bs"
    by (subst foldl_big_endian) simp_all
  then have "unat (foldl (\<lambda>acc x. acc * 256 + ucast x) (0 :: u64) bs mod 100000) = big_endian bs mod unat (100000 :: u64)"
    by (simp only: unat_mod_distrib)
  then show thesis by (intro that) (simp_all add: read5_mod_100k_def assms)
qed

lemma get_encoded_string_eq:
  assumes "30 \<le> length bs"
  shows "get_encoded_string bs =
    Ok (concat (map (\<lambda>i. decimal05 (big_endian (take 5 (drop (5 * i) bs)) mod 100000)) [0..<6]))"
proof -
  have "\<exists>x. read5_mod_100k (take 5 (drop n bs)) = Ok x \<and> unat x = big_endian (take 5 (drop n bs)) mod 100000"
    if "n \<le> 25" for n
    using read5_eq [of "take 5 (drop n bs)"] that assms by force
  note this [of 0] this [of 5] this [of 10] this [of 15] this [of 20] this [of 25]
  then show ?thesis
    using assms by (auto simp: get_encoded_string_def upt_rec)
qed

lemma get_encoded_string_digits:
  assumes "get_encoded_string bs = Ok s"
  shows "length s = 30" "\<forall>c\<in>set s. is_digit c"
proof -
  have "30 \<le> length bs" using assms by (auto simp: get_encoded_string_def split: if_splits)
  then have s: "s = concat (map (\<lambda>i. decimal05 (big_endian (take 5 (drop (5 * i) bs)) mod 100000)) [0..<6])"
    using get_encoded_string_eq assms by simp
  have d: "length (decimal05 (n mod 100000)) = 5" "\<forall>c\<in>set (decimal05 (n mod 100000)). is_digit c" for n
    by (rule decimal05_digits; simp)+
  show "length s = 30" by (simp add: s length_concat comp_def d upt_rec)
  show "\<forall>c\<in>set s. is_digit c" using d(2) by (auto simp: s)
qed

section \<open>Fingerprints of the two sides\<close>

lemma fingerprint_rounds_length:
  "hash_ok C \<Longrightarrow> length buf = 64 \<Longrightarrow> length (fingerprint_rounds C k n buf) = 64"
  by (induction n arbitrary: buf) (simp_all add: len_simps)

lemma get_fingerprint_Ok:
  assumes "hash_ok C" "1 < iterations" "iterations \<le> 1000000"
  shows "\<exists>fp. get_fingerprint C iterations i k = Ok fp \<and> length fp = 64"
  using assms by (auto simp: get_fingerprint_def Let_def fingerprint_rounds_length len_simps)

lemma ascii_inject: "ascii a = ascii b \<longleftrightarrow> a = b"
proof -
  have "unat (of_char c :: u8) = of_char c" for c
  proof -
    have "unat (of_nat (of_char c) :: u8) = of_char c"
      using nat_of_char_less_256 [of c] unfolding unat_of_nat by simp
    then show ?thesis by (simp only: of_nat_of_char)
  qed
  then have "inj (of_char :: char \<Rightarrow> u8)"
    by (metis injI of_char_eq_iff)
  then show ?thesis by (auto simp: ascii_def inj_map_eq_map)
qed

lemma string_less_total: "a \<noteq> b \<Longrightarrow> string_less a b \<longleftrightarrow> \<not> string_less b a"
  unfolding string_less_def using slice_cmp_Equal [of "ascii a" "ascii b"]
  by (metis Ordering.exhaust Ordering.distinct(3) ascii_inject slice_cmp_flip)

lemma DisplayableFingerprint_swap:
  "DisplayableFingerprint_fmt \<lparr>df_local = a, df_remote = b\<rparr> = DisplayableFingerprint_fmt \<lparr>df_local = b, df_remote = a\<rparr>"
  using string_less_total [of a b] by (auto simp: DisplayableFingerprint_fmt_def)

lemma Fingerprint_new_Ok:
  assumes "hash_ok C" "1 < iterations" "iterations \<le> 1000000"
  obtains l r dl dr where "get_fingerprint C iterations lid lkey = Ok l" "get_fingerprint C iterations rid rkey = Ok r"
    "length l = 64" "length r = 64" "get_encoded_string l = Ok dl" "get_encoded_string r = Ok dr"
    "Fingerprint_new C v iterations lid lkey rid rkey = Ok \<lparr>fp_display = \<lparr>df_local = dl, df_remote = dr\<rparr>,
       fp_scannable = \<lparr>sf_version = v, sf_local_fingerprint = take 32 l, sf_remote_fingerprint = take 32 r\<rparr>\<rparr>"
proof -
  obtain l r where lr: "get_fingerprint C iterations lid lkey = Ok l" "get_fingerprint C iterations rid rkey = Ok r"
    "length l = 64" "length r = 64"
    using get_fingerprint_Ok [OF assms] by metis
  obtain dl dr where d: "get_encoded_string l = Ok dl" "get_encoded_string r = Ok dr"
    using get_encoded_string_eq [of l] get_encoded_string_eq [of r] lr by simp
  with lr show thesis
    by (intro that [OF lr d]) (simp add: Fingerprint_new_def DisplayableFingerprint_new_def ScannableFingerprint_new_def)
qed

section \<open>Properties\<close>

text \<open>
  C32. The two users read the same safety number: with the roles of local and remote exchanged, the
  displayed string is the same, and it has exactly sixty decimal digits. The number of iterations
  must be between 2 and 1000000; any other number is refused.
\<close>

theorem fingerprint_display_symmetric:
  assumes "hash_ok C"
  shows "if 1 < iterations \<and> iterations \<le> 1000000 then
      \<exists>fa fb s. Fingerprint_new C v iterations lid lkey rid rkey = Ok fa \<and>
        Fingerprint_new C v iterations rid rkey lid lkey = Ok fb \<and>
        display_string fa = Ok s \<and> display_string fb = Ok s \<and> length s = 60 \<and> (\<forall>c\<in>set s. is_digit c)
    else Fingerprint_new C v iterations lid lkey rid rkey =
      Err (InvalidArgument (''Invalid fingerprint iterations '' @ decimal (unat iterations)))"
proof (cases "1 < iterations \<and> iterations \<le> 1000000")
  case True
  then obtain l r dl dr where lr: "get_fingerprint C iterations lid lkey = Ok l" "get_fingerprint C iterations rid rkey = Ok r"
    "length l = 64" "length r = 64" "get_encoded_string l = Ok dl" "get_encoded_string r = Ok dr"
    "Fingerprint_new C v iterations lid lkey rid rkey = Ok \<lparr>fp_display = \<lparr>df_local = dl, df_remote = dr\<rparr>,
       fp_scannable = \<lparr>sf_version = v, sf_local_fingerprint = take 32 l, sf_remote_fingerprint = take 32 r\<rparr>\<rparr>"
    using Fingerprint_new_Ok [OF assms] by metis
  have "Fingerprint_new C v iterations rid rkey lid lkey = Ok \<lparr>fp_display = \<lparr>df_local = dr, df_remote = dl\<rparr>,
       fp_scannable = \<lparr>sf_version = v, sf_local_fingerprint = take 32 r, sf_remote_fingerprint = take 32 l\<rparr>\<rparr>"
    using lr by (simp add: Fingerprint_new_def DisplayableFingerprint_new_def ScannableFingerprint_new_def)
  moreover have "length (DisplayableFingerprint_fmt \<lparr>df_local = dl, df_remote = dr\<rparr>) = 60"
    "\<forall>c\<in>set (DisplayableFingerprint_fmt \<lparr>df_local = dl, df_remote = dr\<rparr>). is_digit c"
    using get_encoded_string_digits [OF lr(5)] get_encoded_string_digits [OF lr(6)]
    by (auto simp: DisplayableFingerprint_fmt_def)
  ultimately show ?thesis
    using True lr(7) DisplayableFingerprint_swap [of dl dr] by (simp add: display_string_def)
next
  case False
  then show ?thesis by (auto simp: Fingerprint_new_def get_fingerprint_def)
qed

theorem fingerprint_display_symmetric_witness:
  "\<exists>fa fb s. Fingerprint_new ref_crypto 1 5200 [1] (IdentityKey (ref_key 1)) [2] (IdentityKey (ref_key 2)) = Ok fa \<and>
     Fingerprint_new ref_crypto 1 5200 [2] (IdentityKey (ref_key 2)) [1] (IdentityKey (ref_key 1)) = Ok fb \<and>
     display_string fa = Ok s \<and> display_string fb = Ok s \<and> length s = 60"
  using fingerprint_display_symmetric [OF ref_hash_ok, of 5200 1 "[1]" "IdentityKey (ref_key 1)" "[2]"
      "IdentityKey (ref_key 2)"] by auto

text \<open>
  C33. Scanning: the code of one side, read by the other with the same version, compares as equal;
  with another version it gives \<open>FingerprintVersionMismatch\<close>. In general, comparison with a
  code answers \<open>true\<close> exactly when the code was made from the same two fingerprints with the roles
  exchanged. A code is read back unchanged from its bytes.
\<close>

theorem scannable_compare_exact:
  assumes "prost_ok P" "ScannableFingerprint_serialize P other = Ok bs"
  shows "ScannableFingerprint_deserialize P bs = Ok other \<and>
    ScannableFingerprint_compare P self bs =
      (if sf_version other \<noteq> sf_version self then Err FingerprintVersionMismatch
       else Ok (sf_local_fingerprint other = sf_remote_fingerprint self \<and>
                sf_remote_fingerprint other = sf_local_fingerprint self))"
  using assms
  by (auto simp: ScannableFingerprint_serialize_def ScannableFingerprint_deserialize_def ScannableFingerprint_compare_def
      Let_def)

theorem scannable_compare_exact_witness:
  "\<exists>bs. ScannableFingerprint_serialize (ref_prost c_CombinedFingerprints)
      \<lparr>sf_version = 2, sf_local_fingerprint = [1], sf_remote_fingerprint = [2]\<rparr> = Ok bs \<and>
     ScannableFingerprint_compare (ref_prost c_CombinedFingerprints)
      \<lparr>sf_version = 2, sf_local_fingerprint = [2], sf_remote_fingerprint = [1]\<rparr> bs = Ok True"
proof -
  obtain bs where bs: "ScannableFingerprint_serialize (ref_prost c_CombinedFingerprints)
      \<lparr>sf_version = 2, sf_local_fingerprint = [1], sf_remote_fingerprint = [2]\<rparr> = Ok bs"
    by (simp add: ScannableFingerprint_serialize_def)
  have "prost_ok (ref_prost c_CombinedFingerprints)" by simp
  from scannable_compare_exact [OF this bs] bs show ?thesis by auto
qed

end
