(* ===== verification/Error_Display.thy ===== *)
theory Error_Display
  imports Curve
begin

text \<open>
  Model of the rest of \<open>rust/protocol/src/error.rs\<close>: the text of an error (\<open>Display\<close>), its source and
  the conversions from the errors of prost, which are kept as their own text.
\<close>

section \<open>Formatting\<close>

text \<open>\<open>{:#04x}\<close>: \<open>0x\<close> and two lower-case hexadecimal digits. A signed number has a minus sign.\<close>

definition hex_digit :: "nat \<Rightarrow> char" where
  "hex_digit n = (if n < 10 then char_of (48 + n) else char_of (87 + n))"

definition alternate_hex_04 :: "u8 \<Rightarrow> string" where
  "alternate_hex_04 b = ''0x'' @ [hex_digit (unat b div 16), hex_digit (unat b mod 16)]"

definition decimal_signed :: "i32 \<Rightarrow> string" where
  "decimal_signed w = (if sint w < 0 then ''-'' @ decimal (nat (- sint w)) else decimal (nat (sint w)))"

text \<open>The name of the variant (\<open>Debug\<close>).\<close>

fun KeyType_fmt :: "KeyType \<Rightarrow> string" where
  "KeyType_fmt Djb = ''Djb''"

section \<open>The text of an error\<close>

definition SignalProtocolError_fmt :: "SignalProtocolError \<Rightarrow> string" where
  "SignalProtocolError_fmt e =
     (case e of
        ProtobufDecodingError e \<Rightarrow> ''failed to decode protobuf: '' @ e
      | ProtobufEncodingError e \<Rightarrow> ''failed to encode protobuf: '' @ e
      | InvalidProtobufEncoding \<Rightarrow> ''protobuf encoding was invalid''
      | InvalidArgument s \<Rightarrow> ''invalid argument: '' @ s
      | InvalidState func s \<Rightarrow> ''invalid state for call to '' @ func @ '' to succeed: '' @ s
      | CiphertextMessageTooShort sz \<Rightarrow> ''ciphertext serialized bytes were too short <'' @ decimal sz @ ''>''
      | LegacyCiphertextVersion version \<Rightarrow> ''ciphertext version was too old <'' @ decimal (unat version) @ ''>''
      | UnrecognizedCiphertextVersion version \<Rightarrow> ''ciphertext version was unrecognized <'' @ decimal (unat version) @ ''>''
      | UnrecognizedMessageVersion message_version \<Rightarrow> ''unrecognized message version <'' @ decimal (unat message_version) @ ''>''
      | FingerprintIdentifierMismatch \<Rightarrow> ''fingerprint identifiers do not match''
      | FingerprintVersionMismatch \<Rightarrow> ''fingerprint version numbers do not match''
      | NoKeyTypeIdentifier \<Rightarrow> ''no key type identifier''
      | BadKeyType t \<Rightarrow> ''bad key type <'' @ alternate_hex_04 t @ ''>''
      | BadKeyLength t l \<Rightarrow> ''bad key length <'' @ decimal l @ ''> for key with type <'' @ KeyType_fmt t @ ''>''
      | MismatchedKeyTypes a b \<Rightarrow> ''key types <'' @ KeyType_fmt a @ ''> and <'' @ KeyType_fmt b @ ''> do not match''
      | MismatchedSignatureLengthForKey t l \<Rightarrow>
          ''signature length <'' @ decimal l @ ''> does not match expected for key with type <'' @ KeyType_fmt t @ ''>''
      | InvalidPreKeyId \<Rightarrow> ''invalid prekey identifier''
      | InvalidSignedPreKeyId \<Rightarrow> ''invalid signed prekey identifier''
      | InvalidChainKeyLength l \<Rightarrow> ''invalid chain key length <'' @ decimal l @ ''>''
      | InvalidRootKeyLength l \<Rightarrow> ''invalid root key length <'' @ decimal l @ ''>''
      | InvalidCipherCryptographicParameters kl nl \<Rightarrow>
          ''invalid cipher key length <'' @ decimal kl @ ''> or nonce length <'' @ decimal nl @ ''>''
      | InvalidMacKeyLength l \<Rightarrow> ''invalid MAC key length <'' @ decimal l @ ''>''
      | UntrustedIdentity addr \<Rightarrow> ''untrusted identity for address '' @ ProtocolAddress_fmt addr
      | SignatureValidationFailed \<Rightarrow> ''invalid signature detected''
      | InvalidPreKeyBundle \<Rightarrow> ''invalid pre key bundle format''
      | InvalidCiphertext \<Rightarrow> ''invalid ciphertext message''
      | SessionNotFound \<Rightarrow> ''session not found''
      | InvalidSessionStructure \<Rightarrow> ''invalid session structure''
      | DuplicatedMessage i c \<Rightarrow> ''message with old counter '' @ decimal (unat i) @ '' / '' @ decimal (unat c)
      | InvalidMessage m \<Rightarrow> ''invalid message '' @ m
      | InternalError m \<Rightarrow> ''internal error '' @ m
      | InvalidSenderKeyId \<Rightarrow> ''invalid send key id''
      | NoSenderKeyState \<Rightarrow> ''no sender key state''
      | SenderKeySigningKeyMissing \<Rightarrow> ''sender key signature key missing''
      | SignaturePubkeyMissing \<Rightarrow> ''cannot verify signature due to missing key''
      | FfiBindingError m \<Rightarrow> ''error while invoking an ffi callback: '' @ m
      | ApplicationCallbackReturnedIntegerError func c \<Rightarrow>
          ''application callback '' @ func @ '' returned error code '' @ decimal_signed c
      | ApplicationCallbackThrewException func t m \<Rightarrow>
          (case t of
             Some t \<Rightarrow> ''application callback '' @ func @ '' threw exception '' @ t @ '' with message '' @ m
           | None \<Rightarrow> ''application callback '' @ func @ '' threw exception with message '' @ m))"

definition SignalProtocolError_source :: "SignalProtocolError \<Rightarrow> string option" where
  "SignalProtocolError_source e =
     (case e of ProtobufEncodingError e \<Rightarrow> Some e | ProtobufDecodingError e \<Rightarrow> Some e | _ \<Rightarrow> None)"

section \<open>Reading the text back\<close>

lemma decimal_inj: "decimal m = decimal n \<longleftrightarrow> m = n"
  by (metis undecimal_decimal)

text \<open>The two counters of a duplicate message can be read off its text.\<close>

lemma duplicated_fmt_inj:
  "SignalProtocolError_fmt (DuplicatedMessage i c) = SignalProtocolError_fmt (DuplicatedMessage i' c') \<longleftrightarrow> i = i' \<and> c = c'"
proof -
  have "(decimal (unat i) @ '' /'') @ CHR '' '' # decimal (unat c) = (decimal (unat i') @ '' /'') @ CHR '' '' # decimal (unat c') \<longleftrightarrow>
      i = i' \<and> c = c'"
    unfolding append_sep_inject [OF decimal_no_space decimal_no_space] by (simp add: decimal_inj word_unat_eq_iff)
  then show ?thesis by (simp add: SignalProtocolError_fmt_def)
qed

end
