(* ===== verification/Platform.thy ===== *)
theory Platform
  imports Prelude
begin

text \<open>
  Model of \<open>rust/aes-gcm-siv/src/error.rs\<close> and \<open>cpuid.rs\<close>: the errors of the crate, the
  target it is compiled for, and the run-time detection of CPU features. The conditional
  compilation of the crate is a case distinction on \<open>target_arch\<close>.
\<close>

datatype Error = InvalidKeySize | InvalidNonceSize | InvalidInputSize | InvalidOutputBuffer | InvalidTag | CpuidFailure

type_synonym 'a gresult = "(Error, 'a) result"
type_synonym ('s, 'a) gst = "('s, Error, 'a) st"

datatype target_arch = Arch_x86 | Arch_aarch64 | Arch_other

text \<open>
  What the program can ask the machine: the three features of an x86 CPU and, on Linux and
  Android, the word \<open>getauxval(AT_HWCAP)\<close>.
\<close>

record platform =
  arch :: target_arch
  feature_aes :: bool
  feature_pclmulqdq :: bool
  feature_ssse3 :: bool
  hwcap :: u64

definition has_armv8_crypto :: "platform \<Rightarrow> bool" where
  "has_armv8_crypto p =
     (let hwcap_crypto = push_bit 1 1 OR push_bit 3 1 OR push_bit 4 1 in hwcap p AND hwcap_crypto = hwcap_crypto)"

definition has_intel_aesni :: "platform \<Rightarrow> bool" where
  "has_intel_aesni p \<longleftrightarrow> feature_aes p \<and> feature_pclmulqdq p \<and> feature_ssse3 p"

end
