(* ===== verification/Carryless.thy ===== *)
theory Carryless
  imports Prelude
begin

text \<open>
  Polynomials over the field with two elements, as natural numbers: bit \<open>i\<close> is the coefficient of
  \<open>x ^ i\<close>, \<open>XOR\<close> is addition and \<open>clm\<close> the product without carries. The lemmas are the laws of the
  product, its degree, and uniqueness of remainders for a modulus with constant term 1, where the
  powers of \<open>x\<close> are units.
\<close>

section \<open>Addition\<close>

lemma xor_double [simp]: "(2 * a) XOR (2 * b) = 2 * (a XOR b :: nat)"
  using push_bit_xor [of 1 a b] by (simp add: push_bit_eq_mult mult.commute)

lemma xor_power: "(2 ^ k * a) XOR (2 ^ k * b) = 2 ^ k * (a XOR b :: nat)"
  using push_bit_xor [of k a b] by (simp add: push_bit_eq_mult mult.commute)

lemma xor_less_exp: "a < 2 ^ n \<Longrightarrow> b < 2 ^ n \<Longrightarrow> a XOR b < (2 ^ n :: nat)"
  by (metis take_bit_nat_eq_self_iff take_bit_xor)

lemma xor_cancel [simp]: "a XOR (a XOR b) = (b :: nat)"
  by (simp add: xor.assoc [symmetric])

lemma xor_eq_0_iff [simp]: "a XOR b = 0 \<longleftrightarrow> a = (b :: nat)"
  by (metis bit.xor_self xor.right_neutral xor_cancel)

lemma split_low: "(a :: nat) = take_bit k a XOR 2 ^ k * drop_bit k a"
proof (rule bit_eqI)
  fix n
  show "bit a n \<longleftrightarrow> bit (take_bit k a XOR 2 ^ k * drop_bit k a) n"
    by (cases "n < k")
       (auto simp: bit_xor_iff bit_take_bit_iff bit_drop_bit_eq bit_push_bit_iff mult.commute [of "2 ^ k"]
          simp flip: push_bit_eq_mult)
qed

lemma split_bit: "(a :: nat) = (if odd a then 1 else 0) XOR 2 * (a div 2)"
proof (rule bit_eqI)
  fix n
  show "bit a n \<longleftrightarrow> bit ((if odd a then 1 else 0) XOR 2 * (a div 2)) n"
    unfolding bit_xor_iff by (cases n) (auto simp: bit_double_iff bit_1_iff bit_0 bit_Suc simp del: odd_two_times_div_two_nat)
qed

section \<open>Product\<close>

fun clm :: "nat \<Rightarrow> nat \<Rightarrow> nat" where
  "clm a b = (if a = 0 then 0 else (if odd a then b else 0) XOR 2 * clm (a div 2) b)"

declare clm.simps [simp del]

lemma clm_0_left [simp]: "clm 0 b = 0"
  by (simp add: clm.simps)

lemma clm_step: "clm a b = (if odd a then b else 0) XOR 2 * clm (a div 2) b"
  by (cases "a = 0") (simp_all add: clm.simps [of a])

lemma clm_1_left [simp]: "clm (Suc 0) b = b"
  by (simp add: clm_step [of "Suc 0"])

lemma clm_double_left: "clm (2 * a) b = 2 * clm a b"
  by (simp add: clm_step [of "2 * a"])

lemma clm_xor_left: "clm (a XOR a') b = clm a b XOR clm a' b"
proof (induction a b arbitrary: a' rule: clm.induct)
  case (1 a b)
  show ?case
  proof (cases "a = 0")
    case False
    have half: "(a XOR a') div 2 = (a div 2) XOR (a' div 2)"
      by (rule bit_eqI) (simp add: bit_xor_iff flip: bit_Suc)
    have "odd (a XOR a') \<longleftrightarrow> odd a \<noteq> odd a'" by (simp add: even_xor_iff)
    with 1 [OF False] show ?thesis
      unfolding clm_step [of "a XOR a'"] clm_step [of a] clm_step [of a'] half
      by (auto simp: xor.assoc xor.left_commute xor.commute simp flip: xor_double)
  qed simp
qed

lemma clm_xor_right: "clm a (b XOR b') = clm a b XOR clm a b'"
proof (induction a b rule: clm.induct)
  case (1 a b)
  show ?case
  proof (cases "a = 0")
    case False
    from 1 [OF False] show ?thesis
      unfolding clm_step [of a b] clm_step [of a b'] clm_step [of a "b XOR b'"]
      by (auto simp: xor.assoc xor.left_commute xor.commute simp flip: xor_double)
  qed simp
qed

lemma clm_0_right [simp]: "clm a 0 = 0"
  using clm_xor_right [of a 0 0] by simp

lemma clm_double_right: "clm a (2 * b) = 2 * clm a b"
proof (induction a b rule: clm.induct)
  case (1 a b)
  then show ?case
    by (cases "a = 0") (simp_all add: clm_step [of a b] clm_step [of a "2 * b"] flip: xor_double)
qed

lemma clm_power_left: "clm (2 ^ k * a) b = 2 ^ k * clm a b"
  by (induction k) (simp_all add: mult.assoc clm_double_left)

lemma clm_power_right: "clm a (2 ^ k * b) = 2 ^ k * clm a b"
  by (induction k) (simp_all add: mult.assoc clm_double_right)

lemma clm_1_right [simp]: "clm a (Suc 0) = a"
proof (induction a "Suc 0" rule: clm.induct)
  case (1 a)
  show ?case
  proof (cases "a = 0")
    case False
    with 1 have "clm a (Suc 0) = (if odd a then 1 else 0) XOR 2 * (a div 2)"
      by (simp add: clm_step [of a "Suc 0"] del: odd_two_times_div_two_nat)
    then show ?thesis by (simp only: split_bit [of a, symmetric])
  qed simp
qed

lemma clm_commute: "clm a b = clm b a"
proof (induction a b rule: clm.induct)
  case (1 a b)
  show ?case
  proof (cases "a = 0")
    case False
    have "clm b a = (if odd a then b else 0) XOR 2 * clm b (a div 2)"
      by (subst split_bit [of a]) (simp add: clm_xor_right clm_double_right)
    with 1 [OF False] show ?thesis by (simp add: clm_step [of a b])
  qed simp
qed

lemma clm_assoc: "clm (clm a b) c = clm a (clm b c)"
proof (induction a b rule: clm.induct)
  case (1 a b)
  show ?case
  proof (cases "a = 0")
    case False
    from 1 [OF False] show ?thesis
      by (simp add: clm_step [of a b] clm_step [of a "clm b c"] clm_xor_left clm_double_left)
  qed simp
qed

section \<open>Degree\<close>

lemma clm_less_exp: "a < 2 ^ m \<Longrightarrow> b < 2 ^ n \<Longrightarrow> clm a b < 2 ^ (m + n - 1)"
proof (induction m arbitrary: a)
  case (Suc m)
  then have half: "a div 2 < 2 ^ m" by auto
  show ?case
  proof (cases "m = 0")
    case True
    with Suc.prems show ?thesis by (auto simp: less_2_cases_iff)
  next
    case False
    then have "b < 2 ^ (m + n)" using Suc.prems(2) by (meson le_add2 order_less_le_trans one_le_numeral power_increasing)
    moreover have "2 * clm (a div 2) b < 2 ^ (m + n)"
      using Suc.IH [OF half Suc.prems(2)] False by (cases "m + n") auto
    ultimately show ?thesis by (auto simp: clm_step [of a b] intro!: xor_less_exp)
  qed
qed simp

text \<open>The bit of a product at the sum of the degrees.\<close>

lemma bit_clm_top: "a < 2 ^ Suc m \<Longrightarrow> b < 2 ^ Suc n \<Longrightarrow> bit (clm a b) (m + n) \<longleftrightarrow> bit a m \<and> bit b n"
proof (induction m arbitrary: a)
  case 0
  then have "a = 0 \<or> a = 1" by auto
  then show ?case by (auto simp: bit_1_iff bit_0)
next
  case (Suc m)
  then have "a div 2 < 2 ^ Suc m" by auto
  from Suc.IH [OF this Suc.prems(2)] have "bit (2 * clm (a div 2) b) (Suc m + n) \<longleftrightarrow> bit a (Suc m) \<and> bit b n"
    by (simp add: bit_double_iff bit_Suc)
  moreover have "\<not> bit b (Suc m + n)"
    using Suc.prems(2) by (metis add_Suc bit_take_bit_iff less_add_Suc2 not_less_eq take_bit_nat_eq_self_iff)
  ultimately show ?case by (auto simp: clm_step [of a b] bit_xor_iff)
qed

section \<open>Congruence\<close>

definition clm_cong :: "nat \<Rightarrow> nat \<Rightarrow> nat \<Rightarrow> bool" where
  "clm_cong P a b \<longleftrightarrow> (\<exists>q. a XOR b = clm q P)"

lemma clm_cong_refl [simp]: "clm_cong P a a"
  unfolding clm_cong_def by (rule exI [of _ 0]) simp

lemma clm_cong_sym: "clm_cong P a b \<Longrightarrow> clm_cong P b a"
  by (simp add: clm_cong_def xor.commute)

lemma clm_cong_trans: "clm_cong P a b \<Longrightarrow> clm_cong P b c \<Longrightarrow> clm_cong P a c"
  unfolding clm_cong_def by (metis clm_xor_left xor.assoc xor_cancel)

lemma clm_cong_xor: "clm_cong P a b \<Longrightarrow> clm_cong P c d \<Longrightarrow> clm_cong P (a XOR c) (b XOR d)"
  unfolding clm_cong_def by (metis (no_types, lifting) clm_xor_left xor.assoc xor.commute)

lemma clm_cong_clm: "clm_cong P a b \<Longrightarrow> clm_cong P (clm c a) (clm c b)"
  unfolding clm_cong_def by (metis clm_assoc clm_xor_right)

lemma clm_cong_power: "clm_cong P a b \<Longrightarrow> clm_cong P (2 ^ k * a) (2 ^ k * b)"
  using clm_cong_clm [of P a b "2 ^ k"] clm_power_left [of k 1] by simp

lemma clm_cong_multiple: "clm_cong P (a XOR clm q P) a"
  unfolding clm_cong_def by (rule exI [of _ q]) (simp add: xor.commute)

text \<open>A multiple of an odd modulus that \<open>x ^ k\<close> divides is a multiple of \<open>x ^ k\<close> times the modulus.\<close>

lemma clm_multiple_power:
  assumes "odd P" "clm q P = 2 ^ k * d"
  obtains q' where "q = 2 ^ k * q'" "clm q' P = d"
  using assms(2)
proof (induction k arbitrary: q d thesis)
  case (Suc k)
  obtain q1 where q1: "q = 2 ^ k * q1" "clm q1 P = 2 * d"
    using Suc.IH [of q "2 * d"] Suc.prems(2) by (auto simp: ac_simps)
  then have "even (clm q1 P)" by simp
  then have "even q1" using assms(1) by (auto simp: clm_step [of q1] even_xor_iff split: if_splits)
  then obtain q2 where "q1 = 2 * q2" by (elim evenE)
  with q1 Suc.prems(1) [of q2] show ?case by (simp add: clm_double_left)
qed simp

lemma clm_multiple_small:
  assumes "bit P n" "P < 2 ^ Suc n" "clm q P < 2 ^ n"
  shows "q = 0"
proof (rule ccontr)
  assume "q \<noteq> 0"
  then obtain m where m: "2 ^ m \<le> q" "q < 2 ^ Suc m"
    using ex_power_ivl1 [of 2 q] by auto
  then have "bit q m" by (simp add: bit_iff_odd) (metis One_nat_def Suc_1 div_nat_eqI mult_2 mult.commute nat_mult_1 odd_one power_Suc)
  then have "bit (clm q P) (m + n)" using bit_clm_top [OF m(2) assms(2)] assms(1) by simp
  moreover have "clm q P < 2 ^ (m + n)"
    using assms(3) by (meson le_add2 order_less_le_trans one_le_numeral power_increasing)
  ultimately show False by (metis bit_take_bit_iff less_irrefl take_bit_nat_eq_self_iff)
qed

lemma clm_cong_unique:
  assumes "odd P" "bit P n" "P < 2 ^ Suc n" "a < 2 ^ n" "b < 2 ^ n"
    and "clm_cong P (2 ^ k * a) (2 ^ k * b)"
  shows "a = b"
proof -
  obtain q where "clm q P = 2 ^ k * (a XOR b)"
    using assms(6) by (auto simp: clm_cong_def xor_power)
  then obtain q' where q': "clm q' P = a XOR b" using clm_multiple_power [OF assms(1)] by metis
  then have "clm q' P < 2 ^ n" using assms(4,5) by (simp add: xor_less_exp)
  then have "q' = 0" by (rule clm_multiple_small [OF assms(2,3)])
  with q' show ?thesis by simp
qed

end
