(* ===== verification/Byte_Order.thy ===== *)
theory Byte_Order
  imports Carryless
begin

text \<open>
  Byte order and blocks: the little-endian reading of a byte string (\<open>from_le_bytes\<close>, and a load of
  a vector register), its inverse, bytewise \<open>XOR\<close>, and cutting a buffer into chunks.
\<close>

section \<open>Little-endian numbers\<close>

fun le_nat :: "bytes \<Rightarrow> nat" where
  "le_nat [] = 0"
| "le_nat (b # bs) = unat b + 256 * le_nat bs"

fun nat_le :: "nat \<Rightarrow> nat \<Rightarrow> bytes" where
  "nat_le 0 v = []"
| "nat_le (Suc n) v = word_of_nat v # nat_le n (v div 256)"

lemma unat_u8_less [simp]: "unat (b :: u8) < 256"
  using unsigned_less [of b] by simp

lemma length_nat_le [simp]: "length (nat_le n v) = n"
  by (induction n arbitrary: v) simp_all

lemma le_nat_less: "le_nat bs < 256 ^ length bs"
proof (induction bs)
  case (Cons b bs)
  have "unat b + 256 * le_nat bs < 256 * (le_nat bs + 1)" using unat_u8_less [of b] by simp
  also have "\<dots> \<le> 256 * 256 ^ length bs" using Cons by simp
  finally show ?case by simp
qed simp

lemma word_of_nat_mod_256: "(word_of_nat (v mod 256) :: u8) = word_of_nat v"
  by (simp add: word_of_nat_eq_iff take_bit_eq_mod)

lemma nat_le_le_nat [simp]: "nat_le (length bs) (le_nat bs) = bs"
proof (induction bs)
  case (Cons b bs)
  have "(word_of_nat (unat b + 256 * le_nat bs) :: u8) = b"
    using word_of_nat_mod_256 [of "unat b + 256 * le_nat bs"] by simp
  with Cons show ?case by simp
qed simp

lemma le_nat_nat_le: "le_nat (nat_le n v) = v mod 256 ^ n"
proof (induction n arbitrary: v)
  case (Suc n)
  have "unat (word_of_nat v :: u8) = v mod 256" by (simp add: unsigned_of_nat take_bit_eq_mod)
  with Suc [of "v div 256"] show ?case by (simp add: mod_mult2_eq)
qed simp

lemma le_nat_inject: "length a = length b \<Longrightarrow> le_nat a = le_nat b \<longleftrightarrow> a = b"
  by (metis nat_le_le_nat)

section \<open>Bytewise XOR\<close>

definition xor_bytes :: "bytes \<Rightarrow> bytes \<Rightarrow> bytes" where
  "xor_bytes a b = map2 (XOR) a b"

lemma length_xor_bytes [simp]: "length (xor_bytes a b) = min (length a) (length b)"
  by (simp add: xor_bytes_def)

lemma xor_bytes_simps [simp]:
  "xor_bytes [] b = []" "xor_bytes a [] = []" "xor_bytes (x # a) (y # b) = (x XOR y) # xor_bytes a b"
  by (simp_all add: xor_bytes_def)

lemma xor_bytes_append:
  "length a = length c \<Longrightarrow> xor_bytes (a @ b) (c @ d) = xor_bytes a c @ xor_bytes b d"
  by (simp add: xor_bytes_def)

lemma xor_bytes_cancel: "length a \<le> length b \<Longrightarrow> xor_bytes (xor_bytes a b) b = a"
proof (induction a arbitrary: b)
  case (Cons x a)
  then show ?case by (cases b) (simp_all add: xor.assoc)
qed simp

lemma take_xor_bytes: "take n (xor_bytes a b) = xor_bytes (take n a) (take n b)"
  by (simp add: xor_bytes_def take_map take_zip)

lemma drop_xor_bytes: "drop n (xor_bytes a b) = xor_bytes (drop n a) (drop n b)"
  by (simp add: xor_bytes_def drop_map drop_zip)

lemma xor_bytes_take: "length a \<le> n \<Longrightarrow> xor_bytes a (take n b) = xor_bytes a b"
proof (induction a arbitrary: n b)
  case (Cons x a)
  then show ?case by (cases n; cases b) simp_all
qed simp

lemma xor_bytes_long: "length a \<le> length b \<Longrightarrow> xor_bytes a (b @ c) = xor_bytes a b"
  using xor_bytes_take [of a "length b" "b @ c"] by simp

lemma xor_bytes_split: "length b \<le> length a \<Longrightarrow> xor_bytes a (b @ c) = xor_bytes (take (length b) a) b @ xor_bytes (drop (length b) a) c"
  using xor_bytes_append [of "take (length b) a" b "drop (length b) a" c] by simp

lemma nth_xor_bytes: "i < length a \<Longrightarrow> i < length b \<Longrightarrow> xor_bytes a b ! i = a ! i XOR b ! i"
  by (simp add: xor_bytes_def)

lemma plus_256_xor: "unat (b :: u8) + 256 * n = unat b XOR 2 ^ 8 * n"
proof -
  have "take_bit 8 (unat b + 256 * n) = unat b" "drop_bit 8 (unat b + 256 * n) = n"
    by (simp_all add: take_bit_eq_mod drop_bit_eq_div)
  with split_low [of "unat b + 256 * n" 8] show ?thesis by simp
qed

lemma le_nat_xor: "length a = length b \<Longrightarrow> le_nat (xor_bytes a b) = le_nat a XOR le_nat b"
proof (induction a b rule: list_induct2)
  case (Cons x a y b)
  then have "le_nat (xor_bytes (x # a) (y # b)) = (unat x XOR unat y) XOR (2 ^ 8 * le_nat a XOR 2 ^ 8 * le_nat b)"
    using plus_256_xor [of "x XOR y"] by (simp add: unsigned_xor_eq xor_power [of 8, simplified])
  also have "\<dots> = (unat x XOR 2 ^ 8 * le_nat a) XOR (unat y XOR 2 ^ 8 * le_nat b)"
    by (simp only: xor.assoc xor.left_commute xor.commute)
  finally show ?case by (simp only: le_nat.simps plus_256_xor)
qed simp

section \<open>Chunks\<close>

text \<open>\<open>buf.chunks(n)\<close> for \<open>n > 0\<close>: pieces of \<open>n\<close> elements, the last one possibly shorter.\<close>

function chunks :: "nat \<Rightarrow> 'a list \<Rightarrow> 'a list list" where
  "chunks n xs = (if n = 0 \<or> xs = [] then [] else take n xs # chunks n (drop n xs))"
  by pat_completeness auto

termination chunks
  by (relation "measure (\<lambda>(n, xs). length xs)") (auto simp: neq_Nil_conv)

declare chunks.simps [simp del]

lemma chunks_Nil [simp]: "chunks n [] = []"
  by (simp add: chunks.simps)

lemma concat_chunks [simp]: "n > 0 \<Longrightarrow> concat (chunks n xs) = xs"
proof (induction n xs rule: chunks.induct)
  case (1 n xs)
  then show ?case by (cases "xs = []") (simp_all add: chunks.simps [of n xs])
qed

lemma chunks_append_exact: "length a = n \<Longrightarrow> n > 0 \<Longrightarrow> chunks n (a @ b) = a # chunks n b"
  by (auto simp: chunks.simps [of n "a @ b"])

lemma chunks_short: "xs \<noteq> [] \<Longrightarrow> length xs \<le> n \<Longrightarrow> chunks n xs = [xs]"
  by (cases "n = 0") (simp_all add: chunks.simps [of n xs])

lemma chunks_single: "length xs = n \<Longrightarrow> n > 0 \<Longrightarrow> chunks n xs = [xs]"
  by (rule chunks_short) auto

lemma chunks_append: "n > 0 \<Longrightarrow> n dvd length a \<Longrightarrow> chunks n (a @ b) = chunks n a @ chunks n b"
proof (induction n a rule: chunks.induct)
  case (1 n a)
  show ?case
  proof (cases "a = []")
    case False
    then have len: "n \<le> length a" using 1(3) by (simp add: dvd_imp_le)
    then have "n dvd length (drop n a)" using 1(3) by simp
    with 1 False have "chunks n (drop n a @ b) = chunks n (drop n a) @ chunks n b" by simp
    with len False 1(2) show ?thesis
      by (simp add: chunks.simps [of n "a @ b"] chunks.simps [of n a])
  qed simp
qed

lemma chunks_length: "n > 0 \<Longrightarrow> n dvd length xs \<Longrightarrow> c \<in> set (chunks n xs) \<Longrightarrow> length c = n"
proof (induction n xs rule: chunks.induct)
  case (1 n xs)
  show ?case
  proof (cases "xs = []")
    case False
    then have len: "n \<le> length xs" using 1(3) by (simp add: dvd_imp_le)
    with 1 False show ?thesis by (auto simp: chunks.simps [of n xs])
  qed (use 1(4) in simp)
qed

text \<open>Work by blocks of \<open>n\<close>, grouped into larger chunks of \<open>k * n\<close>, is work by blocks of \<open>n\<close>.\<close>

lemma chunks_regroup: "n > 0 \<Longrightarrow> k > 0 \<Longrightarrow> concat (map (\<lambda>c. map f (chunks n c)) (chunks (k * n) xs)) = map f (chunks n xs)"
proof (induction "k * n" xs rule: chunks.induct)
  case (1 xs)
  show ?case
  proof (cases "xs = []")
    case False
    have IH: "concat (map (\<lambda>c. map f (chunks n c)) (chunks (k * n) (drop (k * n) xs))) = map f (chunks n (drop (k * n) xs))"
      using 1 False by simp
    show ?thesis
    proof (cases "length xs \<le> k * n")
      case True
      with False show ?thesis by (simp add: chunks_short)
    next
      case longer: False
      have "chunks n xs = chunks n (take (k * n) xs) @ chunks n (drop (k * n) xs)"
        using chunks_append [of n "take (k * n) xs" "drop (k * n) xs"] 1(2) longer by simp
      with IH False 1 show ?thesis by (simp add: chunks.simps [of "k * n" xs])
    qed
  qed simp
qed

lemma chunks_regroup_concat:
  assumes "n > 0" "k > 0"
  shows "concat (map (\<lambda>c. concat (map f (chunks n c))) (chunks (k * n) xs)) = concat (map f (chunks n xs))"
proof -
  have "concat (concat xss) = concat (map concat xss)" for xss :: "'a list list list" by (induction xss) simp_all
  then show ?thesis using chunks_regroup [OF assms, of f xs, symmetric] by (simp add: comp_def)
qed

end
