(* ===== verification/Aes_Standard.thy ===== *)
theory Aes_Standard
  imports Byte_Order
begin

text \<open>
  AES-256 as FIPS 197 defines it, on byte strings: a state of 16 bytes is stored by columns, a word
  of the key schedule is a string of 4 bytes. It is the reference for the ARM back end, and
  what the other back ends are documented to compute.
\<close>

definition sbox :: "u8 list" where
  "sbox =
     [0x63, 0x7c, 0x77, 0x7b, 0xf2, 0x6b, 0x6f, 0xc5, 0x30, 0x01, 0x67, 0x2b, 0xfe, 0xd7, 0xab, 0x76,
      0xca, 0x82, 0xc9, 0x7d, 0xfa, 0x59, 0x47, 0xf0, 0xad, 0xd4, 0xa2, 0xaf, 0x9c, 0xa4, 0x72, 0xc0,
      0xb7, 0xfd, 0x93, 0x26, 0x36, 0x3f, 0xf7, 0xcc, 0x34, 0xa5, 0xe5, 0xf1, 0x71, 0xd8, 0x31, 0x15,
      0x04, 0xc7, 0x23, 0xc3, 0x18, 0x96, 0x05, 0x9a, 0x07, 0x12, 0x80, 0xe2, 0xeb, 0x27, 0xb2, 0x75,
      0x09, 0x83, 0x2c, 0x1a, 0x1b, 0x6e, 0x5a, 0xa0, 0x52, 0x3b, 0xd6, 0xb3, 0x29, 0xe3, 0x2f, 0x84,
      0x53, 0xd1, 0x00, 0xed, 0x20, 0xfc, 0xb1, 0x5b, 0x6a, 0xcb, 0xbe, 0x39, 0x4a, 0x4c, 0x58, 0xcf,
      0xd0, 0xef, 0xaa, 0xfb, 0x43, 0x4d, 0x33, 0x85, 0x45, 0xf9, 0x02, 0x7f, 0x50, 0x3c, 0x9f, 0xa8,
      0x51, 0xa3, 0x40, 0x8f, 0x92, 0x9d, 0x38, 0xf5, 0xbc, 0xb6, 0xda, 0x21, 0x10, 0xff, 0xf3, 0xd2,
      0xcd, 0x0c, 0x13, 0xec, 0x5f, 0x97, 0x44, 0x17, 0xc4, 0xa7, 0x7e, 0x3d, 0x64, 0x5d, 0x19, 0x73,
      0x60, 0x81, 0x4f, 0xdc, 0x22, 0x2a, 0x90, 0x88, 0x46, 0xee, 0xb8, 0x14, 0xde, 0x5e, 0x0b, 0xdb,
      0xe0, 0x32, 0x3a, 0x0a, 0x49, 0x06, 0x24, 0x5c, 0xc2, 0xd3, 0xac, 0x62, 0x91, 0x95, 0xe4, 0x79,
      0xe7, 0xc8, 0x37, 0x6d, 0x8d, 0xd5, 0x4e, 0xa9, 0x6c, 0x56, 0xf4, 0xea, 0x65, 0x7a, 0xae, 0x08,
      0xba, 0x78, 0x25, 0x2e, 0x1c, 0xa6, 0xb4, 0xc6, 0xe8, 0xdd, 0x74, 0x1f, 0x4b, 0xbd, 0x8b, 0x8a,
      0x70, 0x3e, 0xb5, 0x66, 0x48, 0x03, 0xf6, 0x0e, 0x61, 0x35, 0x57, 0xb9, 0x86, 0xc1, 0x1d, 0x9e,
      0xe1, 0xf8, 0x98, 0x11, 0x69, 0xd9, 0x8e, 0x94, 0x9b, 0x1e, 0x87, 0xe9, 0xce, 0x55, 0x28, 0xdf,
      0x8c, 0xa1, 0x89, 0x0d, 0xbf, 0xe6, 0x42, 0x68, 0x41, 0x99, 0x2d, 0x0f, 0xb0, 0x54, 0xbb, 0x16]"

definition sub_byte :: "u8 \<Rightarrow> u8" where
  "sub_byte b = sbox ! unat b"

definition sub_bytes :: "bytes \<Rightarrow> bytes" where
  "sub_bytes s = map sub_byte s"

text \<open>Row \<open>r\<close> moves left by \<open>r\<close> columns: byte \<open>r + 4 c\<close> comes from \<open>r + 4 (c + r)\<close>.\<close>

definition shift_rows :: "bytes \<Rightarrow> bytes" where
  "shift_rows s = map (\<lambda>i. s ! ((5 * i) mod 16)) [0..<16]"

definition xtime :: "u8 \<Rightarrow> u8" where
  "xtime b = push_bit 1 b XOR (if bit b 7 then 0x1b else 0)"

fun mix_column :: "bytes \<Rightarrow> bytes" where
  "mix_column [a, b, c, d] =
     [xtime a XOR (xtime b XOR b) XOR c XOR d, a XOR xtime b XOR (xtime c XOR c) XOR d,
      a XOR b XOR xtime c XOR (xtime d XOR d), (xtime a XOR a) XOR b XOR c XOR xtime d]"
| "mix_column s = s"

definition mix_columns :: "bytes \<Rightarrow> bytes" where
  "mix_columns s = concat (map mix_column (chunks 4 s))"

section \<open>Key schedule and cipher\<close>

definition rot_word :: "bytes \<Rightarrow> bytes" where
  "rot_word w = rotate1 w"

definition round_constant :: "nat \<Rightarrow> bytes" where
  "round_constant j = [(xtime ^^ (j - 1)) 1, 0, 0, 0]"

fun key_word :: "bytes \<Rightarrow> nat \<Rightarrow> bytes" where
  "key_word key i =
     (if i < 8 then take 4 (drop (4 * i) key)
      else
        let temp = key_word key (i - 1) in
        xor_bytes (key_word key (i - 8))
          (if i mod 8 = 0 then xor_bytes (sub_bytes (rot_word temp)) (round_constant (i div 8))
           else if i mod 8 = 4 then sub_bytes temp
           else temp))"

declare key_word.simps [simp del]

definition round_key :: "bytes \<Rightarrow> nat \<Rightarrow> bytes" where
  "round_key key r = concat (map (key_word key) [4 * r..<4 * r + 4])"

definition aes256_cipher :: "bytes \<Rightarrow> bytes \<Rightarrow> bytes" where
  "aes256_cipher key block =
     (let s = fold (\<lambda>r s. xor_bytes (mix_columns (shift_rows (sub_bytes s))) (round_key key r)) [1..<14]
                (xor_bytes block (round_key key 0)) in
      xor_bytes (shift_rows (sub_bytes s)) (round_key key 14))"

section \<open>Lengths\<close>

lemma length_sub_bytes [simp]: "length (sub_bytes s) = length s"
  by (simp add: sub_bytes_def)

lemma length_shift_rows [simp]: "length (shift_rows s) = 16"
  by (simp add: shift_rows_def)

lemma length_mix_column [simp]: "length (mix_column s) = length s"
  by (cases s rule: mix_column.cases) simp_all

lemma length_mix_columns [simp]: "length (mix_columns s) = length s"
proof -
  have "length (mix_columns s) = sum_list (map length (chunks 4 s))"
    by (simp add: mix_columns_def length_concat comp_def)
  also have "\<dots> = length s" by (simp flip: length_concat)
  finally show ?thesis .
qed

lemma length_key_word: "length key = 32 \<Longrightarrow> length (key_word key i) = 4"
proof (induction key i rule: key_word.induct)
  case (1 key i)
  show ?case
  proof (cases "i < 8")
    case True
    with 1(3) show ?thesis by (simp add: key_word.simps [of key i])
  next
    case False
    with 1(1) [OF False 1(3)] 1(2) [OF False refl 1(3)] show ?thesis
      by (simp add: key_word.simps [of key i] Let_def rot_word_def round_constant_def)
  qed
qed

lemma length_round_key [simp]: "length key = 32 \<Longrightarrow> length (round_key key r) = 16"
  by (simp add: round_key_def length_key_word upt_rec)

lemma length_aes256_cipher [simp]: "length key = 32 \<Longrightarrow> length (aes256_cipher key block) = 16"
  by (simp add: aes256_cipher_def Let_def)

lemma sub_shift_commute: "length s = 16 \<Longrightarrow> sub_bytes (shift_rows s) = shift_rows (sub_bytes s)"
  by (simp add: sub_bytes_def shift_rows_def)

end
