(* ===== verification/Aes_Arm.thy ===== *)
theory Aes_Arm
  imports Platform Aes_Standard
begin

text \<open>
  Model of \<open>rust/aes-gcm-siv/src/aes/aarch64.rs\<close>: AES-256 with the cryptography instructions of
  ARMv8. A vector register \<open>uint8x16_t\<close> is a string of 16 bytes; memory is little-endian. The
  instructions are those of \<open>core::arch::aarch64\<close>: AESE adds the round key, shifts rows and substitutes
  bytes, AESMC mixes columns.
\<close>

section \<open>Instructions\<close>

definition vaeseq_u8 :: "bytes \<Rightarrow> bytes \<Rightarrow> bytes" where
  "vaeseq_u8 data key = sub_bytes (shift_rows (xor_bytes data key))"

definition vaesmcq_u8 :: "bytes \<Rightarrow> bytes" where
  "vaesmcq_u8 data = mix_columns data"

definition veorq_u8 :: "bytes \<Rightarrow> bytes \<Rightarrow> bytes" where
  "veorq_u8 a b = xor_bytes a b"

definition u32_from_be_bytes :: "bytes \<Rightarrow> u32" where
  "u32_from_be_bytes bs = word_of_nat (le_nat (rev bs))"

definition u32_memory :: "u32 \<Rightarrow> bytes" where
  "u32_memory w = nat_le 4 (unat w)"

definition swap_bytes :: "u32 \<Rightarrow> u32" where
  "swap_bytes w = word_of_nat (le_nat (rev (nat_le 4 (unat w))))"

definition vgetq_lane_u32 :: "bytes \<Rightarrow> nat \<Rightarrow> u32" where
  "vgetq_lane_u32 x i = word_of_nat (le_nat (take 4 (drop (4 * i) x)))"

section \<open>Key expansion\<close>

definition se_word :: "u32 \<Rightarrow> u32" where
  "se_word x =
     (let x4 = [x, x, x, x];
          a = concat (map u32_memory x4);
          zero = replicate 16 0;
          sa = vaeseq_u8 a zero
      in vgetq_lane_u32 sa 0)"

record Aes256Aarch64 =
  arm_ek :: "u32 list"

definition arm_rcon :: "u32 list" where
  "arm_rcon = [0x01000000, 0x02000000, 0x04000000, 0x08000000, 0x10000000, 0x20000000, 0x40000000,
     0x80000000, 0x1B000000, 0x36000000]"

text \<open>The body of the loop \<open>for j in 1..x\<close>.\<close>

definition expand_word :: "nat \<Rightarrow> nat \<Rightarrow> u32 list \<Rightarrow> u32 list" where
  "expand_word i j ek =
     (if i + j < length ek then
        let ek = ek[i + j := ek ! (i + j - 8)] in
        if j = 4 then ek[i + j := ek ! (i + j) XOR se_word (ek ! (i + j - 1))]
        else ek[i + j := ek ! (i + j) XOR ek ! (i + j - 1)]
      else ek)"

text \<open>The body of the loop \<open>for i in (x..60).step_by(x)\<close>.\<close>

definition expand_words :: "nat \<Rightarrow> u32 list \<Rightarrow> u32 list" where
  "expand_words i ek =
     (let ek = ek[i := ek ! (i - 8) XOR arm_rcon ! ((i - 8) div 8) XOR word_rotl 8 (se_word (ek ! (i - 1)))] in
      fold (expand_word i) [1..<8] ek)"

definition Aes256Aarch64_new :: "bytes \<Rightarrow> Aes256Aarch64 gresult" where
  "Aes256Aarch64_new key =
     (if length key \<noteq> 32 then Err InvalidKeySize
      else
        let x = 32 div 4;
            ek = replicate 60 0;
            ek = fold (\<lambda>i ek. ek[i := u32_from_be_bytes (take 4 (drop (i * 4) key))]) [0..<x] ek;
            ek = fold expand_words (map (\<lambda>n. x + x * n) [0..<7]) ek
        in Ok \<lparr>arm_ek = map swap_bytes ek\<rparr>)"

section \<open>Encryption\<close>

text \<open>The round keys \<open>k0\<close> to \<open>k14\<close>: 16 bytes each, read from the memory of \<open>ek\<close>.\<close>

definition arm_round_key :: "Aes256Aarch64 \<Rightarrow> nat \<Rightarrow> bytes" where
  "arm_round_key self r = take 16 (drop (16 * r) (concat (map u32_memory (arm_ek self))))"

definition arm_encrypt_four :: "(nat \<Rightarrow> bytes) \<Rightarrow> bytes \<Rightarrow> bytes" where
  "arm_encrypt_four k blocks =
     (let b0 = take 16 blocks; b1 = take 16 (drop 16 blocks);
          b2 = take 16 (drop 32 blocks); b3 = take 16 (drop 48 blocks);
          (b0, b1, b2, b3) = fold (\<lambda>r (b0, b1, b2, b3).
             (vaesmcq_u8 (vaeseq_u8 b0 (k r)), vaesmcq_u8 (vaeseq_u8 b1 (k r)),
              vaesmcq_u8 (vaeseq_u8 b2 (k r)), vaesmcq_u8 (vaeseq_u8 b3 (k r)))) [0..<13] (b0, b1, b2, b3);
          b0 = veorq_u8 (vaeseq_u8 b0 (k 13)) (k 14);
          b1 = veorq_u8 (vaeseq_u8 b1 (k 13)) (k 14);
          b2 = veorq_u8 (vaeseq_u8 b2 (k 13)) (k 14);
          b3 = veorq_u8 (vaeseq_u8 b3 (k 13)) (k 14)
      in b0 @ b1 @ b2 @ b3)"

definition arm_encrypt_one :: "(nat \<Rightarrow> bytes) \<Rightarrow> bytes \<Rightarrow> bytes" where
  "arm_encrypt_one k block =
     (let b0 = fold (\<lambda>r b. vaesmcq_u8 (vaeseq_u8 b (k r))) [0..<13] block
      in veorq_u8 (vaeseq_u8 b0 (k 13)) (k 14))"

definition Aes256Aarch64_encrypt :: "Aes256Aarch64 \<Rightarrow> bytes \<Rightarrow> bytes gresult" where
  "Aes256Aarch64_encrypt self buf =
     (if length buf mod 16 \<noteq> 0 then Err InvalidOutputBuffer
      else
        let k = arm_round_key self; unroll_to = 4 * 16 in
        Ok (concat (map (\<lambda>blocks.
              if length blocks = unroll_to then arm_encrypt_four k blocks
              else concat (map (arm_encrypt_one k) (chunks 16 blocks)))
            (chunks unroll_to buf))))"

section \<open>Words and their bytes\<close>

lemma bit_le_nat: "bit (le_nat bs) n \<longleftrightarrow> n < 8 * length bs \<and> bit (bs ! (n div 8)) (n mod 8)"
proof (induction bs arbitrary: n)
  case (Cons b bs)
  have b: "bit (unat b) n \<longleftrightarrow> n < 8 \<and> bit b n" by (auto simp: bit_unsigned_iff dest: bit_imp_le_length)
  have shift: "bit (2 ^ 8 * le_nat bs) n \<longleftrightarrow> 8 \<le> n \<and> bit (le_nat bs) (n - 8)"
    unfolding mult.commute [of "2 ^ 8"] push_bit_eq_mult [symmetric] bit_push_bit_iff by simp
  show ?case
  proof (cases "n < 8")
    case True
    then show ?thesis unfolding le_nat.simps plus_256_xor bit_xor_iff b shift by simp
  next
    case False
    then have "n div 8 = Suc ((n - 8) div 8)" "n mod 8 = (n - 8) mod 8" by (simp_all add: le_div_geq le_mod_geq)
    with False Cons [of "n - 8"] show ?thesis
      unfolding le_nat.simps plus_256_xor bit_xor_iff b shift by auto
  qed
qed simp

lemma bit_from_be:
  "length bs = 4 \<Longrightarrow> bit (u32_from_be_bytes bs) n \<longleftrightarrow> n < 32 \<and> bit (bs ! (3 - n div 8)) (n mod 8)"
  by (auto simp: u32_from_be_bytes_def bit_of_nat_iff bit_le_nat rev_nth)

lemma from_be_xor:
  "length a = 4 \<Longrightarrow> length b = 4 \<Longrightarrow> u32_from_be_bytes (xor_bytes a b) = u32_from_be_bytes a XOR u32_from_be_bytes b"
  by (rule bit_eqI) (auto simp: bit_from_be bit_xor_iff nth_xor_bytes)

lemma from_be_rotate:
  assumes "length bs = 4"
  shows "word_rotl 8 (u32_from_be_bytes bs) = u32_from_be_bytes (rot_word bs)"
proof (rule bit_eqI)
  fix n
  assume "possible_bit TYPE(32 word) n"
  then have n: "n < 32" by simp
  obtain a b c d where bs: "bs = [a, b, c, d]" using assms by (auto simp: numeral_eq_Suc length_Suc_conv)
  define q where "q = n div 8"
  have q: "q < 4" "n < 8 \<longleftrightarrow> q = 0" using n by (auto simp: q_def)
  have wrap: "(n + 24) mod 32 = (if q = 0 then n + 24 else n - 8)" using n by (simp add: mod_if flip: q(2))
  have "(n + 3 * 8) div 8 = 3 + q" "(n + 3 * 8) mod 8 = n mod 8" unfolding q_def by (simp_all only: div_mult_self1 mod_mult_self1)
  then have low: "(n + 24) div 8 = q + 3" "(n + 24) mod 8 = n mod 8" by simp_all
  have high: "(n - 8) div 8 = q - 1" "(n - 8) mod 8 = n mod 8" if "q \<noteq> 0"
    using that q(2) by (simp_all add: q_def le_div_geq [of 8 n] le_mod_geq)
  show "bit (word_rotl 8 (u32_from_be_bytes bs)) n = bit (u32_from_be_bytes (rot_word bs)) n"
  proof (cases "q = 0")
    case True
    then have "n < 8" using q(2) by simp
    with True show ?thesis using n wrap low by (simp add: bit_word_rotl_iff bit_from_be bs rot_word_def flip: q_def)
  next
    case False
    then consider "q = 1" | "q = 2" | "q = 3" using q(1) by atomize_elim auto
    moreover have "n - 8 < 32" "n mod 8 < 32" using n by (simp_all add: mod_less_eq_dividend order_le_less_trans)
    ultimately show ?thesis
      using n wrap high by cases (simp_all add: bit_word_rotl_iff bit_from_be bs rot_word_def flip: q_def)
  qed
qed

lemma memory_from_be:
  assumes "length bs = 4"
  shows "u32_memory (u32_from_be_bytes bs) = rev bs" "u32_memory (swap_bytes (u32_from_be_bytes bs)) = bs"
proof -
  have round: "nat_le 4 (unat (word_of_nat (le_nat cs) :: u32)) = cs" if "length cs = 4" for cs
  proof -
    have "le_nat cs < 2 ^ 32" using le_nat_less [of cs] that by simp
    then have "unat (word_of_nat (le_nat cs) :: u32) = le_nat cs" by (simp add: unsigned_of_nat take_bit_nat_eq_self)
    with nat_le_le_nat [of cs] that show ?thesis by simp
  qed
  from round [of "rev bs"] assms show rev: "u32_memory (u32_from_be_bytes bs) = rev bs"
    by (simp add: u32_memory_def u32_from_be_bytes_def)
  with round [of bs] assms show "u32_memory (swap_bytes (u32_from_be_bytes bs)) = bs"
    by (simp add: u32_memory_def swap_bytes_def)
qed

lemma upt_16: "[0..<16] = [0, 1, 2, 3, 4, 5, 6, 7, 8, 9, 10, 11, 12, 13, 14, 15]"
  by (simp add: upt_rec)

text \<open>A register with four equal columns: shifting rows does nothing.\<close>

lemma shift_rows_columns: "shift_rows [a, b, c, d, a, b, c, d, a, b, c, d, a, b, c, d] = [a, b, c, d, a, b, c, d, a, b, c, d, a, b, c, d]"
  by (simp add: shift_rows_def upt_16)

lemma xor_zero: "xor_bytes s (replicate (length s) 0) = s"
  by (induction s) simp_all

lemma se_word_from_be:
  assumes "length bs = 4"
  shows "se_word (u32_from_be_bytes bs) = u32_from_be_bytes (sub_bytes bs)"
proof -
  obtain a b c d where bs: "bs = [a, b, c, d]" using assms by (auto simp: numeral_eq_Suc length_Suc_conv)
  let ?s = "[d, c, b, a, d, c, b, a, d, c, b, a, d, c, b, a]"
  have "u32_memory (u32_from_be_bytes bs) = [d, c, b, a]" using memory_from_be(1) [OF assms] by (simp add: bs)
  moreover have len: "length ?s = 16" by simp
  moreover have "xor_bytes ?s (replicate 16 0) = ?s" using xor_zero [of ?s] unfolding len .
  ultimately show ?thesis
    by (simp add: se_word_def Let_def vaeseq_u8_def shift_rows_columns vgetq_lane_u32_def u32_from_be_bytes_def sub_bytes_def bs)
qed

section \<open>The key schedule is that of the standard\<close>

definition expanded :: "bytes \<Rightarrow> nat \<Rightarrow> u32 list \<Rightarrow> bool" where
  "expanded key k w \<longleftrightarrow> length w = 60 \<and> (\<forall>m<k. m < 60 \<longrightarrow> w ! m = u32_from_be_bytes (key_word key m))"

lemma expanded_update:
  "expanded key k w \<Longrightarrow> v = u32_from_be_bytes (key_word key k) \<Longrightarrow> expanded key (Suc k) (w[k := v])"
  by (auto simp: expanded_def nth_list_update less_Suc_eq)

lemma expanded_word:
  assumes "length key = 32" "expanded key (i + j) w" "8 \<le> i" "i mod 8 = 0" "1 \<le> j" "j < 8"
  shows "expanded key (Suc (i + j)) (expand_word i j w)"
proof (cases "i + j < 60")
  case True
  define k where "k = i + j"
  have len: "length w = 60" using assms(2) by (simp add: expanded_def)
  have j: "k mod 8 = j" using assms(4,6) by (simp add: k_def mod_add_left_eq [of i 8 j, symmetric])
  have k: "k < 60" "\<not> k < 8" "k - 1 \<noteq> k" "j \<noteq> 0" using True assms(3,5) by (simp_all add: k_def)
  have old: "w ! (k - 8) = u32_from_be_bytes (key_word key (k - 8))" "w ! (k - 1) = u32_from_be_bytes (key_word key (k - 1))"
    using assms(2) k by (simp_all add: expanded_def flip: k_def)
  have "expand_word i j w = w[k := u32_from_be_bytes (key_word key k)]"
    unfolding expand_word_def k_def [symmetric]
    using len j k old length_key_word [OF assms(1)]
    by (simp add: Let_def key_word.simps [of key k] se_word_from_be from_be_xor)
  with assms(2) show ?thesis by (simp add: expanded_update flip: k_def)
next
  case False
  with assms(2) show ?thesis by (auto simp: expand_word_def expanded_def)
qed

lemma round_constants:
  assumes "n < 7"
  shows "arm_rcon ! n = u32_from_be_bytes (round_constant (Suc n))"
proof -
  have powers: "xtime 1 = 2" "xtime 2 = 4" "xtime 4 = 8" "xtime 8 = 16" "xtime 16 = 32" "xtime 32 = 64"
    by (simp_all add: xtime_def)
  have be: "u32_from_be_bytes [c, 0, 0, 0] = word_of_nat (16777216 * unat c)" for c
    by (simp add: u32_from_be_bytes_def)
  have "n = 0 \<or> n = Suc 0 \<or> n = Suc (Suc 0) \<or> n = Suc (Suc (Suc 0)) \<or> n = Suc (Suc (Suc (Suc 0))) \<or>
      n = Suc (Suc (Suc (Suc (Suc 0)))) \<or> n = Suc (Suc (Suc (Suc (Suc (Suc 0)))))" using assms by linarith
  then show ?thesis
    by (elim disjE) (simp_all add: arm_rcon_def round_constant_def powers be)
qed

lemma expanded_row:
  assumes "length key = 32" "expanded key i w" "8 \<le> i" "i mod 8 = 0" "i < 60"
  shows "expanded key (i + 8) (expand_words i w)"
proof -
  define n where "n = (i - 8) div 8"
  have n: "n < 7" "i div 8 = Suc n" using assms(3,5) by (simp_all add: n_def le_div_geq [of 8 i])
  have "w ! (i - 8) = u32_from_be_bytes (key_word key (i - 8))" "w ! (i - 1) = u32_from_be_bytes (key_word key (i - 1))"
    using assms by (simp_all add: expanded_def)
  then have "w ! (i - 8) XOR arm_rcon ! ((i - 8) div 8) XOR word_rotl 8 (se_word (w ! (i - 1))) =
      u32_from_be_bytes (key_word key i)"
    using assms(3,4) n length_key_word [OF assms(1)] round_constants [OF n(1)]
    by (simp add: key_word.simps [of key i] se_word_from_be from_be_xor from_be_rotate round_constant_def sub_bytes_def
        rot_word_def rotate1_map xor.commute flip: n_def)
  then have "expanded key (i + 1)
      (w[i := w ! (i - 8) XOR arm_rcon ! ((i - 8) div 8) XOR word_rotl 8 (se_word (w ! (i - 1)))])"
    using expanded_update [OF assms(2)] by simp
  moreover have "expanded key (i + n) (fold (expand_word i) [1..<n] v)"
    if "expanded key (i + 1) v" "1 \<le> n" "n \<le> 8" for n v
    using that(2,3)
  proof (induction n)
    case (Suc n)
    show ?case
    proof (cases "n = 0")
      case False
      with Suc expanded_word [OF assms(1) _ assms(3,4), of n] show ?thesis by simp
    qed (use that(1) in simp)
  qed simp
  ultimately show ?thesis unfolding expand_words_def Let_def by simp
qed

lemma expanded_start:
  assumes "length key = 32"
  shows "expanded key 8 (fold (\<lambda>i ek. ek[i := u32_from_be_bytes (take 4 (drop (i * 4) key))]) [0..<8] (replicate 60 0))"
proof -
  have "expanded key n (fold (\<lambda>i ek. ek[i := u32_from_be_bytes (take 4 (drop (i * 4) key))]) [0..<n] (replicate 60 0))"
    if "n \<le> 8" for n
    using that
  proof (induction n)
    case (Suc n)
    then show ?case by (auto simp: key_word.simps [of key n] mult.commute intro!: expanded_update)
  qed (simp add: expanded_def)
  then show ?thesis by simp
qed

lemma expanded_key:
  assumes "length key = 32" "Aes256Aarch64_new key = Ok a"
  obtains w where "arm_ek a = map swap_bytes w" "expanded key 60 w"
proof -
  let ?w0 = "fold (\<lambda>i ek. ek[i := u32_from_be_bytes (take 4 (drop (i * 4) key))]) [0..<8] (replicate 60 0)"
  have "expanded key (8 + 8 * n) (fold expand_words (map (\<lambda>n. 8 + 8 * n) [0..<n]) ?w0)" if "n \<le> 7" for n
    using that
  proof (induction n)
    case (Suc n)
    then show ?case using expanded_row [OF assms(1), of "8 + 8 * n"] by (simp add: algebra_simps)
  qed (use expanded_start [OF assms(1)] in simp)
  from this [of 7] have "expanded key 60 (fold expand_words (map (\<lambda>n. 8 + 8 * n) [0..<7]) ?w0)"
    by (simp add: expanded_def)
  moreover have "arm_ek a = map swap_bytes (fold expand_words (map (\<lambda>n. 8 + 8 * n) [0..<7]) ?w0)"
    using assms by (auto simp: Aes256Aarch64_new_def Let_def)
  ultimately show thesis using that by blast
qed

lemma concat_equal_chunks:
  "(\<And>x. x \<in> set xs \<Longrightarrow> length (f x) = n) \<Longrightarrow> k + m \<le> length xs \<Longrightarrow>
     take (n * m) (drop (n * k) (concat (map f xs))) = concat (map f (take m (drop k xs)))"
proof (induction xs arbitrary: k m)
  case (Cons x xs)
  have len: "length (f x) = n" using Cons.prems(1) by simp
  show ?case
  proof (cases k)
    case (Suc k')
    with Cons len show ?thesis by simp
  next
    case 0
    with Cons.IH [of 0 "m - 1"] Cons.prems len show ?thesis by (cases m) simp_all
  qed
qed simp

lemma arm_round_key_eq:
  assumes "length key = 32" "Aes256Aarch64_new key = Ok a" "r < 15"
  shows "arm_round_key a r = round_key key r"
proof -
  obtain w where w: "arm_ek a = map swap_bytes w" "expanded key 60 w" using expanded_key [OF assms(1,2)] .
  have "map u32_memory (arm_ek a) = map (key_word key) [0..<60]"
    using w length_key_word [OF assms(1)]
    by (intro nth_equalityI) (auto simp: expanded_def memory_from_be)
  then have "arm_round_key a r = take (4 * 4) (drop (4 * (4 * r)) (concat (map (key_word key) [0..<60])))"
    by (simp add: arm_round_key_def)
  also have "\<dots> = concat (map (key_word key) (take 4 (drop (4 * r) [0..<60])))"
    using assms by (intro concat_equal_chunks) (simp_all add: length_key_word)
  also have "take 4 (drop (4 * r) [0..<60]) = [4 * r..<4 * r + 4]" using assms(3) by simp
  finally show ?thesis by (simp add: round_key_def)
qed

section \<open>Encryption is that of the standard\<close>

lemma arm_rounds:
  assumes "length key = 32" "length b = 16"
  shows "xor_bytes (fold (\<lambda>r b. vaesmcq_u8 (vaeseq_u8 b (round_key key r))) [0..<n] b) (round_key key n) =
    fold (\<lambda>r s. xor_bytes (mix_columns (shift_rows (sub_bytes s))) (round_key key r)) [1..<Suc n] (xor_bytes b (round_key key 0))
    \<and> length (fold (\<lambda>r b. vaesmcq_u8 (vaeseq_u8 b (round_key key r))) [0..<n] b) = 16"
proof (induction n)
  case (Suc n)
  then show ?case using assms by (simp add: vaesmcq_u8_def vaeseq_u8_def sub_shift_commute)
qed (use assms in simp)

lemma arm_encrypt_one_eq:
  assumes "length key = 32" "length b = 16" "\<And>r. r < 15 \<Longrightarrow> k r = round_key key r"
  shows "arm_encrypt_one k b = aes256_cipher key b"
proof -
  let ?a = "fold (\<lambda>r b. vaesmcq_u8 (vaeseq_u8 b (round_key key r))) [0..<13] b"
  have "arm_encrypt_one k b = veorq_u8 (vaeseq_u8 (fold (\<lambda>r b. vaesmcq_u8 (vaeseq_u8 b (k r))) [0..<13] b) (k 13)) (k 14)"
    by (simp only: arm_encrypt_one_def Let_def)
  also have "fold (\<lambda>r b. vaesmcq_u8 (vaeseq_u8 b (k r))) [0..<13] b = ?a"
    using assms(3) by (intro fold_cong) auto
  also have "veorq_u8 (vaeseq_u8 ?a (k 13)) (k 14) = xor_bytes (shift_rows (sub_bytes (xor_bytes ?a (round_key key 13)))) (round_key key 14)"
    using conjunct2 [OF arm_rounds [OF assms(1,2), of 13]] assms by (simp add: vaeseq_u8_def veorq_u8_def sub_shift_commute)
  finally show ?thesis
    using arm_rounds [OF assms(1,2), of 13] by (simp add: aes256_cipher_def Let_def)
qed

lemma arm_encrypt_four_eq:
  assumes "length blocks = 64"
  shows "arm_encrypt_four k blocks = concat (map (arm_encrypt_one k) (chunks 16 blocks))"
proof -
  have four: "fold (\<lambda>r (b0, b1, b2, b3). (f r b0, f r b1, f r b2, f r b3)) rs (b0, b1, b2, b3) =
      (fold f rs b0, fold f rs b1, fold f rs b2, fold f rs b3)" for f :: "nat \<Rightarrow> bytes \<Rightarrow> bytes" and rs b0 b1 b2 b3
    by (induction rs arbitrary: b0 b1 b2 b3) simp_all
  have "chunks 16 blocks = [take 16 blocks, take 16 (drop 16 blocks), take 16 (drop 32 blocks), take 16 (drop 48 blocks)]"
    using assms by (subst chunks.simps, subst chunks.simps, subst chunks.simps, subst chunks.simps) auto
  then show ?thesis
    using four [of "\<lambda>r b. vaesmcq_u8 (vaeseq_u8 b (k r))"] by (simp add: arm_encrypt_four_def arm_encrypt_one_def Let_def)
qed

section \<open>Properties\<close>

lemma Aes256Aarch64_new_Ok: "length key = 32 \<Longrightarrow> \<exists>a. Aes256Aarch64_new key = Ok a"
  by (simp add: Aes256Aarch64_new_def Let_def)

lemma Aes256Aarch64_encrypt_eq:
  assumes "length key = 32" "Aes256Aarch64_new key = Ok a"
  shows "Aes256Aarch64_encrypt a buf =
    (if length buf mod 16 \<noteq> 0 then Err InvalidOutputBuffer else Ok (concat (map (aes256_cipher key) (chunks 16 buf))))"
proof (cases "length buf mod 16 = 0")
  case True
  have group: "(if length blocks = 4 * 16 then arm_encrypt_four k blocks else concat (map (arm_encrypt_one k) (chunks 16 blocks))) =
      concat (map (arm_encrypt_one k) (chunks 16 blocks))" for k blocks
    by (simp add: arm_encrypt_four_eq)
  have "concat (map (\<lambda>c. concat (map (arm_encrypt_one (arm_round_key a)) (chunks 16 c))) (chunks (4 * 16) buf)) =
      concat (map (arm_encrypt_one (arm_round_key a)) (chunks 16 buf))"
    by (rule chunks_regroup_concat) simp_all
  also have "map (arm_encrypt_one (arm_round_key a)) (chunks 16 buf) = map (aes256_cipher key) (chunks 16 buf)"
    using arm_round_key_eq [OF assms] chunks_length [of 16 buf] True
    by (intro map_cong refl arm_encrypt_one_eq [OF assms(1)]) auto
  finally show ?thesis using True unfolding Aes256Aarch64_encrypt_def Let_def group by simp
qed (simp add: Aes256Aarch64_encrypt_def)

text \<open>
  C27. The AES-256 of the ARM back end is that of FIPS 197: for every 32-byte key the constructor
  succeeds, and encrypting a buffer whose length is a multiple of 16 replaces each block of 16 bytes by
  its encryption under the standard, whether the block is handled alone or with three others. Other
  lengths of the buffer or of the key are refused.
\<close>

theorem aarch64_aes_is_fips197:
  "rbind (Aes256Aarch64_new key) (\<lambda>a. Aes256Aarch64_encrypt a buf) =
     (if length key \<noteq> 32 then Err InvalidKeySize
      else if length buf mod 16 \<noteq> 0 then Err InvalidOutputBuffer
      else Ok (concat (map (aes256_cipher key) (chunks 16 buf))))"
proof (cases "length key = 32")
  case True
  then obtain a where "Aes256Aarch64_new key = Ok a" using Aes256Aarch64_new_Ok by blast
  with Aes256Aarch64_encrypt_eq [OF True this] True show ?thesis by simp
qed (simp add: Aes256Aarch64_new_def)

end
