(* ===== verification/Polyval.thy ===== *)
theory Polyval
  imports Platform Byte_Order
begin

text \<open>
  Model of \<open>rust/aes-gcm-siv/src/polyval.rs\<close> and of its three back ends: \<open>polyval_clmul.rs\<close> with the
  carry-less multiplication of x86, \<open>polyval_pmul.rs\<close> with that of ARM, and \<open>polyval_soft.rs\<close>,
  which calls the crate \<open>polyval\<close> (a parameter). The vector intrinsics of \<open>core::arch\<close> are
  functions on 128-bit words. The reference is POLYVAL of RFC 8452: every back end computes it.
\<close>

section \<open>POLYVAL of RFC 8452\<close>

text \<open>The modulus \<open>x^128 + x^127 + x^126 + x^121 + 1\<close> and the inverse of \<open>x^128\<close>.\<close>

definition POLY :: nat where
  "POLY = 2 ^ 128 + 2 ^ 127 + 2 ^ 126 + 2 ^ 121 + 1"

definition X_INV_128 :: nat where
  "X_INV_128 = 2 ^ 127 + 2 ^ 124 + 2 ^ 121 + 2 ^ 114 + 1"

text \<open>\<open>poly_mod n v\<close>: remainder of a polynomial of degree below \<open>128 + n\<close>, by long division.\<close>

fun poly_mod :: "nat \<Rightarrow> nat \<Rightarrow> nat" where
  "poly_mod 0 v = v"
| "poly_mod (Suc n) v = poly_mod n (if bit v (128 + n) then v XOR 2 ^ n * POLY else v)"

definition dot :: "nat \<Rightarrow> nat \<Rightarrow> nat" where
  "dot a b = poly_mod 254 (clm (clm a b) X_INV_128)"

definition rfc8452_polyval :: "bytes \<Rightarrow> bytes list \<Rightarrow> bytes" where
  "rfc8452_polyval H Xs = nat_le 16 (fold (\<lambda>X S. dot (S XOR le_nat X) (le_nat H)) Xs 0)"

text \<open>\<open>zero_pad\<close>: right padding with zeros to a multiple of 16 bytes.\<close>

definition zero_pad :: "bytes \<Rightarrow> bytes" where
  "zero_pad bs = bs @ replicate ((16 - length bs mod 16) mod 16) 0"

section \<open>Intrinsics\<close>

type_synonym m128i = "128 word"

definition load128 :: "bytes \<Rightarrow> m128i" where
  "load128 p = word_of_nat (le_nat (take 16 p))"

definition store128 :: "m128i \<Rightarrow> bytes" where
  "store128 x = nat_le 16 (unat x)"

definition lane64 :: "m128i \<Rightarrow> nat \<Rightarrow> u64" where
  "lane64 x i = ucast (drop_bit (64 * i) x)"

text \<open>The carry-less product of two 64-bit words, 127 bits long.\<close>

definition carryless_mul :: "u64 \<Rightarrow> u64 \<Rightarrow> m128i" where
  "carryless_mul a b = word_of_nat (clm (unat a) (unat b))"

definition mm_set_epi32 :: "i32 \<Rightarrow> i32 \<Rightarrow> i32 \<Rightarrow> i32 \<Rightarrow> m128i" where
  "mm_set_epi32 e3 e2 e1 e0 =
     push_bit 96 (ucast e3) OR push_bit 64 (ucast e2) OR push_bit 32 (ucast e1) OR ucast e0"

definition mm_clmulepi64_si128 :: "m128i \<Rightarrow> m128i \<Rightarrow> nat \<Rightarrow> m128i" where
  "mm_clmulepi64_si128 a b imm =
     carryless_mul (lane64 a (if bit imm 0 then 1 else 0)) (lane64 b (if bit imm 4 then 1 else 0))"

definition mm_slli_si128 :: "m128i \<Rightarrow> nat \<Rightarrow> m128i" where
  "mm_slli_si128 a n = push_bit (8 * n) a"

definition mm_srli_si128 :: "m128i \<Rightarrow> nat \<Rightarrow> m128i" where
  "mm_srli_si128 a n = drop_bit (8 * n) a"

definition mm_shuffle_epi32 :: "m128i \<Rightarrow> nat \<Rightarrow> m128i" where
  "mm_shuffle_epi32 a imm =
     (let lane = (\<lambda>i. take_bit 32 (drop_bit (32 * take_bit 2 (drop_bit (2 * i) imm)) a)) in
      lane 0 OR push_bit 32 (lane 1) OR push_bit 64 (lane 2) OR push_bit 96 (lane 3))"

definition vcombine_u64 :: "u64 \<Rightarrow> u64 \<Rightarrow> m128i" where
  "vcombine_u64 low high = ucast low OR push_bit 64 (ucast high)"

text \<open>Bytes \<open>n\<close> to \<open>n + 15\<close> of the concatenation of \<open>a\<close> (low) and \<open>b\<close> (high).\<close>

definition vextq_u8 :: "m128i \<Rightarrow> m128i \<Rightarrow> nat \<Rightarrow> m128i" where
  "vextq_u8 a b n = drop_bit (8 * n) a OR push_bit (128 - 8 * n) b"

section \<open>The back end for x86\<close>

record PolyvalClmul =
  clmul_h :: m128i
  clmul_s :: m128i

definition PolyvalClmul_new :: "bytes \<Rightarrow> PolyvalClmul gresult" where
  "PolyvalClmul_new key =
     (if length key \<noteq> 16 then Err InvalidKeySize
      else Ok \<lparr>clmul_h = load128 key, clmul_s = 0\<rparr>)"

definition PolyvalClmul_process_block :: "bytes \<Rightarrow> PolyvalClmul \<Rightarrow> PolyvalClmul" where
  "PolyvalClmul_process_block chunk self =
     (let poly = mm_set_epi32 (- 0x3e000000) 0 0 0;
          h = clmul_h self;
          input = load128 chunk;
          t = clmul_s self XOR input;
          pm = mm_clmulepi64_si128 t h 0x01 XOR mm_clmulepi64_si128 t h 0x10;
          pl = mm_clmulepi64_si128 t h 0x00;
          ph = mm_clmulepi64_si128 t h 0x11;
          t0 = mm_slli_si128 pm 8 XOR pl;
          t1 = mm_srli_si128 pm 8 XOR ph;
          r0 = mm_shuffle_epi32 t0 0x4E XOR mm_clmulepi64_si128 t0 poly 0x10;
          r1 = mm_shuffle_epi32 r0 0x4E XOR mm_clmulepi64_si128 r0 poly 0x10
      in self\<lparr>clmul_s := t1 XOR r1\<rparr>)"

definition PolyvalClmul_update :: "PolyvalClmul \<Rightarrow> bytes \<Rightarrow> PolyvalClmul gresult" where
  "PolyvalClmul_update self data =
     (if length data mod 16 \<noteq> 0 then Panic
      else Ok (fold PolyvalClmul_process_block (chunks 16 data) self))"

definition PolyvalClmul_update_padded :: "PolyvalClmul \<Rightarrow> bytes \<Rightarrow> PolyvalClmul gresult" where
  "PolyvalClmul_update_padded self data =
     (let full_blocks = length data div 16; remainder = length data mod 16 in
      rbind (slice data 0 (full_blocks * 16)) (\<lambda>full.
      rbind (PolyvalClmul_update self full) (\<lambda>self.
      if remainder > 0 then
        PolyvalClmul_update self (drop (full_blocks * 16) data @ replicate (16 - remainder) 0)
      else Ok self)))"

definition PolyvalClmul_finalize :: "PolyvalClmul \<Rightarrow> bytes gresult" where
  "PolyvalClmul_finalize self = Ok (store128 (clmul_s self))"

section \<open>The back end for ARM\<close>

record PolyvalPmul =
  pmul_h :: m128i
  pmul_s :: m128i

definition swap_halves :: "m128i \<Rightarrow> m128i" where
  "swap_halves x = (let hi = lane64 x 1; lo = lane64 x 0 in vcombine_u64 hi lo)"

definition PolyvalPmul_new :: "bytes \<Rightarrow> PolyvalPmul gresult" where
  "PolyvalPmul_new key =
     (if length key \<noteq> 16 then Err InvalidKeySize
      else Ok \<lparr>pmul_h = load128 key, pmul_s = 0\<rparr>)"

definition PolyvalPmul_process_block :: "bytes \<Rightarrow> PolyvalPmul \<Rightarrow> PolyvalPmul" where
  "PolyvalPmul_process_block chunk self =
     (let poly = 0xc200000000000000;
          h = pmul_h self;
          h0 = lane64 h 0;
          h1 = lane64 h 1;
          input = load128 chunk;
          t = pmul_s self XOR input;
          t0 = lane64 t 0;
          t1 = lane64 t 1;
          pl = carryless_mul t0 h0;
          ph = carryless_mul t1 h1;
          pm = carryless_mul t0 h1 XOR carryless_mul t1 h0;
          t0 = vextq_u8 0 pm 8 XOR pl;
          t1 = vextq_u8 pm 0 8 XOR ph;
          rp0 = carryless_mul (lane64 t0 0) poly;
          r0 = swap_halves t0 XOR rp0;
          rp1 = carryless_mul (lane64 r0 0) poly;
          r1 = swap_halves r0 XOR rp1
      in self\<lparr>pmul_s := t1 XOR r1\<rparr>)"

definition PolyvalPmul_update :: "PolyvalPmul \<Rightarrow> bytes \<Rightarrow> PolyvalPmul gresult" where
  "PolyvalPmul_update self data =
     (if length data mod 16 \<noteq> 0 then Panic
      else Ok (fold PolyvalPmul_process_block (chunks 16 data) self))"

definition PolyvalPmul_update_padded :: "PolyvalPmul \<Rightarrow> bytes \<Rightarrow> PolyvalPmul gresult" where
  "PolyvalPmul_update_padded self data =
     (let full_blocks = length data div 16; remainder = length data mod 16 in
      rbind (slice data 0 (full_blocks * 16)) (\<lambda>full.
      rbind (PolyvalPmul_update self full) (\<lambda>self.
      if remainder > 0 then
        PolyvalPmul_update self (drop (full_blocks * 16) data @ replicate (16 - remainder) 0)
      else Ok self)))"

definition PolyvalPmul_finalize :: "PolyvalPmul \<Rightarrow> bytes gresult" where
  "PolyvalPmul_finalize self = Ok (store128 (pmul_s self))"

section \<open>The software back end\<close>

text \<open>
  The crate \<open>polyval\<close>: a universal hash with state \<open>'u\<close>. \<open>data.into()\<close> makes a reference to an
  array of 16 bytes from the slice and panics for any other length.
\<close>

record 'u universal_hash =
  uh_new :: "bytes \<Rightarrow> 'u"
  uh_update :: "'u \<Rightarrow> bytes \<Rightarrow> 'u"
  uh_update_padded :: "'u \<Rightarrow> bytes \<Rightarrow> 'u"
  uh_finalize :: "'u \<Rightarrow> bytes"

definition PolyvalSoft_new :: "'u universal_hash \<Rightarrow> bytes \<Rightarrow> 'u gresult" where
  "PolyvalSoft_new U key = (if length key \<noteq> 16 then Err InvalidKeySize else Ok (uh_new U key))"

definition PolyvalSoft_update :: "'u universal_hash \<Rightarrow> 'u \<Rightarrow> bytes \<Rightarrow> 'u gresult" where
  "PolyvalSoft_update U self data =
     (if length data mod 16 \<noteq> 0 then Panic
      else if length data \<noteq> 16 then Panic
      else Ok (uh_update U self data))"

definition PolyvalSoft_update_padded :: "'u universal_hash \<Rightarrow> 'u \<Rightarrow> bytes \<Rightarrow> 'u gresult" where
  "PolyvalSoft_update_padded U self data = Ok (uh_update_padded U self data)"

definition PolyvalSoft_finalize :: "'u universal_hash \<Rightarrow> 'u \<Rightarrow> bytes gresult" where
  "PolyvalSoft_finalize U self = Ok (uh_finalize U self)"

section \<open>The dispatch\<close>

datatype 'u Polyval = Polyval_Soft 'u | Polyval_Clmul PolyvalClmul | Polyval_Pmul PolyvalPmul

definition map_result :: "('a \<Rightarrow> 'b) \<Rightarrow> 'a gresult \<Rightarrow> 'b gresult" where
  "map_result f r = rbind r (\<lambda>x. Ok (f x))"

definition Polyval_new :: "platform \<Rightarrow> 'u universal_hash \<Rightarrow> bytes \<Rightarrow> 'u Polyval gresult" where
  "Polyval_new p U key =
     (if length key \<noteq> 16 then Err InvalidKeySize
      else if arch p = Arch_x86 \<and> has_intel_aesni p then map_result Polyval_Clmul (PolyvalClmul_new key)
      else if arch p = Arch_aarch64 \<and> has_armv8_crypto p then map_result Polyval_Pmul (PolyvalPmul_new key)
      else map_result Polyval_Soft (PolyvalSoft_new U key))"

definition Polyval_update :: "'u universal_hash \<Rightarrow> 'u Polyval \<Rightarrow> bytes \<Rightarrow> 'u Polyval gresult" where
  "Polyval_update U self data =
     (if length data mod 16 \<noteq> 0 then Err InvalidInputSize
      else case self of
        Polyval_Soft polyval \<Rightarrow> map_result Polyval_Soft (PolyvalSoft_update U polyval data)
      | Polyval_Clmul polyval \<Rightarrow> map_result Polyval_Clmul (PolyvalClmul_update polyval data)
      | Polyval_Pmul polyval \<Rightarrow> map_result Polyval_Pmul (PolyvalPmul_update polyval data))"

definition Polyval_update_padded :: "'u universal_hash \<Rightarrow> 'u Polyval \<Rightarrow> bytes \<Rightarrow> 'u Polyval gresult" where
  "Polyval_update_padded U self data =
     (case self of
        Polyval_Soft polyval \<Rightarrow> map_result Polyval_Soft (PolyvalSoft_update_padded U polyval data)
      | Polyval_Clmul polyval \<Rightarrow> map_result Polyval_Clmul (PolyvalClmul_update_padded polyval data)
      | Polyval_Pmul polyval \<Rightarrow> map_result Polyval_Pmul (PolyvalPmul_update_padded polyval data))"

definition Polyval_finalize :: "'u universal_hash \<Rightarrow> 'u Polyval \<Rightarrow> bytes gresult" where
  "Polyval_finalize U self =
     (case self of
        Polyval_Soft polyval \<Rightarrow> PolyvalSoft_finalize U polyval
      | Polyval_Clmul polyval \<Rightarrow> PolyvalClmul_finalize polyval
      | Polyval_Pmul polyval \<Rightarrow> PolyvalPmul_finalize polyval)"

section \<open>The reference product\<close>

lemma POLY_facts: "odd POLY" "bit POLY 128" "POLY < 2 ^ Suc 128"
  by (simp_all add: POLY_def bit_0)

lemma clm_numeral [simp]:
  "clm (numeral (Num.Bit0 n)) b = 2 * clm (numeral n) b"
  "clm (numeral (Num.Bit1 n)) b = b XOR 2 * clm (numeral n) b"
  by (simp_all add: clm_step [of "numeral (Num.Bit0 n)"] clm_step [of "numeral (Num.Bit1 n)"])

lemma X_INV_128_inverse: "clm_cong POLY (2 ^ 128 * X_INV_128) 1"
  unfolding clm_cong_def
  by (rule exI [of _ "0xc2000000000000000000000000000001"]) (simp add: POLY_def X_INV_128_def)

lemma less_exp_unset: "v < 2 ^ Suc k \<Longrightarrow> \<not> bit v k \<Longrightarrow> v < (2 ^ k :: nat)"
proof -
  assume v: "v < 2 ^ Suc k" "\<not> bit v k"
  have "take_bit k v = v"
  proof (rule bit_eqI)
    fix n
    have "bit v n \<Longrightarrow> n < Suc k"
      using v(1) by (metis bit_take_bit_iff take_bit_nat_eq_self_iff)
    with v(2) show "bit (take_bit k v) n = bit v n"
      by (auto simp: bit_take_bit_iff less_Suc_eq)
  qed
  then show ?thesis by (simp add: take_bit_nat_eq_self_iff)
qed

lemma poly_mod_cong: "clm_cong POLY (poly_mod n v) v"
proof (induction n arbitrary: v)
  case (Suc n)
  have "clm_cong POLY (v XOR 2 ^ n * POLY) v"
    using clm_cong_multiple [of POLY v "2 ^ n"] clm_power_left [of n 1 POLY] by simp
  with Suc [of v] Suc [of "v XOR 2 ^ n * POLY"] show ?case by (auto intro: clm_cong_trans)
qed simp

lemma poly_mod_less: "v < 2 ^ (128 + n) \<Longrightarrow> poly_mod n v < 2 ^ 128"
proof (induction n arbitrary: v)
  case (Suc n)
  have top: "bit (2 ^ n * POLY) (128 + n)"
    using POLY_facts(2) by (simp add: bit_push_bit_iff mult.commute [of "2 ^ n"] flip: push_bit_eq_mult)
  have "2 ^ n * POLY < 2 ^ n * 2 ^ Suc 128" using POLY_facts(3) by (intro mult_less_mono2) simp_all
  then have small: "2 ^ n * POLY < 2 ^ Suc (128 + n)" by (simp only: power_add power_Suc mult.commute mult.left_commute)
  define w where "w = (if bit v (128 + n) then v XOR 2 ^ n * POLY else v)"
  have "w < 2 ^ Suc (128 + n)" using Suc.prems small by (simp add: w_def xor_less_exp)
  moreover have "\<not> bit w (128 + n)" using top by (simp add: w_def bit_xor_iff)
  ultimately have "w < 2 ^ (128 + n)" by (rule less_exp_unset)
  with Suc.IH [of w] show ?case by (simp add: w_def)
qed simp

lemma dot_spec:
  assumes "a < 2 ^ 128" "b < 2 ^ 128"
  shows "dot a b < 2 ^ 128" "clm_cong POLY (2 ^ 128 * dot a b) (clm a b)"
proof -
  have "clm a b < 2 ^ 255" using clm_less_exp [OF assms] by simp
  moreover have "X_INV_128 < 2 ^ 128" by (simp add: X_INV_128_def)
  ultimately have "clm (clm a b) X_INV_128 < 2 ^ (255 + 128 - 1)" by (rule clm_less_exp)
  then show "dot a b < 2 ^ 128" unfolding dot_def by (intro poly_mod_less) simp
  have "clm_cong POLY (2 ^ 128 * dot a b) (2 ^ 128 * clm (clm a b) X_INV_128)"
    unfolding dot_def by (intro clm_cong_power poly_mod_cong)
  moreover have "clm_cong POLY (clm (clm a b) (2 ^ 128 * X_INV_128)) (clm (clm a b) 1)"
    by (intro clm_cong_clm X_INV_128_inverse)
  ultimately show "clm_cong POLY (2 ^ 128 * dot a b) (clm a b)"
    unfolding clm_power_right by (metis One_nat_def clm_1_right clm_cong_trans)
qed

section \<open>The registers as numbers\<close>

lemma take_bit_unat_128 [simp]: "take_bit 128 (unat (x :: m128i)) = unat x"
proof -
  have "unat x < 2 ^ LENGTH(128)" by (rule unsigned_less)
  then show ?thesis by (simp add: take_bit_nat_eq_self)
qed

lemma unat_lane64:
  "unat (lane64 x 0) = take_bit 64 (unat x)" "unat (lane64 x 1) = drop_bit 64 (unat x)"
proof -
  show "unat (lane64 x 0) = take_bit 64 (unat x)" by (simp add: lane64_def unsigned_ucast_eq)
  have "unat x < 2 ^ 128" by (metis take_bit_nat_less_exp take_bit_unat_128)
  then have "drop_bit 64 (unat x) < 2 ^ 64" by (simp add: drop_bit_eq_div less_mult_imp_div_less)
  then show "unat (lane64 x 1) = drop_bit 64 (unat x)"
    by (simp add: lane64_def unsigned_ucast_eq unsigned_drop_bit_eq take_bit_nat_eq_self)
qed

lemma unat_carryless_mul [simp]: "unat (carryless_mul a b) = clm (unat a) (unat b)"
proof -
  have "clm (unat a) (unat b) < 2 ^ (64 + 64 - 1)"
    using unsigned_less [of a] unsigned_less [of b] by (intro clm_less_exp) simp_all
  then have "clm (unat a) (unat b) < 2 ^ 128" by simp
  then show ?thesis by (simp add: carryless_mul_def unsigned_of_nat take_bit_nat_eq_self)
qed

lemma unat_shift64:
  "unat (push_bit 64 (x :: m128i)) = 2 ^ 64 * take_bit 64 (unat x)" "unat (drop_bit 64 (x :: m128i)) = drop_bit 64 (unat x)"
proof -
  show "unat (drop_bit 64 x) = drop_bit 64 (unat x)"
    by (simp add: unsigned_drop_bit_eq)
  have "unat (push_bit 64 x) = take_bit LENGTH(128) (push_bit 64 (unat x))" by (simp only: unsigned_push_bit_eq)
  also have "\<dots> = push_bit 64 (take_bit 64 (unat x))" unfolding take_bit_push_bit by simp
  finally show "unat (push_bit 64 x) = 2 ^ 64 * take_bit 64 (unat x)" unfolding push_bit_eq_mult mult.commute [of "2 ^ 64"] .
qed

lemma swap_eq: "mm_shuffle_epi32 x 0x4E = drop_bit 64 x XOR push_bit 64 x" "swap_halves x = drop_bit 64 x XOR push_bit 64 x"
proof -
  note shuffle = mm_shuffle_epi32_def bit_or_iff bit_xor_iff bit_push_bit_iff bit_take_bit_iff bit_drop_bit_eq
  show "mm_shuffle_epi32 x 0x4E = drop_bit 64 x XOR push_bit 64 x"
  proof (rule bit_eqI)
    fix n
    assume n: "possible_bit TYPE(128 word) n"
    have out: "\<not> bit x k" if "128 \<le> k" for k using that bit_imp_le_length [of x k] by auto
    consider "n < 32" | "32 \<le> n" "n < 64" | "64 \<le> n" "n < 96" | "96 \<le> n" "n < 128"
      using n by atomize_elim auto
    then show "bit (mm_shuffle_epi32 x 0x4E) n = bit (drop_bit 64 x XOR push_bit 64 x) n"
    proof cases
      case 1
      then show ?thesis by (simp add: shuffle out)
    next
      case 2
      then have "n - 32 < 32" by arith
      with 2 show ?thesis by (simp add: shuffle out)
    next
      case 3
      then have "n - 64 < 32" by arith
      with 3 show ?thesis by (simp add: shuffle out)
    next
      case 4
      then have "32 + (n - 96) = n - 64" "\<not> n - 64 < 32" "n - 96 < 32" by arith+
      with 4 show ?thesis by (simp add: shuffle out)
    qed
  qed
  show "swap_halves x = drop_bit 64 x XOR push_bit 64 x"
    unfolding swap_halves_def vcombine_u64_def lane64_def Let_def
    by (rule bit_eqI) (auto simp: bit_or_iff bit_xor_iff bit_push_bit_iff bit_drop_bit_eq bit_unsigned_iff
        dest: bit_imp_le_length)
qed

section \<open>A block\<close>

text \<open>
  One step of the reduction: the low half of \<open>v\<close>, times the modulus, cancels the low half, and what
  is left is divided by \<open>x ^ 64\<close>.
\<close>

definition fold64 :: "nat \<Rightarrow> nat" where
  "fold64 v = (drop_bit 64 v XOR 2 ^ 64 * take_bit 64 v) XOR clm (take_bit 64 v) 0xc200000000000000"

lemma POLY_split: "POLY = (1 XOR 2 ^ 64 * 0xc200000000000000) XOR 2 ^ 128 * 1"
  by (simp add: POLY_def)

lemma fold64_spec: "2 ^ 64 * fold64 v = v XOR clm (take_bit 64 v) POLY"
proof -
  have "clm (take_bit 64 v) POLY =
      (take_bit 64 v XOR 2 ^ 64 * clm (take_bit 64 v) 0xc200000000000000) XOR 2 ^ 128 * take_bit 64 v"
    unfolding POLY_split clm_xor_right clm_power_right by simp
  moreover have "2 ^ 64 * fold64 v = (2 ^ 64 * drop_bit 64 v XOR 2 ^ 128 * take_bit 64 v) XOR
      2 ^ 64 * clm (take_bit 64 v) 0xc200000000000000"
    unfolding fold64_def xor_power [symmetric] by (simp add: mult.assoc [symmetric])
  moreover have "v = take_bit 64 v XOR 2 ^ 64 * drop_bit 64 v" by (rule split_low)
  ultimately show ?thesis by (metis (no_types, lifting) xor.assoc xor.commute xor_cancel)
qed

lemma fold64_cong: "clm_cong POLY (2 ^ 64 * fold64 v) v"
  unfolding fold64_spec by (rule clm_cong_multiple)

lemma fold64_less:
  assumes "v < 2 ^ 128"
  shows "fold64 v < 2 ^ 128"
proof -
  have "drop_bit 64 v < 2 ^ 128" using assms by (simp add: drop_bit_eq_div)
  moreover have low: "take_bit 64 v < 2 ^ 64" by (rule take_bit_nat_less_exp)
  moreover have "clm (take_bit 64 v) 0xc200000000000000 < 2 ^ (64 + 64 - 1)" by (rule clm_less_exp [OF low]) simp
  ultimately show ?thesis unfolding fold64_def by (intro xor_less_exp) simp_all
qed

text \<open>The 256-bit product of two 128-bit polynomials from four 64-bit products.\<close>

definition product_low :: "nat \<Rightarrow> nat \<Rightarrow> nat" where
  "product_low t h = 2 ^ 64 * take_bit 64 (clm (drop_bit 64 t) (take_bit 64 h) XOR clm (take_bit 64 t) (drop_bit 64 h)) XOR
     clm (take_bit 64 t) (take_bit 64 h)"

definition product_high :: "nat \<Rightarrow> nat \<Rightarrow> nat" where
  "product_high t h = drop_bit 64 (clm (drop_bit 64 t) (take_bit 64 h) XOR clm (take_bit 64 t) (drop_bit 64 h)) XOR
     clm (drop_bit 64 t) (drop_bit 64 h)"

lemma power_64_64: "2 ^ 64 * (2 ^ 64 * a) = 2 ^ 128 * (a :: nat)"
  by simp

lemma product_spec: "clm t h = product_low t h XOR 2 ^ 128 * product_high t h"
proof -
  let ?tl = "take_bit 64 t" and ?th = "drop_bit 64 t" and ?hl = "take_bit 64 h" and ?hh = "drop_bit 64 h"
  let ?pm = "clm ?th ?hl XOR clm ?tl ?hh"
  have "clm t h = clm (?tl XOR 2 ^ 64 * ?th) (?hl XOR 2 ^ 64 * ?hh)"
    using split_low [of t 64] split_low [of h 64] by simp
  also have "\<dots> = (clm ?tl ?hl XOR 2 ^ 64 * ?pm) XOR 2 ^ 128 * clm ?th ?hh"
    by (simp add: clm_xor_left clm_xor_right clm_power_left [of 64, simplified] clm_power_right [of _ 64, simplified]
        xor_power [of 64, simplified, symmetric] xor.assoc xor.left_commute mult.assoc [symmetric])
  also have "2 ^ 64 * ?pm = 2 ^ 64 * take_bit 64 ?pm XOR 2 ^ 128 * drop_bit 64 ?pm"
    by (subst split_low [of ?pm 64]) (simp only: xor_power [symmetric] power_64_64)
  finally show ?thesis unfolding product_low_def product_high_def xor_power [symmetric]
    by (simp only: xor.assoc xor.left_commute xor.commute)
qed

lemma product_less:
  assumes "t < 2 ^ 128" "h < 2 ^ 128"
  shows "product_low t h < 2 ^ 128" "product_high t h < 2 ^ 128"
proof -
  have half: "take_bit 64 v < 2 ^ 64" "v < 2 ^ 128 \<Longrightarrow> drop_bit 64 v < 2 ^ 64" for v :: nat
    by (rule take_bit_nat_less_exp) (simp add: drop_bit_eq_div less_mult_imp_div_less)
  have parts: "clm a b < 2 ^ 128" if "a < 2 ^ 64" "b < 2 ^ 64" for a b
    using clm_less_exp [OF that] by simp
  have mid: "drop_bit 64 v < 2 ^ 128" if "v < 2 ^ 128" for v :: nat
    using that half(2) [OF that] by simp
  have low: "2 ^ 64 * take_bit 64 v < (2 ^ 128 :: nat)" for v using half(1) [of v] by simp
  show "product_low t h < 2 ^ 128" unfolding product_low_def
    by (intro xor_less_exp low parts half)
  show "product_high t h < 2 ^ 128" unfolding product_high_def
    by (intro xor_less_exp mid parts half assms)
qed

lemma montgomery_dot:
  assumes "t < 2 ^ 128" "h < 2 ^ 128"
  shows "product_high t h XOR fold64 (fold64 (product_low t h)) = dot t h"
proof (rule clm_cong_unique [OF POLY_facts])
  let ?l = "product_low t h"
  have "fold64 (fold64 ?l) < 2 ^ 128" using product_less [OF assms] by (intro fold64_less)
  with product_less [OF assms] show "product_high t h XOR fold64 (fold64 ?l) < 2 ^ 128" by (intro xor_less_exp)
  show "dot t h < 2 ^ 128" using assms by (rule dot_spec)
  have "clm_cong POLY (2 ^ 64 * (2 ^ 64 * fold64 (fold64 ?l))) (2 ^ 64 * fold64 ?l)"
    by (intro clm_cong_power fold64_cong)
  from clm_cong_trans [OF this fold64_cong] have "clm_cong POLY (2 ^ 128 * fold64 (fold64 ?l)) ?l"
    unfolding power_64_64 .
  then have "clm_cong POLY (2 ^ 128 * product_high t h XOR 2 ^ 128 * fold64 (fold64 ?l)) (2 ^ 128 * product_high t h XOR ?l)"
    by (intro clm_cong_xor) simp_all
  then have "clm_cong POLY (2 ^ 128 * (product_high t h XOR fold64 (fold64 ?l))) (clm t h)"
    unfolding xor_power product_spec [of t h] by (simp only: xor.commute)
  then show "clm_cong POLY (2 ^ 128 * (product_high t h XOR fold64 (fold64 ?l))) (2 ^ 128 * dot t h)"
    using clm_cong_sym [OF dot_spec(2) [OF assms]] by (rule clm_cong_trans)
qed

lemma unat_load128: "length chunk = 16 \<Longrightarrow> unat (load128 chunk) = le_nat chunk"
  using le_nat_less [of chunk] by (simp add: load128_def unsigned_of_nat take_bit_nat_eq_self)

lemma unat_m128_less: "unat (x :: m128i) < 2 ^ 128"
  by (metis take_bit_nat_less_exp take_bit_unat_128)

text \<open>The same steps on registers; both back ends compute \<open>block_mul\<close>.\<close>

definition fold64_word :: "m128i \<Rightarrow> m128i" where
  "fold64_word v = (drop_bit 64 v XOR push_bit 64 v) XOR carryless_mul (lane64 v 0) 0xc200000000000000"

definition block_mul :: "m128i \<Rightarrow> m128i \<Rightarrow> m128i" where
  "block_mul t h =
     (let pm = carryless_mul (lane64 t 1) (lane64 h 0) XOR carryless_mul (lane64 t 0) (lane64 h 1) in
      (drop_bit 64 pm XOR carryless_mul (lane64 t 1) (lane64 h 1)) XOR
      fold64_word (fold64_word (push_bit 64 pm XOR carryless_mul (lane64 t 0) (lane64 h 0))))"

lemma unat_fold64_word: "unat (fold64_word v) = fold64 (unat v)"
  unfolding fold64_word_def fold64_def unsigned_xor_eq unat_shift64 unat_carryless_mul unat_lane64 by simp

lemma unat_block_mul: "unat (block_mul t h) = dot (unat t) (unat h)"
  unfolding block_mul_def Let_def unsigned_xor_eq unat_shift64 unat_carryless_mul unat_lane64 unat_fold64_word
  using montgomery_dot [OF unat_m128_less [of t] unat_m128_less [of h]]
  unfolding product_low_def product_high_def .

lemma lane_poly: "lane64 (mm_set_epi32 (- 0x3e000000) 0 0 0) 1 = 0xc200000000000000"
  by (simp add: mm_set_epi32_def lane64_def)

lemma process_block_eq:
  "PolyvalClmul_process_block chunk c = c\<lparr>clmul_s := block_mul (clmul_s c XOR load128 chunk) (clmul_h c)\<rparr>"
  "PolyvalPmul_process_block chunk p = p\<lparr>pmul_s := block_mul (pmul_s p XOR load128 chunk) (pmul_h p)\<rparr>"
proof -
  have imm: "\<not> bit (0 :: nat) 4" "bit (1 :: nat) 0" "\<not> bit (1 :: nat) 4" "bit (0x10 :: nat) 4" "\<not> bit (0x10 :: nat) 0"
    "bit (0x11 :: nat) 0" "bit (0x11 :: nat) 4" by (simp_all add: bit_0)
  show "PolyvalClmul_process_block chunk c = c\<lparr>clmul_s := block_mul (clmul_s c XOR load128 chunk) (clmul_h c)\<rparr>"
    unfolding PolyvalClmul_process_block_def Let_def mm_clmulepi64_si128_def mm_slli_si128_def mm_srli_si128_def swap_eq
      block_mul_def fold64_word_def
    using lane_poly imm by simp
  have vext: "vextq_u8 0 x 8 = push_bit 64 x" "vextq_u8 x 0 8 = drop_bit 64 x" for x by (simp_all add: vextq_u8_def)
  show "PolyvalPmul_process_block chunk p = p\<lparr>pmul_s := block_mul (pmul_s p XOR load128 chunk) (pmul_h p)\<rparr>"
    unfolding PolyvalPmul_process_block_def Let_def vext swap_eq block_mul_def fold64_word_def
      xor.commute [of "carryless_mul (lane64 (pmul_s p XOR load128 chunk) 0) (lane64 (pmul_h p) 1)"] ..
qed

section \<open>The contract of a back end\<close>

text \<open>
  \<open>absorbed key Xs p\<close>: the state \<open>p\<close> was made with \<open>key\<close> and has taken in the blocks \<open>Xs\<close>. \<open>ready\<close> is what
  the back end needs of code outside the repository.
\<close>

locale polyval_backend =
  fixes ready :: bool
    and new :: "bytes \<Rightarrow> 'p gresult"
    and upd :: "'p \<Rightarrow> bytes \<Rightarrow> 'p gresult"
    and padded :: "'p \<Rightarrow> bytes \<Rightarrow> 'p gresult"
    and fin :: "'p \<Rightarrow> bytes gresult"
    and absorbed :: "bytes \<Rightarrow> bytes list \<Rightarrow> 'p \<Rightarrow> bool"
  assumes new_law: "ready \<Longrightarrow> length key = 16 \<Longrightarrow> \<exists>p. new key = Ok p \<and> absorbed key [] p"
    and upd_law: "absorbed key Xs p \<Longrightarrow> length X = 16 \<Longrightarrow> \<exists>p'. upd p X = Ok p' \<and> absorbed key (Xs @ [X]) p'"
    and padded_law: "absorbed key Xs p \<Longrightarrow> \<exists>p'. padded p data = Ok p' \<and> absorbed key (Xs @ chunks 16 (zero_pad data)) p'"
    and fin_law: "absorbed key Xs p \<Longrightarrow> fin p = Ok (rfc8452_polyval key Xs)"
begin

lemma hash_three:
  assumes "ready" "length key = 16" "length l = 16"
  shows "rbind (new key) (\<lambda>p. rbind (padded p a) (\<lambda>p. rbind (padded p b) (\<lambda>p. rbind (upd p l) fin))) =
    Ok (rfc8452_polyval key (chunks 16 (zero_pad a) @ chunks 16 (zero_pad b) @ [l]))"
proof -
  obtain p0 where p0: "new key = Ok p0" "absorbed key [] p0" using new_law assms by blast
  obtain p1 where p1: "padded p0 a = Ok p1" "absorbed key (chunks 16 (zero_pad a)) p1"
    using padded_law [OF p0(2), of a] by auto
  obtain p2 where p2: "padded p1 b = Ok p2" "absorbed key (chunks 16 (zero_pad a) @ chunks 16 (zero_pad b)) p2"
    using padded_law [OF p1(2), of b] by auto
  obtain p3 where p3: "upd p2 l = Ok p3"
    "absorbed key (chunks 16 (zero_pad a) @ chunks 16 (zero_pad b) @ [l]) p3"
    using upd_law [OF p2(2) assms(3)] by auto
  show ?thesis using p0(1) p1(1) p2(1) p3(1) fin_law [OF p3(2)] by simp
qed

end

text \<open>The blocks that \<open>update_padded\<close> makes of its data.\<close>

lemma chunks_zero_pad:
  defines "full data \<equiv> length data div 16 * 16"
  shows "chunks 16 (zero_pad data) = chunks 16 (take (full data) data) @
    (if length data mod 16 > 0 then [drop (full data) data @ replicate (16 - length data mod 16) 0] else [])"
proof (cases "length data mod 16 > 0")
  case True
  let ?rest = "drop (full data) data @ replicate (16 - length data mod 16) 0"
  have le: "full data \<le> length data" by (simp add: full_def div_times_less_eq_dividend)
  have len: "length ?rest = 16"
    using True minus_mod_eq_div_mult [of "length data" 16, symmetric] by (simp add: full_def)
  have "zero_pad data = take (full data) data @ ?rest" using True by (simp add: zero_pad_def)
  moreover have "16 dvd length (take (full data) data)" using le by (simp add: full_def)
  moreover have "?rest \<noteq> []" using len by force
  ultimately show ?thesis using True len chunks_short [of ?rest 16] by (simp add: chunks_append)
next
  case False
  then have "full data = length data" by (simp add: full_def) presburger
  with False show ?thesis by (simp add: zero_pad_def)
qed

lemma chunks_16_length: "length data mod 16 = 0 \<Longrightarrow> X \<in> set (chunks 16 data) \<Longrightarrow> length X = 16"
  using chunks_length [of 16 data X] by (simp add: dvd_eq_mod_eq_0)

lemma zero_pad_length: "length (zero_pad data) mod 16 = 0"
proof -
  have "(n + (16 - n mod 16) mod 16) mod 16 = (n mod 16 + (16 - n mod 16)) mod 16" for n :: nat
    by (simp only: mod_add_left_eq mod_add_right_eq)
  moreover have "n mod 16 + (16 - n mod 16) = 16" for n :: nat using mod_less_divisor [of 16 n] by simp
  ultimately have "(n + (16 - n mod 16) mod 16) mod 16 = 0" for n :: nat by simp
  then show ?thesis by (simp add: zero_pad_def)
qed

lemmas zero_pad_chunks_length = chunks_16_length [OF zero_pad_length]

text \<open>A back end that works block by block pads like the reference.\<close>

lemma update_padded_blocks:
  assumes "\<And>p data. upd p data = (if length data mod 16 \<noteq> 0 then Panic else Ok (fold step (chunks 16 data) p))"
  shows "(let full_blocks = length data div 16; remainder = length data mod 16 in
      rbind (slice data 0 (full_blocks * 16)) (\<lambda>full. rbind (upd p full) (\<lambda>p.
      if remainder > 0 then upd p (drop (full_blocks * 16) data @ replicate (16 - remainder) 0) else Ok p))) =
    Ok (fold step (chunks 16 (zero_pad data)) p)"
proof -
  have le: "length data div 16 * 16 \<le> length data" by (rule div_times_less_eq_dividend)
  then have full: "length (take (length data div 16 * 16) data) mod 16 = 0" by simp
  have rest: "length (drop (length data div 16 * 16) data @ replicate (16 - length data mod 16) (0 :: u8)) = 16"
    if "length data mod 16 > 0"
    using that minus_div_mult_eq_mod [of "length data" 16] by simp
  have "chunks 16 (drop (length data div 16 * 16) data @ replicate (16 - length data mod 16) 0) =
      [drop (length data div 16 * 16) data @ replicate (16 - length data mod 16) (0 :: u8)]"
    if "length data mod 16 > 0"
    using rest [OF that] by (intro chunks_short) auto
  with le full rest show ?thesis by (simp add: Let_def assms chunks_zero_pad)
qed

section \<open>The back ends keep the contract\<close>

abbreviation polyval_sum :: "bytes \<Rightarrow> bytes list \<Rightarrow> nat" where
  "polyval_sum key Xs \<equiv> fold (\<lambda>X S. dot (S XOR le_nat X) (le_nat key)) Xs 0"

definition clmul_absorbed :: "bytes \<Rightarrow> bytes list \<Rightarrow> PolyvalClmul \<Rightarrow> bool" where
  "clmul_absorbed key Xs p \<longleftrightarrow> length key = 16 \<and> clmul_h p = load128 key \<and> unat (clmul_s p) = polyval_sum key Xs"

definition pmul_absorbed :: "bytes \<Rightarrow> bytes list \<Rightarrow> PolyvalPmul \<Rightarrow> bool" where
  "pmul_absorbed key Xs p \<longleftrightarrow> length key = 16 \<and> pmul_h p = load128 key \<and> unat (pmul_s p) = polyval_sum key Xs"

text \<open>The documented behaviour of the crate \<open>polyval\<close>: it computes POLYVAL and pads with zeros.\<close>

definition polyval_crate_ok :: "'u universal_hash \<Rightarrow> bool" where
  "polyval_crate_ok U \<longleftrightarrow>
     (\<forall>key Xs. length key = 16 \<and> (\<forall>X\<in>set Xs. length X = 16) \<longrightarrow>
        uh_finalize U (fold (\<lambda>X u. uh_update U u X) Xs (uh_new U key)) = rfc8452_polyval key Xs) \<and>
     (\<forall>u data. uh_update_padded U u data = fold (\<lambda>X u. uh_update U u X) (chunks 16 (zero_pad data)) u)"

definition soft_absorbed :: "'u universal_hash \<Rightarrow> bytes \<Rightarrow> bytes list \<Rightarrow> 'u \<Rightarrow> bool" where
  "soft_absorbed U key Xs p \<longleftrightarrow> polyval_crate_ok U \<and> length key = 16 \<and> (\<forall>X\<in>set Xs. length X = 16) \<and>
     p = fold (\<lambda>X u. uh_update U u X) Xs (uh_new U key)"

lemma absorbed_step:
  "length X = 16 \<Longrightarrow> clmul_absorbed key Xs c \<Longrightarrow> clmul_absorbed key (Xs @ [X]) (PolyvalClmul_process_block X c)"
  "length X = 16 \<Longrightarrow> pmul_absorbed key Xs p \<Longrightarrow> pmul_absorbed key (Xs @ [X]) (PolyvalPmul_process_block X p)"
  by (simp_all add: clmul_absorbed_def pmul_absorbed_def process_block_eq unat_block_mul unsigned_xor_eq unat_load128)

lemma absorbed_fold:
  "\<forall>X\<in>set Ys. length X = 16 \<Longrightarrow> clmul_absorbed key Xs c \<Longrightarrow> clmul_absorbed key (Xs @ Ys) (fold PolyvalClmul_process_block Ys c)"
  "\<forall>X\<in>set Ys. length X = 16 \<Longrightarrow> pmul_absorbed key Xs p \<Longrightarrow> pmul_absorbed key (Xs @ Ys) (fold PolyvalPmul_process_block Ys p)"
proof (induction Ys arbitrary: Xs c p)
  case (Cons Y Ys)
  { case 1 with Cons(1) [of "Xs @ [Y]"] absorbed_step(1) [of Y] show ?case by simp }
  { case 2 with Cons(2) [of "Xs @ [Y]"] absorbed_step(2) [of Y] show ?case by simp }
qed simp_all

interpretation clmul: polyval_backend True PolyvalClmul_new PolyvalClmul_update PolyvalClmul_update_padded
    PolyvalClmul_finalize clmul_absorbed
proof
  fix key Xs p X data
  show "length key = 16 \<Longrightarrow> \<exists>p. PolyvalClmul_new key = Ok p \<and> clmul_absorbed key [] p"
    by (simp add: PolyvalClmul_new_def clmul_absorbed_def)
  assume p: "clmul_absorbed key Xs p"
  show "length X = 16 \<Longrightarrow> \<exists>p'. PolyvalClmul_update p X = Ok p' \<and> clmul_absorbed key (Xs @ [X]) p'"
    using absorbed_step(1) [OF _ p, of X] chunks_single [of X 16] by (auto simp: PolyvalClmul_update_def)
  show "\<exists>p'. PolyvalClmul_update_padded p data = Ok p' \<and> clmul_absorbed key (Xs @ chunks 16 (zero_pad data)) p'"
    using absorbed_fold(1) [OF _ p] zero_pad_chunks_length
    unfolding PolyvalClmul_update_padded_def update_padded_blocks [OF PolyvalClmul_update_def] by blast
  show "PolyvalClmul_finalize p = Ok (rfc8452_polyval key Xs)"
    using p by (simp add: PolyvalClmul_finalize_def store128_def rfc8452_polyval_def clmul_absorbed_def)
qed

interpretation pmul: polyval_backend True PolyvalPmul_new PolyvalPmul_update PolyvalPmul_update_padded
    PolyvalPmul_finalize pmul_absorbed
proof
  fix key Xs p X data
  show "length key = 16 \<Longrightarrow> \<exists>p. PolyvalPmul_new key = Ok p \<and> pmul_absorbed key [] p"
    by (simp add: PolyvalPmul_new_def pmul_absorbed_def)
  assume p: "pmul_absorbed key Xs p"
  show "length X = 16 \<Longrightarrow> \<exists>p'. PolyvalPmul_update p X = Ok p' \<and> pmul_absorbed key (Xs @ [X]) p'"
    using absorbed_step(2) [OF _ p, of X] chunks_single [of X 16] by (auto simp: PolyvalPmul_update_def)
  show "\<exists>p'. PolyvalPmul_update_padded p data = Ok p' \<and> pmul_absorbed key (Xs @ chunks 16 (zero_pad data)) p'"
    using absorbed_fold(2) [OF _ p] zero_pad_chunks_length
    unfolding PolyvalPmul_update_padded_def update_padded_blocks [OF PolyvalPmul_update_def] by blast
  show "PolyvalPmul_finalize p = Ok (rfc8452_polyval key Xs)"
    using p by (simp add: PolyvalPmul_finalize_def store128_def rfc8452_polyval_def pmul_absorbed_def)
qed

interpretation soft: polyval_backend "polyval_crate_ok U" "PolyvalSoft_new U" "PolyvalSoft_update U"
    "PolyvalSoft_update_padded U" "PolyvalSoft_finalize U" "soft_absorbed U" for U :: "'u universal_hash"
  by unfold_locales
     (auto simp: PolyvalSoft_new_def PolyvalSoft_update_def PolyvalSoft_update_padded_def PolyvalSoft_finalize_def
        soft_absorbed_def polyval_crate_ok_def dest: zero_pad_chunks_length)

text \<open>The dispatch keeps the contract of the back end it has chosen.\<close>

definition polyval_absorbed :: "'u universal_hash \<Rightarrow> bytes \<Rightarrow> bytes list \<Rightarrow> 'u Polyval \<Rightarrow> bool" where
  "polyval_absorbed U key Xs p =
     (case p of Polyval_Soft q \<Rightarrow> soft_absorbed U key Xs q | Polyval_Clmul q \<Rightarrow> clmul_absorbed key Xs q
      | Polyval_Pmul q \<Rightarrow> pmul_absorbed key Xs q)"

interpretation polyval: polyval_backend "polyval_crate_ok U" "Polyval_new p U" "Polyval_update U" "Polyval_update_padded U"
    "Polyval_finalize U" "polyval_absorbed U" for U :: "'u universal_hash" and p
proof
  fix key Xs q X data
  show "polyval_crate_ok U \<Longrightarrow> length key = 16 \<Longrightarrow> \<exists>q. Polyval_new p U key = Ok q \<and> polyval_absorbed U key [] q"
    using clmul.new_law [of key] pmul.new_law [of key] soft.new_law [of U key]
    by (auto simp: Polyval_new_def polyval_absorbed_def map_result_def)
  assume q: "polyval_absorbed U key Xs q"
  show "length X = 16 \<Longrightarrow> \<exists>q'. Polyval_update U q X = Ok q' \<and> polyval_absorbed U key (Xs @ [X]) q'"
    using q clmul.upd_law [of key Xs _ X] pmul.upd_law [of key Xs _ X] soft.upd_law [of U key Xs _ X]
    by (cases q) (fastforce simp: Polyval_update_def polyval_absorbed_def map_result_def)+
  show "\<exists>q'. Polyval_update_padded U q data = Ok q' \<and> polyval_absorbed U key (Xs @ chunks 16 (zero_pad data)) q'"
    using q clmul.padded_law [of key Xs _ data] pmul.padded_law [of key Xs _ data] soft.padded_law [of U key Xs _ data]
    by (cases q) (fastforce simp: Polyval_update_padded_def polyval_absorbed_def map_result_def)+
  show "Polyval_finalize U q = Ok (rfc8452_polyval key Xs)"
    using q clmul.fin_law pmul.fin_law soft.fin_law
    by (cases q) (auto simp: Polyval_finalize_def polyval_absorbed_def)
qed

section \<open>Properties\<close>

text \<open>Hashing a list of blocks with the methods of the source, and an instance of the crate.\<close>

fun update_all :: "('p \<Rightarrow> bytes \<Rightarrow> 'p gresult) \<Rightarrow> 'p \<Rightarrow> bytes list \<Rightarrow> 'p gresult" where
  "update_all upd p [] = Ok p"
| "update_all upd p (X # Xs) = rbind (upd p X) (\<lambda>p. update_all upd p Xs)"

definition ref_universal_hash :: "(bytes \<times> bytes list) universal_hash" where
  "ref_universal_hash =
     \<lparr>uh_new = \<lambda>key. (key, []), uh_update = \<lambda>(key, Xs) X. (key, Xs @ [X]),
      uh_update_padded = \<lambda>(key, Xs) data. (key, Xs @ chunks 16 (zero_pad data)),
      uh_finalize = \<lambda>(key, Xs). rfc8452_polyval key Xs\<rparr>"

lemma ref_universal_hash_ok: "polyval_crate_ok ref_universal_hash"
proof -
  have "fold (\<lambda>X u. uh_update ref_universal_hash u X) Ys (key, Xs) = (key, Xs @ Ys)" for Ys key Xs
    by (induction Ys arbitrary: Xs) (simp_all add: ref_universal_hash_def)
  then show ?thesis by (auto simp: polyval_crate_ok_def ref_universal_hash_def)
qed

lemma update_all_absorbed:
  "polyval_absorbed U key Ys q \<Longrightarrow> \<forall>X\<in>set Xs. length X = 16 \<Longrightarrow>
     \<exists>q'. update_all (Polyval_update U) q Xs = Ok q' \<and> polyval_absorbed U key (Ys @ Xs) q'"
proof (induction Xs arbitrary: Ys q)
  case (Cons X Xs)
  obtain q1 where q1: "Polyval_update U q X = Ok q1" "polyval_absorbed U key (Ys @ [X]) q1"
    using polyval.upd_law [OF Cons.prems(1)] Cons.prems(2) by auto
  then show ?case using Cons.IH [OF q1(2)] Cons.prems(2) by simp
qed simp

text \<open>
  C26. On every platform, with carry-less multiplication of x86 or of ARM or in software, the hash of
  any list of 16-byte blocks under any 16-byte key is POLYVAL as RFC 8452 defines it. A key of any other
  length is refused.
\<close>

theorem polyval_is_rfc8452:
  assumes "polyval_crate_ok U" "\<forall>X\<in>set Xs. length X = 16"
  shows "rbind (Polyval_new p U key) (\<lambda>q. rbind (update_all (Polyval_update U) q Xs) (Polyval_finalize U)) =
    (if length key = 16 then Ok (rfc8452_polyval key Xs) else Err InvalidKeySize)"
proof (cases "length key = 16")
  case True
  obtain q where q: "Polyval_new p U key = Ok q" "polyval_absorbed U key [] q"
    using polyval.new_law [OF assms(1) True] by blast
  from update_all_absorbed [OF q(2) assms(2)] q(1) True show ?thesis by (auto simp: polyval.fin_law)
qed (simp add: Polyval_new_def)

theorem polyval_is_rfc8452_witness:
  "rbind (Polyval_new \<lparr>arch = Arch_x86, feature_aes = True, feature_pclmulqdq = True, feature_ssse3 = True, hwcap = 0\<rparr>
       ref_universal_hash (replicate 16 7))
     (\<lambda>q. rbind (update_all (Polyval_update ref_universal_hash) q [replicate 16 1, replicate 16 2]) (Polyval_finalize ref_universal_hash)) =
   Ok (rfc8452_polyval (replicate 16 7) [replicate 16 1, replicate 16 2])"
  using polyval_is_rfc8452 [OF ref_universal_hash_ok, of "[replicate 16 1, replicate 16 2]" _ "replicate 16 7"]
  by (simp del: update_all.simps)

text \<open>
  The back ends differ on inputs of several blocks: \<open>update\<close> takes them with the hardware back ends
  and panics in software, although the length passes the check of \<open>Polyval::update\<close>.
\<close>

lemma soft_update_panics:
  assumes "length data mod 16 = 0" "length data \<noteq> 16"
  shows "Polyval_update U (Polyval_Soft u) data = Panic"
    and "Polyval_update U (Polyval_Clmul c) data = Ok (Polyval_Clmul (fold PolyvalClmul_process_block (chunks 16 data) c))"
  using assms
  by (simp_all add: Polyval_update_def map_result_def PolyvalSoft_update_def PolyvalClmul_update_def)

end
