(* ===== verification/Aes_Dispatch.thy ===== *)
theory Aes_Dispatch
  imports Aes_Arm Polyval
begin

text \<open>
  Model of \<open>rust/aes-gcm-siv/src/aes.rs\<close>: AES-256 with the back end chosen at run time. The crates
  \<open>aes-soft\<close> and \<open>aesni\<close> are parameters: a key schedule of some type, the encryption of one block and
  of \<open>ParBlocks\<close> blocks together.
\<close>

record 'k block_cipher =
  bc_new :: "bytes \<Rightarrow> 'k"
  bc_par_blocks :: nat
  bc_encrypt_block :: "'k \<Rightarrow> bytes \<Rightarrow> bytes"
  bc_encrypt_blocks :: "'k \<Rightarrow> bytes list \<Rightarrow> bytes list"

text \<open>The machine and the crates that the program is linked with.\<close>

record ('s, 'n, 'u) crates =
  machine :: platform
  aes_soft :: "'s block_cipher"
  aesni :: "'n block_cipher"
  polyval_crate :: "'u universal_hash"

datatype ('s, 'n) Aes256 = Aes_Soft 's | Aes_AesNi 'n | Aes_Aarch64 Aes256Aarch64

definition Aes256_new :: "('s, 'n, 'u) crates \<Rightarrow> bytes \<Rightarrow> ('s, 'n) Aes256 gresult" where
  "Aes256_new X key =
     (if length key \<noteq> 32 then Err InvalidKeySize
      else if arch (machine X) = Arch_aarch64 \<and> has_armv8_crypto (machine X)
      then map_result Aes_Aarch64 (Aes256Aarch64_new key)
      else if arch (machine X) = Arch_x86 \<and> has_intel_aesni (machine X)
      then Ok (Aes_AesNi (bc_new (aesni X) key))
      else Ok (Aes_Soft (bc_new (aes_soft X) key)))"

text \<open>\<open>chunks_mut(0)\<close> panics.\<close>

definition trait_encrypt :: "'k block_cipher \<Rightarrow> 'k \<Rightarrow> bytes \<Rightarrow> bytes gresult" where
  "trait_encrypt B aes buf =
     (let pb = bc_par_blocks B; unroll_to = pb * 16 in
      if unroll_to = 0 then Panic
      else Ok (concat (map (\<lambda>blocks.
             if length blocks = unroll_to then
               let pbuf = map (\<lambda>j. take 16 (drop (16 * j) blocks)) [0..<pb]
               in concat (bc_encrypt_blocks B aes pbuf)
             else concat (map (bc_encrypt_block B aes) (chunks 16 blocks)))
           (chunks unroll_to buf))))"

definition Aes256_encrypt :: "('s, 'n, 'u) crates \<Rightarrow> ('s, 'n) Aes256 \<Rightarrow> bytes \<Rightarrow> bytes gresult" where
  "Aes256_encrypt X self buf =
     (if length buf mod 16 \<noteq> 0 then Err InvalidOutputBuffer
      else case self of
        Aes_Soft aes \<Rightarrow> trait_encrypt (aes_soft X) aes buf
      | Aes_AesNi aes \<Rightarrow> trait_encrypt (aesni X) aes buf
      | Aes_Aarch64 aes \<Rightarrow> Aes256Aarch64_encrypt aes buf)"

section \<open>Every back end is AES-256\<close>

text \<open>The documented behaviour of the crates.\<close>

definition aes_crate_ok :: "'k block_cipher \<Rightarrow> bool" where
  "aes_crate_ok B \<longleftrightarrow> bc_par_blocks B > 0 \<and>
     (\<forall>key block. length key = 32 \<and> length block = 16 \<longrightarrow> bc_encrypt_block B (bc_new B key) block = aes256_cipher key block) \<and>
     (\<forall>k blocks. length blocks = bc_par_blocks B \<longrightarrow> bc_encrypt_blocks B k blocks = map (bc_encrypt_block B k) blocks)"

definition crates_ok :: "('s, 'n, 'u) crates \<Rightarrow> bool" where
  "crates_ok X \<longleftrightarrow> aes_crate_ok (aes_soft X) \<and> aes_crate_ok (aesni X) \<and> polyval_crate_ok (polyval_crate X)"

abbreviation aes_blocks :: "bytes \<Rightarrow> bytes \<Rightarrow> bytes" where
  "aes_blocks key buf \<equiv> concat (map (aes256_cipher key) (chunks 16 buf))"

text \<open>\<open>encrypts X key a\<close>: the cipher \<open>a\<close> is AES-256 under \<open>key\<close>.\<close>

definition encrypts :: "('s, 'n, 'u) crates \<Rightarrow> bytes \<Rightarrow> ('s, 'n) Aes256 \<Rightarrow> bool" where
  "encrypts X key a \<longleftrightarrow> length key = 32 \<and>
     (\<forall>buf. Aes256_encrypt X a buf = (if length buf mod 16 \<noteq> 0 then Err InvalidOutputBuffer else Ok (aes_blocks key buf)))"

lemma encrypts_block: "encrypts X key a \<Longrightarrow> length b = 16 \<Longrightarrow> Aes256_encrypt X a b = Ok (aes256_cipher key b)"
  by (simp add: encrypts_def chunks_single)

lemma chunks_nth: "length xs = k * n \<Longrightarrow> n > 0 \<Longrightarrow> map (\<lambda>j. take n (drop (n * j) xs)) [0..<k] = chunks n xs"
proof (induction k arbitrary: xs)
  case (Suc k)
  have "map (\<lambda>j. take n (drop (n * j) xs)) [0..<Suc k] = take n xs # map (\<lambda>j. take n (drop (n * j) (drop n xs))) [0..<k]"
    by (simp add: map_upt_Suc add.commute del: upt_Suc)
  also have "\<dots> = take n xs # chunks n (drop n xs)" using Suc.IH [of "drop n xs"] Suc.prems by simp
  finally show ?case using Suc.prems by (auto simp: chunks.simps [of n xs])
qed simp

lemma trait_encrypt_eq:
  assumes "aes_crate_ok B" "length key = 32" "length buf mod 16 = 0"
  shows "trait_encrypt B (bc_new B key) buf = Ok (aes_blocks key buf)"
proof -
  let ?pb = "bc_par_blocks B" and ?f = "bc_encrypt_block B (bc_new B key)"
  have pb: "?pb > 0" using assms(1) by (simp add: aes_crate_ok_def)
  have group: "(if length blocks = ?pb * 16 then concat (bc_encrypt_blocks B (bc_new B key)
      (map (\<lambda>j. take 16 (drop (16 * j) blocks)) [0..<?pb])) else concat (map ?f (chunks 16 blocks))) =
      concat (map ?f (chunks 16 blocks))" for blocks
  proof (cases "length blocks = ?pb * 16")
    case True
    then have cs: "map (\<lambda>j. take 16 (drop (16 * j) blocks)) [0..<?pb] = chunks 16 blocks" by (intro chunks_nth) simp_all
    from arg_cong [OF cs, of length] have "length (chunks 16 blocks) = ?pb" by simp
    then have "bc_encrypt_blocks B (bc_new B key) (chunks 16 blocks) = map ?f (chunks 16 blocks)"
      using assms(1) unfolding aes_crate_ok_def by blast
    with True cs show ?thesis by (simp only: simp_thms if_True)
  qed (simp only: simp_thms if_False)
  have "concat (map (\<lambda>c. concat (map ?f (chunks 16 c))) (chunks (?pb * 16) buf)) = concat (map ?f (chunks 16 buf))"
    using pb by (intro chunks_regroup_concat) simp_all
  also have "map ?f (chunks 16 buf) = map (aes256_cipher key) (chunks 16 buf)"
  proof (rule map_cong [OF refl])
    fix block assume "block \<in> set (chunks 16 buf)"
    then have "length block = 16" by (rule chunks_16_length [OF assms(3)])
    with assms(1,2) show "?f block = aes256_cipher key block" unfolding aes_crate_ok_def by blast
  qed
  finally show ?thesis using pb unfolding trait_encrypt_def Let_def group by simp
qed

lemma Aes256_is_aes:
  assumes "crates_ok X" "length key = 32"
  obtains a where "Aes256_new X key = Ok a" "encrypts X key a"
proof -
  consider (arm) "arch (machine X) = Arch_aarch64" "has_armv8_crypto (machine X)"
    | (ni) "arch (machine X) = Arch_x86" "has_intel_aesni (machine X)"
    | (soft) "\<not> (arch (machine X) = Arch_aarch64 \<and> has_armv8_crypto (machine X))"
        "\<not> (arch (machine X) = Arch_x86 \<and> has_intel_aesni (machine X))" by blast
  then show thesis
  proof cases
    case arm
    obtain a where a: "Aes256Aarch64_new key = Ok a" using Aes256Aarch64_new_Ok [OF assms(2)] by blast
    with arm assms(2) Aes256Aarch64_encrypt_eq [OF assms(2) a] show ?thesis
      by (intro that [of "Aes_Aarch64 a"]) (simp_all add: Aes256_new_def Aes256_encrypt_def map_result_def encrypts_def)
  next
    case ni
    with assms show ?thesis
      by (intro that [of "Aes_AesNi (bc_new (aesni X) key)"])
         (simp_all add: Aes256_new_def Aes256_encrypt_def crates_ok_def trait_encrypt_eq encrypts_def)
  next
    case soft
    with assms show ?thesis
      by (intro that [of "Aes_Soft (bc_new (aes_soft X) key)"])
         (auto simp: Aes256_new_def Aes256_encrypt_def crates_ok_def trait_encrypt_eq encrypts_def)
  qed
qed

text \<open>An instance of the crates, for any machine.\<close>

definition ref_block_cipher :: "bytes block_cipher" where
  "ref_block_cipher =
     \<lparr>bc_new = \<lambda>key. key, bc_par_blocks = 8, bc_encrypt_block = aes256_cipher,
      bc_encrypt_blocks = \<lambda>key. map (aes256_cipher key)\<rparr>"

definition ref_crates :: "platform \<Rightarrow> (bytes, bytes, bytes \<times> bytes list) crates" where
  "ref_crates p = \<lparr>machine = p, aes_soft = ref_block_cipher, aesni = ref_block_cipher, polyval_crate = ref_universal_hash\<rparr>"

lemma ref_crates_ok: "crates_ok (ref_crates p)"
  by (simp add: crates_ok_def ref_crates_def aes_crate_ok_def ref_block_cipher_def ref_universal_hash_ok)

definition ref_arm :: platform where
  "ref_arm = \<lparr>arch = Arch_aarch64, feature_aes = False, feature_pclmulqdq = False, feature_ssse3 = False, hwcap = 26\<rparr>"

definition ref_x86 :: platform where
  "ref_x86 = \<lparr>arch = Arch_x86, feature_aes = True, feature_pclmulqdq = True, feature_ssse3 = True, hwcap = 0\<rparr>"

end
