(* ===== verification/Aes_Gcm_Siv.thy ===== *)
theory Aes_Gcm_Siv
  imports Aes_Dispatch
begin

text \<open>
  Model of \<open>rust/aes-gcm-siv/src/aes_gcm_siv.rs\<close>. The buffer is encrypted and decrypted in place: it
  is the state of the operations, and keeps what was done to it also when they fail. The reference is
  AES-256-GCM-SIV of RFC 8452.
\<close>

section \<open>The algorithm of RFC 8452\<close>

definition rfc8452_derive :: "bytes \<Rightarrow> bytes \<Rightarrow> bytes \<times> bytes" where
  "rfc8452_derive key nonce =
     (let part = (\<lambda>i. take 8 (aes256_cipher key (nat_le 4 i @ nonce))) in
      (part 0 @ part 1, part 2 @ part 3 @ part 4 @ part 5))"

definition next_block :: "bytes \<Rightarrow> bytes" where
  "next_block block = nat_le 4 ((le_nat (take 4 block) + 1) mod 2 ^ 32) @ drop 4 block"

function rfc8452_ctr :: "bytes \<Rightarrow> bytes \<Rightarrow> bytes \<Rightarrow> bytes" where
  "rfc8452_ctr key block inp =
     (if inp = [] then []
      else xor_bytes (take 16 inp) (aes256_cipher key block) @ rfc8452_ctr key (next_block block) (drop 16 inp))"
  by pat_completeness auto

termination rfc8452_ctr
  by (relation "measure (\<lambda>(key, block, inp). length inp)") (auto simp: neq_Nil_conv)

declare rfc8452_ctr.simps [simp del]

definition rfc8452_tag :: "bytes \<Rightarrow> bytes \<Rightarrow> bytes \<Rightarrow> bytes \<Rightarrow> bytes \<Rightarrow> bytes" where
  "rfc8452_tag auth_key enc_key nonce plaintext aad =
     (let length_block = nat_le 8 (8 * length aad) @ nat_le 8 (8 * length plaintext);
          S = rfc8452_polyval auth_key (chunks 16 (zero_pad aad @ zero_pad plaintext @ length_block));
          S = xor_bytes (take 12 S) nonce @ drop 12 S;
          S = S[15 := S ! 15 AND 0x7f]
      in aes256_cipher enc_key S)"

definition rfc8452_counter :: "bytes \<Rightarrow> bytes" where
  "rfc8452_counter tag = tag[15 := tag ! 15 OR 0x80]"

definition rfc8452_encrypt :: "bytes \<Rightarrow> bytes \<Rightarrow> bytes \<Rightarrow> bytes \<Rightarrow> bytes \<times> bytes" where
  "rfc8452_encrypt key nonce plaintext aad =
     (let (auth_key, enc_key) = rfc8452_derive key nonce;
          tag = rfc8452_tag auth_key enc_key nonce plaintext aad
      in (rfc8452_ctr enc_key (rfc8452_counter tag) plaintext, tag))"

section \<open>The code\<close>

definition NONCE_SIZE :: nat where "NONCE_SIZE = 12"
definition TAG_SIZE :: nat where "TAG_SIZE = 16"
definition AAD_MAX :: nat where "AAD_MAX = 2 ^ 36"
definition PTEXT_MAX :: nat where "PTEXT_MAX = 2 ^ 36"

text \<open>\<open>buf[off..off + src.len()].copy_from_slice(src)\<close>, in range.\<close>

definition write_at :: "bytes \<Rightarrow> nat \<Rightarrow> bytes \<Rightarrow> bytes" where
  "write_at buf off src = take off buf @ src @ drop (off + length src) buf"

record ('s, 'n) Aes256GcmSiv =
  key_generator :: "('s, 'n) Aes256"

definition Aes256GcmSiv_new :: "('s, 'n, 'u) crates \<Rightarrow> bytes \<Rightarrow> ('s, 'n) Aes256GcmSiv gresult" where
  "Aes256GcmSiv_new X key = rbind (Aes256_new X key) (\<lambda>a. Ok \<lparr>key_generator = a\<rparr>)"

definition gcm_derive_keys :: "('s, 'n, 'u) crates \<Rightarrow> ('s, 'n) Aes256GcmSiv \<Rightarrow> bytes \<Rightarrow> (bytes \<times> bytes) gresult" where
  "gcm_derive_keys X self nonce =
     (if length nonce \<noteq> NONCE_SIZE then Err InvalidNonceSize
      else
        let pad = replicate (16 * 8) 0;
            pad = fold (\<lambda>i pad. write_at (write_at pad (i * 16) (nat_le 4 i)) (i * 16 + 4) nonce) [0..<6] pad in
        rbind (Aes256_encrypt X (key_generator self) pad) (\<lambda>pad.
        let polyval_key = fold (\<lambda>i k. write_at k (8 * i) (take 8 (drop (16 * i) pad))) [0..<2] (replicate 16 0);
            aes_key = fold (\<lambda>i k. write_at k (8 * i) (take 8 (drop (32 + 16 * i) pad))) [0..<4] (replicate 32 0)
        in Ok (aes_key, polyval_key)))"

definition compute_tag ::
    "('s, 'n, 'u) crates \<Rightarrow> bytes \<Rightarrow> bytes \<Rightarrow> bytes \<Rightarrow> bytes \<Rightarrow> ('s, 'n) Aes256 \<Rightarrow> bytes gresult" where
  "compute_tag X buffer associated_data nonce polyval_key aes256 =
     (let associated_data_bits = (word_of_nat (length associated_data) :: u64) * 8;
          buffer_bits = (word_of_nat (length buffer) :: u64) * 8;
          length_block = nat_le 8 (unat associated_data_bits) @ nat_le 8 (unat buffer_bits);
          U = polyval_crate X in
      rbind (Polyval_new (machine X) U polyval_key) (\<lambda>polyval.
      rbind (Polyval_update_padded U polyval associated_data) (\<lambda>polyval.
      rbind (Polyval_update_padded U polyval buffer) (\<lambda>polyval.
      rbind (Polyval_update U polyval length_block) (\<lambda>polyval.
      rbind (Polyval_finalize U polyval) (\<lambda>tag.
      if length nonce < 12 then Panic
      else
        let tag = fold (\<lambda>i tag. tag[i := tag ! i XOR nonce ! i]) [0..<12] tag;
            tag = tag[15 := tag ! 15 AND 0x7f]
        in Aes256_encrypt X aes256 tag))))))"

text \<open>The body of \<open>for b in 0..PAR_BLOCKS\<close>; the array \<open>ctr\<close> and the counter live across the pads.\<close>

definition ctr_write :: "bytes \<Rightarrow> nat \<Rightarrow> bytes \<times> u32 \<Rightarrow> bytes \<times> u32" where
  "ctr_write nonce b = (\<lambda>(ctr, counter).
     let ctr = write_at ctr (16 * b) (nat_le 4 (unat counter));
         ctr = write_at ctr (16 * b + 4) (drop 4 nonce);
         ctr = ctr[16 * b + 15 := ctr ! (16 * b + 15) OR 0x80]
     in (ctr, counter + 1))"

fun ctr_pads :: "('s, 'n, 'u) crates \<Rightarrow> ('s, 'n) Aes256 \<Rightarrow> bytes \<Rightarrow> nat list \<Rightarrow> bytes \<times> u32 \<Rightarrow> (bytes, unit) gst" where
  "ctr_pads X aes256 nonce [] state buffer = (Ok (), buffer)"
| "ctr_pads X aes256 nonce (i # is) state buffer =
     (let (ctr, counter) = fold (ctr_write nonce) [0..<8] state in
      case Aes256_encrypt X aes256 ctr of
        Ok pad \<Rightarrow>
          let to_xor = min 128 (length buffer - i * 128) in
          ctr_pads X aes256 nonce is (ctr, counter)
            (fold (\<lambda>j buffer. buffer[i * 128 + j := buffer ! (i * 128 + j) XOR pad ! j]) [0..<to_xor] buffer)
      | Err e \<Rightarrow> (Err e, buffer)
      | Panic \<Rightarrow> (Panic, buffer))"

text \<open>\<open>nonce[..4]\<close> and the copy of \<open>nonce[4..]\<close> into 12 bytes panic unless \<open>nonce\<close> has 16 bytes.\<close>

definition ctr32 :: "('s, 'n, 'u) crates \<Rightarrow> bytes \<Rightarrow> ('s, 'n) Aes256 \<Rightarrow> (bytes, unit) gst" where
  "ctr32 X nonce aes256 = (\<lambda>buffer.
     if length nonce \<noteq> 16 then (Panic, buffer)
     else
       let counter = word_of_nat (le_nat (take 4 nonce));
           pads_required = (length buffer + 128) div 128
       in ctr_pads X aes256 nonce [0..<pads_required] (replicate 128 0, counter) buffer)"

definition gcm_siv_encrypt ::
    "('s, 'n, 'u) crates \<Rightarrow> ('s, 'n) Aes256GcmSiv \<Rightarrow> bytes \<Rightarrow> bytes \<Rightarrow> (bytes, bytes) gst" where
  "gcm_siv_encrypt X self nonce associated_data = (\<lambda>buffer.
     if length buffer > PTEXT_MAX \<or> length associated_data > AAD_MAX then (Err InvalidInputSize, buffer)
     else
       sbind (slift (gcm_derive_keys X self nonce)) (\<lambda>keys.
       sbind (slift (Aes256_new X (fst keys))) (\<lambda>aes256.
       sbind (slift (compute_tag X buffer associated_data nonce (snd keys) aes256)) (\<lambda>tag.
       sbind (ctr32 X tag aes256) (\<lambda>_.
       sret tag)))) buffer)"

definition gcm_siv_decrypt ::
    "('s, 'n, 'u) crates \<Rightarrow> ('s, 'n) Aes256GcmSiv \<Rightarrow> bytes \<Rightarrow> bytes \<Rightarrow> bytes \<Rightarrow> (bytes, unit) gst" where
  "gcm_siv_decrypt X self nonce associated_data tag = (\<lambda>buffer.
     if length nonce \<noteq> NONCE_SIZE then (Err InvalidNonceSize, buffer)
     else if length tag \<noteq> TAG_SIZE then (Err InvalidTag, buffer)
     else if length buffer > PTEXT_MAX \<or> length associated_data > AAD_MAX then (Err InvalidInputSize, buffer)
     else
       sbind (slift (gcm_derive_keys X self nonce)) (\<lambda>keys.
       sbind (slift (Aes256_new X (fst keys))) (\<lambda>aes256.
       sbind (ctr32 X tag aes256) (\<lambda>_. \<lambda>buffer.
       sbind (slift (compute_tag X buffer associated_data nonce (snd keys) aes256)) (\<lambda>gtag. \<lambda>buffer.
         let tag_ok = ct_eq tag gtag in
         if \<not> tag_ok then (Err InvalidTag, map (\<lambda>_. 0) buffer)
         else (Ok (), buffer)) buffer))) buffer)"

section \<open>Writing into arrays\<close>

lemma write_at_end: "length a = off \<Longrightarrow> write_at (a @ b) off src = a @ src @ drop (length src) b"
  by (simp add: write_at_def)

lemma write_at_twice:
  assumes "off2 = off + length s" "off \<le> length buf"
  shows "write_at (write_at buf off s) off2 t = write_at buf off (s @ t)"
  using assms by (simp add: write_at_def add.commute add.left_commute)

lemma length_concat_upt: "(\<And>i. i < n \<Longrightarrow> length (f i) = c) \<Longrightarrow> length (concat (map f [0..<n])) = c * n"
  by (induction n) simp_all

lemma write_all:
  assumes "\<And>i. i < n \<Longrightarrow> length (f i) = c" "n \<le> m"
  shows "fold (\<lambda>i k. write_at k (c * i) (f i)) [0..<n] (replicate (c * m) 0) = concat (map f [0..<n]) @ replicate (c * (m - n)) 0"
  using assms
proof (induction n)
  case (Suc n)
  have "length (concat (map f [0..<n])) = c * n" using Suc.prems(1) by (intro length_concat_upt) simp
  with Suc show ?case by (simp add: write_at_end diff_mult_distrib2 algebra_simps)
qed simp

lemma fold_xor_at:
  assumes "off + n \<le> length buf" "n \<le> length pad"
  shows "fold (\<lambda>j b. b[off + j := b ! (off + j) XOR pad ! j]) [0..<n] buf =
    take off buf @ xor_bytes (take n (drop off buf)) pad @ drop (off + n) buf"
proof -
  have "length (fold (\<lambda>j b. b[off + j := b ! (off + j) XOR pad ! j]) [0..<n] buf) = length buf \<and>
      (\<forall>k<length buf. fold (\<lambda>j b. b[off + j := b ! (off + j) XOR pad ! j]) [0..<n] buf ! k =
         (if off \<le> k \<and> k < off + n then buf ! k XOR pad ! (k - off) else buf ! k))"
    using assms
  proof (induction n)
    case (Suc n)
    then show ?case by (auto simp: nth_list_update)
  qed auto
  moreover have "(take off buf @ xor_bytes (take n (drop off buf)) pad @ drop (off + n) buf) ! k =
      (if off \<le> k \<and> k < off + n then buf ! k XOR pad ! (k - off) else buf ! k)" if "k < length buf" for k
    using that assms by (auto simp: nth_append nth_xor_bytes)
  ultimately show ?thesis using assms by (intro nth_equalityI) auto
qed

lemma chunks_concat:
  assumes "\<And>x. x \<in> set xs \<Longrightarrow> length x = 16"
  shows "chunks 16 (concat xs @ ys) = xs @ chunks 16 ys"
  using assms by (induction xs) (simp_all add: chunks_append_exact)

section \<open>Key derivation\<close>

lemma fold_cong_eq: "(\<And>x a. x \<in> set xs \<Longrightarrow> P a \<Longrightarrow> f x a = g x a \<and> P (g x a)) \<Longrightarrow> P a \<Longrightarrow> fold f xs a = fold g xs a"
  by (induction xs arbitrary: a) auto

lemma derive_pad:
  assumes "length nonce = 12"
  shows "fold (\<lambda>i pad. write_at (write_at pad (i * 16) (nat_le 4 i)) (i * 16 + 4) nonce) [0..<6] (replicate (16 * 8) 0) =
    concat (map (\<lambda>i. nat_le 4 i @ nonce) [0..<6]) @ replicate 32 0"
proof -
  have len: "length (write_at pad (16 * i) (nat_le 4 i @ nonce)) = 128" if "length pad = 128" "i < 6" for pad i
    using that assms by (simp add: write_at_def)
  have "fold (\<lambda>i pad. write_at (write_at pad (i * 16) (nat_le 4 i)) (i * 16 + 4) nonce) [0..<6] (replicate (16 * 8) 0) =
      fold (\<lambda>i pad. write_at pad (16 * i) (nat_le 4 i @ nonce)) [0..<6] (replicate (16 * 8) 0)"
    by (rule fold_cong_eq [where P = "\<lambda>pad. length pad = 128"]) (auto simp: len write_at_twice mult.commute [of _ 16])
  also have "\<dots> = concat (map (\<lambda>i. nat_le 4 i @ nonce) [0..<6]) @ replicate (16 * (8 - 6)) 0"
    using assms by (intro write_all) simp_all
  finally show ?thesis by simp
qed

lemma gcm_derive_keys_eq:
  assumes "length key = 32" "encrypts X key (key_generator g)"
  shows "gcm_derive_keys X g nonce =
    (if length nonce = 12 then Ok (snd (rfc8452_derive key nonce), fst (rfc8452_derive key nonce)) else Err InvalidNonceSize)"
proof (cases "length nonce = 12")
  case True
  let ?blocks = "map (\<lambda>i. nat_le 4 i @ nonce) [0..<6]"
  let ?pad = "concat ?blocks @ replicate 32 0" and ?zero = "replicate 16 (0 :: u8)"
  let ?f = "\<lambda>i. aes256_cipher key (nat_le 4 i @ nonce)"
  have "replicate 32 (0 :: u8) = concat [?zero, ?zero]" by (simp flip: replicate_add)
  then have "chunks 16 ?pad = ?blocks @ [?zero, ?zero]"
    using chunks_concat [of ?blocks "replicate 32 0"] chunks_concat [of "[?zero, ?zero]" "[]"] True by fastforce
  then have enc: "aes_blocks key ?pad = concat (map ?f [0..<6]) @ aes256_cipher key ?zero @ aes256_cipher key ?zero"
    by (simp add: comp_def)
  have part: "take 8 (drop (16 * i) (concat (map ?f [0..<6]) @ rest)) = take 8 (?f i)" if "i < 6" for i rest
  proof -
    have "take (16 * 1) (drop (16 * i) (concat (map ?f [0..<6]))) = ?f i"
      using concat_equal_chunks [of "[0..<6]" ?f 16 i 1] assms(1) that by (simp add: take_Suc_conv_app_nth)
    moreover have "length (concat (map ?f [0..<6])) = 96" using assms(1) by (subst length_concat_upt [of _ _ 16]) simp_all
    ultimately have "take 16 (drop (16 * i) (concat (map ?f [0..<6]) @ rest)) = ?f i" using that by simp
    moreover have "take 8 (take 16 z) = take 8 z" for z :: bytes by simp
    ultimately show ?thesis by metis
  qed
  define Z where "Z = aes_blocks key ?pad"
  have part: "take 8 (drop (16 * i) Z) = take 8 (?f i)" if "i < 6" for i
    unfolding Z_def enc by (rule part [OF that])
  have len: "length (take 8 (?f i)) = 8" for i using assms(1) by simp
  have "fold (\<lambda>i k. write_at k (8 * i) (take 8 (drop (16 * i) Z))) [0..<2] (replicate (8 * 2) 0) =
      concat (map (\<lambda>i. take 8 (drop (16 * i) Z)) [0..<2]) @ replicate (8 * (2 - 2)) 0"
    using part len by (intro write_all) simp_all
  also have "\<dots> = fst (rfc8452_derive key nonce)"
    using part [of 0] part [of 1] by (simp add: rfc8452_derive_def upt_rec)
  finally have pk: "fold (\<lambda>i k. write_at k (8 * i) (take 8 (drop (16 * i) Z))) [0..<2] (replicate 16 0) =
      fst (rfc8452_derive key nonce)" by (simp only: mult_2_right) simp
  have "fold (\<lambda>i k. write_at k (8 * i) (take 8 (drop (32 + 16 * i) Z))) [0..<4] (replicate (8 * 4) 0) =
      concat (map (\<lambda>i. take 8 (drop (32 + 16 * i) Z)) [0..<4]) @ replicate (8 * (4 - 4)) 0"
    using part [of "i + 2" for i] len by (intro write_all) (simp_all add: algebra_simps)
  also have "\<dots> = snd (rfc8452_derive key nonce)"
    using part [of 2] part [of 3] part [of 4] part [of 5] by (simp add: rfc8452_derive_def upt_rec)
  finally have ak: "fold (\<lambda>i k. write_at k (8 * i) (take 8 (drop (32 + 16 * i) Z))) [0..<4] (replicate 32 0) =
      snd (rfc8452_derive key nonce)" by simp
  have "length ?pad = 128"
    using length_concat_upt [of 6 "\<lambda>i. nat_le 4 i @ nonce" 16] True by simp
  then have run: "Aes256_encrypt X (key_generator g) ?pad = Ok Z" using assms(2) unfolding encrypts_def Z_def by auto
  show ?thesis
    unfolding gcm_derive_keys_def Let_def derive_pad [OF True] run rbind.simps pk ak using True by (simp add: NONCE_SIZE_def)
qed (simp add: gcm_derive_keys_def NONCE_SIZE_def)

section \<open>The tag\<close>

lemma length_rfc8452_polyval [simp]: "length (rfc8452_polyval key Xs) = 16"
  by (simp add: rfc8452_polyval_def)

lemma length_rfc8452_derive:
  "length key = 32 \<Longrightarrow> length (fst (rfc8452_derive key nonce)) = 16 \<and> length (snd (rfc8452_derive key nonce)) = 32"
  by (simp add: rfc8452_derive_def Let_def)

lemma compute_tag_eq:
  assumes "polyval_crate_ok (polyval_crate X)" "encrypts X enc_key a" "length auth_key = 16" "length nonce = 12"
    and "length buffer \<le> 2 ^ 36" "length aad \<le> 2 ^ 36"
  shows "compute_tag X buffer aad nonce auth_key a = Ok (rfc8452_tag auth_key enc_key nonce buffer aad)"
proof -
  have bits: "unat ((word_of_nat n :: u64) * 8) = 8 * n" if "n \<le> 2 ^ 36" for n
  proof -
    have "(word_of_nat n :: u64) * 8 = word_of_nat (8 * n)" by simp
    then have "unat ((word_of_nat n :: u64) * 8) = take_bit LENGTH(64) (8 * n)" by (simp only: unsigned_of_nat of_nat_id)
    with that show ?thesis by (simp add: take_bit_nat_eq_self)
  qed
  let ?l = "nat_le 8 (8 * length aad) @ nat_le 8 (8 * length buffer)"
  let ?S = "rfc8452_polyval auth_key (chunks 16 (zero_pad aad @ zero_pad buffer @ ?l))"
  have "chunks 16 (zero_pad aad @ zero_pad buffer @ ?l) = chunks 16 (zero_pad aad) @ chunks 16 (zero_pad buffer) @ [?l]"
    using zero_pad_length [of aad] zero_pad_length [of buffer]
    by (simp add: chunks_append chunks_single mod_eq_0_iff_dvd)
  with polyval.hash_three [OF assms(1,3), of ?l "machine X" aad buffer]
  have hash: "rbind (Polyval_new (machine X) (polyval_crate X) auth_key) (\<lambda>p.
      rbind (Polyval_update_padded (polyval_crate X) p aad) (\<lambda>p. rbind (Polyval_update_padded (polyval_crate X) p buffer) (\<lambda>p.
      rbind (Polyval_update (polyval_crate X) p ?l) (Polyval_finalize (polyval_crate X))))) = Ok ?S" by simp
  have "fold (\<lambda>i tag. tag[i := tag ! i XOR nonce ! i]) [0..<12] ?S = xor_bytes (take 12 ?S) nonce @ drop 12 ?S"
    using fold_xor_at [of 0 12 ?S nonce] assms(4) by simp
  moreover have "length (xor_bytes (take 12 ?S) nonce @ drop 12 ?S) = 16" using assms(4) by simp
  moreover note encrypts_block [OF assms(2)]
  ultimately show ?thesis
    using hash assms(4-6)
    by (simp add: compute_tag_def Let_def bits rbind_assoc [symmetric] rfc8452_tag_def del: rbind.simps)
      (simp add: rbind_assoc)
qed

section \<open>Counter mode\<close>

definition counter_block :: "bytes \<Rightarrow> u32 \<Rightarrow> bytes" where
  "counter_block nonce counter = nat_le 4 (unat counter) @ drop 4 (rfc8452_counter nonce)"

lemma length_counter_block [simp]: "length nonce = 16 \<Longrightarrow> length (counter_block nonce c) = 16"
  by (simp add: counter_block_def rfc8452_counter_def)

lemma counter_block_eq:
  assumes "length nonce = 16"
  shows "counter_block nonce c = (nat_le 4 (unat c) @ drop 4 nonce)[15 := nonce ! 15 OR 0x80]"
  using assms by (simp add: counter_block_def rfc8452_counter_def list_update_append drop_update_swap)

lemma ctr_write_eq:
  assumes "length nonce = 16" "length a = 16 * b" "length rest \<ge> 16"
  shows "ctr_write nonce b (a @ rest, c) = (a @ counter_block nonce c @ drop 16 rest, c + 1)"
proof -
  let ?blk = "nat_le 4 (unat c) @ drop 4 nonce"
  have "write_at (write_at (a @ rest) (16 * b) (nat_le 4 (unat c))) (16 * b + 4) (drop 4 nonce) = write_at (a @ rest) (16 * b) ?blk"
    using assms by (intro write_at_twice) simp_all
  also have "\<dots> = a @ ?blk @ drop 16 rest" using assms by (simp add: write_at_end)
  finally show ?thesis
    using assms by (simp add: ctr_write_def Let_def counter_block_eq nth_append list_update_append)
qed

lemma ctr_writes:
  assumes "length nonce = 16" "length ctr = 128" "n \<le> 8"
  shows "fold (ctr_write nonce) [0..<n] (ctr, c) =
    (concat (map (\<lambda>b. counter_block nonce (c + word_of_nat b)) [0..<n]) @ drop (16 * n) ctr, c + word_of_nat n)"
  using assms(3)
proof (induction n)
  case (Suc n)
  have "length (concat (map (\<lambda>b. counter_block nonce (c + word_of_nat b)) [0..<n])) = 16 * n"
    using assms(1) by (intro length_concat_upt) simp
  with Suc assms show ?case by (simp add: ctr_write_eq add.commute add.left_commute)
qed simp

definition key_stream :: "bytes \<Rightarrow> bytes \<Rightarrow> u32 \<Rightarrow> nat \<Rightarrow> bytes" where
  "key_stream key nonce c n = concat (map (\<lambda>j. aes256_cipher key (counter_block nonce (c + word_of_nat j))) [0..<n])"

lemma length_key_stream: "length key = 32 \<Longrightarrow> length (key_stream key nonce c n) = 16 * n"
  unfolding key_stream_def by (rule length_concat_upt) simp

lemma key_stream_add: "key_stream key nonce c (m + n) = key_stream key nonce c m @ key_stream key nonce (c + word_of_nat m) n"
proof -
  have upt: "[0..<m + n] = [0..<m] @ map (\<lambda>j. j + m) [0..<n]"
    by (simp only: upt_add_eq_append [OF le0] map_add_upt add.commute [of n m])
  have shift: "c + word_of_nat (j + m) = c + word_of_nat m + word_of_nat j" for j by simp
  show ?thesis unfolding key_stream_def upt map_append concat_append map_map comp_def shift ..
qed

lemma ctr_pads_eq:
  assumes "encrypts X key a" "length nonce = 16"
  shows "length ctr = 128 \<Longrightarrow> length buffer \<le> 128 * (i + n) \<Longrightarrow>
    ctr_pads X a nonce [i..<i + n] (ctr, c) buffer =
      (Ok (), take (128 * i) buffer @ xor_bytes (drop (128 * i) buffer) (key_stream key nonce c (8 * n)))"
proof (induction n arbitrary: i ctr c buffer)
  case (Suc n)
  let ?ctr = "concat (map (\<lambda>b. counter_block nonce (c + word_of_nat b)) [0..<8])"
  let ?pad = "key_stream key nonce c 8" and ?o = "128 * i" and ?t = "min 128 (length buffer - i * 128)"
  have key: "length key = 32" using assms(1) by (simp add: encrypts_def)
  have ctr: "fold (ctr_write nonce) [0..<8] (ctr, c) = (?ctr, c + 8)"
    using ctr_writes [OF assms(2) Suc.prems(1), of 8 c] Suc.prems(1) by simp
  have len: "length ?ctr = 128" using length_concat_upt [of 8 "\<lambda>b. counter_block nonce (c + word_of_nat b)" 16] assms(2) by simp
  have "chunks 16 ?ctr = map (\<lambda>b. counter_block nonce (c + word_of_nat b)) [0..<8]"
    by (rule chunks_concat [of _ "[]", simplified]) (use assms(2) in auto)
  then have pad: "Aes256_encrypt X a ?ctr = Ok ?pad"
    using assms(1) len unfolding encrypts_def key_stream_def by (simp add: comp_def)
  define buf where "buf = fold (\<lambda>j b. b[i * 128 + j := b ! (i * 128 + j) XOR ?pad ! j]) [0..<?t] buffer"
  have run: "ctr_pads X a nonce [i..<i + Suc n] (ctr, c) buffer = ctr_pads X a nonce [Suc i..<Suc i + n] (?ctr, c + 8) buf"
    using ctr pad by (simp add: upt_conv_Cons buf_def Let_def del: upt_Suc)
  have stream: "key_stream key nonce c (8 * Suc n) = ?pad @ key_stream key nonce (c + 8) (8 * n)"
    using key_stream_add [of key nonce c 8 "8 * n"] by simp
  have padlen: "length ?pad = 128" using length_key_stream [OF key] by simp
  consider "length buffer \<le> ?o" | "?o < length buffer" "length buffer \<le> ?o + 128" | "?o + 128 < length buffer" by linarith
  then show ?case
  proof cases
    case 1
    then have "buf = buffer" by (simp add: buf_def)
    with 1 run Suc.IH [OF len, of buffer "Suc i" "c + 8"] show ?thesis by simp
  next
    case 2
    then have "?t = length buffer - i * 128" by simp
    with 2 have "buf = take ?o buffer @ xor_bytes (drop ?o buffer) ?pad"
      using fold_xor_at [of "i * 128" "length buffer - i * 128" buffer ?pad] padlen by (simp add: buf_def mult.commute [of 128])
    moreover from this have "length buf = length buffer" using 2 padlen by simp
    ultimately show ?thesis
      using run stream Suc.IH [OF len, of buf "Suc i" "c + 8"] 2 padlen by (simp add: xor_bytes_long)
  next
    case 3
    then have "?t = 128" by simp
    with 3 have buf: "buf = take ?o buffer @ xor_bytes (take 128 (drop ?o buffer)) ?pad @ drop (?o + 128) buffer"
      using fold_xor_at [of "i * 128" 128 buffer ?pad] padlen by (simp add: buf_def mult.commute [of 128])
    then have "length buf = length buffer" "take (128 * Suc i) buf = take ?o buffer @ xor_bytes (take 128 (drop ?o buffer)) ?pad"
      "drop (128 * Suc i) buf = drop (?o + 128) buffer" using 3 padlen by simp_all
    then show ?thesis
      using run stream Suc.IH [OF len, of buf "Suc i" "c + 8"] Suc.prems(2) 3 padlen
      by (simp add: xor_bytes_split add.commute)
  qed
qed simp

lemma rfc8452_ctr_stream:
  "length key = 32 \<Longrightarrow> length inp \<le> 16 * n \<Longrightarrow>
     rfc8452_ctr key block inp = xor_bytes inp (concat (map (\<lambda>j. aes256_cipher key ((next_block ^^ j) block)) [0..<n]))"
proof (induction n arbitrary: block inp)
  case 0
  then show ?case by (simp add: rfc8452_ctr.simps)
next
  case (Suc n)
  let ?ks = "\<lambda>block n. concat (map (\<lambda>j. aes256_cipher key ((next_block ^^ j) block)) [0..<n])"
  have ks: "?ks block (Suc n) = aes256_cipher key block @ ?ks (next_block block) n"
    by (simp add: map_upt_Suc funpow_swap1 del: upt_Suc)
  show ?case
  proof (cases "length inp \<le> 16")
    case True
    then have "rfc8452_ctr key block inp = xor_bytes inp (aes256_cipher key block)"
      by (cases "inp = []") (simp_all add: rfc8452_ctr.simps [of key block inp] rfc8452_ctr.simps [of key _ "[]"])
    with True Suc.prems(1) show ?thesis unfolding ks by (simp add: xor_bytes_long)
  next
    case False
    then have "rfc8452_ctr key block inp =
        xor_bytes (take 16 inp) (aes256_cipher key block) @ xor_bytes (drop 16 inp) (?ks (next_block block) n)"
      using Suc.IH [of "drop 16 inp" "next_block block"] Suc.prems by (subst rfc8452_ctr.simps) auto
    with False Suc.prems(1) show ?thesis unfolding ks by (simp add: xor_bytes_split)
  qed
qed

lemma next_counter_block:
  assumes "length nonce = 16"
  shows "next_block (counter_block nonce c) = counter_block nonce (c + 1)"
proof -
  have "le_nat (nat_le 4 (unat c)) = unat c" using unat_u32_less [of c] by (simp add: le_nat_nat_le)
  moreover have "unat (c + 1) = (unat c + 1) mod 2 ^ 32" by (simp add: unat_word_ariths)
  ultimately show ?thesis by (simp add: next_block_def counter_block_def)
qed

lemma counter_blocks:
  assumes "length tag = 16"
  shows "(next_block ^^ j) (rfc8452_counter tag) = counter_block tag (word_of_nat (le_nat (take 4 tag)) + word_of_nat j)"
proof (induction j)
  case 0
  have "le_nat (take 4 tag) < 2 ^ 32" using le_nat_less [of "take 4 tag"] assms by simp
  then have "unat (word_of_nat (le_nat (take 4 tag)) :: u32) = le_nat (take 4 tag)"
    by (simp add: unsigned_of_nat take_bit_nat_eq_self)
  then have "counter_block tag (word_of_nat (le_nat (take 4 tag))) = take 4 (rfc8452_counter tag) @ drop 4 (rfc8452_counter tag)"
    using nat_le_le_nat [of "take 4 tag"] assms by (simp add: counter_block_def rfc8452_counter_def)
  then show ?case by simp
next
  case (Suc j)
  then show ?case using next_counter_block [OF assms] by (simp add: ac_simps)
qed

lemma ctr32_eq:
  assumes "encrypts X key a" "length tag = 16"
  shows "ctr32 X tag a buffer = (Ok (), rfc8452_ctr key (rfc8452_counter tag) buffer)"
proof -
  let ?n = "(length buffer + 128) div 128"
  have n: "length buffer \<le> 128 * (0 + ?n)" by simp
  have "rfc8452_ctr key (rfc8452_counter tag) buffer = xor_bytes buffer (key_stream key tag (word_of_nat (le_nat (take 4 tag))) (8 * ?n))"
    using rfc8452_ctr_stream [of key buffer "8 * ?n"] counter_blocks [OF assms(2)] n assms(1)
    by (simp add: encrypts_def key_stream_def)
  then show ?thesis
    using ctr_pads_eq [OF assms _ n, of "replicate 128 0" "word_of_nat (le_nat (take 4 tag))"] assms(2) by (simp add: ctr32_def Let_def)
qed

section \<open>Properties\<close>

lemma length_rfc8452_ctr: "length key = 32 \<Longrightarrow> length (rfc8452_ctr key block inp) = length inp"
  using rfc8452_ctr_stream [of key inp "length inp" block] length_concat_upt [of "length inp" "\<lambda>j. aes256_cipher key ((next_block ^^ j) block)" 16]
  by simp

lemma rfc8452_ctr_involution:
  assumes "length key = 32"
  shows "rfc8452_ctr key block (rfc8452_ctr key block inp) = inp"
proof -
  let ?ks = "concat (map (\<lambda>j. aes256_cipher key ((next_block ^^ j) block)) [0..<length inp])"
  have "length ?ks = 16 * length inp" using assms by (intro length_concat_upt) simp
  with assms show ?thesis
    using rfc8452_ctr_stream [of key _ "length inp" block] length_rfc8452_ctr [OF assms, of block inp]
    by (simp add: xor_bytes_cancel)
qed

lemma length_rfc8452_tag: "length enc = 32 \<Longrightarrow> length (rfc8452_tag auth enc nonce pt aad) = 16"
  by (simp add: rfc8452_tag_def Let_def)

lemma gcm_parts:
  assumes "crates_ok X" "Aes256GcmSiv_new X key = Ok g"
  shows "length key = 32" and "polyval_crate_ok (polyval_crate X)"
    and "gcm_derive_keys X g nonce =
      (if length nonce = 12 then Ok (snd (rfc8452_derive key nonce), fst (rfc8452_derive key nonce)) else Err InvalidNonceSize)"
proof -
  show key: "length key = 32" using assms(2) by (auto simp: Aes256GcmSiv_new_def Aes256_new_def result_simps split: if_splits)
  obtain a where a: "Aes256_new X key = Ok a" "encrypts X key a"
    by (rule Aes256_is_aes [OF assms(1) key])
  have "g = \<lparr>key_generator = a\<rparr>" using assms(2) a(1) by (simp add: Aes256GcmSiv_new_def)
  with a(2) show "gcm_derive_keys X g nonce =
      (if length nonce = 12 then Ok (snd (rfc8452_derive key nonce), fst (rfc8452_derive key nonce)) else Err InvalidNonceSize)"
    by (intro gcm_derive_keys_eq [OF key]) simp
  show "polyval_crate_ok (polyval_crate X)" using assms(1) by (simp add: crates_ok_def)
qed

lemma gcm_siv_encrypt_eq:
  assumes "crates_ok X" "Aes256GcmSiv_new X key = Ok g"
  shows "gcm_siv_encrypt X g nonce aad buffer =
    (if length buffer > 2 ^ 36 \<or> length aad > 2 ^ 36 then (Err InvalidInputSize, buffer)
     else if length nonce \<noteq> 12 then (Err InvalidNonceSize, buffer)
     else (Ok (snd (rfc8452_encrypt key nonce buffer aad)), fst (rfc8452_encrypt key nonce buffer aad)))"
proof (cases "length buffer \<le> 2 ^ 36 \<and> length aad \<le> 2 ^ 36 \<and> length nonce = 12")
  case True
  obtain auth enc where keys: "rfc8452_derive key nonce = (auth, enc)" by fastforce
  note key = gcm_parts(1) [OF assms] and U = gcm_parts(2) [OF assms]
  have derive: "gcm_derive_keys X g nonce = Ok (enc, auth)" using gcm_parts(3) [OF assms, of nonce] True keys by simp
  have lens: "length auth = 16" "length enc = 32" using length_rfc8452_derive [OF key, of nonce] keys by simp_all
  obtain a where a: "Aes256_new X enc = Ok a" "encrypts X enc a" using Aes256_is_aes [OF assms(1) lens(2)] .
  let ?tag = "rfc8452_tag auth enc nonce buffer aad"
  have "compute_tag X buffer aad nonce auth a = Ok ?tag" using compute_tag_eq [OF U a(2) lens(1)] True by simp
  moreover have "ctr32 X ?tag a buffer = (Ok (), rfc8452_ctr enc (rfc8452_counter ?tag) buffer)"
    using length_rfc8452_tag [OF lens(2)] by (rule ctr32_eq [OF a(2)])
  ultimately show ?thesis
    using True derive a(1) keys by (simp add: gcm_siv_encrypt_def PTEXT_MAX_def AAD_MAX_def rfc8452_encrypt_def Let_def)
next
  case False
  then show ?thesis
    using gcm_parts(3) [OF assms, of nonce] by (simp add: gcm_siv_encrypt_def PTEXT_MAX_def AAD_MAX_def)
qed

lemma gcm_siv_decrypt_eq:
  assumes "crates_ok X" "Aes256GcmSiv_new X key = Ok g" "length nonce = 12" "length tag = 16"
    and "length buffer \<le> 2 ^ 36" "length aad \<le> 2 ^ 36" "rfc8452_derive key nonce = (auth, enc)"
  shows "gcm_siv_decrypt X g nonce aad tag buffer =
    (let pt = rfc8452_ctr enc (rfc8452_counter tag) buffer in
     if tag = rfc8452_tag auth enc nonce pt aad then (Ok (), pt) else (Err InvalidTag, replicate (length buffer) 0))"
proof -
  note key = gcm_parts(1) [OF assms(1,2)] and U = gcm_parts(2) [OF assms(1,2)]
  have derive: "gcm_derive_keys X g nonce = Ok (enc, auth)" using gcm_parts(3) [OF assms(1,2), of nonce] assms(3,7) by simp
  have lens: "length auth = 16" "length enc = 32" using length_rfc8452_derive [OF key, of nonce] assms(7) by simp_all
  obtain a where a: "Aes256_new X enc = Ok a" "encrypts X enc a" using Aes256_is_aes [OF assms(1) lens(2)] .
  let ?pt = "rfc8452_ctr enc (rfc8452_counter tag) buffer"
  have len: "length ?pt = length buffer" using lens(2) by (rule length_rfc8452_ctr)
  then have "compute_tag X ?pt aad nonce auth a = Ok (rfc8452_tag auth enc nonce ?pt aad)"
    using compute_tag_eq [OF U a(2) lens(1)] assms by simp
  moreover have "ctr32 X tag a buffer = (Ok (), ?pt)" by (rule ctr32_eq [OF a(2) assms(4)])
  ultimately show ?thesis
    using derive a(1) assms(3-6) len
    by (simp add: gcm_siv_decrypt_def NONCE_SIZE_def TAG_SIZE_def PTEXT_MAX_def AAD_MAX_def Let_def map_replicate_const)
qed

text \<open>The decryption of RFC 8452 is the inverse of the encryption.\<close>

lemma rfc8452_encrypt_iff:
  assumes "length key = 32" "rfc8452_derive key nonce = (auth, enc)"
  shows "rfc8452_encrypt key nonce pt aad = (buffer, tag) \<longleftrightarrow>
    pt = rfc8452_ctr enc (rfc8452_counter tag) buffer \<and> tag = rfc8452_tag auth enc nonce pt aad"
proof -
  have "length enc = 32" using length_rfc8452_derive [OF assms(1), of nonce] assms(2) by simp
  note inv = rfc8452_ctr_involution [OF this, of "rfc8452_counter tag"]
  have "rfc8452_encrypt key nonce pt aad = (buffer, tag) \<longleftrightarrow>
      rfc8452_ctr enc (rfc8452_counter tag) pt = buffer \<and> tag = rfc8452_tag auth enc nonce pt aad"
    using assms(2) by (auto simp: rfc8452_encrypt_def Let_def)
  then show ?thesis using inv by metis
qed

lemma rfc8452_encrypt_length:
  assumes "length key = 32"
  shows "length (fst (rfc8452_encrypt key nonce pt aad)) = length pt" "length (snd (rfc8452_encrypt key nonce pt aad)) = 16"
  using length_rfc8452_derive [OF assms, of nonce]
  by (simp_all add: rfc8452_encrypt_def Let_def split_beta length_rfc8452_ctr length_rfc8452_tag)

lemma gcm_siv_new:
  assumes "crates_ok X" "length key = 32"
  obtains g where "Aes256GcmSiv_new X key = Ok g"
proof -
  obtain a where "Aes256_new X key = Ok a" using Aes256_is_aes [OF assms] by blast
  then show thesis by (intro that [of "\<lparr>key_generator = a\<rparr>"]) (simp add: Aes256GcmSiv_new_def)
qed

lemma gcm_siv_encrypt_OkD:
  assumes "crates_ok X" "Aes256GcmSiv_new X key = Ok g" "gcm_siv_encrypt X g nonce aad plaintext = (Ok tag, ciphertext)"
  shows "length plaintext \<le> 2 ^ 36" "length aad \<le> 2 ^ 36" "length nonce = 12"
    "rfc8452_encrypt key nonce plaintext aad = (ciphertext, tag)"
proof -
  let ?big = "length plaintext > 2 ^ 36 \<or> length aad > 2 ^ 36"
  note run = assms(3) [unfolded gcm_siv_encrypt_eq [OF assms(1,2)]]
  from run have ok: "\<not> ?big" "length nonce = 12" by (metis Pair_inject result.distinct(1))+
  then show "length plaintext \<le> 2 ^ 36" "length aad \<le> 2 ^ 36" "length nonce = 12" by simp_all
  from run ok show "rfc8452_encrypt key nonce plaintext aad = (ciphertext, tag)" by (simp only: if_False) (simp add: prod_eq_iff)
qed

text \<open>
  C23. On every platform AES-256-GCM-SIV encrypts as RFC 8452 says: for a 32-byte key, a 12-byte nonce and
  inputs of at most \<open>2 ^ 36\<close> bytes the buffer becomes the ciphertext and the tag is returned, with the
  counter wrapping around at \<open>2 ^ 32\<close>. Other sizes are refused, with the buffer as it was.
\<close>

theorem gcm_siv_encrypt_is_rfc8452:
  assumes "crates_ok X"
  shows "case Aes256GcmSiv_new X key of
      Ok g \<Rightarrow> length key = 32 \<and> gcm_siv_encrypt X g nonce aad buffer =
        (if length buffer > 2 ^ 36 \<or> length aad > 2 ^ 36 then (Err InvalidInputSize, buffer)
         else if length nonce \<noteq> 12 then (Err InvalidNonceSize, buffer)
         else let (ct, tag) = rfc8452_encrypt key nonce buffer aad in (Ok tag, ct))
    | Err e \<Rightarrow> length key \<noteq> 32 \<and> e = InvalidKeySize
    | Panic \<Rightarrow> False"
proof (cases "length key = 32")
  case True
  then obtain g where g: "Aes256GcmSiv_new X key = Ok g" by (rule gcm_siv_new [OF assms])
  show ?thesis unfolding g result.case gcm_siv_encrypt_eq [OF assms g] using True by (simp add: split_beta)
qed (simp add: Aes256GcmSiv_new_def Aes256_new_def)

theorem gcm_siv_encrypt_is_rfc8452_witness:
  "case Aes256GcmSiv_new (ref_crates ref_arm) (replicate 32 1) of
      Ok g \<Rightarrow> gcm_siv_encrypt (ref_crates ref_arm) g (replicate 12 3) [7] [1, 2, 3] =
        (let (ct, tag) = rfc8452_encrypt (replicate 32 1) (replicate 12 3) [1, 2, 3] [7] in (Ok tag, ct))
    | Err e \<Rightarrow> False | Panic \<Rightarrow> False"
  using gcm_siv_encrypt_is_rfc8452 [OF ref_crates_ok [of ref_arm], of "replicate 32 1" "replicate 12 3" "[7]" "[1, 2, 3]"]
  by (simp split: result.splits)

text \<open>
  C24. Decryption accepts exactly what encryption produces. A nonce that does not have 12 bytes, a tag that
  does not have 16 bytes and inputs of more than \<open>2 ^ 36\<close> bytes are refused, with \<open>InvalidNonceSize\<close>,
  \<open>InvalidTag\<close> and \<open>InvalidInputSize\<close> in this order and the buffer as it was. For inputs of these sizes: if the
  buffer and the tag are the encryption of some plaintext under the same key, nonce and associated data,
  the buffer becomes that plaintext; if they are the encryption of none, the answer is \<open>InvalidTag\<close> and
  nothing of the decrypted data is left: the buffer is all zeros.
\<close>

theorem gcm_siv_decrypt_exact:
  assumes "crates_ok X" "Aes256GcmSiv_new X key = Ok g"
  shows "if length nonce \<noteq> 12 then gcm_siv_decrypt X g nonce aad tag buffer = (Err InvalidNonceSize, buffer)
    else if length tag \<noteq> 16 then gcm_siv_decrypt X g nonce aad tag buffer = (Err InvalidTag, buffer)
    else if length buffer > 2 ^ 36 \<or> length aad > 2 ^ 36
      then gcm_siv_decrypt X g nonce aad tag buffer = (Err InvalidInputSize, buffer)
    else (\<exists>pt. rfc8452_encrypt key nonce pt aad = (buffer, tag) \<and> gcm_siv_decrypt X g nonce aad tag buffer = (Ok (), pt)) \<or>
      ((\<nexists>pt. rfc8452_encrypt key nonce pt aad = (buffer, tag)) \<and>
       gcm_siv_decrypt X g nonce aad tag buffer = (Err InvalidTag, replicate (length buffer) 0))"
proof (cases "length nonce = 12 \<and> length tag = 16 \<and> \<not> (length buffer > 2 ^ 36 \<or> length aad > 2 ^ 36)")
  case False
  then show ?thesis by (auto simp: gcm_siv_decrypt_def NONCE_SIZE_def TAG_SIZE_def PTEXT_MAX_def AAD_MAX_def)
next
  case True
  then have sizes: "length nonce = 12" "length tag = 16" "length buffer \<le> 2 ^ 36" "length aad \<le> 2 ^ 36" by linarith+
  obtain auth enc where keys: "rfc8452_derive key nonce = (auth, enc)" by fastforce
  note enc = rfc8452_encrypt_iff [OF gcm_parts(1) [OF assms(1,2)] keys]
  from True show ?thesis unfolding gcm_siv_decrypt_eq [OF assms sizes keys] enc Let_def by simp
qed

theorem gcm_siv_decrypt_exact_witness:
  "\<exists>g ct tag. Aes256GcmSiv_new (ref_crates ref_x86) (replicate 32 1) = Ok g \<and>
     rfc8452_encrypt (replicate 32 1) (replicate 12 3) [5, 6] [] = (ct, tag) \<and>
     fst (gcm_siv_decrypt (ref_crates ref_x86) g (replicate 12 3) [] tag ct) = Ok () \<and>
     gcm_siv_decrypt (ref_crates ref_x86) g (replicate 12 3) [] (replicate 15 0) ct = (Err InvalidTag, ct)"
proof -
  obtain g where g: "Aes256GcmSiv_new (ref_crates ref_x86) (replicate 32 1) = Ok g"
    using gcm_siv_new [OF ref_crates_ok [of ref_x86], of "replicate 32 1"] by auto
  obtain ct tag where enc: "rfc8452_encrypt (replicate 32 1) (replicate 12 3) [5, 6] [] = (ct, tag)" by fastforce
  then have sizes: "length ct = 2" "length tag = 16"
    using rfc8452_encrypt_length [of "replicate 32 1" "replicate 12 3" "[5, 6]" "[]"] by simp_all
  have "fst (gcm_siv_decrypt (ref_crates ref_x86) g (replicate 12 3) [] tag ct) = Ok ()"
    using gcm_siv_decrypt_exact [OF ref_crates_ok g, of "replicate 12 3" "[]" tag ct] enc sizes by auto
  moreover have "gcm_siv_decrypt (ref_crates ref_x86) g (replicate 12 3) [] (replicate 15 0) ct = (Err InvalidTag, ct)"
    using gcm_siv_decrypt_exact [OF ref_crates_ok g, of "replicate 12 3" "[]" "replicate 15 0" ct] by simp
  ultimately show ?thesis using g enc by blast
qed

text \<open>
  C25. Round trip: what \<open>encrypt\<close> leaves in the buffer, \<open>decrypt\<close> turns back into the plaintext, given the tag
  that \<open>encrypt\<close> returned. Encryption may run on one platform and decryption on another.
\<close>

theorem gcm_siv_roundtrip:
  assumes "crates_ok X" "crates_ok Y" "Aes256GcmSiv_new X key = Ok g" "Aes256GcmSiv_new Y key = Ok h"
    and "gcm_siv_encrypt X g nonce aad plaintext = (Ok tag, ciphertext)"
  shows "gcm_siv_decrypt Y h nonce aad tag ciphertext = (Ok (), plaintext) \<and> length ciphertext = length plaintext"
proof -
  obtain auth enc where keys: "rfc8452_derive key nonce = (auth, enc)" by fastforce
  note key = gcm_parts(1) [OF assms(1,3)]
  have lens: "length enc = 32" using length_rfc8452_derive [OF key, of nonce] keys by simp
  note sizes = gcm_siv_encrypt_OkD [OF assms(1,3,5)]
  then have pt: "plaintext = rfc8452_ctr enc (rfc8452_counter tag) ciphertext" "tag = rfc8452_tag auth enc nonce plaintext aad"
    using rfc8452_encrypt_iff [OF key keys] by blast+
  have len: "length ciphertext = length plaintext" using length_rfc8452_ctr [OF lens] pt(1) by metis
  have "length tag = 16" using length_rfc8452_tag [OF lens] pt(2) by metis
  moreover have "length ciphertext \<le> 2 ^ 36" using sizes(1) len by simp
  ultimately have dec: "gcm_siv_decrypt Y h nonce aad tag ciphertext =
      (if tag = rfc8452_tag auth enc nonce plaintext aad then (Ok (), plaintext) else (Err InvalidTag, replicate (length ciphertext) 0))"
    using gcm_siv_decrypt_eq [OF assms(2,4) sizes(3) _ _ sizes(2) keys, of tag ciphertext]
    unfolding Let_def pt(1) [symmetric] by blast
  show ?thesis unfolding dec if_P [OF pt(2)] using len by simp
qed

theorem gcm_siv_roundtrip_witness:
  "\<exists>g h tag ct. Aes256GcmSiv_new (ref_crates ref_arm) (replicate 32 1) = Ok g \<and>
     gcm_siv_encrypt (ref_crates ref_arm) g (replicate 12 3) [7] [1, 2, 3] = (Ok tag, ct) \<and>
     gcm_siv_decrypt (ref_crates ref_x86) h (replicate 12 3) [7] tag ct = (Ok (), [1, 2, 3])"
proof -
  obtain g where g: "Aes256GcmSiv_new (ref_crates ref_arm) (replicate 32 1) = Ok g"
    using gcm_siv_new [OF ref_crates_ok [of ref_arm], of "replicate 32 1"] by auto
  obtain h where h: "Aes256GcmSiv_new (ref_crates ref_x86) (replicate 32 1) = Ok h"
    using gcm_siv_new [OF ref_crates_ok [of ref_x86], of "replicate 32 1"] by auto
  obtain tag ct where enc: "gcm_siv_encrypt (ref_crates ref_arm) g (replicate 12 3) [7] [1, 2, 3] = (Ok tag, ct)"
    using gcm_siv_encrypt_eq [OF ref_crates_ok g, of "replicate 12 3" "[7]" "[1, 2, 3]"] by simp
  from gcm_siv_roundtrip [OF ref_crates_ok ref_crates_ok g h enc] g enc show ?thesis by blast
qed

end
