(* ===== verification/Loop_Bounds.thy ===== *)
theory Loop_Bounds
  imports Session_Cipher Group_Cipher
begin

text \<open>
  How often the loops over skipped keys run. The \<open>while\<close> loops of \<open>session_cipher.rs\<close> and \<open>group_cipher.rs\<close>
  depend on a number that comes from the peer; the functions that contain them test its distance first.
  Here each function is unrolled to a definite number of runs of the body of its loop.
\<close>

section \<open>A loop over a counter\<close>

text \<open>
  A loop that runs its body, which moves the counter \<open>idx\<close> by one, while the counter is below \<open>n\<close>: unless
  a run of the body fails, it runs as often as the distance says.
\<close>

locale counting_loop =
  fixes idx :: "'c \<Rightarrow> u32"
    and body :: "'c \<times> 's \<Rightarrow> ('c \<times> 's) sresult"
    and loop :: "'s \<Rightarrow> 'c \<Rightarrow> u32 \<Rightarrow> ('c \<times> 's) sresult"
  assumes body_index: "body (c, s) = Ok (c', s') \<Longrightarrow> idx c' = idx c + 1"
    and loop_unfold: "loop s c n = (if idx c < n then rbind (body (c, s)) (\<lambda>(c, s). loop s c n) else Ok (c, s))"
begin

lemma loop_passes: "loop s c n = passes (unat n - unat (idx c)) body (c, s)"
proof (induction "unat n - unat (idx c)" arbitrary: s c)
  case 0
  then have "\<not> idx c < n" by (simp add: word_less_nat_alt)
  with 0 show ?case by (subst loop_unfold) simp
next
  case (Suc k)
  then have less: "idx c < n" by (simp add: word_less_nat_alt)
  have IH: "loop s' c' n = passes k body (c', s')" if "body (c, s) = Ok (c', s')" for c' s'
  proof -
    have "unat (idx c') = Suc (unat (idx c))" using unat_plus_one [OF less] body_index [OF that] by simp
    then have "k = unat n - unat (idx c')" using Suc.hyps(2) by simp
    with Suc.hyps(1) show ?thesis by blast
  qed
  have "rbind (body (c, s)) (\<lambda>(c, s). loop s c n) = rbind (body (c, s)) (passes k body)"
    by (rule rbind_cong) (auto simp: IH)
  then show ?case by (subst loop_unfold) (simp add: less Suc.hyps(2) [symmetric])
qed

end

interpretation session_skips: counting_loop ck_index "skip_message_key C eph" "skip_message_keys C eph"
  for C :: "('sc, 'pt, 'r) crypto" and eph
  by unfold_locales (fact skip_message_key_index, rule skip_message_keys.simps)

interpretation group_skips: counting_loop sck_iteration "skip_sender_key C" "skip_sender_keys C"
  for C :: "('sc, 'pt, 'r) crypto"
  by unfold_locales (fact skip_sender_key_iteration, rule skip_sender_keys.simps)

lemma too_far:
  "i \<le> n \<Longrightarrow> MAX_FORWARD_JUMPS < unat (n - i) \<longleftrightarrow> unat i + 2000 < unat n" for i n :: u32
  by (auto simp: unat_minus_of_le consts_defs)

lemma case_found:
  "(case found of None \<Rightarrow> Err e | Some k \<Rightarrow> Ok (k, s)) = rbind (ok_or found e) (\<lambda>k. Ok (k, s))"
  "(case found of Some k \<Rightarrow> Ok (k, s) | None \<Rightarrow> Err e) = rbind (ok_or found e) (\<lambda>k. Ok (k, s))"
  by (cases found; simp)+

lemma message_key_passes:
  "get_or_create_message_key C s eph ck counter =
    (if unat counter < unat (ck_index ck) then
       rbind (get_message_keys s eph counter) (\<lambda>(found, s).
         rbind (ok_or found (DuplicatedMessage (ck_index ck) counter)) (\<lambda>keys. Ok (keys, s)))
     else if unat counter > unat (ck_index ck) + 2000
       then Err (InvalidMessage ''message from too far into the future'')
     else rbind (passes (unat counter - unat (ck_index ck)) (skip_message_key C eph) (ck, s)) (\<lambda>(ck, s).
       rbind (ChainKey_next_chain_key C ck) (\<lambda>next_key.
       rbind (set_receiver_chain_key s eph next_key) (\<lambda>s.
       rbind (ChainKey_message_keys C ck) (\<lambda>keys. Ok (keys, s))))))"
proof (cases "counter < ck_index ck")
  case True
  then show ?thesis by (simp add: get_or_create_message_key_def Let_def case_found word_less_nat_alt)
next
  case False
  then have le: "ck_index ck \<le> counter" by simp
  with False show ?thesis
    unfolding get_or_create_message_key_def Let_def too_far [OF le] session_skips.loop_passes
    by (simp add: word_less_nat_alt)
qed

lemma sender_key_passes:
  "get_sender_key C t iteration =
    rbind (sender_chain_key t) (\<lambda>ck.
     if unat iteration < unat (sck_iteration ck) then
       rbind (remove_sender_message_key C t iteration) (\<lambda>(found, t).
         rbind (ok_or found (DuplicatedMessage (sck_iteration ck) iteration)) (\<lambda>key. Ok (key, t)))
     else if unat iteration > unat (sck_iteration ck) + 2000
       then Err (InvalidMessage ''message from too far into the future'')
     else rbind (passes (unat iteration - unat (sck_iteration ck)) (skip_sender_key C) (ck, t)) (\<lambda>(ck, t).
       rbind (SenderChainKey_next C ck) (\<lambda>next_key.
       rbind (SenderKeyState_set_sender_chain_key t next_key) (\<lambda>t.
       rbind (sender_message_key C ck) (\<lambda>key. Ok (key, t))))))"
  unfolding get_sender_key_def Let_def group_skips.loop_passes
  by (rule rbind_cong [OF refl]) (auto simp: case_found too_far word_less_nat_alt [symmetric] word_le_nat_alt [symmetric])

section \<open>Properties\<close>

text \<open>
  C38. Whatever the counter in a message, the stored state and the cryptographic functions are, the loops over
  skipped keys run at most 2000 times: \<open>get_or_create_message_key\<close> and \<open>get_sender_key\<close> look for a stored key
  when the counter is behind the chain, refuse the message when it is more than 2000 ahead, and otherwise
  run the body of their loop exactly as often as the distance says (or until it fails) and take the next key.
\<close>

theorem skip_loops_bounded:
  "get_or_create_message_key C s eph ck counter =
    (if unat counter < unat (ck_index ck) then
       rbind (get_message_keys s eph counter) (\<lambda>(found, s).
         rbind (ok_or found (DuplicatedMessage (ck_index ck) counter)) (\<lambda>keys. Ok (keys, s)))
     else if unat counter > unat (ck_index ck) + 2000
       then Err (InvalidMessage ''message from too far into the future'')
     else rbind (passes (unat counter - unat (ck_index ck)) (skip_message_key C eph) (ck, s)) (\<lambda>(ck, s).
       rbind (ChainKey_next_chain_key C ck) (\<lambda>next_key.
       rbind (set_receiver_chain_key s eph next_key) (\<lambda>s.
       rbind (ChainKey_message_keys C ck) (\<lambda>keys. Ok (keys, s)))))) \<and>
   get_sender_key C t iteration =
    rbind (sender_chain_key t) (\<lambda>ck.
     if unat iteration < unat (sck_iteration ck) then
       rbind (remove_sender_message_key C t iteration) (\<lambda>(found, t).
         rbind (ok_or found (DuplicatedMessage (sck_iteration ck) iteration)) (\<lambda>key. Ok (key, t)))
     else if unat iteration > unat (sck_iteration ck) + 2000
       then Err (InvalidMessage ''message from too far into the future'')
     else rbind (passes (unat iteration - unat (sck_iteration ck)) (skip_sender_key C) (ck, t)) (\<lambda>(ck, t).
       rbind (SenderChainKey_next C ck) (\<lambda>next_key.
       rbind (SenderKeyState_set_sender_chain_key t next_key) (\<lambda>t.
       rbind (sender_message_key C ck) (\<lambda>key. Ok (key, t))))))"
  by (rule conjI [OF message_key_passes sender_key_passes])

end
