(* ===== verification/Ffi_Memory.thy ===== *)
theory Ffi_Memory
  imports Messages Stores Fingerprint Error_Display
begin

text \<open>
  Model of \<open>rust/bridge/ffi/src/util.rs\<close>: the memory that the library and its C caller share, the errors
  of the interface with their codes, the conversions of pointers, and the templates (\<open>ffi_fn_get_uint32!\<close>
  and the others) from which most functions of \<open>rust/bridge/ffi/src/lib.rs\<close> are made.

  A memory is a partial map from addresses to cells. A cell is a box that the library made or a variable
  of the caller. Reading, writing or freeing an address that does not hold a cell of the right kind is
  undefined behaviour: the flag \<open>undefined\<close> is raised and stays raised, and nothing is claimed of what
  follows. An address is not used again after its box is freed, so that a dangling pointer is always noticed.
  A string is the list of the bytes of its UTF-8 encoding.
\<close>

section \<open>Errors\<close>

text \<open>The payload of a panic is kept as far as it is used: the message, when it is a string literal.\<close>

datatype SignalFfiError =
    Signal SignalProtocolError
  | InsufficientOutputSize nat nat
  | NullPointer
  | InvalidUtf8String
  | UnexpectedPanic "string option"
  | CallbackError i32
  | InvalidType

datatype SignalErrorCode =
    EC_UnknownError | EC_InvalidState | EC_InternalError | EC_NullParameter | EC_InvalidArgument
  | EC_InvalidType | EC_InvalidUtf8String | EC_InsufficientOutputSize | EC_ProtobufError
  | EC_InvalidCiphertext | EC_LegacyCiphertextVersion | EC_UnknownCiphertextVersion
  | EC_UnrecognizedMessageVersion | EC_InvalidMessage | EC_InvalidKey | EC_InvalidSignature
  | EC_FingerprintIdentifierMismatch | EC_FingerprintVersionMismatch | EC_UntrustedIdentity
  | EC_InvalidKeyIdentifier | EC_SessionNotFound | EC_DuplicatedMessage | EC_CallbackError

fun SignalErrorCode_value :: "SignalErrorCode \<Rightarrow> u32" where
  "SignalErrorCode_value EC_UnknownError = 1"
| "SignalErrorCode_value EC_InvalidState = 2"
| "SignalErrorCode_value EC_InternalError = 3"
| "SignalErrorCode_value EC_NullParameter = 4"
| "SignalErrorCode_value EC_InvalidArgument = 5"
| "SignalErrorCode_value EC_InvalidType = 6"
| "SignalErrorCode_value EC_InvalidUtf8String = 7"
| "SignalErrorCode_value EC_InsufficientOutputSize = 8"
| "SignalErrorCode_value EC_ProtobufError = 10"
| "SignalErrorCode_value EC_InvalidCiphertext = 20"
| "SignalErrorCode_value EC_LegacyCiphertextVersion = 21"
| "SignalErrorCode_value EC_UnknownCiphertextVersion = 22"
| "SignalErrorCode_value EC_UnrecognizedMessageVersion = 23"
| "SignalErrorCode_value EC_InvalidMessage = 30"
| "SignalErrorCode_value EC_InvalidKey = 40"
| "SignalErrorCode_value EC_InvalidSignature = 41"
| "SignalErrorCode_value EC_FingerprintIdentifierMismatch = 50"
| "SignalErrorCode_value EC_FingerprintVersionMismatch = 51"
| "SignalErrorCode_value EC_UntrustedIdentity = 60"
| "SignalErrorCode_value EC_InvalidKeyIdentifier = 70"
| "SignalErrorCode_value EC_SessionNotFound = 80"
| "SignalErrorCode_value EC_DuplicatedMessage = 90"
| "SignalErrorCode_value EC_CallbackError = 100"

definition SignalErrorCode_from :: "SignalFfiError \<Rightarrow> SignalErrorCode" where
  "SignalErrorCode_from err =
     (case err of
        NullPointer \<Rightarrow> EC_NullParameter
      | InvalidType \<Rightarrow> EC_InvalidType
      | UnexpectedPanic _ \<Rightarrow> EC_InternalError
      | CallbackError _ \<Rightarrow> EC_CallbackError
      | InvalidUtf8String \<Rightarrow> EC_InvalidUtf8String
      | InsufficientOutputSize _ _ \<Rightarrow> EC_InsufficientOutputSize
      | Signal e \<Rightarrow>
          (case e of
             ProtobufEncodingError _ \<Rightarrow> EC_ProtobufError
           | ProtobufDecodingError _ \<Rightarrow> EC_ProtobufError
           | DuplicatedMessage _ _ \<Rightarrow> EC_DuplicatedMessage
           | InvalidPreKeyId \<Rightarrow> EC_InvalidKeyIdentifier
           | InvalidSignedPreKeyId \<Rightarrow> EC_InvalidKeyIdentifier
           | InvalidSenderKeyId \<Rightarrow> EC_InvalidKeyIdentifier
           | SignatureValidationFailed \<Rightarrow> EC_InvalidSignature
           | NoKeyTypeIdentifier \<Rightarrow> EC_InvalidKey
           | BadKeyType _ \<Rightarrow> EC_InvalidKey
           | BadKeyLength _ _ \<Rightarrow> EC_InvalidKey
           | SessionNotFound \<Rightarrow> EC_SessionNotFound
           | FingerprintIdentifierMismatch \<Rightarrow> EC_FingerprintIdentifierMismatch
           | FingerprintVersionMismatch \<Rightarrow> EC_FingerprintVersionMismatch
           | CiphertextMessageTooShort _ \<Rightarrow> EC_InvalidCiphertext
           | InvalidCiphertext \<Rightarrow> EC_InvalidCiphertext
           | UnrecognizedMessageVersion _ \<Rightarrow> EC_UnrecognizedMessageVersion
           | UnrecognizedCiphertextVersion _ \<Rightarrow> EC_UnknownCiphertextVersion
           | InvalidMessage _ \<Rightarrow> EC_InvalidMessage
           | InvalidProtobufEncoding \<Rightarrow> EC_InvalidMessage
           | LegacyCiphertextVersion _ \<Rightarrow> EC_LegacyCiphertextVersion
           | UntrustedIdentity _ \<Rightarrow> EC_UntrustedIdentity
           | InvalidState _ _ \<Rightarrow> EC_InvalidState
           | NoSenderKeyState \<Rightarrow> EC_InvalidState
           | InvalidSessionStructure \<Rightarrow> EC_InvalidState
           | InvalidArgument _ \<Rightarrow> EC_InvalidArgument
           | _ \<Rightarrow> EC_UnknownError))"

definition SignalFfiError_fmt :: "SignalFfiError \<Rightarrow> string" where
  "SignalFfiError_fmt err =
     (case err of
        Signal s \<Rightarrow> SignalProtocolError_fmt s
      | CallbackError c \<Rightarrow> ''callback invocation returned error code '' @ decimal_signed c
      | NullPointer \<Rightarrow> ''null pointer''
      | InvalidType \<Rightarrow> ''invalid type''
      | InvalidUtf8String \<Rightarrow> ''invalid UTF8 string''
      | InsufficientOutputSize n h \<Rightarrow> ''needed '' @ decimal n @ '' elements only '' @ decimal h @ '' provided''
      | UnexpectedPanic e \<Rightarrow>
          (case e of Some s \<Rightarrow> ''unexpected panic: '' @ s | None \<Rightarrow> ''unknown unexpected panic''))"

section \<open>The memory\<close>

datatype ptr = Null | At nat

text \<open>The types whose values are handed out behind a handle.\<close>

datatype object =
    O_ProtocolAddress ProtocolAddress
  | O_PublicKey PublicKey
  | O_PrivateKey PrivateKey
  | O_SessionRecord SessionRecord
  | O_Fingerprint Fingerprint
  | O_SignalMessage SignalMessage
  | O_PreKeySignalMessage PreKeySignalMessage
  | O_SenderKeyMessage SenderKeyMessage
  | O_SenderKeyDistributionMessage SenderKeyDistributionMessage
  | O_PreKeyBundle PreKeyBundle
  | O_PreKeyRecord PreKeyRecord
  | O_SignedPreKeyRecord SignedPreKeyRecord
  | O_SenderKeyName SenderKeyName
  | O_SenderKeyRecord SenderKeyRecord
  | O_CiphertextMessage CiphertextMessage

text \<open>\<open>Boxed\<close>, \<open>BoxedError\<close>, \<open>BoxedSlice\<close> and \<open>CStringBox\<close> are boxes of the library, the others belong to the caller.\<close>

datatype (discs_sels) cell =
    Boxed object
  | BoxedError SignalFfiError
  | BoxedSlice bytes
  | CStringBox bytes
  | CallerBytes bytes
  | PtrVar ptr
  | U32Var u32
  | U64Var u64
  | SizeVar nat
  | I32Var i32
  | BoolVar bool
  | U8Var u8

text \<open>\<open>app\<close> is the state of the application that calls the library, which its callbacks read and write.\<close>

record 'a memory =
  heap :: "nat \<rightharpoonup> cell"
  next_address :: nat
  undefined_behaviour :: bool
  app :: 'a

type_synonym ('a, 'b) ffi = "('a memory, SignalFfiError, 'b) st"

definition UB :: "('a memory, 'e, 'b) st" where
  "UB m = (Panic, m\<lparr>undefined_behaviour := True\<rparr>)"

definition deref :: "ptr \<Rightarrow> ('a memory, 'e, cell) st" where
  "deref p m =
     (case p of Null \<Rightarrow> UB m
      | At a \<Rightarrow> (case heap m a of None \<Rightarrow> UB m | Some c \<Rightarrow> (Ok c, m)))"

text \<open>\<open>*p = v\<close>, where \<open>kind\<close> says what \<open>p\<close> may point to.\<close>

definition assign :: "(cell \<Rightarrow> bool) \<Rightarrow> ptr \<Rightarrow> cell \<Rightarrow> ('a memory, 'e, unit) st" where
  "assign kind p v m =
     (case p of Null \<Rightarrow> UB m
      | At a \<Rightarrow> (case heap m a of None \<Rightarrow> UB m
                 | Some c \<Rightarrow> if kind c then (Ok (), m\<lparr>heap := (heap m)(a \<mapsto> v)\<rparr>) else UB m))"

text \<open>\<open>Box::into_raw(Box::new(o))\<close> and its inverse, \<open>Box::from_raw\<close>, whose result is owned and dropped later.\<close>

definition alloc :: "cell \<Rightarrow> 'a memory \<Rightarrow> ptr \<times> 'a memory" where
  "alloc c m = (At (next_address m), m\<lparr>heap := (heap m)(next_address m \<mapsto> c), next_address := Suc (next_address m)\<rparr>)"

definition free :: "nat \<Rightarrow> 'a memory \<Rightarrow> 'a memory" where
  "free a m = m\<lparr>heap := (heap m)(a := None)\<rparr>"

definition box_into_raw :: "cell \<Rightarrow> ('a memory, 'e, ptr) st" where
  "box_into_raw c = sgen (alloc c)"

definition box_from_raw :: "(object \<Rightarrow> 't option) \<Rightarrow> ptr \<Rightarrow> ('a memory, 'e, 't) st" where
  "box_from_raw as p m =
     (case p of Null \<Rightarrow> UB m
      | At a \<Rightarrow> (case heap m a of
                   Some (Boxed o') \<Rightarrow> (case as o' of Some t \<Rightarrow> (Ok t, free a m) | None \<Rightarrow> UB m)
                 | _ \<Rightarrow> UB m))"

text \<open>The bytes that can be read at a pointer.\<close>

fun bytes_of :: "cell \<Rightarrow> bytes option" where
  "bytes_of (BoxedSlice bs) = Some bs"
| "bytes_of (CallerBytes bs) = Some bs"
| "bytes_of (CStringBox bs) = Some (bs @ [0])"
| "bytes_of _ = None"

text \<open>\<open>std::slice::from_raw_parts\<close>: the pointer is not null, and \<open>len\<close> bytes can be read there.\<close>

definition from_raw_parts :: "ptr \<Rightarrow> nat \<Rightarrow> ('a memory, 'e, bytes) st" where
  "from_raw_parts p len =
     (if p = Null then UB
      else if len = 0 then sret []
      else sbind (deref p) (\<lambda>c. case bytes_of c of
             Some bs \<Rightarrow> if len \<le> length bs then sret (take len bs) else UB
           | None \<Rightarrow> UB))"

section \<open>Results\<close>

text \<open>\<open>?\<close> on a result of the protocol library: \<open>From<SignalProtocolError> for SignalFfiError\<close>.\<close>

fun from_signal_error :: "'b sresult \<Rightarrow> (SignalFfiError, 'b) result" where
  "from_signal_error (Ok x) = Ok x"
| "from_signal_error (Err e) = Err (Signal e)"
| "from_signal_error Panic = Panic"

definition question_mark :: "('s, 'b) sst \<Rightarrow> ('s, SignalFfiError, 'b) st" where
  "question_mark m = (\<lambda>s. case m s of (x, s') \<Rightarrow> (from_signal_error x, s'))"

text \<open>The result of an operation as a value, to be looked at by \<open>box_object\<close> and the others; a panic goes on.\<close>

definition outcome :: "('s, 'b) sst \<Rightarrow> ('s, SignalFfiError, 'b sresult) st" where
  "outcome m = (\<lambda>s. case m s of (Panic, s') \<Rightarrow> (Panic, s') | (x, s') \<Rightarrow> (Ok x, s'))"

text \<open>
  Every function of the interface runs in \<open>run_ffi_safe\<close>, on the memory and the random generator of the
  operating system; \<open>payload\<close> is what \<open>catch_unwind\<close> gives for a panic. Futures are never pending here
  (\<open>expect_ready\<close>): every callback of the application answers when it is called.
\<close>

definition run_ffi_safe ::
    "string option \<Rightarrow> ('a memory \<times> 'r, SignalFfiError, unit) st \<Rightarrow> ('a memory \<times> 'r, SignalFfiError, ptr) st" where
  "run_ffi_safe payload f = (\<lambda>s.
     case f s of
       (Ok _, s') \<Rightarrow> (Ok Null, s')
     | (Err e, s') \<Rightarrow> on_fst (box_into_raw (BoxedError e)) s'
     | (Panic, s') \<Rightarrow> on_fst (box_into_raw (BoxedError (UnexpectedPanic payload))) s')"

section \<open>Conversions\<close>

text \<open>
  A result that is handed to one of these functions is computed before the call: when that panics, the
  function is not reached.
\<close>

definition box_object ::
    "('t \<Rightarrow> object) \<Rightarrow> ptr \<Rightarrow> 't sresult \<Rightarrow> ('a, unit) ffi" where
  "box_object obj p r =
     (if r = Panic then slift Panic
      else if p = Null then sthrow NullPointer
      else case r of
        Ok o' \<Rightarrow> sbind (box_into_raw (Boxed (obj o'))) (\<lambda>h. assign is_PtrVar p (PtrVar h))
      | Err e \<Rightarrow> sbind (assign is_PtrVar p (PtrVar Null)) (\<lambda>_. sthrow (Signal e))
      | Panic \<Rightarrow> slift Panic)"

definition box_optional_object ::
    "('t \<Rightarrow> object) \<Rightarrow> ptr \<Rightarrow> 't option sresult \<Rightarrow> ('a, unit) ffi" where
  "box_optional_object obj p r =
     (if r = Panic then slift Panic
      else if p = Null then sthrow NullPointer
      else case r of
        Ok (Some o') \<Rightarrow> sbind (box_into_raw (Boxed (obj o'))) (\<lambda>h. assign is_PtrVar p (PtrVar h))
      | Ok None \<Rightarrow> assign is_PtrVar p (PtrVar Null)
      | Err e \<Rightarrow> sbind (assign is_PtrVar p (PtrVar Null)) (\<lambda>_. sthrow (Signal e))
      | Panic \<Rightarrow> slift Panic)"

definition as_slice :: "ptr \<Rightarrow> nat \<Rightarrow> ('a, bytes) ffi" where
  "as_slice input input_len =
     (if input = Null then (if input_len \<noteq> 0 then sthrow NullPointer else sret [])
      else from_raw_parts input input_len)"

text \<open>A mutable slice stays a place in memory: its address and its length.\<close>

definition as_slice_mut :: "ptr \<Rightarrow> nat \<Rightarrow> ('a, ptr \<times> nat) ffi" where
  "as_slice_mut input input_len =
     (if input = Null then (if input_len \<noteq> 0 then sthrow NullPointer else sret (Null, 0))
      else sbind (from_raw_parts input input_len) (\<lambda>_. sret (input, input_len)))"

definition slice_copy_from_slice :: "ptr \<times> nat \<Rightarrow> bytes \<Rightarrow> ('a, unit) ffi" where
  "slice_copy_from_slice buf src =
     (case buf of (p, len) \<Rightarrow>
        if length src \<noteq> len then slift Panic
        else if len = 0 then sret ()
        else sbind (deref p) (\<lambda>c. case c of
               CallerBytes bs \<Rightarrow> assign is_CallerBytes p (CallerBytes (src @ drop len bs))
             | BoxedSlice bs \<Rightarrow> assign is_BoxedSlice p (BoxedSlice (src @ drop len bs))
             | _ \<Rightarrow> UB))"

text \<open>\<open>&*handle\<close> for a handle of the type that \<open>as\<close> recognises.\<close>

definition handle_ref :: "(object \<Rightarrow> 't option) \<Rightarrow> ptr \<Rightarrow> ('a memory, 'e, 't) st" where
  "handle_ref as p =
     sbind (deref p) (\<lambda>c. case c of
       Boxed o' \<Rightarrow> (case as o' of Some t \<Rightarrow> sret t | None \<Rightarrow> UB)
     | _ \<Rightarrow> UB)"

definition native_handle_cast_optional :: "(object \<Rightarrow> 't option) \<Rightarrow> ptr \<Rightarrow> ('a, 't option) ffi" where
  "native_handle_cast_optional as handle =
     (if handle = Null then sret None else sbind (handle_ref as handle) (\<lambda>t. sret (Some t)))"

definition native_handle_cast :: "(object \<Rightarrow> 't option) \<Rightarrow> ptr \<Rightarrow> ('a, 't) ffi" where
  "native_handle_cast as handle = (if handle = Null then sthrow NullPointer else handle_ref as handle)"

text \<open>
  \<open>native_handle_cast_mut\<close> gives the object to be changed in place: the continuation returns it changed, and
  it is written back to the box, also when the continuation fails.
\<close>

definition native_handle_cast_mut ::
    "(object \<Rightarrow> 't option) \<Rightarrow> ('t \<Rightarrow> object) \<Rightarrow> ptr \<Rightarrow> ('t \<Rightarrow> (SignalFfiError, 'b) result \<times> 't) \<Rightarrow> ('a, 'b) ffi" where
  "native_handle_cast_mut as obj handle f =
     (if handle = Null then sthrow NullPointer
      else sbind (handle_ref as handle) (\<lambda>t. case f t of (x, t') \<Rightarrow>
             sbind (assign is_Boxed handle (Boxed (obj t'))) (\<lambda>_. slift x)))"

definition get_optional_uint32 :: "ptr \<Rightarrow> ('a, u32 option) ffi" where
  "get_optional_uint32 p =
     (if p = Null then sret None
      else sbind (deref p) (\<lambda>c. case c of
             U32Var n \<Rightarrow> (if n = 0xFFFFFFFF then sret None else sret (Some n))
           | _ \<Rightarrow> UB))"

subsection \<open>Strings\<close>

definition continuation_byte :: "u8 \<Rightarrow> bool" where
  "continuation_byte b \<longleftrightarrow> 0x80 \<le> b \<and> b \<le> 0xBF"

text \<open>Well-formed UTF-8, as \<open>std::str::from_utf8\<close> checks it: no overlong forms, no surrogates, at most U+10FFFF.\<close>

fun valid_utf8 :: "bytes \<Rightarrow> bool" where
  "valid_utf8 [] = True"
| "valid_utf8 (a # bs) =
     (if a < 0x80 then valid_utf8 bs
      else case bs of
        [] \<Rightarrow> False
      | b # cs \<Rightarrow>
          if 0xC2 \<le> a \<and> a \<le> 0xDF then continuation_byte b \<and> valid_utf8 cs
          else case cs of
            [] \<Rightarrow> False
          | c # ds \<Rightarrow>
              if 0xE0 \<le> a \<and> a \<le> 0xEF then
                continuation_byte b \<and> (a = 0xE0 \<longrightarrow> 0xA0 \<le> b) \<and> (a = 0xED \<longrightarrow> b \<le> 0x9F) \<and> continuation_byte c \<and> valid_utf8 ds
              else case ds of
                [] \<Rightarrow> False
              | d # es \<Rightarrow>
                  0xF0 \<le> a \<and> a \<le> 0xF4 \<and> continuation_byte b \<and> (a = 0xF0 \<longrightarrow> 0x90 \<le> b) \<and> (a = 0xF4 \<longrightarrow> b \<le> 0x8F) \<and>
                  continuation_byte c \<and> continuation_byte d \<and> valid_utf8 es)"

definition string_of_bytes :: "bytes \<Rightarrow> string" where
  "string_of_bytes bs = map (\<lambda>b. char_of (unat b)) bs"

text \<open>\<open>CStr::from_ptr\<close> reads up to the first zero byte, which must exist.\<close>

definition read_c_string :: "ptr \<Rightarrow> ('a, string) ffi" where
  "read_c_string cstr =
     (if cstr = Null then sthrow NullPointer
      else sbind (deref cstr) (\<lambda>c. case bytes_of c of
             None \<Rightarrow> UB
           | Some bs \<Rightarrow>
               if 0 \<notin> set bs then UB
               else let s = takeWhile (\<lambda>b. b \<noteq> 0) bs in
                 if valid_utf8 s then sret (string_of_bytes s) else sthrow InvalidUtf8String))"

text \<open>\<open>CString::new\<close> refuses a string with a zero byte inside, and \<open>expect\<close> panics then.\<close>

definition write_cstr_to :: "ptr \<Rightarrow> string sresult \<Rightarrow> ('a, unit) ffi" where
  "write_cstr_to out value =
     (if value = Panic then slift Panic
      else if out = Null then sthrow NullPointer
      else case value of
        Ok value \<Rightarrow>
          if 0 \<in> set (ascii value) then slift Panic
          else sbind (box_into_raw (CStringBox (ascii value))) (\<lambda>h. assign is_PtrVar out (PtrVar h))
      | Err e \<Rightarrow> sthrow (Signal e)
      | Panic \<Rightarrow> slift Panic)"

subsection \<open>Numbers and byte strings\<close>

definition write_uint32_to :: "ptr \<Rightarrow> u32 sresult \<Rightarrow> ('a, unit) ffi" where
  "write_uint32_to out value =
     (if value = Panic then slift Panic
      else if out = Null then sthrow NullPointer
      else case value of
        Ok value \<Rightarrow> assign is_U32Var out (U32Var value)
      | Err e \<Rightarrow> sthrow (Signal e)
      | Panic \<Rightarrow> slift Panic)"

definition write_optional_uint32_to :: "ptr \<Rightarrow> u32 option sresult \<Rightarrow> ('a, unit) ffi" where
  "write_optional_uint32_to out value =
     (if value = Panic then slift Panic
      else if out = Null then sthrow NullPointer
      else case value of
        Ok value \<Rightarrow>
          let value = (case value of None \<Rightarrow> 0xFFFFFFFF | Some n \<Rightarrow> n) in assign is_U32Var out (U32Var value)
      | Err e \<Rightarrow> sthrow (Signal e)
      | Panic \<Rightarrow> slift Panic)"

definition write_uint64_to :: "ptr \<Rightarrow> u64 sresult \<Rightarrow> ('a, unit) ffi" where
  "write_uint64_to out value =
     (if value = Panic then slift Panic
      else if out = Null then sthrow NullPointer
      else case value of
        Ok value \<Rightarrow> assign is_U64Var out (U64Var value)
      | Err e \<Rightarrow> sthrow (Signal e)
      | Panic \<Rightarrow> slift Panic)"

definition write_bytearray_to :: "ptr \<Rightarrow> ptr \<Rightarrow> bytes sresult \<Rightarrow> ('a, unit) ffi" where
  "write_bytearray_to out out_len value =
     (if value = Panic then slift Panic
      else if out = Null \<or> out_len = Null then sthrow NullPointer
      else case value of
        Ok value \<Rightarrow>
          sbind (assign is_SizeVar out_len (SizeVar (length value))) (\<lambda>_.
          sbind (box_into_raw (BoxedSlice value)) (\<lambda>mem.
          assign is_PtrVar out (PtrVar mem)))
      | Err e \<Rightarrow> sthrow (Signal e)
      | Panic \<Rightarrow> slift Panic)"

section \<open>The templates\<close>

text \<open>
  One definition for every macro that makes a function of the interface; \<open>as\<close> and \<open>obj\<close> stand for the type
  argument of the macro, \<open>body\<close> for its expression.
\<close>

definition ffi_fn_deserialize ::
    "string option \<Rightarrow> ('t \<Rightarrow> object) \<Rightarrow> (bytes \<Rightarrow> 't sresult) \<Rightarrow> ptr \<Rightarrow> ptr \<Rightarrow> nat
       \<Rightarrow> ('a memory \<times> 'r, SignalFfiError, ptr) st" where
  "ffi_fn_deserialize payload obj func p data data_len =
     run_ffi_safe payload (on_fst (
       if data = Null then sthrow NullPointer
       else sbind (from_raw_parts data data_len) (\<lambda>data. box_object obj p (func data))))"

definition ffi_fn_get_new_boxed_obj ::
    "string option \<Rightarrow> (object \<Rightarrow> 't option) \<Rightarrow> ('u \<Rightarrow> object) \<Rightarrow> ('t \<Rightarrow> 'u sresult) \<Rightarrow> ptr \<Rightarrow> ptr
       \<Rightarrow> ('a memory \<times> 'r, SignalFfiError, ptr) st" where
  "ffi_fn_get_new_boxed_obj payload as obj body new_obj p =
     run_ffi_safe payload (on_fst (
       sbind (native_handle_cast as p) (\<lambda>t. box_object obj new_obj (body t))))"

definition ffi_fn_clone ::
    "string option \<Rightarrow> (object \<Rightarrow> 't option) \<Rightarrow> ('t \<Rightarrow> object) \<Rightarrow> ptr \<Rightarrow> ptr
       \<Rightarrow> ('a memory \<times> 'r, SignalFfiError, ptr) st" where
  "ffi_fn_clone payload as obj new_obj p =
     run_ffi_safe payload (on_fst (
       sbind (native_handle_cast as p) (\<lambda>t. box_object obj new_obj (Ok t))))"

definition ffi_fn_get_new_boxed_optional_obj ::
    "string option \<Rightarrow> (object \<Rightarrow> 't option) \<Rightarrow> ('u \<Rightarrow> object) \<Rightarrow> ('t \<Rightarrow> 'u option sresult) \<Rightarrow> ptr \<Rightarrow> ptr
       \<Rightarrow> ('a memory \<times> 'r, SignalFfiError, ptr) st" where
  "ffi_fn_get_new_boxed_optional_obj payload as obj body new_obj p =
     run_ffi_safe payload (on_fst (
       sbind (native_handle_cast as p) (\<lambda>t. box_optional_object obj new_obj (body t))))"

definition ffi_fn_get_uint32 ::
    "string option \<Rightarrow> (object \<Rightarrow> 't option) \<Rightarrow> ('t \<Rightarrow> u32 sresult) \<Rightarrow> ptr \<Rightarrow> ptr
       \<Rightarrow> ('a memory \<times> 'r, SignalFfiError, ptr) st" where
  "ffi_fn_get_uint32 payload as body p out =
     run_ffi_safe payload (on_fst (
       sbind (native_handle_cast as p) (\<lambda>t. write_uint32_to out (body t))))"

definition ffi_fn_get_optional_uint32 ::
    "string option \<Rightarrow> (object \<Rightarrow> 't option) \<Rightarrow> ('t \<Rightarrow> u32 option sresult) \<Rightarrow> ptr \<Rightarrow> ptr
       \<Rightarrow> ('a memory \<times> 'r, SignalFfiError, ptr) st" where
  "ffi_fn_get_optional_uint32 payload as body p out =
     run_ffi_safe payload (on_fst (
       sbind (native_handle_cast as p) (\<lambda>t. write_optional_uint32_to out (body t))))"

definition ffi_fn_get_uint64 ::
    "string option \<Rightarrow> (object \<Rightarrow> 't option) \<Rightarrow> ('t \<Rightarrow> u64 sresult) \<Rightarrow> ptr \<Rightarrow> ptr
       \<Rightarrow> ('a memory \<times> 'r, SignalFfiError, ptr) st" where
  "ffi_fn_get_uint64 payload as body p out =
     run_ffi_safe payload (on_fst (
       sbind (native_handle_cast as p) (\<lambda>t. write_uint64_to out (body t))))"

definition ffi_fn_get_bytearray ::
    "string option \<Rightarrow> (object \<Rightarrow> 't option) \<Rightarrow> ('t \<Rightarrow> bytes sresult) \<Rightarrow> ptr \<Rightarrow> ptr \<Rightarrow> ptr
       \<Rightarrow> ('a memory \<times> 'r, SignalFfiError, ptr) st" where
  "ffi_fn_get_bytearray payload as body p out out_len =
     run_ffi_safe payload (on_fst (
       sbind (native_handle_cast as p) (\<lambda>t. write_bytearray_to out out_len (body t))))"

definition ffi_fn_get_cstring ::
    "string option \<Rightarrow> (object \<Rightarrow> 't option) \<Rightarrow> ('t \<Rightarrow> string sresult) \<Rightarrow> ptr \<Rightarrow> ptr
       \<Rightarrow> ('a memory \<times> 'r, SignalFfiError, ptr) st" where
  "ffi_fn_get_cstring payload as body p out =
     run_ffi_safe payload (on_fst (
       sbind (native_handle_cast as p) (\<lambda>t. write_cstr_to out (body t))))"

definition ffi_fn_destroy ::
    "string option \<Rightarrow> (object \<Rightarrow> 't option) \<Rightarrow> ptr \<Rightarrow> ('a memory \<times> 'r, SignalFfiError, ptr) st" where
  "ffi_fn_destroy payload as p =
     run_ffi_safe payload (on_fst (
       if p \<noteq> Null then sbind (box_from_raw as p) (\<lambda>_. sret ()) else sret ()))"

end
