(* ===== verification/Ffi.thy ===== *)
theory Ffi
  imports Ffi_Memory
begin

text \<open>
  Model of \<open>rust/bridge/ffi/src/lib.rs\<close>, the functions that a C or Swift program calls, as far as they do not
  call back into the application: errors, key derivation, addresses, keys, records, fingerprints, messages,
  bundles and names. The functions are in the order of the source; one that comes from a macro is its template
  of \<open>Ffi_Memory\<close> applied to the expression that the source gives.
\<close>

section \<open>Parameters\<close>

text \<open>
  What the functions need from outside: the cryptographic crates, the encoders that prost generates, and the
  payload of a panic.
\<close>

record ('sc, 'pt, 'r) ffi_env =
  panic_payload :: "string option"
  env_crypto :: "('sc, 'pt, 'r) crypto"
  env_IdentityKeyPair :: "IdentityKeyPairStructure prost"
  env_Record :: "RecordStructure prost"
  env_CombinedFingerprints :: "CombinedFingerprints prost"
  env_SignalMessage :: "wire_SignalMessage prost"
  env_PreKeySignalMessage :: "wire_PreKeySignalMessage prost"
  env_SenderKeyMessage :: "wire_SenderKeyMessage prost"
  env_SenderKeyDistributionMessage :: "wire_SenderKeyDistributionMessage prost"
  env_SignedPreKeyRecord :: "SignedPreKeyRecordStructure prost"
  env_PreKeyRecord :: "PreKeyRecordStructure prost"
  env_SenderKeyRecord :: "SenderKeyRecordStructure prost"

type_synonym ('a, 'r) call = "('a memory \<times> 'r, SignalFfiError, ptr) st"

text \<open>The types of the handles.\<close>

definition as_ProtocolAddress :: "object \<Rightarrow> ProtocolAddress option" where
  "as_ProtocolAddress x = (case x of O_ProtocolAddress t \<Rightarrow> Some t | _ \<Rightarrow> None)"

definition as_PublicKey :: "object \<Rightarrow> PublicKey option" where
  "as_PublicKey x = (case x of O_PublicKey t \<Rightarrow> Some t | _ \<Rightarrow> None)"

definition as_PrivateKey :: "object \<Rightarrow> PrivateKey option" where
  "as_PrivateKey x = (case x of O_PrivateKey t \<Rightarrow> Some t | _ \<Rightarrow> None)"

definition as_SessionRecord :: "object \<Rightarrow> SessionRecord option" where
  "as_SessionRecord x = (case x of O_SessionRecord t \<Rightarrow> Some t | _ \<Rightarrow> None)"

definition as_Fingerprint :: "object \<Rightarrow> Fingerprint option" where
  "as_Fingerprint x = (case x of O_Fingerprint t \<Rightarrow> Some t | _ \<Rightarrow> None)"

definition as_SignalMessage :: "object \<Rightarrow> SignalMessage option" where
  "as_SignalMessage x = (case x of O_SignalMessage t \<Rightarrow> Some t | _ \<Rightarrow> None)"

definition as_PreKeySignalMessage :: "object \<Rightarrow> PreKeySignalMessage option" where
  "as_PreKeySignalMessage x = (case x of O_PreKeySignalMessage t \<Rightarrow> Some t | _ \<Rightarrow> None)"

definition as_SenderKeyMessage :: "object \<Rightarrow> SenderKeyMessage option" where
  "as_SenderKeyMessage x = (case x of O_SenderKeyMessage t \<Rightarrow> Some t | _ \<Rightarrow> None)"

definition as_SenderKeyDistributionMessage :: "object \<Rightarrow> SenderKeyDistributionMessage option" where
  "as_SenderKeyDistributionMessage x = (case x of O_SenderKeyDistributionMessage t \<Rightarrow> Some t | _ \<Rightarrow> None)"

definition as_PreKeyBundle :: "object \<Rightarrow> PreKeyBundle option" where
  "as_PreKeyBundle x = (case x of O_PreKeyBundle t \<Rightarrow> Some t | _ \<Rightarrow> None)"

definition as_PreKeyRecord :: "object \<Rightarrow> PreKeyRecord option" where
  "as_PreKeyRecord x = (case x of O_PreKeyRecord t \<Rightarrow> Some t | _ \<Rightarrow> None)"

definition as_SignedPreKeyRecord :: "object \<Rightarrow> SignedPreKeyRecord option" where
  "as_SignedPreKeyRecord x = (case x of O_SignedPreKeyRecord t \<Rightarrow> Some t | _ \<Rightarrow> None)"

definition as_SenderKeyName :: "object \<Rightarrow> SenderKeyName option" where
  "as_SenderKeyName x = (case x of O_SenderKeyName t \<Rightarrow> Some t | _ \<Rightarrow> None)"

definition as_SenderKeyRecord :: "object \<Rightarrow> SenderKeyRecord option" where
  "as_SenderKeyRecord x = (case x of O_SenderKeyRecord t \<Rightarrow> Some t | _ \<Rightarrow> None)"

definition as_CiphertextMessage :: "object \<Rightarrow> CiphertextMessage option" where
  "as_CiphertextMessage x = (case x of O_CiphertextMessage t \<Rightarrow> Some t | _ \<Rightarrow> None)"

section \<open>Freeing and errors\<close>

definition signal_free_string :: "ptr \<Rightarrow> ('a memory, 'e, unit) st" where
  "signal_free_string buf =
     (if buf = Null then sret ()
      else sbind (deref buf) (\<lambda>c. case (buf, c) of
             (At a, CStringBox _) \<Rightarrow> (\<lambda>m. (Ok (), free a m))
           | _ \<Rightarrow> UB))"

definition signal_free_buffer :: "ptr \<Rightarrow> nat \<Rightarrow> ('a memory, 'e, unit) st" where
  "signal_free_buffer buf buf_len =
     (if buf = Null then sret ()
      else sbind (deref buf) (\<lambda>c. case (buf, c) of
             (At a, BoxedSlice bs) \<Rightarrow> if length bs = buf_len then (\<lambda>m. (Ok (), free a m)) else UB
           | _ \<Rightarrow> UB))"

text \<open>\<open>&*err\<close>.\<close>

definition error_ref :: "ptr \<Rightarrow> ('a memory, 'e, SignalFfiError) st" where
  "error_ref err = sbind (deref err) (\<lambda>c. case c of BoxedError e \<Rightarrow> sret e | _ \<Rightarrow> UB)"

text \<open>This function does not run in \<open>run_ffi_safe\<close>.\<close>

definition signal_error_get_message :: "ptr \<Rightarrow> ptr \<Rightarrow> ('a memory, SignalFfiError, ptr) st" where
  "signal_error_get_message err out = (\<lambda>m.
     case (if err = Null then sthrow NullPointer
           else sbind (error_ref err) (\<lambda>e. write_cstr_to out (Ok (SignalFfiError_fmt e)))) m of
       (Ok _, m') \<Rightarrow> (Ok Null, m')
     | (Err e, m') \<Rightarrow> box_into_raw (BoxedError e) m'
     | (Panic, m') \<Rightarrow> (Panic, m'))"

definition signal_error_get_type :: "ptr \<Rightarrow> ('a memory, 'e, u32) st" where
  "signal_error_get_type err =
     (if err = Null then sret 0
      else sbind (error_ref err) (\<lambda>e. sret (SignalErrorCode_value (SignalErrorCode_from e))))"

definition signal_error_free :: "ptr \<Rightarrow> ('a memory, 'e, unit) st" where
  "signal_error_free err =
     (case err of
        Null \<Rightarrow> sret ()
      | At a \<Rightarrow> sbind (error_ref err) (\<lambda>_. (\<lambda>m. (Ok (), free a m))))"

section \<open>Key derivation\<close>

definition signal_hkdf_derive ::
    "('sc, 'pt, 'r) ffi_env \<Rightarrow> ptr \<Rightarrow> nat \<Rightarrow> i32 \<Rightarrow> ptr \<Rightarrow> nat \<Rightarrow> ptr \<Rightarrow> nat \<Rightarrow> ptr \<Rightarrow> nat \<Rightarrow> ('a, 'r) call" where
  "signal_hkdf_derive E output output_length version input_key_material input_key_material_len salt salt_len info info_len =
     run_ffi_safe (panic_payload E) (on_fst (
       if input_key_material = Null then sthrow NullPointer
       else sbind (as_slice_mut output output_length) (\<lambda>output_buffer.
            sbind (as_slice input_key_material input_key_material_len) (\<lambda>input_key_material.
            sbind (as_slice salt salt_len) (\<lambda>salt.
            sbind (as_slice info info_len) (\<lambda>info.
            sbind (question_mark (slift (HKDF_new version))) (\<lambda>hkdf.
            sbind (question_mark (slift
              (HKDF_derive_salted_secrets (env_crypto E) hkdf input_key_material salt info output_length))) (\<lambda>kdf_output.
            slice_copy_from_slice output_buffer kdf_output))))))))"

section \<open>Addresses\<close>

definition signal_address_new :: "('sc, 'pt, 'r) ffi_env \<Rightarrow> ptr \<Rightarrow> ptr \<Rightarrow> u32 \<Rightarrow> ('a, 'r) call" where
  "signal_address_new E address name device_id =
     run_ffi_safe (panic_payload E) (on_fst (
       sbind (read_c_string name) (\<lambda>name.
       box_object O_ProtocolAddress address (Ok \<lparr>pa_name = name, pa_device_id = device_id\<rparr>))))"

definition signal_address_get_name ::
    "('sc, 'pt, 'r) ffi_env \<Rightarrow> ptr \<Rightarrow> ptr \<Rightarrow> ('a, 'r) call" where
  "signal_address_get_name E obj out =
     ffi_fn_get_cstring (panic_payload E) as_ProtocolAddress (\<lambda>p. Ok (pa_name p)) obj out"

definition signal_address_get_device_id ::
    "('sc, 'pt, 'r) ffi_env \<Rightarrow> ptr \<Rightarrow> ptr \<Rightarrow> ('a, 'r) call" where
  "signal_address_get_device_id E obj out =
     ffi_fn_get_uint32 (panic_payload E) as_ProtocolAddress (\<lambda>obj. Ok (pa_device_id obj)) obj out"

definition signal_address_destroy ::
    "('sc, 'pt, 'r) ffi_env \<Rightarrow> ptr \<Rightarrow> ('a, 'r) call" where
  "signal_address_destroy E p =
     ffi_fn_destroy (panic_payload E) as_ProtocolAddress p"

definition signal_address_clone ::
    "('sc, 'pt, 'r) ffi_env \<Rightarrow> ptr \<Rightarrow> ptr \<Rightarrow> ('a, 'r) call" where
  "signal_address_clone E new_obj obj =
     ffi_fn_clone (panic_payload E) as_ProtocolAddress O_ProtocolAddress new_obj obj"

section \<open>Public keys\<close>

definition signal_publickey_deserialize ::
    "('sc, 'pt, 'r) ffi_env \<Rightarrow> ptr \<Rightarrow> ptr \<Rightarrow> nat \<Rightarrow> ('a, 'r) call" where
  "signal_publickey_deserialize E p data data_len =
     ffi_fn_deserialize (panic_payload E) O_PublicKey (PublicKey_deserialize) p data data_len"

definition signal_publickey_serialize ::
    "('sc, 'pt, 'r) ffi_env \<Rightarrow> ptr \<Rightarrow> ptr \<Rightarrow> ptr \<Rightarrow> ('a, 'r) call" where
  "signal_publickey_serialize E obj out out_len =
     ffi_fn_get_bytearray (panic_payload E) as_PublicKey (\<lambda>k. Ok (PublicKey_serialize k)) obj out out_len"

definition signal_publickey_get_public_key_bytes ::
    "('sc, 'pt, 'r) ffi_env \<Rightarrow> ptr \<Rightarrow> ptr \<Rightarrow> ptr \<Rightarrow> ('a, 'r) call" where
  "signal_publickey_get_public_key_bytes E obj out out_len =
     ffi_fn_get_bytearray (panic_payload E) as_PublicKey (\<lambda>k. PublicKey_public_key_bytes k) obj out out_len"

text \<open>The functions that write \<open>*result\<close> directly do not look whether \<open>result\<close> is null.\<close>

definition signal_publickey_compare :: "('sc, 'pt, 'r) ffi_env \<Rightarrow> ptr \<Rightarrow> ptr \<Rightarrow> ptr \<Rightarrow> ('a, 'r) call" where
  "signal_publickey_compare E result key1 key2 =
     run_ffi_safe (panic_payload E) (on_fst (
       sbind (native_handle_cast as_PublicKey key1) (\<lambda>key1.
       sbind (native_handle_cast as_PublicKey key2) (\<lambda>key2.
       assign is_I32Var result (I32Var (case PublicKey_cmp key1 key2 of Less \<Rightarrow> - 1 | Equal \<Rightarrow> 0 | Greater \<Rightarrow> 1))))))"

definition signal_publickey_verify ::
    "('sc, 'pt, 'r) ffi_env \<Rightarrow> ptr \<Rightarrow> ptr \<Rightarrow> ptr \<Rightarrow> nat \<Rightarrow> ptr \<Rightarrow> nat \<Rightarrow> ('a, 'r) call" where
  "signal_publickey_verify E key result message message_len signature signature_len =
     run_ffi_safe (panic_payload E) (on_fst (
       sbind (assign is_BoolVar result (BoolVar False)) (\<lambda>_.
       sbind (native_handle_cast as_PublicKey key) (\<lambda>key.
       sbind (as_slice message message_len) (\<lambda>message.
       sbind (as_slice signature signature_len) (\<lambda>signature.
       sbind (question_mark (slift (PublicKey_verify_signature (env_crypto E) key message signature))) (\<lambda>valid.
       assign is_BoolVar result (BoolVar valid))))))))"

definition signal_publickey_destroy ::
    "('sc, 'pt, 'r) ffi_env \<Rightarrow> ptr \<Rightarrow> ('a, 'r) call" where
  "signal_publickey_destroy E p =
     ffi_fn_destroy (panic_payload E) as_PublicKey p"

definition signal_publickey_clone ::
    "('sc, 'pt, 'r) ffi_env \<Rightarrow> ptr \<Rightarrow> ptr \<Rightarrow> ('a, 'r) call" where
  "signal_publickey_clone E new_obj obj =
     ffi_fn_clone (panic_payload E) as_PublicKey O_PublicKey new_obj obj"

section \<open>Private keys\<close>

definition signal_privatekey_deserialize ::
    "('sc, 'pt, 'r) ffi_env \<Rightarrow> ptr \<Rightarrow> ptr \<Rightarrow> nat \<Rightarrow> ('a, 'r) call" where
  "signal_privatekey_deserialize E p data data_len =
     ffi_fn_deserialize (panic_payload E) O_PrivateKey (PrivateKey_deserialize) p data data_len"

definition signal_privatekey_serialize ::
    "('sc, 'pt, 'r) ffi_env \<Rightarrow> ptr \<Rightarrow> ptr \<Rightarrow> ptr \<Rightarrow> ('a, 'r) call" where
  "signal_privatekey_serialize E obj out out_len =
     ffi_fn_get_bytearray (panic_payload E) as_PrivateKey (\<lambda>k. Ok (PrivateKey_serialize k)) obj out out_len"

definition signal_privatekey_generate :: "('sc, 'pt, 'r) ffi_env \<Rightarrow> ptr \<Rightarrow> ('a, 'r) call" where
  "signal_privatekey_generate E key =
     run_ffi_safe (panic_payload E) (
       sbind (on_snd (sgen (KeyPair_generate (env_crypto E)))) (\<lambda>keypair.
       on_fst (box_object O_PrivateKey key (Ok (kp_private_key keypair)))))"

definition signal_privatekey_get_public_key ::
    "('sc, 'pt, 'r) ffi_env \<Rightarrow> ptr \<Rightarrow> ptr \<Rightarrow> ('a, 'r) call" where
  "signal_privatekey_get_public_key E new_obj obj =
     ffi_fn_get_new_boxed_obj (panic_payload E) as_PrivateKey O_PublicKey (\<lambda>k. PrivateKey_public_key (env_crypto E) k) new_obj obj"

definition signal_privatekey_sign ::
    "('sc, 'pt, 'r) ffi_env \<Rightarrow> ptr \<Rightarrow> ptr \<Rightarrow> ptr \<Rightarrow> ptr \<Rightarrow> nat \<Rightarrow> ('a, 'r) call" where
  "signal_privatekey_sign E signature signature_len key message message_len =
     run_ffi_safe (panic_payload E) (
       sbind (on_fst (as_slice message message_len)) (\<lambda>message.
       sbind (on_fst (native_handle_cast as_PrivateKey key)) (\<lambda>key.
       sbind (on_snd (outcome (PrivateKey_calculate_signature (env_crypto E) key message))) (\<lambda>sig.
       on_fst (write_bytearray_to signature signature_len sig)))))"

definition signal_privatekey_agree ::
    "('sc, 'pt, 'r) ffi_env \<Rightarrow> ptr \<Rightarrow> ptr \<Rightarrow> ptr \<Rightarrow> ptr \<Rightarrow> ('a, 'r) call" where
  "signal_privatekey_agree E shared_secret shared_secret_len private_key public_key =
     run_ffi_safe (panic_payload E) (on_fst (
       sbind (native_handle_cast as_PrivateKey private_key) (\<lambda>private_key.
       sbind (native_handle_cast as_PublicKey public_key) (\<lambda>public_key.
       write_bytearray_to shared_secret shared_secret_len
         (PrivateKey_calculate_agreement (env_crypto E) private_key public_key)))))"

definition signal_privatekey_destroy ::
    "('sc, 'pt, 'r) ffi_env \<Rightarrow> ptr \<Rightarrow> ('a, 'r) call" where
  "signal_privatekey_destroy E p =
     ffi_fn_destroy (panic_payload E) as_PrivateKey p"

definition signal_privatekey_clone ::
    "('sc, 'pt, 'r) ffi_env \<Rightarrow> ptr \<Rightarrow> ptr \<Rightarrow> ('a, 'r) call" where
  "signal_privatekey_clone E new_obj obj =
     ffi_fn_clone (panic_payload E) as_PrivateKey O_PrivateKey new_obj obj"

definition signal_identitykeypair_serialize ::
    "('sc, 'pt, 'r) ffi_env \<Rightarrow> ptr \<Rightarrow> ptr \<Rightarrow> ptr \<Rightarrow> ptr \<Rightarrow> ('a, 'r) call" where
  "signal_identitykeypair_serialize E output output_len private_key public_key =
     run_ffi_safe (panic_payload E) (on_fst (
       sbind (native_handle_cast as_PrivateKey private_key) (\<lambda>private_key.
       sbind (native_handle_cast as_PublicKey public_key) (\<lambda>public_key.
       let identity_key_pair = \<lparr>ikp_identity_key = IdentityKey public_key, ikp_private_key = private_key\<rparr> in
       write_bytearray_to output output_len
         (Ok (IdentityKeyPair_serialize (env_IdentityKeyPair E) identity_key_pair))))))"

definition signal_identitykeypair_deserialize ::
    "('sc, 'pt, 'r) ffi_env \<Rightarrow> ptr \<Rightarrow> ptr \<Rightarrow> ptr \<Rightarrow> nat \<Rightarrow> ('a, 'r) call" where
  "signal_identitykeypair_deserialize E private_key public_key input input_len =
     run_ffi_safe (panic_payload E) (on_fst (
       sbind (as_slice input input_len) (\<lambda>input.
       sbind (question_mark (slift (IdentityKeyPair_try_from (env_IdentityKeyPair E) input))) (\<lambda>identity_key_pair.
       sbind (box_object O_PublicKey public_key (Ok (ik_public_key (ikp_identity_key identity_key_pair)))) (\<lambda>_.
       box_object O_PrivateKey private_key (Ok (ikp_private_key identity_key_pair)))))))"

section \<open>Session records\<close>

definition signal_session_record_deserialize ::
    "('sc, 'pt, 'r) ffi_env \<Rightarrow> ptr \<Rightarrow> ptr \<Rightarrow> nat \<Rightarrow> ('a, 'r) call" where
  "signal_session_record_deserialize E p data data_len =
     ffi_fn_deserialize (panic_payload E) O_SessionRecord (SessionRecord_deserialize (env_Record E)) p data data_len"

definition signal_session_record_serialize ::
    "('sc, 'pt, 'r) ffi_env \<Rightarrow> ptr \<Rightarrow> ptr \<Rightarrow> ptr \<Rightarrow> ('a, 'r) call" where
  "signal_session_record_serialize E obj out out_len =
     ffi_fn_get_bytearray (panic_payload E) as_SessionRecord (\<lambda>s. SessionRecord_serialize (env_Record E) s) obj out out_len"

definition signal_session_record_get_remote_registration_id ::
    "('sc, 'pt, 'r) ffi_env \<Rightarrow> ptr \<Rightarrow> ptr \<Rightarrow> ('a, 'r) call" where
  "signal_session_record_get_remote_registration_id E obj out =
     ffi_fn_get_uint32 (panic_payload E) as_SessionRecord (\<lambda>s. rbind (session_state s) remote_registration_id) obj out"

definition signal_session_record_archive_current_state :: "('sc, 'pt, 'r) ffi_env \<Rightarrow> ptr \<Rightarrow> ('a, 'r) call" where
  "signal_session_record_archive_current_state E session_record =
     run_ffi_safe (panic_payload E) (on_fst (
       native_handle_cast_mut as_SessionRecord O_SessionRecord session_record (\<lambda>session_record.
         case archive_current_state session_record of
           Ok session_record' \<Rightarrow> (Ok (), session_record')
         | Err e \<Rightarrow> (Err (Signal e), session_record)
         | Panic \<Rightarrow> (Panic, session_record))))"

definition signal_session_record_destroy ::
    "('sc, 'pt, 'r) ffi_env \<Rightarrow> ptr \<Rightarrow> ('a, 'r) call" where
  "signal_session_record_destroy E p =
     ffi_fn_destroy (panic_payload E) as_SessionRecord p"

definition signal_session_record_clone ::
    "('sc, 'pt, 'r) ffi_env \<Rightarrow> ptr \<Rightarrow> ptr \<Rightarrow> ('a, 'r) call" where
  "signal_session_record_clone E new_obj obj =
     ffi_fn_clone (panic_payload E) as_SessionRecord O_SessionRecord new_obj obj"

section \<open>Fingerprints\<close>

definition signal_fingerprint_format ::
    "('sc, 'pt, 'r) ffi_env \<Rightarrow> ptr \<Rightarrow> ptr \<Rightarrow> nat \<Rightarrow> ptr \<Rightarrow> nat \<Rightarrow> ('a, 'r) call" where
  "signal_fingerprint_format E fprint local local_len remote remote_len =
     run_ffi_safe (panic_payload E) (on_fst (
       sbind (as_slice local local_len) (\<lambda>local.
       sbind (as_slice remote remote_len) (\<lambda>remote.
       write_cstr_to fprint (rbind (DisplayableFingerprint_new local remote) (\<lambda>f. Ok (DisplayableFingerprint_fmt f)))))))"

definition signal_fingerprint_new ::
    "('sc, 'pt, 'r) ffi_env \<Rightarrow> ptr \<Rightarrow> u32 \<Rightarrow> u32 \<Rightarrow> ptr \<Rightarrow> nat \<Rightarrow> ptr \<Rightarrow> ptr \<Rightarrow> nat \<Rightarrow> ptr \<Rightarrow> ('a, 'r) call" where
  "signal_fingerprint_new E obj iterations version local_identifier local_identifier_len local_key
       remote_identifier remote_identifier_len remote_key =
     run_ffi_safe (panic_payload E) (on_fst (
       sbind (as_slice local_identifier local_identifier_len) (\<lambda>local_identifier.
       sbind (native_handle_cast as_PublicKey local_key) (\<lambda>local_key.
       sbind (as_slice remote_identifier remote_identifier_len) (\<lambda>remote_identifier.
       sbind (native_handle_cast as_PublicKey remote_key) (\<lambda>remote_key.
       box_object O_Fingerprint obj (Fingerprint_new (env_crypto E) version iterations
         local_identifier (IdentityKey local_key) remote_identifier (IdentityKey remote_key))))))))"

definition signal_fingerprint_destroy ::
    "('sc, 'pt, 'r) ffi_env \<Rightarrow> ptr \<Rightarrow> ('a, 'r) call" where
  "signal_fingerprint_destroy E p =
     ffi_fn_destroy (panic_payload E) as_Fingerprint p"

definition signal_fingerprint_clone ::
    "('sc, 'pt, 'r) ffi_env \<Rightarrow> ptr \<Rightarrow> ptr \<Rightarrow> ('a, 'r) call" where
  "signal_fingerprint_clone E new_obj obj =
     ffi_fn_clone (panic_payload E) as_Fingerprint O_Fingerprint new_obj obj"

definition signal_fingerprint_display_string ::
    "('sc, 'pt, 'r) ffi_env \<Rightarrow> ptr \<Rightarrow> ptr \<Rightarrow> ('a, 'r) call" where
  "signal_fingerprint_display_string E obj out =
     ffi_fn_get_cstring (panic_payload E) as_Fingerprint (display_string) obj out"

definition signal_fingerprint_scannable_encoding ::
    "('sc, 'pt, 'r) ffi_env \<Rightarrow> ptr \<Rightarrow> ptr \<Rightarrow> ptr \<Rightarrow> ('a, 'r) call" where
  "signal_fingerprint_scannable_encoding E obj out out_len =
     ffi_fn_get_bytearray (panic_payload E) as_Fingerprint (\<lambda>f. ScannableFingerprint_serialize (env_CombinedFingerprints E) (fp_scannable f)) obj out out_len"

definition signal_fingerprint_compare ::
    "('sc, 'pt, 'r) ffi_env \<Rightarrow> ptr \<Rightarrow> ptr \<Rightarrow> nat \<Rightarrow> ptr \<Rightarrow> nat \<Rightarrow> ('a, 'r) call" where
  "signal_fingerprint_compare E result fprint1 fprint1_len fprint2 fprint2_len =
     run_ffi_safe (panic_payload E) (on_fst (
       if fprint1 = Null \<or> fprint2 = Null \<or> result = Null then sthrow NullPointer
       else sbind (as_slice fprint1 fprint1_len) (\<lambda>fprint1.
            sbind (as_slice fprint2 fprint2_len) (\<lambda>fprint2.
            sbind (question_mark (slift (ScannableFingerprint_deserialize (env_CombinedFingerprints E) fprint1))) (\<lambda>fprint1.
            sbind (question_mark (slift (ScannableFingerprint_compare (env_CombinedFingerprints E) fprint1 fprint2))) (\<lambda>equal.
            assign is_BoolVar result (BoolVar equal)))))))"

section \<open>Signal messages\<close>

definition signal_message_deserialize ::
    "('sc, 'pt, 'r) ffi_env \<Rightarrow> ptr \<Rightarrow> ptr \<Rightarrow> nat \<Rightarrow> ('a, 'r) call" where
  "signal_message_deserialize E p data data_len =
     ffi_fn_deserialize (panic_payload E) O_SignalMessage (SignalMessage_try_from (env_SignalMessage E)) p data data_len"

definition signal_message_new ::
    "('sc, 'pt, 'r) ffi_env \<Rightarrow> ptr \<Rightarrow> u8 \<Rightarrow> ptr \<Rightarrow> nat \<Rightarrow> ptr \<Rightarrow> u32 \<Rightarrow> u32 \<Rightarrow> ptr \<Rightarrow> nat \<Rightarrow> ptr \<Rightarrow> ptr \<Rightarrow> ('a, 'r) call" where
  "signal_message_new E obj message_version mac_key mac_key_len sender_ratchet counter prev_counter
       ciphertext ciphertext_len sender_identity_key receiver_identity_key =
     run_ffi_safe (panic_payload E) (on_fst (
       sbind (as_slice mac_key mac_key_len) (\<lambda>mac_key.
       sbind (native_handle_cast as_PublicKey sender_ratchet) (\<lambda>sender_ratchet.
       sbind (as_slice ciphertext ciphertext_len) (\<lambda>ciphertext.
       sbind (native_handle_cast as_PublicKey sender_identity_key) (\<lambda>sender_identity_key.
       sbind (native_handle_cast as_PublicKey receiver_identity_key) (\<lambda>receiver_identity_key.
       box_object O_SignalMessage obj (SignalMessage_new (env_crypto E) (env_SignalMessage E) message_version mac_key
         sender_ratchet counter prev_counter ciphertext
         (IdentityKey sender_identity_key) (IdentityKey receiver_identity_key)))))))))"

definition signal_message_destroy ::
    "('sc, 'pt, 'r) ffi_env \<Rightarrow> ptr \<Rightarrow> ('a, 'r) call" where
  "signal_message_destroy E p =
     ffi_fn_destroy (panic_payload E) as_SignalMessage p"

definition signal_message_clone ::
    "('sc, 'pt, 'r) ffi_env \<Rightarrow> ptr \<Rightarrow> ptr \<Rightarrow> ('a, 'r) call" where
  "signal_message_clone E new_obj obj =
     ffi_fn_clone (panic_payload E) as_SignalMessage O_SignalMessage new_obj obj"

definition signal_message_get_sender_ratchet_key ::
    "('sc, 'pt, 'r) ffi_env \<Rightarrow> ptr \<Rightarrow> ptr \<Rightarrow> ('a, 'r) call" where
  "signal_message_get_sender_ratchet_key E new_obj obj =
     ffi_fn_get_new_boxed_obj (panic_payload E) as_SignalMessage O_PublicKey (\<lambda>p. Ok (sm_sender_ratchet_key p)) new_obj obj"

definition signal_message_get_body ::
    "('sc, 'pt, 'r) ffi_env \<Rightarrow> ptr \<Rightarrow> ptr \<Rightarrow> ptr \<Rightarrow> ('a, 'r) call" where
  "signal_message_get_body E obj out out_len =
     ffi_fn_get_bytearray (panic_payload E) as_SignalMessage (\<lambda>m. Ok (sm_ciphertext m)) obj out out_len"

definition signal_message_get_serialized ::
    "('sc, 'pt, 'r) ffi_env \<Rightarrow> ptr \<Rightarrow> ptr \<Rightarrow> ptr \<Rightarrow> ('a, 'r) call" where
  "signal_message_get_serialized E obj out out_len =
     ffi_fn_get_bytearray (panic_payload E) as_SignalMessage (\<lambda>m. Ok (sm_serialized m)) obj out out_len"

definition signal_message_get_message_version ::
    "('sc, 'pt, 'r) ffi_env \<Rightarrow> ptr \<Rightarrow> ptr \<Rightarrow> ('a, 'r) call" where
  "signal_message_get_message_version E obj out =
     ffi_fn_get_uint32 (panic_payload E) as_SignalMessage (\<lambda>msg. Ok (ucast (sm_message_version msg))) obj out"

definition signal_message_get_counter ::
    "('sc, 'pt, 'r) ffi_env \<Rightarrow> ptr \<Rightarrow> ptr \<Rightarrow> ('a, 'r) call" where
  "signal_message_get_counter E obj out =
     ffi_fn_get_uint32 (panic_payload E) as_SignalMessage (\<lambda>msg. Ok (sm_counter msg)) obj out"

definition signal_message_verify_mac ::
    "('sc, 'pt, 'r) ffi_env \<Rightarrow> ptr \<Rightarrow> ptr \<Rightarrow> ptr \<Rightarrow> ptr \<Rightarrow> ptr \<Rightarrow> nat \<Rightarrow> ('a, 'r) call" where
  "signal_message_verify_mac E result handle sender_identity_key receiver_identity_key mac_key mac_key_len =
     run_ffi_safe (panic_payload E) (on_fst (
       sbind (native_handle_cast as_SignalMessage handle) (\<lambda>msg.
       sbind (native_handle_cast as_PublicKey sender_identity_key) (\<lambda>sender_identity_key.
       sbind (native_handle_cast as_PublicKey receiver_identity_key) (\<lambda>receiver_identity_key.
       sbind (as_slice mac_key mac_key_len) (\<lambda>mac_key.
       sbind (question_mark (slift (SignalMessage_verify_mac (env_crypto E) msg
         (IdentityKey sender_identity_key) (IdentityKey receiver_identity_key) mac_key))) (\<lambda>valid.
       assign is_BoolVar result (BoolVar valid))))))))"

section \<open>Pre-key messages\<close>

definition signal_pre_key_signal_message_deserialize ::
    "('sc, 'pt, 'r) ffi_env \<Rightarrow> ptr \<Rightarrow> ptr \<Rightarrow> nat \<Rightarrow> ('a, 'r) call" where
  "signal_pre_key_signal_message_deserialize E p data data_len =
     ffi_fn_deserialize (panic_payload E) O_PreKeySignalMessage (PreKeySignalMessage_try_from (env_SignalMessage E) (env_PreKeySignalMessage E)) p data data_len"

definition signal_pre_key_signal_message_new ::
    "('sc, 'pt, 'r) ffi_env \<Rightarrow> ptr \<Rightarrow> u8 \<Rightarrow> u32 \<Rightarrow> ptr \<Rightarrow> u32 \<Rightarrow> ptr \<Rightarrow> ptr \<Rightarrow> ptr \<Rightarrow> ('a, 'r) call" where
  "signal_pre_key_signal_message_new E obj message_version registration_id pre_key_id signed_pre_key_id base_key
       identity_key signal_message =
     run_ffi_safe (panic_payload E) (on_fst (
       sbind (get_optional_uint32 pre_key_id) (\<lambda>pre_key_id.
       sbind (native_handle_cast as_PublicKey base_key) (\<lambda>base_key.
       sbind (native_handle_cast as_PublicKey identity_key) (\<lambda>identity_key.
       sbind (native_handle_cast as_SignalMessage signal_message) (\<lambda>signal_message.
       box_object O_PreKeySignalMessage obj (PreKeySignalMessage_new (env_PreKeySignalMessage E) message_version
         registration_id pre_key_id signed_pre_key_id base_key (IdentityKey identity_key) signal_message)))))))"

definition signal_pre_key_signal_message_destroy ::
    "('sc, 'pt, 'r) ffi_env \<Rightarrow> ptr \<Rightarrow> ('a, 'r) call" where
  "signal_pre_key_signal_message_destroy E p =
     ffi_fn_destroy (panic_payload E) as_PreKeySignalMessage p"

definition signal_pre_key_signal_message_clone ::
    "('sc, 'pt, 'r) ffi_env \<Rightarrow> ptr \<Rightarrow> ptr \<Rightarrow> ('a, 'r) call" where
  "signal_pre_key_signal_message_clone E new_obj obj =
     ffi_fn_clone (panic_payload E) as_PreKeySignalMessage O_PreKeySignalMessage new_obj obj"

definition signal_pre_key_signal_message_get_version ::
    "('sc, 'pt, 'r) ffi_env \<Rightarrow> ptr \<Rightarrow> ptr \<Rightarrow> ('a, 'r) call" where
  "signal_pre_key_signal_message_get_version E obj out =
     ffi_fn_get_uint32 (panic_payload E) as_PreKeySignalMessage (\<lambda>m. Ok (ucast (pm_message_version m))) obj out"

definition signal_pre_key_signal_message_get_registration_id ::
    "('sc, 'pt, 'r) ffi_env \<Rightarrow> ptr \<Rightarrow> ptr \<Rightarrow> ('a, 'r) call" where
  "signal_pre_key_signal_message_get_registration_id E obj out =
     ffi_fn_get_uint32 (panic_payload E) as_PreKeySignalMessage (\<lambda>m. Ok (pm_registration_id m)) obj out"

definition signal_pre_key_signal_message_get_pre_key_id ::
    "('sc, 'pt, 'r) ffi_env \<Rightarrow> ptr \<Rightarrow> ptr \<Rightarrow> ('a, 'r) call" where
  "signal_pre_key_signal_message_get_pre_key_id E obj out =
     ffi_fn_get_optional_uint32 (panic_payload E) as_PreKeySignalMessage (\<lambda>m. Ok (pm_pre_key_id m)) obj out"

definition signal_pre_key_signal_message_get_signed_pre_key_id ::
    "('sc, 'pt, 'r) ffi_env \<Rightarrow> ptr \<Rightarrow> ptr \<Rightarrow> ('a, 'r) call" where
  "signal_pre_key_signal_message_get_signed_pre_key_id E obj out =
     ffi_fn_get_uint32 (panic_payload E) as_PreKeySignalMessage (\<lambda>m. Ok (pm_signed_pre_key_id m)) obj out"

definition signal_pre_key_signal_message_get_base_key ::
    "('sc, 'pt, 'r) ffi_env \<Rightarrow> ptr \<Rightarrow> ptr \<Rightarrow> ('a, 'r) call" where
  "signal_pre_key_signal_message_get_base_key E new_obj obj =
     ffi_fn_get_new_boxed_obj (panic_payload E) as_PreKeySignalMessage O_PublicKey (\<lambda>p. Ok (pm_base_key p)) new_obj obj"

definition signal_pre_key_signal_message_get_identity_key ::
    "('sc, 'pt, 'r) ffi_env \<Rightarrow> ptr \<Rightarrow> ptr \<Rightarrow> ('a, 'r) call" where
  "signal_pre_key_signal_message_get_identity_key E new_obj obj =
     ffi_fn_get_new_boxed_obj (panic_payload E) as_PreKeySignalMessage O_PublicKey (\<lambda>p. Ok (ik_public_key (pm_identity_key p))) new_obj obj"

definition signal_pre_key_signal_message_get_signal_message ::
    "('sc, 'pt, 'r) ffi_env \<Rightarrow> ptr \<Rightarrow> ptr \<Rightarrow> ('a, 'r) call" where
  "signal_pre_key_signal_message_get_signal_message E new_obj obj =
     ffi_fn_get_new_boxed_obj (panic_payload E) as_PreKeySignalMessage O_SignalMessage (\<lambda>p. Ok (pm_message p)) new_obj obj"

definition signal_pre_key_signal_message_serialize ::
    "('sc, 'pt, 'r) ffi_env \<Rightarrow> ptr \<Rightarrow> ptr \<Rightarrow> ptr \<Rightarrow> ('a, 'r) call" where
  "signal_pre_key_signal_message_serialize E obj out out_len =
     ffi_fn_get_bytearray (panic_payload E) as_PreKeySignalMessage (\<lambda>m. Ok (pm_serialized m)) obj out out_len"

section \<open>Sender key messages\<close>

definition signal_sender_key_message_new ::
    "('sc, 'pt, 'r) ffi_env \<Rightarrow> ptr \<Rightarrow> u32 \<Rightarrow> u32 \<Rightarrow> ptr \<Rightarrow> nat \<Rightarrow> ptr \<Rightarrow> ('a, 'r) call" where
  "signal_sender_key_message_new E obj key_id iteration ciphertext ciphertext_len pk =
     run_ffi_safe (panic_payload E) (
       sbind (on_fst (as_slice ciphertext ciphertext_len)) (\<lambda>ciphertext.
       sbind (on_fst (native_handle_cast as_PrivateKey pk)) (\<lambda>signature_key.
       sbind (on_snd (outcome (SenderKeyMessage_new (env_crypto E) (env_SenderKeyMessage E) key_id iteration
         ciphertext signature_key))) (\<lambda>skm.
       on_fst (box_object O_SenderKeyMessage obj skm)))))"

definition signal_sender_key_message_deserialize ::
    "('sc, 'pt, 'r) ffi_env \<Rightarrow> ptr \<Rightarrow> ptr \<Rightarrow> nat \<Rightarrow> ('a, 'r) call" where
  "signal_sender_key_message_deserialize E p data data_len =
     ffi_fn_deserialize (panic_payload E) O_SenderKeyMessage (SenderKeyMessage_try_from (env_SenderKeyMessage E)) p data data_len"

definition signal_sender_key_message_destroy ::
    "('sc, 'pt, 'r) ffi_env \<Rightarrow> ptr \<Rightarrow> ('a, 'r) call" where
  "signal_sender_key_message_destroy E p =
     ffi_fn_destroy (panic_payload E) as_SenderKeyMessage p"

definition signal_sender_key_message_clone ::
    "('sc, 'pt, 'r) ffi_env \<Rightarrow> ptr \<Rightarrow> ptr \<Rightarrow> ('a, 'r) call" where
  "signal_sender_key_message_clone E new_obj obj =
     ffi_fn_clone (panic_payload E) as_SenderKeyMessage O_SenderKeyMessage new_obj obj"

definition signal_sender_key_message_get_key_id ::
    "('sc, 'pt, 'r) ffi_env \<Rightarrow> ptr \<Rightarrow> ptr \<Rightarrow> ('a, 'r) call" where
  "signal_sender_key_message_get_key_id E obj out =
     ffi_fn_get_uint32 (panic_payload E) as_SenderKeyMessage (\<lambda>m. Ok (skm_key_id m)) obj out"

definition signal_sender_key_message_get_iteration ::
    "('sc, 'pt, 'r) ffi_env \<Rightarrow> ptr \<Rightarrow> ptr \<Rightarrow> ('a, 'r) call" where
  "signal_sender_key_message_get_iteration E obj out =
     ffi_fn_get_uint32 (panic_payload E) as_SenderKeyMessage (\<lambda>m. Ok (skm_iteration m)) obj out"

definition signal_sender_key_message_get_cipher_text ::
    "('sc, 'pt, 'r) ffi_env \<Rightarrow> ptr \<Rightarrow> ptr \<Rightarrow> ptr \<Rightarrow> ('a, 'r) call" where
  "signal_sender_key_message_get_cipher_text E obj out out_len =
     ffi_fn_get_bytearray (panic_payload E) as_SenderKeyMessage (\<lambda>m. Ok (skm_ciphertext m)) obj out out_len"

definition signal_sender_key_message_serialize ::
    "('sc, 'pt, 'r) ffi_env \<Rightarrow> ptr \<Rightarrow> ptr \<Rightarrow> ptr \<Rightarrow> ('a, 'r) call" where
  "signal_sender_key_message_serialize E obj out out_len =
     ffi_fn_get_bytearray (panic_payload E) as_SenderKeyMessage (\<lambda>m. Ok (skm_serialized m)) obj out out_len"

definition signal_sender_key_message_verify_signature ::
    "('sc, 'pt, 'r) ffi_env \<Rightarrow> ptr \<Rightarrow> ptr \<Rightarrow> ptr \<Rightarrow> ('a, 'r) call" where
  "signal_sender_key_message_verify_signature E result skm pubkey =
     run_ffi_safe (panic_payload E) (on_fst (
       sbind (native_handle_cast as_SenderKeyMessage skm) (\<lambda>skm.
       sbind (native_handle_cast as_PublicKey pubkey) (\<lambda>pubkey.
       sbind (question_mark (slift (SenderKeyMessage_verify_signature (env_crypto E) skm pubkey))) (\<lambda>valid.
       assign is_BoolVar result (BoolVar valid))))))"

section \<open>Sender key distribution messages\<close>

definition signal_sender_key_distribution_message_new ::
    "('sc, 'pt, 'r) ffi_env \<Rightarrow> ptr \<Rightarrow> u32 \<Rightarrow> u32 \<Rightarrow> ptr \<Rightarrow> nat \<Rightarrow> ptr \<Rightarrow> ('a, 'r) call" where
  "signal_sender_key_distribution_message_new E obj key_id iteration chainkey chainkey_len pk =
     run_ffi_safe (panic_payload E) (on_fst (
       sbind (as_slice chainkey chainkey_len) (\<lambda>chainkey.
       sbind (native_handle_cast as_PublicKey pk) (\<lambda>signature_key.
       box_object O_SenderKeyDistributionMessage obj
         (SenderKeyDistributionMessage_new (env_SenderKeyDistributionMessage E) key_id iteration chainkey signature_key)))))"

definition signal_sender_key_distribution_message_deserialize ::
    "('sc, 'pt, 'r) ffi_env \<Rightarrow> ptr \<Rightarrow> ptr \<Rightarrow> nat \<Rightarrow> ('a, 'r) call" where
  "signal_sender_key_distribution_message_deserialize E p data data_len =
     ffi_fn_deserialize (panic_payload E) O_SenderKeyDistributionMessage (SenderKeyDistributionMessage_try_from (env_SenderKeyDistributionMessage E)) p data data_len"

definition signal_sender_key_distribution_message_destroy ::
    "('sc, 'pt, 'r) ffi_env \<Rightarrow> ptr \<Rightarrow> ('a, 'r) call" where
  "signal_sender_key_distribution_message_destroy E p =
     ffi_fn_destroy (panic_payload E) as_SenderKeyDistributionMessage p"

definition signal_sender_key_distribution_message_clone ::
    "('sc, 'pt, 'r) ffi_env \<Rightarrow> ptr \<Rightarrow> ptr \<Rightarrow> ('a, 'r) call" where
  "signal_sender_key_distribution_message_clone E new_obj obj =
     ffi_fn_clone (panic_payload E) as_SenderKeyDistributionMessage O_SenderKeyDistributionMessage new_obj obj"

definition signal_sender_key_distribution_message_get_id ::
    "('sc, 'pt, 'r) ffi_env \<Rightarrow> ptr \<Rightarrow> ptr \<Rightarrow> ('a, 'r) call" where
  "signal_sender_key_distribution_message_get_id E obj out =
     ffi_fn_get_uint32 (panic_payload E) as_SenderKeyDistributionMessage (\<lambda>m. Ok (skdm_id m)) obj out"

definition signal_sender_key_distribution_message_get_iteration ::
    "('sc, 'pt, 'r) ffi_env \<Rightarrow> ptr \<Rightarrow> ptr \<Rightarrow> ('a, 'r) call" where
  "signal_sender_key_distribution_message_get_iteration E obj out =
     ffi_fn_get_uint32 (panic_payload E) as_SenderKeyDistributionMessage (\<lambda>m. Ok (skdm_iteration m)) obj out"

definition signal_sender_key_distribution_message_get_chain_key ::
    "('sc, 'pt, 'r) ffi_env \<Rightarrow> ptr \<Rightarrow> ptr \<Rightarrow> ptr \<Rightarrow> ('a, 'r) call" where
  "signal_sender_key_distribution_message_get_chain_key E obj out out_len =
     ffi_fn_get_bytearray (panic_payload E) as_SenderKeyDistributionMessage (\<lambda>m. Ok (skdm_chain_key m)) obj out out_len"

definition signal_sender_key_distribution_message_get_signature_key ::
    "('sc, 'pt, 'r) ffi_env \<Rightarrow> ptr \<Rightarrow> ptr \<Rightarrow> ('a, 'r) call" where
  "signal_sender_key_distribution_message_get_signature_key E new_obj obj =
     ffi_fn_get_new_boxed_obj (panic_payload E) as_SenderKeyDistributionMessage O_PublicKey (\<lambda>m. Ok (skdm_signing_key m)) new_obj obj"

definition signal_sender_key_distribution_message_serialize ::
    "('sc, 'pt, 'r) ffi_env \<Rightarrow> ptr \<Rightarrow> ptr \<Rightarrow> ptr \<Rightarrow> ('a, 'r) call" where
  "signal_sender_key_distribution_message_serialize E obj out out_len =
     ffi_fn_get_bytearray (panic_payload E) as_SenderKeyDistributionMessage (\<lambda>m. Ok (skdm_serialized m)) obj out out_len"

section \<open>Pre-key bundles\<close>

text \<open>The handle \<open>identity_key\<close> is dereferenced without a cast that looks for null.\<close>

definition signal_pre_key_bundle_new ::
    "('sc, 'pt, 'r) ffi_env \<Rightarrow> ptr \<Rightarrow> u32 \<Rightarrow> u32 \<Rightarrow> ptr \<Rightarrow> ptr \<Rightarrow> u32 \<Rightarrow> ptr \<Rightarrow> ptr \<Rightarrow> nat \<Rightarrow> ptr \<Rightarrow> ('a, 'r) call" where
  "signal_pre_key_bundle_new E obj registration_id device_id prekey_id prekey signed_prekey_id signed_prekey
       signed_prekey_signature signed_prekey_signature_len identity_key =
     run_ffi_safe (panic_payload E) (on_fst (
       sbind (native_handle_cast as_PublicKey signed_prekey) (\<lambda>signed_prekey.
       sbind (as_slice signed_prekey_signature signed_prekey_signature_len) (\<lambda>signed_prekey_signature.
       sbind (native_handle_cast_optional as_PublicKey prekey) (\<lambda>prekey.
       sbind (get_optional_uint32 prekey_id) (\<lambda>prekey_id.
       sbind (handle_ref as_PublicKey identity_key) (\<lambda>identity_key.
       box_object O_PreKeyBundle obj (PreKeyBundle_new registration_id device_id prekey_id prekey signed_prekey_id
         signed_prekey signed_prekey_signature (IdentityKey identity_key)))))))))"

definition signal_pre_key_bundle_destroy ::
    "('sc, 'pt, 'r) ffi_env \<Rightarrow> ptr \<Rightarrow> ('a, 'r) call" where
  "signal_pre_key_bundle_destroy E p =
     ffi_fn_destroy (panic_payload E) as_PreKeyBundle p"

definition signal_pre_key_bundle_clone ::
    "('sc, 'pt, 'r) ffi_env \<Rightarrow> ptr \<Rightarrow> ptr \<Rightarrow> ('a, 'r) call" where
  "signal_pre_key_bundle_clone E new_obj obj =
     ffi_fn_clone (panic_payload E) as_PreKeyBundle O_PreKeyBundle new_obj obj"

definition signal_pre_key_bundle_get_registration_id ::
    "('sc, 'pt, 'r) ffi_env \<Rightarrow> ptr \<Rightarrow> ptr \<Rightarrow> ('a, 'r) call" where
  "signal_pre_key_bundle_get_registration_id E obj out =
     ffi_fn_get_uint32 (panic_payload E) as_PreKeyBundle (\<lambda>m. Ok (pkb_registration_id m)) obj out"

definition signal_pre_key_bundle_get_device_id ::
    "('sc, 'pt, 'r) ffi_env \<Rightarrow> ptr \<Rightarrow> ptr \<Rightarrow> ('a, 'r) call" where
  "signal_pre_key_bundle_get_device_id E obj out =
     ffi_fn_get_uint32 (panic_payload E) as_PreKeyBundle (\<lambda>m. Ok (pkb_device_id m)) obj out"

definition signal_pre_key_bundle_get_signed_pre_key_id ::
    "('sc, 'pt, 'r) ffi_env \<Rightarrow> ptr \<Rightarrow> ptr \<Rightarrow> ('a, 'r) call" where
  "signal_pre_key_bundle_get_signed_pre_key_id E obj out =
     ffi_fn_get_uint32 (panic_payload E) as_PreKeyBundle (\<lambda>m. Ok (pkb_signed_pre_key_id m)) obj out"

definition signal_pre_key_bundle_get_pre_key_id ::
    "('sc, 'pt, 'r) ffi_env \<Rightarrow> ptr \<Rightarrow> ptr \<Rightarrow> ('a, 'r) call" where
  "signal_pre_key_bundle_get_pre_key_id E obj out =
     ffi_fn_get_optional_uint32 (panic_payload E) as_PreKeyBundle (\<lambda>m. Ok (pkb_pre_key_id m)) obj out"

definition signal_pre_key_bundle_get_pre_key_public ::
    "('sc, 'pt, 'r) ffi_env \<Rightarrow> ptr \<Rightarrow> ptr \<Rightarrow> ('a, 'r) call" where
  "signal_pre_key_bundle_get_pre_key_public E new_obj obj =
     ffi_fn_get_new_boxed_optional_obj (panic_payload E) as_PreKeyBundle O_PublicKey (\<lambda>p. Ok (pkb_pre_key_public p)) new_obj obj"

definition signal_pre_key_bundle_get_signed_pre_key_public ::
    "('sc, 'pt, 'r) ffi_env \<Rightarrow> ptr \<Rightarrow> ptr \<Rightarrow> ('a, 'r) call" where
  "signal_pre_key_bundle_get_signed_pre_key_public E new_obj obj =
     ffi_fn_get_new_boxed_obj (panic_payload E) as_PreKeyBundle O_PublicKey (\<lambda>p. Ok (pkb_signed_pre_key_public p)) new_obj obj"

definition signal_pre_key_bundle_get_identity_key ::
    "('sc, 'pt, 'r) ffi_env \<Rightarrow> ptr \<Rightarrow> ptr \<Rightarrow> ('a, 'r) call" where
  "signal_pre_key_bundle_get_identity_key E new_obj obj =
     ffi_fn_get_new_boxed_obj (panic_payload E) as_PreKeyBundle O_PublicKey (\<lambda>p. Ok (ik_public_key (pkb_identity_key p))) new_obj obj"

definition signal_pre_key_bundle_get_signed_pre_key_signature ::
    "('sc, 'pt, 'r) ffi_env \<Rightarrow> ptr \<Rightarrow> ptr \<Rightarrow> ptr \<Rightarrow> ('a, 'r) call" where
  "signal_pre_key_bundle_get_signed_pre_key_signature E obj out out_len =
     ffi_fn_get_bytearray (panic_payload E) as_PreKeyBundle (\<lambda>m. Ok (pkb_signed_pre_key_signature m)) obj out out_len"

section \<open>Signed pre-key records\<close>

definition signal_signed_pre_key_record_new ::
    "('sc, 'pt, 'r) ffi_env \<Rightarrow> ptr \<Rightarrow> u32 \<Rightarrow> u64 \<Rightarrow> ptr \<Rightarrow> ptr \<Rightarrow> ptr \<Rightarrow> nat \<Rightarrow> ('a, 'r) call" where
  "signal_signed_pre_key_record_new E obj id' timestamp pub_key priv_key signature signature_len =
     run_ffi_safe (panic_payload E) (on_fst (
       sbind (native_handle_cast as_PublicKey pub_key) (\<lambda>pub_key.
       sbind (native_handle_cast as_PrivateKey priv_key) (\<lambda>priv_key.
       let keypair = \<lparr>kp_public_key = pub_key, kp_private_key = priv_key\<rparr> in
       sbind (as_slice signature signature_len) (\<lambda>signature.
       box_object O_SignedPreKeyRecord obj (Ok (SignedPreKeyRecord_new id' timestamp keypair signature)))))))"

definition signal_signed_pre_key_record_deserialize ::
    "('sc, 'pt, 'r) ffi_env \<Rightarrow> ptr \<Rightarrow> ptr \<Rightarrow> nat \<Rightarrow> ('a, 'r) call" where
  "signal_signed_pre_key_record_deserialize E p data data_len =
     ffi_fn_deserialize (panic_payload E) O_SignedPreKeyRecord (SignedPreKeyRecord_deserialize (env_SignedPreKeyRecord E)) p data data_len"

definition signal_signed_pre_key_record_get_id ::
    "('sc, 'pt, 'r) ffi_env \<Rightarrow> ptr \<Rightarrow> ptr \<Rightarrow> ('a, 'r) call" where
  "signal_signed_pre_key_record_get_id E obj out =
     ffi_fn_get_uint32 (panic_payload E) as_SignedPreKeyRecord (\<lambda>m. Ok (spkr_id m)) obj out"

definition signal_signed_pre_key_record_get_timestamp ::
    "('sc, 'pt, 'r) ffi_env \<Rightarrow> ptr \<Rightarrow> ptr \<Rightarrow> ('a, 'r) call" where
  "signal_signed_pre_key_record_get_timestamp E obj out =
     ffi_fn_get_uint64 (panic_payload E) as_SignedPreKeyRecord (\<lambda>m. Ok (spkr_timestamp m)) obj out"

definition signal_signed_pre_key_record_get_public_key ::
    "('sc, 'pt, 'r) ffi_env \<Rightarrow> ptr \<Rightarrow> ptr \<Rightarrow> ('a, 'r) call" where
  "signal_signed_pre_key_record_get_public_key E new_obj obj =
     ffi_fn_get_new_boxed_obj (panic_payload E) as_SignedPreKeyRecord O_PublicKey (SignedPreKeyRecord_public_key) new_obj obj"

definition signal_signed_pre_key_record_get_private_key ::
    "('sc, 'pt, 'r) ffi_env \<Rightarrow> ptr \<Rightarrow> ptr \<Rightarrow> ('a, 'r) call" where
  "signal_signed_pre_key_record_get_private_key E new_obj obj =
     ffi_fn_get_new_boxed_obj (panic_payload E) as_SignedPreKeyRecord O_PrivateKey (SignedPreKeyRecord_private_key) new_obj obj"

definition signal_signed_pre_key_record_get_signature ::
    "('sc, 'pt, 'r) ffi_env \<Rightarrow> ptr \<Rightarrow> ptr \<Rightarrow> ptr \<Rightarrow> ('a, 'r) call" where
  "signal_signed_pre_key_record_get_signature E obj out out_len =
     ffi_fn_get_bytearray (panic_payload E) as_SignedPreKeyRecord (\<lambda>m. Ok (spkr_signature m)) obj out out_len"

definition signal_signed_pre_key_record_serialize ::
    "('sc, 'pt, 'r) ffi_env \<Rightarrow> ptr \<Rightarrow> ptr \<Rightarrow> ptr \<Rightarrow> ('a, 'r) call" where
  "signal_signed_pre_key_record_serialize E obj out out_len =
     ffi_fn_get_bytearray (panic_payload E) as_SignedPreKeyRecord (SignedPreKeyRecord_serialize (env_SignedPreKeyRecord E)) obj out out_len"

definition signal_signed_pre_key_record_destroy ::
    "('sc, 'pt, 'r) ffi_env \<Rightarrow> ptr \<Rightarrow> ('a, 'r) call" where
  "signal_signed_pre_key_record_destroy E p =
     ffi_fn_destroy (panic_payload E) as_SignedPreKeyRecord p"

definition signal_signed_pre_key_record_clone ::
    "('sc, 'pt, 'r) ffi_env \<Rightarrow> ptr \<Rightarrow> ptr \<Rightarrow> ('a, 'r) call" where
  "signal_signed_pre_key_record_clone E new_obj obj =
     ffi_fn_clone (panic_payload E) as_SignedPreKeyRecord O_SignedPreKeyRecord new_obj obj"

section \<open>Pre-key records\<close>

definition signal_pre_key_record_new ::
    "('sc, 'pt, 'r) ffi_env \<Rightarrow> ptr \<Rightarrow> u32 \<Rightarrow> ptr \<Rightarrow> ptr \<Rightarrow> ('a, 'r) call" where
  "signal_pre_key_record_new E obj id' pub_key priv_key =
     run_ffi_safe (panic_payload E) (on_fst (
       sbind (native_handle_cast as_PublicKey pub_key) (\<lambda>pub_key.
       sbind (native_handle_cast as_PrivateKey priv_key) (\<lambda>priv_key.
       let keypair = \<lparr>kp_public_key = pub_key, kp_private_key = priv_key\<rparr> in
       box_object O_PreKeyRecord obj (Ok (PreKeyRecord_new id' keypair))))))"

definition signal_pre_key_record_deserialize ::
    "('sc, 'pt, 'r) ffi_env \<Rightarrow> ptr \<Rightarrow> ptr \<Rightarrow> nat \<Rightarrow> ('a, 'r) call" where
  "signal_pre_key_record_deserialize E p data data_len =
     ffi_fn_deserialize (panic_payload E) O_PreKeyRecord (PreKeyRecord_deserialize (env_PreKeyRecord E)) p data data_len"

definition signal_pre_key_record_get_id ::
    "('sc, 'pt, 'r) ffi_env \<Rightarrow> ptr \<Rightarrow> ptr \<Rightarrow> ('a, 'r) call" where
  "signal_pre_key_record_get_id E obj out =
     ffi_fn_get_uint32 (panic_payload E) as_PreKeyRecord (\<lambda>m. Ok (pkr_id m)) obj out"

definition signal_pre_key_record_get_public_key ::
    "('sc, 'pt, 'r) ffi_env \<Rightarrow> ptr \<Rightarrow> ptr \<Rightarrow> ('a, 'r) call" where
  "signal_pre_key_record_get_public_key E new_obj obj =
     ffi_fn_get_new_boxed_obj (panic_payload E) as_PreKeyRecord O_PublicKey (PreKeyRecord_public_key) new_obj obj"

definition signal_pre_key_record_get_private_key ::
    "('sc, 'pt, 'r) ffi_env \<Rightarrow> ptr \<Rightarrow> ptr \<Rightarrow> ('a, 'r) call" where
  "signal_pre_key_record_get_private_key E new_obj obj =
     ffi_fn_get_new_boxed_obj (panic_payload E) as_PreKeyRecord O_PrivateKey (PreKeyRecord_private_key) new_obj obj"

definition signal_pre_key_record_serialize ::
    "('sc, 'pt, 'r) ffi_env \<Rightarrow> ptr \<Rightarrow> ptr \<Rightarrow> ptr \<Rightarrow> ('a, 'r) call" where
  "signal_pre_key_record_serialize E obj out out_len =
     ffi_fn_get_bytearray (panic_payload E) as_PreKeyRecord (PreKeyRecord_serialize (env_PreKeyRecord E)) obj out out_len"

definition signal_pre_key_record_destroy ::
    "('sc, 'pt, 'r) ffi_env \<Rightarrow> ptr \<Rightarrow> ('a, 'r) call" where
  "signal_pre_key_record_destroy E p =
     ffi_fn_destroy (panic_payload E) as_PreKeyRecord p"

definition signal_pre_key_record_clone ::
    "('sc, 'pt, 'r) ffi_env \<Rightarrow> ptr \<Rightarrow> ptr \<Rightarrow> ('a, 'r) call" where
  "signal_pre_key_record_clone E new_obj obj =
     ffi_fn_clone (panic_payload E) as_PreKeyRecord O_PreKeyRecord new_obj obj"

section \<open>Sender key names and records\<close>

definition signal_sender_key_name_new ::
    "('sc, 'pt, 'r) ffi_env \<Rightarrow> ptr \<Rightarrow> ptr \<Rightarrow> ptr \<Rightarrow> u32 \<Rightarrow> ('a, 'r) call" where
  "signal_sender_key_name_new E obj group_id sender_name sender_device_id =
     run_ffi_safe (panic_payload E) (on_fst (
       sbind (read_c_string group_id) (\<lambda>group_id.
       sbind (read_c_string sender_name) (\<lambda>sender_name.
       box_object O_SenderKeyName obj
         (Ok \<lparr>skn_group_id = group_id, skn_sender = \<lparr>pa_name = sender_name, pa_device_id = sender_device_id\<rparr>\<rparr>)))))"

definition signal_sender_key_name_destroy ::
    "('sc, 'pt, 'r) ffi_env \<Rightarrow> ptr \<Rightarrow> ('a, 'r) call" where
  "signal_sender_key_name_destroy E p =
     ffi_fn_destroy (panic_payload E) as_SenderKeyName p"

definition signal_sender_key_name_clone ::
    "('sc, 'pt, 'r) ffi_env \<Rightarrow> ptr \<Rightarrow> ptr \<Rightarrow> ('a, 'r) call" where
  "signal_sender_key_name_clone E new_obj obj =
     ffi_fn_clone (panic_payload E) as_SenderKeyName O_SenderKeyName new_obj obj"

definition signal_sender_key_name_get_group_id ::
    "('sc, 'pt, 'r) ffi_env \<Rightarrow> ptr \<Rightarrow> ptr \<Rightarrow> ('a, 'r) call" where
  "signal_sender_key_name_get_group_id E obj out =
     ffi_fn_get_cstring (panic_payload E) as_SenderKeyName (\<lambda>skn. Ok (skn_group_id skn)) obj out"

definition signal_sender_key_name_get_sender_name ::
    "('sc, 'pt, 'r) ffi_env \<Rightarrow> ptr \<Rightarrow> ptr \<Rightarrow> ('a, 'r) call" where
  "signal_sender_key_name_get_sender_name E obj out =
     ffi_fn_get_cstring (panic_payload E) as_SenderKeyName (\<lambda>skn. Ok (pa_name (skn_sender skn))) obj out"

definition signal_sender_key_name_get_sender_device_id ::
    "('sc, 'pt, 'r) ffi_env \<Rightarrow> ptr \<Rightarrow> ptr \<Rightarrow> ('a, 'r) call" where
  "signal_sender_key_name_get_sender_device_id E obj out =
     ffi_fn_get_uint32 (panic_payload E) as_SenderKeyName (\<lambda>m. Ok (pa_device_id (skn_sender m))) obj out"

definition signal_sender_key_record_new_fresh :: "('sc, 'pt, 'r) ffi_env \<Rightarrow> ptr \<Rightarrow> ('a, 'r) call" where
  "signal_sender_key_record_new_fresh E obj =
     run_ffi_safe (panic_payload E) (on_fst (box_object O_SenderKeyRecord obj (Ok SenderKeyRecord_new_empty)))"

definition signal_sender_key_record_clone ::
    "('sc, 'pt, 'r) ffi_env \<Rightarrow> ptr \<Rightarrow> ptr \<Rightarrow> ('a, 'r) call" where
  "signal_sender_key_record_clone E new_obj obj =
     ffi_fn_clone (panic_payload E) as_SenderKeyRecord O_SenderKeyRecord new_obj obj"

definition signal_sender_key_record_destroy ::
    "('sc, 'pt, 'r) ffi_env \<Rightarrow> ptr \<Rightarrow> ('a, 'r) call" where
  "signal_sender_key_record_destroy E p =
     ffi_fn_destroy (panic_payload E) as_SenderKeyRecord p"

definition signal_sender_key_record_deserialize ::
    "('sc, 'pt, 'r) ffi_env \<Rightarrow> ptr \<Rightarrow> ptr \<Rightarrow> nat \<Rightarrow> ('a, 'r) call" where
  "signal_sender_key_record_deserialize E p data data_len =
     ffi_fn_deserialize (panic_payload E) O_SenderKeyRecord (SenderKeyRecord_deserialize (env_SenderKeyRecord E)) p data data_len"

definition signal_sender_key_record_serialize ::
    "('sc, 'pt, 'r) ffi_env \<Rightarrow> ptr \<Rightarrow> ptr \<Rightarrow> ptr \<Rightarrow> ('a, 'r) call" where
  "signal_sender_key_record_serialize E obj out out_len =
     ffi_fn_get_bytearray (panic_payload E) as_SenderKeyRecord (SenderKeyRecord_serialize (env_SenderKeyRecord E)) obj out out_len"

section \<open>Ciphertext messages\<close>

definition signal_ciphertext_message_destroy ::
    "('sc, 'pt, 'r) ffi_env \<Rightarrow> ptr \<Rightarrow> ('a, 'r) call" where
  "signal_ciphertext_message_destroy E p =
     ffi_fn_destroy (panic_payload E) as_CiphertextMessage p"

datatype FfiCiphertextMessageType = Ffi_Whisper | Ffi_PreKey | Ffi_SenderKey | Ffi_SenderKeyDistribution

fun FfiCiphertextMessageType_value :: "FfiCiphertextMessageType \<Rightarrow> u8" where
  "FfiCiphertextMessageType_value Ffi_Whisper = 2"
| "FfiCiphertextMessageType_value Ffi_PreKey = 3"
| "FfiCiphertextMessageType_value Ffi_SenderKey = 4"
| "FfiCiphertextMessageType_value Ffi_SenderKeyDistribution = 5"

definition signal_ciphertext_message_type :: "('sc, 'pt, 'r) ffi_env \<Rightarrow> ptr \<Rightarrow> ptr \<Rightarrow> ('a, 'r) call" where
  "signal_ciphertext_message_type E typ msg =
     run_ffi_safe (panic_payload E) (on_fst (
       sbind (native_handle_cast as_CiphertextMessage msg) (\<lambda>msg.
       assign is_U8Var typ (U8Var (CiphertextMessageType_value (message_type msg))))))"

definition signal_ciphertext_message_serialize :: "('sc, 'pt, 'r) ffi_env \<Rightarrow> ptr \<Rightarrow> ptr \<Rightarrow> ptr \<Rightarrow> ('a, 'r) call" where
  "signal_ciphertext_message_serialize E result result_len msg =
     run_ffi_safe (panic_payload E) (on_fst (
       sbind (native_handle_cast as_CiphertextMessage msg) (\<lambda>msg.
       write_bytearray_to result result_len (Ok (CiphertextMessage_serialize msg)))))"

end

