(* ===== verification/Ffi_Stores.thy ===== *)
theory Ffi_Stores
  imports Ffi Session_Cipher Group_Cipher
begin

text \<open>
  Model of the rest of \<open>rust/bridge/ffi/src/lib.rs\<close>: the stores that the application supplies as C structures of
  callbacks, and the functions for sessions and groups that work on them.

  A callback is a function of the application, and so a parameter here: it gets the context pointers and the
  arguments, may change the memory, and returns its code together with what it left in the variable of the
  library that it was given the address of (a null pointer or zero, when it did not write there). What the
  library lends to a callback for the time of the call is passed by value. A pointer to a structure is
  \<open>None\<close> when it is null.
\<close>

section \<open>Identity keys\<close>

datatype FfiDirection = Ffi_Sending | Ffi_Receiving

fun FfiDirection_value :: "FfiDirection \<Rightarrow> u32" where
  "FfiDirection_value Ffi_Sending = 0"
| "FfiDirection_value Ffi_Receiving = 1"

record 'a FfiIdentityKeyStoreStruct =
  fis_ctx :: ptr
  fis_get_identity_key_pair :: "ptr \<Rightarrow> ptr \<Rightarrow> 'a memory \<Rightarrow> (i32 \<times> ptr) \<times> 'a memory"
  fis_get_local_registration_id :: "ptr \<Rightarrow> ptr \<Rightarrow> 'a memory \<Rightarrow> (i32 \<times> u32) \<times> 'a memory"
  fis_save_identity :: "ptr \<Rightarrow> ProtocolAddress \<Rightarrow> PublicKey \<Rightarrow> ptr \<Rightarrow> 'a memory \<Rightarrow> i32 \<times> 'a memory"
  fis_get_identity :: "ptr \<Rightarrow> ProtocolAddress \<Rightarrow> ptr \<Rightarrow> 'a memory \<Rightarrow> (i32 \<times> ptr) \<times> 'a memory"
  fis_is_trusted_identity :: "ptr \<Rightarrow> ProtocolAddress \<Rightarrow> PublicKey \<Rightarrow> u32 \<Rightarrow> ptr \<Rightarrow> 'a memory \<Rightarrow> i32 \<times> 'a memory"

definition FfiIdentityKeyStore_new ::
    "'a FfiIdentityKeyStoreStruct option \<Rightarrow> (SignalFfiError, 'a FfiIdentityKeyStoreStruct) result" where
  "FfiIdentityKeyStore_new store = ok_or store NullPointer"

definition Ffi_get_identity_key_pair ::
    "('sc, 'pt, 'r) crypto \<Rightarrow> 'a FfiIdentityKeyStoreStruct \<Rightarrow> ptr \<Rightarrow> ('a memory, IdentityKeyPair) sst" where
  "Ffi_get_identity_key_pair C store ctx =
     sbind (sgen (fis_get_identity_key_pair store (fis_ctx store) ctx)) (\<lambda>(result, key).
     if result \<noteq> 0 then sthrow (ApplicationCallbackReturnedIntegerError ''get_identity_key_pair'' result)
     else if key = Null then sthrow (InternalError ''No identity key pair'')
     else sbind (box_from_raw as_PrivateKey key) (\<lambda>priv_key.
          sbind (slift (PrivateKey_public_key C priv_key)) (\<lambda>pub_key.
          sret \<lparr>ikp_identity_key = IdentityKey pub_key, ikp_private_key = priv_key\<rparr>)))"

definition Ffi_get_local_registration_id ::
    "'a FfiIdentityKeyStoreStruct \<Rightarrow> ptr \<Rightarrow> ('a memory, u32) sst" where
  "Ffi_get_local_registration_id store ctx =
     sbind (sgen (fis_get_local_registration_id store (fis_ctx store) ctx)) (\<lambda>(result, reg_id).
     if result \<noteq> 0 then sthrow (ApplicationCallbackReturnedIntegerError ''get_local_registration_id'' result)
     else sret reg_id)"

text \<open>The two callbacks that answer yes or no: 1, 0, or an error code.\<close>

definition yes_or_no :: "string \<Rightarrow> i32 \<Rightarrow> ('s, bool) sst" where
  "yes_or_no name result =
     (if result = 0 then sret False
      else if result = 1 then sret True
      else sthrow (ApplicationCallbackReturnedIntegerError name result))"

definition Ffi_save_identity ::
    "'a FfiIdentityKeyStoreStruct \<Rightarrow> ptr \<Rightarrow> ProtocolAddress \<Rightarrow> IdentityKey \<Rightarrow> ('a memory, bool) sst" where
  "Ffi_save_identity store ctx address identity =
     sbind (sgen (fis_save_identity store (fis_ctx store) address (ik_public_key identity) ctx)) (\<lambda>result.
     yes_or_no ''save_identity'' result)"

definition Ffi_is_trusted_identity ::
    "'a FfiIdentityKeyStoreStruct \<Rightarrow> ptr \<Rightarrow> ProtocolAddress \<Rightarrow> IdentityKey \<Rightarrow> Direction \<Rightarrow> ('a memory, bool) sst" where
  "Ffi_is_trusted_identity store ctx address identity direction =
     (let direction = (case direction of Sending \<Rightarrow> Ffi_Sending | Receiving \<Rightarrow> Ffi_Receiving) in
      sbind (sgen (fis_is_trusted_identity store (fis_ctx store) address (ik_public_key identity)
        (FfiDirection_value direction) ctx)) (\<lambda>result.
      yes_or_no ''is_trusted_identity'' result))"

text \<open>Taking over the object that a callback left behind, when it left one.\<close>

definition take_object :: "(object \<Rightarrow> 't option) \<Rightarrow> string \<Rightarrow> i32 \<Rightarrow> ptr \<Rightarrow> ('a memory, 't option) sst" where
  "take_object as name result p =
     (if result \<noteq> 0 then sthrow (ApplicationCallbackReturnedIntegerError name result)
      else if p = Null then sret None
      else sbind (box_from_raw as p) (\<lambda>t. sret (Some t)))"

text \<open>The code of a callback without an answer.\<close>

definition check_code :: "string \<Rightarrow> i32 \<Rightarrow> ('s, unit) sst" where
  "check_code name result =
     (if result \<noteq> 0 then sthrow (ApplicationCallbackReturnedIntegerError name result) else sret ())"

definition Ffi_get_identity ::
    "'a FfiIdentityKeyStoreStruct \<Rightarrow> ptr \<Rightarrow> ProtocolAddress \<Rightarrow> ('a memory, IdentityKey option) sst" where
  "Ffi_get_identity store ctx address =
     sbind (sgen (fis_get_identity store (fis_ctx store) address ctx)) (\<lambda>(result, key).
     sbind (take_object as_PublicKey ''get_identity'' result key) (\<lambda>pk. sret (map_option IdentityKey pk)))"

definition Ffi_IdentityKeyStore ::
    "('sc, 'pt, 'r) crypto \<Rightarrow> 'a FfiIdentityKeyStoreStruct \<Rightarrow> ptr \<Rightarrow> 'a memory IdentityKeyStore" where
  "Ffi_IdentityKeyStore C store ctx =
     \<lparr>get_identity_key_pair = Ffi_get_identity_key_pair C store ctx,
      get_local_registration_id = Ffi_get_local_registration_id store ctx,
      save_identity = Ffi_save_identity store ctx,
      is_trusted_identity = Ffi_is_trusted_identity store ctx,
      get_identity = Ffi_get_identity store ctx\<rparr>"

section \<open>Pre-keys\<close>

record 'a FfiPreKeyStoreStruct =
  fps_ctx :: ptr
  fps_load_pre_key :: "ptr \<Rightarrow> u32 \<Rightarrow> ptr \<Rightarrow> 'a memory \<Rightarrow> (i32 \<times> ptr) \<times> 'a memory"
  fps_store_pre_key :: "ptr \<Rightarrow> u32 \<Rightarrow> PreKeyRecord \<Rightarrow> ptr \<Rightarrow> 'a memory \<Rightarrow> i32 \<times> 'a memory"
  fps_remove_pre_key :: "ptr \<Rightarrow> u32 \<Rightarrow> ptr \<Rightarrow> 'a memory \<Rightarrow> i32 \<times> 'a memory"

definition FfiPreKeyStore_new ::
    "'a FfiPreKeyStoreStruct option \<Rightarrow> (SignalFfiError, 'a FfiPreKeyStoreStruct) result" where
  "FfiPreKeyStore_new store = ok_or store NullPointer"

definition Ffi_get_pre_key :: "'a FfiPreKeyStoreStruct \<Rightarrow> ptr \<Rightarrow> u32 \<Rightarrow> ('a memory, PreKeyRecord) sst" where
  "Ffi_get_pre_key store ctx prekey_id =
     sbind (sgen (fps_load_pre_key store (fps_ctx store) prekey_id ctx)) (\<lambda>(result, record).
     sbind (take_object as_PreKeyRecord ''load_pre_key'' result record) (\<lambda>record.
     slift (ok_or record InvalidPreKeyId)))"

definition Ffi_save_pre_key ::
    "'a FfiPreKeyStoreStruct \<Rightarrow> ptr \<Rightarrow> u32 \<Rightarrow> PreKeyRecord \<Rightarrow> ('a memory, unit) sst" where
  "Ffi_save_pre_key store ctx prekey_id record =
     sbind (sgen (fps_store_pre_key store (fps_ctx store) prekey_id record ctx)) (\<lambda>result.
     check_code ''store_pre_key'' result)"

definition Ffi_remove_pre_key :: "'a FfiPreKeyStoreStruct \<Rightarrow> ptr \<Rightarrow> u32 \<Rightarrow> ('a memory, unit) sst" where
  "Ffi_remove_pre_key store ctx prekey_id =
     sbind (sgen (fps_remove_pre_key store (fps_ctx store) prekey_id ctx)) (\<lambda>result.
     check_code ''remove_pre_key'' result)"

definition Ffi_PreKeyStore :: "'a FfiPreKeyStoreStruct \<Rightarrow> ptr \<Rightarrow> 'a memory PreKeyStore" where
  "Ffi_PreKeyStore store ctx =
     \<lparr>get_pre_key = Ffi_get_pre_key store ctx, save_pre_key = Ffi_save_pre_key store ctx,
      remove_pre_key = Ffi_remove_pre_key store ctx\<rparr>"

section \<open>Signed pre-keys\<close>

record 'a FfiSignedPreKeyStoreStruct =
  fss_ctx :: ptr
  fss_load_signed_pre_key :: "ptr \<Rightarrow> u32 \<Rightarrow> ptr \<Rightarrow> 'a memory \<Rightarrow> (i32 \<times> ptr) \<times> 'a memory"
  fss_store_signed_pre_key :: "ptr \<Rightarrow> u32 \<Rightarrow> SignedPreKeyRecord \<Rightarrow> ptr \<Rightarrow> 'a memory \<Rightarrow> i32 \<times> 'a memory"

definition FfiSignedPreKeyStore_new ::
    "'a FfiSignedPreKeyStoreStruct option \<Rightarrow> (SignalFfiError, 'a FfiSignedPreKeyStoreStruct) result" where
  "FfiSignedPreKeyStore_new store = ok_or store NullPointer"

definition Ffi_get_signed_pre_key ::
    "'a FfiSignedPreKeyStoreStruct \<Rightarrow> ptr \<Rightarrow> u32 \<Rightarrow> ('a memory, SignedPreKeyRecord) sst" where
  "Ffi_get_signed_pre_key store ctx prekey_id =
     sbind (sgen (fss_load_signed_pre_key store (fss_ctx store) prekey_id ctx)) (\<lambda>(result, record).
     sbind (take_object as_SignedPreKeyRecord ''load_signed_pre_key'' result record) (\<lambda>record.
     slift (ok_or record InvalidSignedPreKeyId)))"

definition Ffi_save_signed_pre_key ::
    "'a FfiSignedPreKeyStoreStruct \<Rightarrow> ptr \<Rightarrow> u32 \<Rightarrow> SignedPreKeyRecord \<Rightarrow> ('a memory, unit) sst" where
  "Ffi_save_signed_pre_key store ctx prekey_id record =
     sbind (sgen (fss_store_signed_pre_key store (fss_ctx store) prekey_id record ctx)) (\<lambda>result.
     check_code ''store_signed_pre_key'' result)"

definition Ffi_SignedPreKeyStore :: "'a FfiSignedPreKeyStoreStruct \<Rightarrow> ptr \<Rightarrow> 'a memory SignedPreKeyStore" where
  "Ffi_SignedPreKeyStore store ctx =
     \<lparr>get_signed_pre_key = Ffi_get_signed_pre_key store ctx, save_signed_pre_key = Ffi_save_signed_pre_key store ctx\<rparr>"

section \<open>Sessions\<close>

record 'a FfiSessionStoreStruct =
  fse_ctx :: ptr
  fse_load_session :: "ptr \<Rightarrow> ProtocolAddress \<Rightarrow> ptr \<Rightarrow> 'a memory \<Rightarrow> (i32 \<times> ptr) \<times> 'a memory"
  fse_store_session :: "ptr \<Rightarrow> ProtocolAddress \<Rightarrow> SessionRecord \<Rightarrow> ptr \<Rightarrow> 'a memory \<Rightarrow> i32 \<times> 'a memory"

definition FfiSessionStore_new ::
    "'a FfiSessionStoreStruct option \<Rightarrow> (SignalFfiError, 'a FfiSessionStoreStruct) result" where
  "FfiSessionStore_new store = ok_or store NullPointer"

definition Ffi_load_session ::
    "'a FfiSessionStoreStruct \<Rightarrow> ptr \<Rightarrow> ProtocolAddress \<Rightarrow> ('a memory, SessionRecord option) sst" where
  "Ffi_load_session store ctx address =
     sbind (sgen (fse_load_session store (fse_ctx store) address ctx)) (\<lambda>(result, record).
     take_object as_SessionRecord ''load_session'' result record)"

definition Ffi_store_session ::
    "'a FfiSessionStoreStruct \<Rightarrow> ptr \<Rightarrow> ProtocolAddress \<Rightarrow> SessionRecord \<Rightarrow> ('a memory, unit) sst" where
  "Ffi_store_session store ctx address record =
     sbind (sgen (fse_store_session store (fse_ctx store) address record ctx)) (\<lambda>result.
     check_code ''store_session'' result)"

definition Ffi_SessionStore :: "'a FfiSessionStoreStruct \<Rightarrow> ptr \<Rightarrow> 'a memory SessionStore" where
  "Ffi_SessionStore store ctx =
     \<lparr>load_session = Ffi_load_session store ctx, store_session = Ffi_store_session store ctx\<rparr>"

section \<open>Session functions\<close>

definition signal_process_prekey_bundle ::
    "('sc, 'pt, 'r) ffi_env \<Rightarrow> ptr \<Rightarrow> ptr \<Rightarrow> 'a FfiSessionStoreStruct option \<Rightarrow> 'a FfiIdentityKeyStoreStruct option
       \<Rightarrow> ptr \<Rightarrow> ('a, 'r) call" where
  "signal_process_prekey_bundle E bundle protocol_address session_st identity_key_st ctx =
     run_ffi_safe (panic_payload E) (
       sbind (on_fst (native_handle_cast as_PreKeyBundle bundle)) (\<lambda>bundle.
       sbind (on_fst (native_handle_cast as_ProtocolAddress protocol_address)) (\<lambda>protocol_address.
       sbind (slift (FfiIdentityKeyStore_new identity_key_st)) (\<lambda>identity_key_st.
       sbind (slift (FfiSessionStore_new session_st)) (\<lambda>session_st.
       question_mark (process_prekey_bundle (env_crypto E) protocol_address (Ffi_SessionStore session_st ctx)
         (Ffi_IdentityKeyStore (env_crypto E) identity_key_st ctx) bundle))))))"

definition signal_encrypt_message ::
    "('sc, 'pt, 'r) ffi_env \<Rightarrow> ptr \<Rightarrow> ptr \<Rightarrow> nat \<Rightarrow> ptr \<Rightarrow> 'a FfiSessionStoreStruct option
       \<Rightarrow> 'a FfiIdentityKeyStoreStruct option \<Rightarrow> ptr \<Rightarrow> ('a, 'r) call" where
  "signal_encrypt_message E msg ptext ptext_len protocol_address session_st identity_key_st ctx =
     run_ffi_safe (panic_payload E) (on_fst (
       sbind (as_slice ptext ptext_len) (\<lambda>ptext.
       sbind (native_handle_cast as_ProtocolAddress protocol_address) (\<lambda>protocol_address.
       sbind (slift (FfiIdentityKeyStore_new identity_key_st)) (\<lambda>identity_key_st.
       sbind (slift (FfiSessionStore_new session_st)) (\<lambda>session_st.
       sbind (outcome (message_encrypt (env_crypto E) (env_SignalMessage E) (env_PreKeySignalMessage E) ptext
         protocol_address (Ffi_SessionStore session_st ctx) (Ffi_IdentityKeyStore (env_crypto E) identity_key_st ctx))) (\<lambda>ctext.
       box_object O_CiphertextMessage msg ctext)))))))"

definition signal_decrypt_message ::
    "('sc, 'pt, 'r) ffi_env \<Rightarrow> ptr \<Rightarrow> ptr \<Rightarrow> ptr \<Rightarrow> ptr \<Rightarrow> 'a FfiSessionStoreStruct option
       \<Rightarrow> 'a FfiIdentityKeyStoreStruct option \<Rightarrow> ptr \<Rightarrow> ('a, 'r) call" where
  "signal_decrypt_message E result result_len message protocol_address session_st identity_key_st ctx =
     run_ffi_safe (panic_payload E) (
       sbind (on_fst (native_handle_cast as_SignalMessage message)) (\<lambda>message.
       sbind (on_fst (native_handle_cast as_ProtocolAddress protocol_address)) (\<lambda>protocol_address.
       sbind (slift (FfiIdentityKeyStore_new identity_key_st)) (\<lambda>identity_key_st.
       sbind (slift (FfiSessionStore_new session_st)) (\<lambda>session_st.
       sbind (outcome (message_decrypt_signal (env_crypto E) message protocol_address
         (Ffi_SessionStore session_st ctx) (Ffi_IdentityKeyStore (env_crypto E) identity_key_st ctx))) (\<lambda>ptext.
       on_fst (write_bytearray_to result result_len ptext)))))))"

definition signal_decrypt_pre_key_message ::
    "('sc, 'pt, 'r) ffi_env \<Rightarrow> ptr \<Rightarrow> ptr \<Rightarrow> ptr \<Rightarrow> ptr \<Rightarrow> 'a FfiSessionStoreStruct option
       \<Rightarrow> 'a FfiIdentityKeyStoreStruct option \<Rightarrow> 'a FfiPreKeyStoreStruct option
       \<Rightarrow> 'a FfiSignedPreKeyStoreStruct option \<Rightarrow> ptr \<Rightarrow> ('a, 'r) call" where
  "signal_decrypt_pre_key_message E result result_len message protocol_address session_st identity_key_st
       prekey_st signed_prekey_st ctx =
     run_ffi_safe (panic_payload E) (
       sbind (on_fst (native_handle_cast as_PreKeySignalMessage message)) (\<lambda>message.
       sbind (on_fst (native_handle_cast as_ProtocolAddress protocol_address)) (\<lambda>protocol_address.
       sbind (slift (FfiIdentityKeyStore_new identity_key_st)) (\<lambda>identity_key_st.
       sbind (slift (FfiSessionStore_new session_st)) (\<lambda>session_st.
       sbind (slift (FfiPreKeyStore_new prekey_st)) (\<lambda>prekey_st.
       sbind (slift (FfiSignedPreKeyStore_new signed_prekey_st)) (\<lambda>signed_prekey_st.
       sbind (outcome (message_decrypt_prekey (env_crypto E) message protocol_address
         (Ffi_SessionStore session_st ctx) (Ffi_IdentityKeyStore (env_crypto E) identity_key_st ctx)
         (Ffi_PreKeyStore prekey_st ctx) (Ffi_SignedPreKeyStore signed_prekey_st ctx))) (\<lambda>ptext.
       on_fst (write_bytearray_to result result_len ptext)))))))))"

section \<open>Sender keys\<close>

record 'a FfiSenderKeyStoreStruct =
  fsk_ctx :: ptr
  fsk_load_sender_key :: "ptr \<Rightarrow> SenderKeyName \<Rightarrow> ptr \<Rightarrow> 'a memory \<Rightarrow> (i32 \<times> ptr) \<times> 'a memory"
  fsk_store_sender_key :: "ptr \<Rightarrow> SenderKeyName \<Rightarrow> SenderKeyRecord \<Rightarrow> ptr \<Rightarrow> 'a memory \<Rightarrow> i32 \<times> 'a memory"

definition FfiSenderKeyStore_new ::
    "'a FfiSenderKeyStoreStruct option \<Rightarrow> (SignalFfiError, 'a FfiSenderKeyStoreStruct) result" where
  "FfiSenderKeyStore_new store = ok_or store NullPointer"

definition Ffi_store_sender_key ::
    "'a FfiSenderKeyStoreStruct \<Rightarrow> ptr \<Rightarrow> SenderKeyName \<Rightarrow> SenderKeyRecord \<Rightarrow> ('a memory, unit) sst" where
  "Ffi_store_sender_key store ctx sender_key_name record =
     sbind (sgen (fsk_store_sender_key store (fsk_ctx store) sender_key_name record ctx)) (\<lambda>result.
     check_code ''store_sender_key'' result)"

definition Ffi_load_sender_key ::
    "'a FfiSenderKeyStoreStruct \<Rightarrow> ptr \<Rightarrow> SenderKeyName \<Rightarrow> ('a memory, SenderKeyRecord option) sst" where
  "Ffi_load_sender_key store ctx sender_key_name =
     sbind (sgen (fsk_load_sender_key store (fsk_ctx store) sender_key_name ctx)) (\<lambda>(result, record).
     take_object as_SenderKeyRecord ''load_sender_key'' result record)"

definition Ffi_SenderKeyStore :: "'a FfiSenderKeyStoreStruct \<Rightarrow> ptr \<Rightarrow> 'a memory SenderKeyStore" where
  "Ffi_SenderKeyStore store ctx =
     \<lparr>store_sender_key = Ffi_store_sender_key store ctx, load_sender_key = Ffi_load_sender_key store ctx\<rparr>"

section \<open>Group functions\<close>

definition signal_create_sender_key_distribution_message ::
    "('sc, 'pt, 'r) ffi_env \<Rightarrow> ptr \<Rightarrow> ptr \<Rightarrow> 'a FfiSenderKeyStoreStruct option \<Rightarrow> ptr \<Rightarrow> ('a, 'r) call" where
  "signal_create_sender_key_distribution_message E obj sender_key_name store ctx =
     run_ffi_safe (panic_payload E) (
       if sender_key_name = Null \<or> store = None then sthrow NullPointer
       else sbind (on_fst (native_handle_cast as_SenderKeyName sender_key_name)) (\<lambda>sender_key_name.
            sbind (slift (FfiSenderKeyStore_new store)) (\<lambda>sender_key_st.
            sbind (outcome (create_sender_key_distribution_message (env_crypto E) (env_SenderKeyDistributionMessage E)
              sender_key_name (Ffi_SenderKeyStore sender_key_st ctx))) (\<lambda>skdm.
            on_fst (box_object O_SenderKeyDistributionMessage obj skdm)))))"

definition signal_process_sender_key_distribution_message ::
    "('sc, 'pt, 'r) ffi_env \<Rightarrow> ptr \<Rightarrow> ptr \<Rightarrow> 'a FfiSenderKeyStoreStruct option \<Rightarrow> ptr \<Rightarrow> ('a, 'r) call" where
  "signal_process_sender_key_distribution_message E sender_key_name sender_key_distribution_message store ctx =
     run_ffi_safe (panic_payload E) (on_fst (
       sbind (native_handle_cast as_SenderKeyName sender_key_name) (\<lambda>sender_key_name.
       sbind (native_handle_cast as_SenderKeyDistributionMessage sender_key_distribution_message) (\<lambda>skdm.
       sbind (slift (FfiSenderKeyStore_new store)) (\<lambda>sender_key_st.
       question_mark (process_sender_key_distribution_message sender_key_name skdm
         (Ffi_SenderKeyStore sender_key_st ctx)))))))"

definition signal_group_encrypt_message ::
    "('sc, 'pt, 'r) ffi_env \<Rightarrow> ptr \<Rightarrow> ptr \<Rightarrow> ptr \<Rightarrow> ptr \<Rightarrow> nat \<Rightarrow> 'a FfiSenderKeyStoreStruct option \<Rightarrow> ptr \<Rightarrow> ('a, 'r) call" where
  "signal_group_encrypt_message E out out_len sender_key_name message message_len store ctx =
     run_ffi_safe (panic_payload E) (
       sbind (on_fst (native_handle_cast as_SenderKeyName sender_key_name)) (\<lambda>sender_key_name.
       sbind (on_fst (as_slice message message_len)) (\<lambda>message.
       sbind (slift (FfiSenderKeyStore_new store)) (\<lambda>sender_key_st.
       sbind (outcome (group_encrypt (env_crypto E) (env_SenderKeyMessage E) (Ffi_SenderKeyStore sender_key_st ctx)
         sender_key_name message)) (\<lambda>ctext.
       on_fst (write_bytearray_to out out_len ctext))))))"

definition signal_group_decrypt_message ::
    "('sc, 'pt, 'r) ffi_env \<Rightarrow> ptr \<Rightarrow> ptr \<Rightarrow> ptr \<Rightarrow> ptr \<Rightarrow> nat \<Rightarrow> 'a FfiSenderKeyStoreStruct option \<Rightarrow> ptr \<Rightarrow> ('a, 'r) call" where
  "signal_group_decrypt_message E out out_len sender_key_name message message_len store ctx =
     run_ffi_safe (panic_payload E) (on_fst (
       sbind (native_handle_cast as_SenderKeyName sender_key_name) (\<lambda>sender_key_name.
       sbind (as_slice message message_len) (\<lambda>message.
       sbind (slift (FfiSenderKeyStore_new store)) (\<lambda>sender_key_st.
       sbind (outcome (group_decrypt (env_crypto E) (env_SenderKeyMessage E) message
         (Ffi_SenderKeyStore sender_key_st ctx) sender_key_name)) (\<lambda>ptext.
       write_bytearray_to out out_len ptext))))))"

end
