(* ===== verification/Ffi_Safety.thy ===== *)
theory Ffi_Safety
  imports Ffi Reference_Codec
begin

text \<open>
  Memory safety of the C interface: what a call may read and write, for the templates of which most functions are
  made; the life of a handle, proved once in the locale \<open>handle_type\<close> and interpreted for the fifteen types of
  handles; and the functions that trust a pointer without a test.
\<close>

section \<open>Well-formed memory\<close>

text \<open>Nothing is allocated from \<open>next_address\<close> on, and nothing undefined has happened.\<close>

definition memory_ok :: "'a memory \<Rightarrow> bool" where
  "memory_ok m \<longleftrightarrow> \<not> undefined_behaviour m \<and> (\<forall>a\<ge>next_address m. heap m a = None)"

lemma memory_okD:
  "memory_ok m \<Longrightarrow> \<not> undefined_behaviour m"
  "memory_ok m \<Longrightarrow> next_address m \<le> a \<Longrightarrow> heap m a = None"
  by (simp_all add: memory_ok_def)

lemma memory_ok_less: "memory_ok m \<Longrightarrow> heap m a = Some c \<Longrightarrow> a < next_address m"
  by (metis memory_okD(2) not_le option.distinct(1))

text \<open>
  \<open>extends W m m'\<close>: \<open>m'\<close> is well-formed, and of the cells of \<open>m\<close> and of the state of the application only
  the cells at addresses in \<open>W\<close> may have changed.
\<close>

definition extends :: "nat set \<Rightarrow> 'a memory \<Rightarrow> 'a memory \<Rightarrow> bool" where
  "extends W m m' \<longleftrightarrow>
     memory_ok m' \<and> next_address m \<le> next_address m' \<and> app m' = app m \<and>
     (\<forall>a<next_address m. a \<notin> W \<longrightarrow> heap m' a = heap m a)"

lemma extends_refl: "memory_ok m \<Longrightarrow> extends W m m"
  by (simp add: extends_def)

lemma extends_trans: "extends W m m' \<Longrightarrow> extends W m' m'' \<Longrightarrow> extends W m m''"
  by (auto simp: extends_def)

lemma extends_mono: "extends W m m' \<Longrightarrow> W \<subseteq> V \<Longrightarrow> extends V m m'"
  by (auto simp: extends_def)

lemma extends_alloc: "memory_ok m \<Longrightarrow> extends W m (snd (alloc c m))"
  by (auto simp: extends_def memory_ok_def alloc_def)

lemma extends_update:
  "memory_ok m \<Longrightarrow> heap m a = Some c \<Longrightarrow> a \<in> W \<Longrightarrow> extends W m (m\<lparr>heap := (heap m)(a \<mapsto> c')\<rparr>)"
  using memory_ok_less [of m a c] by (auto simp: extends_def memory_ok_def)

lemma extends_free: "memory_ok m \<Longrightarrow> a \<in> W \<Longrightarrow> extends W m (free a m)"
  by (auto simp: extends_def memory_ok_def free_def)

lemma extends_cell: "extends W m m' \<Longrightarrow> memory_ok m \<Longrightarrow> heap m a = Some c \<Longrightarrow> a \<notin> W \<Longrightarrow> heap m' a = Some c"
  by (auto simp: extends_def dest: memory_ok_less)

section \<open>Arguments\<close>

text \<open>What the documentation of the interface asks of a caller: a pointer is null or points to something of its type.\<close>

definition handle_arg :: "(object \<Rightarrow> 't option) \<Rightarrow> ptr \<Rightarrow> 'a memory \<Rightarrow> bool" where
  "handle_arg as p m \<longleftrightarrow> p = Null \<or> (\<exists>a x t. p = At a \<and> heap m a = Some (Boxed x) \<and> as x = Some t)"

definition var_arg :: "(cell \<Rightarrow> bool) \<Rightarrow> ptr \<Rightarrow> 'a memory \<Rightarrow> bool" where
  "var_arg kind p m \<longleftrightarrow> p = Null \<or> (\<exists>a c. p = At a \<and> heap m a = Some c \<and> kind c)"

definition buffer_arg :: "ptr \<Rightarrow> nat \<Rightarrow> 'a memory \<Rightarrow> bool" where
  "buffer_arg p len m \<longleftrightarrow>
     p = Null \<or> len = 0 \<or> (\<exists>a c bs. p = At a \<and> heap m a = Some c \<and> bytes_of c = Some bs \<and> len \<le> length bs)"

fun address_of :: "ptr \<Rightarrow> nat set" where
  "address_of Null = {}"
| "address_of (At a) = {a}"

lemma not_Null_iff: "p \<noteq> Null \<longleftrightarrow> (\<exists>a. p = At a)"
  by (cases p) auto

section \<open>The primitives\<close>

named_theorems ffi_steps \<open>what the primitives do on arguments of the right type\<close>

lemma deref_At [ffi_steps]: "heap m a = Some c \<Longrightarrow> deref (At a) m = (Ok c, m)"
  by (simp add: deref_def)

lemma assign_At [ffi_steps]:
  "heap m a = Some c \<Longrightarrow> kind c \<Longrightarrow> assign kind (At a) v m = (Ok (), m\<lparr>heap := (heap m)(a \<mapsto> v)\<rparr>)"
  by (simp add: assign_def)

lemma box_into_raw_apply [simp]: "box_into_raw c m = (Ok (fst (alloc c m)), snd (alloc c m))"
  by (simp add: box_into_raw_def)

lemma alloc_simps [simp]:
  "fst (alloc c m) = At (next_address m)"
  "heap (snd (alloc c m)) = (heap m)(next_address m \<mapsto> c)"
  "next_address (snd (alloc c m)) = Suc (next_address m)"
  "undefined_behaviour (snd (alloc c m)) = undefined_behaviour m"
  "app (snd (alloc c m)) = app m"
  by (simp_all add: alloc_def)

lemma handle_ref_At [ffi_steps]: "heap m a = Some (Boxed x) \<Longrightarrow> as x = Some t \<Longrightarrow> handle_ref as (At a) m = (Ok t, m)"
  by (simp add: handle_ref_def deref_At)

lemma native_handle_cast_Null [ffi_steps]: "native_handle_cast as Null m = (Err NullPointer, m)"
  by (simp add: native_handle_cast_def)

lemma native_handle_cast_At [ffi_steps]:
  "heap m a = Some (Boxed x) \<Longrightarrow> as x = Some t \<Longrightarrow> native_handle_cast as (At a) m = (Ok t, m)"
  by (simp add: native_handle_cast_def handle_ref_At)

lemma from_raw_parts_At [ffi_steps]:
  "heap m a = Some c \<Longrightarrow> bytes_of c = Some bs \<Longrightarrow> len \<le> length bs \<Longrightarrow> from_raw_parts (At a) len m = (Ok (take len bs), m)"
  by (simp add: from_raw_parts_def deref_At)

lemma as_slice_At [ffi_steps]:
  "heap m a = Some c \<Longrightarrow> bytes_of c = Some bs \<Longrightarrow> len \<le> length bs \<Longrightarrow> as_slice (At a) len m = (Ok (take len bs), m)"
  by (simp add: as_slice_def from_raw_parts_At)

text \<open>Writing results: only the variable changes, and a box may be new.\<close>

lemma assign_extends:
  assumes "memory_ok m" "var_arg kind p m" "p \<noteq> Null"
  shows "extends (address_of p) m (snd (assign kind p v m))"
  using assms by (auto simp: var_arg_def assign_At extends_update)

lemma var_arg_alloc: "memory_ok m \<Longrightarrow> var_arg kind p m \<Longrightarrow> var_arg kind p (snd (alloc c m))"
  by (fastforce simp: var_arg_def dest: memory_ok_less)

lemma alloc_ok: "memory_ok m \<Longrightarrow> memory_ok (snd (alloc c m))"
  using extends_alloc [of m "{}"] by (simp add: extends_def)

lemma alloc_assign_extends:
  assumes "memory_ok m" "var_arg kind p m" "p \<noteq> Null"
  shows "extends (address_of p) m (snd (assign kind p v (snd (alloc c m))))"
  by (rule extends_trans [OF extends_alloc assign_extends]) (use assms alloc_ok var_arg_alloc in auto)

lemma bind_extends:
  assumes "extends W m (snd (f m))" "\<And>x m'. f m = (Ok x, m') \<Longrightarrow> extends W m (snd (g x m'))"
  shows "extends W m (snd (sbind f g m))"
  using assms by (cases "f m" rule: prod.exhaust; cases "fst (f m)") (auto simp: sbind_def)

lemma snd_bind_throw: "snd (sbind f (\<lambda>_. sthrow e) m) = snd (f m)"
  by (simp add: sbind_def split: prod.splits result.splits)

lemma box_object_extends:
  assumes "memory_ok m" "var_arg is_PtrVar p m"
  shows "extends (address_of p) m (snd (box_object obj p r m))"
  using assms extends_refl [OF assms(1)] assign_extends [OF assms] alloc_assign_extends [OF assms]
  by (auto simp: box_object_def snd_bind_throw split: result.splits)

lemma box_optional_object_extends:
  assumes "memory_ok m" "var_arg is_PtrVar p m"
  shows "extends (address_of p) m (snd (box_optional_object obj p r m))"
  using assms extends_refl [OF assms(1)] assign_extends [OF assms] alloc_assign_extends [OF assms]
  by (auto simp: box_optional_object_def snd_bind_throw split: result.splits option.splits)

lemma write_cstr_to_extends:
  assumes "memory_ok m" "var_arg is_PtrVar p m"
  shows "extends (address_of p) m (snd (write_cstr_to p r m))"
  using assms extends_refl [OF assms(1)] alloc_assign_extends [OF assms]
  by (auto simp: write_cstr_to_def split: result.splits)

lemma write_numbers_extend:
  assumes "memory_ok m"
  shows "var_arg is_U32Var p m \<Longrightarrow> extends (address_of p) m (snd (write_uint32_to p r m))"
    and "var_arg is_U32Var p m \<Longrightarrow> extends (address_of p) m (snd (write_optional_uint32_to p r' m))"
    and "var_arg is_U64Var p m \<Longrightarrow> extends (address_of p) m (snd (write_uint64_to p r'' m))"
  using assms extends_refl [OF assms(1)] assign_extends [OF assms]
  by (auto simp: write_uint32_to_def write_optional_uint32_to_def write_uint64_to_def Let_def split: result.splits)

lemma var_arg_update:
  "var_arg kind p m \<Longrightarrow> heap m a = Some c \<Longrightarrow> (kind c \<Longrightarrow> kind c') \<Longrightarrow> var_arg kind p (m\<lparr>heap := (heap m)(a \<mapsto> c')\<rparr>)"
  by (auto simp: var_arg_def)

lemma write_bytearray_to_extends:
  assumes ok: "memory_ok m" and p: "var_arg is_PtrVar p m" and l: "var_arg is_SizeVar l m"
  shows "extends (address_of p \<union> address_of l) m (snd (write_bytearray_to p l r m))"
proof (cases "\<exists>v. r = Ok v \<and> p \<noteq> Null \<and> l \<noteq> Null")
  case True
  then obtain v b c where v: "r = Ok v" and b: "l = At b" "heap m b = Some c" "is_SizeVar c" and nn: "p \<noteq> Null"
    using l by (auto simp: var_arg_def)
  let ?m = "m\<lparr>heap := (heap m)(b \<mapsto> SizeVar (length v))\<rparr>"
  have 1: "extends (address_of p \<union> address_of l) m ?m" using ok b by (intro extends_update) auto
  then have ok': "memory_ok ?m" by (simp add: extends_def)
  have p': "var_arg is_PtrVar p ?m" using p b by (intro var_arg_update) (auto simp: is_SizeVar_def)
  have 2: "extends (address_of p) ?m (snd (assign is_PtrVar p (PtrVar (At (next_address m))) (snd (alloc (BoxedSlice v) ?m))))"
    by (rule alloc_assign_extends [OF ok' p' nn])
  show ?thesis
    using extends_trans [OF 1 extends_mono [OF 2]] v b nn by (simp add: write_bytearray_to_def assign_At subset_insertI)
qed (use ok extends_refl in \<open>auto simp: write_bytearray_to_def split: result.splits\<close>)


section \<open>Calls\<close>

text \<open>
  \<open>safe_call W f s\<close>: the call returns; nothing undefined happens; it returns null or the address of a new error;
  and of what was there before, only the cells at the addresses in \<open>W\<close> may have changed.
\<close>

definition safe_call :: "nat set \<Rightarrow> ('a, 'r) call \<Rightarrow> 'a memory \<times> 'r \<Rightarrow> bool" where
  "safe_call W f s \<longleftrightarrow>
     (case f s of (x, (m', r')) \<Rightarrow>
        extends W (fst s) m' \<and>
        (x = Ok Null \<or> (\<exists>a e. x = Ok (At a) \<and> next_address (fst s) \<le> a \<and> heap m' a = Some (BoxedError e))))"

lemma run_ffi_safe_safe:
  assumes "extends W m (snd (f m))"
  shows "safe_call W (run_ffi_safe payload (on_fst f)) (m, r)"
proof -
  obtain x m' where f: "f m = (x, m')" by fastforce
  with assms have ext: "extends W m m'" by simp
  then have ok: "memory_ok m'" and le: "next_address m \<le> next_address m'" by (simp_all add: extends_def)
  have ext': "extends W m (snd (alloc c m'))" for c by (rule extends_trans [OF ext extends_alloc [OF ok]])
  show ?thesis using f ext ext' le by (cases x) (simp_all add: safe_call_def run_ffi_safe_def on_fst_def)
qed

lemma handle_then_extends:
  assumes "memory_ok m" "handle_arg as p m" "\<And>t. extends W m (snd (g t m))"
  shows "extends W m (snd (sbind (native_handle_cast as p) g m))"
  using assms extends_refl [OF assms(1)] by (auto simp: handle_arg_def native_handle_cast_Null native_handle_cast_At)

lemma buffer_then_extends:
  assumes "memory_ok m" "buffer_arg p len m" "p \<noteq> Null" "\<And>bs. extends W m (snd (g bs m))"
  shows "extends W m (snd (sbind (from_raw_parts p len) g m))"
  using assms extends_refl [OF assms(1)]
  by (auto simp: buffer_arg_def from_raw_parts_At) (simp add: from_raw_parts_def)

lemma destroy_extends:
  assumes "memory_ok m" "handle_arg as p m"
  shows "extends (address_of p) m (snd ((if p \<noteq> Null then sbind (box_from_raw as p) (\<lambda>_. sret ()) else sret ()) m))"
  using assms extends_refl [OF assms(1)] extends_free [OF assms(1)] by (auto simp: handle_arg_def box_from_raw_def)

text \<open>
  C19. The functions that the macros make are memory safe: whatever the expression that the macro is given
  computes, when every pointer is null or points to something of its type, the call returns, nothing undefined
  happens, a panic or an error becomes a new error object, and of what was there before the call only the
  variable for the result (and the destroyed object) has changed.
\<close>

theorem templates_memory_safe:
  assumes ok: "memory_ok m" and p: "handle_arg as p m" and slot: "var_arg is_PtrVar slot m"
    and u32: "var_arg is_U32Var u32 m" and u64: "var_arg is_U64Var u64 m" and len: "var_arg is_SizeVar len m"
    and data: "buffer_arg data data_len m"
  shows
    "safe_call (address_of slot) (ffi_fn_deserialize payload obj func slot data data_len) (m, r) \<and>
     safe_call (address_of slot) (ffi_fn_get_new_boxed_obj payload as obj body_obj slot p) (m, r) \<and>
     safe_call (address_of slot) (ffi_fn_clone payload as obj' slot p) (m, r) \<and>
     safe_call (address_of slot) (ffi_fn_get_new_boxed_optional_obj payload as obj body_opt slot p) (m, r) \<and>
     safe_call (address_of u32) (ffi_fn_get_uint32 payload as body_u32 p u32) (m, r) \<and>
     safe_call (address_of u32) (ffi_fn_get_optional_uint32 payload as body_opt_u32 p u32) (m, r) \<and>
     safe_call (address_of u64) (ffi_fn_get_uint64 payload as body_u64 p u64) (m, r) \<and>
     safe_call (address_of slot \<union> address_of len) (ffi_fn_get_bytearray payload as body_bytes p slot len) (m, r) \<and>
     safe_call (address_of slot) (ffi_fn_get_cstring payload as body_string p slot) (m, r) \<and>
     safe_call (address_of p) (ffi_fn_destroy payload as p) (m, r)"
proof (intro conjI)
  have "extends (address_of slot) m (snd ((if data = Null then sthrow NullPointer
      else sbind (from_raw_parts data data_len) (\<lambda>data. box_object obj slot (func data))) m))"
    by (cases "data = Null")
       (simp_all add: extends_refl [OF ok] buffer_then_extends [OF ok data] box_object_extends [OF ok slot])
  then show "safe_call (address_of slot) (ffi_fn_deserialize payload obj func slot data data_len) (m, r)"
    unfolding ffi_fn_deserialize_def by (rule run_ffi_safe_safe)
qed (unfold ffi_fn_get_new_boxed_obj_def ffi_fn_clone_def ffi_fn_get_new_boxed_optional_obj_def
    ffi_fn_get_uint32_def ffi_fn_get_optional_uint32_def ffi_fn_get_uint64_def ffi_fn_get_bytearray_def
    ffi_fn_get_cstring_def ffi_fn_destroy_def,
   (intro run_ffi_safe_safe handle_then_extends [OF ok p] box_object_extends [OF ok slot]
     box_optional_object_extends [OF ok slot] write_numbers_extend [OF ok] write_cstr_to_extends [OF ok slot]
     write_bytearray_to_extends [OF ok slot len] destroy_extends [OF ok p] u32 u64)+)

definition ref_memory :: "unit memory" where
  "ref_memory =
     \<lparr>heap = [0 \<mapsto> Boxed (O_PublicKey (PublicKey (DjbPublicKey (replicate 32 9)))), 1 \<mapsto> PtrVar Null, 2 \<mapsto> U32Var 0,
              3 \<mapsto> U64Var 0, 4 \<mapsto> SizeVar 0, 5 \<mapsto> CallerBytes (5 # replicate 32 9), 6 \<mapsto> PtrVar Null],
      next_address = 7, undefined_behaviour = False, app = ()\<rparr>"

definition ref_env :: "(u8, u8, nat) ffi_env" where
  "ref_env =
     \<lparr>panic_payload = None, env_crypto = ref_crypto,
      env_IdentityKeyPair = ref_prost c_IdentityKeyPairStructure, env_Record = ref_prost c_RecordStructure,
      env_CombinedFingerprints = ref_prost c_CombinedFingerprints, env_SignalMessage = ref_prost c_wire_SignalMessage,
      env_PreKeySignalMessage = ref_prost c_wire_PreKeySignalMessage,
      env_SenderKeyMessage = ref_prost c_wire_SenderKeyMessage,
      env_SenderKeyDistributionMessage = ref_prost c_wire_SenderKeyDistributionMessage,
      env_SignedPreKeyRecord = ref_prost (c_iso
        (\<lambda>m. (spkr_id m, spkr_public_key m, spkr_private_key m, spkr_signature m, spkr_timestamp m))
        (\<lambda>(i, p, k, s, t). \<lparr>spkr_id = i, spkr_public_key = p, spkr_private_key = k, spkr_signature = s, spkr_timestamp = t\<rparr>)
        (c_pair c_word (c_pair c_bytes (c_pair c_bytes (c_pair c_bytes c_word))))),
      env_PreKeyRecord = ref_prost (c_iso (\<lambda>m. (pkr_id m, pkr_public_key m, pkr_private_key m))
        (\<lambda>(i, p, k). \<lparr>pkr_id = i, pkr_public_key = p, pkr_private_key = k\<rparr>) (c_pair c_word (c_pair c_bytes c_bytes))),
      env_SenderKeyRecord = ref_prost c_SenderKeyRecordStructure\<rparr>"

lemma ref_memory_ok: "memory_ok ref_memory"
  by (simp add: memory_ok_def ref_memory_def)

theorem templates_memory_safe_witness:
  "safe_call {1} (ffi_fn_clone None as_PublicKey O_PublicKey (At 1) (At 0)) (ref_memory, ()) \<and>
   safe_call {1, 4} (ffi_fn_get_bytearray None as_PublicKey (\<lambda>k. Ok (PublicKey_serialize k)) (At 0) (At 1) (At 4)) (ref_memory, ())"
proof -
  have "handle_arg as_PublicKey (At 0) ref_memory" "var_arg is_PtrVar (At 1) ref_memory" "var_arg is_U32Var (At 2) ref_memory"
      "var_arg is_U64Var (At 3) ref_memory" "var_arg is_SizeVar (At 4) ref_memory" "buffer_arg (At 5) 33 ref_memory"
    by (simp_all add: handle_arg_def var_arg_def buffer_arg_def ref_memory_def as_PublicKey_def)
  from templates_memory_safe [OF ref_memory_ok this, where payload = None and obj = O_PublicKey and obj' = O_PublicKey
      and body_bytes = "\<lambda>k. Ok (PublicKey_serialize k)" and r = "()"]
  show ?thesis by (simp add: insert_commute)
qed

section \<open>The life of a handle\<close>

text \<open>
  The contract of a type of handles: its values are told apart from those of the other types. Everything that the
  templates do with a handle of the type follows from it.
\<close>

locale handle_type =
  fixes obj :: "'t \<Rightarrow> object"
    and as :: "object \<Rightarrow> 't option"
  assumes as_obj [simp]: "as (obj t) = Some t"
    and as_Some: "as x = Some t \<Longrightarrow> x = obj t"
begin

lemma as_iff: "as x = Some t \<longleftrightarrow> x = obj t"
  using as_Some by auto

lemma deserialize_new:
  assumes "memory_ok m" "heap m d = Some c" "bytes_of c = Some bs" "len \<le> length bs" "func (take len bs) = Ok t"
    "heap m s = Some (PtrVar q)"
  shows "ffi_fn_deserialize payload obj func (At s) (At d) len (m, r) =
    (Ok Null, (m\<lparr>heap := (heap m)(next_address m \<mapsto> Boxed (obj t), s \<mapsto> PtrVar (At (next_address m))),
                 next_address := Suc (next_address m)\<rparr>, r))"
  using assms memory_ok_less [OF assms(1) assms(6)]
  by (simp add: ffi_fn_deserialize_def run_ffi_safe_def on_fst_def from_raw_parts_At box_object_def assign_def alloc_def)

lemma get_bytearray:
  assumes "memory_ok m" "heap m h = Some (Boxed (obj t))" "body t = Ok v" "heap m o' = Some (PtrVar q)" "heap m l = Some (SizeVar n)"
  shows "ffi_fn_get_bytearray payload as body (At h) (At o') (At l) (m, r) =
    (Ok Null, (m\<lparr>heap := (heap m)(l \<mapsto> SizeVar (length v), next_address m \<mapsto> BoxedSlice v, o' \<mapsto> PtrVar (At (next_address m))),
                 next_address := Suc (next_address m)\<rparr>, r))"
proof -
  have "o' \<noteq> l" using assms(4, 5) by auto
  then show ?thesis using assms memory_ok_less [OF assms(1) assms(4)] memory_ok_less [OF assms(1) assms(5)]
    by (simp add: ffi_fn_get_bytearray_def run_ffi_safe_def on_fst_def native_handle_cast_At write_bytearray_to_def
        assign_def alloc_def)
qed

lemma destroy:
  "heap m h = Some (Boxed (obj t)) \<Longrightarrow> ffi_fn_destroy payload as (At h) (m, r) = (Ok Null, (free h m, r))"
  by (simp add: ffi_fn_destroy_def run_ffi_safe_def on_fst_def box_from_raw_def)

text \<open>An object used after it was destroyed is noticed.\<close>

lemma destroyed_twice:
  "heap m h = None \<Longrightarrow> undefined_behaviour (fst (snd (ffi_fn_destroy payload as (At h) (m, r))))"
  by (simp add: ffi_fn_destroy_def run_ffi_safe_def on_fst_def box_from_raw_def UB_def sbind_def)

text \<open>From bytes to an object and back, with every box freed: only the variables of the caller have changed.\<close>

lemma life_cycle:
  assumes ok: "memory_ok m" and d: "heap m d = Some c" "bytes_of c = Some bs" "len \<le> length bs"
    and t: "func (take len bs) = Ok t" "body t = Ok v"
    and vars: "heap m s = Some (PtrVar q)" "heap m o' = Some (PtrVar q')" "heap m l = Some (SizeVar n)" "s \<noteq> o'"
  obtains h b m1 m2 m3 where
    "ffi_fn_deserialize payload obj func (At s) (At d) len (m, r) = (Ok Null, (m1, r))" "heap m1 s = Some (PtrVar (At h))"
    "ffi_fn_get_bytearray payload as body (At h) (At o') (At l) (m1, r) = (Ok Null, (m2, r))"
    "heap m2 o' = Some (PtrVar (At b))" "heap m2 l = Some (SizeVar (length v))" "heap m2 b = Some (BoxedSlice v)"
    "ffi_fn_destroy payload as (At h) (m2, r) = (Ok Null, (m3, r))"
    "signal_free_buffer (At b) (length v) m3 = (Ok (), free b m3)"
    "heap (free b m3) = (heap m)(s \<mapsto> PtrVar (At h), o' \<mapsto> PtrVar (At b), l \<mapsto> SizeVar (length v))"
    "\<not> undefined_behaviour (free b m3)"
proof -
  define h where "h = next_address m"
  define m1 where "m1 = m\<lparr>heap := (heap m)(h \<mapsto> Boxed (obj t), s \<mapsto> PtrVar (At h)), next_address := Suc h\<rparr>"
  define m2 where "m2 = m1\<lparr>heap := (heap m1)(l \<mapsto> SizeVar (length v), Suc h \<mapsto> BoxedSlice v, o' \<mapsto> PtrVar (At (Suc h))),
    next_address := Suc (Suc h)\<rparr>"
  have less: "s < h" "o' < h" "l < h" using vars memory_ok_less [OF ok] by (auto simp: h_def)
  have ne: "s \<noteq> l" "o' \<noteq> l" using vars by auto
  have fresh: "heap m h = None" "heap m (Suc h) = None" using ok by (simp_all add: h_def memory_okD)
  have ok1: "memory_ok m1" using ok less by (auto simp: memory_ok_def m1_def h_def)
  have 1: "ffi_fn_deserialize payload obj func (At s) (At d) len (m, r) = (Ok Null, (m1, r))"
    by (subst deserialize_new [where func = func, OF ok d t(1) vars(1)]) (simp add: m1_def h_def)
  have 2: "ffi_fn_get_bytearray payload as body (At h) (At o') (At l) (m1, r) = (Ok Null, (m2, r))"
    by (subst get_bytearray [OF ok1]) (use less ne vars t in \<open>auto simp: m1_def m2_def h_def\<close>)
  have h2: "heap m2 h = Some (Boxed (obj t))" using less by (simp add: m2_def m1_def)
  have 3: "ffi_fn_destroy payload as (At h) (m2, r) = (Ok Null, (free h m2, r))" by (rule destroy [OF h2])
  have 4: "signal_free_buffer (At (Suc h)) (length v) (free h m2) = (Ok (), free (Suc h) (free h m2))"
    using less by (simp add: signal_free_buffer_def deref_def free_def m2_def)
  have 5: "heap (free (Suc h) (free h m2)) = (heap m)(s \<mapsto> PtrVar (At h), o' \<mapsto> PtrVar (At (Suc h)), l \<mapsto> SizeVar (length v))"
    using less ne vars(4) fresh by (auto simp: free_def m2_def m1_def fun_eq_iff)
  have 6: "\<not> undefined_behaviour (free (Suc h) (free h m2))"
    using ok by (simp add: free_def m2_def m1_def memory_okD)
  show ?thesis
    by (rule that [OF 1 _ 2 _ _ _ 3 4 5 6]) (use less ne vars(4) in \<open>simp_all add: m1_def m2_def\<close>)
qed

end

interpretation h_ProtocolAddress: handle_type O_ProtocolAddress as_ProtocolAddress
  by unfold_locales (auto simp: as_ProtocolAddress_def split: object.splits)

interpretation h_PublicKey: handle_type O_PublicKey as_PublicKey
  by unfold_locales (auto simp: as_PublicKey_def split: object.splits)

interpretation h_PrivateKey: handle_type O_PrivateKey as_PrivateKey
  by unfold_locales (auto simp: as_PrivateKey_def split: object.splits)

interpretation h_SessionRecord: handle_type O_SessionRecord as_SessionRecord
  by unfold_locales (auto simp: as_SessionRecord_def split: object.splits)

interpretation h_Fingerprint: handle_type O_Fingerprint as_Fingerprint
  by unfold_locales (auto simp: as_Fingerprint_def split: object.splits)

interpretation h_SignalMessage: handle_type O_SignalMessage as_SignalMessage
  by unfold_locales (auto simp: as_SignalMessage_def split: object.splits)

interpretation h_PreKeySignalMessage: handle_type O_PreKeySignalMessage as_PreKeySignalMessage
  by unfold_locales (auto simp: as_PreKeySignalMessage_def split: object.splits)

interpretation h_SenderKeyMessage: handle_type O_SenderKeyMessage as_SenderKeyMessage
  by unfold_locales (auto simp: as_SenderKeyMessage_def split: object.splits)

interpretation h_SenderKeyDistributionMessage: handle_type O_SenderKeyDistributionMessage as_SenderKeyDistributionMessage
  by unfold_locales (auto simp: as_SenderKeyDistributionMessage_def split: object.splits)

interpretation h_PreKeyBundle: handle_type O_PreKeyBundle as_PreKeyBundle
  by unfold_locales (auto simp: as_PreKeyBundle_def split: object.splits)

interpretation h_PreKeyRecord: handle_type O_PreKeyRecord as_PreKeyRecord
  by unfold_locales (auto simp: as_PreKeyRecord_def split: object.splits)

interpretation h_SignedPreKeyRecord: handle_type O_SignedPreKeyRecord as_SignedPreKeyRecord
  by unfold_locales (auto simp: as_SignedPreKeyRecord_def split: object.splits)

interpretation h_SenderKeyName: handle_type O_SenderKeyName as_SenderKeyName
  by unfold_locales (auto simp: as_SenderKeyName_def split: object.splits)

interpretation h_SenderKeyRecord: handle_type O_SenderKeyRecord as_SenderKeyRecord
  by unfold_locales (auto simp: as_SenderKeyRecord_def split: object.splits)

interpretation h_CiphertextMessage: handle_type O_CiphertextMessage as_CiphertextMessage
  by unfold_locales (auto simp: as_CiphertextMessage_def split: object.splits)

text \<open>
  A public key through C, with every box freed: \<open>signal_publickey_deserialize\<close> makes a handle from the bytes
  of the caller, \<open>signal_publickey_serialize\<close> gives the bytes of that key and their number,
  \<open>signal_publickey_destroy\<close> and \<open>signal_free_buffer\<close> free the two boxes, each call reports success, and at the end
  the memory is as it was at the beginning but for the three variables of the caller.
\<close>

lemma publickey_handle_life_cycle:
  assumes "memory_ok m" "heap m d = Some c" "bytes_of c = Some bs" "len \<le> length bs"
    "PublicKey_deserialize (take len bs) = Ok k"
    "heap m s = Some (PtrVar q)" "heap m o' = Some (PtrVar q')" "heap m l = Some (SizeVar n)" "s \<noteq> o'"
  shows "\<exists>h b m1 m2 m3 m4.
    signal_publickey_deserialize E (At s) (At d) len (m, r) = (Ok Null, (m1, r)) \<and> heap m1 s = Some (PtrVar (At h)) \<and>
    signal_publickey_serialize E (At h) (At o') (At l) (m1, r) = (Ok Null, (m2, r)) \<and>
    heap m2 o' = Some (PtrVar (At b)) \<and> heap m2 b = Some (BoxedSlice (PublicKey_serialize k)) \<and>
    heap m2 l = Some (SizeVar (length (PublicKey_serialize k))) \<and>
    signal_publickey_destroy E (At h) (m2, r) = (Ok Null, (m3, r)) \<and>
    signal_free_buffer (At b) (length (PublicKey_serialize k)) m3 = (Ok () :: (SignalFfiError, unit) result, m4) \<and>
    heap m4 = (heap m)(s \<mapsto> PtrVar (At h), o' \<mapsto> PtrVar (At b), l \<mapsto> SizeVar (length (PublicKey_serialize k))) \<and>
    \<not> undefined_behaviour m4"
  unfolding signal_publickey_deserialize_def signal_publickey_serialize_def signal_publickey_destroy_def
  by (rule h_PublicKey.life_cycle [where func = PublicKey_deserialize and body = "\<lambda>k. Ok (PublicKey_serialize k)"
        and payload = "panic_payload E" and r = r, OF assms(1-5) refl assms(6-9)]) blast

lemma publickey_handle_life_cycle_witness:
  "\<exists>h m1. signal_publickey_deserialize ref_env (At 1) (At 5) 33 (ref_memory, 0) = (Ok Null, (m1, 0)) \<and>
     heap m1 1 = Some (PtrVar (At h)) \<and>
     (\<exists>m2. signal_publickey_serialize ref_env (At h) (At 6) (At 4) (m1, 0) = (Ok Null, (m2, 0)) \<and>
       heap m2 4 = Some (SizeVar 33))"
proof -
  let ?k = "PublicKey (DjbPublicKey (replicate 32 9))"
  have "PublicKey_deserialize (take 33 (5 # replicate 32 9)) = Ok ?k" "length (PublicKey_serialize ?k) = 33"
    by (simp_all add: PublicKey_deserialize_def PublicKey_serialize_def KeyType_try_from_def)
  then show ?thesis
    using publickey_handle_life_cycle [of ref_memory 5 "CallerBytes (5 # replicate 32 9)" "5 # replicate 32 9" 33 ?k 1 Null 6 Null 4 0
        ref_env 0] ref_memory_ok
    by (auto simp: ref_memory_def)
qed

section \<open>Errors\<close>

text \<open>
  C20. Errors and panics reach the caller as error objects: when the body of a function fails with an error or
  panics, the function returns the address of a new object whose type, as \<open>signal_error_get_type\<close> gives it, is the
  code of the error (3 for a panic) and never 0, the type of a null pointer; \<open>signal_error_free\<close> gives the memory
  back as the body left it, up to the next free address.
\<close>

theorem errors_reach_the_caller:
  assumes "f s = (x, (m', r'))" "x \<noteq> Ok ()"
  shows "\<exists>a m'' code. run_ffi_safe payload f s = (Ok (At a), (m'', r')) \<and>
    signal_error_get_type (At a) m'' = (Ok (SignalErrorCode_value code) :: (SignalFfiError, u32) result, m'') \<and>
    code = (case x of Err e \<Rightarrow> SignalErrorCode_from e | _ \<Rightarrow> EC_InternalError) \<and> SignalErrorCode_value code \<noteq> 0 \<and>
    signal_error_get_type Null m'' = (Ok 0 :: (SignalFfiError, u32) result, m'') \<and>
    (memory_ok m' \<longrightarrow> (\<exists>m3. signal_error_free (At a) m'' = (Ok () :: (SignalFfiError, unit) result, m3) \<and>
       heap m3 = heap m' \<and> memory_ok m3 \<and> app m3 = app m'))"
proof -
  have nonzero: "SignalErrorCode_value code \<noteq> 0" for code by (cases code) simp_all
  have freed: "(heap m')(next_address m' := None) = heap m'" if "memory_ok m'" using that by (auto simp: memory_ok_def)
  show ?thesis
    using assms nonzero freed
    by (cases x) (auto simp: run_ffi_safe_def on_fst_def signal_error_get_type_def error_ref_def deref_def signal_error_free_def
        free_def alloc_def SignalErrorCode_from_def memory_ok_def split: if_splits)
qed

theorem errors_reach_the_caller_witness:
  "\<exists>a m''. signal_privatekey_generate ref_env Null (ref_memory, 0) = (Ok (At a), (m'', 1)) \<and>
     signal_error_get_type (At a) m'' = (Ok 4 :: (SignalFfiError, u32) result, m'')"
proof -
  let ?f = "sbind (on_snd (sgen (KeyPair_generate (env_crypto ref_env)))) (\<lambda>keypair.
      on_fst (box_object O_PrivateKey Null (Ok (kp_private_key keypair))))"
  have "?f (ref_memory, 0) = (Err NullPointer, (ref_memory, 1))"
    by (simp add: ref_env_def ref_crypto_def KeyPair_generate_def Curve25519_new_def box_object_def sbind_def
        on_fst_def on_snd_def split_beta)
  from errors_reach_the_caller [where f = ?f, OF this, of None] show ?thesis
    by (auto simp: signal_privatekey_generate_def ref_env_def SignalErrorCode_from_def)
qed

text \<open>
  C37. Pointers that are trusted without a test. The functions that write their result directly
  (\<open>signal_publickey_compare\<close>, \<open>signal_publickey_verify\<close>, \<open>signal_message_verify_mac\<close>,
  \<open>signal_sender_key_message_verify_signature\<close>, \<open>signal_ciphertext_message_type\<close>) write through a null result pointer, and
  \<open>signal_pre_key_bundle_new\<close> reads through a null identity key; \<open>signal_fingerprint_compare\<close> reports a null
  pointer in the same situation.
\<close>

theorem null_result_pointers:
  assumes "memory_ok m"
    and "heap m k1 = Some (Boxed (O_PublicKey key1))" "heap m k2 = Some (Boxed (O_PublicKey key2))"
    and "heap m c = Some (Boxed (O_CiphertextMessage ct))"
    and "heap m sk = Some (Boxed (O_SenderKeyMessage skm))" "64 \<le> length (skm_serialized skm)"
    and "heap m sm = Some (Boxed (O_SignalMessage msg))" "8 \<le> length (sm_serialized msg)"
    and "heap m b = Some (CallerBytes mac_key)" "length mac_key = 32" "hash_ok (env_crypto E)"
  shows "undefined_behaviour (fst (snd (signal_publickey_compare E Null (At k1) (At k2) (m, r)))) \<and>
    undefined_behaviour (fst (snd (signal_publickey_verify E (At k1) Null msg_ptr msg_len sig_ptr sig_len (m, r)))) \<and>
    undefined_behaviour (fst (snd (signal_ciphertext_message_type E Null (At c) (m, r)))) \<and>
    undefined_behaviour (fst (snd (signal_sender_key_message_verify_signature E Null (At sk) (At k1) (m, r)))) \<and>
    undefined_behaviour (fst (snd (signal_message_verify_mac E Null (At sm) (At k1) (At k2) (At b) 32 (m, r)))) \<and>
    undefined_behaviour (fst (snd (signal_pre_key_bundle_new E obj reg dev Null Null spk_id (At k1) (At b) 32 Null (m, r)))) \<and>
    (\<exists>a m'. signal_fingerprint_compare E Null f1 n1 f2 n2 (m, r) = (Ok (At a), (m', r)) \<and>
       heap m' a = Some (BoxedError NullPointer) \<and> \<not> undefined_behaviour m')"
proof (intro conjI)
  note run = run_ffi_safe_def on_fst_def native_handle_cast_At as_PublicKey_def as_CiphertextMessage_def
    as_SenderKeyMessage_def as_SignalMessage_def assign_def UB_def question_mark_def sbind_def
  note cells = assms(2-9)
  show "undefined_behaviour (fst (snd (signal_publickey_compare E Null (At k1) (At k2) (m, r))))"
    using cells by (simp add: signal_publickey_compare_def run)
  show "undefined_behaviour (fst (snd (signal_publickey_verify E (At k1) Null msg_ptr msg_len sig_ptr sig_len (m, r))))"
    using cells by (simp add: signal_publickey_verify_def run)
  show "undefined_behaviour (fst (snd (signal_ciphertext_message_type E Null (At c) (m, r))))"
    using cells by (simp add: signal_ciphertext_message_type_def run)
  have "\<exists>v. SenderKeyMessage_verify_signature (env_crypto E) skm key1 = Ok v" using cells
    by (simp add: SenderKeyMessage_verify_signature_def SIGNATURE_LEN_def verify_signature_def PublicKey_verify_signature_def
        Let_def split: PublicKeyData.splits)
  then show "undefined_behaviour (fst (snd (signal_sender_key_message_verify_signature E Null (At sk) (At k1) (m, r))))"
    using cells by (auto simp: signal_sender_key_message_verify_signature_def run)
  have "\<exists>v. SignalMessage_verify_mac (env_crypto E) msg (IdentityKey key1) (IdentityKey key2) mac_key = Ok v"
    using cells assms(10, 11) by (auto simp: SignalMessage_verify_mac_def MAC_LENGTH_def Let_def result_simps compute_mac_Ok_iff)
  then show "undefined_behaviour (fst (snd (signal_message_verify_mac E Null (At sm) (At k1) (At k2) (At b) 32 (m, r))))"
    using cells assms(10) by (auto simp: signal_message_verify_mac_def as_slice_At run)
  show "undefined_behaviour (fst (snd (signal_pre_key_bundle_new E obj reg dev Null Null spk_id (At k1) (At b) 32 Null (m, r))))"
    using cells assms(10)
    by (simp add: signal_pre_key_bundle_new_def as_slice_At native_handle_cast_optional_def get_optional_uint32_def
        handle_ref_def deref_def run)
  show "\<exists>a m'. signal_fingerprint_compare E Null f1 n1 f2 n2 (m, r) = (Ok (At a), (m', r)) \<and>
       heap m' a = Some (BoxedError NullPointer) \<and> \<not> undefined_behaviour m'"
    using assms(1) by (simp add: signal_fingerprint_compare_def run_ffi_safe_def on_fst_def memory_okD)
qed

definition ref_message_memory :: "unit memory" where
  "ref_message_memory =
     \<lparr>heap = [0 \<mapsto> Boxed (O_PublicKey (ref_key 1)), 1 \<mapsto> Boxed (O_PublicKey (ref_key 2)),
              2 \<mapsto> Boxed (O_CiphertextMessage (CM_SignalMessage
                 \<lparr>sm_message_version = 3, sm_sender_ratchet_key = ref_key 1, sm_counter = 0, sm_previous_counter = 0,
                  sm_ciphertext = [], sm_serialized = replicate 8 0\<rparr>)),
              3 \<mapsto> Boxed (O_SenderKeyMessage \<lparr>skm_message_version = 3, skm_key_id = 0, skm_iteration = 0,
                 skm_ciphertext = [], skm_serialized = replicate 64 0\<rparr>),
              4 \<mapsto> Boxed (O_SignalMessage
                 \<lparr>sm_message_version = 3, sm_sender_ratchet_key = ref_key 1, sm_counter = 0, sm_previous_counter = 0,
                  sm_ciphertext = [], sm_serialized = replicate 8 0\<rparr>),
              5 \<mapsto> CallerBytes (replicate 32 0)],
      next_address = 6, undefined_behaviour = False, app = ()\<rparr>"

theorem null_result_pointers_witness:
  "undefined_behaviour (fst (snd (signal_publickey_compare ref_env Null (At 0) (At 1) (ref_message_memory, 0))))"
proof -
  have "memory_ok ref_message_memory" by (simp add: memory_ok_def ref_message_memory_def)
  from null_result_pointers [OF this, of 0 "ref_key 1" 1 "ref_key 2" 2 _ 3 _ 4 _ 5 "replicate 32 0" ref_env]
  show ?thesis by (simp add: ref_message_memory_def ref_env_def)
qed

end
