(* ===== verification/Simulation.thy ===== *)
theory Simulation
  imports Session_Cipher Group_Cipher
begin

text \<open>
  The protocol operations do not depend on how a store is made: when the operations of one store simulate those of
  another, so do the session and group operations that run on them. The contract is the locale
  \<open>store_simulation\<close>; the lemmas in it are about every pair of stores with the contract.
\<close>

section \<open>Simulation of operations\<close>

text \<open>
  \<open>sim view step f g\<close>: from a state \<open>s\<close> that is fit (\<open>step s s\<close>), \<open>f\<close> has the outcome that \<open>g\<close> has from \<open>view s\<close>, and the states
  they leave correspond; the change that \<open>f\<close> makes to its state is one that \<open>step\<close> allows, and the state is fit again
  unless the outcome is an error of a language interface (\<open>FfiBindingError\<close>).
\<close>

definition interface_error :: "'x sresult \<Rightarrow> bool" where
  "interface_error x \<longleftrightarrow> (\<exists>t. x = Err (FfiBindingError t))"

definition sim :: "('s \<Rightarrow> 't) \<Rightarrow> ('s \<Rightarrow> 's \<Rightarrow> bool) \<Rightarrow> ('s, 'x) sst \<Rightarrow> ('t, 'x) sst \<Rightarrow> bool" where
  "sim view step f g \<longleftrightarrow>
     (\<forall>s x s'. step s s \<longrightarrow> f s = (x, s') \<longrightarrow>
        step s s' \<and> (\<not> interface_error x \<longrightarrow> step s' s') \<and> g (view s) = (x, view s'))"

lemma interface_error_simps [simp]:
  "\<not> interface_error (Ok v)" "\<not> interface_error Panic" "interface_error (Err e) \<longleftrightarrow> (\<exists>t. e = FfiBindingError t)"
  by (simp_all add: interface_error_def)

definition pair_view :: "('s \<Rightarrow> 't) \<Rightarrow> 's \<times> 'r \<Rightarrow> 't \<times> 'r" where
  "pair_view view = (\<lambda>(s, r). (view s, r))"

definition pair_step :: "('s \<Rightarrow> 's \<Rightarrow> bool) \<Rightarrow> 's \<times> 'r \<Rightarrow> 's \<times> 'r \<Rightarrow> bool" where
  "pair_step step = (\<lambda>s s'. step (fst s) (fst s'))"

named_theorems sim_intros \<open>rules for simulations\<close>

lemma simI:
  "(\<And>s x s'. step s s \<Longrightarrow> f s = (x, s') \<Longrightarrow>
      step s s' \<and> (\<not> interface_error x \<longrightarrow> step s' s') \<and> g (view s) = (x, view s')) \<Longrightarrow> sim view step f g"
  unfolding sim_def by blast

lemma simD:
  "sim view step f g \<Longrightarrow> step s s \<Longrightarrow> f s = (x, s') \<Longrightarrow>
     step s s' \<and> (\<not> interface_error x \<longrightarrow> step s' s') \<and> g (view s) = (x, view s')"
  unfolding sim_def by blast

text \<open>Where every change that \<open>step\<close> allows leaves a fit state.\<close>

lemma simI_fit:
  assumes "\<And>s s'. step s s' \<Longrightarrow> step s' s'"
    and "\<And>s x s'. step s s \<Longrightarrow> f s = (x, s') \<Longrightarrow> step s s' \<and> g (view s) = (x, view s')"
  shows "sim view step f g"
  using assms unfolding sim_def by blast

lemma sim_basic [sim_intros]: "sim view step (sret x) (sret x)" "sim view step (sthrow e) (sthrow e)" "sim view step (slift r) (slift r)"
  by (auto simp: sim_def)

lemma sim_If [sim_intros]: "sim view step f g \<Longrightarrow> sim view step f' g' \<Longrightarrow> sim view step (if b then f else f') (if b then g else g')"
  by simp

lemma sim_case_option [sim_intros]:
  "sim view step f g \<Longrightarrow> (\<And>x. sim view step (f' x) (g' x)) \<Longrightarrow>
     sim view step (case y of None \<Rightarrow> f | Some x \<Rightarrow> f' x) (case y of None \<Rightarrow> g | Some x \<Rightarrow> g' x)"
  by (simp split: option.splits)

lemma sim_case_prod [sim_intros]:
  "(\<And>x y. sim view step (f x y) (g x y)) \<Longrightarrow> sim view step (case z of (x, y) \<Rightarrow> f x y) (case z of (x, y) \<Rightarrow> g x y)"
  by (simp split: prod.splits)

lemma sim_on_fst [sim_intros]:
  assumes "sim view step f g"
  shows "sim (pair_view view) (pair_step step) (on_fst f) (on_fst g)"
proof (rule simI)
  fix p x p' assume p: "pair_step step p p" and run: "on_fst f p = (x, p')"
  obtain s r where p_def: "p = (s, r)" by fastforce
  obtain y s' where f: "f s = (y, s')" by fastforce
  from simD [OF assms _ f] p run f
  show "pair_step step p p' \<and> (\<not> interface_error x \<longrightarrow> pair_step step p' p') \<and> on_fst g (pair_view view p) = (x, pair_view view p')"
    by (auto simp: pair_step_def pair_view_def on_fst_def p_def)
qed

lemma sim_on_snd [sim_intros]: "sim (pair_view view) (pair_step step) (on_snd f) (on_snd f)"
  by (auto simp: sim_def pair_view_def pair_step_def on_snd_def split: prod.splits)

lemma sim_modify_record [sim_intros]: "sim (pair_view view) (pair_step step) (modify_record f) (modify_record f)"
  by (auto simp: sim_def pair_view_def pair_step_def modify_record_def split: prod.splits result.splits)

lemma sim_reading_record [sim_intros]:
  assumes "\<And>r. sim (pair_view view) (pair_step step) (f r) (g r)"
  shows "sim (pair_view view) (pair_step step) (reading_record f) (reading_record g)"
proof (rule simI)
  fix p x p' assume p: "pair_step step p p" and run: "reading_record f p = (x, p')"
  obtain s r where p_def: "p = (s, r)" by fastforce
  have "f r p = (x, p')" using run by (simp add: reading_record_def p_def)
  from simD [OF assms p this]
  show "pair_step step p p' \<and> (\<not> interface_error x \<longrightarrow> pair_step step p' p') \<and>
      reading_record g (pair_view view p) = (x, pair_view view p')"
    by (simp add: reading_record_def p_def pair_view_def)
qed

lemma sim_with_record [sim_intros]:
  assumes "sim (pair_view view) (pair_step step) f g"
  shows "sim view step (with_record r f) (with_record r g)"
proof (rule simI)
  fix s x s' assume s: "step s s" and run: "with_record r f s = (x, s')"
  obtain y s1 r1 where f: "f (s, r) = (y, (s1, r1))" by (metis prod.exhaust)
  from simD [OF assms _ f] s
  have "step s s1" "\<not> interface_error y \<longrightarrow> step s1 s1" "g (view s, r) = (y, (view s1, r1))"
    by (simp_all add: pair_step_def pair_view_def)
  with run f show "step s s' \<and> (\<not> interface_error x \<longrightarrow> step s' s') \<and> with_record r g (view s) = (x, view s')"
    by (cases y) (auto simp: with_record_def)
qed

section \<open>Sequences\<close>

locale simulation =
  fixes step :: "'s \<Rightarrow> 's \<Rightarrow> bool"
  assumes step_trans: "step s s' \<Longrightarrow> step s' s'' \<Longrightarrow> step s s''"
begin

lemma sim_sbind:
  assumes "sim view step f g" "\<And>x. sim view step (f' x) (g' x)"
  shows "sim view step (sbind f f') (sbind g g')"
proof (rule simI)
  fix s y s'' assume s: "step s s" and run: "sbind f f' s = (y, s'')"
  obtain x s' where f: "f s = (x, s')" by fastforce
  note 1 = simD [OF assms(1) s f]
  show "step s s'' \<and> (\<not> interface_error y \<longrightarrow> step s'' s'') \<and> sbind g g' (view s) = (y, view s'')"
  proof (cases x)
    case (Ok v)
    with f run have "f' v s' = (y, s'')" by simp
    from simD [OF assms(2) _ this] 1 Ok have 2: "step s' s''" "\<not> interface_error y \<longrightarrow> step s'' s''" "g' v (view s') = (y, view s'')"
      by simp_all
    with 1 Ok step_trans [of s s' s''] show ?thesis by simp
  qed (use 1 f run in auto)
qed

lemma pair: "simulation (pair_step step)"
  by unfold_locales (auto simp: pair_step_def intro: step_trans)

lemmas sim_sbind_pair = simulation.sim_sbind [OF pair]

lemmas rules = sim_intros sim_sbind sim_sbind_pair

end

section \<open>Stores\<close>

text \<open>
  The first of each pair of stores simulates the second; the operations that no protocol operation calls are left out.
\<close>

locale store_simulation = simulation step for step :: "'s \<Rightarrow> 's \<Rightarrow> bool" +
  fixes view :: "'s \<Rightarrow> 't" and identity_st :: "'s IdentityKeyStore" and identity_st' :: "'t IdentityKeyStore"
    and session_st :: "'s SessionStore" and session_st' :: "'t SessionStore"
  assumes get_identity_key_pair_sim: "sim view step (get_identity_key_pair identity_st) (get_identity_key_pair identity_st')"
    and get_local_registration_id_sim:
      "sim view step (get_local_registration_id identity_st) (get_local_registration_id identity_st')"
    and save_identity_sim: "sim view step (save_identity identity_st a i) (save_identity identity_st' a i)"
    and is_trusted_identity_sim: "sim view step (is_trusted_identity identity_st a i d) (is_trusted_identity identity_st' a i d)"
    and load_session_sim: "sim view step (load_session session_st a) (load_session session_st' a)"
    and store_session_sim: "sim view step (store_session session_st a r) (store_session session_st' a r)"
begin

lemmas store_sims = get_identity_key_pair_sim get_local_registration_id_sim save_identity_sim is_trusted_identity_sim
  load_session_sim store_session_sim

lemma process_prekey_bundle_sim:
  "sim (pair_view view) (pair_step step) (process_prekey_bundle C addr session_st identity_st bundle)
     (process_prekey_bundle C addr session_st' identity_st' bundle)"
  unfolding process_prekey_bundle_def Let_def by (intro rules store_sims)

lemma message_encrypt_sim:
  "sim view step (message_encrypt C PS PP ptext addr session_st identity_st)
     (message_encrypt C PS PP ptext addr session_st' identity_st')"
  unfolding message_encrypt_def Let_def by (intro rules store_sims)

lemma message_decrypt_signal_sim:
  "sim (pair_view view) (pair_step step) (message_decrypt_signal C msg addr session_st identity_st)
     (message_decrypt_signal C msg addr session_st' identity_st')"
  unfolding message_decrypt_signal_def by (intro rules store_sims)

end

text \<open>With the stores of pre-keys, for pre-key messages.\<close>

locale prekey_store_simulation = store_simulation step view identity_st identity_st' session_st session_st'
  for step :: "'s \<Rightarrow> 's \<Rightarrow> bool" and view :: "'s \<Rightarrow> 't" and identity_st identity_st' session_st session_st' +
  fixes pre_key_st :: "'s PreKeyStore" and pre_key_st' :: "'t PreKeyStore"
    and signed_pre_key_st :: "'s SignedPreKeyStore" and signed_pre_key_st' :: "'t SignedPreKeyStore"
  assumes get_pre_key_sim: "sim view step (get_pre_key pre_key_st i) (get_pre_key pre_key_st' i)"
    and remove_pre_key_sim: "sim view step (remove_pre_key pre_key_st i) (remove_pre_key pre_key_st' i)"
    and get_signed_pre_key_sim: "sim view step (get_signed_pre_key signed_pre_key_st i) (get_signed_pre_key signed_pre_key_st' i)"
begin

lemmas prekey_sims = get_pre_key_sim remove_pre_key_sim get_signed_pre_key_sim

lemma process_prekey_v3_sim:
  "sim (pair_view view) (pair_step step) (process_prekey_v3 C msg signed_pre_key_st pre_key_st identity_st)
     (process_prekey_v3 C msg signed_pre_key_st' pre_key_st' identity_st')"
  unfolding process_prekey_v3_def Let_def by (intro rules store_sims prekey_sims)

lemma process_prekey_sim:
  "sim (pair_view view) (pair_step step) (process_prekey C msg addr identity_st pre_key_st signed_pre_key_st)
     (process_prekey C msg addr identity_st' pre_key_st' signed_pre_key_st')"
  unfolding process_prekey_def Let_def by (intro rules store_sims process_prekey_v3_sim)

lemma message_decrypt_prekey_sim:
  "sim (pair_view view) (pair_step step) (message_decrypt_prekey C msg addr session_st identity_st pre_key_st signed_pre_key_st)
     (message_decrypt_prekey C msg addr session_st' identity_st' pre_key_st' signed_pre_key_st')"
  unfolding message_decrypt_prekey_def Let_def by (intro rules store_sims prekey_sims process_prekey_sim)

end

text \<open>The store of sender keys, for the group operations.\<close>

locale sender_key_simulation = simulation step for step :: "'s \<Rightarrow> 's \<Rightarrow> bool" +
  fixes view :: "'s \<Rightarrow> 't" and sender_key_st :: "'s SenderKeyStore" and sender_key_st' :: "'t SenderKeyStore"
  assumes load_sender_key_sim: "sim view step (load_sender_key sender_key_st n) (load_sender_key sender_key_st' n)"
    and store_sender_key_sim: "sim view step (store_sender_key sender_key_st n r) (store_sender_key sender_key_st' n r)"
begin

lemma group_encrypt_sim:
  "sim (pair_view view) (pair_step step) (group_encrypt C P sender_key_st n ptext) (group_encrypt C P sender_key_st' n ptext)"
  unfolding group_encrypt_def by (intro rules load_sender_key_sim store_sender_key_sim)

lemma group_decrypt_sim: "sim view step (group_decrypt C P msg sender_key_st n) (group_decrypt C P msg sender_key_st' n)"
  unfolding group_decrypt_def by (intro rules load_sender_key_sim store_sender_key_sim)

lemma process_distribution_sim:
  "sim view step (process_sender_key_distribution_message n skdm sender_key_st)
     (process_sender_key_distribution_message n skdm sender_key_st')"
  unfolding process_sender_key_distribution_message_def Let_def by (intro rules load_sender_key_sim store_sender_key_sim)

lemma create_distribution_sim:
  "sim (pair_view view) (pair_step step) (create_sender_key_distribution_message C P n sender_key_st)
     (create_sender_key_distribution_message C P n sender_key_st')"
  unfolding create_sender_key_distribution_message_def Let_def by (intro rules load_sender_key_sim store_sender_key_sim)

end

end
