(* ===== verification/Ffi_Refinement.thy ===== *)
theory Ffi_Refinement
  imports Ffi_Stores Ffi_Safety Simulation
begin

text \<open>
  The session and group functions of the C interface, on callbacks that implement some store over the state of the
  application, do what the protocol operations do on that store, and leave the memory of the caller alone but for the
  variables for the result. What is asked of the callbacks is written out as definitions; they are the
  assumptions of the locales \<open>session_app\<close>, \<open>prekey_app\<close> and \<open>group_app\<close>, which give the contracts of
  \<open>Simulation\<close>.
\<close>

section \<open>What the callbacks promise\<close>

text \<open>
  \<open>frame W m m'\<close>: the memory \<open>m'\<close> is well-formed, and the cells of \<open>m\<close> are unchanged but for those in \<open>W\<close>.
  \<open>kept I\<close>: no cell has changed, and the application keeps the invariant \<open>I\<close> of its state.
\<close>

definition frame :: "nat set \<Rightarrow> 'a memory \<Rightarrow> 'a memory \<Rightarrow> bool" where
  "frame W m m' \<longleftrightarrow>
     memory_ok m' \<and> next_address m \<le> next_address m' \<and> (\<forall>a<next_address m. a \<notin> W \<longrightarrow> heap m' a = heap m a)"

definition kept :: "('a \<Rightarrow> bool) \<Rightarrow> 'a memory \<Rightarrow> 'a memory \<Rightarrow> bool" where
  "kept I m m' \<longleftrightarrow> memory_ok m \<and> I (app m) \<and> I (app m') \<and> frame {} m m'"

lemma frame_trans: "frame W m m' \<Longrightarrow> frame W m' m'' \<Longrightarrow> frame W m m''"
  by (auto simp: frame_def)

lemma frame_mono: "frame W m m' \<Longrightarrow> W \<subseteq> V \<Longrightarrow> frame V m m'"
  by (auto simp: frame_def)

lemma extends_frame: "extends W m m' \<Longrightarrow> frame W m m'"
  by (simp add: frame_def extends_def)

lemma frame_cell: "memory_ok m \<Longrightarrow> frame W m m' \<Longrightarrow> heap m a = Some c \<Longrightarrow> a \<notin> W \<Longrightarrow> heap m' a = Some c"
  by (auto simp: frame_def dest: memory_ok_less)

lemma kept_refl: "kept I m m \<longleftrightarrow> memory_ok m \<and> I (app m)"
  by (auto simp: kept_def frame_def)

interpretation kept: simulation "kept I"
  by unfold_locales (auto simp: kept_def frame_def)

lemma kept_simI:
  assumes "\<And>m x m'. kept I m m \<Longrightarrow> f m = (x, m') \<Longrightarrow> kept I m m' \<and> g (app m) = (x, app m')"
  shows "sim app (kept I) f g"
proof (rule simI_fit)
  show "kept I m' m'" if "kept I m m'" for m m' using that by (auto simp: kept_def frame_def)
qed (rule assms)

text \<open>
  A callback that loads an object (\<open>loads\<close>): it returns the code 0 and a new box with the object that the store has,
  or null when it has none, or else its error code. One that answers yes or no (\<open>answers\<close>), one that answers with a
  number (\<open>numbers\<close>), and one without an answer (\<open>performs\<close>) do so by their code. None changes a cell that was there.
\<close>

definition loads ::
    "('a \<Rightarrow> bool) \<Rightarrow> string \<Rightarrow> ('t \<Rightarrow> object) \<Rightarrow> ('a memory \<Rightarrow> (i32 \<times> ptr) \<times> 'a memory) \<Rightarrow> ('a, 't option) sst \<Rightarrow> bool" where
  "loads I name obj callback op \<longleftrightarrow>
     (\<forall>m. memory_ok m \<longrightarrow> I (app m) \<longrightarrow>
       (case callback m of ((code, p), m') \<Rightarrow>
          kept I m m' \<and>
          (case op (app m) of (x, a') \<Rightarrow> app m' = a' \<and>
             (case x of
                Ok None \<Rightarrow> code = 0 \<and> p = Null
              | Ok (Some t) \<Rightarrow> code = 0 \<and> (\<exists>a\<ge>next_address m. p = At a \<and> heap m' a = Some (Boxed (obj t)))
              | Err e \<Rightarrow> code \<noteq> 0 \<and> e = ApplicationCallbackReturnedIntegerError name code
              | Panic \<Rightarrow> False))))"

definition answers ::
    "('a \<Rightarrow> bool) \<Rightarrow> string \<Rightarrow> ('a memory \<Rightarrow> i32 \<times> 'a memory) \<Rightarrow> ('a, bool) sst \<Rightarrow> bool" where
  "answers I name callback op \<longleftrightarrow>
     (\<forall>m. memory_ok m \<longrightarrow> I (app m) \<longrightarrow>
       (case callback m of (code, m') \<Rightarrow>
          kept I m m' \<and>
          (case op (app m) of (x, a') \<Rightarrow> app m' = a' \<and>
             (case x of
                Ok b \<Rightarrow> code = (if b then 1 else 0)
              | Err e \<Rightarrow> code \<noteq> 0 \<and> code \<noteq> 1 \<and> e = ApplicationCallbackReturnedIntegerError name code
              | Panic \<Rightarrow> False))))"

definition numbers ::
    "('a \<Rightarrow> bool) \<Rightarrow> string \<Rightarrow> ('a memory \<Rightarrow> (i32 \<times> u32) \<times> 'a memory) \<Rightarrow> ('a, u32) sst \<Rightarrow> bool" where
  "numbers I name callback op \<longleftrightarrow>
     (\<forall>m. memory_ok m \<longrightarrow> I (app m) \<longrightarrow>
       (case callback m of ((code, n), m') \<Rightarrow>
          kept I m m' \<and>
          (case op (app m) of (x, a') \<Rightarrow> app m' = a' \<and>
             (case x of
                Ok k \<Rightarrow> code = 0 \<and> n = k
              | Err e \<Rightarrow> code \<noteq> 0 \<and> e = ApplicationCallbackReturnedIntegerError name code
              | Panic \<Rightarrow> False))))"

definition performs ::
    "('a \<Rightarrow> bool) \<Rightarrow> string \<Rightarrow> ('a memory \<Rightarrow> i32 \<times> 'a memory) \<Rightarrow> ('a, unit) sst \<Rightarrow> bool" where
  "performs I name callback op \<longleftrightarrow>
     (\<forall>m. memory_ok m \<longrightarrow> I (app m) \<longrightarrow>
       (case callback m of (code, m') \<Rightarrow>
          kept I m m' \<and>
          (case op (app m) of (x, a') \<Rightarrow> app m' = a' \<and>
             (case x of
                Ok _ \<Rightarrow> code = 0
              | Err e \<Rightarrow> code \<noteq> 0 \<and> e = ApplicationCallbackReturnedIntegerError name code
              | Panic \<Rightarrow> False))))"

text \<open>
  An operation of a store that reports a missing entry as the error \<open>missing\<close>, seen as one that may find nothing; and
  the key pair of a store by its private key, of which the library computes the public key.
\<close>

definition optional :: "SignalProtocolError \<Rightarrow> ('s, 't) sst \<Rightarrow> ('s, 't option) sst" where
  "optional missing op = (\<lambda>s. case op s of
     (Ok t, s') \<Rightarrow> (Ok (Some t), s')
   | (Err e, s') \<Rightarrow> if e = missing then (Ok None, s') else (Err e, s')
   | (Panic, s') \<Rightarrow> (Panic, s'))"

definition private_half :: "('s, IdentityKeyPair) sst \<Rightarrow> ('s, PrivateKey option) sst" where
  "private_half op = sbind op (\<lambda>kp. sret (Some (ikp_private_key kp)))"

definition key_pairs_match :: "('sc, 'pt, 'r) crypto \<Rightarrow> ('a \<Rightarrow> bool) \<Rightarrow> ('a, IdentityKeyPair) sst \<Rightarrow> bool" where
  "key_pairs_match C I op \<longleftrightarrow>
     (\<forall>a kp a'. I a \<longrightarrow> op a = (Ok kp, a') \<longrightarrow>
        PrivateKey_public_key C (ikp_private_key kp) = Ok (ik_public_key (ikp_identity_key kp)))"

definition identity_callbacks ::
    "('sc, 'pt, 'r) crypto \<Rightarrow> ('a \<Rightarrow> bool) \<Rightarrow> ptr \<Rightarrow> 'a FfiIdentityKeyStoreStruct \<Rightarrow> 'a IdentityKeyStore \<Rightarrow> bool" where
  "identity_callbacks C I ctx cs S \<longleftrightarrow>
     loads I ''get_identity_key_pair'' O_PrivateKey (fis_get_identity_key_pair cs (fis_ctx cs) ctx)
       (private_half (get_identity_key_pair S)) \<and>
     key_pairs_match C I (get_identity_key_pair S) \<and>
     numbers I ''get_local_registration_id'' (fis_get_local_registration_id cs (fis_ctx cs) ctx) (get_local_registration_id S) \<and>
     (\<forall>a i. answers I ''save_identity'' (fis_save_identity cs (fis_ctx cs) a (ik_public_key i) ctx) (save_identity S a i)) \<and>
     (\<forall>a i d. answers I ''is_trusted_identity''
        (fis_is_trusted_identity cs (fis_ctx cs) a (ik_public_key i) (case d of Sending \<Rightarrow> 0 | Receiving \<Rightarrow> 1) ctx)
        (is_trusted_identity S a i d))"

definition session_callbacks ::
    "('a \<Rightarrow> bool) \<Rightarrow> ptr \<Rightarrow> 'a FfiSessionStoreStruct \<Rightarrow> 'a SessionStore \<Rightarrow> bool" where
  "session_callbacks I ctx cs S \<longleftrightarrow>
     (\<forall>a. loads I ''load_session'' O_SessionRecord (fse_load_session cs (fse_ctx cs) a ctx) (load_session S a)) \<and>
     (\<forall>a r. performs I ''store_session'' (fse_store_session cs (fse_ctx cs) a r ctx) (store_session S a r))"

definition pre_key_callbacks ::
    "('a \<Rightarrow> bool) \<Rightarrow> ptr \<Rightarrow> 'a FfiPreKeyStoreStruct \<Rightarrow> 'a PreKeyStore \<Rightarrow> bool" where
  "pre_key_callbacks I ctx cs S \<longleftrightarrow>
     (\<forall>i. loads I ''load_pre_key'' O_PreKeyRecord (fps_load_pre_key cs (fps_ctx cs) i ctx)
        (optional InvalidPreKeyId (get_pre_key S i))) \<and>
     (\<forall>i. performs I ''remove_pre_key'' (fps_remove_pre_key cs (fps_ctx cs) i ctx) (remove_pre_key S i))"

definition signed_pre_key_callbacks ::
    "('a \<Rightarrow> bool) \<Rightarrow> ptr \<Rightarrow> 'a FfiSignedPreKeyStoreStruct \<Rightarrow> 'a SignedPreKeyStore \<Rightarrow> bool" where
  "signed_pre_key_callbacks I ctx cs S \<longleftrightarrow>
     (\<forall>i. loads I ''load_signed_pre_key'' O_SignedPreKeyRecord (fss_load_signed_pre_key cs (fss_ctx cs) i ctx)
        (optional InvalidSignedPreKeyId (get_signed_pre_key S i)))"

definition sender_key_callbacks ::
    "('a \<Rightarrow> bool) \<Rightarrow> ptr \<Rightarrow> 'a FfiSenderKeyStoreStruct \<Rightarrow> 'a SenderKeyStore \<Rightarrow> bool" where
  "sender_key_callbacks I ctx cs S \<longleftrightarrow>
     (\<forall>n. loads I ''load_sender_key'' O_SenderKeyRecord (fsk_load_sender_key cs (fsk_ctx cs) n ctx) (load_sender_key S n)) \<and>
     (\<forall>n r. performs I ''store_sender_key'' (fsk_store_sender_key cs (fsk_ctx cs) n r ctx) (store_sender_key S n r))"

section \<open>The stores simulate\<close>

text \<open>Taking over the box that a callback made leaves the cells that were there before as they were.\<close>

lemma kept_free:
  assumes "kept I m m'" "next_address m \<le> a"
  shows "kept I m (free a m')"
  using assms by (auto simp: kept_def frame_def memory_ok_def free_def)

context handle_type
begin

lemma take_object_sim:
  assumes cb: "loads I name obj callback op"
  shows "sim app (kept I) (sbind (sgen callback) (\<lambda>(code, p). take_object as name code p)) op"
proof (rule kept_simI)
  fix m x m'' assume m: "kept I m m" and run: "sbind (sgen callback) (\<lambda>(code, p). take_object as name code p) m = (x, m'')"
  obtain code p m' where c: "callback m = ((code, p), m')" by (metis prod.exhaust)
  obtain y a' where op: "op (app m) = (y, a')" by fastforce
  have k: "kept I m m'" "app m' = a'" and
    y: "case y of Ok None \<Rightarrow> code = 0 \<and> p = Null
          | Ok (Some t) \<Rightarrow> code = 0 \<and> (\<exists>a\<ge>next_address m. p = At a \<and> heap m' a = Some (Boxed (obj t)))
          | Err e \<Rightarrow> code \<noteq> 0 \<and> e = ApplicationCallbackReturnedIntegerError name code | Panic \<Rightarrow> False"
    using cb [unfolded loads_def, rule_format, of m] m c op by (auto simp: kept_refl)
  have run': "take_object as name code p m' = (x, m'')" using run c by simp
  show "kept I m m'' \<and> op (app m) = (x, app m'')"
    using run' k y op kept_free [OF k(1)]
    by (auto simp: take_object_def box_from_raw_def free_def split: result.splits option.splits)
qed

end

lemma answers_sim:
  assumes "answers I name callback op"
  shows "sim app (kept I) (sbind (sgen callback) (\<lambda>result. yes_or_no name result)) op"
proof (rule kept_simI)
  fix m x m'' assume m: "kept I m m" and run: "sbind (sgen callback) (\<lambda>result. yes_or_no name result) m = (x, m'')"
  obtain code m' where c: "callback m = (code, m')" by fastforce
  obtain y a' where op: "op (app m) = (y, a')" by fastforce
  show "kept I m m'' \<and> op (app m) = (x, app m'')"
    using assms [unfolded answers_def, rule_format, of m] m c op run
    by (auto simp: kept_refl yes_or_no_def split: result.splits if_splits)
qed

lemma numbers_sim:
  assumes "numbers I name callback op"
  shows "sim app (kept I) (sbind (sgen callback) (\<lambda>(result, n).
     if result \<noteq> 0 then sthrow (ApplicationCallbackReturnedIntegerError name result) else sret n)) op"
proof (rule kept_simI)
  fix m x m'' assume m: "kept I m m" and run: "sbind (sgen callback) (\<lambda>(result, n).
     if result \<noteq> 0 then sthrow (ApplicationCallbackReturnedIntegerError name result) else sret n) m = (x, m'')"
  obtain code n m' where c: "callback m = ((code, n), m')" by (metis prod.exhaust)
  obtain y a' where op: "op (app m) = (y, a')" by fastforce
  show "kept I m m'' \<and> op (app m) = (x, app m'')"
    using assms [unfolded numbers_def, rule_format, of m] m c op run
    by (auto simp: kept_refl split: result.splits if_splits)
qed

lemma performs_sim:
  assumes "performs I name callback op"
  shows "sim app (kept I) (sbind (sgen callback) (\<lambda>result. check_code name result)) op"
proof (rule kept_simI)
  fix m x m'' assume m: "kept I m m" and run: "sbind (sgen callback) (\<lambda>result. check_code name result) m = (x, m'')"
  obtain code m' where c: "callback m = (code, m')" by fastforce
  obtain y a' where op: "op (app m) = (y, a')" by fastforce
  show "kept I m m'' \<and> op (app m) = (x, app m'')"
    using assms [unfolded performs_def, rule_format, of m] m c op run
    by (auto simp: kept_refl check_code_def split: result.splits if_splits)
qed

text \<open>A missing entry that the library reports as an error.\<close>

lemma optional_sim:
  assumes "sim view step f (optional missing op)"
  shows "sim view step (sbind f (\<lambda>t. slift (ok_or t missing))) op"
proof (rule simI)
  fix s x s'' assume s: "step s s" and run: "sbind f (\<lambda>t. slift (ok_or t missing)) s = (x, s'')"
  obtain y s' where f: "f s = (y, s')" by fastforce
  from simD [OF assms s f]
  have "step s s'" "\<not> interface_error y \<longrightarrow> step s' s'" "optional missing op (view s) = (y, view s')" by auto
  with run f show "step s s'' \<and> (\<not> interface_error x \<longrightarrow> step s'' s'') \<and> op (view s) = (x, view s'')"
    by (cases y) (auto simp: optional_def split: prod.splits result.splits if_splits option.splits)
qed

lemma identity_key_pair_sim:
  assumes "identity_callbacks C I ctx cs S"
  shows "sim app (kept I) (Ffi_get_identity_key_pair C cs ctx) (get_identity_key_pair S)"
proof (rule kept_simI)
  fix m x m'' assume m: "kept I m m" and run: "Ffi_get_identity_key_pair C cs ctx m = (x, m'')"
  let ?cb = "fis_get_identity_key_pair cs (fis_ctx cs) ctx" and ?name = "''get_identity_key_pair''"
  have "loads I ?name O_PrivateKey ?cb (private_half (get_identity_key_pair S))"
    and match: "key_pairs_match C I (get_identity_key_pair S)"
    using assms by (simp_all add: identity_callbacks_def)
  note take_sim = h_PrivateKey.take_object_sim [OF this(1)]
  obtain code p m' where c: "?cb m = ((code, p), m')" by (metis prod.exhaust)
  obtain y m1 where t: "take_object as_PrivateKey ?name code p m' = (y, m1)" by fastforce
  have 1: "kept I m m1 \<and> private_half (get_identity_key_pair S) (app m) = (y, app m1)"
    using simD [OF take_sim m, of y m1] by (simp add: c t)
  have match': "PrivateKey_public_key C (ikp_private_key kp) = Ok (ik_public_key (ikp_identity_key kp))"
    if "get_identity_key_pair S (app m) = (Ok kp, a')" for kp a'
    using match m that by (auto simp: key_pairs_match_def kept_refl)
  have run': "(if code \<noteq> 0 then sthrow (ApplicationCallbackReturnedIntegerError ?name code)
     else if p = Null then sthrow (InternalError ''No identity key pair'')
     else sbind (box_from_raw as_PrivateKey p) (\<lambda>priv_key.
          sbind (slift (PrivateKey_public_key C priv_key)) (\<lambda>pub_key.
          sret \<lparr>ikp_identity_key = IdentityKey pub_key, ikp_private_key = priv_key\<rparr>))) m' = (x, m'')"
    using run c by (simp add: Ffi_get_identity_key_pair_def)
  show "kept I m m'' \<and> get_identity_key_pair S (app m) = (x, app m'')"
    using 1 run' t match'
    by (cases "get_identity_key_pair S (app m)" rule: prod.exhaust; cases "fst (get_identity_key_pair S (app m))")
       (auto simp: private_half_def take_object_def sbind_def split: if_splits prod.splits result.splits)
qed

lemma sbind_case_nested: "sbind f (\<lambda>(c, p). sbind (g c p) h) = sbind (sbind f (\<lambda>(c, p). g c p)) h"
  by (rule ext) (auto simp: sbind_def split: prod.splits result.splits)

lemma Ffi_store_sims:
  shows "identity_callbacks C I ctx cs S \<Longrightarrow> sim app (kept I) (Ffi_get_local_registration_id cs ctx) (get_local_registration_id S)"
    and "identity_callbacks C I ctx cs S \<Longrightarrow> sim app (kept I) (Ffi_save_identity cs ctx a i) (save_identity S a i)"
    and "identity_callbacks C I ctx cs S \<Longrightarrow> sim app (kept I) (Ffi_is_trusted_identity cs ctx a i d) (is_trusted_identity S a i d)"
    and "session_callbacks I ctx se Se \<Longrightarrow> sim app (kept I) (Ffi_load_session se ctx a) (load_session Se a)"
    and "session_callbacks I ctx se Se \<Longrightarrow> sim app (kept I) (Ffi_store_session se ctx a r) (store_session Se a r)"
    and "pre_key_callbacks I ctx ps Ps \<Longrightarrow> sim app (kept I) (Ffi_get_pre_key ps ctx n) (get_pre_key Ps n)"
    and "pre_key_callbacks I ctx ps Ps \<Longrightarrow> sim app (kept I) (Ffi_remove_pre_key ps ctx n) (remove_pre_key Ps n)"
    and "signed_pre_key_callbacks I ctx ss Ss \<Longrightarrow> sim app (kept I) (Ffi_get_signed_pre_key ss ctx n) (get_signed_pre_key Ss n)"
    and "sender_key_callbacks I ctx sk Sk \<Longrightarrow> sim app (kept I) (Ffi_load_sender_key sk ctx k) (load_sender_key Sk k)"
    and "sender_key_callbacks I ctx sk Sk \<Longrightarrow> sim app (kept I) (Ffi_store_sender_key sk ctx k rec) (store_sender_key Sk k rec)"
proof -
  have dir: "FfiDirection_value (case d of Sending \<Rightarrow> Ffi_Sending | Receiving \<Rightarrow> Ffi_Receiving) = (case d of Sending \<Rightarrow> 0 | Receiving \<Rightarrow> 1)"
    for d :: Direction by (cases d) simp_all
  show "identity_callbacks C I ctx cs S \<Longrightarrow> sim app (kept I) (Ffi_get_local_registration_id cs ctx) (get_local_registration_id S)"
    unfolding Ffi_get_local_registration_id_def by (rule numbers_sim) (simp add: identity_callbacks_def)
  show "identity_callbacks C I ctx cs S \<Longrightarrow> sim app (kept I) (Ffi_save_identity cs ctx a i) (save_identity S a i)"
    unfolding Ffi_save_identity_def by (rule answers_sim) (simp add: identity_callbacks_def)
  show "identity_callbacks C I ctx cs S \<Longrightarrow> sim app (kept I) (Ffi_is_trusted_identity cs ctx a i d) (is_trusted_identity S a i d)"
    unfolding Ffi_is_trusted_identity_def Let_def dir by (rule answers_sim) (simp add: identity_callbacks_def)
  show "session_callbacks I ctx se Se \<Longrightarrow> sim app (kept I) (Ffi_load_session se ctx a) (load_session Se a)"
    unfolding Ffi_load_session_def by (rule h_SessionRecord.take_object_sim) (simp add: session_callbacks_def)
  show "session_callbacks I ctx se Se \<Longrightarrow> sim app (kept I) (Ffi_store_session se ctx a r) (store_session Se a r)"
    unfolding Ffi_store_session_def by (rule performs_sim) (simp add: session_callbacks_def)
  show "pre_key_callbacks I ctx ps Ps \<Longrightarrow> sim app (kept I) (Ffi_get_pre_key ps ctx n) (get_pre_key Ps n)"
    unfolding Ffi_get_pre_key_def sbind_case_nested
    by (rule optional_sim, rule h_PreKeyRecord.take_object_sim) (simp add: pre_key_callbacks_def)
  show "pre_key_callbacks I ctx ps Ps \<Longrightarrow> sim app (kept I) (Ffi_remove_pre_key ps ctx n) (remove_pre_key Ps n)"
    unfolding Ffi_remove_pre_key_def by (rule performs_sim) (simp add: pre_key_callbacks_def)
  show "signed_pre_key_callbacks I ctx ss Ss \<Longrightarrow> sim app (kept I) (Ffi_get_signed_pre_key ss ctx n) (get_signed_pre_key Ss n)"
    unfolding Ffi_get_signed_pre_key_def sbind_case_nested
    by (rule optional_sim, rule h_SignedPreKeyRecord.take_object_sim) (simp add: signed_pre_key_callbacks_def)
  show "sender_key_callbacks I ctx sk Sk \<Longrightarrow> sim app (kept I) (Ffi_load_sender_key sk ctx k) (load_sender_key Sk k)"
    unfolding Ffi_load_sender_key_def by (rule h_SenderKeyRecord.take_object_sim) (simp add: sender_key_callbacks_def)
  show "sender_key_callbacks I ctx sk Sk \<Longrightarrow> sim app (kept I) (Ffi_store_sender_key sk ctx k rec) (store_sender_key Sk k rec)"
    unfolding Ffi_store_sender_key_def by (rule performs_sim) (simp add: sender_key_callbacks_def)
qed

section \<open>Applications\<close>

locale session_app =
  fixes C :: "('sc, 'pt, 'r) crypto" and I :: "'a \<Rightarrow> bool" and ctx :: ptr
    and identity_cs :: "'a FfiIdentityKeyStoreStruct" and identity_st :: "'a IdentityKeyStore"
    and session_cs :: "'a FfiSessionStoreStruct" and session_st :: "'a SessionStore"
  assumes identity: "identity_callbacks C I ctx identity_cs identity_st"
    and session: "session_callbacks I ctx session_cs session_st"
begin

sublocale store_simulation "kept I" app "Ffi_IdentityKeyStore C identity_cs ctx" identity_st
  "Ffi_SessionStore session_cs ctx" session_st
  by unfold_locales
     (auto simp: Ffi_IdentityKeyStore_def Ffi_SessionStore_def
       intro: identity_key_pair_sim Ffi_store_sims identity session)

lemmas session_sims = process_prekey_bundle_sim message_encrypt_sim message_decrypt_signal_sim

end

locale prekey_app = session_app C I ctx identity_cs identity_st session_cs session_st
  for C :: "('sc, 'pt, 'r) crypto" and I :: "'a \<Rightarrow> bool" and ctx identity_cs identity_st session_cs session_st +
  fixes pre_key_cs :: "'a FfiPreKeyStoreStruct" and pre_key_st :: "'a PreKeyStore"
    and signed_pre_key_cs :: "'a FfiSignedPreKeyStoreStruct" and signed_pre_key_st :: "'a SignedPreKeyStore"
  assumes pre_key: "pre_key_callbacks I ctx pre_key_cs pre_key_st"
    and signed_pre_key: "signed_pre_key_callbacks I ctx signed_pre_key_cs signed_pre_key_st"
begin

sublocale prekey_store_simulation "kept I" app "Ffi_IdentityKeyStore C identity_cs ctx" identity_st
  "Ffi_SessionStore session_cs ctx" session_st "Ffi_PreKeyStore pre_key_cs ctx" pre_key_st
  "Ffi_SignedPreKeyStore signed_pre_key_cs ctx" signed_pre_key_st
  by unfold_locales
     (auto simp: Ffi_PreKeyStore_def Ffi_SignedPreKeyStore_def intro: Ffi_store_sims pre_key signed_pre_key)

lemmas prekey_message_sim = message_decrypt_prekey_sim

end

locale group_app =
  fixes I :: "'a \<Rightarrow> bool" and ctx :: ptr
    and sender_key_cs :: "'a FfiSenderKeyStoreStruct" and sender_key_st :: "'a SenderKeyStore"
  assumes sender_key: "sender_key_callbacks I ctx sender_key_cs sender_key_st"
begin

sublocale sender_key_simulation "kept I" app "Ffi_SenderKeyStore sender_key_cs ctx" sender_key_st
  by unfold_locales (auto simp: Ffi_SenderKeyStore_def intro: Ffi_store_sims sender_key)

lemmas group_sims = create_distribution_sim process_distribution_sim group_encrypt_sim group_decrypt_sim

end

section \<open>Calls\<close>

text \<open>
  \<open>ffi_refines W payload good f op s\<close>: the call \<open>f\<close> returns, and nothing undefined happens; \<open>op\<close>, on the state of the
  application, has an outcome \<open>x\<close> and leaves the state that the application has after the call; the call returns null
  and leaves the result of \<open>op\<close> where \<open>good\<close> says, or a new error object with the error of \<open>op\<close>; the cells that
  were there before the call are unchanged but for those in \<open>W\<close>.
\<close>

definition reports :: "string option \<Rightarrow> ('t \<Rightarrow> 'a memory \<Rightarrow> bool) \<Rightarrow> 't sresult \<Rightarrow> ptr \<Rightarrow> 'a memory \<Rightarrow> bool" where
  "reports payload good x e m' \<longleftrightarrow>
     (case x of
        Ok v \<Rightarrow> e = Null \<and> good v m'
      | Err er \<Rightarrow> (\<exists>a. e = At a \<and> heap m' a = Some (BoxedError (Signal er)))
      | Panic \<Rightarrow> (\<exists>a. e = At a \<and> heap m' a = Some (BoxedError (UnexpectedPanic payload))))"

definition ffi_refines ::
    "nat set \<Rightarrow> string option \<Rightarrow> ('t \<Rightarrow> 'a memory \<Rightarrow> bool) \<Rightarrow> ('a, 'r) call \<Rightarrow> ('a \<times> 'r, 't) sst \<Rightarrow> 'a memory \<times> 'r \<Rightarrow> bool" where
  "ffi_refines W payload good f op s \<longleftrightarrow>
     (\<exists>e m' r' x. f s = (Ok e, (m', r')) \<and> op (app (fst s), snd s) = (x, (app m', r')) \<and>
        reports payload good x e m' \<and> frame W (fst s) m')"

text \<open>Where the results are left: a handle in a variable, or bytes with their number.\<close>

definition handle_in :: "('t \<Rightarrow> object) \<Rightarrow> nat \<Rightarrow> 't \<Rightarrow> 'a memory \<Rightarrow> bool" where
  "handle_in obj s v m' \<longleftrightarrow> (\<exists>h. heap m' s = Some (PtrVar (At h)) \<and> heap m' h = Some (Boxed (obj v)))"

definition bytes_in :: "nat \<Rightarrow> nat \<Rightarrow> bytes \<Rightarrow> 'a memory \<Rightarrow> bool" where
  "bytes_in out len v m' \<longleftrightarrow>
     (\<exists>b. heap m' out = Some (PtrVar (At b)) \<and> heap m' b = Some (BoxedSlice v)) \<and> heap m' len = Some (SizeVar (length v))"

text \<open>A function that looks at the outcome of an operation and writes the result.\<close>

definition writes :: "nat set \<Rightarrow> ('t \<Rightarrow> 'a memory \<Rightarrow> bool) \<Rightarrow> ('t sresult \<Rightarrow> ('a, unit) ffi) \<Rightarrow> 'a memory \<Rightarrow> bool" where
  "writes W good w m \<longleftrightarrow>
     (\<forall>x. x \<noteq> Panic \<longrightarrow> (case w x m of (y, m') \<Rightarrow>
        extends W m m' \<and> (case x of Ok v \<Rightarrow> y = Ok () \<and> good v m' | Err e \<Rightarrow> y = Err (Signal e) | Panic \<Rightarrow> True)))"

lemma writesI:
  assumes "\<And>x. x \<noteq> Panic \<Longrightarrow> extends W m (snd (w x m))"
    and "\<And>v. fst (w (Ok v) m) = Ok () \<and> good v (snd (w (Ok v) m))" "\<And>e. fst (w (Err e) m) = Err (Signal e)"
  shows "writes W good w m"
  using assms by (auto simp: writes_def split_beta split: result.splits)

lemma box_object_writes:
  assumes ok: "memory_ok m" and s: "heap m s = Some (PtrVar q)"
  shows "writes {s} (handle_in obj s) (box_object obj (At s)) m"
proof -
  have less: "s < next_address m" using memory_ok_less [OF ok s] .
  have "extends {s} m (snd (box_object obj (At s) x m))" for x
    using box_object_extends [OF ok, of "At s"] s by (simp add: var_arg_def)
  then show ?thesis
    by (rule writesI) (use s less in \<open>auto simp: box_object_def handle_in_def assign_def sbind_def\<close>)
qed

lemma write_bytearray_writes:
  assumes ok: "memory_ok m" and o': "heap m out = Some (PtrVar q)" and l: "heap m len = Some (SizeVar n)"
  shows "writes {out, len} (bytes_in out len) (write_bytearray_to (At out) (At len)) m"
proof -
  have less: "out < next_address m" "len < next_address m" "out \<noteq> len"
    using memory_ok_less [OF ok o'] memory_ok_less [OF ok l] o' l by auto
  have "extends {out, len} m (snd (write_bytearray_to (At out) (At len) x m))" for x
    using write_bytearray_to_extends [OF ok, of "At out" "At len"] o' l by (simp add: var_arg_def insert_commute)
  then show ?thesis
    by (rule writesI) (use o' l less in \<open>auto simp: write_bytearray_to_def bytes_in_def assign_def sbind_def\<close>)
qed

lemma refinesI:
  assumes body: "body (m, r) = (y, (m', r'))" and op: "op (app m, r) = (x, (app m', r'))" and fr: "frame W m m'"
    and y: "case x of Ok v \<Rightarrow> y = Ok () \<and> good v m' | Err e \<Rightarrow> y = Err (Signal e) | Panic \<Rightarrow> y = Panic"
  shows "ffi_refines W payload good (run_ffi_safe payload body) op (m, r)"
proof -
  have ok: "memory_ok m'" using fr by (simp add: frame_def)
  have fr': "frame W m (snd (alloc c m'))" for c
    by (rule frame_trans [OF fr extends_frame [OF extends_alloc [OF ok]]])
  show ?thesis
  proof (cases x)
    case (Ok v)
    then show ?thesis using body op y fr by (auto simp: ffi_refines_def run_ffi_safe_def reports_def)
  next
    case (Err e)
    then show ?thesis using body op y fr' [of "BoxedError (Signal e)"]
      by (auto simp: ffi_refines_def run_ffi_safe_def reports_def on_fst_def)
  next
    case Panic
    then show ?thesis using body op y fr' [of "BoxedError (UnexpectedPanic payload)"]
      by (auto simp: ffi_refines_def run_ffi_safe_def reports_def on_fst_def)
  qed
qed

text \<open>The two shapes of the functions: the operation with \<open>?\<close>, and the operation followed by writing its result.\<close>

lemma question_mark_refines:
  assumes sim: "sim (pair_view app) (pair_step (kept I)) f op" and m: "kept I m m"
    and body: "body (m, r) = question_mark f (m, r)"
  shows "ffi_refines {} payload (\<lambda>_ _. True) (run_ffi_safe payload body) (op :: ('a \<times> 'r, unit) sst) (m, r)"
proof -
  obtain x m' r' where f: "f (m, r) = (x, (m', r'))" by (metis prod.exhaust)
  from simD [OF sim _ f] m have "kept I m m'" "op (app m, r) = (x, (app m', r'))"
    by (simp_all add: pair_step_def pair_view_def)
  with f body show ?thesis
    by (intro refinesI [where y = "from_signal_error x"]) (auto simp: question_mark_def kept_def split: result.splits)
qed

lemma outcome_refines:
  assumes sim: "sim (pair_view app) (pair_step (kept I)) f op" and m: "kept I m m"
    and w: "\<And>m'. kept I m m' \<Longrightarrow> writes W good w m'"
    and body: "body (m, r) = sbind (outcome f) (\<lambda>x. on_fst (w x)) (m, r)"
  shows "ffi_refines W payload good (run_ffi_safe payload body) op (m, r)"
proof -
  obtain x m1 r1 where f: "f (m, r) = (x, (m1, r1))" by (metis prod.exhaust)
  from simD [OF sim _ f] m have k: "kept I m m1" and op: "op (app m, r) = (x, (app m1, r1))"
    by (simp_all add: pair_step_def pair_view_def)
  have fr1: "frame W m m1" using k frame_mono [of "{}" m m1 W] by (simp add: kept_def)
  show ?thesis
  proof (cases "x = Panic")
    case True
    with f body op fr1 show ?thesis by (intro refinesI [where y = Panic]) (auto simp: outcome_def sbind_def)
  next
    case False
    obtain y m2 where wx: "w x m1 = (y, m2)" by fastforce
    with w [OF k] False have ext: "extends W m1 m2" and
      y: "case x of Ok v \<Rightarrow> y = Ok () \<and> good v m2 | Err e \<Rightarrow> y = Err (Signal e) | Panic \<Rightarrow> True"
      unfolding writes_def by auto
    have "body (m, r) = (y, (m2, r1))" using body f wx False by (cases x) (auto simp: outcome_def sbind_def on_fst_def)
    moreover have "op (app m, r) = (x, (app m2, r1))" using op ext by (simp add: extends_def)
    moreover have "frame W m m2" by (rule frame_trans [OF fr1 extends_frame [OF ext]])
    ultimately show ?thesis using y False by (intro refinesI) (auto split: result.splits)
  qed
qed

lemma outcome_on_fst: "sbind (outcome (on_fst f)) (\<lambda>x. on_fst (w x)) = on_fst (sbind (outcome f) w)"
  by (rule ext) (auto simp: outcome_def sbind_def on_fst_def split: prod.splits result.splits)

lemma question_mark_on_fst: "question_mark (on_fst f) = on_fst (question_mark f)"
  by (rule ext) (auto simp: question_mark_def on_fst_def split: prod.splits)

lemmas ffi_entry = native_handle_cast_At as_slice_At on_fst_def FfiIdentityKeyStore_new_def FfiSessionStore_new_def
  FfiPreKeyStore_new_def FfiSignedPreKeyStore_new_def FfiSenderKeyStore_new_def

end
