(* ===== verification/Ffi_Application.thy ===== *)
theory Ffi_Application
  imports Ffi_Refinement
begin

text \<open>
  The session and group functions of the C interface refine the protocol operations, for every application whose callbacks have
  the contracts of \<open>Ffi_Refinement\<close>; and an application that has them: one that keeps its records in the in-memory store
  of \<open>storage/inmem.rs\<close>, with which the contracts are interpreted and the theorems witnessed.
\<close>

section \<open>Callbacks\<close>

definition c_load :: "('t \<Rightarrow> object) \<Rightarrow> ('a, 't option) sst \<Rightarrow> 'a memory \<Rightarrow> (i32 \<times> ptr) \<times> 'a memory" where
  "c_load obj op m =
     (case op (app m) of (x, a') \<Rightarrow>
        (case x of
           Ok None \<Rightarrow> ((0, Null), m\<lparr>app := a'\<rparr>)
         | Ok (Some t) \<Rightarrow> (case alloc (Boxed (obj t)) (m\<lparr>app := a'\<rparr>) of (p, m') \<Rightarrow> ((0, p), m'))
         | _ \<Rightarrow> ((- 1, Null), m\<lparr>app := a'\<rparr>)))"

definition c_answer :: "('a, bool) sst \<Rightarrow> 'a memory \<Rightarrow> i32 \<times> 'a memory" where
  "c_answer op m =
     (case op (app m) of (x, a') \<Rightarrow>
        (case x of Ok b \<Rightarrow> if b then 1 else 0 | _ \<Rightarrow> - 1, m\<lparr>app := a'\<rparr>))"

definition c_number :: "('a, u32) sst \<Rightarrow> 'a memory \<Rightarrow> (i32 \<times> u32) \<times> 'a memory" where
  "c_number op m =
     (case op (app m) of (x, a') \<Rightarrow>
        (case x of Ok n \<Rightarrow> (0, n) | _ \<Rightarrow> (- 1, 0), m\<lparr>app := a'\<rparr>))"

definition c_perform :: "('a, unit) sst \<Rightarrow> 'a memory \<Rightarrow> i32 \<times> 'a memory" where
  "c_perform op m =
     (case op (app m) of (x, a') \<Rightarrow> (case x of Ok _ \<Rightarrow> 0 | _ \<Rightarrow> - 1, m\<lparr>app := a'\<rparr>))"

text \<open>\<open>succeeds I op\<close>: from a state with the invariant, the operation returns \<open>Ok\<close> and keeps the invariant.\<close>

definition succeeds :: "('a \<Rightarrow> bool) \<Rightarrow> ('a, 'x) sst \<Rightarrow> bool" where
  "succeeds I op \<longleftrightarrow> (\<forall>a. I a \<longrightarrow> (\<exists>x a'. op a = (Ok x, a') \<and> I a'))"

lemma kept_app: "memory_ok m \<Longrightarrow> I (app m) \<Longrightarrow> I a' \<Longrightarrow> kept I m (m\<lparr>app := a'\<rparr>)"
  by (auto simp: kept_def frame_def memory_ok_def)

lemma kept_alloc: "memory_ok m \<Longrightarrow> I (app m) \<Longrightarrow> I a' \<Longrightarrow> kept I m (snd (alloc c (m\<lparr>app := a'\<rparr>)))"
  by (auto simp: kept_def frame_def memory_ok_def alloc_def)

lemma c_load_loads: assumes "succeeds I op" shows "loads I name obj (c_load obj op) op"
  unfolding loads_def
proof (intro allI impI)
  fix m :: "'a memory" assume m: "memory_ok m" "I (app m)"
  then obtain x a' where op: "op (app m) = (Ok x, a')" "I a'" using assms by (auto simp: succeeds_def)
  show "case c_load obj op m of ((code, p), m') \<Rightarrow>
          kept I m m' \<and>
          (case op (app m) of (x, a') \<Rightarrow> app m' = a' \<and>
             (case x of
                Ok None \<Rightarrow> code = 0 \<and> p = Null
              | Ok (Some t) \<Rightarrow> code = 0 \<and> (\<exists>a\<ge>next_address m. p = At a \<and> heap m' a = Some (Boxed (obj t)))
              | Err e \<Rightarrow> code \<noteq> 0 \<and> e = ApplicationCallbackReturnedIntegerError name code
              | Panic \<Rightarrow> False))"
    using m op kept_app [of m I a'] kept_alloc [of m I a']
    by (cases x) (auto simp: c_load_def split_beta)
qed

lemma c_callbacks:
  shows "succeeds I op1 \<Longrightarrow> answers I name (c_answer op1) op1"
    and "succeeds I op2 \<Longrightarrow> numbers I name (c_number op2) op2"
    and "succeeds I op3 \<Longrightarrow> performs I name (c_perform op3) op3"
  unfolding answers_def numbers_def performs_def succeeds_def
  by (force simp: c_answer_def c_number_def c_perform_def intro: kept_app)+

section \<open>The application\<close>

definition inmem_identity_cs :: "InMemSignalProtocolStore FfiIdentityKeyStoreStruct" where
  "inmem_identity_cs =
     \<lparr>fis_ctx = Null,
      fis_get_identity_key_pair = (\<lambda>_ _. c_load O_PrivateKey (private_half (get_identity_key_pair InMem_IdentityKeyStore))),
      fis_get_local_registration_id = (\<lambda>_ _. c_number (get_local_registration_id InMem_IdentityKeyStore)),
      fis_save_identity = (\<lambda>_ a k _. c_answer (save_identity InMem_IdentityKeyStore a (IdentityKey k))),
      fis_get_identity = (\<lambda>_ a _. c_load O_PublicKey
        (sbind (get_identity InMem_IdentityKeyStore a) (\<lambda>k. sret (map_option ik_public_key k)))),
      fis_is_trusted_identity = (\<lambda>_ a k d _. c_answer (is_trusted_identity InMem_IdentityKeyStore a (IdentityKey k)
        (if d = 0 then Sending else Receiving)))\<rparr>"

definition inmem_session_cs :: "InMemSignalProtocolStore FfiSessionStoreStruct" where
  "inmem_session_cs =
     \<lparr>fse_ctx = Null,
      fse_load_session = (\<lambda>_ a _. c_load O_SessionRecord (load_session InMem_SessionStore a)),
      fse_store_session = (\<lambda>_ a r _. c_perform (store_session InMem_SessionStore a r))\<rparr>"

definition inmem_pre_key_cs :: "InMemSignalProtocolStore FfiPreKeyStoreStruct" where
  "inmem_pre_key_cs =
     \<lparr>fps_ctx = Null,
      fps_load_pre_key = (\<lambda>_ i _. c_load O_PreKeyRecord (optional InvalidPreKeyId (get_pre_key InMem_PreKeyStore i))),
      fps_store_pre_key = (\<lambda>_ i r _. c_perform (save_pre_key InMem_PreKeyStore i r)),
      fps_remove_pre_key = (\<lambda>_ i _. c_perform (remove_pre_key InMem_PreKeyStore i))\<rparr>"

definition inmem_signed_pre_key_cs :: "InMemSignalProtocolStore FfiSignedPreKeyStoreStruct" where
  "inmem_signed_pre_key_cs =
     \<lparr>fss_ctx = Null,
      fss_load_signed_pre_key =
        (\<lambda>_ i _. c_load O_SignedPreKeyRecord (optional InvalidSignedPreKeyId (get_signed_pre_key InMem_SignedPreKeyStore i))),
      fss_store_signed_pre_key = (\<lambda>_ i r _. c_perform (save_signed_pre_key InMem_SignedPreKeyStore i r))\<rparr>"

definition inmem_sender_key_cs :: "InMemSignalProtocolStore FfiSenderKeyStoreStruct" where
  "inmem_sender_key_cs =
     \<lparr>fsk_ctx = Null,
      fsk_load_sender_key = (\<lambda>_ n _. c_load O_SenderKeyRecord (load_sender_key InMem_SenderKeyStore n)),
      fsk_store_sender_key = (\<lambda>_ n r _. c_perform (store_sender_key InMem_SenderKeyStore n r))\<rparr>"

text \<open>The invariant: the public identity key of the application is the one of its private key.\<close>

definition own_keys_match :: "('sc, 'pt, 'r) crypto \<Rightarrow> InMemSignalProtocolStore \<Rightarrow> bool" where
  "own_keys_match C a \<longleftrightarrow>
     (let kp = im_key_pair (identity_store a) in
      PrivateKey_public_key C (ikp_private_key kp) = Ok (ik_public_key (ikp_identity_key kp)))"

lemmas inmem_ops = InMem_IdentityKeyStore_def InMem_SessionStore_def InMem_PreKeyStore_def InMem_SignedPreKeyStore_def
  InMem_SenderKeyStore_def on_identity_store_def on_session_store_def on_pre_key_store_def on_signed_pre_key_store_def
  on_sender_key_store_def InMem_get_identity_key_pair_def InMem_get_local_registration_id_def InMem_save_identity_def
  InMem_is_trusted_identity_def InMem_get_identity_def InMem_load_session_def InMem_store_session_def InMem_get_pre_key_def
  InMem_remove_pre_key_def InMem_get_signed_pre_key_def InMem_load_sender_key_def InMem_store_sender_key_def

lemma inmem_succeeds:
  "succeeds (own_keys_match C) (private_half (get_identity_key_pair InMem_IdentityKeyStore))"
  "succeeds (own_keys_match C) (get_local_registration_id InMem_IdentityKeyStore)"
  "succeeds (own_keys_match C) (save_identity InMem_IdentityKeyStore a i)"
  "succeeds (own_keys_match C) (is_trusted_identity InMem_IdentityKeyStore a i d)"
  "succeeds (own_keys_match C) (load_session InMem_SessionStore a)"
  "succeeds (own_keys_match C) (store_session InMem_SessionStore a r)"
  "succeeds (own_keys_match C) (optional InvalidPreKeyId (get_pre_key InMem_PreKeyStore n))"
  "succeeds (own_keys_match C) (remove_pre_key InMem_PreKeyStore n)"
  "succeeds (own_keys_match C) (optional InvalidSignedPreKeyId (get_signed_pre_key InMem_SignedPreKeyStore n))"
  "succeeds (own_keys_match C) (load_sender_key InMem_SenderKeyStore k)"
  "succeeds (own_keys_match C) (store_sender_key InMem_SenderKeyStore k rec)"
  by (auto simp: succeeds_def own_keys_match_def inmem_ops private_half_def optional_def sbind_def Let_def ok_or_def
      split: option.splits)

lemma inmem_callbacks:
  "identity_callbacks C (own_keys_match C) ctx inmem_identity_cs InMem_IdentityKeyStore"
  "session_callbacks (own_keys_match C) ctx inmem_session_cs InMem_SessionStore"
  "pre_key_callbacks (own_keys_match C) ctx inmem_pre_key_cs InMem_PreKeyStore"
  "signed_pre_key_callbacks (own_keys_match C) ctx inmem_signed_pre_key_cs InMem_SignedPreKeyStore"
  "sender_key_callbacks (own_keys_match C) ctx inmem_sender_key_cs InMem_SenderKeyStore"
proof -
  have "key_pairs_match C (own_keys_match C) (get_identity_key_pair InMem_IdentityKeyStore)"
    by (auto simp: key_pairs_match_def own_keys_match_def inmem_ops Let_def)
  moreover have "(if (case d of Sending \<Rightarrow> 0 | Receiving \<Rightarrow> 1) = (0 :: u32) then Sending else Receiving) = d" for d
    by (cases d) simp_all
  ultimately show "identity_callbacks C (own_keys_match C) ctx inmem_identity_cs InMem_IdentityKeyStore"
    by (simp add: identity_callbacks_def inmem_identity_cs_def c_load_loads c_callbacks inmem_succeeds)
qed (simp_all add: session_callbacks_def inmem_session_cs_def pre_key_callbacks_def inmem_pre_key_cs_def
    signed_pre_key_callbacks_def inmem_signed_pre_key_cs_def sender_key_callbacks_def inmem_sender_key_cs_def
    c_load_loads c_callbacks inmem_succeeds)

interpretation inmem_app: prekey_app C "own_keys_match C" ctx inmem_identity_cs InMem_IdentityKeyStore
  inmem_session_cs InMem_SessionStore inmem_pre_key_cs InMem_PreKeyStore inmem_signed_pre_key_cs InMem_SignedPreKeyStore
  by unfold_locales (rule inmem_callbacks)+

interpretation inmem_group: group_app "own_keys_match C" ctx inmem_sender_key_cs InMem_SenderKeyStore
  by unfold_locales (rule inmem_callbacks)

definition ref_message :: SignalMessage where
  "ref_message =
     \<lparr>sm_message_version = 3, sm_sender_ratchet_key = ref_key 2, sm_counter = 0, sm_previous_counter = 0,
      sm_ciphertext = [], sm_serialized = replicate 8 0\<rparr>"

definition ref_address :: ProtocolAddress where
  "ref_address = \<lparr>pa_name = ''bob'', pa_device_id = 1\<rparr>"

definition ref_group_name :: SenderKeyName where
  "ref_group_name = \<lparr>skn_group_id = ''group'', skn_sender = ref_address\<rparr>"

definition ref_own_keys :: IdentityKeyPair where
  "ref_own_keys =
     \<lparr>ikp_identity_key = IdentityKey (PublicKey (DjbPublicKey (derive_public_key ref_crypto (replicate 32 1)))),
      ikp_private_key = PrivateKey (DjbPrivateKey (replicate 32 1))\<rparr>"

definition ref_app_memory :: "InMemSignalProtocolStore memory" where
  "ref_app_memory =
     \<lparr>heap =
        [0 \<mapsto> Boxed (O_ProtocolAddress ref_address),
         1 \<mapsto> Boxed (O_PreKeyBundle \<lparr>pkb_registration_id = 1, pkb_device_id = 1, pkb_pre_key_id = None, pkb_pre_key_public = None,
              pkb_signed_pre_key_id = 2, pkb_signed_pre_key_public = ref_key 3, pkb_signed_pre_key_signature = [],
              pkb_identity_key = IdentityKey (ref_key 4)\<rparr>),
         2 \<mapsto> Boxed (O_SignalMessage ref_message),
         3 \<mapsto> Boxed (O_PreKeySignalMessage \<lparr>pm_message_version = 3, pm_registration_id = 1, pm_pre_key_id = None,
              pm_signed_pre_key_id = 2, pm_base_key = ref_key 5, pm_identity_key = IdentityKey (ref_key 4),
              pm_message = ref_message, pm_serialized = []\<rparr>),
         4 \<mapsto> CallerBytes [104, 105], 5 \<mapsto> PtrVar Null, 6 \<mapsto> PtrVar Null, 7 \<mapsto> SizeVar 0,
         8 \<mapsto> Boxed (O_SenderKeyName ref_group_name),
         9 \<mapsto> Boxed (O_SenderKeyDistributionMessage \<lparr>skdm_message_version = 3, skdm_id = 1, skdm_iteration = 0,
              skdm_chain_key = replicate 32 0, skdm_signing_key = ref_key 6, skdm_serialized = []\<rparr>)],
      next_address = 10, undefined_behaviour = False,
      app = \<lparr>session_store = \<lparr>im_sessions = Map.empty\<rparr>, pre_key_store = \<lparr>im_pre_keys = Map.empty\<rparr>,
        signed_pre_key_store = \<lparr>im_signed_pre_keys = Map.empty\<rparr>, identity_store = InMemIdentityKeyStore_new ref_own_keys 1,
        sender_key_store = \<lparr>im_keys = Map.empty\<rparr>\<rparr>\<rparr>"

lemma ref_app_memory_ok: "memory_ok ref_app_memory" "own_keys_match ref_crypto (app ref_app_memory)"
  by (simp_all add: memory_ok_def own_keys_match_def ref_app_memory_def InMemIdentityKeyStore_new_def ref_own_keys_def)

lemma ref_app_cells:
  "heap ref_app_memory 4 = Some (CallerBytes [104, 105])" "bytes_of (CallerBytes [104, 105]) = Some [104, 105]"
  "2 \<le> length [104 :: u8, 105]" "heap ref_app_memory 5 = Some (PtrVar Null)" "heap ref_app_memory 6 = Some (PtrVar Null)"
  "heap ref_app_memory 7 = Some (SizeVar 0)" "heap ref_app_memory 0 = Some (Boxed (O_ProtocolAddress ref_address))"
  "\<exists>b. heap ref_app_memory 1 = Some (Boxed (O_PreKeyBundle b))"
  "heap ref_app_memory 2 = Some (Boxed (O_SignalMessage ref_message))"
  "\<exists>m. heap ref_app_memory 3 = Some (Boxed (O_PreKeySignalMessage m))"
  "heap ref_app_memory 8 = Some (Boxed (O_SenderKeyName ref_group_name))"
  "\<exists>m. heap ref_app_memory 9 = Some (Boxed (O_SenderKeyDistributionMessage m))"
  by (simp_all add: ref_app_memory_def)

section \<open>The session functions\<close>

text \<open>
  C15. The session functions of the C interface refine the protocol operations. Let the callbacks of an application implement
  stores over its state, and let the arguments be live handles and variables of the right type. Then
  \<open>signal_process_prekey_bundle\<close>, \<open>signal_encrypt_message\<close>, \<open>signal_decrypt_message\<close> and \<open>signal_decrypt_pre_key_message\<close> return,
  nothing undefined happens, the state of the application becomes what \<open>process_prekey_bundle\<close>, \<open>message_encrypt\<close>,
  \<open>message_decrypt_signal\<close> and \<open>message_decrypt_prekey\<close> make of it on those stores, the result of the operation is left in
  the variables for it, an error of the operation comes back as an error object, and no other cell of the memory changes.
\<close>

theorem ffi_sessions_refine:
  assumes identity: "identity_callbacks (env_crypto E) I ctx ics ist" and session: "session_callbacks I ctx scs sst"
    and pre_key: "pre_key_callbacks I ctx pcs pst" and signed: "signed_pre_key_callbacks I ctx spcs spst"
    and ok: "memory_ok m" "I (app m)"
    and handles: "heap m ap = Some (Boxed (O_ProtocolAddress addr))" "heap m bp = Some (Boxed (O_PreKeyBundle bundle))"
      "heap m mp = Some (Boxed (O_SignalMessage msg))" "heap m pp = Some (Boxed (O_PreKeySignalMessage pre_key_msg))"
    and ptext: "heap m tp = Some c" "bytes_of c = Some bs" "n \<le> length bs"
    and vars: "heap m s = Some (PtrVar q)" "heap m out = Some (PtrVar q')" "heap m len = Some (SizeVar k)"
  shows
    "ffi_refines {} (panic_payload E) (\<lambda>_ _. True)
       (signal_process_prekey_bundle E (At bp) (At ap) (Some scs) (Some ics) ctx)
       (process_prekey_bundle (env_crypto E) addr sst ist bundle) (m, r) \<and>
     ffi_refines {s} (panic_payload E) (handle_in O_CiphertextMessage s)
       (signal_encrypt_message E (At s) (At tp) n (At ap) (Some scs) (Some ics) ctx)
       (on_fst (message_encrypt (env_crypto E) (env_SignalMessage E) (env_PreKeySignalMessage E) (take n bs) addr sst ist)) (m, r) \<and>
     ffi_refines {out, len} (panic_payload E) (bytes_in out len)
       (signal_decrypt_message E (At out) (At len) (At mp) (At ap) (Some scs) (Some ics) ctx)
       (message_decrypt_signal (env_crypto E) msg addr sst ist) (m, r) \<and>
     ffi_refines {out, len} (panic_payload E) (bytes_in out len)
       (signal_decrypt_pre_key_message E (At out) (At len) (At pp) (At ap) (Some scs) (Some ics) (Some pcs) (Some spcs) ctx)
       (message_decrypt_prekey (env_crypto E) pre_key_msg addr sst ist pst spst) (m, r)"
proof (intro conjI)
  have app: "session_app (env_crypto E) I ctx ics ist scs sst" by (rule session_app.intro [OF identity session])
  have papp: "prekey_app (env_crypto E) I ctx ics ist scs sst pcs pst spcs spst"
    by (rule prekey_app.intro [OF app prekey_app_axioms.intro [OF pre_key signed]])
  note sims = session_app.session_sims [OF app] prekey_app.prekey_message_sim [OF papp]
  have k: "kept I m m" using ok by (simp add: kept_refl)
  have old: "heap m' a = Some c" if "kept I m m'" "heap m a = Some c" for m' a c
    using that frame_cell [OF ok(1)] by (auto simp: kept_def)
  have box: "writes {s} (handle_in O_CiphertextMessage s) (box_object O_CiphertextMessage (At s)) m'" if "kept I m m'" for m'
    using that old [OF that vars(1)] by (intro box_object_writes) (auto simp: kept_def frame_def)
  have bytes: "writes {out, len} (bytes_in out len) (write_bytearray_to (At out) (At len)) m'" if "kept I m m'" for m'
    using that old [OF that vars(2)] old [OF that vars(3)] by (intro write_bytearray_writes) (auto simp: kept_def frame_def)
  show "ffi_refines {} (panic_payload E) (\<lambda>_ _. True)
       (signal_process_prekey_bundle E (At bp) (At ap) (Some scs) (Some ics) ctx)
       (process_prekey_bundle (env_crypto E) addr sst ist bundle) (m, r)"
    unfolding signal_process_prekey_bundle_def
    by (rule question_mark_refines [OF sims(1) k]) (simp add: ffi_entry handles)
  show "ffi_refines {s} (panic_payload E) (handle_in O_CiphertextMessage s)
       (signal_encrypt_message E (At s) (At tp) n (At ap) (Some scs) (Some ics) ctx)
       (on_fst (message_encrypt (env_crypto E) (env_SignalMessage E) (env_PreKeySignalMessage E) (take n bs) addr sst ist)) (m, r)"
    unfolding signal_encrypt_message_def
    by (rule outcome_refines [OF sim_on_fst [OF sims(2)] k box]) (simp_all add: outcome_on_fst, simp add: ffi_entry handles ptext)
  show "ffi_refines {out, len} (panic_payload E) (bytes_in out len)
       (signal_decrypt_message E (At out) (At len) (At mp) (At ap) (Some scs) (Some ics) ctx)
       (message_decrypt_signal (env_crypto E) msg addr sst ist) (m, r)"
    unfolding signal_decrypt_message_def
    by (rule outcome_refines [OF sims(3) k bytes]) (simp_all add: ffi_entry handles)
  show "ffi_refines {out, len} (panic_payload E) (bytes_in out len)
       (signal_decrypt_pre_key_message E (At out) (At len) (At pp) (At ap) (Some scs) (Some ics) (Some pcs) (Some spcs) ctx)
       (message_decrypt_prekey (env_crypto E) pre_key_msg addr sst ist pst spst) (m, r)"
    unfolding signal_decrypt_pre_key_message_def
    by (rule outcome_refines [OF sims(4) k bytes]) (simp_all add: ffi_entry handles)
qed

theorem ffi_sessions_refine_witness:
  "ffi_refines {5} None (handle_in O_CiphertextMessage 5)
     (signal_encrypt_message ref_env (At 5) (At 4) 2 (At 0) (Some inmem_session_cs) (Some inmem_identity_cs) Null)
     (on_fst (message_encrypt ref_crypto (env_SignalMessage ref_env) (env_PreKeySignalMessage ref_env) [104, 105]
       ref_address InMem_SessionStore InMem_IdentityKeyStore)) (ref_app_memory, 0)"
proof -
  have E: "env_crypto ref_env = ref_crypto" "panic_payload ref_env = None" by (simp_all add: ref_env_def)
  obtain b m where bm: "heap ref_app_memory 1 = Some (Boxed (O_PreKeyBundle b))"
      "heap ref_app_memory 3 = Some (Boxed (O_PreKeySignalMessage m))"
    using ref_app_cells by blast
  show ?thesis
    using ffi_sessions_refine [where E = ref_env and ctx = Null and r = 0, unfolded E, OF inmem_callbacks(1-4) ref_app_memory_ok
        ref_app_cells(7) bm(1) ref_app_cells(9) bm(2) ref_app_cells(1-6)]
    by simp
qed

section \<open>The group functions\<close>

text \<open>
  C16. The group functions of the C interface refine the group operations, in the same sense:
  \<open>signal_create_sender_key_distribution_message\<close>, \<open>signal_process_sender_key_distribution_message\<close>,
  \<open>signal_group_encrypt_message\<close> and \<open>signal_group_decrypt_message\<close>, on callbacks that implement a store of sender keys.
\<close>

theorem ffi_groups_refine:
  assumes callbacks: "sender_key_callbacks I ctx cs st" and ok: "memory_ok m" "I (app m)"
    and handles: "heap m np = Some (Boxed (O_SenderKeyName name))"
      "heap m dp = Some (Boxed (O_SenderKeyDistributionMessage skdm))"
    and ptext: "heap m tp = Some c" "bytes_of c = Some bs" "n \<le> length bs"
    and vars: "heap m s = Some (PtrVar q)" "heap m out = Some (PtrVar q')" "heap m len = Some (SizeVar k)"
  shows
    "ffi_refines {s} (panic_payload E) (handle_in O_SenderKeyDistributionMessage s)
       (signal_create_sender_key_distribution_message E (At s) (At np) (Some cs) ctx)
       (create_sender_key_distribution_message (env_crypto E) (env_SenderKeyDistributionMessage E) name st) (m, r) \<and>
     ffi_refines {} (panic_payload E) (\<lambda>_ _. True)
       (signal_process_sender_key_distribution_message E (At np) (At dp) (Some cs) ctx)
       (on_fst (process_sender_key_distribution_message name skdm st)) (m, r) \<and>
     ffi_refines {out, len} (panic_payload E) (bytes_in out len)
       (signal_group_encrypt_message E (At out) (At len) (At np) (At tp) n (Some cs) ctx)
       (group_encrypt (env_crypto E) (env_SenderKeyMessage E) st name (take n bs)) (m, r) \<and>
     ffi_refines {out, len} (panic_payload E) (bytes_in out len)
       (signal_group_decrypt_message E (At out) (At len) (At np) (At tp) n (Some cs) ctx)
       (on_fst (group_decrypt (env_crypto E) (env_SenderKeyMessage E) (take n bs) st name)) (m, r)"
proof (intro conjI)
  have app: "group_app I ctx cs st" by (rule group_app.intro [OF callbacks])
  note sims = group_app.group_sims [OF app]
  have k: "kept I m m" using ok by (simp add: kept_refl)
  have old: "heap m' a = Some c" if "kept I m m'" "heap m a = Some c" for m' a c
    using that frame_cell [OF ok(1)] by (auto simp: kept_def)
  have box: "writes {s} (handle_in O_SenderKeyDistributionMessage s) (box_object O_SenderKeyDistributionMessage (At s)) m'"
    if "kept I m m'" for m'
    using that old [OF that vars(1)] by (intro box_object_writes) (auto simp: kept_def frame_def)
  have bytes: "writes {out, len} (bytes_in out len) (write_bytearray_to (At out) (At len)) m'" if "kept I m m'" for m'
    using that old [OF that vars(2)] old [OF that vars(3)] by (intro write_bytearray_writes) (auto simp: kept_def frame_def)
  show "ffi_refines {s} (panic_payload E) (handle_in O_SenderKeyDistributionMessage s)
       (signal_create_sender_key_distribution_message E (At s) (At np) (Some cs) ctx)
       (create_sender_key_distribution_message (env_crypto E) (env_SenderKeyDistributionMessage E) name st) (m, r)"
    unfolding signal_create_sender_key_distribution_message_def
    by (rule outcome_refines [OF sims(1) k box]) (simp_all add: ffi_entry handles)
  show "ffi_refines {} (panic_payload E) (\<lambda>_ _. True)
       (signal_process_sender_key_distribution_message E (At np) (At dp) (Some cs) ctx)
       (on_fst (process_sender_key_distribution_message name skdm st)) (m, r)"
    unfolding signal_process_sender_key_distribution_message_def
    by (rule question_mark_refines [OF sim_on_fst [OF sims(2)] k]) (simp add: question_mark_on_fst, simp add: ffi_entry handles)
  show "ffi_refines {out, len} (panic_payload E) (bytes_in out len)
       (signal_group_encrypt_message E (At out) (At len) (At np) (At tp) n (Some cs) ctx)
       (group_encrypt (env_crypto E) (env_SenderKeyMessage E) st name (take n bs)) (m, r)"
    unfolding signal_group_encrypt_message_def
    by (rule outcome_refines [OF sims(3) k bytes]) (simp_all add: ffi_entry handles ptext)
  show "ffi_refines {out, len} (panic_payload E) (bytes_in out len)
       (signal_group_decrypt_message E (At out) (At len) (At np) (At tp) n (Some cs) ctx)
       (on_fst (group_decrypt (env_crypto E) (env_SenderKeyMessage E) (take n bs) st name)) (m, r)"
    unfolding signal_group_decrypt_message_def
    by (rule outcome_refines [OF sim_on_fst [OF sims(4)] k bytes]) (simp_all add: outcome_on_fst, simp add: ffi_entry handles ptext)
qed

theorem ffi_groups_refine_witness:
  "ffi_refines {5} None (handle_in O_SenderKeyDistributionMessage 5)
     (signal_create_sender_key_distribution_message ref_env (At 5) (At 8) (Some inmem_sender_key_cs) Null)
     (create_sender_key_distribution_message ref_crypto (env_SenderKeyDistributionMessage ref_env)
       ref_group_name InMem_SenderKeyStore) (ref_app_memory, 0)"
proof -
  have E: "env_crypto ref_env = ref_crypto" "panic_payload ref_env = None" by (simp_all add: ref_env_def)
  obtain d where d: "heap ref_app_memory 9 = Some (Boxed (O_SenderKeyDistributionMessage d))"
    using ref_app_cells by blast
  show ?thesis
    using ffi_groups_refine [where E = ref_env and ctx = Null and r = 0, OF inmem_callbacks(5) ref_app_memory_ok
        ref_app_cells(11) d ref_app_cells(1-6), unfolded E]
    by simp
qed

end
