(* ===== verification/Jni_Util.thy ===== *)
theory Jni_Util
  imports Ffi
begin

text \<open>
  Model of \<open>rust/bridge/jni/src/util.rs\<close>: the errors of the Java interface and the exceptions they become, the
  conversions of numbers, byte arrays and handles, the calls of Java methods with the check for exceptions, and
  the templates (\<open>jni_fn_get_jint!\<close> and the others) from which most functions of \<open>rust/bridge/jni/src/lib.rs\<close> are made.

  The library shares the memory of \<open>Ffi_Memory\<close> with the Java virtual machine, whose own state (its objects and the
  pending exception) is the part \<open>app\<close>. The crate \<open>jni\<close> and the virtual machine behind it are a parameter, the
  record \<open>JNIEnv\<close>: a function of it returns a value or an error, of which only the text is used, and may change the
  memory as well, because Java code that it runs can call the library again. A handle (\<open>ObjectHandle\<close>) is the
  address of a box as a \<open>jlong\<close>, 0 when there is none; the casts between the two lose nothing, so that it is a \<open>ptr\<close> here.
\<close>

section \<open>The Java virtual machine\<close>

text \<open>\<open>*mut _jobject\<close>: objects, strings, arrays and classes alike.\<close>

datatype jobject = J_null | J_ref nat

type_synonym jint = i32
type_synonym jlong = u64
type_synonym jboolean = u8
type_synonym jbyte = u8
type_synonym jstring = jobject
type_synonym jbyteArray = jobject
type_synonym ObjectHandle = ptr

datatype JValue =
    JV_Object jobject
  | JV_Byte jbyte
  | JV_Char "16 word"
  | JV_Short "16 word"
  | JV_Int jint
  | JV_Long ObjectHandle
  | JV_Bool jboolean
  | JV_Float u32
  | JV_Double u64
  | JV_Void

type_synonym ('j, 'b) jni = "'j memory \<Rightarrow> (string + 'b) \<times> 'j memory"

record 'j JNIEnv =
  je_type_name :: "JValue \<Rightarrow> string"
  je_get_string :: "jstring \<Rightarrow> ('j, string) jni"
  je_new_string :: "string \<Rightarrow> ('j, jstring) jni"
  je_convert_byte_array :: "jbyteArray \<Rightarrow> ('j, bytes) jni"
  je_new_byte_array :: "jint \<Rightarrow> ('j, jbyteArray) jni"
  je_set_byte_array_region :: "jbyteArray \<Rightarrow> jint \<Rightarrow> jbyte list \<Rightarrow> ('j, unit) jni"
  je_find_class :: "string \<Rightarrow> ('j, jobject) jni"
  je_is_instance_of :: "jobject \<Rightarrow> jobject \<Rightarrow> ('j, bool) jni"
  je_call_method :: "jobject \<Rightarrow> string \<Rightarrow> string \<Rightarrow> JValue list \<Rightarrow> ('j, JValue) jni"
  je_new_object :: "jobject \<Rightarrow> string \<Rightarrow> JValue list \<Rightarrow> ('j, jobject) jni"
  je_get_static_field :: "jobject \<Rightarrow> string \<Rightarrow> string \<Rightarrow> ('j, JValue) jni"
  je_exception_check :: "('j, bool) jni"
  je_exception_occurred :: "('j, jobject) jni"
  je_exception_clear :: "('j, unit) jni"
  je_throw_new :: "string \<Rightarrow> string \<Rightarrow> ('j, unit) jni"

section \<open>Errors\<close>

text \<open>The error of the crate \<open>jni\<close> is its text; the payload of a panic is kept as far as it is used.\<close>

datatype SignalJniError =
    J_Signal SignalProtocolError
  | J_Jni string
  | J_BadJniParameter string
  | J_UnexpectedJniResultType string string
  | J_NullHandle
  | J_IntegerOverflow string
  | J_UnexpectedPanic "string option"
  | J_ExceptionDuringCallback string

definition SignalJniError_fmt :: "SignalJniError \<Rightarrow> string" where
  "SignalJniError_fmt err =
     (case err of
        J_Signal s \<Rightarrow> SignalProtocolError_fmt s
      | J_Jni s \<Rightarrow> ''JNI error '' @ s
      | J_ExceptionDuringCallback s \<Rightarrow> ''exception recieved during callback '' @ s
      | J_NullHandle \<Rightarrow> ''null handle''
      | J_BadJniParameter m \<Rightarrow> ''bad parameter type '' @ m
      | J_UnexpectedJniResultType m t \<Rightarrow> ''calling '' @ m @ '' returned unexpected type '' @ t
      | J_IntegerOverflow m \<Rightarrow> ''integer overflow during conversion of '' @ m
      | J_UnexpectedPanic e \<Rightarrow>
          (case e of Some s \<Rightarrow> ''unexpected panic: '' @ s | None \<Rightarrow> ''unknown unexpected panic''))"

definition to_signal_protocol_error :: "SignalJniError \<Rightarrow> SignalProtocolError" where
  "to_signal_protocol_error err =
     (case err of
        J_Signal e \<Rightarrow> e
      | J_Jni e \<Rightarrow> FfiBindingError e
      | J_BadJniParameter m \<Rightarrow> InvalidArgument m
      | _ \<Rightarrow> FfiBindingError (SignalJniError_fmt err))"

text \<open>\<open>From<SignalJniError> for SignalProtocolError\<close>, which the stores use.\<close>

definition SignalProtocolError_from :: "SignalJniError \<Rightarrow> SignalProtocolError" where
  "SignalProtocolError_from err =
     (case err of
        J_Signal e \<Rightarrow> e
      | J_Jni e \<Rightarrow> FfiBindingError e
      | J_BadJniParameter m \<Rightarrow> InvalidArgument m
      | _ \<Rightarrow> FfiBindingError (SignalJniError_fmt err))"

definition exception_type :: "SignalJniError \<Rightarrow> string" where
  "exception_type err =
     (case err of
        J_NullHandle \<Rightarrow> ''java/lang/NullPointerException''
      | J_UnexpectedPanic _ \<Rightarrow> ''java/lang/AssertionError''
      | J_BadJniParameter _ \<Rightarrow> ''java/lang/AssertionError''
      | J_UnexpectedJniResultType _ _ \<Rightarrow> ''java/lang/AssertionError''
      | J_IntegerOverflow _ \<Rightarrow> ''java/lang/RuntimeException''
      | J_ExceptionDuringCallback _ \<Rightarrow> ''java/lang/RuntimeException''
      | J_Signal e \<Rightarrow>
          (case e of
             DuplicatedMessage _ _ \<Rightarrow> ''org/whispersystems/libsignal/DuplicateMessageException''
           | InvalidPreKeyId \<Rightarrow> ''org/whispersystems/libsignal/InvalidKeyIdException''
           | InvalidSignedPreKeyId \<Rightarrow> ''org/whispersystems/libsignal/InvalidKeyIdException''
           | InvalidSenderKeyId \<Rightarrow> ''org/whispersystems/libsignal/InvalidKeyIdException''
           | NoKeyTypeIdentifier \<Rightarrow> ''org/whispersystems/libsignal/InvalidKeyException''
           | SignatureValidationFailed \<Rightarrow> ''org/whispersystems/libsignal/InvalidKeyException''
           | BadKeyType _ \<Rightarrow> ''org/whispersystems/libsignal/InvalidKeyException''
           | BadKeyLength _ _ \<Rightarrow> ''org/whispersystems/libsignal/InvalidKeyException''
           | SessionNotFound \<Rightarrow> ''org/whispersystems/libsignal/NoSessionException''
           | InvalidMessage _ \<Rightarrow> ''org/whispersystems/libsignal/InvalidMessageException''
           | CiphertextMessageTooShort _ \<Rightarrow> ''org/whispersystems/libsignal/InvalidMessageException''
           | UnrecognizedCiphertextVersion _ \<Rightarrow> ''org/whispersystems/libsignal/InvalidMessageException''
           | UnrecognizedMessageVersion _ \<Rightarrow> ''org/whispersystems/libsignal/InvalidMessageException''
           | InvalidCiphertext \<Rightarrow> ''org/whispersystems/libsignal/InvalidMessageException''
           | InvalidProtobufEncoding \<Rightarrow> ''org/whispersystems/libsignal/InvalidMessageException''
           | LegacyCiphertextVersion _ \<Rightarrow> ''org/whispersystems/libsignal/LegacyMessageException''
           | UntrustedIdentity _ \<Rightarrow> ''org/whispersystems/libsignal/UntrustedIdentityException''
           | InvalidState _ _ \<Rightarrow> ''java/lang/IllegalStateException''
           | NoSenderKeyState \<Rightarrow> ''java/lang/IllegalStateException''
           | InvalidSessionStructure \<Rightarrow> ''java/lang/IllegalStateException''
           | InvalidArgument _ \<Rightarrow> ''java/lang/IllegalArgumentException''
           | _ \<Rightarrow> ''java/lang/RuntimeException'')
      | J_Jni _ \<Rightarrow> ''java/lang/RuntimeException'')"

definition error_string :: "SignalJniError \<Rightarrow> string" where
  "error_string err =
     (case err of J_Signal (UntrustedIdentity addr) \<Rightarrow> pa_name addr | _ \<Rightarrow> SignalJniError_fmt err)"

text \<open>Whether \<open>throw_new\<close> succeeds is not looked at.\<close>

definition throw_error :: "'j JNIEnv \<Rightarrow> SignalJniError \<Rightarrow> 'j memory \<Rightarrow> 'j memory" where
  "throw_error J error m = snd (je_throw_new J (exception_type error) (error_string error) m)"

section \<open>Results\<close>

text \<open>\<open>?\<close> on a result of the crate \<open>jni\<close>, and on one of the protocol library.\<close>

definition jni_try :: "('j, 'b) jni \<Rightarrow> ('j memory, SignalJniError, 'b) st" where
  "jni_try f m = (case f m of (Inl e, m') \<Rightarrow> (Err (J_Jni e), m') | (Inr x, m') \<Rightarrow> (Ok x, m'))"

fun jni_result :: "'b sresult \<Rightarrow> (SignalJniError, 'b) result" where
  "jni_result (Ok x) = Ok x"
| "jni_result (Err e) = Err (J_Signal e)"
| "jni_result Panic = Panic"

definition signal_try :: "('s, 'b) sst \<Rightarrow> ('s, SignalJniError, 'b) st" where
  "signal_try f = (\<lambda>s. case f s of (x, s') \<Rightarrow> (jni_result x, s'))"

text \<open>The values that are returned when an exception is thrown (\<open>JniDummyValue\<close>).\<close>

definition dummy_handle :: ObjectHandle where "dummy_handle = Null"
definition dummy_jint :: jint where "dummy_jint = 0"
definition dummy_jlong :: jlong where "dummy_jlong = 0"
definition dummy_jobject :: jobject where "dummy_jobject = J_null"
definition dummy_jboolean :: jboolean where "dummy_jboolean = 0"
definition dummy_unit :: unit where "dummy_unit = ()"

text \<open>
  A function of the interface always returns a value to Java, on the memory and the random generator of the
  operating system. As for C, \<open>payload\<close> is what \<open>catch_unwind\<close> gives for a panic, and futures are never pending.
\<close>

type_synonym ('j, 'r, 'b) native = "'j memory \<times> 'r \<Rightarrow> 'b \<times> ('j memory \<times> 'r)"

definition jni_run_ffi_safe ::
    "'j JNIEnv \<Rightarrow> string option \<Rightarrow> 'b \<Rightarrow> ('j memory \<times> 'r, SignalJniError, 'b) st \<Rightarrow> ('j, 'r, 'b) native" where
  "jni_run_ffi_safe J payload dummy_value f = (\<lambda>s.
     case f s of
       (Ok r, s') \<Rightarrow> (r, s')
     | (Err e, (m', g)) \<Rightarrow> (dummy_value, (throw_error J e m', g))
     | (Panic, (m', g)) \<Rightarrow> (dummy_value, (throw_error J (J_UnexpectedPanic payload) m', g)))"

section \<open>Handles\<close>

definition jni_native_handle_cast :: "(object \<Rightarrow> 't option) \<Rightarrow> ObjectHandle \<Rightarrow> ('j memory, SignalJniError, 't) st" where
  "jni_native_handle_cast as handle = (if handle = Null then sthrow J_NullHandle else handle_ref as handle)"

definition jni_native_handle_cast_optional ::
    "(object \<Rightarrow> 't option) \<Rightarrow> ObjectHandle \<Rightarrow> ('j memory, SignalJniError, 't option) st" where
  "jni_native_handle_cast_optional as handle =
     (if handle = Null then sret None else sbind (handle_ref as handle) (\<lambda>t. sret (Some t)))"

definition jni_box_object :: "('t \<Rightarrow> object) \<Rightarrow> 't sresult \<Rightarrow> ('j memory, SignalJniError, ObjectHandle) st" where
  "jni_box_object obj t =
     (case t of
        Ok t \<Rightarrow> box_into_raw (Boxed (obj t))
      | Err e \<Rightarrow> sthrow (J_Signal e)
      | Panic \<Rightarrow> slift Panic)"

section \<open>Numbers and byte arrays\<close>

text \<open>\<open>as i32\<close> and \<open>as i8\<close> keep the bits.\<close>

definition to_jbytearray :: "'j JNIEnv \<Rightarrow> bytes sresult \<Rightarrow> ('j memory, SignalJniError, jbyteArray) st" where
  "to_jbytearray J data =
     sbind (slift (jni_result data)) (\<lambda>data.
     sbind (jni_try (je_new_byte_array J (word_of_nat (length data)))) (\<lambda>out.
     let buf = map (\<lambda>i. ucast i :: jbyte) data in
     sbind (jni_try (je_set_byte_array_region J out 0 buf)) (\<lambda>_.
     sret out)))"

definition jint_to_u32 :: "jint \<Rightarrow> (SignalJniError, u32) result" where
  "jint_to_u32 v =
     (if sint v < 0 then Err (J_IntegerOverflow (decimal_signed v @ '' to u32'')) else Ok (ucast v))"

definition jint_to_u8 :: "jint \<Rightarrow> (SignalJniError, u8) result" where
  "jint_to_u8 v =
     (if sint v < 0 \<or> 255 < sint v then Err (J_IntegerOverflow (decimal_signed v @ '' to u8'')) else Ok (ucast v))"

definition jint_from_u32 :: "u32 sresult \<Rightarrow> (SignalJniError, jint) result" where
  "jint_from_u32 value =
     (case value of
        Ok value \<Rightarrow>
          (let result = (ucast value :: jint) in
           if (ucast result :: u32) \<noteq> value then Err (J_IntegerOverflow (decimal (unat value) @ '' to jint''))
           else Ok result)
      | Err e \<Rightarrow> Err (J_Signal e)
      | Panic \<Rightarrow> Panic)"

definition jlong_from_u64 :: "u64 sresult \<Rightarrow> (SignalJniError, jlong) result" where
  "jlong_from_u64 value =
     (case value of
        Ok value \<Rightarrow>
          (let result = (ucast value :: jlong) in
           if (ucast result :: u64) \<noteq> value then Err (J_IntegerOverflow (decimal (unat value) @ '' to jlong''))
           else Ok result)
      | Err e \<Rightarrow> Err (J_Signal e)
      | Panic \<Rightarrow> Panic)"

section \<open>Java objects\<close>

definition exception_class_name :: "'j JNIEnv \<Rightarrow> jobject \<Rightarrow> ('j memory, SignalJniError, string) st" where
  "exception_class_name J exn =
     sbind (jni_try (je_call_method J exn ''getClass'' ''()Ljava/lang/Class;'' [])) (\<lambda>class_type.
     case class_type of
       JV_Object class_type \<Rightarrow>
         sbind (jni_try (je_call_method J class_type ''getCanonicalName'' ''()Ljava/lang/String;'' [])) (\<lambda>class_name.
         case class_name of
           JV_Object class_name \<Rightarrow> jni_try (je_get_string J class_name)
         | _ \<Rightarrow> sthrow (J_UnexpectedJniResultType ''getCanonicalName'' (je_type_name J class_name)))
     | _ \<Rightarrow> sthrow (J_UnexpectedJniResultType ''getClass'' (je_type_name J class_type)))"

text \<open>\<open>Result::ok\<close>: an error becomes \<open>None\<close>.\<close>

definition sok :: "('s, 'e, 'b) st \<Rightarrow> ('s, 'e, 'b option) st" where
  "sok f = (\<lambda>s. case f s of (Ok x, s') \<Rightarrow> (Ok (Some x), s') | (Err _, s') \<Rightarrow> (Ok None, s') | (Panic, s') \<Rightarrow> (Panic, s'))"

definition exception_check :: "'j JNIEnv \<Rightarrow> string \<Rightarrow> ('j memory, SignalJniError, unit) st" where
  "exception_check J fn_name =
     sbind (jni_try (je_exception_check J)) (\<lambda>pending.
     if pending then
       sbind (jni_try (je_exception_occurred J)) (\<lambda>throwable.
       sbind (jni_try (je_exception_clear J)) (\<lambda>_.
       sbind (sok (exception_class_name J throwable)) (\<lambda>exn_type.
       sbind (sok (jni_try (je_call_method J throwable ''getMessage'' ''()Ljava/lang/String;'' []))) (\<lambda>jmessage.
       case jmessage of
         Some (JV_Object o') \<Rightarrow>
           sbind (jni_try (je_get_string J o')) (\<lambda>message.
           sthrow (J_Signal (ApplicationCallbackThrewException fn_name exn_type message)))
       | _ \<Rightarrow> sthrow (J_Signal (ApplicationCallbackThrewException fn_name exn_type
                ''<exception did not implement getMessage>''))))))
     else sret ())"

definition check_jobject_type :: "'j JNIEnv \<Rightarrow> jobject \<Rightarrow> string \<Rightarrow> ('j memory, SignalJniError, unit) st" where
  "check_jobject_type J obj class_name =
     (if obj = J_null then sthrow J_NullHandle
      else sbind (jni_try (je_find_class J class_name)) (\<lambda>class.
           sbind (jni_try (je_is_instance_of J obj class)) (\<lambda>is_instance.
           if \<not> is_instance then sthrow (J_BadJniParameter class_name) else sret ())))"

definition get_object_with_native_handle ::
    "'j JNIEnv \<Rightarrow> (object \<Rightarrow> 't option) \<Rightarrow> jobject \<Rightarrow> JValue list \<Rightarrow> string \<Rightarrow> string
       \<Rightarrow> ('j memory, SignalJniError, 't option) st" where
  "get_object_with_native_handle J as store_obj callback_args callback_sig callback_fn =
     sbind (jni_try (je_call_method J store_obj callback_fn callback_sig callback_args)) (\<lambda>rvalue.
     sbind (exception_check J callback_fn) (\<lambda>_.
     case rvalue of
       JV_Object obj \<Rightarrow>
         if obj = J_null then sret None
         else sbind (jni_try (je_call_method J obj ''nativeHandle'' ''()J'' [])) (\<lambda>handle.
              sbind (exception_check J ''nativeHandle'') (\<lambda>_.
              case handle of
                JV_Long handle \<Rightarrow>
                  if handle = Null then sret None
                  else sbind (jni_native_handle_cast as handle) (\<lambda>object. sret (Some object))
              | _ \<Rightarrow> sthrow (J_UnexpectedJniResultType ''nativeHandle'' (je_type_name J handle))))
     | _ \<Rightarrow> sthrow (J_UnexpectedJniResultType callback_fn (je_type_name J rvalue))))"

definition get_object_with_serialization ::
    "'j JNIEnv \<Rightarrow> jobject \<Rightarrow> JValue list \<Rightarrow> string \<Rightarrow> string \<Rightarrow> ('j memory, SignalJniError, bytes option) st" where
  "get_object_with_serialization J store_obj callback_args callback_sig callback_fn =
     sbind (jni_try (je_call_method J store_obj callback_fn callback_sig callback_args)) (\<lambda>rvalue.
     sbind (exception_check J callback_fn) (\<lambda>_.
     case rvalue of
       JV_Object obj \<Rightarrow>
         if obj = J_null then sret None
         else sbind (jni_try (je_call_method J obj ''serialize'' ''()[B'' [])) (\<lambda>bytes.
              sbind (exception_check J ''serialize'') (\<lambda>_.
              case bytes of
                JV_Object o' \<Rightarrow> sbind (jni_try (je_convert_byte_array J o')) (\<lambda>bytes. sret (Some bytes))
              | _ \<Rightarrow> sthrow (J_UnexpectedJniResultType ''serialize'' (je_type_name J bytes))))
     | _ \<Rightarrow> sthrow (J_UnexpectedJniResultType callback_fn (je_type_name J rvalue))))"

definition jobject_from_serialized ::
    "'j JNIEnv \<Rightarrow> string \<Rightarrow> bytes \<Rightarrow> ('j memory, SignalJniError, jobject) st" where
  "jobject_from_serialized J class_name serialized =
     sbind (jni_try (je_find_class J class_name)) (\<lambda>class_type.
     sbind (to_jbytearray J (Ok serialized)) (\<lambda>arg.
     jni_try (je_new_object J class_type ''([B)V'' [JV_Object arg])))"

definition jobject_from_native_handle ::
    "'j JNIEnv \<Rightarrow> string \<Rightarrow> ObjectHandle \<Rightarrow> ('j memory, SignalJniError, jobject) st" where
  "jobject_from_native_handle J class_name boxed_handle =
     sbind (jni_try (je_find_class J class_name)) (\<lambda>class_type.
     jni_try (je_new_object J class_type ''(J)V'' [JV_Long boxed_handle]))"

section \<open>The templates\<close>

text \<open>One definition for every macro that makes a function of the interface, as for C.\<close>

definition jni_fn_deserialize ::
    "'j JNIEnv \<Rightarrow> string option \<Rightarrow> ('t \<Rightarrow> object) \<Rightarrow> (bytes \<Rightarrow> 't sresult) \<Rightarrow> jbyteArray \<Rightarrow> ('j, 'r, ObjectHandle) native" where
  "jni_fn_deserialize J payload obj func data =
     jni_run_ffi_safe J payload dummy_handle (on_fst (
       sbind (jni_try (je_convert_byte_array J data)) (\<lambda>data.
       jni_box_object obj (func data))))"

definition jni_fn_get_new_boxed_obj ::
    "'j JNIEnv \<Rightarrow> string option \<Rightarrow> (object \<Rightarrow> 't option) \<Rightarrow> ('u \<Rightarrow> object) \<Rightarrow> ('t \<Rightarrow> 'u sresult) \<Rightarrow> ObjectHandle
       \<Rightarrow> ('j, 'r, ObjectHandle) native" where
  "jni_fn_get_new_boxed_obj J payload as obj body handle =
     jni_run_ffi_safe J payload dummy_handle (on_fst (
       sbind (jni_native_handle_cast as handle) (\<lambda>t. jni_box_object obj (body t))))"

definition jni_fn_get_new_boxed_optional_obj ::
    "'j JNIEnv \<Rightarrow> string option \<Rightarrow> (object \<Rightarrow> 't option) \<Rightarrow> ('u \<Rightarrow> object) \<Rightarrow> ('t \<Rightarrow> 'u option sresult) \<Rightarrow> ObjectHandle
       \<Rightarrow> ('j, 'r, ObjectHandle) native" where
  "jni_fn_get_new_boxed_optional_obj J payload as obj body handle =
     jni_run_ffi_safe J payload dummy_handle (on_fst (
       sbind (jni_native_handle_cast as handle) (\<lambda>t.
       sbind (slift (jni_result (body t))) (\<lambda>result.
       case result of Some result \<Rightarrow> jni_box_object obj (Ok result) | None \<Rightarrow> sret Null))))"

definition jni_fn_get_jint ::
    "'j JNIEnv \<Rightarrow> string option \<Rightarrow> (object \<Rightarrow> 't option) \<Rightarrow> ('t \<Rightarrow> u32 sresult) \<Rightarrow> ObjectHandle \<Rightarrow> ('j, 'r, jint) native" where
  "jni_fn_get_jint J payload as body handle =
     jni_run_ffi_safe J payload dummy_jint (on_fst (
       sbind (jni_native_handle_cast as handle) (\<lambda>t. slift (jint_from_u32 (body t)))))"

definition jni_fn_get_jboolean ::
    "'j JNIEnv \<Rightarrow> string option \<Rightarrow> (object \<Rightarrow> 't option) \<Rightarrow> ('t \<Rightarrow> bool sresult) \<Rightarrow> ObjectHandle \<Rightarrow> ('j, 'r, jboolean) native" where
  "jni_fn_get_jboolean J payload as body handle =
     jni_run_ffi_safe J payload dummy_jboolean (on_fst (
       sbind (jni_native_handle_cast as handle) (\<lambda>t.
       sbind (slift (jni_result (body t))) (\<lambda>r. sret (of_bool r)))))"

definition jni_fn_get_jstring ::
    "'j JNIEnv \<Rightarrow> string option \<Rightarrow> (object \<Rightarrow> 't option) \<Rightarrow> ('t \<Rightarrow> string sresult) \<Rightarrow> ObjectHandle \<Rightarrow> ('j, 'r, jstring) native" where
  "jni_fn_get_jstring J payload as body handle =
     jni_run_ffi_safe J payload dummy_jobject (on_fst (
       sbind (jni_native_handle_cast as handle) (\<lambda>t.
       sbind (slift (jni_result (body t))) (\<lambda>s. jni_try (je_new_string J s)))))"

definition jni_fn_get_jbytearray ::
    "'j JNIEnv \<Rightarrow> string option \<Rightarrow> (object \<Rightarrow> 't option) \<Rightarrow> ('t \<Rightarrow> bytes sresult) \<Rightarrow> ObjectHandle \<Rightarrow> ('j, 'r, jbyteArray) native" where
  "jni_fn_get_jbytearray J payload as body handle =
     jni_run_ffi_safe J payload dummy_jobject (on_fst (
       sbind (jni_native_handle_cast as handle) (\<lambda>t. to_jbytearray J (body t))))"

text \<open>This one does not run in \<open>run_ffi_safe\<close>.\<close>

definition jni_fn_destroy :: "(object \<Rightarrow> 't option) \<Rightarrow> ObjectHandle \<Rightarrow> ('j, 'r, unit) native" where
  "jni_fn_destroy as handle =
     (\<lambda>(m, r). if handle \<noteq> Null then ((), (snd ((box_from_raw as handle :: ('j memory, SignalJniError, 't) st) m), r)) else ((), (m, r)))"

end
