(* ===== verification/Jni.thy ===== *)
theory Jni
  imports Jni_Util Ratchet
begin

text \<open>
  Model of \<open>rust/bridge/jni/src/lib.rs\<close>, the native functions of the Java interface, as far as they do not call
  back into the application: addresses, keys, fingerprints, key derivation, messages, bundles, records and names, and
  the two functions that the Java tests use to start a session. The functions are in the order of the source; the
  prefix \<open>Java_org_signal_client_internal_\<close> of their names is left out. One that comes from a macro is its template of
  \<open>Jni_Util\<close> applied to the expression that the source gives.
\<close>

section \<open>Parameters\<close>

text \<open>As for C, with the encoder of a single session.\<close>

record ('sc, 'pt, 'r) jni_env = "('sc, 'pt, 'r) ffi_env" +
  env_Session :: "SessionStructure prost"

section \<open>Addresses\<close>

definition Native_ProtocolAddress_1New ::
    "'j JNIEnv \<Rightarrow> ('sc, 'pt, 'r) jni_env \<Rightarrow> jstring \<Rightarrow> jint
       \<Rightarrow> ('j, 'r, ObjectHandle) native" where
  "Native_ProtocolAddress_1New J E name device_id =
     jni_run_ffi_safe J (panic_payload E) dummy_handle (on_fst (
       sbind (jni_try (je_get_string J name)) (\<lambda>name.
       sbind (slift (jint_to_u32 device_id)) (\<lambda>device_id.
       jni_box_object O_ProtocolAddress (Ok \<lparr>pa_name = name, pa_device_id = device_id\<rparr>)))))"

definition Native_ProtocolAddress_1Destroy :: "ObjectHandle \<Rightarrow> ('j, 'r, unit) native" where
  "Native_ProtocolAddress_1Destroy handle = jni_fn_destroy as_ProtocolAddress handle"

definition Native_ProtocolAddress_1Name ::
    "'j JNIEnv \<Rightarrow> ('sc, 'pt, 'r) jni_env \<Rightarrow> ObjectHandle \<Rightarrow> ('j, 'r, jstring) native" where
  "Native_ProtocolAddress_1Name J E handle =
     jni_fn_get_jstring J (panic_payload E) as_ProtocolAddress (\<lambda>p. Ok (pa_name p)) handle"

definition Native_ProtocolAddress_1DeviceId ::
    "'j JNIEnv \<Rightarrow> ('sc, 'pt, 'r) jni_env \<Rightarrow> ObjectHandle \<Rightarrow> ('j, 'r, jint) native" where
  "Native_ProtocolAddress_1DeviceId J E handle =
     jni_fn_get_jint J (panic_payload E) as_ProtocolAddress (\<lambda>obj. Ok (pa_device_id obj)) handle"

section \<open>Keys\<close>

text \<open>\<open>&data[offset..]\<close> panics when the offset is beyond the end.\<close>

definition Native_ECPublicKey_1Deserialize ::
    "'j JNIEnv \<Rightarrow> ('sc, 'pt, 'r) jni_env \<Rightarrow> jbyteArray \<Rightarrow> jint
       \<Rightarrow> ('j, 'r, ObjectHandle) native" where
  "Native_ECPublicKey_1Deserialize J E data offset =
     jni_run_ffi_safe J (panic_payload E) dummy_handle (on_fst (
       sbind (slift (jint_to_u32 offset)) (\<lambda>offset.
       sbind (jni_try (je_convert_byte_array J data)) (\<lambda>data.
       sbind (slift (if unat offset \<le> length data then Ok (drop (unat offset) data) else Panic)) (\<lambda>data.
       sbind (slift (jni_result (PublicKey_deserialize data))) (\<lambda>key.
       jni_box_object O_PublicKey (Ok key)))))))"

definition Native_ECPublicKey_1Compare ::
    "'j JNIEnv \<Rightarrow> ('sc, 'pt, 'r) jni_env \<Rightarrow> ObjectHandle \<Rightarrow> ObjectHandle
       \<Rightarrow> ('j, 'r, jint) native" where
  "Native_ECPublicKey_1Compare J E key1 key2 =
     jni_run_ffi_safe J (panic_payload E) dummy_jint (on_fst (
       sbind (jni_native_handle_cast as_PublicKey key1) (\<lambda>key1.
       sbind (jni_native_handle_cast as_PublicKey key2) (\<lambda>key2.
       sret (case PublicKey_cmp key1 key2 of Less \<Rightarrow> - 1 | Equal \<Rightarrow> 0 | Greater \<Rightarrow> 1)))))"

definition Native_ECPublicKey_1Serialize ::
    "'j JNIEnv \<Rightarrow> ('sc, 'pt, 'r) jni_env \<Rightarrow> ObjectHandle \<Rightarrow> ('j, 'r, jbyteArray) native" where
  "Native_ECPublicKey_1Serialize J E handle =
     jni_fn_get_jbytearray J (panic_payload E) as_PublicKey (\<lambda>k. Ok (PublicKey_serialize k)) handle"

definition Native_ECPublicKey_1GetPublicKeyBytes ::
    "'j JNIEnv \<Rightarrow> ('sc, 'pt, 'r) jni_env \<Rightarrow> ObjectHandle \<Rightarrow> ('j, 'r, jbyteArray) native" where
  "Native_ECPublicKey_1GetPublicKeyBytes J E handle =
     jni_fn_get_jbytearray J (panic_payload E) as_PublicKey (PublicKey_public_key_bytes) handle"

definition Native_ECPublicKey_1Verify ::
    "'j JNIEnv \<Rightarrow> ('sc, 'pt, 'r) jni_env \<Rightarrow> ObjectHandle \<Rightarrow> jbyteArray
       \<Rightarrow> jbyteArray \<Rightarrow> ('j, 'r, jboolean) native" where
  "Native_ECPublicKey_1Verify J E handle message signature =
     jni_run_ffi_safe J (panic_payload E) dummy_jboolean (on_fst (
       sbind (jni_native_handle_cast as_PublicKey handle) (\<lambda>key.
       sbind (jni_try (je_convert_byte_array J message)) (\<lambda>message.
       sbind (jni_try (je_convert_byte_array J signature)) (\<lambda>signature.
       sbind (slift (jni_result (PublicKey_verify_signature (env_crypto E) key message signature))) (\<lambda>valid.
       sret (of_bool valid)))))))"

definition Native_ECPublicKey_1Destroy :: "ObjectHandle \<Rightarrow> ('j, 'r, unit) native" where
  "Native_ECPublicKey_1Destroy handle = jni_fn_destroy as_PublicKey handle"

definition Native_ECPrivateKey_1Deserialize ::
    "'j JNIEnv \<Rightarrow> ('sc, 'pt, 'r) jni_env \<Rightarrow> jbyteArray \<Rightarrow> ('j, 'r, ObjectHandle) native" where
  "Native_ECPrivateKey_1Deserialize J E data =
     jni_fn_deserialize J (panic_payload E) O_PrivateKey (PrivateKey_deserialize) data"

definition Native_ECPrivateKey_1Serialize ::
    "'j JNIEnv \<Rightarrow> ('sc, 'pt, 'r) jni_env \<Rightarrow> ObjectHandle \<Rightarrow> ('j, 'r, jbyteArray) native" where
  "Native_ECPrivateKey_1Serialize J E handle =
     jni_fn_get_jbytearray J (panic_payload E) as_PrivateKey (\<lambda>k. Ok (PrivateKey_serialize k)) handle"

definition Native_ECPrivateKey_1Generate ::
    "'j JNIEnv \<Rightarrow> ('sc, 'pt, 'r) jni_env \<Rightarrow> ('j, 'r, ObjectHandle) native" where
  "Native_ECPrivateKey_1Generate J E =
     jni_run_ffi_safe J (panic_payload E) dummy_handle (
       sbind (on_snd (sgen (KeyPair_generate (env_crypto E)))) (\<lambda>keypair.
       on_fst (jni_box_object O_PrivateKey (Ok (kp_private_key keypair)))))"

definition Native_ECPrivateKey_1GetPublicKey ::
    "'j JNIEnv \<Rightarrow> ('sc, 'pt, 'r) jni_env \<Rightarrow> ObjectHandle \<Rightarrow> ('j, 'r, ObjectHandle) native" where
  "Native_ECPrivateKey_1GetPublicKey J E handle =
     jni_fn_get_new_boxed_obj J (panic_payload E) as_PrivateKey O_PublicKey (PrivateKey_public_key (env_crypto E)) handle"

definition Native_ECPrivateKey_1Sign ::
    "'j JNIEnv \<Rightarrow> ('sc, 'pt, 'r) jni_env \<Rightarrow> ObjectHandle \<Rightarrow> jbyteArray
       \<Rightarrow> ('j, 'r, jbyteArray) native" where
  "Native_ECPrivateKey_1Sign J E handle message =
     jni_run_ffi_safe J (panic_payload E) dummy_jobject (
       sbind (on_fst (jni_try (je_convert_byte_array J message))) (\<lambda>message.
       sbind (on_fst (jni_native_handle_cast as_PrivateKey handle)) (\<lambda>key.
       sbind (on_snd (signal_try (PrivateKey_calculate_signature (env_crypto E) key message))) (\<lambda>sig.
       on_fst (to_jbytearray J (Ok sig))))))"

definition Native_ECPrivateKey_1Agree ::
    "'j JNIEnv \<Rightarrow> ('sc, 'pt, 'r) jni_env \<Rightarrow> ObjectHandle \<Rightarrow> ObjectHandle
       \<Rightarrow> ('j, 'r, jbyteArray) native" where
  "Native_ECPrivateKey_1Agree J E private_key_handle public_key_handle =
     jni_run_ffi_safe J (panic_payload E) dummy_jobject (on_fst (
       sbind (jni_native_handle_cast as_PrivateKey private_key_handle) (\<lambda>private_key.
       sbind (jni_native_handle_cast as_PublicKey public_key_handle) (\<lambda>public_key.
       sbind (slift (jni_result (PrivateKey_calculate_agreement (env_crypto E) private_key public_key))) (\<lambda>shared_secret.
       to_jbytearray J (Ok shared_secret))))))"

definition Native_ECPrivateKey_1Destroy :: "ObjectHandle \<Rightarrow> ('j, 'r, unit) native" where
  "Native_ECPrivateKey_1Destroy handle = jni_fn_destroy as_PrivateKey handle"

definition Native_IdentityKeyPair_1Serialize ::
    "'j JNIEnv \<Rightarrow> ('sc, 'pt, 'r) jni_env \<Rightarrow> ObjectHandle \<Rightarrow> ObjectHandle
       \<Rightarrow> ('j, 'r, jbyteArray) native" where
  "Native_IdentityKeyPair_1Serialize J E public_key_handle private_key_handle =
     jni_run_ffi_safe J (panic_payload E) dummy_jobject (on_fst (
       sbind (jni_native_handle_cast as_PublicKey public_key_handle) (\<lambda>public_key.
       sbind (jni_native_handle_cast as_PrivateKey private_key_handle) (\<lambda>private_key.
       let identity_key_pair = \<lparr>ikp_identity_key = IdentityKey public_key, ikp_private_key = private_key\<rparr> in
       to_jbytearray J (Ok (IdentityKeyPair_serialize (env_IdentityKeyPair E) identity_key_pair))))))"

section \<open>Fingerprints\<close>

definition Native_DisplayableFingerprint_1Format ::
    "'j JNIEnv \<Rightarrow> ('sc, 'pt, 'r) jni_env \<Rightarrow> jbyteArray \<Rightarrow> jbyteArray
       \<Rightarrow> ('j, 'r, jstring) native" where
  "Native_DisplayableFingerprint_1Format J E local remote =
     jni_run_ffi_safe J (panic_payload E) dummy_jobject (on_fst (
       sbind (jni_try (je_convert_byte_array J local)) (\<lambda>local.
       sbind (jni_try (je_convert_byte_array J remote)) (\<lambda>remote.
       sbind (slift (jni_result (DisplayableFingerprint_new local remote))) (\<lambda>fingerprint.
       jni_try (je_new_string J (DisplayableFingerprint_fmt fingerprint)))))))"

definition Native_NumericFingerprintGenerator_1New ::
    "'j JNIEnv \<Rightarrow> ('sc, 'pt, 'r) jni_env \<Rightarrow> jint \<Rightarrow> jint \<Rightarrow> jbyteArray
       \<Rightarrow> jbyteArray \<Rightarrow> jbyteArray \<Rightarrow> jbyteArray \<Rightarrow> ('j, 'r, ObjectHandle) native" where
  "Native_NumericFingerprintGenerator_1New J E iterations version local_identifier local_key remote_identifier
       remote_key =
     jni_run_ffi_safe J (panic_payload E) dummy_handle (on_fst (
       sbind (slift (jint_to_u32 version)) (\<lambda>version.
       sbind (slift (jint_to_u32 iterations)) (\<lambda>iterations.
       sbind (jni_try (je_convert_byte_array J local_identifier)) (\<lambda>local_identifier.
       sbind (jni_try (je_convert_byte_array J local_key)) (\<lambda>local_key.
       sbind (jni_try (je_convert_byte_array J remote_identifier)) (\<lambda>remote_identifier.
       sbind (jni_try (je_convert_byte_array J remote_key)) (\<lambda>remote_key.
       sbind (slift (jni_result (IdentityKey_decode local_key))) (\<lambda>local_key.
       sbind (slift (jni_result (IdentityKey_decode remote_key))) (\<lambda>remote_key.
       sbind (slift (jni_result (Fingerprint_new (env_crypto E) version iterations
         local_identifier local_key remote_identifier remote_key))) (\<lambda>fprint.
       jni_box_object O_Fingerprint (Ok fprint))))))))))))"

definition Native_NumericFingerprintGenerator_1Destroy :: "ObjectHandle \<Rightarrow> ('j, 'r, unit) native" where
  "Native_NumericFingerprintGenerator_1Destroy handle = jni_fn_destroy as_Fingerprint handle"

definition Native_NumericFingerprintGenerator_1GetDisplayString ::
    "'j JNIEnv \<Rightarrow> ('sc, 'pt, 'r) jni_env \<Rightarrow> ObjectHandle \<Rightarrow> ('j, 'r, jstring) native" where
  "Native_NumericFingerprintGenerator_1GetDisplayString J E handle =
     jni_fn_get_jstring J (panic_payload E) as_Fingerprint (display_string) handle"

definition Native_NumericFingerprintGenerator_1GetScannableEncoding ::
    "'j JNIEnv \<Rightarrow> ('sc, 'pt, 'r) jni_env \<Rightarrow> ObjectHandle \<Rightarrow> ('j, 'r, jbyteArray) native" where
  "Native_NumericFingerprintGenerator_1GetScannableEncoding J E handle =
     jni_fn_get_jbytearray J (panic_payload E) as_Fingerprint (\<lambda>f. ScannableFingerprint_serialize (env_CombinedFingerprints E) (fp_scannable f)) handle"

definition Native_ScannableFingerprint_1Compare ::
    "'j JNIEnv \<Rightarrow> ('sc, 'pt, 'r) jni_env \<Rightarrow> jbyteArray \<Rightarrow> jbyteArray
       \<Rightarrow> ('j, 'r, jboolean) native" where
  "Native_ScannableFingerprint_1Compare J E fprint1 fprint2 =
     jni_run_ffi_safe J (panic_payload E) dummy_jboolean (on_fst (
       sbind (jni_try (je_convert_byte_array J fprint1)) (\<lambda>fprint1.
       sbind (jni_try (je_convert_byte_array J fprint2)) (\<lambda>fprint2.
       sbind (slift (jni_result (ScannableFingerprint_deserialize (env_CombinedFingerprints E) fprint1))) (\<lambda>fprint1.
       sbind (slift (jni_result (ScannableFingerprint_compare (env_CombinedFingerprints E) fprint1 fprint2))) (\<lambda>equal.
       sret (of_bool equal)))))))"

section \<open>Key derivation\<close>

text \<open>\<open>output_length as usize\<close> extends the sign: no length is refused here.\<close>

definition Native_HKDF_1DeriveSecrets ::
    "'j JNIEnv \<Rightarrow> ('sc, 'pt, 'r) jni_env \<Rightarrow> jint \<Rightarrow> jbyteArray \<Rightarrow> jbyteArray
       \<Rightarrow> jbyteArray \<Rightarrow> jint \<Rightarrow> ('j, 'r, jbyteArray) native" where
  "Native_HKDF_1DeriveSecrets J E version input_key_material salt info output_length =
     jni_run_ffi_safe J (panic_payload E) dummy_jobject (on_fst (
       sbind (slift (jint_to_u32 version)) (\<lambda>version.
       let output_length = unat (scast output_length :: 64 word) in
       sbind (jni_try (je_convert_byte_array J input_key_material)) (\<lambda>input_key_material.
       sbind (if salt = J_null then sret None else sbind (jni_try (je_convert_byte_array J salt)) (\<lambda>salt. sret (Some salt))) (\<lambda>salt.
       sbind (if info = J_null then sret [] else jni_try (je_convert_byte_array J info)) (\<lambda>info.
       sbind (slift (jni_result (HKDF_new version))) (\<lambda>hkdf.
       to_jbytearray J (case salt of
         Some salt \<Rightarrow> HKDF_derive_salted_secrets (env_crypto E) hkdf input_key_material salt info output_length
       | None \<Rightarrow> HKDF_derive_secrets (env_crypto E) hkdf input_key_material info output_length))))))))"

section \<open>Signal messages\<close>

definition Native_SignalMessage_1Deserialize ::
    "'j JNIEnv \<Rightarrow> ('sc, 'pt, 'r) jni_env \<Rightarrow> jbyteArray \<Rightarrow> ('j, 'r, ObjectHandle) native" where
  "Native_SignalMessage_1Deserialize J E data =
     jni_fn_deserialize J (panic_payload E) O_SignalMessage (SignalMessage_try_from (env_SignalMessage E)) data"

definition Native_SignalMessage_1New ::
    "'j JNIEnv \<Rightarrow> ('sc, 'pt, 'r) jni_env \<Rightarrow> jint \<Rightarrow> jbyteArray \<Rightarrow> ObjectHandle
       \<Rightarrow> jint \<Rightarrow> jint \<Rightarrow> jbyteArray \<Rightarrow> ObjectHandle \<Rightarrow> ObjectHandle
       \<Rightarrow> ('j, 'r, ObjectHandle) native" where
  "Native_SignalMessage_1New J E message_version mac_key sender_ratchet counter prev_counter ciphertext
       sender_identity_key receiver_identity_key =
     jni_run_ffi_safe J (panic_payload E) dummy_handle (on_fst (
       sbind (slift (jint_to_u8 message_version)) (\<lambda>message_version.
       sbind (jni_try (je_convert_byte_array J mac_key)) (\<lambda>mac_key.
       sbind (jni_native_handle_cast as_PublicKey sender_ratchet) (\<lambda>sender_ratchet.
       sbind (slift (jint_to_u32 counter)) (\<lambda>counter.
       sbind (slift (jint_to_u32 prev_counter)) (\<lambda>prev_counter.
       sbind (jni_try (je_convert_byte_array J ciphertext)) (\<lambda>ciphertext.
       sbind (jni_native_handle_cast as_PublicKey sender_identity_key) (\<lambda>sender_identity_key.
       sbind (jni_native_handle_cast as_PublicKey receiver_identity_key) (\<lambda>receiver_identity_key.
       sbind (slift (jni_result (SignalMessage_new (env_crypto E) (env_SignalMessage E) message_version mac_key sender_ratchet counter
         prev_counter ciphertext (IdentityKey sender_identity_key) (IdentityKey receiver_identity_key)))) (\<lambda>msg.
       jni_box_object O_SignalMessage (Ok msg))))))))))))"

definition Native_SignalMessage_1Destroy :: "ObjectHandle \<Rightarrow> ('j, 'r, unit) native" where
  "Native_SignalMessage_1Destroy handle = jni_fn_destroy as_SignalMessage handle"

definition Native_SignalMessage_1GetSenderRatchetKey ::
    "'j JNIEnv \<Rightarrow> ('sc, 'pt, 'r) jni_env \<Rightarrow> ObjectHandle \<Rightarrow> ('j, 'r, jbyteArray) native" where
  "Native_SignalMessage_1GetSenderRatchetKey J E handle =
     jni_fn_get_jbytearray J (panic_payload E) as_SignalMessage (\<lambda>m. Ok (PublicKey_serialize (sm_sender_ratchet_key m))) handle"

definition Native_SignalMessage_1GetBody ::
    "'j JNIEnv \<Rightarrow> ('sc, 'pt, 'r) jni_env \<Rightarrow> ObjectHandle \<Rightarrow> ('j, 'r, jbyteArray) native" where
  "Native_SignalMessage_1GetBody J E handle =
     jni_fn_get_jbytearray J (panic_payload E) as_SignalMessage (\<lambda>m. Ok (sm_ciphertext m)) handle"

definition Native_SignalMessage_1GetSerialized ::
    "'j JNIEnv \<Rightarrow> ('sc, 'pt, 'r) jni_env \<Rightarrow> ObjectHandle \<Rightarrow> ('j, 'r, jbyteArray) native" where
  "Native_SignalMessage_1GetSerialized J E handle =
     jni_fn_get_jbytearray J (panic_payload E) as_SignalMessage (\<lambda>m. Ok (sm_serialized m)) handle"

definition Native_SignalMessage_1GetMessageVersion ::
    "'j JNIEnv \<Rightarrow> ('sc, 'pt, 'r) jni_env \<Rightarrow> ObjectHandle \<Rightarrow> ('j, 'r, jint) native" where
  "Native_SignalMessage_1GetMessageVersion J E handle =
     jni_fn_get_jint J (panic_payload E) as_SignalMessage (\<lambda>msg. Ok (ucast (sm_message_version msg))) handle"

definition Native_SignalMessage_1GetCounter ::
    "'j JNIEnv \<Rightarrow> ('sc, 'pt, 'r) jni_env \<Rightarrow> ObjectHandle \<Rightarrow> ('j, 'r, jint) native" where
  "Native_SignalMessage_1GetCounter J E handle =
     jni_fn_get_jint J (panic_payload E) as_SignalMessage (\<lambda>msg. Ok (sm_counter msg)) handle"

definition Native_SignalMessage_1VerifyMac ::
    "'j JNIEnv \<Rightarrow> ('sc, 'pt, 'r) jni_env \<Rightarrow> ObjectHandle \<Rightarrow> ObjectHandle
       \<Rightarrow> ObjectHandle \<Rightarrow> jbyteArray \<Rightarrow> ('j, 'r, jboolean) native" where
  "Native_SignalMessage_1VerifyMac J E handle sender_identity_key receiver_identity_key mac_key =
     jni_run_ffi_safe J (panic_payload E) dummy_jboolean (on_fst (
       sbind (jni_native_handle_cast as_SignalMessage handle) (\<lambda>msg.
       sbind (jni_native_handle_cast as_PublicKey sender_identity_key) (\<lambda>sender_identity_key.
       sbind (jni_native_handle_cast as_PublicKey receiver_identity_key) (\<lambda>receiver_identity_key.
       sbind (jni_try (je_convert_byte_array J mac_key)) (\<lambda>mac_key.
       sbind (slift (jni_result (SignalMessage_verify_mac (env_crypto E) msg (IdentityKey sender_identity_key)
         (IdentityKey receiver_identity_key) mac_key))) (\<lambda>valid.
       sret (of_bool valid))))))))"

section \<open>Pre-key messages\<close>

definition Native_PreKeySignalMessage_1Deserialize ::
    "'j JNIEnv \<Rightarrow> ('sc, 'pt, 'r) jni_env \<Rightarrow> jbyteArray \<Rightarrow> ('j, 'r, ObjectHandle) native" where
  "Native_PreKeySignalMessage_1Deserialize J E data =
     jni_fn_deserialize J (panic_payload E) O_PreKeySignalMessage (PreKeySignalMessage_try_from (env_SignalMessage E) (env_PreKeySignalMessage E)) data"

text \<open>A negative pre-key identifier stands for none; \<open>message_version as u8\<close> is not checked.\<close>

definition Native_PreKeySignalMessage_1New ::
    "'j JNIEnv \<Rightarrow> ('sc, 'pt, 'r) jni_env \<Rightarrow> jint \<Rightarrow> jint \<Rightarrow> jint
       \<Rightarrow> jint \<Rightarrow> ObjectHandle \<Rightarrow> ObjectHandle \<Rightarrow> ObjectHandle
       \<Rightarrow> ('j, 'r, ObjectHandle) native" where
  "Native_PreKeySignalMessage_1New J E message_version registration_id pre_key_id signed_pre_key_id base_key_handle
       identity_key_handle signal_message_handle =
     jni_run_ffi_safe J (panic_payload E) dummy_handle (on_fst (
       let message_version = (ucast message_version :: u8) in
       sbind (slift (jint_to_u32 registration_id)) (\<lambda>registration_id.
       sbind (if sint pre_key_id < 0 then sret None else sbind (slift (jint_to_u32 pre_key_id)) (\<lambda>i. sret (Some i))) (\<lambda>pre_key_id.
       sbind (slift (jint_to_u32 signed_pre_key_id)) (\<lambda>signed_pre_key_id.
       sbind (jni_native_handle_cast as_PublicKey base_key_handle) (\<lambda>base_key.
       sbind (jni_native_handle_cast as_PublicKey identity_key_handle) (\<lambda>identity_key.
       sbind (jni_native_handle_cast as_SignalMessage signal_message_handle) (\<lambda>signal_message.
       jni_box_object O_PreKeySignalMessage (PreKeySignalMessage_new (env_PreKeySignalMessage E) message_version registration_id
         pre_key_id signed_pre_key_id base_key (IdentityKey identity_key) signal_message)))))))))"

definition Native_PreKeySignalMessage_1Destroy :: "ObjectHandle \<Rightarrow> ('j, 'r, unit) native" where
  "Native_PreKeySignalMessage_1Destroy handle = jni_fn_destroy as_PreKeySignalMessage handle"

definition Native_PreKeySignalMessage_1GetVersion ::
    "'j JNIEnv \<Rightarrow> ('sc, 'pt, 'r) jni_env \<Rightarrow> ObjectHandle \<Rightarrow> ('j, 'r, jint) native" where
  "Native_PreKeySignalMessage_1GetVersion J E handle =
     jni_fn_get_jint J (panic_payload E) as_PreKeySignalMessage (\<lambda>m. Ok (ucast (pm_message_version m))) handle"

definition Native_PreKeySignalMessage_1GetRegistrationId ::
    "'j JNIEnv \<Rightarrow> ('sc, 'pt, 'r) jni_env \<Rightarrow> ObjectHandle \<Rightarrow> ('j, 'r, jint) native" where
  "Native_PreKeySignalMessage_1GetRegistrationId J E handle =
     jni_fn_get_jint J (panic_payload E) as_PreKeySignalMessage (\<lambda>m. Ok (pm_registration_id m)) handle"

definition Native_PreKeySignalMessage_1GetPreKeyId ::
    "'j JNIEnv \<Rightarrow> ('sc, 'pt, 'r) jni_env \<Rightarrow> ObjectHandle \<Rightarrow> ('j, 'r, jint) native" where
  "Native_PreKeySignalMessage_1GetPreKeyId J E handle =
     jni_run_ffi_safe J (panic_payload E) dummy_jint (on_fst (
       sbind (jni_native_handle_cast as_PreKeySignalMessage handle) (\<lambda>pksm.
       case pm_pre_key_id pksm of Some i \<Rightarrow> slift (jint_from_u32 (Ok i)) | None \<Rightarrow> sret (- 1))))"

definition Native_PreKeySignalMessage_1GetSignedPreKeyId ::
    "'j JNIEnv \<Rightarrow> ('sc, 'pt, 'r) jni_env \<Rightarrow> ObjectHandle \<Rightarrow> ('j, 'r, jint) native" where
  "Native_PreKeySignalMessage_1GetSignedPreKeyId J E handle =
     jni_fn_get_jint J (panic_payload E) as_PreKeySignalMessage (\<lambda>m. Ok (pm_signed_pre_key_id m)) handle"

definition Native_PreKeySignalMessage_1GetBaseKey ::
    "'j JNIEnv \<Rightarrow> ('sc, 'pt, 'r) jni_env \<Rightarrow> ObjectHandle \<Rightarrow> ('j, 'r, jbyteArray) native" where
  "Native_PreKeySignalMessage_1GetBaseKey J E handle =
     jni_fn_get_jbytearray J (panic_payload E) as_PreKeySignalMessage (\<lambda>m. Ok (PublicKey_serialize (pm_base_key m))) handle"

definition Native_PreKeySignalMessage_1GetIdentityKey ::
    "'j JNIEnv \<Rightarrow> ('sc, 'pt, 'r) jni_env \<Rightarrow> ObjectHandle \<Rightarrow> ('j, 'r, jbyteArray) native" where
  "Native_PreKeySignalMessage_1GetIdentityKey J E handle =
     jni_fn_get_jbytearray J (panic_payload E) as_PreKeySignalMessage (\<lambda>m. Ok (IdentityKey_serialize (pm_identity_key m))) handle"

definition Native_PreKeySignalMessage_1GetSignalMessage ::
    "'j JNIEnv \<Rightarrow> ('sc, 'pt, 'r) jni_env \<Rightarrow> ObjectHandle \<Rightarrow> ('j, 'r, jbyteArray) native" where
  "Native_PreKeySignalMessage_1GetSignalMessage J E handle =
     jni_fn_get_jbytearray J (panic_payload E) as_PreKeySignalMessage (\<lambda>m. Ok (sm_serialized (pm_message m))) handle"

definition Native_PreKeySignalMessage_1GetSerialized ::
    "'j JNIEnv \<Rightarrow> ('sc, 'pt, 'r) jni_env \<Rightarrow> ObjectHandle \<Rightarrow> ('j, 'r, jbyteArray) native" where
  "Native_PreKeySignalMessage_1GetSerialized J E handle =
     jni_fn_get_jbytearray J (panic_payload E) as_PreKeySignalMessage (\<lambda>m. Ok (pm_serialized m)) handle"

section \<open>Sender key messages\<close>

definition Native_SenderKeyMessage_1Deserialize ::
    "'j JNIEnv \<Rightarrow> ('sc, 'pt, 'r) jni_env \<Rightarrow> jbyteArray \<Rightarrow> ('j, 'r, ObjectHandle) native" where
  "Native_SenderKeyMessage_1Deserialize J E data =
     jni_fn_deserialize J (panic_payload E) O_SenderKeyMessage (SenderKeyMessage_try_from (env_SenderKeyMessage E)) data"

definition Native_SenderKeyMessage_1New ::
    "'j JNIEnv \<Rightarrow> ('sc, 'pt, 'r) jni_env \<Rightarrow> jint \<Rightarrow> jint \<Rightarrow> jbyteArray
       \<Rightarrow> ObjectHandle \<Rightarrow> ('j, 'r, ObjectHandle) native" where
  "Native_SenderKeyMessage_1New J E key_id iteration ciphertext pk_handle =
     jni_run_ffi_safe J (panic_payload E) dummy_handle (
       sbind (slift (jint_to_u32 key_id)) (\<lambda>key_id.
       sbind (slift (jint_to_u32 iteration)) (\<lambda>iteration.
       sbind (on_fst (jni_try (je_convert_byte_array J ciphertext))) (\<lambda>ciphertext.
       sbind (on_fst (jni_native_handle_cast as_PrivateKey pk_handle)) (\<lambda>signature_key.
       sbind (on_snd (signal_try (SenderKeyMessage_new (env_crypto E) (env_SenderKeyMessage E) key_id iteration ciphertext
         signature_key))) (\<lambda>skm.
       on_fst (jni_box_object O_SenderKeyMessage (Ok skm))))))))"

definition Native_SenderKeyDistributionMessage_1Deserialize ::
    "'j JNIEnv \<Rightarrow> ('sc, 'pt, 'r) jni_env \<Rightarrow> jbyteArray \<Rightarrow> ('j, 'r, ObjectHandle) native" where
  "Native_SenderKeyDistributionMessage_1Deserialize J E data =
     jni_fn_deserialize J (panic_payload E) O_SenderKeyDistributionMessage (SenderKeyDistributionMessage_try_from (env_SenderKeyDistributionMessage E)) data"

definition Native_SenderKeyMessage_1Destroy :: "ObjectHandle \<Rightarrow> ('j, 'r, unit) native" where
  "Native_SenderKeyMessage_1Destroy handle = jni_fn_destroy as_SenderKeyMessage handle"

definition Native_SenderKeyMessage_1GetKeyId ::
    "'j JNIEnv \<Rightarrow> ('sc, 'pt, 'r) jni_env \<Rightarrow> ObjectHandle \<Rightarrow> ('j, 'r, jint) native" where
  "Native_SenderKeyMessage_1GetKeyId J E handle =
     jni_fn_get_jint J (panic_payload E) as_SenderKeyMessage (\<lambda>m. Ok (skm_key_id m)) handle"

definition Native_SenderKeyMessage_1GetIteration ::
    "'j JNIEnv \<Rightarrow> ('sc, 'pt, 'r) jni_env \<Rightarrow> ObjectHandle \<Rightarrow> ('j, 'r, jint) native" where
  "Native_SenderKeyMessage_1GetIteration J E handle =
     jni_fn_get_jint J (panic_payload E) as_SenderKeyMessage (\<lambda>m. Ok (skm_iteration m)) handle"

definition Native_SenderKeyMessage_1GetCipherText ::
    "'j JNIEnv \<Rightarrow> ('sc, 'pt, 'r) jni_env \<Rightarrow> ObjectHandle \<Rightarrow> ('j, 'r, jbyteArray) native" where
  "Native_SenderKeyMessage_1GetCipherText J E handle =
     jni_fn_get_jbytearray J (panic_payload E) as_SenderKeyMessage (\<lambda>m. Ok (skm_ciphertext m)) handle"

definition Native_SenderKeyMessage_1GetSerialized ::
    "'j JNIEnv \<Rightarrow> ('sc, 'pt, 'r) jni_env \<Rightarrow> ObjectHandle \<Rightarrow> ('j, 'r, jbyteArray) native" where
  "Native_SenderKeyMessage_1GetSerialized J E handle =
     jni_fn_get_jbytearray J (panic_payload E) as_SenderKeyMessage (\<lambda>m. Ok (skm_serialized m)) handle"

definition Native_SenderKeyMessage_1VerifySignature ::
    "'j JNIEnv \<Rightarrow> ('sc, 'pt, 'r) jni_env \<Rightarrow> ObjectHandle \<Rightarrow> ObjectHandle
       \<Rightarrow> ('j, 'r, jboolean) native" where
  "Native_SenderKeyMessage_1VerifySignature J E handle pubkey_handle =
     jni_run_ffi_safe J (panic_payload E) dummy_jboolean (on_fst (
       sbind (jni_native_handle_cast as_SenderKeyMessage handle) (\<lambda>skm.
       sbind (jni_native_handle_cast as_PublicKey pubkey_handle) (\<lambda>pubkey.
       sbind (slift (jni_result (SenderKeyMessage_verify_signature (env_crypto E) skm pubkey))) (\<lambda>valid.
       sret (of_bool valid))))))"

section \<open>Sender key distribution messages\<close>

definition Native_SenderKeyDistributionMessage_1New ::
    "'j JNIEnv \<Rightarrow> ('sc, 'pt, 'r) jni_env \<Rightarrow> jint \<Rightarrow> jint \<Rightarrow> jbyteArray
       \<Rightarrow> ObjectHandle \<Rightarrow> ('j, 'r, ObjectHandle) native" where
  "Native_SenderKeyDistributionMessage_1New J E key_id iteration chainkey pk_handle =
     jni_run_ffi_safe J (panic_payload E) dummy_handle (on_fst (
       sbind (slift (jint_to_u32 key_id)) (\<lambda>key_id.
       sbind (slift (jint_to_u32 iteration)) (\<lambda>iteration.
       sbind (jni_try (je_convert_byte_array J chainkey)) (\<lambda>chainkey.
       sbind (jni_native_handle_cast as_PublicKey pk_handle) (\<lambda>signature_key.
       jni_box_object O_SenderKeyDistributionMessage (SenderKeyDistributionMessage_new (env_SenderKeyDistributionMessage E)
         key_id iteration chainkey signature_key)))))))"

definition Native_SenderKeyDistributionMessage_1Destroy :: "ObjectHandle \<Rightarrow> ('j, 'r, unit) native" where
  "Native_SenderKeyDistributionMessage_1Destroy handle = jni_fn_destroy as_SenderKeyDistributionMessage handle"

definition Native_SenderKeyDistributionMessage_1GetId ::
    "'j JNIEnv \<Rightarrow> ('sc, 'pt, 'r) jni_env \<Rightarrow> ObjectHandle \<Rightarrow> ('j, 'r, jint) native" where
  "Native_SenderKeyDistributionMessage_1GetId J E handle =
     jni_fn_get_jint J (panic_payload E) as_SenderKeyDistributionMessage (\<lambda>m. Ok (skdm_id m)) handle"

definition Native_SenderKeyDistributionMessage_1GetIteration ::
    "'j JNIEnv \<Rightarrow> ('sc, 'pt, 'r) jni_env \<Rightarrow> ObjectHandle \<Rightarrow> ('j, 'r, jint) native" where
  "Native_SenderKeyDistributionMessage_1GetIteration J E handle =
     jni_fn_get_jint J (panic_payload E) as_SenderKeyDistributionMessage (\<lambda>m. Ok (skdm_iteration m)) handle"

definition Native_SenderKeyDistributionMessage_1GetChainKey ::
    "'j JNIEnv \<Rightarrow> ('sc, 'pt, 'r) jni_env \<Rightarrow> ObjectHandle \<Rightarrow> ('j, 'r, jbyteArray) native" where
  "Native_SenderKeyDistributionMessage_1GetChainKey J E handle =
     jni_fn_get_jbytearray J (panic_payload E) as_SenderKeyDistributionMessage (\<lambda>m. Ok (skdm_chain_key m)) handle"

definition Native_SenderKeyDistributionMessage_1GetSignatureKey ::
    "'j JNIEnv \<Rightarrow> ('sc, 'pt, 'r) jni_env \<Rightarrow> ObjectHandle \<Rightarrow> ('j, 'r, jbyteArray) native" where
  "Native_SenderKeyDistributionMessage_1GetSignatureKey J E handle =
     jni_fn_get_jbytearray J (panic_payload E) as_SenderKeyDistributionMessage (\<lambda>m. Ok (PublicKey_serialize (skdm_signing_key m))) handle"

definition Native_SenderKeyDistributionMessage_1GetSerialized ::
    "'j JNIEnv \<Rightarrow> ('sc, 'pt, 'r) jni_env \<Rightarrow> ObjectHandle \<Rightarrow> ('j, 'r, jbyteArray) native" where
  "Native_SenderKeyDistributionMessage_1GetSerialized J E handle =
     jni_fn_get_jbytearray J (panic_payload E) as_SenderKeyDistributionMessage (\<lambda>m. Ok (skdm_serialized m)) handle"

section \<open>Pre-key bundles\<close>

text \<open>The handle of the identity key is dereferenced without a cast that looks for null.\<close>

definition Native_PreKeyBundle_1New ::
    "'j JNIEnv \<Rightarrow> ('sc, 'pt, 'r) jni_env \<Rightarrow> jint \<Rightarrow> jint \<Rightarrow> jint
       \<Rightarrow> ObjectHandle \<Rightarrow> jint \<Rightarrow> ObjectHandle \<Rightarrow> jbyteArray
       \<Rightarrow> ObjectHandle \<Rightarrow> ('j, 'r, ObjectHandle) native" where
  "Native_PreKeyBundle_1New J E registration_id device_id prekey_id prekey_handle signed_prekey_id
       signed_prekey_handle signed_prekey_signature identity_key_handle =
     jni_run_ffi_safe J (panic_payload E) dummy_handle (on_fst (
       sbind (slift (jint_to_u32 registration_id)) (\<lambda>registration_id.
       sbind (slift (jint_to_u32 device_id)) (\<lambda>device_id.
       sbind (slift (jint_to_u32 signed_prekey_id)) (\<lambda>signed_prekey_id.
       sbind (jni_native_handle_cast as_PublicKey signed_prekey_handle) (\<lambda>signed_prekey.
       sbind (jni_try (je_convert_byte_array J signed_prekey_signature)) (\<lambda>signed_prekey_signature.
       sbind (jni_native_handle_cast_optional as_PublicKey prekey_handle) (\<lambda>prekey.
       sbind (if sint prekey_id < 0 then sret None else sbind (slift (jint_to_u32 prekey_id)) (\<lambda>i. sret (Some i))) (\<lambda>prekey_id.
       sbind (handle_ref as_PublicKey identity_key_handle) (\<lambda>identity_key.
       jni_box_object O_PreKeyBundle (PreKeyBundle_new registration_id device_id prekey_id prekey signed_prekey_id signed_prekey
         signed_prekey_signature (IdentityKey identity_key))))))))))))"

definition Native_PreKeyBundle_1Destroy :: "ObjectHandle \<Rightarrow> ('j, 'r, unit) native" where
  "Native_PreKeyBundle_1Destroy handle = jni_fn_destroy as_PreKeyBundle handle"

definition Native_PreKeyBundle_1GetRegistrationId ::
    "'j JNIEnv \<Rightarrow> ('sc, 'pt, 'r) jni_env \<Rightarrow> ObjectHandle \<Rightarrow> ('j, 'r, jint) native" where
  "Native_PreKeyBundle_1GetRegistrationId J E handle =
     jni_fn_get_jint J (panic_payload E) as_PreKeyBundle (\<lambda>m. Ok (pkb_registration_id m)) handle"

definition Native_PreKeyBundle_1GetDeviceId ::
    "'j JNIEnv \<Rightarrow> ('sc, 'pt, 'r) jni_env \<Rightarrow> ObjectHandle \<Rightarrow> ('j, 'r, jint) native" where
  "Native_PreKeyBundle_1GetDeviceId J E handle =
     jni_fn_get_jint J (panic_payload E) as_PreKeyBundle (\<lambda>m. Ok (pkb_device_id m)) handle"

definition Native_PreKeyBundle_1GetSignedPreKeyId ::
    "'j JNIEnv \<Rightarrow> ('sc, 'pt, 'r) jni_env \<Rightarrow> ObjectHandle \<Rightarrow> ('j, 'r, jint) native" where
  "Native_PreKeyBundle_1GetSignedPreKeyId J E handle =
     jni_fn_get_jint J (panic_payload E) as_PreKeyBundle (\<lambda>m. Ok (pkb_signed_pre_key_id m)) handle"

definition Native_PreKeyBundle_1GetPreKeyId ::
    "'j JNIEnv \<Rightarrow> ('sc, 'pt, 'r) jni_env \<Rightarrow> ObjectHandle \<Rightarrow> ('j, 'r, jint) native" where
  "Native_PreKeyBundle_1GetPreKeyId J E handle =
     jni_run_ffi_safe J (panic_payload E) dummy_jint (on_fst (
       sbind (jni_native_handle_cast as_PreKeyBundle handle) (\<lambda>bundle.
       case pkb_pre_key_id bundle of Some prekey_id \<Rightarrow> slift (jint_from_u32 (Ok prekey_id)) | None \<Rightarrow> sret (- 1))))"

definition Native_PreKeyBundle_1GetPreKeyPublic ::
    "'j JNIEnv \<Rightarrow> ('sc, 'pt, 'r) jni_env \<Rightarrow> ObjectHandle \<Rightarrow> ('j, 'r, ObjectHandle) native" where
  "Native_PreKeyBundle_1GetPreKeyPublic J E handle =
     jni_fn_get_new_boxed_optional_obj J (panic_payload E) as_PreKeyBundle O_PublicKey (\<lambda>p. Ok (pkb_pre_key_public p)) handle"

definition Native_PreKeyBundle_1GetSignedPreKeyPublic ::
    "'j JNIEnv \<Rightarrow> ('sc, 'pt, 'r) jni_env \<Rightarrow> ObjectHandle \<Rightarrow> ('j, 'r, ObjectHandle) native" where
  "Native_PreKeyBundle_1GetSignedPreKeyPublic J E handle =
     jni_fn_get_new_boxed_obj J (panic_payload E) as_PreKeyBundle O_PublicKey (\<lambda>p. Ok (pkb_signed_pre_key_public p)) handle"

definition Native_PreKeyBundle_1GetIdentityKey ::
    "'j JNIEnv \<Rightarrow> ('sc, 'pt, 'r) jni_env \<Rightarrow> ObjectHandle \<Rightarrow> ('j, 'r, ObjectHandle) native" where
  "Native_PreKeyBundle_1GetIdentityKey J E handle =
     jni_fn_get_new_boxed_obj J (panic_payload E) as_PreKeyBundle O_PublicKey (\<lambda>p. Ok (ik_public_key (pkb_identity_key p))) handle"

definition Native_PreKeyBundle_1GetSignedPreKeySignature ::
    "'j JNIEnv \<Rightarrow> ('sc, 'pt, 'r) jni_env \<Rightarrow> ObjectHandle \<Rightarrow> ('j, 'r, jbyteArray) native" where
  "Native_PreKeyBundle_1GetSignedPreKeySignature J E handle =
     jni_fn_get_jbytearray J (panic_payload E) as_PreKeyBundle (\<lambda>m. Ok (pkb_signed_pre_key_signature m)) handle"

section \<open>Signed pre-key records\<close>

definition Native_SignedPreKeyRecord_1New ::
    "'j JNIEnv \<Rightarrow> ('sc, 'pt, 'r) jni_env \<Rightarrow> jint \<Rightarrow> jlong \<Rightarrow> ObjectHandle
       \<Rightarrow> ObjectHandle \<Rightarrow> jbyteArray \<Rightarrow> ('j, 'r, ObjectHandle) native" where
  "Native_SignedPreKeyRecord_1New J E id' timestamp pub_key_handle priv_key_handle signature =
     jni_run_ffi_safe J (panic_payload E) dummy_handle (on_fst (
       sbind (jni_native_handle_cast as_PublicKey pub_key_handle) (\<lambda>pub_key.
       sbind (jni_native_handle_cast as_PrivateKey priv_key_handle) (\<lambda>priv_key.
       sbind (slift (jint_to_u32 id')) (\<lambda>id'.
       let timestamp = (ucast timestamp :: u64); keypair = \<lparr>kp_public_key = pub_key, kp_private_key = priv_key\<rparr> in
       sbind (jni_try (je_convert_byte_array J signature)) (\<lambda>signature.
       jni_box_object O_SignedPreKeyRecord (Ok (SignedPreKeyRecord_new id' timestamp keypair signature))))))))"

definition Native_SignedPreKeyRecord_1Deserialize ::
    "'j JNIEnv \<Rightarrow> ('sc, 'pt, 'r) jni_env \<Rightarrow> jbyteArray \<Rightarrow> ('j, 'r, ObjectHandle) native" where
  "Native_SignedPreKeyRecord_1Deserialize J E data =
     jni_fn_deserialize J (panic_payload E) O_SignedPreKeyRecord (SignedPreKeyRecord_deserialize (env_SignedPreKeyRecord E)) data"

definition Native_SignedPreKeyRecord_1GetId ::
    "'j JNIEnv \<Rightarrow> ('sc, 'pt, 'r) jni_env \<Rightarrow> ObjectHandle \<Rightarrow> ('j, 'r, jint) native" where
  "Native_SignedPreKeyRecord_1GetId J E handle =
     jni_fn_get_jint J (panic_payload E) as_SignedPreKeyRecord (\<lambda>m. Ok (spkr_id m)) handle"

definition Native_SignedPreKeyRecord_1GetTimestamp ::
    "'j JNIEnv \<Rightarrow> ('sc, 'pt, 'r) jni_env \<Rightarrow> ObjectHandle \<Rightarrow> ('j, 'r, jlong) native" where
  "Native_SignedPreKeyRecord_1GetTimestamp J E handle =
     jni_run_ffi_safe J (panic_payload E) dummy_jlong (on_fst (
       sbind (jni_native_handle_cast as_SignedPreKeyRecord handle) (\<lambda>spkr.
       slift (jlong_from_u64 (Ok (spkr_timestamp spkr))))))"

definition Native_SignedPreKeyRecord_1GetPublicKey ::
    "'j JNIEnv \<Rightarrow> ('sc, 'pt, 'r) jni_env \<Rightarrow> ObjectHandle \<Rightarrow> ('j, 'r, ObjectHandle) native" where
  "Native_SignedPreKeyRecord_1GetPublicKey J E handle =
     jni_fn_get_new_boxed_obj J (panic_payload E) as_SignedPreKeyRecord O_PublicKey (SignedPreKeyRecord_public_key) handle"

definition Native_SignedPreKeyRecord_1GetPrivateKey ::
    "'j JNIEnv \<Rightarrow> ('sc, 'pt, 'r) jni_env \<Rightarrow> ObjectHandle \<Rightarrow> ('j, 'r, ObjectHandle) native" where
  "Native_SignedPreKeyRecord_1GetPrivateKey J E handle =
     jni_fn_get_new_boxed_obj J (panic_payload E) as_SignedPreKeyRecord O_PrivateKey (SignedPreKeyRecord_private_key) handle"

definition Native_SignedPreKeyRecord_1GetSignature ::
    "'j JNIEnv \<Rightarrow> ('sc, 'pt, 'r) jni_env \<Rightarrow> ObjectHandle \<Rightarrow> ('j, 'r, jbyteArray) native" where
  "Native_SignedPreKeyRecord_1GetSignature J E handle =
     jni_fn_get_jbytearray J (panic_payload E) as_SignedPreKeyRecord (\<lambda>m. Ok (spkr_signature m)) handle"

definition Native_SignedPreKeyRecord_1GetSerialized ::
    "'j JNIEnv \<Rightarrow> ('sc, 'pt, 'r) jni_env \<Rightarrow> ObjectHandle \<Rightarrow> ('j, 'r, jbyteArray) native" where
  "Native_SignedPreKeyRecord_1GetSerialized J E handle =
     jni_fn_get_jbytearray J (panic_payload E) as_SignedPreKeyRecord (SignedPreKeyRecord_serialize (env_SignedPreKeyRecord E)) handle"

definition Native_SignedPreKeyRecord_1Destroy :: "ObjectHandle \<Rightarrow> ('j, 'r, unit) native" where
  "Native_SignedPreKeyRecord_1Destroy handle = jni_fn_destroy as_SignedPreKeyRecord handle"

section \<open>Pre-key records\<close>

definition Native_PreKeyRecord_1New ::
    "'j JNIEnv \<Rightarrow> ('sc, 'pt, 'r) jni_env \<Rightarrow> jint \<Rightarrow> ObjectHandle
       \<Rightarrow> ObjectHandle \<Rightarrow> ('j, 'r, ObjectHandle) native" where
  "Native_PreKeyRecord_1New J E id' pub_key_handle priv_key_handle =
     jni_run_ffi_safe J (panic_payload E) dummy_handle (on_fst (
       sbind (slift (jint_to_u32 id')) (\<lambda>id'.
       sbind (jni_native_handle_cast as_PublicKey pub_key_handle) (\<lambda>pub_key.
       sbind (jni_native_handle_cast as_PrivateKey priv_key_handle) (\<lambda>priv_key.
       let keypair = \<lparr>kp_public_key = pub_key, kp_private_key = priv_key\<rparr> in
       jni_box_object O_PreKeyRecord (Ok (PreKeyRecord_new id' keypair)))))))"

definition Native_PreKeyRecord_1Deserialize ::
    "'j JNIEnv \<Rightarrow> ('sc, 'pt, 'r) jni_env \<Rightarrow> jbyteArray \<Rightarrow> ('j, 'r, ObjectHandle) native" where
  "Native_PreKeyRecord_1Deserialize J E data =
     jni_fn_deserialize J (panic_payload E) O_PreKeyRecord (PreKeyRecord_deserialize (env_PreKeyRecord E)) data"

definition Native_PreKeyRecord_1GetId ::
    "'j JNIEnv \<Rightarrow> ('sc, 'pt, 'r) jni_env \<Rightarrow> ObjectHandle \<Rightarrow> ('j, 'r, jint) native" where
  "Native_PreKeyRecord_1GetId J E handle =
     jni_fn_get_jint J (panic_payload E) as_PreKeyRecord (\<lambda>m. Ok (pkr_id m)) handle"

definition Native_PreKeyRecord_1GetPublicKey ::
    "'j JNIEnv \<Rightarrow> ('sc, 'pt, 'r) jni_env \<Rightarrow> ObjectHandle \<Rightarrow> ('j, 'r, ObjectHandle) native" where
  "Native_PreKeyRecord_1GetPublicKey J E handle =
     jni_fn_get_new_boxed_obj J (panic_payload E) as_PreKeyRecord O_PublicKey (PreKeyRecord_public_key) handle"

definition Native_PreKeyRecord_1GetPrivateKey ::
    "'j JNIEnv \<Rightarrow> ('sc, 'pt, 'r) jni_env \<Rightarrow> ObjectHandle \<Rightarrow> ('j, 'r, ObjectHandle) native" where
  "Native_PreKeyRecord_1GetPrivateKey J E handle =
     jni_fn_get_new_boxed_obj J (panic_payload E) as_PreKeyRecord O_PrivateKey (PreKeyRecord_private_key) handle"

definition Native_PreKeyRecord_1GetSerialized ::
    "'j JNIEnv \<Rightarrow> ('sc, 'pt, 'r) jni_env \<Rightarrow> ObjectHandle \<Rightarrow> ('j, 'r, jbyteArray) native" where
  "Native_PreKeyRecord_1GetSerialized J E handle =
     jni_fn_get_jbytearray J (panic_payload E) as_PreKeyRecord (PreKeyRecord_serialize (env_PreKeyRecord E)) handle"

definition Native_PreKeyRecord_1Destroy :: "ObjectHandle \<Rightarrow> ('j, 'r, unit) native" where
  "Native_PreKeyRecord_1Destroy handle = jni_fn_destroy as_PreKeyRecord handle"

section \<open>Sender key names and records\<close>

definition Native_SenderKeyName_1New ::
    "'j JNIEnv \<Rightarrow> ('sc, 'pt, 'r) jni_env \<Rightarrow> jstring \<Rightarrow> jstring \<Rightarrow> jint
       \<Rightarrow> ('j, 'r, ObjectHandle) native" where
  "Native_SenderKeyName_1New J E group_id sender_name sender_device_id =
     jni_run_ffi_safe J (panic_payload E) dummy_handle (on_fst (
       sbind (jni_try (je_get_string J group_id)) (\<lambda>group_id.
       sbind (jni_try (je_get_string J sender_name)) (\<lambda>sender_name.
       sbind (slift (jint_to_u32 sender_device_id)) (\<lambda>sender_id.
       jni_box_object O_SenderKeyName
         (Ok \<lparr>skn_group_id = group_id, skn_sender = \<lparr>pa_name = sender_name, pa_device_id = sender_id\<rparr>\<rparr>))))))"

definition Native_SenderKeyName_1Destroy :: "ObjectHandle \<Rightarrow> ('j, 'r, unit) native" where
  "Native_SenderKeyName_1Destroy handle = jni_fn_destroy as_SenderKeyName handle"

definition Native_SenderKeyName_1GetGroupId ::
    "'j JNIEnv \<Rightarrow> ('sc, 'pt, 'r) jni_env \<Rightarrow> ObjectHandle \<Rightarrow> ('j, 'r, jstring) native" where
  "Native_SenderKeyName_1GetGroupId J E handle =
     jni_fn_get_jstring J (panic_payload E) as_SenderKeyName (\<lambda>skn. Ok (skn_group_id skn)) handle"

definition Native_SenderKeyName_1GetSenderName ::
    "'j JNIEnv \<Rightarrow> ('sc, 'pt, 'r) jni_env \<Rightarrow> ObjectHandle \<Rightarrow> ('j, 'r, jstring) native" where
  "Native_SenderKeyName_1GetSenderName J E handle =
     jni_fn_get_jstring J (panic_payload E) as_SenderKeyName (\<lambda>skn. Ok (pa_name (skn_sender skn))) handle"

definition Native_SenderKeyName_1GetSenderDeviceId ::
    "'j JNIEnv \<Rightarrow> ('sc, 'pt, 'r) jni_env \<Rightarrow> ObjectHandle \<Rightarrow> ('j, 'r, jint) native" where
  "Native_SenderKeyName_1GetSenderDeviceId J E handle =
     jni_fn_get_jint J (panic_payload E) as_SenderKeyName (\<lambda>m. Ok (pa_device_id (skn_sender m))) handle"

definition Native_SenderKeyRecord_1New ::
    "'j JNIEnv \<Rightarrow> ('sc, 'pt, 'r) jni_env \<Rightarrow> ('j, 'r, ObjectHandle) native" where
  "Native_SenderKeyRecord_1New J E =
     jni_run_ffi_safe J (panic_payload E) dummy_handle (on_fst (
       jni_box_object O_SenderKeyRecord (Ok SenderKeyRecord_new_empty)))"

definition Native_SenderKeyRecord_1Destroy :: "ObjectHandle \<Rightarrow> ('j, 'r, unit) native" where
  "Native_SenderKeyRecord_1Destroy handle = jni_fn_destroy as_SenderKeyRecord handle"

definition Native_SenderKeyRecord_1Deserialize ::
    "'j JNIEnv \<Rightarrow> ('sc, 'pt, 'r) jni_env \<Rightarrow> jbyteArray \<Rightarrow> ('j, 'r, ObjectHandle) native" where
  "Native_SenderKeyRecord_1Deserialize J E data =
     jni_fn_deserialize J (panic_payload E) O_SenderKeyRecord (SenderKeyRecord_deserialize (env_SenderKeyRecord E)) data"

definition Native_SenderKeyRecord_1GetSerialized ::
    "'j JNIEnv \<Rightarrow> ('sc, 'pt, 'r) jni_env \<Rightarrow> ObjectHandle \<Rightarrow> ('j, 'r, jbyteArray) native" where
  "Native_SenderKeyRecord_1GetSerialized J E handle =
     jni_fn_get_jbytearray J (panic_payload E) as_SenderKeyRecord (SenderKeyRecord_serialize (env_SenderKeyRecord E)) handle"

section \<open>Starting a session, for the Java tests\<close>

definition Native_SessionState_1InitializeAliceSession ::
    "'j JNIEnv \<Rightarrow> ('sc, 'pt, 'r) jni_env \<Rightarrow> ObjectHandle \<Rightarrow> ObjectHandle
       \<Rightarrow> ObjectHandle \<Rightarrow> ObjectHandle \<Rightarrow> ObjectHandle \<Rightarrow> ObjectHandle
       \<Rightarrow> ObjectHandle \<Rightarrow> ('j, 'r, jbyteArray) native" where
  "Native_SessionState_1InitializeAliceSession J E identity_key_private identity_key_public base_private
       base_public their_identity_key their_signed_prekey their_ratchet_key =
     jni_run_ffi_safe J (panic_payload E) dummy_jobject (
       sbind (on_fst (jni_native_handle_cast as_PrivateKey identity_key_private)) (\<lambda>identity_key_private.
       sbind (on_fst (jni_native_handle_cast as_PublicKey identity_key_public)) (\<lambda>identity_key_public.
       sbind (on_fst (jni_native_handle_cast as_PrivateKey base_private)) (\<lambda>base_private.
       sbind (on_fst (jni_native_handle_cast as_PublicKey base_public)) (\<lambda>base_public.
       sbind (on_fst (jni_native_handle_cast as_PublicKey their_identity_key)) (\<lambda>their_identity_key.
       sbind (on_fst (jni_native_handle_cast as_PublicKey their_signed_prekey)) (\<lambda>their_signed_prekey.
       sbind (on_fst (jni_native_handle_cast as_PublicKey their_ratchet_key)) (\<lambda>their_ratchet_key.
       let parameters =
             \<lparr>ap_our_identity_key_pair =
                \<lparr>ikp_identity_key = IdentityKey identity_key_public, ikp_private_key = identity_key_private\<rparr>,
              ap_our_base_key_pair = \<lparr>kp_public_key = base_public, kp_private_key = base_private\<rparr>,
              ap_their_identity_key = IdentityKey their_identity_key, ap_their_signed_pre_key = their_signed_prekey,
              ap_their_one_time_pre_key = None, ap_their_ratchet_key = their_ratchet_key\<rparr> in
       sbind (on_snd (signal_try (initialize_alice_session (env_crypto E) parameters))) (\<lambda>session.
       on_fst (to_jbytearray J (SessionState_serialize (env_Session E) session)))))))))))"

definition Native_SessionState_1InitializeBobSession ::
    "'j JNIEnv \<Rightarrow> ('sc, 'pt, 'r) jni_env \<Rightarrow> ObjectHandle \<Rightarrow> ObjectHandle
       \<Rightarrow> ObjectHandle \<Rightarrow> ObjectHandle \<Rightarrow> ObjectHandle \<Rightarrow> ObjectHandle
       \<Rightarrow> ObjectHandle \<Rightarrow> ObjectHandle \<Rightarrow> ('j, 'r, jbyteArray) native" where
  "Native_SessionState_1InitializeBobSession J E identity_key_private identity_key_public signed_prekey_private
       signed_prekey_public eph_private eph_public their_identity_key their_base_key =
     jni_run_ffi_safe J (panic_payload E) dummy_jobject (on_fst (
       sbind (jni_native_handle_cast as_PrivateKey identity_key_private) (\<lambda>identity_key_private.
       sbind (jni_native_handle_cast as_PublicKey identity_key_public) (\<lambda>identity_key_public.
       sbind (jni_native_handle_cast as_PrivateKey signed_prekey_private) (\<lambda>signed_prekey_private.
       sbind (jni_native_handle_cast as_PublicKey signed_prekey_public) (\<lambda>signed_prekey_public.
       sbind (jni_native_handle_cast as_PrivateKey eph_private) (\<lambda>eph_private.
       sbind (jni_native_handle_cast as_PublicKey eph_public) (\<lambda>eph_public.
       sbind (jni_native_handle_cast as_PublicKey their_identity_key) (\<lambda>their_identity_key.
       sbind (jni_native_handle_cast as_PublicKey their_base_key) (\<lambda>their_base_key.
       let parameters =
             \<lparr>bp_our_identity_key_pair =
                \<lparr>ikp_identity_key = IdentityKey identity_key_public, ikp_private_key = identity_key_private\<rparr>,
              bp_our_signed_pre_key_pair = \<lparr>kp_public_key = signed_prekey_public, kp_private_key = signed_prekey_private\<rparr>,
              bp_our_one_time_pre_key_pair = None,
              bp_our_ratchet_key_pair = \<lparr>kp_public_key = eph_public, kp_private_key = eph_private\<rparr>,
              bp_their_identity_key = IdentityKey their_identity_key, bp_their_base_key = their_base_key\<rparr> in
       sbind (slift (jni_result (initialize_bob_session (env_crypto E) parameters))) (\<lambda>session.
       to_jbytearray J (SessionState_serialize (env_Session E) session))))))))))))"

end
