(* ===== verification/Jni_Stores.thy ===== *)
theory Jni_Stores
  imports Jni Session_Cipher Group_Cipher
begin

text \<open>
  Model of the rest of \<open>rust/bridge/jni/src/lib.rs\<close>: the stores that a Java application implements as objects, and
  the native functions for sessions and groups that work on them. A store of the library is the Java object; its operations
  build Java objects for their arguments, call the method of the application, look for an exception, and convert the
  answer back.
\<close>

section \<open>Arguments for Java\<close>

definition sender_key_name_to_jobject ::
    "'j JNIEnv \<Rightarrow> SenderKeyName \<Rightarrow> ('j memory, SignalJniError, jobject) st" where
  "sender_key_name_to_jobject J sender_key_name =
     sbind (jni_try (je_find_class J ''org/whispersystems/libsignal/groups/SenderKeyName'')) (\<lambda>sender_key_name_class.
     sbind (jni_try (je_new_string J (skn_group_id sender_key_name))) (\<lambda>group_id.
     sbind (jni_try (je_new_string J (pa_name (skn_sender sender_key_name)))) (\<lambda>sender_name.
     sbind (slift (jint_from_u32 (Ok (pa_device_id (skn_sender sender_key_name))))) (\<lambda>sender_device_id.
     jni_try (je_new_object J sender_key_name_class ''(Ljava/lang/String;Ljava/lang/String;I)V''
       [JV_Object group_id, JV_Object sender_name, JV_Int sender_device_id])))))"

definition protocol_address_to_jobject ::
    "'j JNIEnv \<Rightarrow> ProtocolAddress \<Rightarrow> ('j memory, SignalJniError, jobject) st" where
  "protocol_address_to_jobject J address =
     sbind (jni_try (je_find_class J ''org/whispersystems/libsignal/SignalProtocolAddress'')) (\<lambda>address_class.
     sbind (jni_try (je_new_string J (pa_name address))) (\<lambda>name.
     sbind (slift (jint_from_u32 (Ok (pa_device_id address)))) (\<lambda>device_id.
     jni_try (je_new_object J address_class ''(Ljava/lang/String;I)V'' [JV_Object name, JV_Int device_id]))))"

text \<open>
  Every operation of a store trait is \<open>Ok(self.do_...()?)\<close>, with the error converted. In what follows, \<open>store\<close> is the Java
  object of the store.
\<close>

definition from_jni :: "('s, SignalJniError, 'b) st \<Rightarrow> ('s, 'b) sst" where
  "from_jni f = (\<lambda>s. case f s of
     (Ok x, s') \<Rightarrow> (Ok x, s') | (Err e, s') \<Rightarrow> (Err (SignalProtocolError_from e), s') | (Panic, s') \<Rightarrow> (Panic, s'))"

section \<open>Identity keys\<close>

definition JniIdentityKeyStore_new :: "'j JNIEnv \<Rightarrow> jobject \<Rightarrow> ('j memory, SignalJniError, jobject) st" where
  "JniIdentityKeyStore_new J store =
     sbind (check_jobject_type J store ''org/whispersystems/libsignal/state/IdentityKeyStore'') (\<lambda>_. sret store)"

definition do_get_identity_key_pair ::
    "'j JNIEnv \<Rightarrow> ('sc, 'pt, 'r) jni_env \<Rightarrow> jobject \<Rightarrow> ('j memory, SignalJniError, IdentityKeyPair) st" where
  "do_get_identity_key_pair J E store =
     sbind (get_object_with_serialization J store [] ''()Lorg/whispersystems/libsignal/IdentityKeyPair;''
       ''getIdentityKeyPair'') (\<lambda>bits.
     case bits of
       None \<Rightarrow> sthrow (J_Signal (InternalError ''getIdentityKeyPair returned null''))
     | Some k \<Rightarrow> slift (jni_result (IdentityKeyPair_try_from (env_IdentityKeyPair E) k)))"

definition do_get_local_registration_id ::
    "'j JNIEnv \<Rightarrow> jobject \<Rightarrow> ('j memory, SignalJniError, u32) st" where
  "do_get_local_registration_id J store =
     sbind (jni_try (je_call_method J store ''getLocalRegistrationId'' ''()I'' [])) (\<lambda>rvalue.
     sbind (exception_check J ''getLocalRegistrationId'') (\<lambda>_.
     case rvalue of
       JV_Int i \<Rightarrow> slift (jint_to_u32 i)
     | _ \<Rightarrow> sthrow (J_UnexpectedJniResultType ''getLocalRegistrationId'' (je_type_name J rvalue))))"

definition do_save_identity ::
    "'j JNIEnv \<Rightarrow> jobject \<Rightarrow> ProtocolAddress \<Rightarrow> IdentityKey \<Rightarrow> ('j memory, SignalJniError, bool) st" where
  "do_save_identity J store address identity =
     sbind (protocol_address_to_jobject J address) (\<lambda>address_jobject.
     sbind (jobject_from_serialized J ''org/whispersystems/libsignal/IdentityKey'' (IdentityKey_serialize identity)) (\<lambda>key_jobject.
     sbind (jni_try (je_call_method J store ''saveIdentity''
       ''(Lorg/whispersystems/libsignal/SignalProtocolAddress;Lorg/whispersystems/libsignal/IdentityKey;)Z''
       [JV_Object address_jobject, JV_Object key_jobject])) (\<lambda>result.
     sbind (exception_check J ''saveIdentity'') (\<lambda>_.
     case result of
       JV_Bool b \<Rightarrow> sret (b \<noteq> 0)
     | _ \<Rightarrow> sthrow (J_UnexpectedJniResultType ''saveIdentity'' (je_type_name J result))))))"

definition do_is_trusted_identity ::
    "'j JNIEnv \<Rightarrow> jobject \<Rightarrow> ProtocolAddress \<Rightarrow> IdentityKey \<Rightarrow> Direction \<Rightarrow> ('j memory, SignalJniError, bool) st" where
  "do_is_trusted_identity J store address identity direction =
     sbind (protocol_address_to_jobject J address) (\<lambda>address_jobject.
     sbind (jobject_from_serialized J ''org/whispersystems/libsignal/IdentityKey'' (IdentityKey_serialize identity)) (\<lambda>key_jobject.
     sbind (jni_try (je_find_class J ''org/whispersystems/libsignal/state/IdentityKeyStore$Direction'')) (\<lambda>direction_class.
     let field_name = (case direction of Sending \<Rightarrow> ''SENDING'' | Receiving \<Rightarrow> ''RECEIVING'') in
     sbind (jni_try (je_get_static_field J direction_class field_name
       ''Lorg/whispersystems/libsignal/state/IdentityKeyStore$Direction;'')) (\<lambda>field_value.
     sbind (jni_try (je_call_method J store ''isTrustedIdentity''
       ''(Lorg/whispersystems/libsignal/SignalProtocolAddress;Lorg/whispersystems/libsignal/IdentityKey;Lorg/whispersystems/libsignal/state/IdentityKeyStore$Direction;)Z''
       [JV_Object address_jobject, JV_Object key_jobject, field_value])) (\<lambda>result.
     sbind (exception_check J ''isTrustedIdentity'') (\<lambda>_.
     case result of
       JV_Bool b \<Rightarrow> sret (b \<noteq> 0)
     | _ \<Rightarrow> sthrow (J_UnexpectedJniResultType ''isTrustedIdentity'' (je_type_name J result))))))))"

definition do_get_identity ::
    "'j JNIEnv \<Rightarrow> jobject \<Rightarrow> ProtocolAddress \<Rightarrow> ('j memory, SignalJniError, IdentityKey option) st" where
  "do_get_identity J store address =
     sbind (protocol_address_to_jobject J address) (\<lambda>address_jobject.
     sbind (get_object_with_serialization J store [JV_Object address_jobject]
       ''(Lorg/whispersystems/libsignal/SignalProtocolAddress;)Lorg/whispersystems/libsignal/IdentityKey;'' ''getIdentity'') (\<lambda>bits.
     case bits of
       None \<Rightarrow> sret None
     | Some k \<Rightarrow> sbind (slift (jni_result (IdentityKey_decode k))) (\<lambda>k. sret (Some k))))"

definition Jni_IdentityKeyStore ::
    "'j JNIEnv \<Rightarrow> ('sc, 'pt, 'r) jni_env \<Rightarrow> jobject \<Rightarrow> 'j memory IdentityKeyStore" where
  "Jni_IdentityKeyStore J E store =
     \<lparr>get_identity_key_pair = from_jni (do_get_identity_key_pair J E store),
      get_local_registration_id = from_jni (do_get_local_registration_id J store),
      save_identity = (\<lambda>address identity. from_jni (do_save_identity J store address identity)),
      is_trusted_identity = (\<lambda>address identity direction. from_jni (do_is_trusted_identity J store address identity direction)),
      get_identity = (\<lambda>address. from_jni (do_get_identity J store address))\<rparr>"

section \<open>Pre-keys\<close>

definition JniPreKeyStore_new :: "'j JNIEnv \<Rightarrow> jobject \<Rightarrow> ('j memory, SignalJniError, jobject) st" where
  "JniPreKeyStore_new J store =
     sbind (check_jobject_type J store ''org/whispersystems/libsignal/state/PreKeyStore'') (\<lambda>_. sret store)"

definition do_get_pre_key :: "'j JNIEnv \<Rightarrow> jobject \<Rightarrow> u32 \<Rightarrow> ('j memory, SignalJniError, PreKeyRecord) st" where
  "do_get_pre_key J store prekey_id =
     sbind (slift (jint_from_u32 (Ok prekey_id))) (\<lambda>arg.
     sbind (get_object_with_native_handle J as_PreKeyRecord store [JV_Int arg]
       ''(I)Lorg/whispersystems/libsignal/state/PreKeyRecord;'' ''loadPreKey'') (\<lambda>pk.
     slift (ok_or pk (J_Signal InvalidPreKeyId))))"

definition do_save_pre_key ::
    "'j JNIEnv \<Rightarrow> ('sc, 'pt, 'r) jni_env \<Rightarrow> jobject \<Rightarrow> u32 \<Rightarrow> PreKeyRecord \<Rightarrow> ('j memory, SignalJniError, unit) st" where
  "do_save_pre_key J E store prekey_id record =
     sbind (slift (jni_result (PreKeyRecord_serialize (env_PreKeyRecord E) record))) (\<lambda>serialized.
     sbind (jobject_from_serialized J ''org/whispersystems/libsignal/state/PreKeyRecord'' serialized) (\<lambda>jobject_record.
     sbind (slift (jint_from_u32 (Ok prekey_id))) (\<lambda>arg.
     sbind (jni_try (je_call_method J store ''storePreKey'' ''(I,Lorg/whispersystems/libsignal/state/PreKeyRecord;)V''
       [JV_Int arg, JV_Object jobject_record])) (\<lambda>_.
     exception_check J ''storePreKey''))))"

definition do_remove_pre_key :: "'j JNIEnv \<Rightarrow> jobject \<Rightarrow> u32 \<Rightarrow> ('j memory, SignalJniError, unit) st" where
  "do_remove_pre_key J store prekey_id =
     sbind (slift (jint_from_u32 (Ok prekey_id))) (\<lambda>arg.
     sbind (jni_try (je_call_method J store ''removePreKey'' ''(I)V'' [JV_Int arg])) (\<lambda>_.
     exception_check J ''removePreKey''))"

definition Jni_PreKeyStore :: "'j JNIEnv \<Rightarrow> ('sc, 'pt, 'r) jni_env \<Rightarrow> jobject \<Rightarrow> 'j memory PreKeyStore" where
  "Jni_PreKeyStore J E store =
     \<lparr>get_pre_key = (\<lambda>prekey_id. from_jni (do_get_pre_key J store prekey_id)),
      save_pre_key = (\<lambda>prekey_id record. from_jni (do_save_pre_key J E store prekey_id record)),
      remove_pre_key = (\<lambda>prekey_id. from_jni (do_remove_pre_key J store prekey_id))\<rparr>"

section \<open>Signed pre-keys\<close>

definition JniSignedPreKeyStore_new :: "'j JNIEnv \<Rightarrow> jobject \<Rightarrow> ('j memory, SignalJniError, jobject) st" where
  "JniSignedPreKeyStore_new J store =
     sbind (check_jobject_type J store ''org/whispersystems/libsignal/state/SignedPreKeyStore'') (\<lambda>_. sret store)"

definition do_get_signed_pre_key ::
    "'j JNIEnv \<Rightarrow> jobject \<Rightarrow> u32 \<Rightarrow> ('j memory, SignalJniError, SignedPreKeyRecord) st" where
  "do_get_signed_pre_key J store prekey_id =
     sbind (slift (jint_from_u32 (Ok prekey_id))) (\<lambda>arg.
     sbind (get_object_with_native_handle J as_SignedPreKeyRecord store [JV_Int arg]
       ''(I)Lorg/whispersystems/libsignal/state/SignedPreKeyRecord;'' ''loadSignedPreKey'') (\<lambda>spk.
     slift (ok_or spk (J_Signal InvalidSignedPreKeyId))))"

definition do_save_signed_pre_key ::
    "'j JNIEnv \<Rightarrow> ('sc, 'pt, 'r) jni_env \<Rightarrow> jobject \<Rightarrow> u32 \<Rightarrow> SignedPreKeyRecord \<Rightarrow> ('j memory, SignalJniError, unit) st" where
  "do_save_signed_pre_key J E store prekey_id record =
     sbind (slift (jni_result (SignedPreKeyRecord_serialize (env_SignedPreKeyRecord E) record))) (\<lambda>serialized.
     sbind (jobject_from_serialized J ''org/whispersystems/libsignal/state/SignedPreKeyRecord'' serialized) (\<lambda>jobject_record.
     sbind (slift (jint_from_u32 (Ok prekey_id))) (\<lambda>arg.
     sbind (jni_try (je_call_method J store ''storeSignedPreKey''
       ''(I,Lorg/whispersystems/libsignal/state/SignedPreKeyRecord;)V'' [JV_Int arg, JV_Object jobject_record])) (\<lambda>_.
     exception_check J ''storeSignedPreKey''))))"

definition Jni_SignedPreKeyStore :: "'j JNIEnv \<Rightarrow> ('sc, 'pt, 'r) jni_env \<Rightarrow> jobject \<Rightarrow> 'j memory SignedPreKeyStore" where
  "Jni_SignedPreKeyStore J E store =
     \<lparr>get_signed_pre_key = (\<lambda>prekey_id. from_jni (do_get_signed_pre_key J store prekey_id)),
      save_signed_pre_key = (\<lambda>prekey_id record. from_jni (do_save_signed_pre_key J E store prekey_id record))\<rparr>"

section \<open>Sessions\<close>

definition JniSessionStore_new :: "'j JNIEnv \<Rightarrow> jobject \<Rightarrow> ('j memory, SignalJniError, jobject) st" where
  "JniSessionStore_new J store =
     sbind (check_jobject_type J store ''org/whispersystems/libsignal/state/SessionStore'') (\<lambda>_. sret store)"

definition do_load_session ::
    "'j JNIEnv \<Rightarrow> ('sc, 'pt, 'r) jni_env \<Rightarrow> jobject \<Rightarrow> ProtocolAddress \<Rightarrow> ('j memory, SignalJniError, SessionRecord option) st" where
  "do_load_session J E store address =
     sbind (protocol_address_to_jobject J address) (\<lambda>address_jobject.
     sbind (get_object_with_serialization J store [JV_Object address_jobject]
       ''(Lorg/whispersystems/libsignal/SignalProtocolAddress;)Lorg/whispersystems/libsignal/state/SessionRecord;'' ''loadSession'') (\<lambda>session.
     case session of
       None \<Rightarrow> sret None
     | Some s \<Rightarrow> sbind (slift (jni_result (SessionRecord_deserialize (env_Record E) s))) (\<lambda>r. sret (Some r))))"

definition do_store_session ::
    "'j JNIEnv \<Rightarrow> ('sc, 'pt, 'r) jni_env \<Rightarrow> jobject \<Rightarrow> ProtocolAddress \<Rightarrow> SessionRecord \<Rightarrow> ('j memory, SignalJniError, unit) st" where
  "do_store_session J E store address record =
     sbind (protocol_address_to_jobject J address) (\<lambda>address_jobject.
     sbind (slift (jni_result (SessionRecord_serialize (env_Record E) record))) (\<lambda>serialized.
     sbind (jobject_from_serialized J ''org/whispersystems/libsignal/state/SessionRecord'' serialized) (\<lambda>session_jobject.
     sbind (jni_try (je_call_method J store ''storeSession''
       ''(Lorg/whispersystems/libsignal/SignalProtocolAddress;Lorg/whispersystems/libsignal/state/SessionRecord;)V''
       [JV_Object address_jobject, JV_Object session_jobject])) (\<lambda>_.
     exception_check J ''storeSession''))))"

definition Jni_SessionStore :: "'j JNIEnv \<Rightarrow> ('sc, 'pt, 'r) jni_env \<Rightarrow> jobject \<Rightarrow> 'j memory SessionStore" where
  "Jni_SessionStore J E store =
     \<lparr>load_session = (\<lambda>address. from_jni (do_load_session J E store address)),
      store_session = (\<lambda>address record. from_jni (do_store_session J E store address record))\<rparr>"

section \<open>Session functions\<close>

definition Native_SessionBuilder_1ProcessPreKeyBundle ::
    "'j JNIEnv \<Rightarrow> ('sc, 'pt, 'r) jni_env \<Rightarrow> ObjectHandle \<Rightarrow> ObjectHandle \<Rightarrow> jobject \<Rightarrow> jobject \<Rightarrow> ('j, 'r, unit) native" where
  "Native_SessionBuilder_1ProcessPreKeyBundle J E bundle protocol_address session_st identity_key_st =
     jni_run_ffi_safe J (panic_payload E) dummy_unit (
       sbind (on_fst (jni_native_handle_cast as_PreKeyBundle bundle)) (\<lambda>bundle.
       sbind (on_fst (jni_native_handle_cast as_ProtocolAddress protocol_address)) (\<lambda>protocol_address.
       sbind (on_fst (JniIdentityKeyStore_new J identity_key_st)) (\<lambda>identity_key_st.
       sbind (on_fst (JniSessionStore_new J session_st)) (\<lambda>session_st.
       signal_try (process_prekey_bundle (env_crypto E) protocol_address (Jni_SessionStore J E session_st)
         (Jni_IdentityKeyStore J E identity_key_st) bundle))))))"

definition Native_SessionCipher_1EncryptMessage ::
    "'j JNIEnv \<Rightarrow> ('sc, 'pt, 'r) jni_env \<Rightarrow> jbyteArray \<Rightarrow> ObjectHandle \<Rightarrow> jobject \<Rightarrow> jobject \<Rightarrow> ('j, 'r, jobject) native" where
  "Native_SessionCipher_1EncryptMessage J E message protocol_address session_st identity_key_st =
     jni_run_ffi_safe J (panic_payload E) dummy_jobject (on_fst (
       sbind (jni_try (je_convert_byte_array J message)) (\<lambda>message.
       sbind (jni_native_handle_cast as_ProtocolAddress protocol_address) (\<lambda>protocol_address.
       sbind (JniIdentityKeyStore_new J identity_key_st) (\<lambda>identity_key_st.
       sbind (JniSessionStore_new J session_st) (\<lambda>session_st.
       sbind (signal_try (message_encrypt (env_crypto E) (env_SignalMessage E) (env_PreKeySignalMessage E) message
         protocol_address (Jni_SessionStore J E session_st) (Jni_IdentityKeyStore J E identity_key_st))) (\<lambda>ctext.
       case ctext of
         CM_SignalMessage m \<Rightarrow>
           sbind (jni_box_object O_SignalMessage (Ok m)) (\<lambda>h.
           jobject_from_native_handle J ''org/whispersystems/libsignal/protocol/SignalMessage'' h)
       | CM_PreKeySignalMessage m \<Rightarrow>
           sbind (jni_box_object O_PreKeySignalMessage (Ok m)) (\<lambda>h.
           jobject_from_native_handle J ''org/whispersystems/libsignal/protocol/PreKeySignalMessage'' h)
       | _ \<Rightarrow> sthrow (J_Signal (InternalError ''Unexpected result type from message_encrypt'')))))))))"

definition Native_SessionCipher_1DecryptSignalMessage ::
    "'j JNIEnv \<Rightarrow> ('sc, 'pt, 'r) jni_env \<Rightarrow> ObjectHandle \<Rightarrow> ObjectHandle \<Rightarrow> jobject \<Rightarrow> jobject \<Rightarrow> ('j, 'r, jbyteArray) native" where
  "Native_SessionCipher_1DecryptSignalMessage J E message protocol_address session_st identity_key_st =
     jni_run_ffi_safe J (panic_payload E) dummy_jobject (
       sbind (on_fst (jni_native_handle_cast as_SignalMessage message)) (\<lambda>message.
       sbind (on_fst (jni_native_handle_cast as_ProtocolAddress protocol_address)) (\<lambda>protocol_address.
       sbind (on_fst (JniIdentityKeyStore_new J identity_key_st)) (\<lambda>identity_key_st.
       sbind (on_fst (JniSessionStore_new J session_st)) (\<lambda>session_st.
       sbind (signal_try (message_decrypt_signal (env_crypto E) message protocol_address
         (Jni_SessionStore J E session_st) (Jni_IdentityKeyStore J E identity_key_st))) (\<lambda>ptext.
       on_fst (to_jbytearray J (Ok ptext))))))))"

definition Native_SessionCipher_1DecryptPreKeySignalMessage ::
    "'j JNIEnv \<Rightarrow> ('sc, 'pt, 'r) jni_env \<Rightarrow> ObjectHandle \<Rightarrow> ObjectHandle \<Rightarrow> jobject \<Rightarrow> jobject \<Rightarrow> jobject \<Rightarrow> jobject
       \<Rightarrow> ('j, 'r, jbyteArray) native" where
  "Native_SessionCipher_1DecryptPreKeySignalMessage J E message protocol_address session_st identity_key_st
       prekey_st signed_prekey_st =
     jni_run_ffi_safe J (panic_payload E) dummy_jobject (
       sbind (on_fst (jni_native_handle_cast as_PreKeySignalMessage message)) (\<lambda>message.
       sbind (on_fst (jni_native_handle_cast as_ProtocolAddress protocol_address)) (\<lambda>protocol_address.
       sbind (on_fst (JniIdentityKeyStore_new J identity_key_st)) (\<lambda>identity_key_st.
       sbind (on_fst (JniSessionStore_new J session_st)) (\<lambda>session_st.
       sbind (on_fst (JniPreKeyStore_new J prekey_st)) (\<lambda>prekey_st.
       sbind (on_fst (JniSignedPreKeyStore_new J signed_prekey_st)) (\<lambda>signed_prekey_st.
       sbind (signal_try (message_decrypt_prekey (env_crypto E) message protocol_address
         (Jni_SessionStore J E session_st) (Jni_IdentityKeyStore J E identity_key_st)
         (Jni_PreKeyStore J E prekey_st) (Jni_SignedPreKeyStore J E signed_prekey_st))) (\<lambda>ptext.
       on_fst (to_jbytearray J (Ok ptext))))))))))"

section \<open>Sender keys\<close>

definition JniSenderKeyStore_new :: "'j JNIEnv \<Rightarrow> jobject \<Rightarrow> ('j memory, SignalJniError, jobject) st" where
  "JniSenderKeyStore_new J store =
     sbind (check_jobject_type J store ''org/whispersystems/libsignal/groups/state/SenderKeyStore'') (\<lambda>_. sret store)"

definition do_store_sender_key ::
    "'j JNIEnv \<Rightarrow> jobject \<Rightarrow> SenderKeyName \<Rightarrow> SenderKeyRecord \<Rightarrow> ('j memory, SignalJniError, unit) st" where
  "do_store_sender_key J store sender_key_name record =
     sbind (sender_key_name_to_jobject J sender_key_name) (\<lambda>sender_key_name_jobject.
     sbind (jni_box_object O_SenderKeyRecord (Ok record)) (\<lambda>h.
     sbind (jobject_from_native_handle J ''org/whispersystems/libsignal/groups/state/SenderKeyRecord'' h) (\<lambda>sender_key_record_jobject.
     sbind (jni_try (je_call_method J store ''storeSenderKey''
       ''(Lorg/whispersystems/libsignal/groups/SenderKeyName;Lorg/whispersystems/libsignal/groups/state/SenderKeyRecord;)V''
       [JV_Object sender_key_name_jobject, JV_Object sender_key_record_jobject])) (\<lambda>_.
     exception_check J ''storeSenderKey''))))"

definition do_load_sender_key ::
    "'j JNIEnv \<Rightarrow> jobject \<Rightarrow> SenderKeyName \<Rightarrow> ('j memory, SignalJniError, SenderKeyRecord option) st" where
  "do_load_sender_key J store sender_key_name =
     sbind (sender_key_name_to_jobject J sender_key_name) (\<lambda>sender_key_name_jobject.
     get_object_with_native_handle J as_SenderKeyRecord store [JV_Object sender_key_name_jobject]
       ''(Lorg/whispersystems/libsignal/groups/SenderKeyName;)Lorg/whispersystems/libsignal/groups/state/SenderKeyRecord;''
       ''loadSenderKey'')"

definition Jni_SenderKeyStore :: "'j JNIEnv \<Rightarrow> jobject \<Rightarrow> 'j memory SenderKeyStore" where
  "Jni_SenderKeyStore J store =
     \<lparr>store_sender_key = (\<lambda>sender_key_name record. from_jni (do_store_sender_key J store sender_key_name record)),
      load_sender_key = (\<lambda>sender_key_name. from_jni (do_load_sender_key J store sender_key_name))\<rparr>"

section \<open>Group functions\<close>

definition Native_GroupSessionBuilder_1CreateSenderKeyDistributionMessage ::
    "'j JNIEnv \<Rightarrow> ('sc, 'pt, 'r) jni_env \<Rightarrow> ObjectHandle \<Rightarrow> jobject \<Rightarrow> ('j, 'r, ObjectHandle) native" where
  "Native_GroupSessionBuilder_1CreateSenderKeyDistributionMessage J E sender_key_name store =
     jni_run_ffi_safe J (panic_payload E) dummy_handle (
       sbind (on_fst (jni_native_handle_cast as_SenderKeyName sender_key_name)) (\<lambda>sender_key_name.
       sbind (on_fst (JniSenderKeyStore_new J store)) (\<lambda>sender_key_st.
       sbind (signal_try (create_sender_key_distribution_message (env_crypto E) (env_SenderKeyDistributionMessage E)
         sender_key_name (Jni_SenderKeyStore J sender_key_st))) (\<lambda>skdm.
       on_fst (jni_box_object O_SenderKeyDistributionMessage (Ok skdm))))))"

definition Native_GroupSessionBuilder_1ProcessSenderKeyDistributionMessage ::
    "'j JNIEnv \<Rightarrow> ('sc, 'pt, 'r) jni_env \<Rightarrow> ObjectHandle \<Rightarrow> ObjectHandle \<Rightarrow> jobject \<Rightarrow> ('j, 'r, unit) native" where
  "Native_GroupSessionBuilder_1ProcessSenderKeyDistributionMessage J E sender_key_name sender_key_distribution_message store =
     jni_run_ffi_safe J (panic_payload E) dummy_unit (on_fst (
       sbind (jni_native_handle_cast as_SenderKeyName sender_key_name) (\<lambda>sender_key_name.
       sbind (jni_native_handle_cast as_SenderKeyDistributionMessage sender_key_distribution_message) (\<lambda>skdm.
       sbind (JniSenderKeyStore_new J store) (\<lambda>sender_key_st.
       signal_try (process_sender_key_distribution_message sender_key_name skdm (Jni_SenderKeyStore J sender_key_st)))))))"

definition Native_GroupCipher_1EncryptMessage ::
    "'j JNIEnv \<Rightarrow> ('sc, 'pt, 'r) jni_env \<Rightarrow> ObjectHandle \<Rightarrow> jbyteArray \<Rightarrow> jobject \<Rightarrow> ('j, 'r, jbyteArray) native" where
  "Native_GroupCipher_1EncryptMessage J E sender_key_name message store =
     jni_run_ffi_safe J (panic_payload E) dummy_jobject (
       sbind (on_fst (jni_native_handle_cast as_SenderKeyName sender_key_name)) (\<lambda>sender_key_name.
       sbind (on_fst (jni_try (je_convert_byte_array J message))) (\<lambda>message.
       sbind (on_fst (JniSenderKeyStore_new J store)) (\<lambda>sender_key_st.
       sbind (signal_try (group_encrypt (env_crypto E) (env_SenderKeyMessage E) (Jni_SenderKeyStore J sender_key_st)
         sender_key_name message)) (\<lambda>ctext.
       on_fst (to_jbytearray J (Ok ctext)))))))"

definition Native_GroupCipher_1DecryptMessage ::
    "'j JNIEnv \<Rightarrow> ('sc, 'pt, 'r) jni_env \<Rightarrow> ObjectHandle \<Rightarrow> jbyteArray \<Rightarrow> jobject \<Rightarrow> ('j, 'r, jbyteArray) native" where
  "Native_GroupCipher_1DecryptMessage J E sender_key_name message store =
     jni_run_ffi_safe J (panic_payload E) dummy_jobject (on_fst (
       sbind (jni_native_handle_cast as_SenderKeyName sender_key_name) (\<lambda>sender_key_name.
       sbind (jni_try (je_convert_byte_array J message)) (\<lambda>message.
       sbind (JniSenderKeyStore_new J store) (\<lambda>sender_key_st.
       sbind (signal_try (group_decrypt (env_crypto E) (env_SenderKeyMessage E) message
         (Jni_SenderKeyStore J sender_key_st) sender_key_name)) (\<lambda>ptext.
       to_jbytearray J (Ok ptext)))))))"

end
