(* ===== verification/Java_Machine.thy ===== *)
theory Java_Machine
  imports Jni_Stores Reference_Codec
begin

text \<open>
  The Java side of the interface, as it is seen from the library: what the objects that cross the interface hold
  (\<open>jdata\<close>), what an application does when the methods of its stores are called (\<open>JavaApp\<close>), and an executable
  virtual machine for any application (\<open>machine_env\<close>), on which the contracts of the interface are interpreted and
  its theorems witnessed. None of this is code of the repository.
\<close>

section \<open>Objects\<close>

text \<open>
  What an object was made from: a string, a byte array, a class, a constant of an enumeration, an object of a class
  with its constructor arguments; a thrown exception with the canonical name of its class, if it has one, and its
  message, if it has one, and that class; an object with a method \<open>serialize\<close> or \<open>nativeHandle\<close>; the stores of the application.
\<close>

datatype jdata =
    D_String string
  | D_Bytes bytes
  | D_Int jint
  | D_Handle ObjectHandle
  | D_Class string
  | D_Constant string string
  | D_New string "jdata list"
  | D_Throwable "string option" "string option"
  | D_ThrowableClass "string option"
  | D_Serializable bytes
  | D_Native ObjectHandle
  | D_Store

section \<open>Exceptions\<close>

text \<open>
  An exception, by the canonical name of its class and its message (an anonymous class has no name), or one that \<open>throw_new\<close>
  made from a class and a string. The string becomes the message of the exception, but for \<open>UntrustedIdentityException\<close> of
  \<open>src/java\<close>, whose constructor keeps it as the name of the peer.
\<close>

datatype throwable = Thrown "string option" "string option" | Constructed string string

definition canonical :: "string \<Rightarrow> string" where
  "canonical class = map (\<lambda>c. if c = CHR ''/'' then CHR ''.'' else c) class"

definition message_of :: "string \<Rightarrow> string \<Rightarrow> string option" where
  "message_of class t = (if class = ''org/whispersystems/libsignal/UntrustedIdentityException'' then None else Some t)"

fun described :: "throwable \<Rightarrow> string option \<times> string option" where
  "described (Thrown c t) = (c, t)"
| "described (Constructed c t) = (Some (canonical c), message_of c t)"

text \<open>What the library throws for an error.\<close>

definition library_exception :: "SignalJniError \<Rightarrow> throwable" where
  "library_exception e = Constructed (exception_type e) (error_string e)"

section \<open>Method descriptors\<close>

text \<open>The syntax of method descriptors in the specification of the Java virtual machine, as an automaton.\<close>

datatype dstate = DStart | DParams | DArray | DClass | DReturn | DReturnArray | DReturnClass | DEnd

definition primitive_type :: "char \<Rightarrow> bool" where
  "primitive_type c \<longleftrightarrow> c \<in> set ''BCDFIJSZ''"

fun descriptor :: "dstate \<Rightarrow> string \<Rightarrow> bool" where
  "descriptor DEnd [] = True"
| "descriptor s [] = False"
| "descriptor DStart (c # cs) = (c = CHR ''('' \<and> descriptor DParams cs)"
| "descriptor DParams (c # cs) =
     (if c = CHR '')'' then descriptor DReturn cs
      else if primitive_type c then descriptor DParams cs
      else if c = CHR ''['' then descriptor DArray cs
      else c = CHR ''L'' \<and> descriptor DClass cs)"
| "descriptor DArray (c # cs) =
     (if primitive_type c then descriptor DParams cs
      else if c = CHR ''['' then descriptor DArray cs
      else c = CHR ''L'' \<and> descriptor DClass cs)"
| "descriptor DClass (c # cs) = (if c = CHR '';'' then descriptor DParams cs else descriptor DClass cs)"
| "descriptor DReturn (c # cs) =
     (if c = CHR ''V'' \<or> primitive_type c then descriptor DEnd cs
      else if c = CHR ''['' then descriptor DReturnArray cs
      else c = CHR ''L'' \<and> descriptor DReturnClass cs)"
| "descriptor DReturnArray (c # cs) =
     (if primitive_type c then descriptor DEnd cs
      else if c = CHR ''['' then descriptor DReturnArray cs
      else c = CHR ''L'' \<and> descriptor DReturnClass cs)"
| "descriptor DReturnClass (c # cs) = (if c = CHR '';'' then descriptor DEnd cs else descriptor DReturnClass cs)"
| "descriptor DEnd (c # cs) = False"

definition method_descriptor :: "string \<Rightarrow> bool" where
  "method_descriptor s = descriptor DStart s"

section \<open>Applications\<close>

text \<open>
  What the methods of the stores do, on the state of the application. An address is its name with its device
  number; keys and sessions cross the interface as bytes, the other records behind handles. \<open>ja_parseSession\<close> is the parser in
  the constructor of \<open>SessionRecord\<close>: the message of the exception that it throws, if it does.
\<close>

type_synonym jaddress = "string \<times> jint"

record 'a JavaApp =
  ja_getIdentityKeyPair :: "('a, bytes option) sst"
  ja_getLocalRegistrationId :: "('a, jint) sst"
  ja_saveIdentity :: "jaddress \<Rightarrow> bytes \<Rightarrow> ('a, bool) sst"
  ja_isTrustedIdentity :: "jaddress \<Rightarrow> bytes \<Rightarrow> Direction \<Rightarrow> ('a, bool) sst"
  ja_getIdentity :: "jaddress \<Rightarrow> ('a, bytes option) sst"
  ja_loadSession :: "jaddress \<Rightarrow> ('a, bytes option) sst"
  ja_storeSession :: "jaddress \<Rightarrow> bytes \<Rightarrow> ('a, unit) sst"
  ja_loadPreKey :: "jint \<Rightarrow> ('a, PreKeyRecord option) sst"
  ja_removePreKey :: "jint \<Rightarrow> ('a, unit) sst"
  ja_loadSignedPreKey :: "jint \<Rightarrow> ('a, SignedPreKeyRecord option) sst"
  ja_loadSenderKey :: "string \<Rightarrow> jaddress \<Rightarrow> ('a, SenderKeyRecord option) sst"
  ja_storeSenderKey :: "string \<Rightarrow> jaddress \<Rightarrow> SenderKeyRecord \<Rightarrow> ('a, unit) sst"
  ja_parseSession :: "bytes \<Rightarrow> string option"

section \<open>The machine\<close>

record 'a machine =
  objects :: "jdata list"
  exception :: "throwable option"
  app_state :: 'a

text \<open>Reference 0 is the object with the methods of the stores; the others are those that have been made.\<close>

definition object_at :: "'a machine \<Rightarrow> nat \<Rightarrow> jdata option" where
  "object_at k i =
     (case i of 0 \<Rightarrow> Some D_Store | Suc j \<Rightarrow> if j < length (objects k) then Some (objects k ! j) else None)"

fun content :: "'a machine memory \<Rightarrow> jobject \<Rightarrow> jdata option" where
  "content m J_null = None"
| "content m (J_ref i) = object_at (app m) i"

definition put_app :: "'a machine \<Rightarrow> 'a machine memory \<Rightarrow> 'a machine memory" where
  "put_app k m = m\<lparr>app := k\<rparr>"

definition new_ref :: "jdata \<Rightarrow> 'a machine memory \<Rightarrow> jobject \<times> 'a machine memory" where
  "new_ref d m = (J_ref (Suc (length (objects (app m)))), put_app ((app m)\<lparr>objects := objects (app m) @ [d]\<rparr>) m)"

definition give :: "jdata \<Rightarrow> ('a machine, jobject) jni" where
  "give d m = (case new_ref d m of (o', m') \<Rightarrow> (Inr o', m'))"

definition give_value :: "jdata \<Rightarrow> ('a machine, JValue) jni" where
  "give_value d m = (case new_ref d m of (o', m') \<Rightarrow> (Inr (JV_Object o'), m'))"

definition give_text :: "string option \<Rightarrow> ('a machine, JValue) jni" where
  "give_text t m = (case t of None \<Rightarrow> (Inr (JV_Object J_null), m) | Some s \<Rightarrow> give_value (D_String s) m)"

fun jvalue :: "'a machine memory \<Rightarrow> JValue \<Rightarrow> jdata option" where
  "jvalue m (JV_Object o') = content m o'"
| "jvalue m (JV_Int i) = Some (D_Int i)"
| "jvalue m (JV_Long h) = Some (D_Handle h)"
| "jvalue m _ = None"

text \<open>
  A method of the application: its answer is made into a value, an exception is left pending, and an error of the
  machine itself is returned as such.
\<close>

definition perform :: "('a, 'x) sst \<Rightarrow> ('x \<Rightarrow> ('a machine, JValue) jni) \<Rightarrow> ('a machine, JValue) jni" where
  "perform op answer m =
     (case op (app_state (app m)) of (x, a') \<Rightarrow>
        let k = (app m)\<lparr>app_state := a'\<rparr> in
        case x of
          Ok v \<Rightarrow> answer v (put_app k m)
        | Err (FfiBindingError t) \<Rightarrow> (Inl t, put_app k m)
        | Err (ApplicationCallbackThrewException _ c t) \<Rightarrow> (Inr JV_Void, put_app (k\<lparr>exception := Some (Thrown c (Some t))\<rparr>) m)
        | _ \<Rightarrow> (Inl ''internal error'', put_app k m))"

definition answer_bool :: "bool \<Rightarrow> ('a machine, JValue) jni" where
  "answer_bool b m = (Inr (JV_Bool (of_bool b)), m)"

definition answer_int :: "jint \<Rightarrow> ('a machine, JValue) jni" where
  "answer_int i m = (Inr (JV_Int i), m)"

definition answer_unit :: "unit \<Rightarrow> ('a machine, JValue) jni" where
  "answer_unit u m = (Inr JV_Void, m)"

definition answer_bytes :: "bytes option \<Rightarrow> ('a machine, JValue) jni" where
  "answer_bytes b m = (case b of None \<Rightarrow> (Inr (JV_Object J_null), m) | Some bs \<Rightarrow> give_value (D_Serializable bs) m)"

definition answer_native :: "('t \<Rightarrow> object) \<Rightarrow> 't option \<Rightarrow> ('a machine, JValue) jni" where
  "answer_native obj t m =
     (case t of
        None \<Rightarrow> (Inr (JV_Object J_null), m)
      | Some t \<Rightarrow> (case alloc (Boxed (obj t)) m of (h, m') \<Rightarrow> give_value (D_Native h) m'))"

fun address_of_data :: "jdata \<Rightarrow> jaddress option" where
  "address_of_data (D_New c [D_String n, D_Int i]) = (if c = ''org/whispersystems/libsignal/SignalProtocolAddress'' then Some (n, i) else None)"
| "address_of_data _ = None"

fun bytes_of_data :: "string \<Rightarrow> jdata \<Rightarrow> bytes option" where
  "bytes_of_data class (D_New c [D_Bytes bs]) = (if c = class then Some bs else None)"
| "bytes_of_data class _ = None"

fun name_of_data :: "jdata \<Rightarrow> (string \<times> jaddress) option" where
  "name_of_data (D_New c [D_String g, D_String n, D_Int i]) =
     (if c = ''org/whispersystems/libsignal/groups/SenderKeyName'' then Some (g, (n, i)) else None)"
| "name_of_data _ = None"

fun direction_of_data :: "jdata \<Rightarrow> Direction option" where
  "direction_of_data (D_Constant c f) =
     (if f = ''SENDING'' then Some Sending else if f = ''RECEIVING'' then Some Receiving else None)"
| "direction_of_data _ = None"

fun record_of_data :: "'a machine memory \<Rightarrow> jdata \<Rightarrow> SenderKeyRecord option" where
  "record_of_data m (D_New c [D_Handle (At a)]) =
     (case heap m a of Some (Boxed x) \<Rightarrow> as_SenderKeyRecord x | _ \<Rightarrow> None)"
| "record_of_data m _ = None"

definition no_method :: "('a machine, JValue) jni" where
  "no_method m = (Inl ''no such method'', m)"

text \<open>The methods of the stores; arguments that are not of the right type are refused.\<close>

definition store_arity :: "string \<Rightarrow> nat" where
  "store_arity name =
     (if name = ''isTrustedIdentity'' then 3
      else if name \<in> set [''saveIdentity'', ''storeSession'', ''storeSenderKey''] then 2
      else if name \<in> set [''getIdentityKeyPair'', ''getLocalRegistrationId''] then 0
      else 1)"

definition store_method :: "'a JavaApp \<Rightarrow> string \<Rightarrow> jdata list \<Rightarrow> ('a machine, JValue) jni" where
  "store_method A name ds m =
     (if name = ''getIdentityKeyPair'' then perform (ja_getIdentityKeyPair A) answer_bytes
      else if name = ''getLocalRegistrationId'' then perform (ja_getLocalRegistrationId A) answer_int
      else if name = ''saveIdentity'' then
        (case (address_of_data (ds ! 0), bytes_of_data ''org/whispersystems/libsignal/IdentityKey'' (ds ! 1)) of
           (Some a, Some bs) \<Rightarrow> perform (ja_saveIdentity A a bs) answer_bool | _ \<Rightarrow> no_method)
      else if name = ''isTrustedIdentity'' then
        (case (address_of_data (ds ! 0), bytes_of_data ''org/whispersystems/libsignal/IdentityKey'' (ds ! 1), direction_of_data (ds ! 2)) of
           (Some a, Some bs, Some d) \<Rightarrow> perform (ja_isTrustedIdentity A a bs d) answer_bool | _ \<Rightarrow> no_method)
      else if name = ''getIdentity'' then
        (case address_of_data (ds ! 0) of Some a \<Rightarrow> perform (ja_getIdentity A a) answer_bytes | _ \<Rightarrow> no_method)
      else if name = ''loadSession'' then
        (case address_of_data (ds ! 0) of Some a \<Rightarrow> perform (ja_loadSession A a) answer_bytes | _ \<Rightarrow> no_method)
      else if name = ''storeSession'' then
        (case (address_of_data (ds ! 0), bytes_of_data ''org/whispersystems/libsignal/state/SessionRecord'' (ds ! 1)) of
           (Some a, Some bs) \<Rightarrow> perform (ja_storeSession A a bs) answer_unit | _ \<Rightarrow> no_method)
      else if name = ''loadPreKey'' then
        (case ds ! 0 of D_Int i \<Rightarrow> perform (ja_loadPreKey A i) (answer_native O_PreKeyRecord) | _ \<Rightarrow> no_method)
      else if name = ''removePreKey'' then
        (case ds ! 0 of D_Int i \<Rightarrow> perform (ja_removePreKey A i) answer_unit | _ \<Rightarrow> no_method)
      else if name = ''loadSignedPreKey'' then
        (case ds ! 0 of D_Int i \<Rightarrow> perform (ja_loadSignedPreKey A i) (answer_native O_SignedPreKeyRecord) | _ \<Rightarrow> no_method)
      else if name = ''loadSenderKey'' then
        (case name_of_data (ds ! 0) of
           Some (g, a) \<Rightarrow> perform (ja_loadSenderKey A g a) (answer_native O_SenderKeyRecord) | None \<Rightarrow> no_method)
      else if name = ''storeSenderKey'' then
        (case (name_of_data (ds ! 0), record_of_data m (ds ! 1)) of
           (Some (g, a), Some r) \<Rightarrow> perform (ja_storeSenderKey A g a r) answer_unit | _ \<Rightarrow> no_method)
      else no_method) m"

definition machine_call_method :: "'a JavaApp \<Rightarrow> jobject \<Rightarrow> string \<Rightarrow> string \<Rightarrow> JValue list \<Rightarrow> ('a machine, JValue) jni" where
  "machine_call_method A o' name sig args m =
     (if \<not> method_descriptor sig then (Inl ''invalid descriptor'', m)
      else case content m o' of
        Some (D_Throwable c t) \<Rightarrow>
          if name = ''getClass'' then give_value (D_ThrowableClass c) m
          else if name = ''getMessage'' then give_text t m else no_method m
      | Some (D_ThrowableClass c) \<Rightarrow> if name = ''getCanonicalName'' then give_text c m else no_method m
      | Some (D_Serializable bs) \<Rightarrow> if name = ''serialize'' then give_value (D_Bytes bs) m else no_method m
      | Some (D_Native h) \<Rightarrow> if name = ''nativeHandle'' then (Inr (JV_Long h), m) else no_method m
      | Some D_Store \<Rightarrow>
          (case those (map (jvalue m) args) of
             Some ds \<Rightarrow> if length ds = store_arity name then store_method A name ds m else no_method m
           | None \<Rightarrow> no_method m)
      | _ \<Rightarrow> no_method m)"

text \<open>The texts of the errors of the crate \<open>jni\<close> for an exception and for a null pointer.\<close>

definition java_exception :: string where "java_exception = ''Java exception was thrown''"

definition null_pointer :: string where "null_pointer = ''Null pointer in get_string obj argument''"

definition fails_with :: "throwable \<Rightarrow> ('a machine, 'b) jni" where
  "fails_with x m = (Inl java_exception, put_app ((app m)\<lparr>exception := Some x\<rparr>) m)"

definition machine_type_name :: "JValue \<Rightarrow> string" where
  "machine_type_name v =
     (case v of JV_Object _ \<Rightarrow> ''object'' | JV_Byte _ \<Rightarrow> ''byte'' | JV_Char _ \<Rightarrow> ''char'' | JV_Short _ \<Rightarrow> ''short''
      | JV_Int _ \<Rightarrow> ''int'' | JV_Long _ \<Rightarrow> ''long'' | JV_Bool _ \<Rightarrow> ''bool'' | JV_Float _ \<Rightarrow> ''float''
      | JV_Double _ \<Rightarrow> ''double'' | JV_Void \<Rightarrow> ''void'')"

definition machine_set_region :: "jbyteArray \<Rightarrow> jint \<Rightarrow> jbyte list \<Rightarrow> ('a machine, unit) jni" where
  "machine_set_region a i buf m =
     (case (a, content m a) of
        (J_ref (Suc k), Some (D_Bytes bs)) \<Rightarrow>
          if unat i + length buf \<le> length bs
          then (Inr (), put_app ((app m)\<lparr>objects := (objects (app m))[k := D_Bytes (take (unat i) bs @ buf @ drop (unat i + length buf) bs)]\<rparr>) m)
          else fails_with (Thrown (Some ''java.lang.ArrayIndexOutOfBoundsException'') None) m
      | _ \<Rightarrow> (Inl ''no array'', m))"

text \<open>
  The constructors: \<open>SignalProtocolAddress\<close>, \<open>SenderKeyName\<close> and \<open>IdentityKey\<close> of \<open>src/java\<close> call native functions of the library, which
  make a box or throw; \<open>SessionRecord\<close> parses its bytes in Java; the others keep the handle that they are given.
\<close>

definition from_library :: "(SignalJniError, object) result \<Rightarrow> throwable + object option" where
  "from_library r =
     (case r of Ok x \<Rightarrow> Inr (Some x) | Err e \<Rightarrow> Inl (library_exception e) | Panic \<Rightarrow> Inl (library_exception (J_UnexpectedPanic None)))"

definition construction :: "'a JavaApp \<Rightarrow> string \<Rightarrow> jdata list \<Rightarrow> throwable + object option" where
  "construction A class ds =
     (case ds of
        [D_String name, D_Int i] \<Rightarrow>
          if class = ''org/whispersystems/libsignal/SignalProtocolAddress''
          then from_library (rbind (jint_to_u32 i) (\<lambda>d. Ok (O_ProtocolAddress \<lparr>pa_name = name, pa_device_id = d\<rparr>)))
          else Inr None
      | [D_String gid, D_String name, D_Int i] \<Rightarrow>
          if class = ''org/whispersystems/libsignal/groups/SenderKeyName''
          then from_library (rbind (jint_to_u32 i) (\<lambda>d.
            Ok (O_SenderKeyName \<lparr>skn_group_id = gid, skn_sender = \<lparr>pa_name = name, pa_device_id = d\<rparr>\<rparr>)))
          else Inr None
      | [D_Bytes bs] \<Rightarrow>
          if class = ''org/whispersystems/libsignal/IdentityKey''
          then from_library (rbind (jni_result (PublicKey_deserialize bs)) (\<lambda>k. Ok (O_PublicKey k)))
          else if class = ''org/whispersystems/libsignal/state/SessionRecord''
          then (case ja_parseSession A bs of
                  None \<Rightarrow> Inr None
                | Some t \<Rightarrow> Inl (Thrown (Some ''com.google.protobuf.InvalidProtocolBufferException'') (Some t)))
          else Inr None
      | _ \<Rightarrow> Inr None)"

definition machine_new_object :: "'a JavaApp \<Rightarrow> string \<Rightarrow> jdata list \<Rightarrow> ('a machine, jobject) jni" where
  "machine_new_object A class ds m =
     (case construction A class ds of
        Inl x \<Rightarrow> fails_with x m
      | Inr None \<Rightarrow> give (D_New class ds) m
      | Inr (Some x) \<Rightarrow> give (D_New class ds) (snd (alloc (Boxed x) m)))"

definition machine_env :: "'a JavaApp \<Rightarrow> 'a machine JNIEnv" where
  "machine_env A =
     \<lparr>je_type_name = machine_type_name,
      je_get_string = (\<lambda>o' m. case content m o' of Some (D_String s) \<Rightarrow> (Inr s, m) | _ \<Rightarrow> (Inl null_pointer, m)),
      je_new_string = (\<lambda>s. give (D_String s)),
      je_convert_byte_array = (\<lambda>a m. case content m a of Some (D_Bytes bs) \<Rightarrow> (Inr bs, m) | _ \<Rightarrow> (Inl ''no array'', m)),
      je_new_byte_array = (\<lambda>n m. if sint n < 0 then fails_with (Thrown (Some ''java.lang.NegativeArraySizeException'') None) m else give (D_Bytes (replicate (unat n) 0)) m),
      je_set_byte_array_region = machine_set_region,
      je_find_class = (\<lambda>c. give (D_Class c)),
      je_is_instance_of = (\<lambda>o' c m. (Inr (content m o' = Some D_Store), m)),
      je_call_method = machine_call_method A,
      je_new_object = (\<lambda>c sig args m.
        case (content m c, those (map (jvalue m) args)) of
          (Some (D_Class n), Some ds) \<Rightarrow> machine_new_object A n ds m
        | _ \<Rightarrow> (Inl ''no constructor'', m)),
      je_get_static_field = (\<lambda>c f sig m.
        case content m c of Some (D_Class n) \<Rightarrow> give_value (D_Constant n f) m | _ \<Rightarrow> (Inl ''no field'', m)),
      je_exception_check = (\<lambda>m. (Inr (exception (app m) \<noteq> None), m)),
      je_exception_occurred = (\<lambda>m.
        case exception (app m) of Some x \<Rightarrow> (case described x of (c, t) \<Rightarrow> give (D_Throwable c t) m) | None \<Rightarrow> (Inr J_null, m)),
      je_exception_clear = (\<lambda>m. (Inr (), put_app ((app m)\<lparr>exception := None\<rparr>) m)),
      je_throw_new = (\<lambda>c t m. (Inr (), put_app ((app m)\<lparr>exception := Some (Constructed c t)\<rparr>) m))\<rparr>"

end
