(* ===== verification/Jni_Safety.thy ===== *)
theory Jni_Safety
  imports Java_Machine Ffi_Refinement
begin

text \<open>
  The native functions of the Java interface one by one: what they may do to the memory of the library, how their errors
  become exceptions, what becomes of numbers that Java cannot represent, and the calls that cannot succeed. The
  interface to the virtual machine that is relied on here is the locale \<open>java_environment\<close>.
\<close>

section \<open>The environment\<close>

text \<open>
  \<open>quiet f\<close>: a function of the crate \<open>jni\<close> that runs no code of the library leaves its boxes alone.
  \<open>exception_classes\<close> are the classes that the interface throws: those of the package \<open>libsignal\<close>, which has them
  all with a constructor that takes a string, and classes of the Java library. \<open>throws\<close>: for one of them
  \<open>throw_new\<close> makes an exception pending that is made from the given string, when none is pending, and it never
  clears one (\<open>pending\<close> reads the state of the virtual machine: the class and that string).
\<close>

definition same_boxes :: "'j memory \<Rightarrow> 'j memory \<Rightarrow> bool" where
  "same_boxes m m' \<longleftrightarrow>
     heap m' = heap m \<and> next_address m' = next_address m \<and> undefined_behaviour m' = undefined_behaviour m"

definition quiet :: "('j, 'b) jni \<Rightarrow> bool" where
  "quiet f \<longleftrightarrow> (\<forall>m. same_boxes m (snd (f m)))"

definition quiet_environment :: "'j JNIEnv \<Rightarrow> bool" where
  "quiet_environment J \<longleftrightarrow>
     (\<forall>s. quiet (je_new_string J s)) \<and> (\<forall>a. quiet (je_convert_byte_array J a)) \<and> (\<forall>n. quiet (je_new_byte_array J n)) \<and>
     (\<forall>a i buf. quiet (je_set_byte_array_region J a i buf)) \<and> (\<forall>c t. quiet (je_throw_new J c t))"

definition exception_classes :: "string list" where
  "exception_classes =
     [''java/lang/NullPointerException'', ''java/lang/AssertionError'', ''java/lang/RuntimeException'',
      ''java/lang/IllegalStateException'', ''java/lang/IllegalArgumentException'',
      ''org/whispersystems/libsignal/DuplicateMessageException'', ''org/whispersystems/libsignal/InvalidKeyIdException'',
      ''org/whispersystems/libsignal/InvalidKeyException'', ''org/whispersystems/libsignal/NoSessionException'',
      ''org/whispersystems/libsignal/InvalidMessageException'', ''org/whispersystems/libsignal/LegacyMessageException'',
      ''org/whispersystems/libsignal/UntrustedIdentityException'']"

definition throws :: "('j \<Rightarrow> (string \<times> string) option) \<Rightarrow> 'j JNIEnv \<Rightarrow> bool" where
  "throws pending J \<longleftrightarrow>
     (\<forall>c\<in>set exception_classes. \<forall>t m. case pending (app m) of
        None \<Rightarrow> pending (app (snd (je_throw_new J c t m))) = Some (c, t)
      | Some _ \<Rightarrow> pending (app (snd (je_throw_new J c t m))) \<noteq> None)"

lemma quietD: "quiet f \<Longrightarrow> f m = (x, m') \<Longrightarrow> same_boxes m m'"
  by (metis quiet_def snd_conv)

lemma same_boxes_trans: "same_boxes m m' \<Longrightarrow> same_boxes m' m'' \<Longrightarrow> same_boxes m m''"
  by (simp add: same_boxes_def)

lemma same_boxes_refl [simp]: "same_boxes m m"
  by (simp add: same_boxes_def)

lemma same_boxes_frame: "memory_ok m \<Longrightarrow> same_boxes m m' \<Longrightarrow> frame W m m'"
  by (auto simp: same_boxes_def frame_def memory_ok_def)

lemma same_boxes_ok: "memory_ok m \<Longrightarrow> same_boxes m m' \<Longrightarrow> memory_ok m'"
  by (simp add: same_boxes_def memory_ok_def)

lemma jni_try_quiet: "quiet f \<Longrightarrow> same_boxes m (snd (jni_try f m))"
  by (auto simp: quiet_def jni_try_def split: prod.splits sum.splits) (metis snd_conv)+

lemma jni_tryD: "quiet f \<Longrightarrow> jni_try f m = (x, m') \<Longrightarrow> same_boxes m m'"
  using jni_try_quiet by (metis snd_conv)

text \<open>
  \<open>native_safe W good f s\<close>: after the call nothing undefined has happened, and of what was there before only the cells
  at the addresses in \<open>W\<close> may have changed; \<open>good\<close> is what is known of the returned value.
\<close>

definition native_safe :: "nat set \<Rightarrow> ('b \<Rightarrow> 'j memory \<Rightarrow> bool) \<Rightarrow> ('j, 'r, 'b) native \<Rightarrow> 'j memory \<times> 'r \<Rightarrow> bool" where
  "native_safe W good f s \<longleftrightarrow> (case f s of (x, (m', r')) \<Rightarrow> frame W (fst s) m' \<and> good x m')"

text \<open>A returned handle is null or the address of a new box with an object of the type.\<close>

definition new_handle :: "('t \<Rightarrow> object) \<Rightarrow> 'j memory \<Rightarrow> ObjectHandle \<Rightarrow> 'j memory \<Rightarrow> bool" where
  "new_handle obj m h m' \<longleftrightarrow> h = Null \<or> (\<exists>a t. h = At a \<and> next_address m \<le> a \<and> heap m' a = Some (Boxed (obj t)))"

locale java_environment =
  fixes J :: "'j JNIEnv"
  assumes env_quiet: "quiet_environment J"
begin

lemma quiet_functions:
  "quiet (je_new_string J s)" "quiet (je_convert_byte_array J a)" "quiet (je_new_byte_array J n)"
  "quiet (je_set_byte_array_region J a i buf)" "quiet (je_throw_new J c t)"
  using env_quiet by (simp_all add: quiet_environment_def)

lemma throw_error_same: "same_boxes m (throw_error J e m)"
  using quiet_functions(5) by (simp add: throw_error_def quiet_def)

lemma run_safe:
  assumes "memory_ok m" "frame W m (snd (f m))" "good d (snd (f m))"
    and "\<And>x m'. f m = (Ok x, m') \<Longrightarrow> good x m'" "\<And>x m' m''. good x m' \<Longrightarrow> same_boxes m' m'' \<Longrightarrow> good x m''"
  shows "native_safe W good (jni_run_ffi_safe J payload d (on_fst f)) (m, r)"
proof -
  obtain x m' where f: "f m = (x, m')" by fastforce
  have fr: "frame W m m'" using assms(2) f by simp
  have fr': "frame W m (throw_error J e m')" for e
    using frame_trans [OF fr same_boxes_frame] fr throw_error_same by (auto simp: frame_def)
  show ?thesis
    using f fr fr' assms(3,4) assms(5) [OF _ throw_error_same]
    by (cases x) (auto simp: native_safe_def jni_run_ffi_safe_def on_fst_def)
qed

lemma cast_then_frame:
  assumes "memory_ok m" "handle_arg as h m" "\<And>t. frame W m (snd (g t m))"
  shows "frame W m (snd (sbind (jni_native_handle_cast as h) g m))"
  using assms same_boxes_frame [OF assms(1), of m W]
  by (auto simp: handle_arg_def jni_native_handle_cast_def handle_ref_At)

lemma cast_then_Ok:
  assumes "handle_arg as h m" "sbind (jni_native_handle_cast as h) g m = (Ok x, m')"
  obtains t where "g t m = (Ok x, m')"
  using assms by (auto simp: handle_arg_def jni_native_handle_cast_def handle_ref_At)

lemma box_frame: "memory_ok m \<Longrightarrow> frame W m (snd (jni_box_object obj r m))"
  using extends_frame [OF extends_alloc] same_boxes_frame [of m m W]
  by (auto simp: jni_box_object_def split: result.splits)

lemma box_new: "memory_ok m \<Longrightarrow> jni_box_object obj r m = (Ok h, m') \<Longrightarrow> new_handle obj m h m'"
  by (auto simp: jni_box_object_def new_handle_def split: result.splits)

lemma to_jbytearray_same: "same_boxes m (snd (to_jbytearray J d m))"
proof (cases d)
  case (Ok bs)
  obtain x m1 where 1: "jni_try (je_new_byte_array J (word_of_nat (length bs))) m = (x, m1)" by fastforce
  have "same_boxes m m1" by (rule jni_tryD [OF quiet_functions(3) 1])
  moreover have "same_boxes m m2" if "jni_try (je_set_byte_array_region J o' 0 buf) m1 = (y, m2)" for o' buf y m2
    using calculation jni_tryD [OF quiet_functions(4) that] by (rule same_boxes_trans)
  ultimately show ?thesis
    using Ok 1 by (cases x) (auto simp: to_jbytearray_def Let_def sbind_def split: prod.splits result.splits)
qed (simp_all add: to_jbytearray_def)

lemma new_handle_stable: "new_handle obj m x m' \<Longrightarrow> same_boxes m' m'' \<Longrightarrow> new_handle obj m x m''"
  by (auto simp: new_handle_def same_boxes_def)

lemma new_handle_Null: "new_handle obj m dummy_handle m'" "new_handle obj m Null m'"
  by (simp_all add: new_handle_def dummy_handle_def)

lemma handle_template_safe:
  assumes "memory_ok m" "handle_arg as h m" "\<And>t. frame {} m (snd (g t m))" "\<And>t x m'. g t m = (Ok x, m') \<Longrightarrow> good x m'"
    and "\<And>m'. good d m'" "\<And>x m' m''. good x m' \<Longrightarrow> same_boxes m' m'' \<Longrightarrow> good x m''"
  shows "native_safe {} good (jni_run_ffi_safe J payload d (on_fst (sbind (jni_native_handle_cast as h) g))) (m, r)"
proof (rule run_safe [OF assms(1)])
  show "frame {} m (snd (sbind (jni_native_handle_cast as h) g m))" by (rule cast_then_frame) (fact assms)+
  show "good x m'" if "sbind (jni_native_handle_cast as h) g m = (Ok x, m')" for x m'
    using that assms(4) by (auto elim: cast_then_Ok [OF assms(2)])
qed (fact assms)+

lemma deserialize_safe:
  assumes ok: "memory_ok m"
  shows "native_safe {} (new_handle obj m) (jni_fn_deserialize J payload obj func data) (m, r)"
proof -
  obtain x m1 where 1: "jni_try (je_convert_byte_array J data) m = (x, m1)" by fastforce
  have same: "same_boxes m m1" by (rule jni_tryD [OF quiet_functions(2) 1])
  have ok1: "memory_ok m1" by (rule same_boxes_ok [OF ok same])
  have fr: "frame {} m m1" by (rule same_boxes_frame [OF ok same])
  have new: "new_handle obj m h m'" if "jni_box_object obj y m1 = (Ok h, m')" for y h m'
    using box_new [OF ok1 that] same by (simp add: new_handle_def same_boxes_def)
  have new': "new_handle obj m h m'"
    if "sbind (jni_try (je_convert_byte_array J data)) (\<lambda>data. jni_box_object obj (func data)) m = (Ok h, m')" for h m'
    using that 1 new by (auto simp: result_simps)
  have fr': "frame {} m (snd (sbind (jni_try (je_convert_byte_array J data)) (\<lambda>data. jni_box_object obj (func data)) m))"
    using 1 fr frame_trans [OF fr box_frame [OF ok1]] by (cases x) auto
  show ?thesis unfolding jni_fn_deserialize_def
    by (rule run_safe [OF ok], rule fr') (rule new_handle_Null new' new_handle_stable, assumption?)+
qed

lemma destroy_safe:
  assumes "memory_ok m" "handle_arg as h m"
  shows "native_safe (address_of h) (\<lambda>_ _. True) (jni_fn_destroy as h) (m, r)"
  using assms extends_frame [OF extends_free [OF assms(1)]] same_boxes_frame [OF assms(1), of m]
  by (auto simp: native_safe_def jni_fn_destroy_def handle_arg_def box_from_raw_def)

lemma bind_result_frame: "memory_ok m \<Longrightarrow> (\<And>y. frame W m (snd (k y m))) \<Longrightarrow> frame W m (snd (sbind (slift r) k m))"
  using same_boxes_frame [of m m W] by (cases r) auto

lemma templates_safe:
  assumes ok: "memory_ok m" and h: "handle_arg as h m"
  shows "native_safe {} (new_handle obj m) (jni_fn_get_new_boxed_obj J payload as obj body_obj h) (m, r)"
    and "native_safe {} (new_handle obj m) (jni_fn_get_new_boxed_optional_obj J payload as obj body_opt h) (m, r)"
    and "native_safe {} (\<lambda>_ _. True) (jni_fn_get_jint J payload as body_int h) (m, r)"
    and "native_safe {} (\<lambda>_ _. True) (jni_fn_get_jboolean J payload as body_bool h) (m, r)"
    and "native_safe {} (\<lambda>_ _. True) (jni_fn_get_jstring J payload as body_string h) (m, r)"
    and "native_safe {} (\<lambda>_ _. True) (jni_fn_get_jbytearray J payload as body_bytes h) (m, r)"
proof -
  have same: "frame {} m m" by (rule same_boxes_frame [OF ok]) simp
  note bind_frame = bind_result_frame [OF ok]
  note frames = box_frame [OF ok] same same_boxes_frame [OF ok to_jbytearray_same]
    same_boxes_frame [OF ok jni_try_quiet [OF quiet_functions(1)]]
  show "native_safe {} (new_handle obj m) (jni_fn_get_new_boxed_obj J payload as obj body_obj h) (m, r)"
    unfolding jni_fn_get_new_boxed_obj_def
    by (rule handle_template_safe [OF ok h], rule frames(1)) (rule new_handle_Null box_new [OF ok] new_handle_stable, assumption?)+
  let ?g = "\<lambda>t. sbind (slift (jni_result (body_opt t)))
    (\<lambda>result. case result of Some result \<Rightarrow> jni_box_object obj (Ok result) | None \<Rightarrow> sret Null)"
  have g: "frame {} m (snd (?g t m))" for t using same frames(1) [of "{}" obj] by (cases "body_opt t") (auto split: option.splits)
  have g': "new_handle obj m x m'" if "?g t m = (Ok x, m')" for t x m'
    using that new_handle_Null(2) box_new [OF ok] by (auto simp: result_simps split: option.splits)
  show "native_safe {} (new_handle obj m) (jni_fn_get_new_boxed_optional_obj J payload as obj body_opt h) (m, r)"
    unfolding jni_fn_get_new_boxed_optional_obj_def
    by (rule handle_template_safe [OF ok h], rule g) (rule new_handle_Null g' new_handle_stable, assumption?)+
  show "native_safe {} (\<lambda>_ _. True) (jni_fn_get_jint J payload as body_int h) (m, r)"
    unfolding jni_fn_get_jint_def by (rule handle_template_safe [OF ok h]) (use same in auto)
  show "native_safe {} (\<lambda>_ _. True) (jni_fn_get_jboolean J payload as body_bool h) (m, r)"
    unfolding jni_fn_get_jboolean_def by (rule handle_template_safe [OF ok h]) (simp_all add: bind_frame same)
  show "native_safe {} (\<lambda>_ _. True) (jni_fn_get_jstring J payload as body_string h) (m, r)"
    unfolding jni_fn_get_jstring_def by (rule handle_template_safe [OF ok h]) (simp_all add: bind_frame frames)
  show "native_safe {} (\<lambda>_ _. True) (jni_fn_get_jbytearray J payload as body_bytes h) (m, r)"
    unfolding jni_fn_get_jbytearray_def by (rule handle_template_safe [OF ok h]) (use frames in auto)
qed

end

text \<open>
  C21. The native functions that the macros make are memory safe: whatever the expression that the macro is given
  computes, when a handle is 0 or the address of a box of its type and the virtual machine leaves the boxes of the library
  alone, the call returns, nothing undefined happens, and the boxes that were there are unchanged but for the one that is
  destroyed; a handle that is returned is 0 or the address of a new box of the type.
\<close>

theorem jni_templates_memory_safe:
  assumes J: "quiet_environment J" and ok: "memory_ok m" and h: "handle_arg as h m"
  shows
    "native_safe {} (new_handle obj m) (jni_fn_deserialize J payload obj func data) (m, r) \<and>
     native_safe {} (new_handle obj m) (jni_fn_get_new_boxed_obj J payload as obj body_obj h) (m, r) \<and>
     native_safe {} (new_handle obj m) (jni_fn_get_new_boxed_optional_obj J payload as obj body_opt h) (m, r) \<and>
     native_safe {} (\<lambda>_ _. True) (jni_fn_get_jint J payload as body_int h) (m, r) \<and>
     native_safe {} (\<lambda>_ _. True) (jni_fn_get_jboolean J payload as body_bool h) (m, r) \<and>
     native_safe {} (\<lambda>_ _. True) (jni_fn_get_jstring J payload as body_string h) (m, r) \<and>
     native_safe {} (\<lambda>_ _. True) (jni_fn_get_jbytearray J payload as body_bytes h) (m, r) \<and>
     native_safe (address_of h) (\<lambda>_ _. True) (jni_fn_destroy as h) (m, r)"
proof -
  have env: "java_environment J" using J by (rule java_environment.intro)
  show ?thesis
    by (intro conjI java_environment.templates_safe [OF env ok h] java_environment.deserialize_safe [OF env ok]
        java_environment.destroy_safe [OF env ok h])
qed

section \<open>The machine\<close>

text \<open>An application that answers every call with an exception, and a machine with a few objects for it.\<close>

definition refuse :: "string \<Rightarrow> (unit, 'x) sst" where
  "refuse name = sthrow (ApplicationCallbackThrewException name (Some ''java.lang.Error'') ''refused'')"

definition refusing_app :: "unit JavaApp" where
  "refusing_app =
      \<lparr>ja_getIdentityKeyPair = refuse ''getIdentityKeyPair'', ja_getLocalRegistrationId = refuse ''getLocalRegistrationId'',
       ja_saveIdentity = (\<lambda>_ _. refuse ''saveIdentity''), ja_isTrustedIdentity = (\<lambda>_ _ _. refuse ''isTrustedIdentity''),
       ja_getIdentity = (\<lambda>_. refuse ''getIdentity''), ja_loadSession = (\<lambda>_. refuse ''loadSession''), ja_storeSession = (\<lambda>_ _. refuse ''storeSession''),
       ja_loadPreKey = (\<lambda>_. refuse ''loadPreKey''), ja_removePreKey = (\<lambda>_. refuse ''removePreKey''),
       ja_loadSignedPreKey = (\<lambda>_. refuse ''loadSignedPreKey''), ja_loadSenderKey = (\<lambda>_ _. refuse ''loadSenderKey''),
       ja_storeSenderKey = (\<lambda>_ _ _. refuse ''storeSenderKey''), ja_parseSession = (\<lambda>_. None)\<rparr>"

definition ref_java_memory :: "unit machine memory" where
  "ref_java_memory =
     \<lparr>heap = [0 \<mapsto> Boxed (O_PublicKey (ref_key 1)),
              1 \<mapsto> Boxed (O_SignalMessage \<lparr>sm_message_version = 3, sm_sender_ratchet_key = ref_key 2, sm_counter = 0x80000000,
                   sm_previous_counter = 0, sm_ciphertext = [], sm_serialized = []\<rparr>)],
      next_address = 2, undefined_behaviour = False,
      app = \<lparr>objects = [D_Bytes [1, 2, 3]], exception = None, app_state = ()\<rparr>\<rparr>"

definition ref_jni_env :: "(u8, u8, nat) jni_env" where
  "ref_jni_env =
     \<lparr>panic_payload = None, env_crypto = ref_crypto,
      env_IdentityKeyPair = env_IdentityKeyPair ref_env, env_Record = env_Record ref_env,
      env_CombinedFingerprints = env_CombinedFingerprints ref_env, env_SignalMessage = env_SignalMessage ref_env,
      env_PreKeySignalMessage = env_PreKeySignalMessage ref_env, env_SenderKeyMessage = env_SenderKeyMessage ref_env,
      env_SenderKeyDistributionMessage = env_SenderKeyDistributionMessage ref_env,
      env_SignedPreKeyRecord = env_SignedPreKeyRecord ref_env, env_PreKeyRecord = env_PreKeyRecord ref_env,
      env_SenderKeyRecord = env_SenderKeyRecord ref_env, env_Session = ref_prost c_SessionStructure\<rparr>"

lemma machine_quiet: "quiet_environment (machine_env A)"
  by (auto simp: quiet_environment_def quiet_def same_boxes_def machine_env_def give_def new_ref_def put_app_def
      machine_set_region_def fails_with_def split: option.splits jdata.splits jobject.splits nat.splits)

text \<open>The class and the string of a pending exception.\<close>

definition the_text :: "string option \<Rightarrow> string" where
  "the_text t = (case t of None \<Rightarrow> [] | Some s \<Rightarrow> s)"

definition thrown_from :: "'a machine \<Rightarrow> (string \<times> string) option" where
  "thrown_from k =
     map_option (\<lambda>x. case x of Constructed c t \<Rightarrow> (c, t) | Thrown c t \<Rightarrow> (the_text c, the_text t)) (exception k)"

lemma machine_throws: "throws thrown_from (machine_env A)"
  by (simp add: throws_def machine_env_def put_app_def thrown_from_def split: option.split)

interpretation machine: java_environment "machine_env A"
  by unfold_locales (rule machine_quiet)

lemma ref_java_memory_ok: "memory_ok ref_java_memory"
  by (simp add: memory_ok_def ref_java_memory_def)

theorem jni_templates_memory_safe_witness:
  "native_safe {} (new_handle O_PublicKey ref_java_memory)
     (jni_fn_deserialize (machine_env refusing_app) None O_PublicKey PublicKey_deserialize (J_ref 1)) (ref_java_memory, ()) \<and>
   native_safe {0} (\<lambda>_ _. True) (jni_fn_destroy as_PublicKey (At 0)) (ref_java_memory, ())"
proof -
  have h: "handle_arg as_PublicKey (At 0) ref_java_memory"
    by (simp add: handle_arg_def ref_java_memory_def as_PublicKey_def)
  show ?thesis
    using jni_templates_memory_safe [OF machine_quiet [of refusing_app] ref_java_memory_ok h, where obj = O_PublicKey
        and payload = None and func = PublicKey_deserialize and data = "J_ref 1" and r = "()"]
    by simp
qed

section \<open>Errors as exceptions\<close>

text \<open>
  \<open>raises pending m1 d e f s\<close>: the call returns the dummy value \<open>d\<close> and leaves the boxes of the library and the random
  generator as they were and an exception pending. When none was pending in \<open>m1\<close>, where the error \<open>e\<close> came up, its class and
  its string are those of \<open>e\<close>.
\<close>

definition raises ::
    "('j \<Rightarrow> (string \<times> string) option) \<Rightarrow> 'j memory \<Rightarrow> 'b \<Rightarrow> SignalJniError \<Rightarrow> ('j, 'r, 'b) native \<Rightarrow> 'j memory \<times> 'r \<Rightarrow> bool" where
  "raises pending m1 d e f s \<longleftrightarrow>
     (case f s of (x, (m', r')) \<Rightarrow>
        x = d \<and> same_boxes (fst s) m' \<and> r' = snd s \<and>
        (case pending (app m1) of
           None \<Rightarrow> pending (app m') = Some (exception_type e, error_string e)
         | Some _ \<Rightarrow> pending (app m') \<noteq> None))"

text \<open>How the expression of a macro fails, and how the function fails on a handle.\<close>

definition fails_as :: "string option \<Rightarrow> 'b sresult \<Rightarrow> SignalJniError \<Rightarrow> bool" where
  "fails_as payload x err \<longleftrightarrow> (\<exists>e. x = Err e \<and> err = J_Signal e) \<or> x = Panic \<and> err = J_UnexpectedPanic payload"

definition handle_to :: "(object \<Rightarrow> 't option) \<Rightarrow> ObjectHandle \<Rightarrow> 'j memory \<Rightarrow> 't \<Rightarrow> bool" where
  "handle_to as h m t \<longleftrightarrow> (\<exists>a x. h = At a \<and> heap m a = Some (Boxed x) \<and> as x = Some t)"

definition failure :: "string option \<Rightarrow> (object \<Rightarrow> 't option) \<Rightarrow> ('t \<Rightarrow> 'b sresult) \<Rightarrow> ObjectHandle \<Rightarrow> 'j memory \<Rightarrow> SignalJniError \<Rightarrow> bool" where
  "failure payload as body h m err \<longleftrightarrow>
     h = Null \<and> err = J_NullHandle \<or> (\<exists>t. handle_to as h m t \<and> fails_as payload (body t) err)"

text \<open>The error \<open>t\<close> of the virtual machine when it is to make an array of bytes, and the memory then.\<close>

definition array_error :: "'j JNIEnv \<Rightarrow> bytes \<Rightarrow> 'j memory \<Rightarrow> string \<Rightarrow> 'j memory \<Rightarrow> bool" where
  "array_error J bs m t m1 \<longleftrightarrow>
     je_new_byte_array J (word_of_nat (length bs)) m = (Inl t, m1) \<or>
     (\<exists>out m0. je_new_byte_array J (word_of_nat (length bs)) m = (Inr out, m0) \<and>
        je_set_byte_array_region J out 0 bs m0 = (Inl t, m1))"

lemma exception_type_classes: "exception_type e \<in> set exception_classes"
  by (simp add: exception_type_def exception_classes_def split: SignalJniError.split SignalProtocolError.split)

lemma handle_cast_to: "handle_to as h m t \<Longrightarrow> jni_native_handle_cast as h m = (Ok t, m)"
  by (auto simp: handle_to_def jni_native_handle_cast_def handle_ref_At)

context java_environment
begin

lemma run_raises:
  assumes th: "throws pending J" and boxes: "same_boxes m m1"
    and f: "f m = (Err err, m1) \<or> f m = (Panic, m1) \<and> err = J_UnexpectedPanic payload"
  shows "raises pending m1 d err (jni_run_ffi_safe J payload d (on_fst f)) (m, r)"
proof -
  have "jni_run_ffi_safe J payload d (on_fst f) (m, r) = (d, (throw_error J err m1, r))"
    using f by (auto simp: jni_run_ffi_safe_def on_fst_def)
  moreover have "same_boxes m (throw_error J err m1)" by (rule same_boxes_trans [OF boxes throw_error_same])
  ultimately show ?thesis
    using th exception_type_classes [of err] by (auto simp: raises_def throws_def throw_error_def split: option.splits)
qed

text \<open>A function that starts with a cast of the handle and looks at the outcome of the expression.\<close>

lemma failing_template:
  assumes th: "throws pending J" and fails: "failure payload as body h m err"
    and k: "\<And>t e. body t = Err e \<Longrightarrow> g t m = (Err (J_Signal e), m)" "\<And>t. body t = Panic \<Longrightarrow> g t m = (Panic, m)"
  shows "raises pending m d err (jni_run_ffi_safe J payload d (on_fst (sbind (jni_native_handle_cast as h) g))) (m, r)"
proof (rule run_raises [OF th same_boxes_refl])
  show "sbind (jni_native_handle_cast as h) g m = (Err err, m) \<or>
      sbind (jni_native_handle_cast as h) g m = (Panic, m) \<and> err = J_UnexpectedPanic payload"
  proof (cases "h = Null")
    case True
    then show ?thesis using fails by (auto simp: failure_def handle_to_def jni_native_handle_cast_def)
  next
    case False
    then obtain t where "handle_to as h m t" "fails_as payload (body t) err" using fails by (auto simp: failure_def)
    then show ?thesis using k by (auto simp: fails_as_def handle_cast_to)
  qed
qed

lemma templates_raise:
  assumes "throws pending J"
  shows "failure payload as body_obj h m err \<Longrightarrow>
      raises pending m Null err (jni_fn_get_new_boxed_obj J payload as obj body_obj h) (m, r)"
    and "failure payload as body_opt h m err \<Longrightarrow>
      raises pending m Null err (jni_fn_get_new_boxed_optional_obj J payload as obj body_opt h) (m, r)"
    and "failure payload as body_int h m err \<Longrightarrow> raises pending m 0 err (jni_fn_get_jint J payload as body_int h) (m, r)"
    and "failure payload as body_bool h m err \<Longrightarrow> raises pending m 0 err (jni_fn_get_jboolean J payload as body_bool h) (m, r)"
    and "failure payload as body_string h m err \<Longrightarrow>
      raises pending m J_null err (jni_fn_get_jstring J payload as body_string h) (m, r)"
    and "failure payload as body_bytes h m err \<Longrightarrow>
      raises pending m J_null err (jni_fn_get_jbytearray J payload as body_bytes h) (m, r)"
  unfolding jni_fn_get_new_boxed_obj_def jni_fn_get_new_boxed_optional_obj_def jni_fn_get_jint_def jni_fn_get_jboolean_def
    jni_fn_get_jstring_def jni_fn_get_jbytearray_def dummy_handle_def dummy_jint_def dummy_jboolean_def dummy_jobject_def
  by (erule failing_template [OF assms]; simp add: jni_box_object_def jint_from_u32_def to_jbytearray_def)+

text \<open>Errors of the virtual machine, and of the expression of a deserializing function.\<close>

lemma machine_errors_raise:
  assumes th: "throws pending J"
  shows "handle_to as h m t \<Longrightarrow> body_string t = Ok str \<Longrightarrow> je_new_string J str m = (Inl te, m1) \<Longrightarrow>
      raises pending m1 J_null (J_Jni te) (jni_fn_get_jstring J payload as body_string h) (m, r)"
    and "handle_to as h m t \<Longrightarrow> body_bytes t = Ok bs \<Longrightarrow> array_error J bs m te m1 \<Longrightarrow>
      raises pending m1 J_null (J_Jni te) (jni_fn_get_jbytearray J payload as body_bytes h) (m, r)"
    and "je_convert_byte_array J data m = (Inl te, m1) \<Longrightarrow>
      raises pending m1 Null (J_Jni te) (jni_fn_deserialize J payload obj func data) (m, r)"
    and "je_convert_byte_array J data m = (Inr bs, m1) \<Longrightarrow> fails_as payload (func bs) err \<Longrightarrow>
      raises pending m1 Null err (jni_fn_deserialize J payload obj func data) (m, r)"
proof -
  show "raises pending m1 J_null (J_Jni te) (jni_fn_get_jstring J payload as body_string h) (m, r)"
    if "handle_to as h m t" "body_string t = Ok str" "je_new_string J str m = (Inl te, m1)"
    unfolding jni_fn_get_jstring_def dummy_jobject_def
    by (rule run_raises [OF th quietD [OF quiet_functions(1) that(3)]]) (simp add: handle_cast_to [OF that(1)] that jni_try_def)
  show "raises pending m1 Null (J_Jni te) (jni_fn_deserialize J payload obj func data) (m, r)"
    if "je_convert_byte_array J data m = (Inl te, m1)"
    unfolding jni_fn_deserialize_def dummy_handle_def
    by (rule run_raises [OF th quietD [OF quiet_functions(2) that]]) (simp add: that jni_try_def)
  show "raises pending m1 Null err (jni_fn_deserialize J payload obj func data) (m, r)"
    if "je_convert_byte_array J data m = (Inr bs, m1)" "fails_as payload (func bs) err"
    unfolding jni_fn_deserialize_def dummy_handle_def
    by (rule run_raises [OF th quietD [OF quiet_functions(2) that(1)]])
       (use that in \<open>auto simp: jni_try_def jni_box_object_def fails_as_def\<close>)
  have bytes: "map (\<lambda>i. ucast i) bs = bs" for bs :: bytes by (simp add: list.map_ident)
  show "raises pending m1 J_null (J_Jni te) (jni_fn_get_jbytearray J payload as body_bytes h) (m, r)"
    if "handle_to as h m t" "body_bytes t = Ok bs" "array_error J bs m te m1"
    unfolding jni_fn_get_jbytearray_def dummy_jobject_def
  proof (rule run_raises [OF th])
    show "same_boxes m m1"
      using that(3) quietD [OF quiet_functions(3)] quietD [OF quiet_functions(4)] unfolding array_error_def by (meson same_boxes_trans)
    show "sbind (jni_native_handle_cast as h) (\<lambda>t. to_jbytearray J (body_bytes t)) m = (Err (J_Jni te), m1) \<or>
        sbind (jni_native_handle_cast as h) (\<lambda>t. to_jbytearray J (body_bytes t)) m = (Panic, m1) \<and> J_Jni te = J_UnexpectedPanic payload"
      using that(2,3) by (auto simp: handle_cast_to [OF that(1)] array_error_def to_jbytearray_def Let_def jni_try_def bytes)
  qed
qed

end

text \<open>Which errors become an exception of a class of \<open>libsignal\<close>, and which one of the Java library.\<close>

lemma exception_type_libsignal:
  "exception_type x = ''org/whispersystems/libsignal/DuplicateMessageException'' \<longleftrightarrow> (\<exists>a b. x = J_Signal (DuplicatedMessage a b))"
  "exception_type x = ''org/whispersystems/libsignal/InvalidKeyIdException'' \<longleftrightarrow>
     x \<in> {J_Signal InvalidPreKeyId, J_Signal InvalidSignedPreKeyId, J_Signal InvalidSenderKeyId}"
  "exception_type x = ''org/whispersystems/libsignal/InvalidKeyException'' \<longleftrightarrow>
     x \<in> {J_Signal NoKeyTypeIdentifier, J_Signal SignatureValidationFailed} \<or>
     (\<exists>k. x = J_Signal (BadKeyType k)) \<or> (\<exists>k n. x = J_Signal (BadKeyLength k n))"
  "exception_type x = ''org/whispersystems/libsignal/NoSessionException'' \<longleftrightarrow> x = J_Signal SessionNotFound"
  "exception_type x = ''org/whispersystems/libsignal/InvalidMessageException'' \<longleftrightarrow>
     x \<in> {J_Signal InvalidCiphertext, J_Signal InvalidProtobufEncoding} \<or> (\<exists>t. x = J_Signal (InvalidMessage t)) \<or>
     (\<exists>n. x = J_Signal (CiphertextMessageTooShort n)) \<or> (\<exists>v. x = J_Signal (UnrecognizedCiphertextVersion v)) \<or>
     (\<exists>v. x = J_Signal (UnrecognizedMessageVersion v))"
  "exception_type x = ''org/whispersystems/libsignal/LegacyMessageException'' \<longleftrightarrow> (\<exists>v. x = J_Signal (LegacyCiphertextVersion v))"
  "exception_type x = ''org/whispersystems/libsignal/UntrustedIdentityException'' \<longleftrightarrow> (\<exists>a. x = J_Signal (UntrustedIdentity a))"
  by (simp_all add: exception_type_def split: SignalJniError.split SignalProtocolError.split)

lemma exception_type_java:
  "exception_type x = ''java/lang/NullPointerException'' \<longleftrightarrow> x = J_NullHandle"
  "exception_type x = ''java/lang/AssertionError'' \<longleftrightarrow>
     (\<exists>p. x = J_UnexpectedPanic p) \<or> (\<exists>t. x = J_BadJniParameter t) \<or> (\<exists>t u. x = J_UnexpectedJniResultType t u)"
  "exception_type x = ''java/lang/IllegalStateException'' \<longleftrightarrow>
     x \<in> {J_Signal NoSenderKeyState, J_Signal InvalidSessionStructure} \<or> (\<exists>t u. x = J_Signal (InvalidState t u))"
  "exception_type x = ''java/lang/IllegalArgumentException'' \<longleftrightarrow> (\<exists>t. x = J_Signal (InvalidArgument t))"
  by (simp_all add: exception_type_def split: SignalJniError.split SignalProtocolError.split)

text \<open>
  C22. Errors reach Java as exceptions. A function that a macro makes returns the dummy value of its type, leaves the boxes
  of the library alone and leaves an exception pending: \<open>NullHandle\<close> when its handle is 0; the error of the
  expression of the macro, or \<open>UnexpectedPanic\<close> when that panics, for the deserializing functions too; the error of the virtual
  machine when it refuses to read an array, to make a string or to make or fill an array. The class and the string
  are those of the error, unless the virtual machine left an exception of its own (then one stays pending). The classes are
  the twelve of \<open>exception_classes\<close>, and for each of them but \<open>RuntimeException\<close>, which takes the rest, the theorem lists the errors
  that become an exception of it.
\<close>

theorem jni_errors_reach_java:
  assumes J: "quiet_environment J" "throws pending J"
  shows
    "(failure payload as body_obj h m err \<longrightarrow>
        raises pending m Null err (jni_fn_get_new_boxed_obj J payload as obj body_obj h) (m, r)) \<and>
     (failure payload as body_opt h m err \<longrightarrow>
        raises pending m Null err (jni_fn_get_new_boxed_optional_obj J payload as obj body_opt h) (m, r)) \<and>
     (failure payload as body_int h m err \<longrightarrow> raises pending m 0 err (jni_fn_get_jint J payload as body_int h) (m, r)) \<and>
     (failure payload as body_bool h m err \<longrightarrow> raises pending m 0 err (jni_fn_get_jboolean J payload as body_bool h) (m, r)) \<and>
     (failure payload as body_string h m err \<longrightarrow>
        raises pending m J_null err (jni_fn_get_jstring J payload as body_string h) (m, r)) \<and>
     (failure payload as body_bytes h m err \<longrightarrow>
        raises pending m J_null err (jni_fn_get_jbytearray J payload as body_bytes h) (m, r)) \<and>
     (je_convert_byte_array J data m = (Inr bs, m1) \<longrightarrow> fails_as payload (func bs) err \<longrightarrow>
        raises pending m1 Null err (jni_fn_deserialize J payload obj func data) (m, r)) \<and>
     (je_convert_byte_array J data m = (Inl te, m1) \<longrightarrow>
        raises pending m1 Null (J_Jni te) (jni_fn_deserialize J payload obj func data) (m, r)) \<and>
     (handle_to as h m t \<longrightarrow> body_string t = Ok str \<longrightarrow> je_new_string J str m = (Inl te, m1) \<longrightarrow>
        raises pending m1 J_null (J_Jni te) (jni_fn_get_jstring J payload as body_string h) (m, r)) \<and>
     (handle_to as h m t \<longrightarrow> body_bytes t = Ok bs \<longrightarrow> array_error J bs m te m1 \<longrightarrow>
        raises pending m1 J_null (J_Jni te) (jni_fn_get_jbytearray J payload as body_bytes h) (m, r)) \<and>
     exception_type x \<in> set exception_classes \<and>
     (exception_type x = ''org/whispersystems/libsignal/DuplicateMessageException'' \<longleftrightarrow> (\<exists>a b. x = J_Signal (DuplicatedMessage a b))) \<and>
     (exception_type x = ''org/whispersystems/libsignal/InvalidKeyIdException'' \<longleftrightarrow>
        x \<in> {J_Signal InvalidPreKeyId, J_Signal InvalidSignedPreKeyId, J_Signal InvalidSenderKeyId}) \<and>
     (exception_type x = ''org/whispersystems/libsignal/InvalidKeyException'' \<longleftrightarrow>
        x \<in> {J_Signal NoKeyTypeIdentifier, J_Signal SignatureValidationFailed} \<or>
        (\<exists>k. x = J_Signal (BadKeyType k)) \<or> (\<exists>k n. x = J_Signal (BadKeyLength k n))) \<and>
     (exception_type x = ''org/whispersystems/libsignal/NoSessionException'' \<longleftrightarrow> x = J_Signal SessionNotFound) \<and>
     (exception_type x = ''org/whispersystems/libsignal/InvalidMessageException'' \<longleftrightarrow>
        x \<in> {J_Signal InvalidCiphertext, J_Signal InvalidProtobufEncoding} \<or> (\<exists>t. x = J_Signal (InvalidMessage t)) \<or>
        (\<exists>n. x = J_Signal (CiphertextMessageTooShort n)) \<or> (\<exists>v. x = J_Signal (UnrecognizedCiphertextVersion v)) \<or>
        (\<exists>v. x = J_Signal (UnrecognizedMessageVersion v))) \<and>
     (exception_type x = ''org/whispersystems/libsignal/LegacyMessageException'' \<longleftrightarrow> (\<exists>v. x = J_Signal (LegacyCiphertextVersion v))) \<and>
     (exception_type x = ''org/whispersystems/libsignal/UntrustedIdentityException'' \<longleftrightarrow> (\<exists>a. x = J_Signal (UntrustedIdentity a))) \<and>
     (exception_type x = ''java/lang/NullPointerException'' \<longleftrightarrow> x = J_NullHandle) \<and>
     (exception_type x = ''java/lang/AssertionError'' \<longleftrightarrow>
        (\<exists>p. x = J_UnexpectedPanic p) \<or> (\<exists>t. x = J_BadJniParameter t) \<or> (\<exists>t u. x = J_UnexpectedJniResultType t u)) \<and>
     (exception_type x = ''java/lang/IllegalStateException'' \<longleftrightarrow>
        x \<in> {J_Signal NoSenderKeyState, J_Signal InvalidSessionStructure} \<or> (\<exists>t u. x = J_Signal (InvalidState t u))) \<and>
     (exception_type x = ''java/lang/IllegalArgumentException'' \<longleftrightarrow> (\<exists>t. x = J_Signal (InvalidArgument t)))"
proof -
  have env: "java_environment J" using J(1) by (rule java_environment.intro)
  note classes = exception_type_classes exception_type_libsignal exception_type_java
  show ?thesis
    by (intro conjI impI java_environment.templates_raise [OF env J(2)] java_environment.machine_errors_raise [OF env J(2)]
        classes; assumption)
qed

theorem jni_errors_reach_java_witness:
  "raises thrown_from ref_java_memory Null (J_Signal (BadKeyType 1))
     (jni_fn_deserialize (machine_env refusing_app) None O_PublicKey PublicKey_deserialize (J_ref 1)) (ref_java_memory, ()) \<and>
   exception_type (J_Signal (BadKeyType 1)) = ''org/whispersystems/libsignal/InvalidKeyException'' \<and>
   raises thrown_from ref_java_memory 0 J_NullHandle
     (jni_fn_get_jint (machine_env refusing_app) None as_SignalMessage (\<lambda>msg. Ok (sm_counter msg)) Null) (ref_java_memory, ()) \<and>
   exception_type J_NullHandle = ''java/lang/NullPointerException''"
proof -
  have bytes: "je_convert_byte_array (machine_env refusing_app) (J_ref 1) ref_java_memory = (Inr [1, 2, 3], ref_java_memory)"
    by (simp add: machine_env_def ref_java_memory_def object_at_def)
  have key: "fails_as None (PublicKey_deserialize [1, 2, 3]) (J_Signal (BadKeyType 1))"
    by (simp add: fails_as_def PublicKey_deserialize_def KeyType_try_from_def)
  have null: "failure None as_SignalMessage (\<lambda>msg. Ok (sm_counter msg)) Null ref_java_memory J_NullHandle"
    by (simp add: failure_def)
  note facts = jni_errors_reach_java [OF machine_quiet [of refusing_app] machine_throws]
  have 1: "raises thrown_from ref_java_memory Null (J_Signal (BadKeyType 1))
      (jni_fn_deserialize (machine_env refusing_app) None O_PublicKey PublicKey_deserialize (J_ref 1)) (ref_java_memory, ())"
    by (rule facts [THEN conjunct2, THEN conjunct2, THEN conjunct2, THEN conjunct2, THEN conjunct2, THEN conjunct2,
        THEN conjunct1, rule_format]) (rule bytes, rule key)
  have 2: "raises thrown_from ref_java_memory 0 J_NullHandle
      (jni_fn_get_jint (machine_env refusing_app) None as_SignalMessage (\<lambda>msg. Ok (sm_counter msg)) Null) (ref_java_memory, ())"
    by (rule facts [THEN conjunct2, THEN conjunct2, THEN conjunct1, rule_format, OF null])
  show ?thesis using 1 2 by (simp add: exception_type_def)
qed

section \<open>Numbers\<close>

lemma jint_from_u32_Ok: "jint_from_u32 (Ok n) = Ok n"
  by (simp add: jint_from_u32_def Let_def)

lemma jlong_from_u64_Ok: "jlong_from_u64 (Ok n) = Ok n"
  by (simp add: jlong_from_u64_def Let_def)

lemma sint_u32: "sint (n :: 32 word) = (if uint n < 2 ^ 31 then uint n else uint n - 2 ^ 32)"
proof -
  have n: "0 \<le> uint n" "uint n < 2 ^ 32" using uint_lt2p [of n] by simp_all
  have "sint n = (uint n + 2 ^ 31) mod 2 ^ 32 - 2 ^ 31"
    by (simp add: sint_uint signed_take_bit_eq_take_bit_shift take_bit_eq_mod)
  also have "(uint n + 2 ^ 31) mod 2 ^ 32 = (if uint n < 2 ^ 31 then uint n + 2 ^ 31 else uint n + 2 ^ 31 - 2 ^ 32)"
  proof (cases "uint n < 2 ^ 31")
    case False
    have "(uint n + 2 ^ 31) mod 2 ^ 32 = (uint n + 2 ^ 31 - 2 ^ 32) mod 2 ^ 32" by (metis minus_mod_self2)
    also have "\<dots> = uint n + 2 ^ 31 - 2 ^ 32" using n False by (intro mod_pos_pos_trivial) simp_all
    finally show ?thesis using False by simp
  qed (use n in simp)
  finally show ?thesis by simp
qed

lemma jint_to_u8_Ok: "jint_to_u8 v = Ok b \<longleftrightarrow> 0 \<le> sint v \<and> sint v \<le> 255 \<and> uint b = sint v"
proof -
  have "uint (ucast v :: u8) = uint v mod 256" by (simp add: unsigned_ucast_eq take_bit_eq_mod)
  then have u: "uint (ucast v :: u8) = sint v" if "0 \<le> sint v" "sint v \<le> 255"
    using that uint_lt2p [of v] by (simp add: sint_u32 split: if_splits)
  show ?thesis
  proof (cases "0 \<le> sint v \<and> sint v \<le> 255")
    case True
    then show ?thesis using u by (auto simp: jint_to_u8_def word_uint_eq_iff)
  next
    case False
    then show ?thesis by (auto simp: jint_to_u8_def)
  qed
qed

section \<open>Calls that cannot succeed\<close>

text \<open>The descriptors of the methods that the stores call, except for the two that save pre-keys.\<close>

definition store_descriptors :: "string list" where
  "store_descriptors =
     [''()Lorg/whispersystems/libsignal/IdentityKeyPair;'', ''()I'',
      ''(Lorg/whispersystems/libsignal/SignalProtocolAddress;Lorg/whispersystems/libsignal/IdentityKey;)Z'',
      ''(Lorg/whispersystems/libsignal/SignalProtocolAddress;Lorg/whispersystems/libsignal/IdentityKey;Lorg/whispersystems/libsignal/state/IdentityKeyStore$Direction;)Z'',
      ''(Lorg/whispersystems/libsignal/SignalProtocolAddress;)Lorg/whispersystems/libsignal/IdentityKey;'',
      ''(I)Lorg/whispersystems/libsignal/state/PreKeyRecord;'', ''(I)V'',
      ''(I)Lorg/whispersystems/libsignal/state/SignedPreKeyRecord;'',
      ''(Lorg/whispersystems/libsignal/SignalProtocolAddress;)Lorg/whispersystems/libsignal/state/SessionRecord;'',
      ''(Lorg/whispersystems/libsignal/SignalProtocolAddress;Lorg/whispersystems/libsignal/state/SessionRecord;)V'',
      ''(Lorg/whispersystems/libsignal/groups/SenderKeyName;Lorg/whispersystems/libsignal/groups/state/SenderKeyRecord;)V'',
      ''(Lorg/whispersystems/libsignal/groups/SenderKeyName;)Lorg/whispersystems/libsignal/groups/state/SenderKeyRecord;'',
      ''()Ljava/lang/Class;'', ''()Ljava/lang/String;'', ''()J'', ''()[B'']"

definition rejects_bad_descriptors :: "'j JNIEnv \<Rightarrow> bool" where
  "rejects_bad_descriptors J \<longleftrightarrow>
     (\<forall>o' name sig args m. \<not> method_descriptor sig \<longrightarrow> isl (fst (je_call_method J o' name sig args m)))"

lemmas descriptor_simps = method_descriptor_def primitive_type_def

lemma store_descriptors_ok: "list_all method_descriptor store_descriptors"
  by (simp add: store_descriptors_def descriptor_simps)

lemma save_descriptors_bad:
  "\<not> method_descriptor ''(I,Lorg/whispersystems/libsignal/state/PreKeyRecord;)V''"
  "\<not> method_descriptor ''(I,Lorg/whispersystems/libsignal/state/SignedPreKeyRecord;)V''"
  by (simp_all add: descriptor_simps)

lemma rejected_call:
  "rejects_bad_descriptors J \<Longrightarrow> \<not> method_descriptor sig \<Longrightarrow>
     \<not> is_ok (fst (sbind (jni_try (je_call_method J o' name sig args)) k m))"
proof -
  assume "rejects_bad_descriptors J" "\<not> method_descriptor sig"
  then have "isl (fst (je_call_method J o' name sig args m))" by (simp add: rejects_bad_descriptors_def)
  then obtain t m' where "je_call_method J o' name sig args m = (Inl t, m')" by (metis isl_def prod.collapse)
  then show ?thesis by (simp add: jni_try_def)
qed

lemma not_ok_sbind: "(\<And>x m'. f m = (Ok x, m') \<Longrightarrow> \<not> is_ok (fst (g x m'))) \<Longrightarrow> \<not> is_ok (fst (sbind f g m))"
  by (cases "f m"; cases "fst (f m)") auto

lemma not_ok_from_jni: "\<not> is_ok (fst (f m)) \<Longrightarrow> \<not> is_ok (fst (from_jni f m))"
  by (cases "f m"; cases "fst (f m)") (auto simp: from_jni_def)

text \<open>
  C40. The operations that save a pre-key or a signed pre-key through Java can never succeed: the signature that they ask the
  virtual machine for has a comma and is not a method descriptor. The other signatures are method descriptors.
\<close>

theorem pre_keys_cannot_be_saved:
  assumes "rejects_bad_descriptors J"
  shows "\<not> is_ok (fst (save_pre_key (Jni_PreKeyStore J E store) i record m)) \<and>
     \<not> is_ok (fst (save_signed_pre_key (Jni_SignedPreKeyStore J E store) i srecord m)) \<and>
     list_all method_descriptor store_descriptors"
  unfolding Jni_PreKeyStore_def Jni_SignedPreKeyStore_def PreKeyStore.simps SignedPreKeyStore.simps
    do_save_pre_key_def do_save_signed_pre_key_def
  by (intro conjI not_ok_from_jni not_ok_sbind rejected_call [OF assms] save_descriptors_bad store_descriptors_ok)

lemma machine_rejects: "rejects_bad_descriptors (machine_env A)"
  by (simp add: rejects_bad_descriptors_def machine_env_def machine_call_method_def)

theorem pre_keys_cannot_be_saved_witness:
  "\<not> is_ok (fst (save_pre_key (Jni_PreKeyStore (machine_env refusing_app) ref_jni_env (J_ref 0)) 7
     (PreKeyRecord_new 7 \<lparr>kp_public_key = ref_key 1, kp_private_key = PrivateKey (DjbPrivateKey (replicate 32 1))\<rparr>) ref_java_memory))"
  using pre_keys_cannot_be_saved [OF machine_rejects] by blast

section \<open>Arguments that are not checked\<close>

text \<open>Lengths near the end of \<open>usize\<close>: the sum wraps around to nothing, or the capacity is too large.\<close>

lemma HKDF_expand_wraps:
  assumes "(k + 31) mod 2 ^ 64 < 32"
  shows "HKDF_expand C kdf prk info k = Ok []"
proof -
  have "k + 32 - 1 = k + 31" by simp
  then have "((k + 32 - 1) mod 2 ^ 64) div 32 = 0" using assms by (simp only: div_less)
  then show ?thesis unfolding HKDF_expand_def HASH_OUTPUT_SIZE_def Let_def by (simp only:) simp
qed

lemma HKDF_expand_panics:
  assumes "2 ^ 63 \<le> k" "k + 31 < 2 ^ 64"
  shows "HKDF_expand C kdf prk info k = Panic"
proof -
  have "(k + 32 - 1) mod 2 ^ 64 = k + 31" using assms by simp
  moreover have "k \<le> (k + 31) div 32 * 32" by linarith
  ultimately have "2 ^ 63 \<le> ((k + 32 - 1) mod 2 ^ 64) div 32 * 32" using assms(1) by linarith
  then show ?thesis unfolding HKDF_expand_def HASH_OUTPUT_SIZE_def Let_def by (simp only: if_True)
qed

lemma wrapped_length:
  fixes n :: int
  assumes "n < 0" "- 31 \<le> n" "int k = n + 2 ^ 64"
  shows "(k + 31) mod 2 ^ 64 < 32"
proof -
  define j where "j = nat (n + 31)"
  have j: "int j = n + 31" using assms by (simp add: j_def)
  have "int (k + 31) = int (j + 2 ^ 64)" using assms(3) j by simp
  then have "k + 31 = j + 2 ^ 64" by (simp only: of_nat_eq_iff)
  then show ?thesis using j assms by (simp only: mod_add_self2) simp
qed

text \<open>\<open>HKDF_1DeriveSecrets\<close> with a negative length: an empty result, or a panic.\<close>

lemma hkdf_negative_length:
  assumes "sint (n :: jint) < 0"
  shows "HKDF_expand C kdf prk info (unat (scast n :: 64 word)) = (if - 31 \<le> sint n then Ok [] else Panic)"
proof -
  have n: "- (2 ^ 31) \<le> sint n" using sint_ge [of n] by simp
  have "uint (scast n :: 64 word) = sint n mod 2 ^ 64" unfolding scast_eq uint_word_of_int by simp
  also have "\<dots> = (sint n + 2 ^ 64) mod 2 ^ 64" by simp
  also have "\<dots> = sint n + 2 ^ 64" using n assms by (intro mod_pos_pos_trivial) simp_all
  finally have L: "int (unat (scast n :: 64 word)) = sint n + 2 ^ 64" by simp
  show ?thesis
  proof (cases "- 31 \<le> sint n")
    case True
    then show ?thesis by (simp only: if_True HKDF_expand_wraps [OF wrapped_length [OF assms True L]])
  next
    case False
    have "int (2 ^ 63) \<le> int (unat (scast n :: 64 word))" "int (unat (scast n :: 64 word) + 31) < int (2 ^ 64)"
      unfolding of_nat_add L using n False by simp_all
    then have "2 ^ 63 \<le> unat (scast n :: 64 word)" "unat (scast n :: 64 word) + 31 < 2 ^ 64"
      by (simp_all only: of_nat_le_iff of_nat_less_iff)
    then show ?thesis using False by (simp only: if_False HKDF_expand_panics)
  qed
qed

text \<open>\<open>message_version as u8\<close> keeps the last byte: versions that agree in it make the same message.\<close>

lemma version_truncated:
  assumes "v + 256 * k = v'"
  shows "Native_PreKeySignalMessage_1New J E v = Native_PreKeySignalMessage_1New J E v'"
proof -
  have u: "uint (ucast x :: u8) = uint x mod 256" for x :: jint by (simp add: unsigned_ucast_eq take_bit_eq_mod)
  have "uint (v + 256 * k) mod 256 = ((uint v + (256 * uint k) mod 2 ^ 32) mod 2 ^ 32) mod 256"
    by (simp add: uint_word_ariths mod_simps)
  also have "\<dots> = (uint v + (256 * uint k) mod 2 ^ 32) mod 256" by (rule mod_mod_cancel) simp
  also have "\<dots> = (uint v + ((256 * uint k) mod 2 ^ 32) mod 256) mod 256" by (simp only: mod_add_right_eq)
  also have "((256 * uint k) mod 2 ^ 32) mod 256 = 0" by (subst mod_mod_cancel) simp_all
  finally have "(ucast v' :: u8) = ucast v" by (simp add: word_uint_eq_iff u assms [symmetric])
  then show ?thesis by (simp add: Native_PreKeySignalMessage_1New_def fun_eq_iff)
qed

text \<open>Each conversion on its range.\<close>

lemma jint_to_u32_cases:
  "sint v < 0 \<longrightarrow> jint_to_u32 v = Err (J_IntegerOverflow (decimal_signed v @ '' to u32''))"
  "0 \<le> sint v \<longrightarrow> (\<exists>u. jint_to_u32 v = Ok u \<and> uint u = sint v)"
  using uint_lt2p [of v] by (auto simp: jint_to_u32_def sint_u32)

lemma jint_to_u8_refused:
  "sint v < 0 \<or> 255 < sint v \<longrightarrow> jint_to_u8 v = Err (J_IntegerOverflow (decimal_signed v @ '' to u8''))"
  by (simp add: jint_to_u8_def)

lemma jint_from_u32_cases:
  fixes n :: u32
  shows "uint n < 2 ^ 31 \<longrightarrow> (\<exists>w. jint_from_u32 (Ok n) = Ok w \<and> sint w = uint n \<and> jint_to_u32 w = Ok n)"
    "2 ^ 31 \<le> uint n \<longrightarrow>
      (\<exists>w t. jint_from_u32 (Ok n) = Ok w \<and> sint w = uint n - 2 ^ 32 \<and> jint_to_u32 w = Err (J_IntegerOverflow t))"
  using uint_lt2p [of n] by (auto simp: jint_from_u32_Ok sint_u32 jint_to_u32_def)

lemma counter_to_java:
  assumes "heap m a = Some (Boxed (O_SignalMessage msg))"
  shows "\<exists>w. Native_SignalMessage_1GetCounter J E (At a) (m, r) = (w, (m, r)) \<and>
    sint w = (if uint (sm_counter msg) < 2 ^ 31 then uint (sm_counter msg) else uint (sm_counter msg) - 2 ^ 32)"
  using assms by (simp add: Native_SignalMessage_1GetCounter_def jni_fn_get_jint_def jni_run_ffi_safe_def on_fst_def
      jni_native_handle_cast_def handle_ref_At jint_from_u32_Ok as_SignalMessage_def sint_u32)

lemma time_round_trip: "jlong_from_u64 (Ok (ucast (time :: jlong) :: u64)) = Ok time"
  by (simp add: jlong_from_u64_def)



text \<open>\<open>PreKeyBundle_1New\<close> reads through a null handle of the identity key.\<close>

lemma null_identity_key:
  assumes "quiet_environment J" "heap m a = Some (Boxed (O_PublicKey k))" "je_convert_byte_array J s m = (Inr bs, m)"
    and "0 \<le> sint reg" "0 \<le> sint dev" "0 \<le> sint spk"
  shows "undefined_behaviour (fst (snd (Native_PreKeyBundle_1New J E reg dev (- 1) Null spk (At a) s Null (m, r))))"
proof -
  have "same_boxes m' (throw_error J e m')" for m' e
    by (rule java_environment.throw_error_same [OF java_environment.intro [OF assms(1)]])
  then have "undefined_behaviour (throw_error J e (m\<lparr>undefined_behaviour := True\<rparr>))" for e
    by (simp add: same_boxes_def)
  moreover have "as_PublicKey (O_PublicKey k) = Some k" by (simp add: as_PublicKey_def)
  moreover have "sint (- 1 :: jint) < 0" by simp
  ultimately show ?thesis using assms(2-6)
    by (simp add: Native_PreKeyBundle_1New_def jni_run_ffi_safe_def on_fst_def jint_to_u32_def jni_native_handle_cast_def
        handle_ref_At jni_try_def jni_native_handle_cast_optional_def handle_ref_def deref_def UB_def sbind_def)
qed

end
