(* ===== verification/Jni_Refinement.thy ===== *)
theory Jni_Refinement
  imports Jni_Safety
begin

text \<open>
  The stores of the Java interface do what the application does: for every virtual machine and every application with the
  contracts stated here, the operations of the stores simulate the operations of the application, with the conversions
  that the interface makes. The contracts are the assumptions of the locales \<open>java_vm\<close> and \<open>java_session_app\<close> and those
  built on it, which give the contracts of \<open>Simulation\<close>.
\<close>

section \<open>Reading the state of a virtual machine\<close>

text \<open>
  What an object holds that the library has a reference to, the class and the message of the pending exception, the boxes that Java
  may free (those of objects that are garbage: the classes of \<open>src/java\<close> destroy their box in \<open>finalize\<close>), and the state
  of the application.
\<close>

record ('j, 'a) java_view =
  jv_object :: "'j \<Rightarrow> nat \<Rightarrow> jdata option"
  jv_pending :: "'j \<Rightarrow> (string option \<times> string option) option"
  jv_garbage :: "'j \<Rightarrow> nat set"
  jv_state :: "'j \<Rightarrow> 'a"

definition holds :: "('j, 'a) java_view \<Rightarrow> 'j memory \<Rightarrow> jobject \<Rightarrow> jdata \<Rightarrow> bool" where
  "holds V m o' d \<longleftrightarrow> (\<exists>i. o' = J_ref i \<and> jv_object V (app m) i = Some d)"

fun value_holds :: "('j, 'a) java_view \<Rightarrow> 'j memory \<Rightarrow> JValue \<Rightarrow> jdata \<Rightarrow> bool" where
  "value_holds V m (JV_Object o') d = holds V m o' d"
| "value_holds V m (JV_Int i) d = (d = D_Int i)"
| "value_holds V m (JV_Long h) d = (d = D_Handle h)"
| "value_holds V m _ d = False"

text \<open>
  \<open>live\<close>: a box that Java may not free. \<open>ready\<close>: the memory is well-formed, and the application has its invariant. \<open>fit\<close>: and
  no exception is pending. \<open>keeps_boxes\<close>: of the boxes that were there, only garbage has changed, and none has become garbage.
  \<open>reaches\<close>: moreover, no object that was there has changed. \<open>grows\<close>: moreover, the application is in the same state. All three
  leave room for new boxes and objects, since Java code may run. \<open>jkept\<close>: \<open>reaches\<close> from a fit memory to a ready one.
\<close>

definition live :: "('j, 'a) java_view \<Rightarrow> 'j memory \<Rightarrow> nat \<Rightarrow> cell \<Rightarrow> bool" where
  "live V m a c \<longleftrightarrow> heap m a = Some c \<and> a \<notin> jv_garbage V (app m)"

definition sound :: "('j, 'a) java_view \<Rightarrow> 'j memory \<Rightarrow> bool" where
  "sound V m \<longleftrightarrow> memory_ok m \<and> jv_garbage V (app m) \<subseteq> {..<next_address m}"

definition ready :: "('j, 'a) java_view \<Rightarrow> ('a \<Rightarrow> bool) \<Rightarrow> 'j memory \<Rightarrow> bool" where
  "ready V I m \<longleftrightarrow> sound V m \<and> I (jv_state V (app m))"

definition fit :: "('j, 'a) java_view \<Rightarrow> ('a \<Rightarrow> bool) \<Rightarrow> 'j memory \<Rightarrow> bool" where
  "fit V I m \<longleftrightarrow> ready V I m \<and> jv_pending V (app m) = None"

definition persists :: "('j, 'a) java_view \<Rightarrow> 'j memory \<Rightarrow> 'j memory \<Rightarrow> bool" where
  "persists V m m' \<longleftrightarrow> (\<forall>i d. jv_object V (app m) i = Some d \<longrightarrow> jv_object V (app m') i = Some d)"

definition keeps_boxes :: "('j, 'a) java_view \<Rightarrow> 'j memory \<Rightarrow> 'j memory \<Rightarrow> bool" where
  "keeps_boxes V m m' \<longleftrightarrow>
     sound V m' \<and> frame (jv_garbage V (app m)) m m' \<and> (\<forall>a<next_address m. a \<in> jv_garbage V (app m') \<longrightarrow> a \<in> jv_garbage V (app m))"

definition reaches :: "('j, 'a) java_view \<Rightarrow> 'j memory \<Rightarrow> 'j memory \<Rightarrow> bool" where
  "reaches V m m' \<longleftrightarrow> keeps_boxes V m m' \<and> persists V m m'"

definition grows :: "('j, 'a) java_view \<Rightarrow> 'j memory \<Rightarrow> 'j memory \<Rightarrow> bool" where
  "grows V m m' \<longleftrightarrow> reaches V m m' \<and> jv_state V (app m') = jv_state V (app m)"

definition jkept :: "('j, 'a) java_view \<Rightarrow> ('a \<Rightarrow> bool) \<Rightarrow> 'j memory \<Rightarrow> 'j memory \<Rightarrow> bool" where
  "jkept V I m m' \<longleftrightarrow> fit V I m \<and> ready V I m' \<and> reaches V m m'"

lemma keeps_boxes_trans: "keeps_boxes V m m' \<Longrightarrow> keeps_boxes V m' m'' \<Longrightarrow> keeps_boxes V m m''"
proof -
  assume 1: "keeps_boxes V m m'" and 2: "keeps_boxes V m' m''"
  have next': "next_address m \<le> next_address m'" using 1 by (simp add: keeps_boxes_def frame_def)
  then have "a \<notin> jv_garbage V (app m')" if "a < next_address m" "a \<notin> jv_garbage V (app m)" for a
    using 1 that by (auto simp: keeps_boxes_def)
  with 1 2 next' show ?thesis by (auto simp: keeps_boxes_def frame_def)
qed

lemma reaches_trans: "reaches V m m' \<Longrightarrow> reaches V m' m'' \<Longrightarrow> reaches V m m''"
  by (auto simp: reaches_def persists_def intro: keeps_boxes_trans)

lemma grows_trans: "grows V m m' \<Longrightarrow> grows V m' m'' \<Longrightarrow> grows V m m''"
  by (auto simp: grows_def intro: reaches_trans)

lemma reaches_refl: "sound V m \<Longrightarrow> reaches V m m"
  by (simp add: reaches_def keeps_boxes_def persists_def frame_def sound_def)

lemma grows_refl: "sound V m \<Longrightarrow> grows V m m"
  by (simp add: grows_def reaches_refl)

lemma grows_reaches: "grows V m m' \<Longrightarrow> reaches V m m'"
  by (simp add: grows_def)

lemma reaches_sound: "reaches V m m' \<Longrightarrow> sound V m'"
  by (simp add: reaches_def keeps_boxes_def)

lemma grows_ready: "ready V I m \<Longrightarrow> grows V m m' \<Longrightarrow> ready V I m'"
  by (auto simp: ready_def grows_def dest: reaches_sound)

lemma grows_state: "grows V m m' \<Longrightarrow> jv_state V (app m') = jv_state V (app m)"
  by (simp add: grows_def)

lemma ready_sound: "ready V I m \<Longrightarrow> sound V m" "ready V I m \<Longrightarrow> memory_ok m"
  by (simp_all add: ready_def sound_def)

lemma fit_ready: "fit V I m \<Longrightarrow> ready V I m" "fit V I m \<Longrightarrow> memory_ok m" "fit V I m \<Longrightarrow> jv_pending V (app m) = None"
    "fit V I m \<Longrightarrow> sound V m"
  by (simp_all add: fit_def ready_def sound_def)

lemma holds_grows: "holds V m o' d \<Longrightarrow> grows V m m' \<Longrightarrow> holds V m' o' d"
  by (auto simp: holds_def grows_def reaches_def persists_def)

text \<open>A live box stays as it is, and live.\<close>

lemma live_reaches:
  assumes "live V m a c" "sound V m" "reaches V m m'" shows "live V m' a c"
proof -
  have "a < next_address m" using assms(1,2) by (auto simp: live_def sound_def dest: memory_ok_less)
  with assms show ?thesis by (auto simp: live_def reaches_def keeps_boxes_def frame_def)
qed

lemma live_grows: "live V m a c \<Longrightarrow> fit V I m \<Longrightarrow> grows V m m' \<Longrightarrow> live V m' a c"
  by (blast intro: live_reaches fit_ready(4) grows_reaches)

lemma jkept_refl: "jkept V I m m \<longleftrightarrow> fit V I m"
  by (auto simp: jkept_def fit_def ready_def reaches_refl)

lemma grows_jkept: "fit V I m \<Longrightarrow> grows V m m' \<Longrightarrow> jkept V I m m'"
  using grows_ready [OF fit_ready(1)] by (auto simp: jkept_def grows_reaches)

lemma jkept_trans: "jkept V I m m' \<Longrightarrow> jkept V I m' m'' \<Longrightarrow> jkept V I m m''"
  by (auto simp: jkept_def intro: reaches_trans)

interpretation jkept: simulation "jkept V I"
  by unfold_locales (rule jkept_trans)

section \<open>What the virtual machine promises\<close>

text \<open>
  The laws speak of a machine that has memory enough. The errors of the crate \<open>jni\<close> are in the record \<open>vm_errors\<close>: the texts for an
  array of a negative size, for a region beyond the end of an array and for a null pointer, and which constructions Java
  refuses, with the text for that (an address with a negative device number, a key or a session that does not parse).
  With an error, the machine may leave an exception pending.
\<close>

record vm_errors =
  ve_array_size :: string
  ve_array_region :: string
  ve_null :: string
  ve_refused :: "jdata \<Rightarrow> string option"

text \<open>\<open>gives V I P f good\<close>: on a fit memory with \<open>P\<close>, the function succeeds, makes no exception, and its result is \<open>good\<close>.\<close>

definition gives ::
    "('j, 'a) java_view \<Rightarrow> ('a \<Rightarrow> bool) \<Rightarrow> ('j memory \<Rightarrow> bool) \<Rightarrow> ('j, 'b) jni \<Rightarrow> ('b \<Rightarrow> 'j memory \<Rightarrow> bool) \<Rightarrow> bool" where
  "gives V I P f good \<longleftrightarrow>
     (\<forall>m. fit V I m \<longrightarrow> P m \<longrightarrow>
        (\<exists>x m'. f m = (Inr x, m') \<and> grows V m m' \<and> jv_pending V (app m') = None \<and> good x m'))"

text \<open>\<open>fails V I P f t\<close>: on a fit memory with \<open>P\<close>, the function fails with the text \<open>t\<close>, and may leave an exception pending.\<close>

definition fails ::
    "('j, 'a) java_view \<Rightarrow> ('a \<Rightarrow> bool) \<Rightarrow> ('j memory \<Rightarrow> bool) \<Rightarrow> ('j, 'b) jni \<Rightarrow> string \<Rightarrow> bool" where
  "fails V I P f t \<longleftrightarrow> (\<forall>m. fit V I m \<longrightarrow> P m \<longrightarrow> (\<exists>m'. f m = (Inl t, m') \<and> grows V m m'))"

definition object_value :: "('j, 'a) java_view \<Rightarrow> jdata \<Rightarrow> JValue \<Rightarrow> 'j memory \<Rightarrow> bool" where
  "object_value V d v m' \<longleftrightarrow> (\<exists>o'. v = JV_Object o' \<and> holds V m' o' d)"

text \<open>A string, or null.\<close>

definition text_value :: "('j, 'a) java_view \<Rightarrow> string option \<Rightarrow> JValue \<Rightarrow> 'j memory \<Rightarrow> bool" where
  "text_value V t v m' \<longleftrightarrow> (case t of None \<Rightarrow> v = JV_Object J_null | Some s \<Rightarrow> object_value V (D_String s) v m')"

text \<open>The constructors of the Java library that the interface uses.\<close>

definition java_constructors :: "(string \<times> string) list" where
  "java_constructors =
     [(''org/whispersystems/libsignal/groups/SenderKeyName'', ''(Ljava/lang/String;Ljava/lang/String;I)V''),
      (''org/whispersystems/libsignal/SignalProtocolAddress'', ''(Ljava/lang/String;I)V''),
      (''org/whispersystems/libsignal/IdentityKey'', ''([B)V''),
      (''org/whispersystems/libsignal/state/SessionRecord'', ''([B)V''),
      (''org/whispersystems/libsignal/protocol/SignalMessage'', ''(J)V''),
      (''org/whispersystems/libsignal/protocol/PreKeySignalMessage'', ''(J)V''),
      (''org/whispersystems/libsignal/groups/state/SenderKeyRecord'', ''(J)V'')]"

abbreviation direction_class :: string where
  "direction_class \<equiv> ''org/whispersystems/libsignal/state/IdentityKeyStore$Direction''"

text \<open>The classes that the interface looks up.\<close>

definition java_classes :: "string list" where
  "java_classes = map fst java_constructors @
     [direction_class, ''org/whispersystems/libsignal/state/IdentityKeyStore'', ''org/whispersystems/libsignal/state/SessionStore'',
      ''org/whispersystems/libsignal/state/PreKeyStore'', ''org/whispersystems/libsignal/state/SignedPreKeyStore'',
      ''org/whispersystems/libsignal/groups/state/SenderKeyStore'']"

text \<open>An array of a negative size and a region that does not fit are refused.\<close>

definition array_laws :: "vm_errors \<Rightarrow> ('j, 'a) java_view \<Rightarrow> ('a \<Rightarrow> bool) \<Rightarrow> 'j JNIEnv \<Rightarrow> bool" where
  "array_laws X V I J \<longleftrightarrow>
     (\<forall>n. sint n < 0 \<longrightarrow> fails V I (\<lambda>_. True) (je_new_byte_array J n) (ve_array_size X)) \<and>
     (\<forall>n m. fit V I m \<longrightarrow> 0 \<le> sint n \<longrightarrow>
        (\<exists>i m'. je_new_byte_array J n m = (Inr (J_ref i), m') \<and> grows V m m' \<and> jv_pending V (app m') = None \<and>
           jv_object V (app m) i = None \<and> jv_object V (app m') i = Some (D_Bytes (replicate (unat n) 0)))) \<and>
     (\<forall>i bs buf. length bs < length buf \<longrightarrow>
        fails V I (\<lambda>m. jv_object V (app m) i = Some (D_Bytes bs)) (je_set_byte_array_region J (J_ref i) 0 buf) (ve_array_region X)) \<and>
     (\<forall>i bs buf m. fit V I m \<longrightarrow> jv_object V (app m) i = Some (D_Bytes bs) \<longrightarrow> length bs = length buf \<longrightarrow>
        (\<exists>m'. je_set_byte_array_region J (J_ref i) 0 buf m = (Inr (), m') \<and> keeps_boxes V m m' \<and>
           jv_state V (app m') = jv_state V (app m) \<and> jv_pending V (app m') = None \<and>
           (\<forall>j. j \<noteq> i \<longrightarrow> jv_object V (app m') j = jv_object V (app m) j) \<and> jv_object V (app m') i = Some (D_Bytes buf)))"

text \<open>\<open>throw_new\<close> is only called for the classes in \<open>exception_classes\<close>, and may do nothing when an exception is pending.\<close>

definition exception_laws :: "vm_errors \<Rightarrow> ('j, 'a) java_view \<Rightarrow> ('a \<Rightarrow> bool) \<Rightarrow> 'j JNIEnv \<Rightarrow> bool" where
  "exception_laws X V I J \<longleftrightarrow>
     (\<forall>m. ready V I m \<longrightarrow>
        (\<exists>m'. je_exception_check J m = (Inr (jv_pending V (app m) \<noteq> None), m') \<and> grows V m m' \<and>
           jv_pending V (app m') = jv_pending V (app m))) \<and>
     (\<forall>m c t. ready V I m \<longrightarrow> jv_pending V (app m) = Some (c, t) \<longrightarrow>
        (\<exists>o' m'. je_exception_occurred J m = (Inr o', m') \<and> grows V m m' \<and> holds V m' o' (D_Throwable c t))) \<and>
     (\<forall>m. ready V I m \<longrightarrow> (\<exists>m'. je_exception_clear J m = (Inr (), m') \<and> grows V m m' \<and> jv_pending V (app m') = None)) \<and>
     (\<forall>o' c t. gives V I (\<lambda>m. holds V m o' (D_Throwable c t)) (je_call_method J o' ''getClass'' ''()Ljava/lang/Class;'' [])
        (object_value V (D_ThrowableClass c))) \<and>
     (\<forall>o' c. gives V I (\<lambda>m. holds V m o' (D_ThrowableClass c))
        (je_call_method J o' ''getCanonicalName'' ''()Ljava/lang/String;'' []) (text_value V c)) \<and>
     (\<forall>o' c t. gives V I (\<lambda>m. holds V m o' (D_Throwable c t)) (je_call_method J o' ''getMessage'' ''()Ljava/lang/String;'' [])
        (text_value V t)) \<and>
     (\<forall>m. fit V I m \<longrightarrow>
        (\<exists>m'. je_get_string J J_null m = (Inl (ve_null X), m') \<and> grows V m m' \<and> jv_pending V (app m') = None)) \<and>
     (\<forall>c\<in>set exception_classes. \<forall>m t. fit V I m \<longrightarrow>
        (\<exists>x m'. je_throw_new J c t m = (x, m') \<and> grows V m m' \<and>
           jv_pending V (app m') = Some (Some (canonical c), message_of c t))) \<and>
     (\<forall>c\<in>set exception_classes. \<forall>m t. ready V I m \<longrightarrow> jv_pending V (app m) \<noteq> None \<longrightarrow>
        (\<exists>x m'. je_throw_new J c t m = (x, m') \<and> grows V m m' \<and> jv_pending V (app m') \<noteq> None))"

text \<open>A constructor that only keeps a handle is never refused.\<close>

definition object_laws :: "vm_errors \<Rightarrow> ('j, 'a) java_view \<Rightarrow> ('a \<Rightarrow> bool) \<Rightarrow> 'j JNIEnv \<Rightarrow> bool" where
  "object_laws X V I J \<longleftrightarrow>
     (\<forall>c\<in>set java_classes. gives V I (\<lambda>_. True) (je_find_class J c) (\<lambda>o' m'. holds V m' o' (D_Class c))) \<and>
     (\<forall>s. gives V I (\<lambda>_. True) (je_new_string J s) (\<lambda>o' m'. holds V m' o' (D_String s))) \<and>
     (\<forall>o' s. gives V I (\<lambda>m. holds V m o' (D_String s)) (je_get_string J o') (\<lambda>x _. x = s)) \<and>
     (\<forall>o' bs. gives V I (\<lambda>m. holds V m o' (D_Bytes bs)) (je_convert_byte_array J o') (\<lambda>x _. x = bs)) \<and>
     (\<forall>c cls sig vs ds. (cls, sig) \<in> set java_constructors \<longrightarrow> ve_refused X (D_New cls ds) = None \<longrightarrow>
        gives V I (\<lambda>m. holds V m c (D_Class cls) \<and> list_all2 (value_holds V m) vs ds) (je_new_object J c sig vs)
          (\<lambda>o' m'. holds V m' o' (D_New cls ds))) \<and>
     (\<forall>c cls sig vs ds t. (cls, sig) \<in> set java_constructors \<longrightarrow> ve_refused X (D_New cls ds) = Some t \<longrightarrow>
        fails V I (\<lambda>m. holds V m c (D_Class cls) \<and> list_all2 (value_holds V m) vs ds) (je_new_object J c sig vs) t) \<and>
     (\<forall>cls h. (cls, ''(J)V'') \<in> set java_constructors \<longrightarrow> ve_refused X (D_New cls [D_Handle h]) = None) \<and>
     (\<forall>c. \<forall>f\<in>{''SENDING'', ''RECEIVING''}. gives V I (\<lambda>m. holds V m c (D_Class direction_class))
        (je_get_static_field J c f ''Lorg/whispersystems/libsignal/state/IdentityKeyStore$Direction;'')
        (object_value V (D_Constant direction_class f))) \<and>
     (\<forall>o' bs. gives V I (\<lambda>m. holds V m o' (D_Serializable bs)) (je_call_method J o' ''serialize'' ''()[B'' [])
        (object_value V (D_Bytes bs))) \<and>
     (\<forall>o' h. gives V I (\<lambda>m. holds V m o' (D_Native h)) (je_call_method J o' ''nativeHandle'' ''()J'' [])
        (\<lambda>v _. v = JV_Long h))"

section \<open>What the application promises\<close>

text \<open>
  \<open>calls X V I P f ret name op\<close>: on a fit memory with \<open>P\<close>, the call \<open>f\<close> of a method does what \<open>op\<close> does to the state of the
  application; it returns a value that stands for the answer of \<open>op\<close> (\<open>ret\<close>), returns with an exception pending that stands for
  the error (\<open>thrown\<close>), or fails with the text of the error, where an exception may be pending too.
\<close>

definition thrown :: "vm_errors \<Rightarrow> string \<Rightarrow> string option \<Rightarrow> string option \<Rightarrow> SignalProtocolError" where
  "thrown X name c t =
     (case t of
        None \<Rightarrow> FfiBindingError (ve_null X)
      | Some t \<Rightarrow> ApplicationCallbackThrewException name c t)"

definition calls ::
    "vm_errors \<Rightarrow> ('j, 'a) java_view \<Rightarrow> ('a \<Rightarrow> bool) \<Rightarrow> ('j memory \<Rightarrow> bool) \<Rightarrow> ('j, JValue) jni
       \<Rightarrow> ('x \<Rightarrow> JValue \<Rightarrow> 'j memory \<Rightarrow> bool) \<Rightarrow> string \<Rightarrow> ('a, 'x) sst \<Rightarrow> bool" where
  "calls X V I P f ret name op \<longleftrightarrow>
     (\<forall>m. fit V I m \<longrightarrow> P m \<longrightarrow>
        (case f m of (x, m') \<Rightarrow> ready V I m' \<and> reaches V m m' \<and>
           (case op (jv_state V (app m)) of (y, a') \<Rightarrow> jv_state V (app m') = a' \<and>
              (case y of
                 Ok v \<Rightarrow> (\<exists>rv. x = Inr rv \<and> jv_pending V (app m') = None \<and> ret v rv m')
               | Err e \<Rightarrow>
                   (\<exists>t. x = Inl t \<and> e = FfiBindingError t) \<or>
                   (\<exists>rv c t. x = Inr rv \<and> jv_pending V (app m') = Some (c, t) \<and>
                      e = thrown X name c t)
               | Panic \<Rightarrow> False))))"

definition ret_bool :: "bool \<Rightarrow> JValue \<Rightarrow> 'j memory \<Rightarrow> bool" where
  "ret_bool b v m' \<longleftrightarrow> (\<exists>w. v = JV_Bool w \<and> (w \<noteq> 0) = b)"

definition ret_int :: "jint \<Rightarrow> JValue \<Rightarrow> 'j memory \<Rightarrow> bool" where
  "ret_int i v m' \<longleftrightarrow> v = JV_Int i"

definition ret_unit :: "unit \<Rightarrow> JValue \<Rightarrow> 'j memory \<Rightarrow> bool" where
  "ret_unit u v m' \<longleftrightarrow> True"

fun ret_bytes :: "('j, 'a) java_view \<Rightarrow> bytes option \<Rightarrow> JValue \<Rightarrow> 'j memory \<Rightarrow> bool" where
  "ret_bytes V None v m' = (v = JV_Object J_null)"
| "ret_bytes V (Some bs) v m' = object_value V (D_Serializable bs) v m'"

fun ret_native :: "('j, 'a) java_view \<Rightarrow> ('t \<Rightarrow> object) \<Rightarrow> 't option \<Rightarrow> JValue \<Rightarrow> 'j memory \<Rightarrow> bool" where
  "ret_native V obj None v m' = (v = JV_Object J_null)"
| "ret_native V obj (Some t) v m' = (\<exists>a. object_value V (D_Native (At a)) v m' \<and> live V m' a (Boxed (obj t)))"

text \<open>What the arguments hold.\<close>

definition address_data :: "jaddress \<Rightarrow> jdata" where
  "address_data a = D_New ''org/whispersystems/libsignal/SignalProtocolAddress'' [D_String (fst a), D_Int (snd a)]"

definition name_data :: "string \<Rightarrow> jaddress \<Rightarrow> jdata" where
  "name_data g a = D_New ''org/whispersystems/libsignal/groups/SenderKeyName'' [D_String g, D_String (fst a), D_Int (snd a)]"

definition key_data :: "bytes \<Rightarrow> jdata" where
  "key_data bs = D_New ''org/whispersystems/libsignal/IdentityKey'' [D_Bytes bs]"

definition session_data :: "bytes \<Rightarrow> jdata" where
  "session_data bs = D_New ''org/whispersystems/libsignal/state/SessionRecord'' [D_Bytes bs]"

definition direction_data :: "Direction \<Rightarrow> jdata" where
  "direction_data d = D_Constant direction_class (case d of Sending \<Rightarrow> ''SENDING'' | Receiving \<Rightarrow> ''RECEIVING'')"

definition sender_key_data :: "ObjectHandle \<Rightarrow> jdata" where
  "sender_key_data h = D_New ''org/whispersystems/libsignal/groups/state/SenderKeyRecord'' [D_Handle h]"

text \<open>A store object: it is an object of its class, and its methods do what the application does.\<close>

definition instance_of :: "('j, 'a) java_view \<Rightarrow> ('a \<Rightarrow> bool) \<Rightarrow> 'j JNIEnv \<Rightarrow> jobject \<Rightarrow> string \<Rightarrow> bool" where
  "instance_of V I J store cls \<longleftrightarrow>
     store \<noteq> J_null \<and> (\<forall>c. gives V I (\<lambda>m. holds V m c (D_Class cls)) (je_is_instance_of J store c) (\<lambda>x _. x))"

definition identity_methods :: "vm_errors \<Rightarrow> ('j, 'a) java_view \<Rightarrow> ('a \<Rightarrow> bool) \<Rightarrow> 'j JNIEnv \<Rightarrow> 'a JavaApp \<Rightarrow> jobject \<Rightarrow> bool" where
  "identity_methods X V I J A store \<longleftrightarrow>
     instance_of V I J store ''org/whispersystems/libsignal/state/IdentityKeyStore'' \<and>
     calls X V I (\<lambda>_. True) (je_call_method J store ''getIdentityKeyPair'' ''()Lorg/whispersystems/libsignal/IdentityKeyPair;'' [])
       (ret_bytes V) ''getIdentityKeyPair'' (ja_getIdentityKeyPair A) \<and>
     calls X V I (\<lambda>_. True) (je_call_method J store ''getLocalRegistrationId'' ''()I'' [])
       ret_int ''getLocalRegistrationId'' (ja_getLocalRegistrationId A) \<and>
     (\<forall>a k oa ok. calls X V I (\<lambda>m. holds V m oa (address_data a) \<and> holds V m ok (key_data k))
       (je_call_method J store ''saveIdentity''
         ''(Lorg/whispersystems/libsignal/SignalProtocolAddress;Lorg/whispersystems/libsignal/IdentityKey;)Z''
         [JV_Object oa, JV_Object ok]) ret_bool ''saveIdentity'' (ja_saveIdentity A a k)) \<and>
     (\<forall>a k d oa ok od. calls X V I
       (\<lambda>m. holds V m oa (address_data a) \<and> holds V m ok (key_data k) \<and> holds V m od (direction_data d))
       (je_call_method J store ''isTrustedIdentity''
         ''(Lorg/whispersystems/libsignal/SignalProtocolAddress;Lorg/whispersystems/libsignal/IdentityKey;Lorg/whispersystems/libsignal/state/IdentityKeyStore$Direction;)Z''
         [JV_Object oa, JV_Object ok, JV_Object od]) ret_bool ''isTrustedIdentity'' (ja_isTrustedIdentity A a k d))"

definition session_methods :: "vm_errors \<Rightarrow> ('j, 'a) java_view \<Rightarrow> ('a \<Rightarrow> bool) \<Rightarrow> 'j JNIEnv \<Rightarrow> 'a JavaApp \<Rightarrow> jobject \<Rightarrow> bool" where
  "session_methods X V I J A store \<longleftrightarrow>
     instance_of V I J store ''org/whispersystems/libsignal/state/SessionStore'' \<and>
     (\<forall>a oa. calls X V I (\<lambda>m. holds V m oa (address_data a))
       (je_call_method J store ''loadSession''
         ''(Lorg/whispersystems/libsignal/SignalProtocolAddress;)Lorg/whispersystems/libsignal/state/SessionRecord;'' [JV_Object oa])
       (ret_bytes V) ''loadSession'' (ja_loadSession A a)) \<and>
     (\<forall>a s oa os. calls X V I (\<lambda>m. holds V m oa (address_data a) \<and> holds V m os (session_data s))
       (je_call_method J store ''storeSession''
         ''(Lorg/whispersystems/libsignal/SignalProtocolAddress;Lorg/whispersystems/libsignal/state/SessionRecord;)V''
         [JV_Object oa, JV_Object os]) ret_unit ''storeSession'' (ja_storeSession A a s))"

definition pre_key_methods :: "vm_errors \<Rightarrow> ('j, 'a) java_view \<Rightarrow> ('a \<Rightarrow> bool) \<Rightarrow> 'j JNIEnv \<Rightarrow> 'a JavaApp \<Rightarrow> jobject \<Rightarrow> bool" where
  "pre_key_methods X V I J A store \<longleftrightarrow>
     instance_of V I J store ''org/whispersystems/libsignal/state/PreKeyStore'' \<and>
     (\<forall>i. calls X V I (\<lambda>_. True)
       (je_call_method J store ''loadPreKey'' ''(I)Lorg/whispersystems/libsignal/state/PreKeyRecord;'' [JV_Int i])
       (ret_native V O_PreKeyRecord) ''loadPreKey'' (ja_loadPreKey A i)) \<and>
     (\<forall>i. calls X V I (\<lambda>_. True) (je_call_method J store ''removePreKey'' ''(I)V'' [JV_Int i])
       ret_unit ''removePreKey'' (ja_removePreKey A i))"

definition signed_pre_key_methods :: "vm_errors \<Rightarrow> ('j, 'a) java_view \<Rightarrow> ('a \<Rightarrow> bool) \<Rightarrow> 'j JNIEnv \<Rightarrow> 'a JavaApp \<Rightarrow> jobject \<Rightarrow> bool" where
  "signed_pre_key_methods X V I J A store \<longleftrightarrow>
     instance_of V I J store ''org/whispersystems/libsignal/state/SignedPreKeyStore'' \<and>
     (\<forall>i. calls X V I (\<lambda>_. True)
       (je_call_method J store ''loadSignedPreKey'' ''(I)Lorg/whispersystems/libsignal/state/SignedPreKeyRecord;'' [JV_Int i])
       (ret_native V O_SignedPreKeyRecord) ''loadSignedPreKey'' (ja_loadSignedPreKey A i))"

definition sender_key_methods :: "vm_errors \<Rightarrow> ('j, 'a) java_view \<Rightarrow> ('a \<Rightarrow> bool) \<Rightarrow> 'j JNIEnv \<Rightarrow> 'a JavaApp \<Rightarrow> jobject \<Rightarrow> bool" where
  "sender_key_methods X V I J A store \<longleftrightarrow>
     instance_of V I J store ''org/whispersystems/libsignal/groups/state/SenderKeyStore'' \<and>
     (\<forall>g a on. calls X V I (\<lambda>m. holds V m on (name_data g a))
       (je_call_method J store ''loadSenderKey''
         ''(Lorg/whispersystems/libsignal/groups/SenderKeyName;)Lorg/whispersystems/libsignal/groups/state/SenderKeyRecord;''
         [JV_Object on]) (ret_native V O_SenderKeyRecord) ''loadSenderKey'' (ja_loadSenderKey A g a)) \<and>
     (\<forall>g a r on or h. calls X V I
       (\<lambda>m. holds V m on (name_data g a) \<and> holds V m or (sender_key_data (At h)) \<and> live V m h (Boxed (O_SenderKeyRecord r)))
       (je_call_method J store ''storeSenderKey''
         ''(Lorg/whispersystems/libsignal/groups/SenderKeyName;Lorg/whispersystems/libsignal/groups/state/SenderKeyRecord;)V''
         [JV_Object on, JV_Object or]) ret_unit ''storeSenderKey'' (ja_storeSenderKey A g a r))"

section \<open>The stores of the application\<close>

text \<open>The application as stores of the library: with the conversions of keys, sessions and numbers, and their errors.\<close>

definition to_jaddress :: "ProtocolAddress \<Rightarrow> jaddress" where
  "to_jaddress a = (pa_name a, pa_device_id a)"

fun signal_result :: "(SignalJniError, 'b) result \<Rightarrow> 'b sresult" where
  "signal_result (Ok x) = Ok x"
| "signal_result (Err e) = Err (SignalProtocolError_from e)"
| "signal_result Panic = Panic"

definition too_large :: "vm_errors \<Rightarrow> bytes \<Rightarrow> string" where
  "too_large X bs = (if sint (word_of_nat (length bs) :: jint) < 0 then ve_array_size X else ve_array_region X)"

definition sized :: "vm_errors \<Rightarrow> bytes \<Rightarrow> ('a, 'x) sst \<Rightarrow> ('a, 'x) sst" where
  "sized X bs op = (if length bs < 2 ^ 31 then op else sthrow (FfiBindingError (too_large X bs)))"

definition checked :: "vm_errors \<Rightarrow> jdata \<Rightarrow> ('a, 'x) sst \<Rightarrow> ('a, 'x) sst" where
  "checked X d op = (case ve_refused X d of None \<Rightarrow> op | Some t \<Rightarrow> sthrow (FfiBindingError t))"

definition App_IdentityKeyStore :: "vm_errors \<Rightarrow> ('sc, 'pt, 'r) jni_env \<Rightarrow> 'a JavaApp \<Rightarrow> 'a IdentityKeyStore" where
  "App_IdentityKeyStore X E A =
     \<lparr>get_identity_key_pair =
        sbind (ja_getIdentityKeyPair A) (\<lambda>bits. case bits of
          None \<Rightarrow> sthrow (InternalError ''getIdentityKeyPair returned null'')
        | Some k \<Rightarrow> slift (IdentityKeyPair_try_from (env_IdentityKeyPair E) k)),
      get_local_registration_id = sbind (ja_getLocalRegistrationId A) (\<lambda>i. slift (signal_result (jint_to_u32 i))),
      save_identity = (\<lambda>a i. checked X (address_data (to_jaddress a))
        (sized X (IdentityKey_serialize i) (checked X (key_data (IdentityKey_serialize i))
          (ja_saveIdentity A (to_jaddress a) (IdentityKey_serialize i))))),
      is_trusted_identity = (\<lambda>a i d. checked X (address_data (to_jaddress a))
        (sized X (IdentityKey_serialize i) (checked X (key_data (IdentityKey_serialize i))
          (ja_isTrustedIdentity A (to_jaddress a) (IdentityKey_serialize i) d)))),
      get_identity = (\<lambda>a. checked X (address_data (to_jaddress a))
        (sbind (ja_getIdentity A (to_jaddress a)) (\<lambda>bits. case bits of
          None \<Rightarrow> sret None
        | Some k \<Rightarrow> sbind (slift (IdentityKey_decode k)) (\<lambda>k. sret (Some k)))))\<rparr>"

definition App_SessionStore :: "vm_errors \<Rightarrow> ('sc, 'pt, 'r) jni_env \<Rightarrow> 'a JavaApp \<Rightarrow> 'a SessionStore" where
  "App_SessionStore X E A =
     \<lparr>load_session = (\<lambda>a. checked X (address_data (to_jaddress a))
        (sbind (ja_loadSession A (to_jaddress a)) (\<lambda>session. case session of
          None \<Rightarrow> sret None
        | Some s \<Rightarrow> sbind (slift (SessionRecord_deserialize (env_Record E) s)) (\<lambda>r. sret (Some r))))),
      store_session = (\<lambda>a r. checked X (address_data (to_jaddress a))
        (sbind (slift (SessionRecord_serialize (env_Record E) r)) (\<lambda>bs.
          sized X bs (checked X (session_data bs) (ja_storeSession A (to_jaddress a) bs)))))\<rparr>"

text \<open>Pre-keys are never saved by the protocol operations; through Java they cannot be.\<close>

definition App_PreKeyStore :: "'a JavaApp \<Rightarrow> 'a PreKeyStore" where
  "App_PreKeyStore A =
     \<lparr>get_pre_key = (\<lambda>i. sbind (ja_loadPreKey A i) (\<lambda>t. slift (ok_or t InvalidPreKeyId))),
      save_pre_key = (\<lambda>_ _. sthrow (FfiBindingError ''storePreKey'')),
      remove_pre_key = (\<lambda>i. ja_removePreKey A i)\<rparr>"

definition App_SignedPreKeyStore :: "'a JavaApp \<Rightarrow> 'a SignedPreKeyStore" where
  "App_SignedPreKeyStore A =
     \<lparr>get_signed_pre_key = (\<lambda>i. sbind (ja_loadSignedPreKey A i) (\<lambda>t. slift (ok_or t InvalidSignedPreKeyId))),
      save_signed_pre_key = (\<lambda>_ _. sthrow (FfiBindingError ''storeSignedPreKey''))\<rparr>"

definition App_SenderKeyStore :: "vm_errors \<Rightarrow> 'a JavaApp \<Rightarrow> 'a SenderKeyStore" where
  "App_SenderKeyStore X A =
     \<lparr>store_sender_key = (\<lambda>n r. checked X (name_data (skn_group_id n) (to_jaddress (skn_sender n)))
        (ja_storeSenderKey A (skn_group_id n) (to_jaddress (skn_sender n)) r)),
      load_sender_key = (\<lambda>n. checked X (name_data (skn_group_id n) (to_jaddress (skn_sender n)))
        (ja_loadSenderKey A (skn_group_id n) (to_jaddress (skn_sender n))))\<rparr>"

section \<open>Operations of the interface and of the application\<close>

text \<open>\<open>does V I f op m\<close>: from \<open>m\<close>, the operation \<open>f\<close> of the interface does what \<open>op\<close> does to the application.\<close>

definition does ::
    "('j, 'a) java_view \<Rightarrow> ('a \<Rightarrow> bool) \<Rightarrow> ('j memory, SignalJniError, 'x) st \<Rightarrow> ('a, 'x) sst \<Rightarrow> 'j memory \<Rightarrow> bool" where
  "does V I f op m \<longleftrightarrow>
     (\<exists>x m'. f m = (x, m') \<and> jkept V I m m' \<and> (\<not> interface_error (signal_result x) \<longrightarrow> fit V I m') \<and>
        op (jv_state V (app m)) = (signal_result x, jv_state V (app m')))"

lemma does_sim:
  assumes "\<And>m. fit V I m \<Longrightarrow> does V I f op m"
  shows "sim (\<lambda>m. jv_state V (app m)) (jkept V I) (from_jni f) op"
proof (rule simI)
  fix m x m' assume m: "jkept V I m m" and run: "from_jni f m = (x, m')"
  obtain y m1 where "f m = (y, m1)" "jkept V I m m1" "\<not> interface_error (signal_result y) \<longrightarrow> fit V I m1"
      "op (jv_state V (app m)) = (signal_result y, jv_state V (app m1))"
    using assms [of m] m by (auto simp: jkept_refl does_def)
  with run show "jkept V I m m' \<and> (\<not> interface_error x \<longrightarrow> jkept V I m' m') \<and> op (jv_state V (app m)) = (x, jv_state V (app m'))"
    by (cases y) (auto simp: from_jni_def jkept_refl)
qed

lemma does_basic:
  "fit V I m \<Longrightarrow> does V I (sret x) (sret x) m"
  "fit V I m \<Longrightarrow> signal_result r = r' \<Longrightarrow> does V I (slift r) (slift r') m"
  "fit V I m \<Longrightarrow> SignalProtocolError_from e = e' \<Longrightarrow> does V I (sthrow e) (sthrow e') m"
  by (auto simp: does_def jkept_refl)

lemma signal_jni_result [simp]: "signal_result (jni_result r) = r"
  by (cases r) (simp_all add: SignalProtocolError_from_def)

lemma signal_ok_or: "signal_result (ok_or t (J_Signal e)) = ok_or t e"
  by (cases t) (simp_all add: SignalProtocolError_from_def)

lemma does_kept:
  assumes "f m = (Ok x, m1)" "jkept V I m m1" "jv_state V (app m1) = jv_state V (app m)" "does V I (g x) op m1"
  shows "does V I (sbind f g) op m"
  using assms jkept_trans [OF assms(2)] by (auto simp: does_def)

lemma does_after:
  assumes "f m = (Ok x, m1)" "grows V m m1" "fit V I m1" "fit V I m" "does V I (g x) op m1"
  shows "does V I (sbind f g) op m"
  by (rule does_kept, rule assms(1), rule grows_jkept [OF assms(4,2)], rule grows_state [OF assms(2)], rule assms(5))

lemma box_step:
  assumes "fit V I m"
  obtains a m' where "jni_box_object obj (Ok t) m = (Ok (At a), m')" "jkept V I m m'" "fit V I m'" "app m' = app m"
    "live V m' a (Boxed (obj t))"
proof -
  let ?m = "snd (alloc (Boxed (obj t)) m)"
  have ok: "memory_ok m" "jv_garbage V (app m) \<subseteq> {..<next_address m}" using fit_ready(4) [OF assms] by (simp_all add: sound_def)
  have fr: "frame W m ?m" for W by (rule extends_frame [OF extends_alloc [OF ok(1)]])
  have "sound V ?m" using ok(2) alloc_ok [OF ok(1)] by (auto simp: sound_def)
  then have "jkept V I m ?m" "fit V I ?m" using assms fr
    by (simp_all add: jkept_def fit_def ready_def reaches_def persists_def keeps_boxes_def)
  moreover have "live V ?m (next_address m) (Boxed (obj t))" using ok(2) by (auto simp: live_def)
  ultimately show thesis using that [of "next_address m" ?m] by (simp add: jni_box_object_def)
qed

lemma does_slift:
  assumes "fit V I m" "\<And>x. r = Ok x \<Longrightarrow> does V I (g x) (h x) m"
  shows "does V I (sbind (slift (jni_result r)) g) (sbind (slift r) h) m"
  using assms by (cases r) (auto simp: does_def jkept_refl SignalProtocolError_from_def)

lemma does_Some: "does V I (slift (jni_result r)) (slift r) m \<Longrightarrow>
    does V I (sbind (slift (jni_result r)) (\<lambda>x. sret (Some x))) (sbind (slift r) (\<lambda>x. sret (Some x))) m"
  by (cases r) (auto simp: does_def)

text \<open>\<open>makes V I f m d\<close>: the operation makes an object that holds \<open>d\<close>.\<close>

definition makes ::
    "('j, 'a) java_view \<Rightarrow> ('a \<Rightarrow> bool) \<Rightarrow> ('j memory, SignalJniError, jobject) st \<Rightarrow> 'j memory \<Rightarrow> jdata \<Rightarrow> bool" where
  "makes V I f m d \<longleftrightarrow> (\<exists>o' m'. f m = (Ok o', m') \<and> grows V m m' \<and> fit V I m' \<and> holds V m' o' d)"

lemma makesI: "f m = (Ok o', m') \<Longrightarrow> grows V m m' \<Longrightarrow> fit V I m' \<Longrightarrow> holds V m' o' d \<Longrightarrow> makes V I f m d"
  by (auto simp: makes_def)

lemma makesE:
  assumes "makes V I f m d"
  obtains o' m' where "f m = (Ok o', m')" "grows V m m'" "fit V I m'" "holds V m' o' d"
  using assms by (auto simp: makes_def)

lemma does_makes:
  assumes "makes V I f m d" "fit V I m" "\<And>o' m'. grows V m m' \<Longrightarrow> fit V I m' \<Longrightarrow> holds V m' o' d \<Longrightarrow> does V I (g o') op m'"
  shows "does V I (sbind f g) op m"
proof -
  obtain o' m' where "f m = (Ok o', m')" "grows V m m'" "fit V I m'" "holds V m' o' d" using assms(1) by (auto simp: makes_def)
  then show ?thesis using assms(2,3) by (intro does_after) auto
qed

text \<open>\<open>builds X V I f m d\<close>: the operation makes an object that holds \<open>d\<close>, or is refused as \<open>X\<close> says.\<close>

definition builds ::
    "vm_errors \<Rightarrow> ('j, 'a) java_view \<Rightarrow> ('a \<Rightarrow> bool) \<Rightarrow> ('j memory, SignalJniError, jobject) st \<Rightarrow> 'j memory \<Rightarrow> jdata \<Rightarrow> bool" where
  "builds X V I f m d \<longleftrightarrow>
     (case ve_refused X d of
        None \<Rightarrow> makes V I f m d
      | Some t \<Rightarrow> \<exists>m'. f m = (Err (J_Jni t), m') \<and> grows V m m')"

lemma builds_after:
  assumes "f m = (Ok x, m1)" "grows V m m1" "builds X V I (g x) m1 d"
  shows "builds X V I (sbind f g) m d"
  using assms by (auto simp: builds_def makes_def split: option.splits intro: grows_trans)

lemma does_refused:
  assumes "f m = (Err (J_Jni t), m')" "grows V m m'" "fit V I m"
  shows "does V I (sbind f g) (sthrow (FfiBindingError t)) m"
  using assms by (auto simp: does_def grows_jkept grows_state SignalProtocolError_from_def)

lemma does_builds:
  assumes "builds X V I f m d" "fit V I m"
    and "\<And>o' m'. grows V m m' \<Longrightarrow> fit V I m' \<Longrightarrow> holds V m' o' d \<Longrightarrow> does V I (g o') op m'"
  shows "does V I (sbind f g) (checked X d op) m"
  using assms by (cases "ve_refused X d") (auto simp: builds_def checked_def intro: does_makes does_refused)

lemma does_sbind:
  assumes "does V I f op m" "\<And>x m'. fit V I m' \<Longrightarrow> does V I (g x) (h x) m'"
  shows "does V I (sbind f g) (sbind op h) m"
proof -
  obtain x m1 where f: "f m = (x, m1)" "jkept V I m m1" "op (jv_state V (app m)) = (signal_result x, jv_state V (app m1))"
    and fit1: "\<not> interface_error (signal_result x) \<longrightarrow> fit V I m1"
    using assms(1) by (auto simp: does_def)
  show ?thesis
  proof (cases x)
    case (Ok v)
    have "does V I (g v) (h v) m1" using assms(2) fit1 Ok by simp
    then show ?thesis using f Ok jkept_trans [OF f(2)] by (auto simp: does_def)
  qed (use f fit1 in \<open>auto simp: does_def\<close>)
qed

lemma sbind_slift_Ok: "sbind (slift (Ok x)) f = f x"
  by (rule ext) simp

lemma sbind_sret_right: "sbind op sret = op"
  by (rule ext) (auto simp: sbind_def split: prod.splits result.splits)

locale java_vm =
  fixes X :: vm_errors and V :: "('j, 'a) java_view" and I :: "'a \<Rightarrow> bool" and J :: "'j JNIEnv"
  assumes objects: "object_laws X V I J" and arrays: "array_laws X V I J" and exceptions: "exception_laws X V I J"
begin

lemma gives_try:
  assumes "gives V I P f good" "fit V I m" "P m"
  obtains x m' where "jni_try f m = (Ok x, m')" "grows V m m'" "fit V I m'" "good x m'"
proof -
  obtain x m' where f: "f m = (Inr x, m')" and g: "grows V m m'" "jv_pending V (app m') = None" and x: "good x m'"
    using assms by (auto simp: gives_def)
  have "fit V I m'" using g grows_ready [OF fit_ready(1) [OF assms(2)]] by (simp add: fit_def)
  then show thesis using that f g x by (simp add: jni_try_def)
qed

lemma fails_try:
  assumes "fails V I P f t" "fit V I m" "P m"
  obtains m' where "jni_try f m = (Err (J_Jni t), m')" "grows V m m'"
  using assms that by (auto simp: fails_def jni_try_def)

lemma class_law: "cls' \<in> set java_classes \<Longrightarrow> gives V I (\<lambda>_. True) (je_find_class J cls') (\<lambda>o' m'. holds V m' o' (D_Class cls'))"
  and string_law: "gives V I (\<lambda>_. True) (je_new_string J s) (\<lambda>o' m'. holds V m' o' (D_String s))"
  and get_string_law: "gives V I (\<lambda>m. holds V m o' (D_String s)) (je_get_string J o') (\<lambda>x _. x = s)"
  and convert_law: "gives V I (\<lambda>m. holds V m o' (D_Bytes bs)) (je_convert_byte_array J o') (\<lambda>x _. x = bs)"
  and constructor_law: "(cls, sig) \<in> set java_constructors \<Longrightarrow> ve_refused X (D_New cls ds) = None \<Longrightarrow>
     gives V I (\<lambda>m. holds V m c (D_Class cls) \<and> list_all2 (value_holds V m) vs ds) (je_new_object J c sig vs)
       (\<lambda>o' m'. holds V m' o' (D_New cls ds))"
  and refusal_law: "(cls, sig) \<in> set java_constructors \<Longrightarrow> ve_refused X (D_New cls ds) = Some t \<Longrightarrow>
     fails V I (\<lambda>m. holds V m c (D_Class cls) \<and> list_all2 (value_holds V m) vs ds) (je_new_object J c sig vs) t"
  and handle_kept: "(cls, ''(J)V'') \<in> set java_constructors \<Longrightarrow> ve_refused X (D_New cls [D_Handle h]) = None"
  and serialize_law: "gives V I (\<lambda>m. holds V m o' (D_Serializable bs)) (je_call_method J o' ''serialize'' ''()[B'' [])
     (object_value V (D_Bytes bs))"
  and handle_law: "gives V I (\<lambda>m. holds V m o' (D_Native h)) (je_call_method J o' ''nativeHandle'' ''()J'' [])
     (\<lambda>v _. v = JV_Long h)"
  using objects by (simp_all add: object_laws_def)

lemma direction_law: "gives V I (\<lambda>m. holds V m c (D_Class direction_class))
    (je_get_static_field J c (case d of Sending \<Rightarrow> ''SENDING'' | Receiving \<Rightarrow> ''RECEIVING'')
      ''Lorg/whispersystems/libsignal/state/IdentityKeyStore$Direction;'') (object_value V (direction_data d))"
  using objects by (cases d) (simp_all add: object_laws_def direction_data_def)

subsection \<open>Arguments\<close>

lemma constructor_class: "(cls, sig) \<in> set java_constructors \<Longrightarrow> cls \<in> set java_classes"
  by (force simp: java_classes_def)

lemma class_makes: "fit V I m \<Longrightarrow> c \<in> set java_classes \<Longrightarrow> makes V I (jni_try (je_find_class J c)) m (D_Class c)"
  by (rule gives_try [OF class_law, of c m]) (auto simp: makes_def)

lemma string_makes: "fit V I m \<Longrightarrow> makes V I (jni_try (je_new_string J s)) m (D_String s)"
  by (rule gives_try [OF string_law, of m]) (auto simp: makes_def)

lemma construct:
  assumes c: "(cls, sig) \<in> set java_constructors" and m: "fit V I m"
    and args: "holds V m c (D_Class cls)" "list_all2 (value_holds V m) vs ds"
  shows "builds X V I (jni_try (je_new_object J c sig vs)) m (D_New cls ds)"
proof (cases "ve_refused X (D_New cls ds)")
  case None
  show ?thesis
    by (rule gives_try [OF constructor_law [where c = c and vs = vs, OF c None] m])
       (use args None in \<open>auto simp: builds_def makes_def\<close>)
next
  case (Some t)
  show ?thesis
    by (rule fails_try [OF refusal_law [where c = c and vs = vs, OF c Some] m]) (use args Some in \<open>auto simp: builds_def\<close>)
qed

lemma address_builds:
  assumes "fit V I m"
  shows "builds X V I (protocol_address_to_jobject J a) m (address_data (to_jaddress a))"
proof -
  let ?c = "''org/whispersystems/libsignal/SignalProtocolAddress''" and ?sig = "''(Ljava/lang/String;I)V''"
  have c: "?c \<in> set java_classes" by (simp add: java_classes_def java_constructors_def)
  obtain oc m1 where 1: "jni_try (je_find_class J ?c) m = (Ok oc, m1)" "grows V m m1" "fit V I m1" "holds V m1 oc (D_Class ?c)"
    using makesE [OF class_makes [OF assms c]] .
  obtain os m2 where 2: "jni_try (je_new_string J (pa_name a)) m1 = (Ok os, m2)" "grows V m1 m2" "fit V I m2"
      "holds V m2 os (D_String (pa_name a))"
    using makesE [OF string_makes [OF 1(3)]] .
  have "builds X V I (jni_try (je_new_object J oc ?sig [JV_Object os, JV_Int (pa_device_id a)])) m2
      (D_New ?c [D_String (pa_name a), D_Int (pa_device_id a)])"
    by (rule construct) (use 2 holds_grows [OF 1(4) 2(2)] in \<open>simp_all add: java_constructors_def\<close>)
  then show ?thesis
    unfolding protocol_address_to_jobject_def jint_from_u32_Ok sbind_slift_Ok address_data_def to_jaddress_def fst_conv snd_conv
    by - (rule builds_after, rule 1(1), rule 1(2), rule builds_after, rule 2(1), rule 2(2))
qed

lemma name_builds:
  assumes "fit V I m"
  shows "builds X V I (sender_key_name_to_jobject J n) m (name_data (skn_group_id n) (to_jaddress (skn_sender n)))"
proof -
  let ?c = "''org/whispersystems/libsignal/groups/SenderKeyName''" and ?sig = "''(Ljava/lang/String;Ljava/lang/String;I)V''"
  let ?a = "skn_sender n"
  have c: "?c \<in> set java_classes" by (simp add: java_classes_def java_constructors_def)
  obtain oc m1 where 1: "jni_try (je_find_class J ?c) m = (Ok oc, m1)" "grows V m m1" "fit V I m1" "holds V m1 oc (D_Class ?c)"
    using makesE [OF class_makes [OF assms c]] .
  obtain og m2 where 2: "jni_try (je_new_string J (skn_group_id n)) m1 = (Ok og, m2)" "grows V m1 m2" "fit V I m2"
      "holds V m2 og (D_String (skn_group_id n))"
    using makesE [OF string_makes [OF 1(3)]] .
  obtain os m3 where 3: "jni_try (je_new_string J (pa_name ?a)) m2 = (Ok os, m3)" "grows V m2 m3" "fit V I m3"
      "holds V m3 os (D_String (pa_name ?a))"
    using makesE [OF string_makes [OF 2(3)]] .
  note old = holds_grows [OF 1(4) grows_trans [OF 2(2) 3(2)]] holds_grows [OF 2(4) 3(2)]
  have "builds X V I (jni_try (je_new_object J oc ?sig [JV_Object og, JV_Object os, JV_Int (pa_device_id ?a)])) m3
      (D_New ?c [D_String (skn_group_id n), D_String (pa_name ?a), D_Int (pa_device_id ?a)])"
    by (rule construct) (use 3 old in \<open>simp_all add: java_constructors_def\<close>)
  then show ?thesis
    unfolding sender_key_name_to_jobject_def jint_from_u32_Ok sbind_slift_Ok name_data_def to_jaddress_def fst_conv snd_conv
    by - (rule builds_after, rule 1(1), rule 1(2), rule builds_after, rule 2(1), rule 2(2), rule builds_after, rule 3(1), rule 3(2))
qed

text \<open>A byte array is made, or refused when it is too large for Java.\<close>

lemma array_refused: "sint n < 0 \<Longrightarrow> fails V I (\<lambda>_. True) (je_new_byte_array J n) (ve_array_size X)"
  using arrays by (simp add: array_laws_def)

lemma array_made:
  assumes "fit V I m" "0 \<le> sint n"
  obtains i m' where "je_new_byte_array J n m = (Inr (J_ref i), m')" "grows V m m'" "fit V I m'" "jv_object V (app m) i = None"
    "jv_object V (app m') i = Some (D_Bytes (replicate (unat n) 0))"
proof -
  obtain i m' where 1: "je_new_byte_array J n m = (Inr (J_ref i), m')" "grows V m m'" "jv_pending V (app m') = None"
      "jv_object V (app m) i = None" "jv_object V (app m') i = Some (D_Bytes (replicate (unat n) 0))"
    using arrays [unfolded array_laws_def, THEN conjunct2, THEN conjunct1, rule_format, OF assms] by blast
  moreover have "fit V I m'" using 1(2,3) grows_ready [OF fit_ready(1) [OF assms(1)]] by (simp add: fit_def)
  ultimately show thesis using that by blast
qed

lemma region_refused: "length bs < length buf \<Longrightarrow>
    fails V I (\<lambda>m. jv_object V (app m) i = Some (D_Bytes bs)) (je_set_byte_array_region J (J_ref i) 0 buf) (ve_array_region X)"
  using arrays by (simp add: array_laws_def)

lemma region_set:
  assumes "fit V I m" "jv_object V (app m) i = Some (D_Bytes bs)" "length bs = length buf"
  obtains m' where "je_set_byte_array_region J (J_ref i) 0 buf m = (Inr (), m')" "keeps_boxes V m m'"
    "jv_state V (app m') = jv_state V (app m)" "jv_pending V (app m') = None"
    "\<forall>j. j \<noteq> i \<longrightarrow> jv_object V (app m') j = jv_object V (app m) j" "jv_object V (app m') i = Some (D_Bytes buf)"
  using arrays [unfolded array_laws_def, THEN conjunct2, THEN conjunct2, THEN conjunct2, rule_format, OF assms] that by blast

lemma to_jbytearray_makes:
  assumes m: "fit V I m" and len: "length bs < 2 ^ 31"
  shows "makes V I (to_jbytearray J (Ok bs)) m (D_Bytes bs)"
proof -
  let ?n = "word_of_nat (length bs) :: jint"
  have n: "unat ?n = length bs" using len by (simp add: unat_of_nat)
  then have "uint ?n = int (length bs)" by (metis uint_nat)
  then have "0 \<le> sint ?n" using len by (simp add: sint_u32)
  then obtain i m1 where 1: "je_new_byte_array J ?n m = (Inr (J_ref i), m1)" "grows V m m1" and fit1: "fit V I m1" and
      new: "jv_object V (app m) i = None" "jv_object V (app m1) i = Some (D_Bytes (replicate (length bs) 0))"
    using array_made [OF m] n by metis
  have len': "length (replicate (length bs) (0 :: u8)) = length bs" by simp
  obtain m2 where 2: "je_set_byte_array_region J (J_ref i) 0 bs m1 = (Inr (), m2)" "keeps_boxes V m1 m2"
      "jv_state V (app m2) = jv_state V (app m1)" "jv_pending V (app m2) = None"
      "\<forall>j. j \<noteq> i \<longrightarrow> jv_object V (app m2) j = jv_object V (app m1) j" "jv_object V (app m2) i = Some (D_Bytes bs)"
    using region_set [OF fit1 new(2) len'] .
  have "persists V m m2" unfolding persists_def
  proof (intro allI impI)
    fix j d assume j: "jv_object V (app m) j = Some d"
    then have "j \<noteq> i" using new(1) by auto
    with j 1(2) 2(5) show "jv_object V (app m2) j = Some d" by (simp add: grows_def reaches_def persists_def)
  qed
  then have g: "grows V m m2" using 1(2) 2(2,3) by (auto simp: grows_def reaches_def intro: keeps_boxes_trans)
  have "fit V I m2" using g 2(4) grows_ready [OF fit_ready(1) [OF m]] by (simp add: fit_def)
  then show ?thesis
    by (rule makesI [rotated 2]) (use 1 2 g in \<open>auto simp: to_jbytearray_def jni_try_def holds_def\<close>)
qed

lemma to_jbytearray_refused:
  assumes m: "fit V I m" and len: "\<not> length bs < 2 ^ 31"
  obtains m' where "to_jbytearray J (Ok bs) m = (Err (J_Jni (too_large X bs)), m')" "grows V m m'"
proof (cases "sint (word_of_nat (length bs) :: jint) < 0")
  case True
  obtain m1 where 1: "jni_try (je_new_byte_array J (word_of_nat (length bs))) m = (Err (J_Jni (ve_array_size X)), m1)" "grows V m m1"
    using fails_try [OF array_refused [OF True] m] by blast
  then show thesis using that True by (simp add: to_jbytearray_def too_large_def)
next
  case False
  let ?n = "word_of_nat (length bs) :: jint"
  have "uint ?n < 2 ^ 31" using False uint_lt2p [of ?n] by (simp add: sint_u32 split: if_splits)
  then have "unat ?n < 2 ^ 31" by (simp add: nat_less_iff flip: nat_uint_eq)
  then have less: "length (replicate (unat ?n) (0 :: u8)) < length bs" using len by simp
  have "0 \<le> sint ?n" using False by simp
  then obtain i m1 where 1: "je_new_byte_array J ?n m = (Inr (J_ref i), m1)" "grows V m m1" and fit1: "fit V I m1" and
      new: "jv_object V (app m1) i = Some (D_Bytes (replicate (unat ?n) 0))"
    using array_made [OF m] by metis
  obtain m2 where 2: "jni_try (je_set_byte_array_region J (J_ref i) 0 bs) m1 = (Err (J_Jni (ve_array_region X)), m2)" "grows V m1 m2"
    using fails_try [OF region_refused [OF less] fit1] new by blast
  have "jni_try (je_new_byte_array J ?n) m = (Ok (J_ref i), m1)" using 1(1) by (simp add: jni_try_def)
  then show thesis using that 2 grows_trans [OF 1(2) 2(2)] False by (simp add: to_jbytearray_def too_large_def)
qed

lemma does_serialized:
  assumes m: "fit V I m" and c: "(cls, ''([B)V'') \<in> set java_constructors"
    and k: "\<And>o' m'. grows V m m' \<Longrightarrow> fit V I m' \<Longrightarrow> holds V m' o' (D_New cls [D_Bytes bs]) \<Longrightarrow> does V I (g o') op m'"
  shows "does V I (sbind (jobject_from_serialized J cls bs) g) (sized X bs (checked X (D_New cls [D_Bytes bs]) op)) m"
proof -
  obtain oc m1 where 1: "jni_try (je_find_class J cls) m = (Ok oc, m1)" "grows V m m1" "fit V I m1" "holds V m1 oc (D_Class cls)"
    using makesE [OF class_makes [OF m constructor_class [OF c]]] .
  show ?thesis
  proof (cases "length bs < 2 ^ 31")
    case True
    obtain ob m2 where 2: "to_jbytearray J (Ok bs) m1 = (Ok ob, m2)" "grows V m1 m2" "fit V I m2" "holds V m2 ob (D_Bytes bs)"
      using makesE [OF to_jbytearray_makes [OF 1(3) True]] .
    have "builds X V I (jni_try (je_new_object J oc ''([B)V'' [JV_Object ob])) m2 (D_New cls [D_Bytes bs])"
      by (rule construct [OF c 2(3) holds_grows [OF 1(4) 2(2)]]) (use 2 in simp)
    then have "builds X V I (jobject_from_serialized J cls bs) m (D_New cls [D_Bytes bs])"
      unfolding jobject_from_serialized_def
      by - (rule builds_after, rule 1(1), rule 1(2), rule builds_after, rule 2(1), rule 2(2))
    with True show ?thesis unfolding sized_def by (simp only: if_True) (rule does_builds [OF _ m k])
  next
    case False
    obtain m2 where 2: "to_jbytearray J (Ok bs) m1 = (Err (J_Jni (too_large X bs)), m2)" "grows V m1 m2"
      using to_jbytearray_refused [OF 1(3) False] .
    then have "jobject_from_serialized J cls bs m = (Err (J_Jni (too_large X bs)), m2)"
      using 1(1) by (simp add: jobject_from_serialized_def)
    then show ?thesis unfolding sized_def if_not_P [OF False] by (rule does_refused [OF _ grows_trans [OF 1(2) 2(2)] m])
  qed
qed

lemma native_makes:
  assumes m: "fit V I m" and c: "(cls, ''(J)V'') \<in> set java_constructors"
  shows "makes V I (jobject_from_native_handle J cls h) m (D_New cls [D_Handle h])"
proof -
  obtain oc m1 where 1: "jni_try (je_find_class J cls) m = (Ok oc, m1)" "grows V m m1" "fit V I m1" "holds V m1 oc (D_Class cls)"
    using makesE [OF class_makes [OF m constructor_class [OF c]]] .
  have "builds X V I (jni_try (je_new_object J oc ''(J)V'' [JV_Long h])) m1 (D_New cls [D_Handle h])"
    by (rule construct [OF c 1(3,4)]) simp
  then have "makes V I (jni_try (je_new_object J oc ''(J)V'' [JV_Long h])) m1 (D_New cls [D_Handle h])"
    by (simp add: builds_def handle_kept [OF c])
  then show ?thesis
    by (rule makesE, intro makesI) (use 1 in \<open>auto simp: jobject_from_native_handle_def intro: grows_trans\<close>)
qed

lemma check_type:
  assumes m: "fit V I m" and inst: "instance_of V I J store cls" and cls: "cls \<in> set java_classes"
  obtains m' where "check_jobject_type J store cls m = (Ok (), m')" "grows V m m'" "fit V I m'"
proof -
  obtain oc m1 where 1: "jni_try (je_find_class J cls) m = (Ok oc, m1)" "grows V m m1" "fit V I m1" "holds V m1 oc (D_Class cls)"
    using makesE [OF class_makes [OF m cls]] .
  have st: "store \<noteq> J_null" "gives V I (\<lambda>m. holds V m oc (D_Class cls)) (je_is_instance_of J store oc) (\<lambda>x _. x)"
    using inst by (auto simp: instance_of_def)
  obtain m2 where "jni_try (je_is_instance_of J store oc) m1 = (Ok True, m2)" "grows V m1 m2" "fit V I m2"
    by (rule gives_try [OF st(2) 1(3,4)]) auto
  with that 1 st(1) show thesis by (auto simp: check_jobject_type_def intro: grows_trans)
qed

subsection \<open>Calls\<close>

lemma pending_laws:
  "ready V I m \<Longrightarrow> \<exists>m'. je_exception_check J m = (Inr (jv_pending V (app m) \<noteq> None), m') \<and> grows V m m' \<and>
     jv_pending V (app m') = jv_pending V (app m)"
  "ready V I m \<Longrightarrow> jv_pending V (app m) = Some (c, t) \<Longrightarrow>
     \<exists>o' m'. je_exception_occurred J m = (Inr o', m') \<and> grows V m m' \<and> holds V m' o' (D_Throwable c t)"
  "ready V I m \<Longrightarrow> \<exists>m'. je_exception_clear J m = (Inr (), m') \<and> grows V m m' \<and> jv_pending V (app m') = None"
  "fit V I m \<Longrightarrow> \<exists>m'. je_get_string J J_null m = (Inl (ve_null X), m') \<and> grows V m m' \<and> jv_pending V (app m') = None"
  "cls \<in> set exception_classes \<Longrightarrow> fit V I m \<Longrightarrow>
     \<exists>x m'. je_throw_new J cls s m = (x, m') \<and> grows V m m' \<and> jv_pending V (app m') = Some (Some (canonical cls), message_of cls s)"
  "cls \<in> set exception_classes \<Longrightarrow> ready V I m \<Longrightarrow> jv_pending V (app m) \<noteq> None \<Longrightarrow>
     \<exists>x m'. je_throw_new J cls s m = (x, m') \<and> grows V m m' \<and> jv_pending V (app m') \<noteq> None"
proof -
  note laws = exceptions [unfolded exception_laws_def]
  show "ready V I m \<Longrightarrow> \<exists>m'. je_exception_check J m = (Inr (jv_pending V (app m) \<noteq> None), m') \<and> grows V m m' \<and>
      jv_pending V (app m') = jv_pending V (app m)"
    by (rule laws [THEN conjunct1, rule_format])
  note laws = laws [THEN conjunct2]
  show "ready V I m \<Longrightarrow> jv_pending V (app m) = Some (c, t) \<Longrightarrow>
      \<exists>o' m'. je_exception_occurred J m = (Inr o', m') \<and> grows V m m' \<and> holds V m' o' (D_Throwable c t)"
    by (rule laws [THEN conjunct1, rule_format])
  note laws = laws [THEN conjunct2]
  show "ready V I m \<Longrightarrow> \<exists>m'. je_exception_clear J m = (Inr (), m') \<and> grows V m m' \<and> jv_pending V (app m') = None"
    by (rule laws [THEN conjunct1, rule_format])
  note laws = laws [THEN conjunct2, THEN conjunct2, THEN conjunct2, THEN conjunct2]
  show "fit V I m \<Longrightarrow> \<exists>m'. je_get_string J J_null m = (Inl (ve_null X), m') \<and> grows V m m' \<and> jv_pending V (app m') = None"
    by (rule laws [THEN conjunct1, rule_format])
  note laws = laws [THEN conjunct2]
  show "cls \<in> set exception_classes \<Longrightarrow> fit V I m \<Longrightarrow>
      \<exists>x m'. je_throw_new J cls s m = (x, m') \<and> grows V m m' \<and> jv_pending V (app m') = Some (Some (canonical cls), message_of cls s)"
    by (rule laws [THEN conjunct1, rule_format])
  note laws = laws [THEN conjunct2]
  show "cls \<in> set exception_classes \<Longrightarrow> ready V I m \<Longrightarrow> jv_pending V (app m) \<noteq> None \<Longrightarrow>
      \<exists>x m'. je_throw_new J cls s m = (x, m') \<and> grows V m m' \<and> jv_pending V (app m') \<noteq> None"
    by (rule laws [rule_format])
qed

lemma exception_check_none:
  assumes "fit V I m"
  obtains m' where "exception_check J name m = (Ok (), m')" "grows V m m'" "fit V I m'"
proof -
  obtain m1 where "je_exception_check J m = (Inr False, m1)" "grows V m m1" "jv_pending V (app m1) = None"
    using pending_laws(1) [OF fit_ready(1) [OF assms]] fit_ready(3) [OF assms] by auto
  moreover from this(1) have "jni_try (je_exception_check J) m = (Ok False, m1)" by (simp add: jni_try_def)
  then have "exception_check J name m = (Ok (), m1)" by (simp add: exception_check_def sbind_def)
  moreover have "fit V I m1" using calculation(2,3) grows_ready [OF fit_ready(1) [OF assms]] by (simp add: fit_def)
  ultimately show thesis using that by blast
qed

lemma exception_laws':
  "gives V I (\<lambda>m. holds V m o' (D_Throwable c t)) (je_call_method J o' ''getClass'' ''()Ljava/lang/Class;'' [])
     (object_value V (D_ThrowableClass c))"
  "gives V I (\<lambda>m. holds V m o' (D_ThrowableClass c)) (je_call_method J o' ''getCanonicalName'' ''()Ljava/lang/String;'' [])
     (text_value V c)"
  "gives V I (\<lambda>m. holds V m o' (D_Throwable c t)) (je_call_method J o' ''getMessage'' ''()Ljava/lang/String;'' [])
     (text_value V t)"
  using exceptions by (simp_all add: exception_laws_def)

text \<open>The text of a string object; of null there is none.\<close>

definition text_result :: "string option \<Rightarrow> (SignalJniError, string) result" where
  "text_result t = (case t of None \<Rightarrow> Err (J_Jni (ve_null X)) | Some s \<Rightarrow> Ok s)"

lemma get_text:
  assumes m: "fit V I m" and v: "text_value V t v m"
  obtains o' m' where "v = JV_Object o'" "jni_try (je_get_string J o') m = (text_result t, m')" "grows V m m'" "fit V I m'"
proof (cases t)
  case None
  obtain m' where 1: "je_get_string J J_null m = (Inl (ve_null X), m')" "grows V m m'" "jv_pending V (app m') = None"
    using pending_laws(4) [OF m] by blast
  moreover have "fit V I m'" using 1 grows_ready [OF fit_ready(1) [OF m]] by (simp add: fit_def)
  ultimately show thesis using that None v by (simp add: text_value_def jni_try_def text_result_def)
next
  case (Some s)
  then obtain o' where o': "v = JV_Object o'" "holds V m o' (D_String s)" using v by (auto simp: text_value_def object_value_def)
  show thesis by (rule gives_try [OF get_string_law m o'(2)]) (use that Some o'(1) in \<open>auto simp: text_result_def\<close>)
qed

lemma class_name:
  assumes m: "fit V I m" and o': "holds V m o' (D_Throwable c t)"
  obtains m' where "exception_class_name J o' m = (text_result c, m')" "grows V m m'" "fit V I m'"
proof -
  obtain oc m1 where 1: "jni_try (je_call_method J o' ''getClass'' ''()Ljava/lang/Class;'' []) m = (Ok (JV_Object oc), m1)"
      "grows V m m1" "fit V I m1" "holds V m1 oc (D_ThrowableClass c)"
    by (rule gives_try [OF exception_laws'(1) m o']) (auto simp: object_value_def)
  obtain v m2 where 2: "jni_try (je_call_method J oc ''getCanonicalName'' ''()Ljava/lang/String;'' []) m1 = (Ok v, m2)"
      "grows V m1 m2" "fit V I m2" "text_value V c v m2"
    by (rule gives_try [OF exception_laws'(2) 1(3,4)])
  obtain os m3 where 3: "v = JV_Object os" "jni_try (je_get_string J os) m2 = (text_result c, m3)" "grows V m2 m3" "fit V I m3"
    using get_text [OF 2(3,4)] .
  have "exception_class_name J o' m = (text_result c, m3)" using 1(1) 2(1) 3(1,2) by (simp add: exception_class_name_def)
  with that 1 2 3 show thesis by (blast intro: grows_trans)
qed

lemma sok_text: "f m = (text_result c, m') \<Longrightarrow> sok f m = (Ok c, m')"
  by (cases c) (simp_all add: sok_def text_result_def)

text \<open>A pending exception is cleared, and becomes an error with its class and its message.\<close>

definition check_result :: "string \<Rightarrow> string option \<Rightarrow> string option \<Rightarrow> SignalJniError" where
  "check_result name c t =
     (case t of None \<Rightarrow> J_Jni (ve_null X) | Some t \<Rightarrow> J_Signal (ApplicationCallbackThrewException name c t))"

lemma check_result_thrown: "SignalProtocolError_from (check_result name c t) = thrown X name c t"
  by (cases t) (simp_all add: check_result_def thrown_def SignalProtocolError_from_def)

lemma exception_check_some:
  assumes m: "ready V I m" and p: "jv_pending V (app m) = Some (c, t)"
  obtains m' where "exception_check J name m = (Err (check_result name c t), m')" "grows V m m'" "fit V I m'"
proof -
  obtain m1 where 1: "je_exception_check J m = (Inr True, m1)" "grows V m m1" "jv_pending V (app m1) = Some (c, t)"
    using pending_laws(1) [OF m] p by auto
  obtain o' m2 where 2: "je_exception_occurred J m1 = (Inr o', m2)" "grows V m1 m2" "holds V m2 o' (D_Throwable c t)"
    using pending_laws(2) [OF grows_ready [OF m 1(2)] 1(3)] by auto
  have ready2: "ready V I m2" using grows_ready [OF grows_ready [OF m 1(2)] 2(2)] .
  obtain m3 where 3: "je_exception_clear J m2 = (Inr (), m3)" "grows V m2 m3" "jv_pending V (app m3) = None"
    using pending_laws(3) [OF ready2] by auto
  have fit3: "fit V I m3" using 3 grows_ready [OF ready2] by (simp add: fit_def)
  have o3: "holds V m3 o' (D_Throwable c t)" by (rule holds_grows [OF 2(3) 3(2)])
  obtain m4 where 4: "exception_class_name J o' m3 = (text_result c, m4)" "grows V m3 m4" "fit V I m4"
    using class_name [OF fit3 o3] .
  obtain v m5 where 5: "jni_try (je_call_method J o' ''getMessage'' ''()Ljava/lang/String;'' []) m4 = (Ok v, m5)"
      "grows V m4 m5" "fit V I m5" "text_value V t v m5"
    by (rule gives_try [OF exception_laws'(3) 4(3) holds_grows [OF o3 4(2)]])
  obtain os m6 where 6: "v = JV_Object os" "jni_try (je_get_string J os) m5 = (text_result t, m6)" "grows V m5 m6" "fit V I m6"
    using get_text [OF 5(3,4)] .
  have "grows V m m6" by (rule grows_trans [OF grows_trans [OF grows_trans [OF grows_trans [OF grows_trans
      [OF 1(2) 2(2)] 3(2)] 4(2)] 5(2)] 6(3)])
  moreover have sok: "sok (exception_class_name J o') m3 = (Ok c, m4)" by (rule sok_text) (rule 4(1))
  then have "exception_check J name m = (Err (check_result name c t), m6)"
    using 1(1) 2(1) 3(1) sok 5(1) 6(1,2)
    by (cases t) (simp_all add: exception_check_def jni_try_def [of "je_exception_check J"] jni_try_def [of "je_exception_occurred J"]
        jni_try_def [of "je_exception_clear J"] sok_def [of "jni_try (je_call_method J o' ''getMessage'' ''()Ljava/lang/String;'' [])"]
        check_result_def text_result_def)
  ultimately show thesis using that 6(4) by blast
qed

text \<open>The outcome of a method, once a pending exception has been looked for.\<close>

lemma call_outcome:
  assumes call: "calls X V I P (je_call_method J store name sig vs) ret name op" and m: "fit V I m" "P m"
    and mono: "\<And>v rv m m'. ret v rv m \<Longrightarrow> fit V I m \<Longrightarrow> grows V m m' \<Longrightarrow> ret v rv m'"
  obtains
    (Ok) v rv m2 where "op (jv_state V (app m)) = (Ok v, jv_state V (app m2))" "jkept V I m m2" "fit V I m2" "ret v rv m2"
      "\<And>k. sbind (jni_try (je_call_method J store name sig vs)) (\<lambda>rv. sbind (exception_check J name) (\<lambda>_. k rv)) m = k rv m2"
  | (Err) e m2 where "op (jv_state V (app m)) = (Err (SignalProtocolError_from e), jv_state V (app m2))" "jkept V I m m2"
      "\<not> interface_error (Err (SignalProtocolError_from e) :: 'x sresult) \<longrightarrow> fit V I m2"
      "\<And>k. sbind (jni_try (je_call_method J store name sig vs)) (\<lambda>rv. sbind (exception_check J name) (\<lambda>_. k rv)) m = (Err e, m2)"
proof -
  obtain x m1 where f: "je_call_method J store name sig vs m = (x, m1)" by fastforce
  obtain y a' where op: "op (jv_state V (app m)) = (y, a')" by fastforce
  have r: "ready V I m1" "reaches V m m1" "jv_state V (app m1) = a'" and
    y: "case y of Ok v \<Rightarrow> (\<exists>rv. x = Inr rv \<and> jv_pending V (app m1) = None \<and> ret v rv m1)
          | Err e \<Rightarrow> (\<exists>t. x = Inl t \<and> e = FfiBindingError t) \<or>
              (\<exists>rv c t. x = Inr rv \<and> jv_pending V (app m1) = Some (c, t) \<and> e = thrown X name c t)
          | Panic \<Rightarrow> False"
    using call [unfolded calls_def, rule_format, OF m] f op by simp_all
  have to: "jkept V I m m2" "jv_state V (app m2) = a'" if "grows V m1 m2" for m2
    using m r that grows_ready [OF r(1) that] reaches_trans [OF r(2) grows_reaches [OF that]]
    by (simp_all add: jkept_def grows_state)
  show thesis
  proof (cases y)
    case (Ok v)
    then obtain rv where rv: "x = Inr rv" "jv_pending V (app m1) = None" "ret v rv m1" using y by auto
    have fit1: "fit V I m1" using r(1) rv(2) by (simp add: fit_def)
    then obtain m2 where 2: "exception_check J name m1 = (Ok (), m2)" "grows V m1 m2" "fit V I m2"
      using exception_check_none by blast
    show thesis by (rule that(1) [of v m2 rv]) (use f op Ok rv 2 to [OF 2(2)] mono [OF rv(3) fit1 2(2)] in \<open>simp_all add: jni_try_def\<close>)
  next
    case (Err e)
    then consider t where "x = Inl t" "e = FfiBindingError t"
      | rv c t where "x = Inr rv" "jv_pending V (app m1) = Some (c, t)" "e = thrown X name c t"
      using y by auto
    then show thesis
    proof cases
      case 1
      with to [OF grows_refl [OF ready_sound(1) [OF r(1)]]] show thesis
        by (intro that(2) [of "J_Jni t" m1]) (use f op Err 1 in \<open>simp_all add: jni_try_def SignalProtocolError_from_def\<close>)
    next
      case 2
      obtain m2 where 3: "exception_check J name m1 = (Err (check_result name c t), m2)" "grows V m1 m2" "fit V I m2"
        using exception_check_some [OF r(1) 2(2)] .
      with to [OF 3(2)] show thesis
        by (intro that(2) [of "check_result name c t" m2]) (use f op Err 2 in \<open>simp_all add: jni_try_def check_result_thrown\<close>)
    qed
  qed (use y in simp)
qed

lemma does_call:
  fixes k :: "JValue \<Rightarrow> ('j memory, SignalJniError, 'y) st"
  assumes call: "calls X V I P (je_call_method J store name sig vs) ret name op" and m: "fit V I m" "P m"
    and mono: "\<And>v rv m m'. ret v rv m \<Longrightarrow> fit V I m \<Longrightarrow> grows V m m' \<Longrightarrow> ret v rv m'"
    and k: "\<And>v rv m'. fit V I m' \<Longrightarrow> ret v rv m' \<Longrightarrow> does V I (k rv) (h v) m'"
  shows "does V I (sbind (jni_try (je_call_method J store name sig vs)) (\<lambda>rv. sbind (exception_check J name) (\<lambda>_. k rv)))
    (sbind op h) m"
proof (rule call_outcome [OF call m mono])
  fix v rv m2
  assume op: "op (jv_state V (app m)) = (Ok v, jv_state V (app m2))" and kept: "jkept V I m m2" and m2: "fit V I m2" and rv: "ret v rv m2"
    and run: "\<And>k :: JValue \<Rightarrow> ('j memory, SignalJniError, 'y) st. sbind (jni_try (je_call_method J store name sig vs)) (\<lambda>rv. sbind (exception_check J name) (\<lambda>_. k rv)) m = k rv m2"
  from k [OF m2 rv] show ?thesis using op jkept_trans [OF kept] by (auto simp: does_def run [of k])
next
  fix e m2
  assume "op (jv_state V (app m)) = (Err (SignalProtocolError_from e), jv_state V (app m2))" "jkept V I m m2"
    "\<not> interface_error (Err (SignalProtocolError_from e) :: 'x sresult) \<longrightarrow> fit V I m2"
    and run: "\<And>k :: JValue \<Rightarrow> ('j memory, SignalJniError, 'y) st.
      sbind (jni_try (je_call_method J store name sig vs)) (\<lambda>rv. sbind (exception_check J name) (\<lambda>_. k rv)) m = (Err e, m2)"
  then show ?thesis by (auto simp: does_def run [of k])
qed

lemma does_call_value:
  assumes "calls X V I P (je_call_method J store name sig vs) ret name op" "fit V I m" "P m"
    and "\<And>v rv m m'. ret v rv m \<Longrightarrow> fit V I m \<Longrightarrow> grows V m m' \<Longrightarrow> ret v rv m'"
    and "\<And>v rv m'. fit V I m' \<Longrightarrow> ret v rv m' \<Longrightarrow> does V I (k rv) (sret v) m'"
  shows "does V I (sbind (jni_try (je_call_method J store name sig vs)) (\<lambda>rv. sbind (exception_check J name) (\<lambda>_. k rv))) op m"
  using does_call [where h = sret, OF assms] by (simp add: sbind_sret_right)

lemma does_call_unit:
  assumes "calls X V I P (je_call_method J store name sig vs) ret_unit name op" "fit V I m" "P m"
  shows "does V I (sbind (jni_try (je_call_method J store name sig vs)) (\<lambda>_. exception_check J name)) op m"
proof -
  have unit: "exception_check J name = sbind (exception_check J name) (\<lambda>_. sret ())"
    by (rule ext) (auto simp: sbind_def split: prod.splits result.splits)
  show ?thesis
    by (subst unit, rule does_call_value [OF assms]) (auto simp: ret_unit_def intro: does_basic)
qed

lemma object_value_grows: "object_value V d v m \<Longrightarrow> grows V m m' \<Longrightarrow> object_value V d v m'"
  by (auto simp: object_value_def intro: holds_grows)

lemma ret_bytes_grows: "ret_bytes V b rv m \<Longrightarrow> fit V I m \<Longrightarrow> grows V m m' \<Longrightarrow> ret_bytes V b rv m'"
  by (cases b) (auto intro: object_value_grows)

lemma ret_native_grows: "ret_native V obj t rv m \<Longrightarrow> fit V I m \<Longrightarrow> grows V m m' \<Longrightarrow> ret_native V obj t rv m'"
  by (cases t) (auto intro: object_value_grows live_grows)

text \<open>Objects that the application hands out, by their bytes or behind a handle.\<close>

lemma serialized_object:
  assumes call: "calls X V I P (je_call_method J store name sig vs) (ret_bytes V) name op" and m: "fit V I m" "P m"
  shows "does V I (get_object_with_serialization J store vs sig name) op m"
  unfolding get_object_with_serialization_def
proof (rule does_call_value [OF call m ret_bytes_grows])
  fix v rv m' assume m': "fit V I m'" and rv: "ret_bytes V v rv m'"
  show "does V I (case rv of
      JV_Object obj \<Rightarrow>
        if obj = J_null then sret None
        else sbind (jni_try (je_call_method J obj ''serialize'' ''()[B'' [])) (\<lambda>bytes.
             sbind (exception_check J ''serialize'') (\<lambda>_.
             case bytes of
               JV_Object o' \<Rightarrow> sbind (jni_try (je_convert_byte_array J o')) (\<lambda>bytes. sret (Some bytes))
             | _ \<Rightarrow> sthrow (J_UnexpectedJniResultType ''serialize'' (je_type_name J bytes))))
    | _ \<Rightarrow> sthrow (J_UnexpectedJniResultType name (je_type_name J rv))) (sret v) m'"
  proof (cases v)
    case None
    then show ?thesis using rv m' by (simp add: does_basic)
  next
    case (Some bs)
    then obtain o' where o': "rv = JV_Object o'" "holds V m' o' (D_Serializable bs)" using rv by (auto simp: object_value_def)
    have nn: "o' \<noteq> J_null" using o'(2) by (auto simp: holds_def)
    obtain ob m1 where 1: "jni_try (je_call_method J o' ''serialize'' ''()[B'' []) m' = (Ok (JV_Object ob), m1)" "grows V m' m1"
        "fit V I m1" "holds V m1 ob (D_Bytes bs)"
      by (rule gives_try [OF serialize_law m' o'(2)]) (auto simp: object_value_def)
    obtain m2 where 2: "exception_check J ''serialize'' m1 = (Ok (), m2)" "grows V m1 m2" "fit V I m2"
      using exception_check_none [OF 1(3)] .
    obtain m3 where 3: "jni_try (je_convert_byte_array J ob) m2 = (Ok bs, m3)" "grows V m2 m3" "fit V I m3"
      by (rule gives_try [OF convert_law 2(3) holds_grows [OF 1(4) 2(2)]]) auto
    have "grows V m' m3" by (rule grows_trans [OF grows_trans [OF 1(2) 2(2)] 3(2)])
    then show ?thesis using o'(1) nn Some 1(1) 2(1) 3(1,3) m' by (simp add: does_def grows_jkept grows_state)
  qed
qed

lemma native_object:
  assumes call: "calls X V I P (je_call_method J store name sig vs) (ret_native V obj) name op" and m: "fit V I m" "P m"
    and as: "\<And>t. as (obj t) = Some t"
  shows "does V I (get_object_with_native_handle J as store vs sig name) op m"
  unfolding get_object_with_native_handle_def
proof (rule does_call_value [OF call m ret_native_grows])
  fix v rv m' assume m': "fit V I m'" and rv: "ret_native V obj v rv m'"
  show "does V I (case rv of
      JV_Object obj \<Rightarrow>
        if obj = J_null then sret None
        else sbind (jni_try (je_call_method J obj ''nativeHandle'' ''()J'' [])) (\<lambda>handle.
             sbind (exception_check J ''nativeHandle'') (\<lambda>_.
             case handle of
               JV_Long handle \<Rightarrow>
                 if handle = Null then sret None
                 else sbind (jni_native_handle_cast as handle) (\<lambda>object. sret (Some object))
             | _ \<Rightarrow> sthrow (J_UnexpectedJniResultType ''nativeHandle'' (je_type_name J handle))))
    | _ \<Rightarrow> sthrow (J_UnexpectedJniResultType name (je_type_name J rv))) (sret v) m'"
  proof (cases v)
    case None
    then show ?thesis using rv m' by (simp add: does_basic)
  next
    case (Some t)
    then obtain o' a where o': "rv = JV_Object o'" "holds V m' o' (D_Native (At a))" and a: "live V m' a (Boxed (obj t))"
      using rv by (auto simp: object_value_def)
    have nn: "o' \<noteq> J_null" using o'(2) by (auto simp: holds_def)
    obtain m1 where 1: "jni_try (je_call_method J o' ''nativeHandle'' ''()J'' []) m' = (Ok (JV_Long (At a)), m1)" "grows V m' m1"
        "fit V I m1"
      by (rule gives_try [OF handle_law m' o'(2)]) auto
    obtain m2 where 2: "exception_check J ''nativeHandle'' m1 = (Ok (), m2)" "grows V m1 m2" "fit V I m2"
      using exception_check_none [OF 1(3)] .
    have g: "grows V m' m2" by (rule grows_trans [OF 1(2) 2(2)])
    then have "heap m2 a = Some (Boxed (obj t))" using live_grows [OF a m'] by (simp add: live_def)
    then have "jni_native_handle_cast as (At a) m2 = (Ok t, m2)" by (simp add: jni_native_handle_cast_def handle_ref_At as)
    then show ?thesis using o'(1) nn Some 1(1) 2(1,3) g m' by (simp add: does_def grows_jkept grows_state)
  qed
qed

end

section \<open>The stores simulate\<close>

locale java_session_app = java_vm X V I J
  for X :: vm_errors and V :: "('j, 'a) java_view" and I :: "'a \<Rightarrow> bool" and J :: "'j JNIEnv" +
  fixes E :: "('sc, 'pt, 'r) jni_env" and A :: "'a JavaApp" and identity_obj :: jobject and session_obj :: jobject
  assumes identity: "identity_methods X V I J A identity_obj" and session: "session_methods X V I J A session_obj"
begin

lemma constructors:
  "(''org/whispersystems/libsignal/IdentityKey'', ''([B)V'') \<in> set java_constructors"
  "(''org/whispersystems/libsignal/state/SessionRecord'', ''([B)V'') \<in> set java_constructors"
  by (simp_all add: java_constructors_def)

lemma key_pair_does:
  assumes "fit V I m"
  shows "does V I (do_get_identity_key_pair J E identity_obj) (get_identity_key_pair (App_IdentityKeyStore X E A)) m"
proof -
  have "does V I (get_object_with_serialization J identity_obj [] ''()Lorg/whispersystems/libsignal/IdentityKeyPair;''
      ''getIdentityKeyPair'') (ja_getIdentityKeyPair A) m"
    by (rule serialized_object [where P = "\<lambda>_. True"]) (use identity assms in \<open>simp_all add: identity_methods_def\<close>)
  then show ?thesis
    unfolding do_get_identity_key_pair_def App_IdentityKeyStore_def IdentityKeyStore.simps
    by (rule does_sbind) (auto split: option.splits intro!: does_basic simp: SignalProtocolError_from_def)
qed

lemma registration_id_does:
  assumes "fit V I m"
  shows "does V I (do_get_local_registration_id J identity_obj) (get_local_registration_id (App_IdentityKeyStore X E A)) m"
proof -
  have "calls X V I (\<lambda>_. True) (je_call_method J identity_obj ''getLocalRegistrationId'' ''()I'' []) ret_int ''getLocalRegistrationId''
      (ja_getLocalRegistrationId A)"
    using identity by (simp add: identity_methods_def)
  then show ?thesis
    unfolding do_get_local_registration_id_def App_IdentityKeyStore_def IdentityKeyStore.simps
    by (rule does_call) (use assms in \<open>auto simp: ret_int_def intro!: does_basic\<close>)
qed

lemma identity_calls:
  "calls X V I (\<lambda>m. holds V m oa (address_data a) \<and> holds V m ok (key_data k))
     (je_call_method J identity_obj ''saveIdentity''
       ''(Lorg/whispersystems/libsignal/SignalProtocolAddress;Lorg/whispersystems/libsignal/IdentityKey;)Z''
       [JV_Object oa, JV_Object ok]) ret_bool ''saveIdentity'' (ja_saveIdentity A a k)"
  "calls X V I (\<lambda>m. holds V m oa (address_data a) \<and> holds V m ok (key_data k) \<and> holds V m od (direction_data d))
     (je_call_method J identity_obj ''isTrustedIdentity''
       ''(Lorg/whispersystems/libsignal/SignalProtocolAddress;Lorg/whispersystems/libsignal/IdentityKey;Lorg/whispersystems/libsignal/state/IdentityKeyStore$Direction;)Z''
       [JV_Object oa, JV_Object ok, JV_Object od]) ret_bool ''isTrustedIdentity'' (ja_isTrustedIdentity A a k d)"
  using identity unfolding identity_methods_def by blast+

lemma session_calls:
  "calls X V I (\<lambda>m. holds V m oa (address_data a))
     (je_call_method J session_obj ''loadSession''
       ''(Lorg/whispersystems/libsignal/SignalProtocolAddress;)Lorg/whispersystems/libsignal/state/SessionRecord;'' [JV_Object oa])
     (ret_bytes V) ''loadSession'' (ja_loadSession A a)"
  "calls X V I (\<lambda>m. holds V m oa (address_data a) \<and> holds V m os (session_data s))
     (je_call_method J session_obj ''storeSession''
       ''(Lorg/whispersystems/libsignal/SignalProtocolAddress;Lorg/whispersystems/libsignal/state/SessionRecord;)V''
       [JV_Object oa, JV_Object os]) ret_unit ''storeSession'' (ja_storeSession A a s)"
  using session unfolding session_methods_def by blast+

lemma save_identity_does:
  assumes m: "fit V I m"
  shows "does V I (do_save_identity J identity_obj addr i) (save_identity (App_IdentityKeyStore X E A) addr i) m"
  unfolding do_save_identity_def App_IdentityKeyStore_def IdentityKeyStore.simps key_data_def
  by (rule does_builds [OF address_builds [OF m] m], rule does_serialized [OF _ constructors(1)], assumption,
      rule does_call_value [OF identity_calls(1)])
     (auto simp: key_data_def intro: holds_grows, auto simp: ret_bool_def intro!: does_basic)

lemma direction_known: "direction_class \<in> set java_classes"
  by (simp add: java_classes_def)

lemma is_trusted_identity_does:
  assumes m: "fit V I m"
  shows "does V I (do_is_trusted_identity J identity_obj addr i d) (is_trusted_identity (App_IdentityKeyStore X E A) addr i d) m"
  unfolding do_is_trusted_identity_def App_IdentityKeyStore_def IdentityKeyStore.simps key_data_def Let_def
proof (rule does_builds [OF address_builds [OF m] m], rule does_serialized [OF _ constructors(1)], assumption,
    rule does_makes [OF class_makes [OF _ direction_known]], assumption, assumption, goal_cases)
  case (1 oa m1 ok m2 oc m3)
  note obj = holds_grows [OF holds_grows [OF 1(3) 1(4)] 1(7)] holds_grows [OF 1(6) 1(7)]
  obtain od m4 where 4: "jni_try (je_get_static_field J oc (case d of Sending \<Rightarrow> ''SENDING'' | Receiving \<Rightarrow> ''RECEIVING'')
        ''Lorg/whispersystems/libsignal/state/IdentityKeyStore$Direction;'') m3 = (Ok (JV_Object od), m4)"
      "grows V m3 m4" "fit V I m4" "holds V m4 od (direction_data d)"
    by (rule gives_try [OF direction_law 1(8,9)]) (auto simp: object_value_def)
  show ?case
    by (rule does_after, rule 4(1), rule 4(2), rule 4(3), rule 1(8), rule does_call_value [OF identity_calls(2) 4(3)])
       (use 4 obj in \<open>auto simp: key_data_def intro: holds_grows\<close>, auto simp: ret_bool_def intro!: does_basic)
qed

lemma load_session_does:
  assumes m: "fit V I m"
  shows "does V I (do_load_session J E session_obj addr) (load_session (App_SessionStore X E A) addr) m"
  unfolding do_load_session_def App_SessionStore_def SessionStore.simps
  by (rule does_builds [OF address_builds [OF m] m], rule does_sbind [OF serialized_object [OF session_calls(1)]])
     (auto split: option.splits intro!: does_basic does_Some)

lemma store_session_does:
  assumes m: "fit V I m"
  shows "does V I (do_store_session J E session_obj addr r) (store_session (App_SessionStore X E A) addr r) m"
  unfolding do_store_session_def App_SessionStore_def SessionStore.simps session_data_def
  by (rule does_builds [OF address_builds [OF m] m], rule does_slift, assumption,
      rule does_serialized [OF _ constructors(2)], assumption, rule does_call_unit [OF session_calls(2)])
     (auto simp: session_data_def intro: holds_grows)

lemmas store_does = key_pair_does registration_id_does save_identity_does is_trusted_identity_does
  load_session_does store_session_does

sublocale store_simulation "jkept V I" "\<lambda>m. jv_state V (app m)" "Jni_IdentityKeyStore J E identity_obj"
    "App_IdentityKeyStore X E A" "Jni_SessionStore J E session_obj" "App_SessionStore X E A"
  by unfold_locales (simp_all add: Jni_IdentityKeyStore_def Jni_SessionStore_def does_sim store_does)

end

text \<open>With the stores of pre-keys.\<close>

locale java_prekey_app = java_session_app X V I J E A identity_obj session_obj
  for X :: vm_errors and V :: "('j, 'a) java_view" and I :: "'a \<Rightarrow> bool" and J :: "'j JNIEnv"
    and E :: "('sc, 'pt, 'r) jni_env" and A :: "'a JavaApp" and identity_obj :: jobject and session_obj :: jobject +
  fixes pre_key_obj :: jobject and signed_pre_key_obj :: jobject
  assumes pre_key: "pre_key_methods X V I J A pre_key_obj" and signed: "signed_pre_key_methods X V I J A signed_pre_key_obj"
begin

lemma pre_key_calls:
  "calls X V I (\<lambda>_. True)
     (je_call_method J pre_key_obj ''loadPreKey'' ''(I)Lorg/whispersystems/libsignal/state/PreKeyRecord;'' [JV_Int n])
     (ret_native V O_PreKeyRecord) ''loadPreKey'' (ja_loadPreKey A n)"
  "calls X V I (\<lambda>_. True) (je_call_method J pre_key_obj ''removePreKey'' ''(I)V'' [JV_Int n])
     ret_unit ''removePreKey'' (ja_removePreKey A n)"
  "calls X V I (\<lambda>_. True)
     (je_call_method J signed_pre_key_obj ''loadSignedPreKey'' ''(I)Lorg/whispersystems/libsignal/state/SignedPreKeyRecord;'' [JV_Int n])
     (ret_native V O_SignedPreKeyRecord) ''loadSignedPreKey'' (ja_loadSignedPreKey A n)"
  using pre_key signed unfolding pre_key_methods_def signed_pre_key_methods_def by blast+

lemma get_pre_key_does:
  "fit V I m \<Longrightarrow> does V I (do_get_pre_key J pre_key_obj n) (get_pre_key (App_PreKeyStore A) n) m"
  unfolding do_get_pre_key_def App_PreKeyStore_def PreKeyStore.simps jint_from_u32_Ok sbind_slift_Ok
  by (rule does_sbind [OF native_object [OF pre_key_calls(1)]]) (auto intro!: does_basic signal_ok_or)

lemma remove_pre_key_does:
  "fit V I m \<Longrightarrow> does V I (do_remove_pre_key J pre_key_obj n) (remove_pre_key (App_PreKeyStore A) n) m"
  unfolding do_remove_pre_key_def App_PreKeyStore_def PreKeyStore.simps jint_from_u32_Ok sbind_slift_Ok
  by (rule does_call_unit [OF pre_key_calls(2)]) auto

lemma get_signed_pre_key_does:
  "fit V I m \<Longrightarrow> does V I (do_get_signed_pre_key J signed_pre_key_obj n) (get_signed_pre_key (App_SignedPreKeyStore A) n) m"
  unfolding do_get_signed_pre_key_def App_SignedPreKeyStore_def SignedPreKeyStore.simps jint_from_u32_Ok sbind_slift_Ok
  by (rule does_sbind [OF native_object [OF pre_key_calls(3)]]) (auto intro!: does_basic signal_ok_or)

sublocale prekey: prekey_store_simulation "jkept V I" "\<lambda>m. jv_state V (app m)" "Jni_IdentityKeyStore J E identity_obj"
    "App_IdentityKeyStore X E A" "Jni_SessionStore J E session_obj" "App_SessionStore X E A"
    "Jni_PreKeyStore J E pre_key_obj" "App_PreKeyStore A" "Jni_SignedPreKeyStore J E signed_pre_key_obj" "App_SignedPreKeyStore A"
  by unfold_locales (simp_all add: Jni_PreKeyStore_def Jni_SignedPreKeyStore_def does_sim get_pre_key_does remove_pre_key_does
      get_signed_pre_key_does)

end
text \<open>The store of sender keys.\<close>

locale java_group_app = java_vm X V I J
  for X :: vm_errors and V :: "('j, 'a) java_view" and I :: "'a \<Rightarrow> bool" and J :: "'j JNIEnv" +
  fixes A :: "'a JavaApp" and sender_key_obj :: jobject
  assumes sender_key: "sender_key_methods X V I J A sender_key_obj"
begin

lemma sender_key_calls:
  "calls X V I (\<lambda>m. holds V m on (name_data g a))
     (je_call_method J sender_key_obj ''loadSenderKey''
       ''(Lorg/whispersystems/libsignal/groups/SenderKeyName;)Lorg/whispersystems/libsignal/groups/state/SenderKeyRecord;''
       [JV_Object on]) (ret_native V O_SenderKeyRecord) ''loadSenderKey'' (ja_loadSenderKey A g a)"
  "calls X V I
     (\<lambda>m. holds V m on (name_data g a) \<and> holds V m rec (sender_key_data (At h)) \<and> live V m h (Boxed (O_SenderKeyRecord r)))
     (je_call_method J sender_key_obj ''storeSenderKey''
       ''(Lorg/whispersystems/libsignal/groups/SenderKeyName;Lorg/whispersystems/libsignal/groups/state/SenderKeyRecord;)V''
       [JV_Object on, JV_Object rec]) ret_unit ''storeSenderKey'' (ja_storeSenderKey A g a r)"
  using sender_key unfolding sender_key_methods_def by blast+

lemma load_sender_key_does:
  assumes m: "fit V I m"
  shows "does V I (do_load_sender_key J sender_key_obj n) (load_sender_key (App_SenderKeyStore X A) n) m"
  unfolding do_load_sender_key_def App_SenderKeyStore_def SenderKeyStore.simps
  by (rule does_builds [OF name_builds [OF m] m], rule native_object [OF sender_key_calls(1)]) auto

lemma store_sender_key_does:
  assumes m: "fit V I m"
  shows "does V I (do_store_sender_key J sender_key_obj n r) (store_sender_key (App_SenderKeyStore X A) n r) m"
  unfolding do_store_sender_key_def App_SenderKeyStore_def SenderKeyStore.simps
proof (rule does_builds [OF name_builds [OF m] m], goal_cases)
  case (1 on m1)
  obtain a m2 where 2: "jni_box_object O_SenderKeyRecord (Ok r) m1 = (Ok (At a), m2)" "jkept V I m1 m2" "app m2 = app m1"
      "live V m2 a (Boxed (O_SenderKeyRecord r))" and m2: "fit V I m2"
    using box_step [OF 1(2)] by metis
  let ?c = "''org/whispersystems/libsignal/groups/state/SenderKeyRecord''"
  have c: "(?c, ''(J)V'') \<in> set java_constructors" by (simp add: java_constructors_def)
  have on: "holds V m2 on (name_data (skn_group_id n) (to_jaddress (skn_sender n)))" using 1(3) 2(3) by (simp add: holds_def)
  have "live V m3 a (Boxed (O_SenderKeyRecord r))" if "grows V m2 m3" for m3 by (rule live_grows [OF 2(4) m2 that])
  then have "does V I (sbind (jobject_from_native_handle J ?c (At a)) (\<lambda>rec.
      sbind (jni_try (je_call_method J sender_key_obj ''storeSenderKey''
       ''(Lorg/whispersystems/libsignal/groups/SenderKeyName;Lorg/whispersystems/libsignal/groups/state/SenderKeyRecord;)V''
       [JV_Object on, JV_Object rec])) (\<lambda>_. exception_check J ''storeSenderKey'')))
      (ja_storeSenderKey A (skn_group_id n) (to_jaddress (skn_sender n)) r) m2"
    by (intro does_makes [OF native_makes [OF m2 c] m2] does_call_unit [OF sender_key_calls(2)])
       (auto simp: sender_key_data_def intro: holds_grows [OF on])
  then show ?case using 2 by (intro does_kept [where f = "jni_box_object O_SenderKeyRecord (Ok r)"]) simp_all
qed

sublocale sender_key_simulation "jkept V I" "\<lambda>m. jv_state V (app m)" "Jni_SenderKeyStore J sender_key_obj" "App_SenderKeyStore X A"
  by unfold_locales (simp_all add: Jni_SenderKeyStore_def does_sim load_sender_key_does store_sender_key_does)

lemmas group_sims = create_distribution_sim process_distribution_sim group_encrypt_sim group_decrypt_sim

end

end
