(* ===== verification/Java_Contracts.thy ===== *)
theory Java_Contracts
  imports Jni_Refinement
begin

text \<open>
  The machine of \<open>Java_Machine\<close> has the contracts of \<open>Jni_Refinement\<close>, with any application whose methods return or throw.
\<close>

section \<open>The machine\<close>

definition machine_view :: "('a machine, 'a) java_view" where
  "machine_view =
     \<lparr>jv_object = object_at, jv_pending = (\<lambda>k. map_option described (exception k)), jv_garbage = (\<lambda>_. {}), jv_state = app_state\<rparr>"

definition machine_errors :: "'a JavaApp \<Rightarrow> vm_errors" where
  "machine_errors A =
     \<lparr>ve_array_size = java_exception, ve_array_region = java_exception, ve_null = null_pointer,
      ve_refused = (\<lambda>d. case d of
        D_New cls ds \<Rightarrow> (case construction A cls ds of Inl _ \<Rightarrow> Some java_exception | Inr _ \<Rightarrow> None)
      | _ \<Rightarrow> None)\<rparr>"

lemma view_simps [simp]:
  "jv_object machine_view = object_at" "jv_pending machine_view k = map_option described (exception k)"
  "jv_garbage machine_view k = {}" "jv_state machine_view = app_state"
  by (simp_all add: machine_view_def)

lemma machine_errors_simps [simp]:
  "ve_array_size (machine_errors A) = java_exception" "ve_array_region (machine_errors A) = java_exception"
  "ve_null (machine_errors A) = null_pointer"
  "ve_refused (machine_errors A) (D_New cls ds) = (case construction A cls ds of Inl _ \<Rightarrow> Some java_exception | Inr _ \<Rightarrow> None)"
  by (simp_all add: machine_errors_def)

lemma put_app_simps [simp]:
  "heap (put_app k m) = heap m" "next_address (put_app k m) = next_address m"
  "undefined_behaviour (put_app k m) = undefined_behaviour m" "app (put_app k m) = k" "memory_ok (put_app k m) = memory_ok m"
  by (simp_all add: put_app_def memory_ok_def)

lemma object_at_update [simp]:
  "object_at (k\<lparr>exception := e\<rparr>) = object_at k" "object_at (k\<lparr>app_state := a\<rparr>) = object_at k"
  by (auto simp: object_at_def fun_eq_iff split: nat.splits)

lemma object_at_new [simp]: "object_at (k\<lparr>objects := objects k @ [d]\<rparr>) (Suc (length (objects k))) = Some d"
  by (simp add: object_at_def)

lemma object_at_old: "object_at k i = Some d' \<Longrightarrow> object_at (k\<lparr>objects := objects k @ [d]\<rparr>) i = Some d'"
  by (auto simp: object_at_def nth_append split: nat.splits if_splits)

lemma content_holds: "content m o' = Some d \<longleftrightarrow> holds machine_view m o' d"
  by (cases o') (auto simp: holds_def)

lemma machine_sound [simp]: "sound machine_view m = memory_ok m"
  by (simp add: sound_def)

lemma machine_keeps_boxes: "keeps_boxes machine_view m m' = frame {} m m'"
  by (auto simp: keeps_boxes_def frame_def)

lemma fit_machine: "fit machine_view I m \<Longrightarrow> memory_ok m" "fit machine_view I m \<Longrightarrow> exception (app m) = None"
  by (simp_all add: fit_def ready_def)

lemma put_app_grows:
  assumes "memory_ok m" "\<And>i d. object_at (app m) i = Some d \<Longrightarrow> object_at k i = Some d" "app_state k = app_state (app m)"
  shows "grows machine_view m (put_app k m)"
  using assms by (auto simp: grows_def reaches_def machine_keeps_boxes persists_def frame_def)

lemma put_exception_grows: "memory_ok m \<Longrightarrow> grows machine_view m (put_app ((app m)\<lparr>exception := e\<rparr>) m)"
  by (simp add: put_app_grows)

lemma new_ref_grows:
  assumes "new_ref d m = (o', m')" "memory_ok m"
  shows "grows machine_view m m'" "holds machine_view m' o' d" "exception (app m') = exception (app m)"
  using assms by (auto simp: new_ref_def holds_def object_at_old intro!: put_app_grows)

lemma alloc_grows: "memory_ok m \<Longrightarrow> grows machine_view m (snd (alloc c m))"
  using extends_frame [OF extends_alloc, of m] by (simp add: grows_def reaches_def machine_keeps_boxes persists_def)

lemma give_gives:
  assumes "\<And>m. P m \<Longrightarrow> f m = give d m" shows "gives machine_view I P f (\<lambda>o' m'. holds machine_view m' o' d)"
  unfolding gives_def
proof (intro allI impI)
  fix m assume m: "fit machine_view I m" "P m"
  obtain o' m' where "new_ref d m = (o', m')" by fastforce
  with new_ref_grows [OF this fit_machine(1) [OF m(1)]] assms [OF m(2)] fit_machine(2) [OF m(1)]
  show "\<exists>x m'. f m = (Inr x, m') \<and> grows machine_view m m' \<and> jv_pending machine_view (app m') = None \<and> holds machine_view m' x d"
    by (auto simp: give_def)
qed

lemma give_value_gives:
  assumes "\<And>m. P m \<Longrightarrow> f m = give_value d m" shows "gives machine_view I P f (object_value machine_view d)"
  unfolding gives_def
proof (intro allI impI)
  fix m assume m: "fit machine_view I m" "P m"
  obtain o' m' where "new_ref d m = (o', m')" by fastforce
  with new_ref_grows [OF this fit_machine(1) [OF m(1)]] assms [OF m(2)] fit_machine(2) [OF m(1)]
  show "\<exists>x m'. f m = (Inr x, m') \<and> grows machine_view m m' \<and> jv_pending machine_view (app m') = None \<and> object_value machine_view d x m'"
    by (auto simp: give_value_def object_value_def)
qed

lemma pure_gives:
  assumes "\<And>m. P m \<Longrightarrow> f m = (Inr x, m) \<and> good x m" shows "gives machine_view I P f good"
  using assms fit_machine by (fastforce simp: gives_def intro: grows_refl)

lemma give_text_gives:
  assumes "\<And>m. P m \<Longrightarrow> f m = give_text t m" shows "gives machine_view I P f (text_value machine_view t)"
proof (cases t)
  case None
  show ?thesis by (rule pure_gives) (use None assms in \<open>auto simp: give_text_def text_value_def\<close>)
next
  case (Some s)
  have "gives machine_view I P f (object_value machine_view (D_String s))"
    by (rule give_value_gives) (use Some assms in \<open>simp add: give_text_def\<close>)
  then show ?thesis by (simp add: gives_def text_value_def Some)
qed

lemma fails_with_fails:
  assumes "\<And>m. P m \<Longrightarrow> f m = fails_with x m" shows "fails machine_view I P f java_exception"
  using assms by (auto simp: fails_def fails_with_def intro!: put_exception_grows fit_machine(1))

lemma those_values: "list_all2 (value_holds machine_view m) vs ds \<Longrightarrow> those (map (jvalue m) vs) = Some ds"
proof (induction rule: list_all2_induct)
  case (Cons v vs d ds)
  have "jvalue m v = Some d" using Cons(1) by (cases v) (auto simp: content_holds)
  with Cons(3) show ?case by simp
qed simp

lemmas machine_simps = machine_env_def content_holds [symmetric] machine_call_method_def descriptor_simps

text \<open>A constructor, which may make a box of the library, or throw.\<close>

lemma new_object_run:
  "holds machine_view m c (D_Class cls) \<and> list_all2 (value_holds machine_view m) vs ds \<Longrightarrow>
     je_new_object (machine_env A) c sig vs m = machine_new_object A cls ds m"
  by (auto simp: machine_env_def those_values content_holds [symmetric])

lemma machine_constructs:
  assumes "construction A cls ds = Inr x"
  shows "gives machine_view I (\<lambda>m. holds machine_view m c (D_Class cls) \<and> list_all2 (value_holds machine_view m) vs ds)
    (je_new_object (machine_env A) c sig vs) (\<lambda>o' m'. holds machine_view m' o' (D_New cls ds))"
proof (cases x)
  case None
  show ?thesis by (rule give_gives) (simp only: new_object_run, simp add: machine_new_object_def assms None)
next
  case (Some obj)
  show ?thesis unfolding gives_def
  proof (intro allI impI)
    fix m assume m: "fit machine_view I m" "holds machine_view m c (D_Class cls) \<and> list_all2 (value_holds machine_view m) vs ds"
    let ?m = "snd (alloc (Boxed obj) m)"
    obtain o' m' where new: "new_ref (D_New cls ds) ?m = (o', m')" by fastforce
    have run: "je_new_object (machine_env A) c sig vs m = (Inr o', m')"
      using new by (simp only: new_object_run [OF m(2)]) (simp add: machine_new_object_def assms Some give_def)
    note ok = fit_machine [OF m(1)]
    have "exception (app m') = None" using new_ref_grows(3) [OF new alloc_ok [OF ok(1)]] ok(2) by simp
    with run new_ref_grows(1,2) [OF new alloc_ok [OF ok(1)]] grows_trans [OF alloc_grows [OF ok(1)]]
    show "\<exists>y m'. je_new_object (machine_env A) c sig vs m = (Inr y, m') \<and> grows machine_view m m' \<and>
        jv_pending machine_view (app m') = None \<and> holds machine_view m' y (D_New cls ds)" by auto
  qed
qed

lemma machine_refuses:
  assumes "construction A cls ds = Inl x"
  shows "fails machine_view I (\<lambda>m. holds machine_view m c (D_Class cls) \<and> list_all2 (value_holds machine_view m) vs ds)
    (je_new_object (machine_env A) c sig vs) java_exception"
  by (rule fails_with_fails) (simp only: new_object_run, simp add: machine_new_object_def assms)

lemma machine_refuses_addresses:
  "ve_refused (machine_errors A) (address_data (n, i)) = (if sint i < 0 then Some java_exception else None)"
  "ve_refused (machine_errors A) (name_data g (n, i)) = (if sint i < 0 then Some java_exception else None)"
  by (simp_all add: address_data_def name_data_def construction_def from_library_def jint_to_u32_def)

lemma handle_construction: "construction A cls [D_Handle h] = Inr None"
  by (simp add: construction_def)

lemma machine_objects: "object_laws (machine_errors A) machine_view I (machine_env A)"
  unfolding object_laws_def
proof (intro conjI allI ballI impI, goal_cases)
  case 1 show ?case by (rule give_gives) (simp add: machine_simps)
next
  case 2 show ?case by (rule give_gives) (simp add: machine_simps)
next
  case 3 show ?case by (rule pure_gives) (auto simp: machine_simps)
next
  case 4 show ?case by (rule pure_gives) (auto simp: machine_simps)
next
  case (5 c cls sig vs ds)
  then obtain x where "construction A cls ds = Inr x" by (auto split: sum.splits)
  then show ?case by (rule machine_constructs)
next
  case (6 c cls sig vs ds t)
  then obtain x where "construction A cls ds = Inl x" "t = java_exception" by (auto split: sum.splits)
  then show ?case by (simp add: machine_refuses)
next
  case 7 show ?case by (simp add: handle_construction)
next
  case 8 show ?case by (rule give_value_gives) (auto simp: machine_simps)
next
  case 9 show ?case by (rule give_value_gives) (auto simp: machine_simps)
next
  case 10 show ?case by (rule pure_gives) (auto simp: machine_simps)
qed

lemma machine_exceptions: "exception_laws (machine_errors A) machine_view I (machine_env A)"
  unfolding exception_laws_def
proof (intro conjI allI impI ballI, goal_cases)
  case (2 m c t)
  then have "memory_ok m" by (simp add: ready_def)
  with 2 show ?case using new_ref_grows [of "D_Throwable c t" m] by (auto simp: machine_env_def give_def split: prod.splits)
next
  case 4 show ?case by (rule give_value_gives) (auto simp: machine_simps)
next
  case 5 show ?case by (rule give_text_gives) (auto simp: machine_simps)
next
  case 6 show ?case by (rule give_text_gives) (auto simp: machine_simps)
next
  case (1 m) then show ?case by (simp add: machine_env_def ready_def grows_refl)
next
  case (3 m) then show ?case by (simp add: machine_env_def ready_def put_exception_grows)
next
  case (7 m) then show ?case by (simp add: machine_env_def fit_def ready_def grows_refl)
next
  case (8 c m t) then show ?case by (simp add: machine_env_def fit_def ready_def put_exception_grows)
next
  case (9 c m t) then show ?case by (simp add: machine_env_def ready_def put_exception_grows)
qed

lemma machine_arrays: "array_laws (machine_errors A) machine_view I (machine_env A)"
  unfolding array_laws_def
proof (intro conjI allI impI, goal_cases)
  case (1 n)
  then show ?case unfolding machine_errors_simps by (intro fails_with_fails) (simp add: machine_env_def)
next
  case (2 n m)
  note ok = fit_machine [OF 2(1)]
  let ?i = "Suc (length (objects (app m)))"
  obtain m' where new: "new_ref (D_Bytes (replicate (unat n) 0)) m = (J_ref ?i, m')" by (simp add: new_ref_def)
  then have "je_new_byte_array (machine_env A) n m = (Inr (J_ref ?i), m')" using 2(2) by (simp add: machine_env_def give_def)
  moreover have "object_at (app m) ?i = None" by (simp add: object_at_def)
  ultimately show ?case using new_ref_grows [OF new ok(1)] ok(2) by (auto simp: holds_def)
next
  case (3 i bs buf)
  then show ?case unfolding machine_errors_simps
    by (intro fails_with_fails) (auto simp: machine_env_def machine_set_region_def object_at_def split: nat.splits)
next
  case (4 i bs buf m)
  then obtain j where j: "i = Suc j" "j < length (objects (app m))" "objects (app m) ! j = D_Bytes bs"
    by (auto simp: object_at_def split: nat.splits if_splits)
  then show ?case using 4 fit_machine [OF 4(1)]
    by (auto simp: machine_env_def machine_set_region_def machine_keeps_boxes frame_def object_at_def nth_list_update split: nat.splits)
qed

section \<open>Applications\<close>

text \<open>\<open>java_like I name op\<close>: the method keeps the invariant, and it returns, throws an exception or is refused by the machine.\<close>

definition java_like :: "('a \<Rightarrow> bool) \<Rightarrow> string \<Rightarrow> ('a, 'x) sst \<Rightarrow> bool" where
  "java_like I name op \<longleftrightarrow>
     (\<forall>a. I a \<longrightarrow> (case op a of (x, a') \<Rightarrow> I a' \<and>
        (case x of
           Ok _ \<Rightarrow> True
         | Err e \<Rightarrow> (\<exists>t. e = FfiBindingError t) \<or> (\<exists>c t. e = ApplicationCallbackThrewException name c t)
         | Panic \<Rightarrow> False)))"

definition app_ok :: "('a \<Rightarrow> bool) \<Rightarrow> 'a JavaApp \<Rightarrow> bool" where
  "app_ok I A \<longleftrightarrow>
     java_like I ''getIdentityKeyPair'' (ja_getIdentityKeyPair A) \<and>
     java_like I ''getLocalRegistrationId'' (ja_getLocalRegistrationId A) \<and>
     (\<forall>a k. java_like I ''saveIdentity'' (ja_saveIdentity A a k)) \<and>
     (\<forall>a k d. java_like I ''isTrustedIdentity'' (ja_isTrustedIdentity A a k d)) \<and>
     (\<forall>a. java_like I ''loadSession'' (ja_loadSession A a)) \<and>
     (\<forall>a s. java_like I ''storeSession'' (ja_storeSession A a s)) \<and>
     (\<forall>i. java_like I ''loadPreKey'' (ja_loadPreKey A i)) \<and>
     (\<forall>i. java_like I ''removePreKey'' (ja_removePreKey A i)) \<and>
     (\<forall>i. java_like I ''loadSignedPreKey'' (ja_loadSignedPreKey A i)) \<and>
     (\<forall>g a. java_like I ''loadSenderKey'' (ja_loadSenderKey A g a)) \<and>
     (\<forall>g a r. java_like I ''storeSenderKey'' (ja_storeSenderKey A g a r))"

lemma app_okD:
  assumes "app_ok I A"
  shows "java_like I ''getIdentityKeyPair'' (ja_getIdentityKeyPair A)"
    "java_like I ''getLocalRegistrationId'' (ja_getLocalRegistrationId A)"
    "java_like I ''saveIdentity'' (ja_saveIdentity A a k)" "java_like I ''isTrustedIdentity'' (ja_isTrustedIdentity A a k d)"
    "java_like I ''loadSession'' (ja_loadSession A a)" "java_like I ''storeSession'' (ja_storeSession A a s)"
    "java_like I ''loadPreKey'' (ja_loadPreKey A i)" "java_like I ''removePreKey'' (ja_removePreKey A i)"
    "java_like I ''loadSignedPreKey'' (ja_loadSignedPreKey A i)" "java_like I ''loadSenderKey'' (ja_loadSenderKey A g a)"
    "java_like I ''storeSenderKey'' (ja_storeSenderKey A g a r)"
  using assms unfolding app_ok_def by blast+

text \<open>An answer only makes objects and boxes.\<close>

definition answer_ok :: "('x \<Rightarrow> JValue \<Rightarrow> 'a machine memory \<Rightarrow> bool) \<Rightarrow> ('x \<Rightarrow> ('a machine, JValue) jni) \<Rightarrow> bool" where
  "answer_ok ret answer \<longleftrightarrow>
     (\<forall>v m. memory_ok m \<longrightarrow>
        (\<exists>rv m'. answer v m = (Inr rv, m') \<and> grows machine_view m m' \<and> exception (app m') = exception (app m) \<and> ret v rv m'))"

lemma basic_answers:
  "answer_ok ret_bool answer_bool" "answer_ok ret_int answer_int" "answer_ok ret_unit answer_unit"
  by (auto simp: answer_ok_def ret_bool_def ret_int_def ret_unit_def answer_bool_def answer_int_def answer_unit_def grows_refl)

lemma bytes_answer: "answer_ok (ret_bytes machine_view) answer_bytes"
  unfolding answer_ok_def
proof (intro allI impI)
  fix v and m :: "'a machine memory" assume m: "memory_ok m"
  show "\<exists>rv m'. answer_bytes v m = (Inr rv, m') \<and> grows machine_view m m' \<and> exception (app m') = exception (app m) \<and>
      ret_bytes machine_view v rv m'"
  proof (cases v)
    case (Some bs)
    obtain o' m' where new: "new_ref (D_Serializable bs) m = (o', m')" by fastforce
    then show ?thesis using new_ref_grows [OF new m] Some by (auto simp: answer_bytes_def give_value_def object_value_def)
  qed (use m in \<open>simp add: answer_bytes_def grows_refl\<close>)
qed

lemma native_answer:
  fixes obj :: "'t \<Rightarrow> object"
  shows "answer_ok (ret_native machine_view obj :: _ \<Rightarrow> _ \<Rightarrow> 'a machine memory \<Rightarrow> bool) (answer_native obj)"
  unfolding answer_ok_def
proof (intro allI impI)
  fix v and m :: "'a machine memory" assume m: "memory_ok m"
  show "\<exists>rv m'. answer_native obj v m = (Inr rv, m') \<and> grows machine_view m m' \<and> exception (app m') = exception (app m) \<and>
      ret_native machine_view obj v rv m'"
  proof (cases v)
    case (Some t)
    let ?m = "snd (alloc (Boxed (obj t)) m)"
    obtain o' m' where new: "new_ref (D_Native (At (next_address m))) ?m = (o', m')" by fastforce
    note g = new_ref_grows [OF new alloc_ok [OF m]]
    have run: "answer_native obj v m = (Inr (JV_Object o'), m')" using new Some by (simp add: answer_native_def give_value_def split_beta)
    have "live machine_view m' (next_address m) (Boxed (obj t))" using new by (auto simp: live_def new_ref_def)
    with run g grows_trans [OF alloc_grows [OF m] g(1)] Some show ?thesis by (auto simp: object_value_def)
  qed (use m in \<open>simp add: answer_native_def grows_refl\<close>)
qed

text \<open>A method of an application, as the machine performs it.\<close>

lemma perform_step:
  assumes "ready machine_view I m" "I a'"
  shows "ready machine_view I (put_app ((app m)\<lparr>app_state := a', exception := e\<rparr>) m)"
    "reaches machine_view m (put_app ((app m)\<lparr>app_state := a', exception := e\<rparr>) m)"
  using assms by (auto simp: ready_def reaches_def machine_keeps_boxes persists_def frame_def)

lemma perform_calls:
  assumes run: "\<And>m. P m \<Longrightarrow> f m = perform op answer m" and op: "java_like I name op" and ans: "answer_ok ret answer"
  shows "calls X machine_view I P f ret name op"
  unfolding calls_def
proof (intro allI impI)
  fix m assume m: "fit machine_view I m" "P m"
  obtain x a' where x: "op (app_state (app m)) = (x, a')" by fastforce
  let ?k = "(app m)\<lparr>app_state := a'\<rparr>"
  have "I (app_state (app m))" using m(1) by (simp add: fit_def ready_def)
  from op [unfolded java_like_def, rule_format, OF this] x have a': "I a'" and kind: "case x of Ok _ \<Rightarrow> True
      | Err e \<Rightarrow> (\<exists>t. e = FfiBindingError t) \<or> (\<exists>c t. e = ApplicationCallbackThrewException name c t) | Panic \<Rightarrow> False"
    by simp_all
  note step = perform_step [OF fit_ready(1) [OF m(1)] a'] and none = fit_machine(2) [OF m(1)]
  have k: "?k\<lparr>exception := None\<rparr> = ?k" using none by simp
  show "case f m of (x, m') \<Rightarrow> ready machine_view I m' \<and> reaches machine_view m m' \<and>
      (case op (jv_state machine_view (app m)) of (y, a') \<Rightarrow> jv_state machine_view (app m') = a' \<and>
        (case y of
           Ok v \<Rightarrow> (\<exists>rv. x = Inr rv \<and> jv_pending machine_view (app m') = None \<and> ret v rv m')
         | Err e \<Rightarrow> (\<exists>t. x = Inl t \<and> e = FfiBindingError t) \<or>
             (\<exists>rv c t. x = Inr rv \<and> jv_pending machine_view (app m') = Some (c, t) \<and> e = thrown X name c t)
         | Panic \<Rightarrow> False))"
  proof (cases x)
    case (Ok v)
    have ok: "memory_ok (put_app ?k m)" using fit_machine(1) [OF m(1)] by simp
    then obtain rv m' where 1: "answer v (put_app ?k m) = (Inr rv, m')" "grows machine_view (put_app ?k m) m'"
        "exception (app m') = exception (app (put_app ?k m))" "ret v rv m'"
      using ans unfolding answer_ok_def by blast
    note to = step [of None, unfolded k]
    have 2: "ready machine_view I m'" "reaches machine_view m m'"
      using grows_ready [OF to(1) 1(2)] reaches_trans [OF to(2) grows_reaches [OF 1(2)]] .
    then show ?thesis using run [OF m(2)] x Ok 1 none grows_state [OF 1(2)] by (simp add: perform_def)
  next
    case (Err e)
    then show ?thesis using run [OF m(2)] x kind step [of None, unfolded k] step [of "Some _"] none
      by (auto simp: perform_def thrown_def)
  qed (use kind in simp)
qed

lemma store_call:
  assumes "method_descriptor sig" "\<And>m. P m \<Longrightarrow> list_all2 (value_holds machine_view m) vs ds" "length ds = store_arity name"
    and "\<And>m. P m \<Longrightarrow> store_method A name ds m = perform op answer m" "java_like I name op" "answer_ok ret answer"
  shows "calls X machine_view I P (je_call_method (machine_env A) (J_ref 0) name sig vs) ret name op"
proof (rule perform_calls [OF _ assms(5,6)])
  fix m assume "P m"
  note those_values [OF assms(2) [OF this]] assms(4) [OF this]
  then show "je_call_method (machine_env A) (J_ref 0) name sig vs m = perform op answer m"
    using assms(1,3) by (simp add: machine_env_def machine_call_method_def object_at_def)
qed

lemma machine_instance: "instance_of machine_view I (machine_env A) (J_ref 0) cls"
  by (auto simp: instance_of_def machine_env_def object_at_def intro!: pure_gives)

lemmas store_simps = store_method_def store_arity_def descriptor_simps address_data_def key_data_def session_data_def direction_data_def
  name_data_def sender_key_data_def

lemma machine_identity: assumes "app_ok I A" shows "identity_methods X machine_view I (machine_env A) A (J_ref 0)"
  unfolding identity_methods_def
proof (intro conjI allI machine_instance, goal_cases)
  case 1 show ?case by (rule store_call [where ds = "[]"]) (use app_okD [OF assms] bytes_answer in \<open>simp_all add: store_simps\<close>)
next
  case 2 show ?case by (rule store_call [where ds = "[]"]) (use app_okD [OF assms] basic_answers in \<open>simp_all add: store_simps\<close>)
next
  case (3 a k)
  show ?case by (rule store_call [where ds = "[address_data a, key_data k]"])
    (use app_okD [OF assms] basic_answers in \<open>simp_all add: store_simps\<close>)
next
  case (4 a k d)
  show ?case by (rule store_call [where ds = "[address_data a, key_data k, direction_data d]"])
    (use app_okD [OF assms] basic_answers in \<open>simp_all add: store_simps split: Direction.splits\<close>)
qed

lemma machine_session: assumes "app_ok I A" shows "session_methods X machine_view I (machine_env A) A (J_ref 0)"
  unfolding session_methods_def
proof (intro conjI allI machine_instance, goal_cases)
  case (1 a)
  show ?case by (rule store_call [where ds = "[address_data a]"]) (use app_okD [OF assms] bytes_answer in \<open>simp_all add: store_simps\<close>)
next
  case (2 a s)
  show ?case by (rule store_call [where ds = "[address_data a, session_data s]"])
    (use app_okD [OF assms] basic_answers in \<open>simp_all add: store_simps\<close>)
qed

lemma machine_pre_key: assumes "app_ok I A" shows "pre_key_methods X machine_view I (machine_env A) A (J_ref 0)"
  unfolding pre_key_methods_def
proof (intro conjI allI machine_instance, goal_cases)
  case (1 i)
  show ?case by (rule store_call [where ds = "[D_Int i]"]) (use app_okD [OF assms] native_answer in \<open>simp_all add: store_simps\<close>)
next
  case (2 i)
  show ?case by (rule store_call [where ds = "[D_Int i]"]) (use app_okD [OF assms] basic_answers in \<open>simp_all add: store_simps\<close>)
qed

lemma machine_signed_pre_key: assumes "app_ok I A" shows "signed_pre_key_methods X machine_view I (machine_env A) A (J_ref 0)"
  unfolding signed_pre_key_methods_def
proof (intro conjI allI machine_instance, goal_cases)
  case (1 i)
  show ?case by (rule store_call [where ds = "[D_Int i]"]) (use app_okD [OF assms] native_answer in \<open>simp_all add: store_simps\<close>)
qed

lemma machine_sender_key: assumes "app_ok I A" shows "sender_key_methods X machine_view I (machine_env A) A (J_ref 0)"
  unfolding sender_key_methods_def
proof (intro conjI allI machine_instance, goal_cases)
  case (1 g a)
  show ?case by (rule store_call [where ds = "[name_data g a]"])
    (use app_okD [OF assms] native_answer in \<open>simp_all add: store_simps\<close>)
next
  case (2 g a r on rec h)
  show ?case by (rule store_call [where ds = "[name_data g a, sender_key_data (At h)]"])
    (use app_okD [OF assms] basic_answers in \<open>simp_all add: store_simps as_SenderKeyRecord_def live_def\<close>)
qed

end
