(* ===== verification/Jni_Application.thy ===== *)
theory Jni_Application
  imports Java_Contracts Ffi_Application
begin

text \<open>
  The session and group functions of the Java interface refine the protocol operations, for every virtual machine and every
  application with the contracts of \<open>Jni_Refinement\<close>; and a machine and an application that have them: the machine of
  \<open>Java_Machine\<close> with an application that keeps serialized keys and sessions, on which the contracts are interpreted and
  the theorems witnessed.
\<close>

section \<open>Calls\<close>

text \<open>
  \<open>jni_refines V payload d check good f op s\<close>: the call \<open>f\<close> returns, and nothing undefined happens; \<open>op\<close>, on the state of the
  application, leaves the state that the application has after the call. Where \<open>op\<close> succeeds and its result can be
  given to Java (\<open>check\<close>), the call returns it as \<open>good\<close> says, with no exception; otherwise it returns the dummy value \<open>d\<close> and
  an exception is pending, with the class and the message that the library has for the error (\<open>raised\<close>), or, when the error is one of
  the machine (\<open>vm_error\<close>), which may have left an exception of its own, that one or another (\<open>left_pending\<close>). The Java objects
  and the live boxes that were there before the call are unchanged.
\<close>

definition raised :: "('j, 'a) java_view \<Rightarrow> SignalJniError \<Rightarrow> 'j memory \<Rightarrow> bool" where
  "raised V e m' \<longleftrightarrow>
     jv_pending V (app m') = Some (Some (canonical (exception_type e)), message_of (exception_type e) (error_string e))"

definition vm_error :: "SignalJniError \<Rightarrow> bool" where
  "vm_error e \<longleftrightarrow> (\<exists>t. e = J_Jni t \<or> e = J_Signal (FfiBindingError t))"

definition left_pending :: "('j, 'a) java_view \<Rightarrow> SignalJniError \<Rightarrow> 'j memory \<Rightarrow> bool" where
  "left_pending V e m' \<longleftrightarrow> vm_error e \<and> jv_pending V (app m') \<noteq> None"

definition java_result :: "('v \<Rightarrow> SignalJniError option) \<Rightarrow> 'v sresult \<Rightarrow> (SignalJniError, 'v) result" where
  "java_result check x =
     (case x of
        Ok v \<Rightarrow> (case check v of None \<Rightarrow> Ok v | Some e \<Rightarrow> Err e)
      | Err e \<Rightarrow> Err (J_Signal e)
      | Panic \<Rightarrow> Panic)"

definition jni_refines ::
    "('j, 'a) java_view \<Rightarrow> string option \<Rightarrow> 'b \<Rightarrow> ('v \<Rightarrow> SignalJniError option) \<Rightarrow> ('v \<Rightarrow> 'b \<Rightarrow> 'j memory \<Rightarrow> bool)
       \<Rightarrow> ('j, 'r, 'b) native \<Rightarrow> ('a \<times> 'r, 'v) sst \<Rightarrow> 'j memory \<times> 'r \<Rightarrow> bool" where
  "jni_refines V payload d check good f op s \<longleftrightarrow>
     (\<exists>x y m' r'.
        f s = (y, (m', r')) \<and> op (jv_state V (app (fst s)), snd s) = (x, (jv_state V (app m'), r')) \<and> reaches V (fst s) m' \<and>
        (case java_result check x of
           Ok v \<Rightarrow> jv_pending V (app m') = None \<and> good v y m'
         | Err e \<Rightarrow> y = d \<and> (raised V e m' \<or> left_pending V e m')
         | Panic \<Rightarrow> y = d \<and> raised V (J_UnexpectedPanic payload) m'))"

text \<open>What the results are in Java.\<close>

definition always :: "'v \<Rightarrow> SignalJniError option" where
  "always v = None"

definition fits_array :: "vm_errors \<Rightarrow> bytes \<Rightarrow> SignalJniError option" where
  "fits_array X bs = (if length bs < 2 ^ 31 then None else Some (J_Jni (too_large X bs)))"

definition as_array :: "('j, 'a) java_view \<Rightarrow> bytes \<Rightarrow> jbyteArray \<Rightarrow> 'j memory \<Rightarrow> bool" where
  "as_array V bs y m' \<longleftrightarrow> holds V m' y (D_Bytes bs)"

definition as_handle :: "('j, 'a) java_view \<Rightarrow> ('v \<Rightarrow> object) \<Rightarrow> 'v \<Rightarrow> ObjectHandle \<Rightarrow> 'j memory \<Rightarrow> bool" where
  "as_handle V obj v y m' \<longleftrightarrow> (\<exists>a. y = At a \<and> live V m' a (Boxed (obj v)))"

definition is_session_message :: "CiphertextMessage \<Rightarrow> SignalJniError option" where
  "is_session_message c =
     (case c of
        CM_SignalMessage _ \<Rightarrow> None | CM_PreKeySignalMessage _ \<Rightarrow> None
      | _ \<Rightarrow> Some (J_Signal (InternalError ''Unexpected result type from message_encrypt'')))"

definition boxed_in :: "('j, 'a) java_view \<Rightarrow> string \<Rightarrow> object \<Rightarrow> jobject \<Rightarrow> 'j memory \<Rightarrow> bool" where
  "boxed_in V cls x y m' \<longleftrightarrow> (\<exists>a. holds V m' y (D_New cls [D_Handle (At a)]) \<and> live V m' a (Boxed x))"

definition as_message :: "('j, 'a) java_view \<Rightarrow> CiphertextMessage \<Rightarrow> jobject \<Rightarrow> 'j memory \<Rightarrow> bool" where
  "as_message V c y m' \<longleftrightarrow>
     (case c of
        CM_SignalMessage msg \<Rightarrow> boxed_in V ''org/whispersystems/libsignal/protocol/SignalMessage'' (O_SignalMessage msg) y m'
      | CM_PreKeySignalMessage msg \<Rightarrow>
          boxed_in V ''org/whispersystems/libsignal/protocol/PreKeySignalMessage'' (O_PreKeySignalMessage msg) y m'
      | _ \<Rightarrow> False)"

section \<open>The bodies of the functions\<close>

text \<open>The same for a body, before its error is thrown.\<close>

definition conveys ::
    "('j, 'a) java_view \<Rightarrow> ('a \<Rightarrow> bool) \<Rightarrow> ('v \<Rightarrow> SignalJniError option) \<Rightarrow> ('v \<Rightarrow> 'b \<Rightarrow> 'j memory \<Rightarrow> bool)
       \<Rightarrow> ('j memory \<times> 'r, SignalJniError, 'b) st \<Rightarrow> ('a \<times> 'r, 'v) sst \<Rightarrow> 'j memory \<times> 'r \<Rightarrow> bool" where
  "conveys V I check good body op s \<longleftrightarrow>
     (\<exists>x z m' r'.
        body s = (z, (m', r')) \<and> op (jv_state V (app (fst s)), snd s) = (x, (jv_state V (app m'), r')) \<and> jkept V I (fst s) m' \<and>
        (case java_result check x of
           Ok v \<Rightarrow> fit V I m' \<and> (\<exists>y. z = Ok y \<and> good v y m')
         | Err e \<Rightarrow> z = Err e \<and> (fit V I m' \<or> vm_error e)
         | Panic \<Rightarrow> z = Panic \<and> fit V I m'))"

definition finishes ::
    "('j, 'a) java_view \<Rightarrow> ('a \<Rightarrow> bool) \<Rightarrow> ('v \<Rightarrow> SignalJniError option) \<Rightarrow> ('v \<Rightarrow> 'b \<Rightarrow> 'j memory \<Rightarrow> bool)
       \<Rightarrow> ('v \<Rightarrow> ('j memory, SignalJniError, 'b) st) \<Rightarrow> bool" where
  "finishes V I check good k \<longleftrightarrow>
     (\<forall>v m. fit V I m \<longrightarrow>
        (\<exists>z m'. k v m = (z, m') \<and> jkept V I m m' \<and> jv_state V (app m') = jv_state V (app m) \<and>
           (case check v of
              None \<Rightarrow> fit V I m' \<and> (\<exists>y. z = Ok y \<and> good v y m')
            | Some e \<Rightarrow> z = Err e \<and> (fit V I m' \<or> vm_error e))))"

lemma on_fst_sbind: "on_fst (sbind f g) = sbind (on_fst f) (\<lambda>x. on_fst (g x))"
  by (rule ext) (auto simp: on_fst_def sbind_def split: prod.splits result.splits)

lemma on_fst_sret: "on_fst (sret x) = sret x"
  by (rule ext) (auto simp: on_fst_def)

lemma on_fst_signal_try: "on_fst (signal_try f) = signal_try (on_fst f)"
  by (rule ext) (auto simp: on_fst_def signal_try_def split: prod.splits)

lemma conveys_enter:
  assumes "f m = (Ok x, m1)" "grows V m m1" "fit V I m1" "fit V I m" "conveys V I check good (g x) op (m1, r)"
  shows "conveys V I check good (sbind (on_fst f) g) op (m, r)"
proof -
  have "sbind (on_fst f) g (m, r) = g x (m1, r)" using assms(1) by (simp add: on_fst_def)
  then show ?thesis
    using assms(5) jkept_trans [OF grows_jkept [OF assms(4,2)]] unfolding conveys_def by (fastforce simp: grows_state [OF assms(2)])
qed

lemma conveys_op:
  assumes sim: "sim (pair_view (\<lambda>m. jv_state V (app m))) (pair_step (jkept V I)) F op" and m: "fit V I m"
    and k: "finishes V I check good k"
  shows "conveys V I check good (sbind (signal_try F) (\<lambda>v. on_fst (k v))) op (m, r)"
proof -
  obtain x m1 r1 where F: "F (m, r) = (x, (m1, r1))" by (metis prod.exhaust)
  have step: "jkept V I m m1" "op (jv_state V (app m), r) = (x, (jv_state V (app m1), r1))" "\<not> interface_error x \<longrightarrow> fit V I m1"
    using simD [OF sim _ F] m by (simp_all add: pair_step_def pair_view_def jkept_refl)
  show ?thesis
  proof (cases x)
    case (Ok v)
    have "fit V I m1" using step(3) Ok by simp
    then obtain z m2 where 2: "k v m1 = (z, m2)" "jkept V I m1 m2" "jv_state V (app m2) = jv_state V (app m1)"
        "case check v of None \<Rightarrow> fit V I m2 \<and> (\<exists>y. z = Ok y \<and> good v y m2) | Some e \<Rightarrow> z = Err e \<and> (fit V I m2 \<or> vm_error e)"
      using k unfolding finishes_def by blast
    have "sbind (signal_try F) (\<lambda>v. on_fst (k v)) (m, r) = (z, (m2, r1))"
      using F Ok 2(1) by (simp add: signal_try_def sbind_def on_fst_def)
    then show ?thesis using step(2) 2 jkept_trans [OF step(1) 2(2)] Ok
      by (auto simp: conveys_def java_result_def split: option.splits)
  qed (use F step in \<open>auto simp: conveys_def signal_try_def sbind_def java_result_def vm_error_def\<close>)
qed

lemma conveys_only:
  assumes sim: "sim (pair_view (\<lambda>m. jv_state V (app m))) (pair_step (jkept V I)) F op" and m: "fit V I m"
  shows "conveys V I always (\<lambda>_ _ _. True) (signal_try F) op (m, r)"
proof -
  have "finishes V I always (\<lambda>_ _ _. True) sret" by (simp add: finishes_def always_def jkept_refl)
  from conveys_op [OF sim m this] show ?thesis
    by (simp add: sbind_sret_right on_fst_sret)
qed

context java_vm
begin

lemma throw_step:
  assumes "ready V I m"
  shows "grows V m (throw_error J e m)"
    and "fit V I m \<Longrightarrow> raised V e (throw_error J e m)"
    and "\<not> fit V I m \<Longrightarrow> jv_pending V (app (throw_error J e m)) \<noteq> None"
proof -
  have "\<exists>x m'. je_throw_new J (exception_type e) (error_string e) m = (x, m') \<and> grows V m m' \<and>
      (if fit V I m then raised V e m' else jv_pending V (app m') \<noteq> None)"
    using pending_laws(5,6) [OF exception_type_classes] assms by (cases "fit V I m") (auto simp: raised_def fit_def)
  then show "grows V m (throw_error J e m)" "fit V I m \<Longrightarrow> raised V e (throw_error J e m)"
      "\<not> fit V I m \<Longrightarrow> jv_pending V (app (throw_error J e m)) \<noteq> None"
    by (auto simp: throw_error_def)
qed

lemma conveys_run:
  assumes body: "conveys V I check good body op (m, r)"
  shows "jni_refines V payload d check good (jni_run_ffi_safe J payload d body) op (m, r)"
proof -
  obtain x z m1 r1 where b: "body (m, r) = (z, (m1, r1))" and op: "op (jv_state V (app m), r) = (x, (jv_state V (app m1), r1))"
    and k: "jkept V I m m1"
    and z: "case java_result check x of
       Ok v \<Rightarrow> fit V I m1 \<and> (\<exists>y. z = Ok y \<and> good v y m1)
     | Err e \<Rightarrow> z = Err e \<and> (fit V I m1 \<or> vm_error e)
     | Panic \<Rightarrow> z = Panic \<and> fit V I m1"
    using body by (auto simp: conveys_def)
  have ready1: "ready V I m1" "reaches V m m1" using k by (simp_all add: jkept_def)
  have thrown: "reaches V m (throw_error J e m1)" "jv_state V (app (throw_error J e m1)) = jv_state V (app m1)"
      "fit V I m1 \<Longrightarrow> raised V e (throw_error J e m1)"
      "raised V e (throw_error J e m1) \<or> jv_pending V (app (throw_error J e m1)) \<noteq> None" for e
    using throw_step [OF ready1(1), of e] reaches_trans [OF ready1(2) grows_reaches] by (auto simp: grows_state)
  show ?thesis
  proof (cases "java_result check x")
    case (Ok v)
    then show ?thesis using b op z ready1(2) by (auto simp: jni_refines_def jni_run_ffi_safe_def fit_def)
  next
    case (Err e)
    then have "raised V e (throw_error J e m1) \<or> left_pending V e (throw_error J e m1)" using z thrown(3,4) [of e]
      by (auto simp: left_pending_def)
    then show ?thesis using b op z Err thrown(1,2) [of e] by (auto simp: jni_refines_def jni_run_ffi_safe_def)
  next
    case Panic
    then show ?thesis using b op z thrown [of "J_UnexpectedPanic payload"] by (auto simp: jni_refines_def jni_run_ffi_safe_def)
  qed
qed

text \<open>The results.\<close>

lemma array_finishes: "finishes V I (fits_array X) (as_array V) (\<lambda>bs. to_jbytearray J (Ok bs))"
  unfolding finishes_def
proof (intro allI impI)
  fix bs m assume m: "fit V I m"
  show "\<exists>z m'. to_jbytearray J (Ok bs) m = (z, m') \<and> jkept V I m m' \<and> jv_state V (app m') = jv_state V (app m) \<and>
      (case fits_array X bs of
         None \<Rightarrow> fit V I m' \<and> (\<exists>y. z = Ok y \<and> as_array V bs y m')
       | Some e \<Rightarrow> z = Err e \<and> (fit V I m' \<or> vm_error e))"
  proof (cases "length bs < 2 ^ 31")
    case True
    obtain y m' where "to_jbytearray J (Ok bs) m = (Ok y, m')" "grows V m m'" "fit V I m'" "holds V m' y (D_Bytes bs)"
      using makesE [OF to_jbytearray_makes [OF m True]] .
    then show ?thesis using True m by (auto simp: fits_array_def as_array_def grows_jkept grows_state)
  next
    case False
    obtain m' where "to_jbytearray J (Ok bs) m = (Err (J_Jni (too_large X bs)), m')" "grows V m m'"
      using to_jbytearray_refused [OF m False] .
    then show ?thesis using False m by (auto simp: fits_array_def vm_error_def grows_jkept grows_state)
  qed
qed

lemma handle_finishes: "finishes V I always (as_handle V obj) (\<lambda>v. jni_box_object obj (Ok v))"
  unfolding finishes_def
proof (intro allI impI)
  fix v m assume m: "fit V I m"
  obtain a m' where "jni_box_object obj (Ok v) m = (Ok (At a), m')" "jkept V I m m'" "fit V I m'" "app m' = app m"
      "live V m' a (Boxed (obj v))"
    using box_step [OF m] .
  then show "\<exists>z m'. jni_box_object obj (Ok v) m = (z, m') \<and> jkept V I m m' \<and> jv_state V (app m') = jv_state V (app m) \<and>
      (case always v of
         None \<Rightarrow> fit V I m' \<and> (\<exists>y. z = Ok y \<and> as_handle V obj v y m')
       | Some e \<Rightarrow> z = Err e \<and> (fit V I m' \<or> vm_error e))"
    by (auto simp: always_def as_handle_def)
qed

lemma boxed_message:
  assumes m: "fit V I m" and c: "(cls, ''(J)V'') \<in> set java_constructors"
  obtains y m' where "sbind (jni_box_object obj (Ok t)) (jobject_from_native_handle J cls) m = (Ok y, m')" "jkept V I m m'" "fit V I m'"
    "jv_state V (app m') = jv_state V (app m)" "boxed_in V cls (obj t) y m'"
proof -
  obtain a m1 where 1: "jni_box_object obj (Ok t) m = (Ok (At a), m1)" "jkept V I m m1" "app m1 = app m"
      "live V m1 a (Boxed (obj t))" and m1: "fit V I m1"
    using box_step [OF m] by metis
  obtain y m2 where 2: "jobject_from_native_handle J cls (At a) m1 = (Ok y, m2)" "grows V m1 m2" "fit V I m2"
      "holds V m2 y (D_New cls [D_Handle (At a)])"
    using makesE [OF native_makes [OF m1 c]] .
  have "live V m2 a (Boxed (obj t))" by (rule live_grows [OF 1(4) m1 2(2)])
  then show thesis
    using that [of y m2] 1 2 jkept_trans [OF 1(2) grows_jkept [OF m1 2(2)]] by (auto simp: boxed_in_def grows_state)
qed

lemma message_finishes:
  "finishes V I is_session_message (as_message V) (\<lambda>ctext. case ctext of
      CM_SignalMessage m \<Rightarrow>
        sbind (jni_box_object O_SignalMessage (Ok m)) (\<lambda>h.
        jobject_from_native_handle J ''org/whispersystems/libsignal/protocol/SignalMessage'' h)
    | CM_PreKeySignalMessage m \<Rightarrow>
        sbind (jni_box_object O_PreKeySignalMessage (Ok m)) (\<lambda>h.
        jobject_from_native_handle J ''org/whispersystems/libsignal/protocol/PreKeySignalMessage'' h)
    | _ \<Rightarrow> sthrow (J_Signal (InternalError ''Unexpected result type from message_encrypt'')))"
proof -
  have c: "(''org/whispersystems/libsignal/protocol/SignalMessage'', ''(J)V'') \<in> set java_constructors"
    "(''org/whispersystems/libsignal/protocol/PreKeySignalMessage'', ''(J)V'') \<in> set java_constructors"
    by (simp_all add: java_constructors_def)
  show ?thesis unfolding finishes_def
  proof (intro allI impI, goal_cases)
    case (1 v m)
    show ?case
    proof (cases v)
      case (CM_SignalMessage msg)
      then show ?thesis by (auto intro: boxed_message [OF 1 c(1), of O_SignalMessage msg] simp: is_session_message_def as_message_def)
    next
      case (CM_PreKeySignalMessage msg)
      then show ?thesis by (auto intro: boxed_message [OF 1 c(2), of O_PreKeySignalMessage msg] simp: is_session_message_def as_message_def)
    qed (use 1 in \<open>auto simp: is_session_message_def jkept_refl\<close>)
  qed
qed

text \<open>How a body begins: with casts of handles, checks of stores and conversions of byte arrays.\<close>

lemma cast_enters:
  assumes "live V m a (Boxed x)" "as x = Some t" "fit V I m" "conveys V I check good (g t) op (m, r)"
  shows "conveys V I check good (sbind (on_fst (jni_native_handle_cast as (At a))) g) op (m, r)"
  by (rule conveys_enter [where x = t and ?m1.0 = m]) (use assms fit_ready(4) [OF assms(3)] in \<open>simp_all add: live_def jni_native_handle_cast_def handle_ref_At grows_refl\<close>)

lemma store_enters:
  assumes "new = sbind (check_jobject_type J store cls) (\<lambda>_. sret store)" "instance_of V I J store cls" "cls \<in> set java_classes" "fit V I m"
    and "\<And>m1. grows V m m1 \<Longrightarrow> fit V I m1 \<Longrightarrow> conveys V I check good (g store) op (m1, r)"
  shows "conveys V I check good (sbind (on_fst new) g) op (m, r)"
proof -
  obtain m1 where "check_jobject_type J store cls m = (Ok (), m1)" "grows V m m1" "fit V I m1"
    using check_type [OF assms(4,2,3)] .
  then show ?thesis unfolding assms(1) using assms(4,5) by (intro conveys_enter [where x = store and ?m1.0 = m1]) simp_all
qed

lemma array_enters:
  assumes "holds V m o' (D_Bytes bs)" "fit V I m"
    and "\<And>m1. grows V m m1 \<Longrightarrow> fit V I m1 \<Longrightarrow> conveys V I check good (g bs) op (m1, r)"
  shows "conveys V I check good (sbind (on_fst (jni_try (je_convert_byte_array J o'))) g) op (m, r)"
proof -
  obtain m1 where "jni_try (je_convert_byte_array J o') m = (Ok bs, m1)" "grows V m m1" "fit V I m1"
    by (rule gives_try [OF convert_law assms(2,1)]) auto
  then show ?thesis using assms(2,3) by (intro conveys_enter [where x = bs and ?m1.0 = m1]) simp_all
qed

end

lemmas as_simps = as_ProtocolAddress_def as_PreKeyBundle_def as_SignalMessage_def as_PreKeySignalMessage_def as_SenderKeyName_def
  as_SenderKeyDistributionMessage_def

section \<open>The session functions\<close>

context java_session_app
begin

lemma stores_are_instances:
  "instance_of V I J identity_obj ''org/whispersystems/libsignal/state/IdentityKeyStore''"
  "instance_of V I J session_obj ''org/whispersystems/libsignal/state/SessionStore''"
  using identity session by (simp_all add: identity_methods_def session_methods_def)

lemmas enters = cast_enters array_enters store_enters [OF JniIdentityKeyStore_new_def stores_are_instances(1)]
  store_enters [OF JniSessionStore_new_def stores_are_instances(2)]

lemma process_bundle_refines:
  assumes m: "fit V I m" and h: "live V m bp (Boxed (O_PreKeyBundle bundle))" "live V m ap (Boxed (O_ProtocolAddress addr))"
  shows "jni_refines V (panic_payload E) () always (\<lambda>_ _ _. True)
    (Native_SessionBuilder_1ProcessPreKeyBundle J E (At bp) (At ap) session_obj identity_obj)
    (process_prekey_bundle (env_crypto E) addr (App_SessionStore X E A) (App_IdentityKeyStore X E A) bundle) (m, r)"
  unfolding Native_SessionBuilder_1ProcessPreKeyBundle_def dummy_unit_def
  by (rule conveys_run, (rule enters conveys_only process_prekey_bundle_sim m h | assumption | simp add: as_simps java_classes_def)+)

lemma encrypt_refines:
  assumes m: "fit V I m" and h: "live V m ap (Boxed (O_ProtocolAddress addr))" and bs: "holds V m text (D_Bytes bs)"
  shows "jni_refines V (panic_payload E) J_null is_session_message (as_message V)
    (Native_SessionCipher_1EncryptMessage J E text (At ap) session_obj identity_obj)
    (on_fst (message_encrypt (env_crypto E) (env_SignalMessage E) (env_PreKeySignalMessage E) bs addr
      (App_SessionStore X E A) (App_IdentityKeyStore X E A))) (m, r)"
  unfolding Native_SessionCipher_1EncryptMessage_def dummy_jobject_def on_fst_sbind on_fst_signal_try
  by (rule conveys_run, (rule enters conveys_op message_finishes sim_on_fst message_encrypt_sim m bs | assumption
      | simp add: as_simps java_classes_def | (rule live_grows, rule h, rule m))+)

lemma decrypt_refines:
  assumes m: "fit V I m" and h: "live V m mp (Boxed (O_SignalMessage msg))" "live V m ap (Boxed (O_ProtocolAddress addr))"
  shows "jni_refines V (panic_payload E) J_null (fits_array X) (as_array V)
    (Native_SessionCipher_1DecryptSignalMessage J E (At mp) (At ap) session_obj identity_obj)
    (message_decrypt_signal (env_crypto E) msg addr (App_SessionStore X E A) (App_IdentityKeyStore X E A)) (m, r)"
  unfolding Native_SessionCipher_1DecryptSignalMessage_def dummy_jobject_def
  by (rule conveys_run, (rule enters conveys_op array_finishes message_decrypt_signal_sim m h | assumption | simp add: as_simps java_classes_def)+)

end

context java_prekey_app
begin

lemma prekey_stores_are_instances:
  "instance_of V I J pre_key_obj ''org/whispersystems/libsignal/state/PreKeyStore''"
  "instance_of V I J signed_pre_key_obj ''org/whispersystems/libsignal/state/SignedPreKeyStore''"
  using pre_key signed by (simp_all add: pre_key_methods_def signed_pre_key_methods_def)

lemma decrypt_prekey_refines:
  assumes m: "fit V I m"
    and h: "live V m pp (Boxed (O_PreKeySignalMessage msg))" "live V m ap (Boxed (O_ProtocolAddress addr))"
  shows "jni_refines V (panic_payload E) J_null (fits_array X) (as_array V)
    (Native_SessionCipher_1DecryptPreKeySignalMessage J E (At pp) (At ap) session_obj identity_obj pre_key_obj signed_pre_key_obj)
    (message_decrypt_prekey (env_crypto E) msg addr (App_SessionStore X E A) (App_IdentityKeyStore X E A)
      (App_PreKeyStore A) (App_SignedPreKeyStore A)) (m, r)"
  unfolding Native_SessionCipher_1DecryptPreKeySignalMessage_def dummy_jobject_def
  by (rule conveys_run, (rule enters store_enters [OF JniPreKeyStore_new_def prekey_stores_are_instances(1)]
      store_enters [OF JniSignedPreKeyStore_new_def prekey_stores_are_instances(2)] conveys_op array_finishes
      prekey.message_decrypt_prekey_sim m h | assumption | simp add: as_simps java_classes_def)+)

end

section \<open>The group functions\<close>

context java_group_app
begin

lemma sender_key_store_is_instance: "instance_of V I J sender_key_obj ''org/whispersystems/libsignal/groups/state/SenderKeyStore''"
  using sender_key by (simp add: sender_key_methods_def)

lemmas group_enters = cast_enters array_enters store_enters [OF JniSenderKeyStore_new_def sender_key_store_is_instance]

lemma create_distribution_refines:
  assumes m: "fit V I m" and h: "live V m np (Boxed (O_SenderKeyName name))"
  shows "jni_refines V (panic_payload E) Null always (as_handle V O_SenderKeyDistributionMessage)
    (Native_GroupSessionBuilder_1CreateSenderKeyDistributionMessage J E (At np) sender_key_obj)
    (create_sender_key_distribution_message (env_crypto E) (env_SenderKeyDistributionMessage E) name (App_SenderKeyStore X A)) (m, r)"
  unfolding Native_GroupSessionBuilder_1CreateSenderKeyDistributionMessage_def dummy_handle_def
  by (rule conveys_run, (rule group_enters conveys_op handle_finishes create_distribution_sim m h | assumption | simp add: as_simps java_classes_def)+)

lemma process_distribution_refines:
  assumes m: "fit V I m"
    and h: "live V m np (Boxed (O_SenderKeyName name))" "live V m dp (Boxed (O_SenderKeyDistributionMessage skdm))"
  shows "jni_refines V (panic_payload E) () always (\<lambda>_ _ _. True)
    (Native_GroupSessionBuilder_1ProcessSenderKeyDistributionMessage J E (At np) (At dp) sender_key_obj)
    (on_fst (process_sender_key_distribution_message name skdm (App_SenderKeyStore X A))) (m, r)"
  unfolding Native_GroupSessionBuilder_1ProcessSenderKeyDistributionMessage_def dummy_unit_def on_fst_sbind on_fst_signal_try
  by (rule conveys_run, (rule group_enters conveys_only sim_on_fst process_distribution_sim m h | assumption | simp add: as_simps java_classes_def)+)

lemma group_encrypt_refines:
  assumes m: "fit V I m" and h: "live V m np (Boxed (O_SenderKeyName name))" and bs: "holds V m text (D_Bytes bs)"
  shows "jni_refines V (panic_payload E) J_null (fits_array X) (as_array V)
    (Native_GroupCipher_1EncryptMessage J E (At np) text sender_key_obj)
    (group_encrypt (env_crypto E) (env_SenderKeyMessage E) (App_SenderKeyStore X A) name bs) (m, r)"
  unfolding Native_GroupCipher_1EncryptMessage_def dummy_jobject_def
  by (rule conveys_run, (rule group_enters conveys_op array_finishes group_encrypt_sim m h bs | assumption | simp add: as_simps java_classes_def)+)

lemma group_decrypt_refines:
  assumes m: "fit V I m" and h: "live V m np (Boxed (O_SenderKeyName name))" and bs: "holds V m text (D_Bytes bs)"
  shows "jni_refines V (panic_payload E) J_null (fits_array X) (as_array V)
    (Native_GroupCipher_1DecryptMessage J E (At np) text sender_key_obj)
    (on_fst (group_decrypt (env_crypto E) (env_SenderKeyMessage E) bs (App_SenderKeyStore X A) name)) (m, r)"
  unfolding Native_GroupCipher_1DecryptMessage_def dummy_jobject_def on_fst_sbind on_fst_signal_try
  by (rule conveys_run, (rule group_enters conveys_op array_finishes sim_on_fst group_decrypt_sim m h bs | assumption | simp add: as_simps java_classes_def)+)

end

section \<open>The application\<close>

text \<open>
  An application in Java that keeps its records in the in-memory store of \<open>storage/inmem.rs\<close>, and hands keys and sessions
  over as bytes. An error of the store, or of the conversion, is thrown as the exception the library has for it.
\<close>

definition java_method :: "string \<Rightarrow> ('a, 'x) sst \<Rightarrow> ('a, 'x) sst" where
  "java_method name op a =
     (case op a of
        (Ok x, a') \<Rightarrow> (Ok x, a')
      | (Err e, a') \<Rightarrow> (Err (ApplicationCallbackThrewException name (Some (canonical (exception_type (J_Signal e)))) (error_string (J_Signal e))), a')
      | (Panic, a') \<Rightarrow> (Err (ApplicationCallbackThrewException name (Some ''java.lang.AssertionError'') ''panic''), a'))"

definition from_jaddress :: "jaddress \<Rightarrow> ProtocolAddress" where
  "from_jaddress a = \<lparr>pa_name = fst a, pa_device_id = snd a\<rparr>"

definition inmem_java_app :: "('sc, 'pt, 'r) jni_env \<Rightarrow> InMemSignalProtocolStore JavaApp" where
  "inmem_java_app E =
     \<lparr>ja_getIdentityKeyPair = java_method ''getIdentityKeyPair''
        (sbind (get_identity_key_pair InMem_IdentityKeyStore) (\<lambda>kp. sret (Some (IdentityKeyPair_serialize (env_IdentityKeyPair E) kp)))),
      ja_getLocalRegistrationId = java_method ''getLocalRegistrationId'' (get_local_registration_id InMem_IdentityKeyStore),
      ja_saveIdentity = (\<lambda>a k. java_method ''saveIdentity''
        (sbind (slift (IdentityKey_decode k)) (\<lambda>i. save_identity InMem_IdentityKeyStore (from_jaddress a) i))),
      ja_isTrustedIdentity = (\<lambda>a k d. java_method ''isTrustedIdentity''
        (sbind (slift (IdentityKey_decode k)) (\<lambda>i. is_trusted_identity InMem_IdentityKeyStore (from_jaddress a) i d))),
      ja_getIdentity = (\<lambda>a. java_method ''getIdentity''
        (sbind (get_identity InMem_IdentityKeyStore (from_jaddress a)) (\<lambda>k. sret (map_option IdentityKey_serialize k)))),
      ja_loadSession = (\<lambda>a. java_method ''loadSession''
        (sbind (load_session InMem_SessionStore (from_jaddress a)) (\<lambda>r. case r of
           None \<Rightarrow> sret None
         | Some r \<Rightarrow> sbind (slift (SessionRecord_serialize (env_Record E) r)) (\<lambda>bs. sret (Some bs))))),
      ja_storeSession = (\<lambda>a bs. java_method ''storeSession''
        (sbind (slift (SessionRecord_deserialize (env_Record E) bs)) (\<lambda>r. store_session InMem_SessionStore (from_jaddress a) r))),
      ja_loadPreKey = (\<lambda>i. java_method ''loadPreKey'' (optional InvalidPreKeyId (get_pre_key InMem_PreKeyStore i))),
      ja_removePreKey = (\<lambda>i. java_method ''removePreKey'' (remove_pre_key InMem_PreKeyStore i)),
      ja_loadSignedPreKey = (\<lambda>i. java_method ''loadSignedPreKey''
        (optional InvalidSignedPreKeyId (get_signed_pre_key InMem_SignedPreKeyStore i))),
      ja_loadSenderKey = (\<lambda>g a. java_method ''loadSenderKey''
        (load_sender_key InMem_SenderKeyStore \<lparr>skn_group_id = g, skn_sender = from_jaddress a\<rparr>)),
      ja_storeSenderKey = (\<lambda>g a r. java_method ''storeSenderKey''
        (store_sender_key InMem_SenderKeyStore \<lparr>skn_group_id = g, skn_sender = from_jaddress a\<rparr> r)),
      ja_parseSession = (\<lambda>bs. case SessionRecord_deserialize (env_Record E) bs of Ok _ \<Rightarrow> None | _ \<Rightarrow> Some ''invalid'')\<rparr>"

lemma java_method_ok: "java_like (\<lambda>_. True) name (java_method name op)"
  by (auto simp: java_like_def java_method_def split: prod.splits result.splits)

lemma inmem_java_app_ok: "app_ok (\<lambda>_. True) (inmem_java_app E)"
  by (simp add: app_ok_def inmem_java_app_def java_method_ok)

interpretation inmem_java: java_prekey_app "machine_errors (inmem_java_app E)" machine_view "\<lambda>_. True" "machine_env (inmem_java_app E)" E "inmem_java_app E"
    "J_ref 0" "J_ref 0" "J_ref 0" "J_ref 0"
  by unfold_locales (intro machine_objects machine_arrays machine_exceptions machine_identity machine_session machine_pre_key
      machine_signed_pre_key inmem_java_app_ok)+

interpretation inmem_java_group: java_group_app "machine_errors (inmem_java_app E)" machine_view "\<lambda>_. True" "machine_env (inmem_java_app E)"
    "inmem_java_app E" "J_ref 0"
  by unfold_locales (intro machine_sender_key inmem_java_app_ok)

text \<open>Its memory: the boxes of \<open>ref_app_memory\<close>, and one byte array.\<close>

definition ref_java_app_memory :: "InMemSignalProtocolStore machine memory" where
  "ref_java_app_memory =
     \<lparr>heap = heap ref_app_memory, next_address = next_address ref_app_memory, undefined_behaviour = False,
      app = \<lparr>objects = [D_Bytes [104, 105]], exception = None, app_state = app ref_app_memory\<rparr>\<rparr>"

lemma ref_java_app_memory_fit:
  "fit machine_view (\<lambda>_. True) ref_java_app_memory" "holds machine_view ref_java_app_memory (J_ref 1) (D_Bytes [104, 105])"
  "heap ref_app_memory a = Some c \<Longrightarrow> live machine_view ref_java_app_memory a c"
  using ref_app_memory_ok(1) by (simp_all add: fit_def ready_def ref_java_app_memory_def memory_ok_def holds_def object_at_def live_def)

section \<open>Refinement\<close>

text \<open>
  C17. The session functions of the Java interface refine the protocol operations. Let the virtual machine and the stores of
  the application have their contracts, and let the arguments be live handles, a byte array and the store objects. Then
  \<open>SessionBuilder_ProcessPreKeyBundle\<close>, \<open>SessionCipher_EncryptMessage\<close>, \<open>SessionCipher_DecryptSignalMessage\<close> and
  \<open>SessionCipher_DecryptPreKeySignalMessage\<close> return, nothing undefined happens, the state of the application becomes what
  \<open>process_prekey_bundle\<close>, \<open>message_encrypt\<close>, \<open>message_decrypt_signal\<close> and \<open>message_decrypt_prekey\<close> make of it on its stores,
  the result is the Java object for the result of the operation, and an error, a panic or a result that is too large for Java
  is a pending exception, of the class and with the message that the library has for it; for an error of the machine (a call or a
  construction that it refused, an array that is too large), an exception is pending, which may be that of the machine.

  The contracts leave Java free to do what the classes of \<open>src/java\<close> do: constructors, methods and finalizers may make boxes and
  free those of garbage; a constructor may refuse its arguments, which the stores see as an error (\<open>checked\<close>): \<open>SignalProtocolAddress\<close> a
  negative device number, \<open>IdentityKey\<close> and \<open>SessionRecord\<close> bytes that do not parse; and methods may throw any exception, with or without a name and
  a message. Not considered are a machine that runs out of memory and other threads that use the same stores during the call.
\<close>

theorem jni_sessions_refine:
  assumes vm: "object_laws X V I J" "array_laws X V I J" "exception_laws X V I J"
    and stores: "identity_methods X V I J A ist" "session_methods X V I J A sst"
      "pre_key_methods X V I J A pst" "signed_pre_key_methods X V I J A spst"
    and m: "fit V I m"
    and handles: "live V m ap (Boxed (O_ProtocolAddress addr))" "live V m bp (Boxed (O_PreKeyBundle bundle))"
      "live V m mp (Boxed (O_SignalMessage msg))" "live V m pp (Boxed (O_PreKeySignalMessage pre_key_msg))"
    and ptext: "holds V m text (D_Bytes bs)"
  shows
    "jni_refines V (panic_payload E) () always (\<lambda>_ _ _. True)
       (Native_SessionBuilder_1ProcessPreKeyBundle J E (At bp) (At ap) sst ist)
       (process_prekey_bundle (env_crypto E) addr (App_SessionStore X E A) (App_IdentityKeyStore X E A) bundle) (m, r) \<and>
     jni_refines V (panic_payload E) J_null is_session_message (as_message V)
       (Native_SessionCipher_1EncryptMessage J E text (At ap) sst ist)
       (on_fst (message_encrypt (env_crypto E) (env_SignalMessage E) (env_PreKeySignalMessage E) bs addr
         (App_SessionStore X E A) (App_IdentityKeyStore X E A))) (m, r) \<and>
     jni_refines V (panic_payload E) J_null (fits_array X) (as_array V)
       (Native_SessionCipher_1DecryptSignalMessage J E (At mp) (At ap) sst ist)
       (message_decrypt_signal (env_crypto E) msg addr (App_SessionStore X E A) (App_IdentityKeyStore X E A)) (m, r) \<and>
     jni_refines V (panic_payload E) J_null (fits_array X) (as_array V)
       (Native_SessionCipher_1DecryptPreKeySignalMessage J E (At pp) (At ap) sst ist pst spst)
       (message_decrypt_prekey (env_crypto E) pre_key_msg addr (App_SessionStore X E A) (App_IdentityKeyStore X E A)
         (App_PreKeyStore A) (App_SignedPreKeyStore A)) (m, r)"
proof -
  have vm': "java_vm X V I J" using vm by (rule java_vm.intro)
  have app: "java_session_app X V I J A ist sst"
    by (rule java_session_app.intro [OF vm' java_session_app_axioms.intro [OF stores(1,2)]])
  have papp: "java_prekey_app X V I J A ist sst pst spst"
    by (rule java_prekey_app.intro [OF app java_prekey_app_axioms.intro [OF stores(3,4)]])
  show ?thesis
    by (intro conjI java_session_app.process_bundle_refines [OF app m] java_session_app.encrypt_refines [OF app m]
        java_session_app.decrypt_refines [OF app m] java_prekey_app.decrypt_prekey_refines [OF papp m] handles ptext)
qed

theorem jni_sessions_refine_witness:
  "jni_refines machine_view None J_null is_session_message (as_message machine_view)
     (Native_SessionCipher_1EncryptMessage (machine_env (inmem_java_app ref_jni_env)) ref_jni_env (J_ref 1) (At 0) (J_ref 0) (J_ref 0))
     (on_fst (message_encrypt ref_crypto (env_SignalMessage ref_env) (env_PreKeySignalMessage ref_env) [104, 105] ref_address
       (App_SessionStore (machine_errors (inmem_java_app ref_jni_env)) ref_jni_env (inmem_java_app ref_jni_env))
       (App_IdentityKeyStore (machine_errors (inmem_java_app ref_jni_env)) ref_jni_env (inmem_java_app ref_jni_env)))) (ref_java_app_memory, 0)"
proof -
  have E: "env_crypto ref_jni_env = ref_crypto" "panic_payload ref_jni_env = None"
    "env_SignalMessage ref_jni_env = env_SignalMessage ref_env"
    "env_PreKeySignalMessage ref_jni_env = env_PreKeySignalMessage ref_env" by (simp_all add: ref_jni_env_def)
  obtain b m where bm: "live machine_view ref_java_app_memory 1 (Boxed (O_PreKeyBundle b))"
      "live machine_view ref_java_app_memory 3 (Boxed (O_PreKeySignalMessage m))"
    using ref_app_cells ref_java_app_memory_fit(3) by blast
  note cells = ref_app_cells(7,9) [THEN ref_java_app_memory_fit(3)]
  note ok = inmem_java_app_ok [of ref_jni_env]
  show ?thesis
    using jni_sessions_refine [where E = ref_jni_env and r = 0, OF machine_objects machine_arrays machine_exceptions machine_identity [OF ok]
        machine_session [OF ok] machine_pre_key [OF ok] machine_signed_pre_key [OF ok] ref_java_app_memory_fit(1) cells(1) bm(1)
        cells(2) bm(2) ref_java_app_memory_fit(2), unfolded E]
    by blast
qed

text \<open>
  C18. The group functions of the Java interface refine the group operations, in the same sense and under the same contracts of
  the machine: \<open>GroupSessionBuilder_CreateSenderKeyDistributionMessage\<close>, \<open>GroupSessionBuilder_ProcessSenderKeyDistributionMessage\<close>,
  \<open>GroupCipher_EncryptMessage\<close> and \<open>GroupCipher_DecryptMessage\<close>, on the store of sender keys of the application, where
  the constructor of \<open>SenderKeyName\<close> makes a box of the library and refuses a negative device number.
\<close>

theorem jni_groups_refine:
  assumes vm: "object_laws X V I J" "array_laws X V I J" "exception_laws X V I J" and store: "sender_key_methods X V I J A st"
    and m: "fit V I m"
    and handles: "live V m np (Boxed (O_SenderKeyName name))" "live V m dp (Boxed (O_SenderKeyDistributionMessage skdm))"
    and ptext: "holds V m text (D_Bytes bs)"
  shows
    "jni_refines V (panic_payload E) Null always (as_handle V O_SenderKeyDistributionMessage)
       (Native_GroupSessionBuilder_1CreateSenderKeyDistributionMessage J E (At np) st)
       (create_sender_key_distribution_message (env_crypto E) (env_SenderKeyDistributionMessage E) name (App_SenderKeyStore X A)) (m, r) \<and>
     jni_refines V (panic_payload E) () always (\<lambda>_ _ _. True)
       (Native_GroupSessionBuilder_1ProcessSenderKeyDistributionMessage J E (At np) (At dp) st)
       (on_fst (process_sender_key_distribution_message name skdm (App_SenderKeyStore X A))) (m, r) \<and>
     jni_refines V (panic_payload E) J_null (fits_array X) (as_array V)
       (Native_GroupCipher_1EncryptMessage J E (At np) text st)
       (group_encrypt (env_crypto E) (env_SenderKeyMessage E) (App_SenderKeyStore X A) name bs) (m, r) \<and>
     jni_refines V (panic_payload E) J_null (fits_array X) (as_array V)
       (Native_GroupCipher_1DecryptMessage J E (At np) text st)
       (on_fst (group_decrypt (env_crypto E) (env_SenderKeyMessage E) bs (App_SenderKeyStore X A) name)) (m, r)"
proof -
  have app: "java_group_app X V I J A st"
    by (rule java_group_app.intro [OF java_vm.intro [OF vm] java_group_app_axioms.intro [OF store]])
  show ?thesis
    by (intro conjI java_group_app.create_distribution_refines [OF app m] java_group_app.process_distribution_refines [OF app m]
        java_group_app.group_encrypt_refines [OF app m] java_group_app.group_decrypt_refines [OF app m] handles ptext)
qed

theorem jni_groups_refine_witness:
  "jni_refines machine_view None J_null (fits_array (machine_errors (inmem_java_app ref_jni_env))) (as_array machine_view)
     (Native_GroupCipher_1EncryptMessage (machine_env (inmem_java_app ref_jni_env)) ref_jni_env (At 8) (J_ref 1) (J_ref 0))
     (group_encrypt ref_crypto (env_SenderKeyMessage ref_env) (App_SenderKeyStore (machine_errors (inmem_java_app ref_jni_env)) (inmem_java_app ref_jni_env)) ref_group_name [104, 105])
     (ref_java_app_memory, 0)"
proof -
  have E: "env_crypto ref_jni_env = ref_crypto" "panic_payload ref_jni_env = None"
    "env_SenderKeyMessage ref_jni_env = env_SenderKeyMessage ref_env" by (simp_all add: ref_jni_env_def)
  obtain d where d: "live machine_view ref_java_app_memory 9 (Boxed (O_SenderKeyDistributionMessage d))"
    using ref_app_cells ref_java_app_memory_fit(3) by blast
  note name = ref_app_cells(11) [THEN ref_java_app_memory_fit(3)]
  show ?thesis
    using jni_groups_refine [where E = ref_jni_env and r = 0, OF machine_objects machine_arrays machine_exceptions
        machine_sender_key [OF inmem_java_app_ok [of ref_jni_env]] ref_java_app_memory_fit(1) name d ref_java_app_memory_fit(2), unfolded E]
    by blast
qed

end
