(* ===== verification/Node.thy ===== *)
theory Node
  imports Curve
begin

text \<open>
  Model of \<open>rust/bridge/node/src/lib.rs\<close>: the class \<open>PrivateKey\<close> of the interface for Node, with its constructor and
  the method \<open>serialize\<close>. The crate \<open>neon\<close> is a parameter: what \<open>cx.buffer\<close> gives for a length, a buffer with some
  contents or nothing when it throws. Borrowing the object gives the key in it.
\<close>

text \<open>What a method gives back: a JavaScript buffer with these bytes, or a JavaScript exception (\<open>Throw\<close>).\<close>

datatype js_value = JsBuffer bytes | JsThrow

definition JsPrivateKey_init :: "('sc, 'pt, 'r) crypto \<Rightarrow> 'r \<Rightarrow> PrivateKey \<times> 'r" where
  "JsPrivateKey_init C rng =
     (case KeyPair_generate C rng of (keypair, rng') \<Rightarrow> (kp_private_key keypair, rng'))"

text \<open>The length is cast to 32 bits; \<open>copy_from_slice\<close> panics when the buffer has another length than the bytes.\<close>

definition fill_buffer :: "bytes \<Rightarrow> bytes \<Rightarrow> bytes sresult" where
  "fill_buffer buffer src = (if length buffer = length src then Ok src else Panic)"

definition JsPrivateKey_serialize :: "(u32 \<Rightarrow> bytes option) \<Rightarrow> PrivateKey \<Rightarrow> js_value sresult" where
  "JsPrivateKey_serialize cx_buffer this =
     (let bytes = PrivateKey_serialize this in
      case cx_buffer (word_of_nat (length bytes)) of
        None \<Rightarrow> Ok JsThrow
      | Some buffer \<Rightarrow> rbind (fill_buffer buffer bytes) (\<lambda>raw_buffer. Ok (JsBuffer raw_buffer)))"

text \<open>A key that the constructor makes is serialized without a panic, into bytes from which it can be read back.\<close>

definition buffer_ok :: "(u32 \<Rightarrow> bytes option) \<Rightarrow> bool" where
  "buffer_ok cx_buffer \<longleftrightarrow> (\<forall>n b. cx_buffer n = Some b \<longrightarrow> length b = unat n)"

lemma JsPrivateKey_roundtrip:
  assumes "dh_ok C" "buffer_ok cx_buffer" "JsPrivateKey_init C rng = (key, rng')"
  shows "JsPrivateKey_serialize cx_buffer key = Ok JsThrow \<and> cx_buffer 32 = None \<or>
    (\<exists>bs. JsPrivateKey_serialize cx_buffer key = Ok (JsBuffer bs) \<and> PrivateKey_deserialize bs = Ok key)"
proof -
  obtain v where v: "key = PrivateKey (DjbPrivateKey v)" by (cases key rule: PrivateKey_serialize.cases)
  have "length v = 32"
    using KeyPair_generate_wf [OF assms(1), of rng] assms(3) v
    by (auto simp: JsPrivateKey_init_def KeyPair_wf_def PrivateKey_wf_def split: prod.splits)
  then show ?thesis
    using assms(2) v
    by (cases "cx_buffer 32")
       (auto simp: JsPrivateKey_serialize_def fill_buffer_def buffer_ok_def PrivateKey_deserialize_def)
qed

end
